(* ===== verification/Fleet_Prelude.thy ===== *)
theory Fleet_Prelude
  imports Main "HOL-Library.List_Lexorder" "HOL-Library.Char_ord"
begin

text \<open>
  Shared vocabulary of the development.

  \<^item> Go's \<^verbatim>\<open>error\<close> values: a sentinel (\<^verbatim>\<open>errors.New\<close> bound to a package variable), a
    formatted error (\<^verbatim>\<open>fmt.Errorf\<close> without \<^verbatim>\<open>%w\<close>) or a wrapper (\<^verbatim>\<open>fmt.Errorf\<close> with
    \<^verbatim>\<open>%w\<close>); \<open>errors_is\<close> walks the wrappers as \<^verbatim>\<open>errors.Is\<close> does.
  \<^item> Go strings as byte lists (\<^typ>\<open>string\<close>), with the functions of package \<^verbatim>\<open>strings\<close> and
    the number formatting the sources call.
  \<^item> SQL tables as lists of rows in rowid order, with the \<^verbatim>\<open>WHERE\<close>-clause forms of SELECT,
    UPDATE and DELETE; \<^verbatim>\<open>ORDER BY\<close> is the stable \<^const>\<open>sort_key\<close>.
  \<^item> The lemma collections \<open>go_simps\<close> and \<open>table_simps\<close> that the component proofs use.
\<close>

named_theorems go_simps "Go library functions, unfolded"
named_theorems table_simps "laws of the SQL table operations"

section \<open>Errors\<close>

datatype go_error =
    Sentinel string
  | Errorf string
  | Wrap string go_error

type_synonym 'a result = "go_error + 'a"

fun errors_is :: "go_error \<Rightarrow> go_error \<Rightarrow> bool" where
  "errors_is (Wrap m e) t \<longleftrightarrow> Wrap m e = t \<or> errors_is e t"
| "errors_is e t \<longleftrightarrow> e = t"

lemma errors_is_refl [simp]: "errors_is e e"
  by (cases e) auto

text \<open>\<^verbatim>\<open>err.Error()\<close>.\<close>

fun error_text :: "go_error \<Rightarrow> string" where
  "error_text (Sentinel m) = m"
| "error_text (Errorf m) = m"
| "error_text (Wrap m e) = m @ '': '' @ error_text e"

section \<open>Strings\<close>

definition HasPrefix :: "string \<Rightarrow> string \<Rightarrow> bool" where
  "HasPrefix s p \<longleftrightarrow> take (length p) s = p"

definition HasSuffix :: "string \<Rightarrow> string \<Rightarrow> bool" where
  "HasSuffix s p \<longleftrightarrow> length p \<le> length s \<and> drop (length s - length p) s = p"

definition TrimSuffix :: "string \<Rightarrow> string \<Rightarrow> string" where
  "TrimSuffix s p = (if HasSuffix s p then take (length s - length p) s else s)"

fun str_index :: "string \<Rightarrow> string \<Rightarrow> nat option" where
  "str_index [] sub = (if sub = [] then Some 0 else None)"
| "str_index (c # s) sub =
     (if HasPrefix (c # s) sub then Some 0 else map_option Suc (str_index s sub))"

fun str_last_index :: "string \<Rightarrow> string \<Rightarrow> nat option" where
  "str_last_index [] sub = (if sub = [] then Some 0 else None)"
| "str_last_index (c # s) sub =
     (case str_last_index s sub of
        Some i \<Rightarrow> Some (Suc i)
      | None \<Rightarrow> if HasPrefix (c # s) sub then Some 0 else None)"

definition Contains :: "string \<Rightarrow> string \<Rightarrow> bool" where
  "Contains s sub \<longleftrightarrow> str_index s sub \<noteq> None"

text \<open>Case mapping of the ASCII letters.\<close>

definition upper_char :: "char \<Rightarrow> char" where
  "upper_char c = (let n = (of_char c :: nat) in if 97 \<le> n \<and> n \<le> 122 then char_of (n - 32) else c)"

definition lower_char :: "char \<Rightarrow> char" where
  "lower_char c = (let n = (of_char c :: nat) in if 65 \<le> n \<and> n \<le> 90 then char_of (n + 32) else c)"

definition ToUpper :: "string \<Rightarrow> string" where
  "ToUpper s = map upper_char s"

definition ToLower :: "string \<Rightarrow> string" where
  "ToLower s = map lower_char s"

fun strings_join :: "string list \<Rightarrow> string \<Rightarrow> string" where
  "strings_join [] sep = ''''"
| "strings_join [s] sep = s"
| "strings_join (s # t # ts) sep = s @ sep @ strings_join (t # ts) sep"

fun nat_str :: "nat \<Rightarrow> string" where
  "nat_str n =
     (if n < 10 then [char_of (48 + n)] else nat_str (n div 10) @ [char_of (48 + n mod 10)])"

declare nat_str.simps [simp del]

definition int_str :: "int \<Rightarrow> string" where
  "int_str i = (if i < 0 then ''-'' @ nat_str (nat (- i)) else nat_str (nat i))"

subsection \<open>Laws\<close>

lemma HasPrefix_iff: "HasPrefix s p \<longleftrightarrow> (\<exists>t. s = p @ t)"
  unfolding HasPrefix_def by (metis append_eq_conv_conj append_take_drop_id)

lemma HasPrefix_append [simp]: "HasPrefix (p @ t) p"
  by (simp add: HasPrefix_def)

lemma HasSuffix_iff: "HasSuffix s p \<longleftrightarrow> (\<exists>t. s = t @ p)"
proof
  assume "HasSuffix s p"
  then show "\<exists>t. s = t @ p"
    unfolding HasSuffix_def by (metis append_take_drop_id)
qed (auto simp: HasSuffix_def)

lemma HasSuffix_append [simp]: "HasSuffix (t @ p) p"
  by (simp add: HasSuffix_def)

lemma TrimSuffix_append [simp]: "TrimSuffix (t @ p) p = t"
  by (simp add: TrimSuffix_def)

lemma str_index_SomeD:
  "str_index s sub = Some i \<Longrightarrow> i \<le> length s \<and> HasPrefix (drop i s) sub"
  by (induction s sub arbitrary: i rule: str_index.induct)
    (auto simp: HasPrefix_def split: if_splits)

lemma str_index_split:
  assumes "str_index s sub = Some i"
  shows "s = take i s @ sub @ drop (i + length sub) s"
proof -
  from str_index_SomeD [OF assms] obtain t where "drop i s = sub @ t"
    by (auto simp: HasPrefix_iff)
  then have "drop (i + length sub) s = t"
    by (metis add.commute append_eq_conv_conj drop_drop)
  with \<open>drop i s = sub @ t\<close> show ?thesis
    by (metis append_take_drop_id)
qed

lemma str_index_None_iff:
  "str_index s sub = None \<longleftrightarrow> (\<forall>u v. s \<noteq> u @ sub @ v)"
proof (induction s)
  case Nil
  then show ?case by auto
next
  case (Cons c s)
  have "(\<exists>u v. c # s = u @ sub @ v) \<longleftrightarrow>
      HasPrefix (c # s) sub \<or> (\<exists>u v. s = u @ sub @ v)"
    by (auto simp: HasPrefix_iff Cons_eq_append_conv)
  with Cons show ?case by auto
qed

lemma Contains_iff: "Contains s sub \<longleftrightarrow> (\<exists>u v. s = u @ sub @ v)"
  unfolding Contains_def str_index_None_iff by simp

lemma Contains_char_iff: "Contains s [c] \<longleftrightarrow> c \<in> set s"
  by (auto simp: Contains_iff in_set_conv_decomp)

lemma str_last_index_SomeD:
  "str_last_index s sub = Some i \<Longrightarrow> i \<le> length s \<and> HasPrefix (drop i s) sub"
  by (induction s sub arbitrary: i rule: str_last_index.induct)
    (auto simp: HasPrefix_def split: if_splits option.splits)

lemma str_last_index_None_iff:
  "str_last_index s sub = None \<longleftrightarrow> (\<forall>u v. s \<noteq> u @ sub @ v)"
proof (induction s)
  case Nil
  then show ?case by auto
next
  case (Cons c s)
  have "(\<exists>u v. c # s = u @ sub @ v) \<longleftrightarrow>
      HasPrefix (c # s) sub \<or> (\<exists>u v. s = u @ sub @ v)"
    by (auto simp: HasPrefix_iff Cons_eq_append_conv)
  with Cons show ?case by (auto split: option.splits)
qed

lemma str_last_index_char_None: "str_last_index s [c] = None \<longleftrightarrow> c \<notin> set s"
  using Contains_char_iff [of s c]
  unfolding str_last_index_None_iff Contains_iff by blast

lemma str_last_index_char_after:
  "str_last_index s [c] = Some i \<Longrightarrow> s ! i = c \<and> i < length s \<and> c \<notin> set (drop (Suc i) s)"
proof (induction s arbitrary: i)
  case Nil
  then show ?case by simp
next
  case (Cons d s)
  show ?case
  proof (cases "str_last_index s [c]")
    case None
    with Cons.prems have "i = 0" "d = c" by (auto simp: HasPrefix_def split: if_splits)
    with None show ?thesis by (simp add: str_last_index_char_None)
  next
    case (Some j)
    with Cons show ?thesis by auto
  qed
qed

lemma ToUpper_append [simp]: "ToUpper (s @ t) = ToUpper s @ ToUpper t"
  by (simp add: ToUpper_def)

lemma length_ToUpper [simp]: "length (ToUpper s) = length s"
  by (simp add: ToUpper_def)

section \<open>SQL tables\<close>

type_synonym 'row table = "'row list"

definition sel_where :: "('row \<Rightarrow> bool) \<Rightarrow> 'row table \<Rightarrow> 'row list" where
  "sel_where P t = filter P t"

definition upd_where :: "('row \<Rightarrow> bool) \<Rightarrow> ('row \<Rightarrow> 'row) \<Rightarrow> 'row table \<Rightarrow> 'row table" where
  "upd_where P f t = map (\<lambda>r. if P r then f r else r) t"

definition del_where :: "('row \<Rightarrow> bool) \<Rightarrow> 'row table \<Rightarrow> 'row table" where
  "del_where P t = filter (\<lambda>r. \<not> P r) t"

definition RowsAffected :: "('row \<Rightarrow> bool) \<Rightarrow> 'row table \<Rightarrow> nat" where
  "RowsAffected P t = length (filter P t)"

text \<open>The row \<^verbatim>\<open>QueryRow\<close> scans: the first one the condition selects.\<close>

definition query_row :: "('row \<Rightarrow> bool) \<Rightarrow> 'row table \<Rightarrow> 'row option" where
  "query_row P t = find P t"

lemma RowsAffected_0 [simp]: "RowsAffected P t = 0 \<longleftrightarrow> (\<forall>r \<in> set t. \<not> P r)"
  by (auto simp: RowsAffected_def filter_empty_conv)

lemma set_upd_where:
  "set (upd_where P f t) = {r. r \<in> set t \<and> \<not> P r} \<union> f ` {r. r \<in> set t \<and> P r}"
  by (auto simp: upd_where_def)

lemma set_del_where [table_simps]: "set (del_where P t) = {r \<in> set t. \<not> P r}"
  by (auto simp: del_where_def)

lemma length_upd_where [table_simps]: "length (upd_where P f t) = length t"
  by (simp add: upd_where_def)

lemma length_del_where_le: "length (del_where P t) \<le> length t"
  by (simp add: del_where_def)

lemma map_upd_where [table_simps]:
  "(\<And>r. k (f r) = k r) \<Longrightarrow> map k (upd_where P f t) = map k t"
  by (auto simp: upd_where_def)

lemma distinct_del_where: "distinct (map k t) \<Longrightarrow> distinct (map k (del_where P t))"
  by (simp add: del_where_def distinct_map_filter)

lemma query_row_SomeD: "query_row P t = Some r \<Longrightarrow> r \<in> set t \<and> P r"
  by (auto simp: query_row_def find_Some_iff)

lemma query_row_None_iff: "query_row P t = None \<longleftrightarrow> (\<forall>r \<in> set t. \<not> P r)"
  by (auto simp: query_row_def find_None_iff)

lemma query_row_upd_same:
  "(\<And>r. P (f r) = P r) \<Longrightarrow> query_row P (upd_where P f t) = map_option f (query_row P t)"
  by (induction t) (auto simp: query_row_def upd_where_def)

lemma query_row_upd_other:
  "(\<And>r. r \<in> set t \<Longrightarrow> Q r \<Longrightarrow> \<not> P r \<and> \<not> P (f r)) \<Longrightarrow> query_row P (upd_where Q f t) = query_row P t"
  by (induction t) (auto simp: query_row_def upd_where_def)

lemma query_row_del_same: "query_row P (del_where P t) = None"
  by (simp add: query_row_None_iff set_del_where)

lemma query_row_del_other:
  "(\<And>r. P r \<Longrightarrow> \<not> Q r) \<Longrightarrow> query_row P (del_where Q t) = query_row P t"
  by (induction t) (auto simp: query_row_def del_where_def)

lemma query_row_append:
  "query_row P (t @ u) = (case query_row P t of None \<Rightarrow> query_row P u | Some r \<Rightarrow> Some r)"
  by (induction t) (auto simp: query_row_def)

lemma query_row_Nil [simp]: "query_row P [] = None"
  and query_row_Cons [simp]: "query_row P (r # t) = (if P r then Some r else query_row P t)"
  by (simp_all add: query_row_def)

text \<open>With a key that is unique, the row with that key is the one \<^verbatim>\<open>QueryRow\<close> returns.\<close>

lemma query_row_unique:
  assumes "distinct (map k t)" and "r \<in> set t"
  shows "query_row (\<lambda>x. k x = k r) t = Some r"
proof (cases "query_row (\<lambda>x. k x = k r) t")
  case None
  with assms(2) show ?thesis by (auto simp: query_row_None_iff)
next
  case (Some x)
  then have "x \<in> set t" "k x = k r" by (auto dest: query_row_SomeD)
  with assms have "x = r" by (auto simp: distinct_map inj_on_def)
  with Some show ?thesis by simp
qed

lemma length_sort_key_filter: "length (sort_key k (filter P t)) \<le> length t"
  by simp

section \<open>Stores\<close>

text \<open>
  The contract of the \<^verbatim>\<open>UPDATE ... WHERE key = ?\<close> operations, as their callers rely on it: on
  success the row existed and was rewritten by \<open>f\<close>, and nothing else changed; on an error nothing
  changed. \<open>retry\<close> is the bounded retry loop callers put around such an operation.
\<close>

fun retry :: "nat \<Rightarrow> ('s \<Rightarrow> unit result \<times> 's) \<Rightarrow> unit result \<Rightarrow> 's \<Rightarrow> unit result \<times> 's" where
  "retry 0 act err s = (err, s)"
| "retry (Suc n) act err s =
     (case act s of (Inr u, s1) \<Rightarrow> (Inr u, s1) | (Inl e, s1) \<Rightarrow> retry n act (Inl e) s1)"

locale row_update =
  fixes act :: "'k \<Rightarrow> 'db \<Rightarrow> unit result \<times> 'db"
    and view :: "'db \<Rightarrow> 'k \<Rightarrow> 'v option"
    and f :: "'v \<Rightarrow> 'v"
  assumes act_ok: "act k db = (Inr u, db') \<Longrightarrow>
      view db k \<noteq> None \<and> view db' = (view db)(k := map_option f (view db k))"
    and act_err: "act k db = (Inl e, db') \<Longrightarrow> view db' = view db"
begin

lemma act_missing: "view db k = None \<Longrightarrow> act k db = (r, db') \<Longrightarrow> \<exists>e. r = Inl e"
  by (cases r) (auto dest: act_ok)

lemma act_other: "act k db = (r, db') \<Longrightarrow> j \<noteq> k \<Longrightarrow> view db' j = view db j"
  by (cases r) (auto dest: act_ok act_err)

text \<open>However many attempts fail first, a retried update is applied exactly once.\<close>

lemma retry_ok:
  "retry n (act k) (Inl e0) db = (Inr u, db') \<Longrightarrow>
     view db k \<noteq> None \<and> view db' = (view db)(k := map_option f (view db k))"
proof (induction n arbitrary: db e0)
  case 0
  then show ?case by simp
next
  case (Suc n)
  show ?case
  proof (cases "act k db")
    case (Pair r db1)
    show ?thesis
    proof (cases r)
      case (Inl e)
      with Pair have "view db1 = view db" by (simp add: act_err)
      moreover have "retry n (act k) (Inl e) db1 = (Inr u, db')"
        using Suc.prems Pair Inl by simp
      ultimately show ?thesis using Suc.IH by metis
    next
      case (Inr v)
      with Pair Suc.prems have "act k db = (Inr u, db')" by simp
      then show ?thesis by (rule act_ok)
    qed
  qed
qed

lemma retry_err: "retry n (act k) (Inl e0) db = (Inl e, db') \<Longrightarrow> view db' = view db"
proof (induction n arbitrary: db e0)
  case 0
  then show ?case by simp
next
  case (Suc n)
  show ?case
  proof (cases "act k db")
    case (Pair r db1)
    with Suc show ?thesis
      by (cases r) (auto dest: act_err)
  qed
qed

end

end
