(* ===== verification/Go_Encoding.thy ===== *)
theory Go_Encoding
  imports Fleet_Prelude
begin

text \<open>
  The byte encodings of Go's standard library that the sources call: \<^verbatim>\<open>hex.EncodeToString\<close>,
  \<^verbatim>\<open>base64.RawURLEncoding\<close> (encoder, and the non-strict decoder that skips CR and LF and
  ignores trailing bits) and \<^verbatim>\<open>binary.BigEndian\<close> on 64-bit words. A byte string is a
  \<^typ>\<open>string\<close>. The laws are injectivity of the hexadecimal encoding and the two round trips.
\<close>

section \<open>Hexadecimal\<close>

definition hex_digit :: "nat \<Rightarrow> char" where
  "hex_digit n = (if n < 10 then char_of (48 + n) else char_of (87 + n))"

fun hex_encode :: "string \<Rightarrow> string" where
  "hex_encode [] = []"
| "hex_encode (c # cs) =
     hex_digit (of_char c div 16) # hex_digit (of_char c mod 16) # hex_encode cs"

lemma of_char_less [simp]: "(of_char c :: nat) < 256"
  using of_char_mod_256 [of c] by (metis mod_less_divisor zero_less_numeral)

lemma hex_digit_inj: "m < 16 \<Longrightarrow> n < 16 \<Longrightarrow> hex_digit m = hex_digit n \<longleftrightarrow> m = n"
  by (auto simp: hex_digit_def char_of_eq_iff take_bit_eq_mod split: if_splits)

lemma hex_encode_inj [simp]: "hex_encode s = hex_encode t \<longleftrightarrow> s = t"
proof
  assume "hex_encode s = hex_encode t"
  then show "s = t"
  proof (induction s arbitrary: t)
    case Nil
    then show ?case by (cases t) auto
  next
    case (Cons c s)
    then obtain d t' where t: "t = d # t'" by (cases t) auto
    have lt: "(of_char x :: nat) div 16 < 16" for x
      using of_char_less [of x] by linarith
    from Cons.prems t have "(of_char c :: nat) div 16 = of_char d div 16"
      and "(of_char c :: nat) mod 16 = of_char d mod 16"
      by (auto simp: hex_digit_inj lt)
    then have "(of_char c :: nat) = of_char d"
      by (metis div_mult_mod_eq)
    with Cons t show ?case by auto
  qed
qed simp

lemma length_hex_encode [simp]: "length (hex_encode s) = 2 * length s"
  by (induction s) auto

section \<open>Base64, URL alphabet, no padding\<close>

fun sextets :: "nat list \<Rightarrow> nat list" where
  "sextets [] = []"
| "sextets [a] = [a div 4, (a mod 4) * 16]"
| "sextets [a, b] = [a div 4, (a mod 4) * 16 + b div 16, (b mod 16) * 4]"
| "sextets (a # b # c # r) =
     a div 4 # ((a mod 4) * 16 + b div 16) # ((b mod 16) * 4 + c div 64) # (c mod 64) # sextets r"

fun unsextets :: "nat list \<Rightarrow> nat list option" where
  "unsextets [] = Some []"
| "unsextets [x] = None"
| "unsextets [x, y] = Some [x * 4 + y div 16]"
| "unsextets [x, y, z] = Some [x * 4 + y div 16, (y mod 16) * 16 + z div 4]"
| "unsextets (x # y # z # w # r) =
     map_option (\<lambda>t. (x * 4 + y div 16) # ((y mod 16) * 16 + z div 4) # ((z mod 4) * 64 + w) # t)
       (unsextets r)"

definition b64_char :: "nat \<Rightarrow> char" where
  "b64_char n =
     (if n < 26 then char_of (65 + n) else if n < 52 then char_of (71 + n)
      else if n < 62 then char_of (n - 4) else if n = 62 then CHR ''-'' else CHR ''_'')"

definition b64_val :: "char \<Rightarrow> nat option" where
  "b64_val c =
     (let n = of_char c in
      if 65 \<le> n \<and> n \<le> 90 then Some (n - 65) else if 97 \<le> n \<and> n \<le> 122 then Some (n - 71)
      else if 48 \<le> n \<and> n \<le> 57 then Some (n + 4) else if c = CHR ''-'' then Some 62
      else if c = CHR ''_'' then Some 63 else None)"

definition b64_encode :: "string \<Rightarrow> string" where
  "b64_encode bs = map b64_char (sextets (map of_char bs))"

fun b64_vals :: "string \<Rightarrow> nat list option" where
  "b64_vals [] = Some []"
| "b64_vals (c # cs) =
     (if c = CHR 0x0D \<or> c = CHR 0x0A then b64_vals cs
      else case b64_val c of None \<Rightarrow> None
           | Some v \<Rightarrow> map_option (Cons v) (b64_vals cs))"

definition b64_decode :: "string \<Rightarrow> string option" where
  "b64_decode s =
     (case b64_vals s of None \<Rightarrow> None
      | Some vs \<Rightarrow> map_option (map char_of) (unsextets vs))"

lemma sextets_less: "\<forall>b \<in> set bs. b < 256 \<Longrightarrow> v \<in> set (sextets bs) \<Longrightarrow> v < 64"
proof (induction bs rule: sextets.induct)
  case (2 a)
  then show ?case by auto
next
  case (3 a b)
  then have "b div 16 < 16" by auto
  with 3 show ?case by auto
next
  case (4 a b c r)
  then have "b div 16 < 16" and "c div 64 < 4" by auto
  with 4 show ?case by auto
qed auto

lemma unsextets_sextets: "\<forall>b \<in> set bs. b < 256 \<Longrightarrow> unsextets (sextets bs) = Some bs"
proof (induction bs rule: sextets.induct)
  case (4 a b c r)
  have "b div 16 < 16" "c div 64 < 4" using 4 by auto
  then have "a div 4 * 4 + ((a mod 4) * 16 + b div 16) div 16 = a"
    and "(((a mod 4) * 16 + b div 16) mod 16) * 16 + ((b mod 16) * 4 + c div 64) div 4 = b"
    and "(((b mod 16) * 4 + c div 64) mod 4) * 64 + c mod 64 = c"
    by simp_all
  with 4 show ?case by simp
next
  case (3 a b)
  then have "b div 16 < 16" by auto
  then show ?case by simp
qed auto

lemma b64_val_char: "n < 64 \<Longrightarrow> b64_val (b64_char n) = Some n"
  by (auto simp: b64_val_def b64_char_def Let_def)

lemma b64_char_not_newline: "n < 64 \<Longrightarrow> b64_char n \<noteq> CHR 0x0D \<and> b64_char n \<noteq> CHR 0x0A"
proof (rule conjI; rule notI)
  assume n: "n < 64"
  show False if "b64_char n = CHR 0x0D"
    using b64_val_char [OF n] that by (simp add: b64_val_def)
  show False if "b64_char n = CHR 0x0A"
    using b64_val_char [OF n] that by (simp add: b64_val_def)
qed

lemma b64_vals_map: "\<forall>v \<in> set vs. v < 64 \<Longrightarrow> b64_vals (map b64_char vs) = Some vs"
  by (induction vs) (auto simp: b64_val_char b64_char_not_newline)

text \<open>Decoding an encoded byte string gives it back.\<close>

lemma b64_decode_encode [simp]: "b64_decode (b64_encode bs) = Some bs"
proof -
  have lt: "\<forall>b \<in> set (map of_char bs). b < (256 :: nat)" by auto
  then have "b64_vals (b64_encode bs) = Some (sextets (map of_char bs))"
    unfolding b64_encode_def using sextets_less [OF lt] by (intro b64_vals_map) blast
  moreover have "map char_of (map of_char bs :: nat list) = bs"
    by (simp add: map_idI)
  ultimately show ?thesis
    by (simp add: b64_decode_def unsextets_sextets [OF lt] del: map_map)
qed

lemma b64_encode_inj: "b64_encode s = b64_encode t \<longleftrightarrow> s = t"
  by (metis b64_decode_encode option.inject)

lemma b64_encode_eq_Nil [simp]: "b64_encode s = [] \<longleftrightarrow> s = []"
proof -
  have "b64_encode [] = []" by (simp add: b64_encode_def)
  then show ?thesis by (metis b64_encode_inj)
qed

section \<open>Big-endian 64-bit words\<close>

fun be_bytes :: "nat \<Rightarrow> nat \<Rightarrow> string" where
  "be_bytes 0 n = []"
| "be_bytes (Suc k) n = be_bytes k (n div 256) @ [char_of (n mod 256)]"

definition PutUint64 :: "nat \<Rightarrow> string" where
  "PutUint64 n = be_bytes 8 n"

definition Uint64 :: "string \<Rightarrow> nat" where
  "Uint64 bs = foldl (\<lambda>a c. a * 256 + of_char c) 0 (take 8 bs)"

lemma length_be_bytes [simp]: "length (be_bytes k n) = k"
  by (induction k arbitrary: n) auto

lemma foldl_be_bytes:
  "foldl (\<lambda>a c. a * 256 + of_char c) 0 (be_bytes k n) = n mod 256 ^ k"
proof (induction k arbitrary: n)
  case 0
  then show ?case by simp
next
  case (Suc k)
  have "n div 256 mod 256 ^ k * 256 + n mod 256 = n mod (256 * 256 ^ k)"
    by (metis mod_mult2_eq add.commute mult.commute)
  with Suc show ?case by simp
qed

lemma Uint64_PutUint64: "n < 2 ^ 64 \<Longrightarrow> Uint64 (PutUint64 n @ r) = n"
  by (simp add: Uint64_def PutUint64_def foldl_be_bytes)

lemma length_PutUint64 [simp]: "length (PutUint64 n) = 8"
  by (simp add: PutUint64_def)

end
