(* ===== verification/Registry.thy ===== *)
theory Registry
  imports Go_Encoding
begin

text \<open>
  \<^verbatim>\<open>internal/registry/registry.go\<close>: the SQLite file that holds instances, signing keys and (for
  cloud mode) users and sessions. The database is a record of tables; \<open>db_faults\<close> lists what the
  driver reports on the next calls (\<open>None\<close> or the end of the list: no failure), so every
  operation is proved for every pattern of driver failures. A failing statement leaves the
  tables as they were; a failing transaction is rolled back. SHA-256 is the argument \<open>sha\<close>, the
  bytes of \<^verbatim>\<open>crypto/rand\<close> and the formatted current time are arguments too.

  The schema of the migrations is the constraints of the statements here: unique \<^verbatim>\<open>id\<close> and
  \<^verbatim>\<open>port\<close> of instances, \<^verbatim>\<open>ON DELETE SET NULL\<close> from users to instances, the NOCASE primary key
  of users and \<^verbatim>\<open>ON DELETE CASCADE\<close> from sessions to users.
\<close>

section \<open>Rows and the database\<close>

record fox_instance =
  inst_ID :: string
  inst_ImageDigest :: string
  inst_Port :: int
  inst_DataDir :: string
  inst_Status :: string
  inst_CreatedAt :: string
  inst_SkillsetName :: string
  inst_PrincipalRole :: string
  inst_QueryToken :: string
  inst_PlaneAuthToken :: string
  inst_InstancePassword :: string

record instance_row = fox_instance +
  row_query_token_hash :: string

record signing_key =
  sk_id :: nat
  sk_key :: string
  sk_active :: bool
  sk_created_at :: string

record user_row =
  usr_username :: string
  usr_password_hash :: string
  usr_instance_id :: "string option"
  usr_created_at :: string
  usr_updated_at :: string

record session_row =
  ses_token_hash :: string
  ses_user_id :: string
  ses_created_at :: int
  ses_expires_at :: int

record registry_db =
  db_instances :: "instance_row table"
  db_signing_keys :: "signing_key table"
  db_next_key_id :: nat
  db_cloud_users :: "user_row table"
  db_cloud_sessions :: "session_row table"
  db_faults :: "go_error option list"

definition ErrNotFound :: go_error where
  "ErrNotFound = Sentinel ''instance not found''"

text \<open>The driver's answer to the next call, and the database after that call was made.\<close>

definition db_fault :: "registry_db \<Rightarrow> go_error option" where
  "db_fault db = (case db_faults db of [] \<Rightarrow> None | f # _ \<Rightarrow> f)"

definition db_tick :: "registry_db \<Rightarrow> registry_db" where
  "db_tick db = db\<lparr>db_faults := tl (db_faults db)\<rparr>"

definition db_exec ::
  "(registry_db \<Rightarrow> go_error + nat \<times> registry_db) \<Rightarrow> registry_db \<Rightarrow> nat result \<times> registry_db" where
  "db_exec stmt db =
     (case db_fault db of
        Some e \<Rightarrow> (Inl e, db_tick db)
      | None \<Rightarrow> (case stmt (db_tick db) of
                  Inl e \<Rightarrow> (Inl e, db_tick db)
                | Inr (n, db1) \<Rightarrow> (Inr n, db1)))"

definition db_query :: "(registry_db \<Rightarrow> 'a) \<Rightarrow> registry_db \<Rightarrow> 'a result \<times> registry_db" where
  "db_query q db =
     (case db_fault db of
        Some e \<Rightarrow> (Inl e, db_tick db)
      | None \<Rightarrow> (Inr (q (db_tick db)), db_tick db))"

text \<open>\<^verbatim>\<open>tx.Rollback\<close>: the tables of the start of the transaction, the driver where it is now.\<close>

definition tx_rollback :: "registry_db \<Rightarrow> registry_db \<Rightarrow> registry_db" where
  "tx_rollback db0 db = db0\<lparr>db_faults := db_faults db\<rparr>"

section \<open>Instances\<close>

definition tokenHash :: "(string \<Rightarrow> string) \<Rightarrow> string \<Rightarrow> string" where
  "tokenHash sha token = hex_encode (sha token)"

definition GenerateQueryToken :: "string result \<Rightarrow> string result" where
  "GenerateQueryToken rnd =
     (case rnd of Inl e \<Rightarrow> Inl (Wrap ''registry: generate query token'' e)
      | Inr b \<Rightarrow> Inr (b64_encode b))"

definition instance_row_of :: "fox_instance \<Rightarrow> string \<Rightarrow> instance_row" where
  "instance_row_of inst hash =
     fox_instance.extend inst (instance_row.fields hash)"

text \<open>The \<^verbatim>\<open>DO UPDATE SET\<close> list: every column but \<^verbatim>\<open>id\<close> and \<^verbatim>\<open>created_at\<close>.\<close>

definition excluded_into :: "instance_row \<Rightarrow> instance_row \<Rightarrow> instance_row" where
  "excluded_into new old = new\<lparr>inst_ID := inst_ID old, inst_CreatedAt := inst_CreatedAt old\<rparr>"

definition stmt_upsert_instance :: "instance_row \<Rightarrow> registry_db \<Rightarrow> go_error + nat \<times> registry_db" where
  "stmt_upsert_instance r db =
     (if \<exists>x \<in> set (db_instances db). inst_Port x = inst_Port r \<and> inst_ID x \<noteq> inst_ID r
      then Inl (Errorf ''UNIQUE constraint failed: instances.port'')
      else if \<exists>x \<in> set (db_instances db). inst_ID x = inst_ID r
      then Inr (1, db\<lparr>db_instances :=
             upd_where (\<lambda>x. inst_ID x = inst_ID r) (excluded_into r) (db_instances db)\<rparr>)
      else Inr (1, db\<lparr>db_instances := db_instances db @ [r]\<rparr>))"

definition create_row :: "(string \<Rightarrow> string) \<Rightarrow> string \<Rightarrow> fox_instance \<Rightarrow> instance_row" where
  "create_row sha now inst =
     (let inst1 = (if inst_CreatedAt inst = '''' then inst\<lparr>inst_CreatedAt := now\<rparr> else inst);
          hash = (if inst_QueryToken inst1 \<noteq> '''' then tokenHash sha (inst_QueryToken inst1) else '''')
      in instance_row_of inst1 hash)"

definition Registry_Create ::
  "(string \<Rightarrow> string) \<Rightarrow> string \<Rightarrow> fox_instance \<Rightarrow> registry_db \<Rightarrow> unit result \<times> registry_db" where
  "Registry_Create sha now inst db =
     (case db_exec (stmt_upsert_instance (create_row sha now inst)) db of
        (Inl e, db1) \<Rightarrow> (Inl (Wrap (''registry: create '' @ inst_ID inst) e), db1)
      | (Inr _, db1) \<Rightarrow> (Inr (), db1))"

definition instance_of_row :: "instance_row \<Rightarrow> fox_instance" where
  "instance_of_row r = fox_instance.truncate r"

definition Registry_Get :: "string \<Rightarrow> registry_db \<Rightarrow> fox_instance result \<times> registry_db" where
  "Registry_Get iid db =
     (case db_query (\<lambda>d. query_row (\<lambda>r. inst_ID r = iid) (db_instances d)) db of
        (Inl e, db1) \<Rightarrow> (Inl (Wrap (''registry: get '' @ iid) e), db1)
      | (Inr None, db1) \<Rightarrow> (Inl ErrNotFound, db1)
      | (Inr (Some r), db1) \<Rightarrow> (Inr (instance_of_row r), db1))"

definition Registry_List :: "registry_db \<Rightarrow> fox_instance list result \<times> registry_db" where
  "Registry_List db =
     (case db_query (\<lambda>d. sort_key inst_CreatedAt (map instance_of_row (db_instances d))) db of
        (Inl e, db1) \<Rightarrow> (Inl (Wrap ''registry: list'' e), db1)
      | (Inr xs, db1) \<Rightarrow> (Inr xs, db1))"

text \<open>An UPDATE or DELETE of the row with one id, and what the callers make of
  \<^verbatim>\<open>RowsAffected\<close>.\<close>

definition stmt_update_instance ::
  "string \<Rightarrow> (instance_row \<Rightarrow> instance_row) \<Rightarrow> registry_db \<Rightarrow> go_error + nat \<times> registry_db" where
  "stmt_update_instance iid f db =
     Inr (RowsAffected (\<lambda>r. inst_ID r = iid) (db_instances db),
          db\<lparr>db_instances := upd_where (\<lambda>r. inst_ID r = iid) f (db_instances db)\<rparr>)"

definition affected_or_not_found ::
  "string \<Rightarrow> nat result \<times> registry_db \<Rightarrow> unit result \<times> registry_db" where
  "affected_or_not_found msg res =
     (case res of
        (Inl e, db1) \<Rightarrow> (Inl (Wrap msg e), db1)
      | (Inr n, db1) \<Rightarrow> (if n = 0 then Inl ErrNotFound else Inr (), db1))"

definition Registry_UpdateStatus :: "string \<Rightarrow> string \<Rightarrow> registry_db \<Rightarrow> unit result \<times> registry_db" where
  "Registry_UpdateStatus iid status db =
     affected_or_not_found (''registry: update status '' @ iid)
       (db_exec (stmt_update_instance iid (\<lambda>r. r\<lparr>inst_Status := status\<rparr>)) db)"

definition Registry_UpdateImageDigest ::
  "string \<Rightarrow> string \<Rightarrow> registry_db \<Rightarrow> unit result \<times> registry_db" where
  "Registry_UpdateImageDigest iid digest db =
     affected_or_not_found (''registry: update image '' @ iid)
       (db_exec (stmt_update_instance iid (\<lambda>r. r\<lparr>inst_ImageDigest := digest\<rparr>)) db)"

definition Registry_UpdateQueryToken ::
  "(string \<Rightarrow> string) \<Rightarrow> string \<Rightarrow> string \<Rightarrow> registry_db \<Rightarrow> unit result \<times> registry_db" where
  "Registry_UpdateQueryToken sha iid token db =
     affected_or_not_found (''registry: update query token '' @ iid)
       (db_exec (stmt_update_instance iid
          (\<lambda>r. r\<lparr>inst_QueryToken := token, row_query_token_hash := tokenHash sha token\<rparr>)) db)"

text \<open>Deleting an instance sets the \<^verbatim>\<open>instance_id\<close> of the user bound to it to NULL.\<close>

definition stmt_delete_instance :: "string \<Rightarrow> registry_db \<Rightarrow> go_error + nat \<times> registry_db" where
  "stmt_delete_instance iid db =
     Inr (RowsAffected (\<lambda>r. inst_ID r = iid) (db_instances db),
          db\<lparr>db_instances := del_where (\<lambda>r. inst_ID r = iid) (db_instances db),
             db_cloud_users :=
               (if \<exists>r \<in> set (db_instances db). inst_ID r = iid
                then upd_where (\<lambda>u. usr_instance_id u = Some iid)
                       (\<lambda>u. u\<lparr>usr_instance_id := None\<rparr>) (db_cloud_users db)
                else db_cloud_users db)\<rparr>)"

definition Registry_Delete :: "string \<Rightarrow> registry_db \<Rightarrow> unit result \<times> registry_db" where
  "Registry_Delete iid db =
     affected_or_not_found (''registry: delete '' @ iid) (db_exec (stmt_delete_instance iid) db)"

definition Registry_UsedPorts :: "registry_db \<Rightarrow> (int \<Rightarrow> bool) result \<times> registry_db" where
  "Registry_UsedPorts db =
     (case db_query (\<lambda>d. map inst_Port (db_instances d)) db of
        (Inl e, db1) \<Rightarrow> (Inl (Wrap ''registry: used ports'' e), db1)
      | (Inr ps, db1) \<Rightarrow> (Inr (\<lambda>p. p \<in> set ps), db1))"

definition Registry_ValidQueryToken ::
  "(string \<Rightarrow> string) \<Rightarrow> string \<Rightarrow> registry_db \<Rightarrow> bool \<times> registry_db" where
  "Registry_ValidQueryToken sha token db =
     (if token = '''' then (False, db)
      else case db_query (\<lambda>d. query_row (\<lambda>r. row_query_token_hash r = tokenHash sha token)
                                (db_instances d)) db of
             (Inl e, db1) \<Rightarrow> (False, db1)
           | (Inr None, db1) \<Rightarrow> (False, db1)
           | (Inr (Some r), db1) \<Rightarrow> (token = inst_QueryToken r, db1))"

definition Registry_GetQueryToken :: "string \<Rightarrow> registry_db \<Rightarrow> string result \<times> registry_db" where
  "Registry_GetQueryToken iid db =
     (case db_query (\<lambda>d. query_row (\<lambda>r. inst_ID r = iid) (db_instances d)) db of
        (Inl e, db1) \<Rightarrow> (Inl (Wrap (''registry: get query token '' @ iid) e), db1)
      | (Inr None, db1) \<Rightarrow> (Inl ErrNotFound, db1)
      | (Inr (Some r), db1) \<Rightarrow> (Inr (inst_QueryToken r), db1))"

text \<open>The loop of \<^verbatim>\<open>backfillQueryTokens\<close>: \<open>rnd i\<close> is what \<^verbatim>\<open>rand.Read\<close> gives for the
  \<open>i\<close>-th id.\<close>

fun backfill_loop ::
  "(string \<Rightarrow> string) \<Rightarrow> (nat \<Rightarrow> string result) \<Rightarrow> nat \<Rightarrow> string list \<Rightarrow> registry_db
     \<Rightarrow> unit result \<times> registry_db" where
  "backfill_loop sha rnd i [] db = (Inr (), db)"
| "backfill_loop sha rnd i (iid # iids) db =
     (case GenerateQueryToken (rnd i) of
        Inl e \<Rightarrow> (Inl e, db)
      | Inr token \<Rightarrow>
          (case db_exec (stmt_update_instance iid
                  (\<lambda>r. r\<lparr>inst_QueryToken := token, row_query_token_hash := tokenHash sha token\<rparr>)) db of
             (Inl e, db1) \<Rightarrow> (Inl e, db1)
           | (Inr _, db1) \<Rightarrow> backfill_loop sha rnd (Suc i) iids db1))"

definition backfillQueryTokens ::
  "(string \<Rightarrow> string) \<Rightarrow> (nat \<Rightarrow> string result) \<Rightarrow> registry_db \<Rightarrow> unit result \<times> registry_db" where
  "backfillQueryTokens sha rnd db =
     (case db_query (\<lambda>d. map inst_ID (sel_where (\<lambda>r. inst_QueryToken r = '''') (db_instances d))) db of
        (Inl e, db1) \<Rightarrow> (Inl e, db1)
      | (Inr iids, db1) \<Rightarrow> backfill_loop sha rnd 0 iids db1)"

section \<open>Signing keys\<close>

text \<open>\<^verbatim>\<open>SELECT key FROM signing_keys WHERE active = 1 ORDER BY id DESC LIMIT 1\<close>.\<close>

definition sel_active_key :: "registry_db \<Rightarrow> string option" where
  "sel_active_key db =
     (case rev (sort_key sk_id (sel_where sk_active (db_signing_keys db))) of
        [] \<Rightarrow> None | k # _ \<Rightarrow> Some (sk_key k))"

definition stmt_insert_key :: "string \<Rightarrow> string \<Rightarrow> registry_db \<Rightarrow> go_error + nat \<times> registry_db" where
  "stmt_insert_key key now db =
     Inr (1, db\<lparr>db_signing_keys := db_signing_keys db @
                 [\<lparr>sk_id = db_next_key_id db, sk_key = key, sk_active = True, sk_created_at = now\<rparr>],
               db_next_key_id := Suc (db_next_key_id db)\<rparr>)"

definition stmt_deactivate_keys :: "registry_db \<Rightarrow> go_error + nat \<times> registry_db" where
  "stmt_deactivate_keys db =
     Inr (length (db_signing_keys db),
          db\<lparr>db_signing_keys := upd_where (\<lambda>_. True) (\<lambda>k. k\<lparr>sk_active := False\<rparr>) (db_signing_keys db)\<rparr>)"

text \<open>\<^verbatim>\<open>db.Begin\<close> and \<^verbatim>\<open>tx.Commit\<close>: driver calls that change no row.\<close>

definition stmt_none :: "registry_db \<Rightarrow> go_error + nat \<times> registry_db" where
  "stmt_none db = Inr (0, db)"

definition Registry_ActiveSigningKey :: "registry_db \<Rightarrow> string result \<times> registry_db" where
  "Registry_ActiveSigningKey db =
     (case db_query sel_active_key db of
        (Inl e, db1) \<Rightarrow> (Inl (Wrap ''registry: active signing key'' e), db1)
      | (Inr None, db1) \<Rightarrow> (Inl (Errorf ''registry: no active signing key''), db1)
      | (Inr (Some k), db1) \<Rightarrow> (Inr k, db1))"

text \<open>The common end of both key operations: draw a key, insert it, commit.\<close>

definition insert_and_commit ::
  "string \<Rightarrow> string result \<Rightarrow> string \<Rightarrow> registry_db \<Rightarrow> registry_db \<Rightarrow> string result \<times> registry_db" where
  "insert_and_commit what rnd now db0 db =
     (case rnd of
        Inl e \<Rightarrow> (Inl (Wrap ''registry: generate signing key'' e), tx_rollback db0 db)
      | Inr newKey \<Rightarrow>
          (case db_exec (stmt_insert_key newKey now) db of
             (Inl e, db1) \<Rightarrow> (Inl (Wrap (''registry: insert '' @ what) e), tx_rollback db0 db1)
           | (Inr _, db1) \<Rightarrow>
               (case db_exec stmt_none db1 of
                  (Inl e, db2) \<Rightarrow> (Inl (Wrap (''registry: commit '' @ what) e), tx_rollback db0 db2)
                | (Inr _, db2) \<Rightarrow> (Inr newKey, db2))))"

definition Registry_EnsureSigningKey ::
  "string result \<Rightarrow> string \<Rightarrow> registry_db \<Rightarrow> string result \<times> registry_db" where
  "Registry_EnsureSigningKey rnd now db0 =
     (case db_exec stmt_none db0 of
        (Inl e, db) \<Rightarrow> (Inl (Wrap ''registry: begin tx'' e), db)
      | (Inr _, db) \<Rightarrow>
          (case db_query sel_active_key db of
             (Inl e, db1) \<Rightarrow> (Inl (Wrap ''registry: active signing key'' e), tx_rollback db0 db1)
           | (Inr (Some k), db1) \<Rightarrow> (Inr k, tx_rollback db0 db1)
           | (Inr None, db1) \<Rightarrow> insert_and_commit ''signing key'' rnd now db0 db1))"

definition Registry_RotateSigningKey ::
  "string result \<Rightarrow> string \<Rightarrow> registry_db \<Rightarrow> string result \<times> registry_db" where
  "Registry_RotateSigningKey rnd now db0 =
     (case db_exec stmt_none db0 of
        (Inl e, db) \<Rightarrow> (Inl (Wrap ''registry: begin tx'' e), db)
      | (Inr _, db) \<Rightarrow>
          (case db_exec stmt_deactivate_keys db of
             (Inl e, db1) \<Rightarrow> (Inl (Wrap ''registry: deactivate signing keys'' e), tx_rollback db0 db1)
           | (Inr _, db1) \<Rightarrow> insert_and_commit ''rotated signing key'' rnd now db0 db1))"

section \<open>The driver\<close>

lemmas driver_defs = db_exec_def db_query_def affected_or_not_found_def

lemma db_tick_simps [simp]:
  "db_instances (db_tick db) = db_instances db"
  "db_signing_keys (db_tick db) = db_signing_keys db"
  "db_next_key_id (db_tick db) = db_next_key_id db"
  "db_cloud_users (db_tick db) = db_cloud_users db"
  "db_cloud_sessions (db_tick db) = db_cloud_sessions db"
  "db_faults (db_tick db) = tl (db_faults db)"
  by (simp_all add: db_tick_def)

lemma tx_rollback_simps [simp]:
  "db_instances (tx_rollback db0 db) = db_instances db0"
  "db_signing_keys (tx_rollback db0 db) = db_signing_keys db0"
  "db_next_key_id (tx_rollback db0 db) = db_next_key_id db0"
  "db_cloud_users (tx_rollback db0 db) = db_cloud_users db0"
  "db_cloud_sessions (tx_rollback db0 db) = db_cloud_sessions db0"
  by (simp_all add: tx_rollback_def)

text \<open>What every operation promises when it reports an error: no table has changed.\<close>

definition same_tables :: "registry_db \<Rightarrow> registry_db \<Rightarrow> bool" where
  "same_tables db db' \<longleftrightarrow>
     db_instances db' = db_instances db \<and> db_signing_keys db' = db_signing_keys db \<and>
     db_next_key_id db' = db_next_key_id db \<and> db_cloud_users db' = db_cloud_users db \<and>
     db_cloud_sessions db' = db_cloud_sessions db"

lemma same_tables_refl [simp]: "same_tables db db"
  and same_tables_tick [simp]: "same_tables db (db_tick db)"
  and same_tables_rollback [simp]: "same_tables db (tx_rollback db db')"
  by (simp_all add: same_tables_def)

lemma same_tables_trans: "same_tables a b \<Longrightarrow> same_tables b c \<Longrightarrow> same_tables a c"
  by (simp add: same_tables_def)

lemma db_exec_Inl: "db_exec stmt db = (Inl e, db') \<Longrightarrow> same_tables db db'"
  by (auto simp: db_exec_def split: option.splits sum.splits)

lemma db_exec_Inr:
  "db_exec stmt db = (Inr n, db') \<longleftrightarrow> db_fault db = None \<and> stmt (db_tick db) = Inr (n, db')"
  by (auto simp: db_exec_def split: option.splits sum.splits)

lemma db_query_same: "db_query q db = (r, db') \<Longrightarrow> same_tables db db'"
  by (auto simp: db_query_def split: option.splits)

text \<open>
  The contract between the driver layer and the invariants over the tables: a predicate that
  depends on the tables only is kept by queries, by failing statements and by rolled back
  transactions, so an operation has to show its own statement only.
\<close>

locale table_invariant =
  fixes I :: "registry_db \<Rightarrow> bool"
  assumes tables_only: "same_tables db db' \<Longrightarrow> I db' = I db"
begin

lemma inv_tick [simp]: "I (db_tick db) = I db"
  by (rule tables_only) simp

lemma inv_rollback [simp]: "I (tx_rollback db db') = I db"
  by (rule tables_only) simp

lemma inv_query: "I db \<Longrightarrow> db_query q db = (r, db') \<Longrightarrow> I db'"
  using db_query_same tables_only by blast

lemma inv_exec:
  assumes "I db" and "\<And>n db'. stmt (db_tick db) = Inr (n, db') \<Longrightarrow> I db'"
    and "db_exec stmt db = (r, db1)"
  shows "I db1"
  using assms by (auto simp: db_exec_def split: option.splits sum.splits)

lemma inv_affected:
  assumes "I db" and "\<And>n db'. stmt (db_tick db) = Inr (n, db') \<Longrightarrow> I db'"
  shows "I (snd (affected_or_not_found msg (db_exec stmt db)))"
  using inv_exec [OF assms] by (auto simp: affected_or_not_found_def split: prod.splits sum.splits)

end

section \<open>Instances: view, invariant, functional behaviour\<close>

definition inst_view :: "registry_db \<Rightarrow> string \<Rightarrow> fox_instance option" where
  "inst_view db iid = map_option instance_of_row (query_row (\<lambda>r. inst_ID r = iid) (db_instances db))"

definition hash_ok :: "(string \<Rightarrow> string) \<Rightarrow> instance_row \<Rightarrow> bool" where
  "hash_ok sha r \<longleftrightarrow>
     row_query_token_hash r = tokenHash sha (inst_QueryToken r) \<or>
     inst_QueryToken r = '''' \<and> row_query_token_hash r = ''''"

definition instances_inv :: "(string \<Rightarrow> string) \<Rightarrow> registry_db \<Rightarrow> bool" where
  "instances_inv sha db \<longleftrightarrow>
     distinct (map inst_ID (db_instances db)) \<and> distinct (map inst_Port (db_instances db)) \<and>
     (\<forall>r \<in> set (db_instances db). hash_ok sha r)"

lemma same_tables_view: "same_tables db db' \<Longrightarrow> inst_view db' = inst_view db"
  by (simp add: inst_view_def same_tables_def fun_eq_iff)

lemma same_tables_inv: "same_tables db db' \<Longrightarrow> instances_inv sha db' = instances_inv sha db"
  by (simp add: instances_inv_def same_tables_def)

lemma instance_of_row_simps [simp]:
  "inst_ID (instance_of_row r) = inst_ID r"
  "inst_ImageDigest (instance_of_row r) = inst_ImageDigest r"
  "inst_Port (instance_of_row r) = inst_Port r"
  "inst_DataDir (instance_of_row r) = inst_DataDir r"
  "inst_Status (instance_of_row r) = inst_Status r"
  "inst_CreatedAt (instance_of_row r) = inst_CreatedAt r"
  "inst_SkillsetName (instance_of_row r) = inst_SkillsetName r"
  "inst_PrincipalRole (instance_of_row r) = inst_PrincipalRole r"
  "inst_QueryToken (instance_of_row r) = inst_QueryToken r"
  "inst_PlaneAuthToken (instance_of_row r) = inst_PlaneAuthToken r"
  "inst_InstancePassword (instance_of_row r) = inst_InstancePassword r"
  by (simp_all add: instance_of_row_def fox_instance.truncate_def)

lemma instance_row_of_simps [simp]:
  "inst_ID (instance_row_of inst h) = inst_ID inst"
  "inst_Port (instance_row_of inst h) = inst_Port inst"
  "inst_CreatedAt (instance_row_of inst h) = inst_CreatedAt inst"
  "inst_QueryToken (instance_row_of inst h) = inst_QueryToken inst"
  "row_query_token_hash (instance_row_of inst h) = h"
  "instance_of_row (instance_row_of inst h) = inst"
  by (simp_all add: instance_row_of_def instance_of_row_def fox_instance.extend_def
      fox_instance.truncate_def instance_row.fields_def)

text \<open>Writing one port into the row with one key keeps the ports distinct when no other row has
  that port.\<close>

lemma distinct_upd_where_key:
  assumes "distinct (map k t)" and "distinct (map p t)"
    and "\<forall>x \<in> set t. k x \<noteq> v \<longrightarrow> p x \<noteq> w" and "\<And>x. p (f x) = w"
  shows "distinct (map p (upd_where (\<lambda>x. k x = v) f t))"
  using assms(1-3)
proof (induction t)
  case Nil
  then show ?case by (simp add: upd_where_def)
next
  case (Cons a t)
  show ?case
  proof (cases "k a = v")
    case True
    with Cons.prems(1) have "v \<notin> k ` set t" by auto
    then have ne: "\<forall>x \<in> set t. k x \<noteq> v" by blast
    then have "upd_where (\<lambda>x. k x = v) f t = t"
      by (auto simp: upd_where_def intro: map_idI)
    then have "upd_where (\<lambda>x. k x = v) f (a # t) = f a # t"
      using True by (simp add: upd_where_def)
    moreover have "w \<notin> p ` set t" using ne Cons.prems(3) by auto
    ultimately show ?thesis using Cons.prems(2) assms(4) by simp
  next
    case False
    with Cons have "distinct (map p (upd_where (\<lambda>x. k x = v) f t))" by auto
    moreover have "p a \<notin> p ` set (upd_where (\<lambda>x. k x = v) f t)"
      using Cons.prems(2,3) False assms(4) by (auto simp: set_upd_where)
    moreover have "upd_where (\<lambda>x. k x = v) f (a # t) = a # upd_where (\<lambda>x. k x = v) f t"
      using False by (simp add: upd_where_def)
    ultimately show ?thesis by simp
  qed
qed

lemma stmt_upsert_inv:
  assumes inv: "instances_inv sha db" and h: "hash_ok sha r"
    and ok: "stmt_upsert_instance r db = Inr (n, db')"
  shows "instances_inv sha db'"
proof -
  let ?t = "db_instances db"
  from ok have other: "\<forall>x \<in> set ?t. inst_ID x \<noteq> inst_ID r \<longrightarrow> inst_Port x \<noteq> inst_Port r"
    by (auto simp: stmt_upsert_instance_def split: if_splits)
  show ?thesis
  proof (cases "\<exists>x \<in> set ?t. inst_ID x = inst_ID r")
    case True
    let ?u = "upd_where (\<lambda>x. inst_ID x = inst_ID r) (excluded_into r) ?t"
    have "db_instances db' = ?u"
      using ok True by (auto simp: stmt_upsert_instance_def split: if_splits)
    moreover have "distinct (map inst_Port ?u)"
      using inv other by (intro distinct_upd_where_key) (auto simp: instances_inv_def excluded_into_def)
    moreover have "\<forall>x \<in> set ?u. hash_ok sha x"
      using inv h by (auto simp: set_upd_where instances_inv_def hash_ok_def excluded_into_def)
    moreover have "map inst_ID ?u = map inst_ID ?t"
      by (rule map_upd_where) (simp add: excluded_into_def)
    ultimately show ?thesis
      using inv by (simp add: instances_inv_def)
  next
    case False
    then have "db_instances db' = ?t @ [r]"
      using ok by (auto simp: stmt_upsert_instance_def split: if_splits)
    with False inv other h show ?thesis by (auto simp: instances_inv_def)
  qed
qed

interpretation instances: table_invariant "instances_inv sha" for sha
  by unfold_locales (rule same_tables_inv)

lemma create_row_simps [simp]:
  "inst_ID (create_row sha now inst) = inst_ID inst"
  "inst_Port (create_row sha now inst) = inst_Port inst"
  "inst_QueryToken (create_row sha now inst) = inst_QueryToken inst"
  by (simp_all add: create_row_def Let_def)

lemma hash_ok_create_row: "hash_ok sha (create_row sha now inst)"
  by (simp add: hash_ok_def create_row_def Let_def)

lemma Registry_Create_inv:
  assumes "instances_inv sha db"
  shows "instances_inv sha (snd (Registry_Create sha now inst db))"
proof -
  obtain res db1 where ex: "db_exec (stmt_upsert_instance (create_row sha now inst)) db = (res, db1)"
    by (cases "db_exec (stmt_upsert_instance (create_row sha now inst)) db")
  have "instances_inv sha db1"
    by (rule instances.inv_exec [OF assms _ ex], rule stmt_upsert_inv [OF _ hash_ok_create_row])
      (use assms in simp_all)
  with ex show ?thesis
    by (simp add: Registry_Create_def split: sum.splits)
qed

lemma stmt_update_inv:
  assumes "instances_inv sha db" and "stmt_update_instance iid f db = Inr (n, db')"
    and "\<And>r. inst_ID (f r) = inst_ID r" and "\<And>r. inst_Port (f r) = inst_Port r"
    and "\<And>r. hash_ok sha r \<Longrightarrow> hash_ok sha (f r)"
  shows "instances_inv sha db'"
  using assms by (auto simp: stmt_update_instance_def instances_inv_def map_upd_where set_upd_where)

lemma stmt_delete_inv:
  assumes "instances_inv sha db" and "stmt_delete_instance iid db = Inr (n, db')"
  shows "instances_inv sha db'"
  using assms by (auto simp: stmt_delete_instance_def instances_inv_def distinct_del_where set_del_where)

lemma Registry_update_inv:
  assumes "instances_inv sha db"
  shows "instances_inv sha (snd (Registry_UpdateStatus iid st db))"
    and "instances_inv sha (snd (Registry_UpdateImageDigest iid dg db))"
    and "instances_inv sha (snd (Registry_UpdateQueryToken sha iid tok db))"
    and "instances_inv sha (snd (Registry_Delete iid db))"
proof -
  from assms have t: "instances_inv sha (db_tick db)" by simp
  show "instances_inv sha (snd (Registry_UpdateStatus iid st db))"
    unfolding Registry_UpdateStatus_def
    by (rule instances.inv_affected [OF assms], erule stmt_update_inv [OF t]) (auto simp: hash_ok_def)
  show "instances_inv sha (snd (Registry_UpdateImageDigest iid dg db))"
    unfolding Registry_UpdateImageDigest_def
    by (rule instances.inv_affected [OF assms], erule stmt_update_inv [OF t]) (auto simp: hash_ok_def)
  show "instances_inv sha (snd (Registry_UpdateQueryToken sha iid tok db))"
    unfolding Registry_UpdateQueryToken_def
    by (rule instances.inv_affected [OF assms], erule stmt_update_inv [OF t]) (auto simp: hash_ok_def)
  show "instances_inv sha (snd (Registry_Delete iid db))"
    unfolding Registry_Delete_def
    by (rule instances.inv_affected [OF assms], erule stmt_delete_inv [OF t])
qed

lemma backfill_loop_inv:
  "instances_inv sha db \<Longrightarrow> instances_inv sha (snd (backfill_loop sha rnd i iids db))"
proof (induction iids arbitrary: i db)
  case Nil
  then show ?case by simp
next
  case (Cons iid iids)
  show ?case
  proof (cases "GenerateQueryToken (rnd i)")
    case (Inl e)
    with Cons show ?thesis by simp
  next
    case (Inr token)
    let ?f = "\<lambda>r. r\<lparr>inst_QueryToken := token, row_query_token_hash := tokenHash sha token\<rparr>"
    obtain res db1 where ex: "db_exec (stmt_update_instance iid ?f) db = (res, db1)"
      by (cases "db_exec (stmt_update_instance iid ?f) db")
    then have "instances_inv sha db1"
      by (rule instances.inv_exec [OF Cons.prems, rotated])
        (erule stmt_update_inv [rotated], use Cons.prems in \<open>auto simp: hash_ok_def\<close>)
    with Inr ex Cons.IH show ?thesis by (auto split: sum.splits)
  qed
qed

lemma backfillQueryTokens_inv:
  assumes "instances_inv sha db"
  shows "instances_inv sha (snd (backfillQueryTokens sha rnd db))"
  using instances.inv_query [OF assms] backfill_loop_inv
  by (auto simp: backfillQueryTokens_def split: prod.splits sum.splits)

text \<open>The operations as functions on the view.\<close>

lemma Registry_Get_view:
  "Registry_Get iid db =
     (case db_fault db of
        Some e \<Rightarrow> Inl (Wrap (''registry: get '' @ iid) e)
      | None \<Rightarrow> (case inst_view db iid of None \<Rightarrow> Inl ErrNotFound | Some i \<Rightarrow> Inr i), db_tick db)"
  by (auto simp: Registry_Get_def db_query_def inst_view_def split: option.splits)

lemma view_of_row:
  "instances_inv sha db \<Longrightarrow> r \<in> set (db_instances db) \<Longrightarrow> inst_view db (inst_ID r) = Some (instance_of_row r)"
  by (simp add: inst_view_def instances_inv_def query_row_unique)

lemma inst_view_SomeD:
  assumes "inst_view db iid = Some i"
  shows "\<exists>r \<in> set (db_instances db). inst_ID r = iid \<and> i = instance_of_row r"
proof -
  from assms obtain r where "query_row (\<lambda>r. inst_ID r = iid) (db_instances db) = Some r"
    and "i = instance_of_row r"
    by (auto simp: inst_view_def)
  then show ?thesis by (auto dest: query_row_SomeD)
qed

lemma inst_view_None_iff: "inst_view db iid = None \<longleftrightarrow> (\<forall>r \<in> set (db_instances db). inst_ID r \<noteq> iid)"
  by (auto simp: inst_view_def query_row_None_iff)

lemma inst_view_ID: "inst_view db iid = Some i \<Longrightarrow> inst_ID i = iid"
  by (auto dest: inst_view_SomeD)

lemma view_upd:
  assumes "\<And>r. inst_ID (f r) = inst_ID r" and "\<And>r. instance_of_row (f r) = g (instance_of_row r)"
    and "db_instances db' = upd_where (\<lambda>r. inst_ID r = iid) f (db_instances db)"
  shows "inst_view db' = (inst_view db)(iid := map_option g (inst_view db iid))"
proof
  fix j
  show "inst_view db' j = ((inst_view db)(iid := map_option g (inst_view db iid))) j"
  proof (cases "j = iid")
    case True
    have "query_row (\<lambda>r. inst_ID r = iid) (db_instances db') =
        map_option f (query_row (\<lambda>r. inst_ID r = iid) (db_instances db))"
      unfolding assms(3) by (rule query_row_upd_same) (simp add: assms(1))
    with True show ?thesis
      by (simp add: inst_view_def option.map_comp comp_def assms(2))
  next
    case False
    then have "query_row (\<lambda>r. inst_ID r = j) (db_instances db') =
        query_row (\<lambda>r. inst_ID r = j) (db_instances db)"
      unfolding assms(3) by (intro query_row_upd_other) (auto simp: assms(1))
    with False show ?thesis by (simp add: inst_view_def)
  qed
qed

lemma affected_update_ok:
  assumes "affected_or_not_found msg (db_exec (stmt_update_instance iid f) db) = (Inr u, db')"
  shows "inst_view db iid \<noteq> None"
    and "db_instances db' = upd_where (\<lambda>r. inst_ID r = iid) f (db_instances db)"
  using assms
  by (auto simp: affected_or_not_found_def db_exec_def stmt_update_instance_def inst_view_None_iff
      split: option.splits sum.splits if_splits)

lemma affected_update_err:
  assumes "affected_or_not_found msg (db_exec (stmt_update_instance iid f) db) = (Inl e, db')"
  shows "same_tables db db' "
proof -
  have "upd_where (\<lambda>r. inst_ID r = iid) f t = t" if "\<forall>r \<in> set t. inst_ID r \<noteq> iid" for t
    using that by (auto simp: upd_where_def intro: map_idI)
  with assms show ?thesis
    by (auto simp: affected_or_not_found_def db_exec_def stmt_update_instance_def same_tables_def
        split: option.splits sum.splits if_splits)
qed

lemma row_update_instance:
  assumes "\<And>r. inst_ID (h r) = inst_ID r" and "\<And>r. instance_of_row (h r) = g (instance_of_row r)"
  shows "row_update (\<lambda>iid db. affected_or_not_found (msg iid) (db_exec (stmt_update_instance iid h) db))
           inst_view g"
proof unfold_locales
  fix k db u db'
  assume "affected_or_not_found (msg k) (db_exec (stmt_update_instance k h) db) = (Inr u, db')"
  then show "inst_view db k \<noteq> None \<and> inst_view db' = (inst_view db)(k := map_option g (inst_view db k))"
    using affected_update_ok view_upd [OF assms] by (intro conjI) blast+
next
  fix k db e db'
  assume "affected_or_not_found (msg k) (db_exec (stmt_update_instance k h) db) = (Inl e, db')"
  then show "inst_view db' = inst_view db"
    by (intro same_tables_view affected_update_err)
qed

interpretation update_status:
  row_update "\<lambda>iid. Registry_UpdateStatus iid st" inst_view "\<lambda>i. i\<lparr>inst_Status := st\<rparr>" for st
  unfolding Registry_UpdateStatus_def
  by (rule row_update_instance) (simp_all add: instance_of_row_def fox_instance.truncate_def)

interpretation update_image:
  row_update "\<lambda>iid. Registry_UpdateImageDigest iid dg" inst_view "\<lambda>i. i\<lparr>inst_ImageDigest := dg\<rparr>" for dg
  unfolding Registry_UpdateImageDigest_def
  by (rule row_update_instance) (simp_all add: instance_of_row_def fox_instance.truncate_def)

interpretation update_token:
  row_update "\<lambda>iid. Registry_UpdateQueryToken sha iid tok" inst_view "\<lambda>i. i\<lparr>inst_QueryToken := tok\<rparr>"
  for sha tok
  unfolding Registry_UpdateQueryToken_def
  by (rule row_update_instance) (simp_all add: instance_of_row_def fox_instance.truncate_def)

lemma Registry_Delete_ok:
  assumes "Registry_Delete iid db = (Inr u, db')"
  shows "inst_view db iid \<noteq> None \<and> inst_view db' = (inst_view db)(iid := None)"
proof -
  from assms have "db_instances db' = del_where (\<lambda>r. inst_ID r = iid) (db_instances db)"
    and ex: "inst_view db iid \<noteq> None"
    by (auto simp: Registry_Delete_def affected_or_not_found_def db_exec_def stmt_delete_instance_def
        inst_view_None_iff split: option.splits sum.splits if_splits)
  then have "inst_view db' = (inst_view db)(iid := None)"
    by (auto simp: inst_view_def fun_eq_iff query_row_del_same query_row_del_other)
  with ex show ?thesis by simp
qed

lemma Registry_Delete_err:
  assumes "Registry_Delete iid db = (Inl e, db')"
  shows "same_tables db db'"
proof -
  have "del_where (\<lambda>r. inst_ID r = iid) t = t" if "\<forall>r \<in> set t. inst_ID r \<noteq> iid" for t
    using that by (auto simp: del_where_def intro: filter_True)
  with assms show ?thesis
    by (auto simp: Registry_Delete_def affected_or_not_found_def db_exec_def stmt_delete_instance_def
        same_tables_def split: option.splits sum.splits if_splits)
qed

text \<open>Insert then look up: the stored instance, with the creation time of the row it replaced.\<close>

definition created_instance :: "string \<Rightarrow> registry_db \<Rightarrow> fox_instance \<Rightarrow> fox_instance" where
  "created_instance now db inst =
     inst\<lparr>inst_CreatedAt :=
        (case inst_view db (inst_ID inst) of
           Some old \<Rightarrow> inst_CreatedAt old
         | None \<Rightarrow> if inst_CreatedAt inst = '''' then now else inst_CreatedAt inst)\<rparr>"

lemma instance_of_create_row:
  "instance_of_row (create_row sha now inst) =
     (if inst_CreatedAt inst = '''' then inst\<lparr>inst_CreatedAt := now\<rparr> else inst)"
  by (simp add: create_row_def Let_def)

lemma excluded_into_ID [simp]: "inst_ID (excluded_into new old) = inst_ID old"
  by (simp add: excluded_into_def)

lemma instance_of_excluded:
  "inst_ID old = inst_ID inst \<Longrightarrow>
     instance_of_row (excluded_into (create_row sha now inst) old) = inst\<lparr>inst_CreatedAt := inst_CreatedAt old\<rparr>"
  by (cases inst) (simp add: excluded_into_def instance_of_row_def fox_instance.truncate_def
      create_row_def instance_row_of_def fox_instance.extend_def Let_def)

lemma stmt_upsert_view:
  assumes ok: "stmt_upsert_instance (create_row sha now inst) db = Inr (n, db')"
  shows "inst_view db' = (inst_view db)(inst_ID inst \<mapsto> created_instance now db inst)"
proof (cases "inst_view db (inst_ID inst)")
  case None
  then have "\<not> (\<exists>x \<in> set (db_instances db). inst_ID x = inst_ID inst)"
    by (auto simp: inst_view_None_iff)
  with ok have "db_instances db' = db_instances db @ [create_row sha now inst]"
    by (auto simp: stmt_upsert_instance_def split: if_splits)
  with None show ?thesis
    by (auto simp: fun_eq_iff inst_view_def query_row_append instance_of_create_row created_instance_def
        split: option.splits)
next
  case (Some old)
  let ?g = "\<lambda>_. created_instance now db inst"
  from Some obtain x where x: "x \<in> set (db_instances db)" "inst_ID x = inst_ID inst"
    and q: "query_row (\<lambda>r. inst_ID r = inst_ID inst) (db_instances db) = Some x" "old = instance_of_row x"
    by (auto simp: inst_view_def dest: query_row_SomeD)
  with ok have db': "db_instances db' =
      upd_where (\<lambda>r. inst_ID r = inst_ID inst) (excluded_into (create_row sha now inst)) (db_instances db)"
    by (auto simp: stmt_upsert_instance_def split: if_splits)
  have "inst_view db' (inst_ID inst) = Some (created_instance now db inst)"
    using q Some x(2) unfolding inst_view_def db'
    by (subst query_row_upd_same) (auto simp: instance_of_excluded created_instance_def inst_view_def)
  moreover have "inst_view db' j = inst_view db j" if "j \<noteq> inst_ID inst" for j
    using that unfolding inst_view_def db'
    by (subst query_row_upd_other) auto
  ultimately show ?thesis by (auto simp: fun_eq_iff)
qed

lemma Registry_Create_ok:
  assumes "Registry_Create sha now inst db = (Inr u, db')"
  shows "inst_view db' = (inst_view db)(inst_ID inst \<mapsto> created_instance now db inst)"
proof -
  from assms obtain n where "stmt_upsert_instance (create_row sha now inst) (db_tick db) = Inr (n, db')"
    by (auto simp: Registry_Create_def db_exec_Inr split: prod.splits sum.splits)
  from stmt_upsert_view [OF this] show ?thesis
    using same_tables_view [OF same_tables_tick, of db] by (simp add: created_instance_def)
qed

lemma Registry_Create_err: "Registry_Create sha now inst db = (Inl e, db') \<Longrightarrow> same_tables db db'"
  by (auto simp: Registry_Create_def dest: db_exec_Inl split: prod.splits sum.splits)

text \<open>\<^verbatim>\<open>Create\<close> fails for one reason beside the driver: another instance holds the port.\<close>

lemma Registry_Create_succeeds_iff:
  "(\<exists>db'. Registry_Create sha now inst db = (Inr (), db')) \<longleftrightarrow>
     db_fault db = None \<and>
     (\<forall>x \<in> set (db_instances db). inst_Port x = inst_Port inst \<longrightarrow> inst_ID x = inst_ID inst)"
  by (auto simp: Registry_Create_def db_exec_def stmt_upsert_instance_def
      split: option.splits sum.splits if_splits)

text \<open>Query tokens. SHA-256 has 32-byte digests; \<open>no_collision\<close> says that no stored token other
  than \<open>t\<close> has the digest of \<open>t\<close>.\<close>

definition sha_len :: "(string \<Rightarrow> string) \<Rightarrow> bool" where
  "sha_len sha \<longleftrightarrow> (\<forall>x. length (sha x) = 32)"

definition no_collision :: "(string \<Rightarrow> string) \<Rightarrow> registry_db \<Rightarrow> string \<Rightarrow> bool" where
  "no_collision sha db t \<longleftrightarrow>
     (\<forall>r \<in> set (db_instances db). sha (inst_QueryToken r) = sha t \<longrightarrow> inst_QueryToken r = t)"

lemma tokenHash_eq_iff: "tokenHash sha s = tokenHash sha t \<longleftrightarrow> sha s = sha t"
  by (simp add: tokenHash_def)

lemma tokenHash_nonempty: "sha_len sha \<Longrightarrow> tokenHash sha s \<noteq> ''''"
  by (metis length_hex_encode length_0_conv mult_eq_0_iff sha_len_def tokenHash_def zero_neq_numeral)

lemma ValidQueryToken_iff:
  assumes "instances_inv sha db" "sha_len sha" "no_collision sha db t" "db_fault db = None"
  shows "fst (Registry_ValidQueryToken sha t db) \<longleftrightarrow>
     t \<noteq> '''' \<and> (\<exists>r \<in> set (db_instances db). inst_QueryToken r = t)"
proof -
  have row: "row_query_token_hash r = tokenHash sha t \<longleftrightarrow> inst_QueryToken r = t"
    if "r \<in> set (db_instances db)" "t \<noteq> ''''" for r
    using that assms tokenHash_nonempty [OF assms(2), of t]
    by (auto simp: instances_inv_def hash_ok_def tokenHash_eq_iff no_collision_def)
  show ?thesis
  proof (cases "query_row (\<lambda>r. row_query_token_hash r = tokenHash sha t) (db_instances db)")
    case None
    then have "\<forall>r \<in> set (db_instances db). row_query_token_hash r \<noteq> tokenHash sha t"
      by (simp add: query_row_None_iff)
    with None row show ?thesis
      by (auto simp: Registry_ValidQueryToken_def db_query_def assms(4))
  next
    case (Some r)
    with row query_row_SomeD [OF Some] show ?thesis
      by (auto simp: Registry_ValidQueryToken_def db_query_def assms(4))
  qed
qed

section \<open>Signing keys: invariant and rotation\<close>

definition keys_inv :: "registry_db \<Rightarrow> bool" where
  "keys_inv db \<longleftrightarrow>
     distinct (map sk_id (db_signing_keys db)) \<and>
     (\<forall>k \<in> set (db_signing_keys db). sk_id k < db_next_key_id db) \<and>
     length (filter sk_active (db_signing_keys db)) \<le> 1"

interpretation keys: table_invariant keys_inv
  by unfold_locales (simp add: keys_inv_def same_tables_def)

lemma sel_active_key_None:
  "sel_active_key db = None \<longleftrightarrow> filter sk_active (db_signing_keys db) = []"
  by (auto simp: sel_active_key_def sel_where_def split: list.splits)
    (metis length_0_conv length_sort length_rev list.size(3))

lemma sel_active_key_single:
  "filter sk_active (db_signing_keys db) = [k] \<Longrightarrow> sel_active_key db = Some (sk_key k)"
  by (simp add: sel_active_key_def sel_where_def)

lemma stmt_insert_key_inv:
  assumes "keys_inv db" "filter sk_active (db_signing_keys db) = []"
    and "stmt_insert_key key now db = Inr (n, db')"
  shows "keys_inv db' \<and> sel_active_key db' = Some key"
proof -
  let ?k = "\<lparr>sk_id = db_next_key_id db, sk_key = key, sk_active = True, sk_created_at = now\<rparr>"
  from assms(3) have db': "db_signing_keys db' = db_signing_keys db @ [?k]"
      "db_next_key_id db' = Suc (db_next_key_id db)"
    by (auto simp: stmt_insert_key_def)
  have "filter sk_active (db_signing_keys db') = [?k]"
    using assms(2) by (simp add: db')
  then have "sel_active_key db' = Some key"
    using sel_active_key_single [of db' ?k] by simp
  moreover have "keys_inv db'"
    using assms(1,2) by (auto simp: keys_inv_def db')
  ultimately show ?thesis by simp
qed

lemma insert_and_commit_cases:
  assumes "keys_inv db" "filter sk_active (db_signing_keys db) = []" "keys_inv db0"
    and "insert_and_commit what rnd now db0 db = (r, db')"
  shows "keys_inv db' \<and> (case r of Inl e \<Rightarrow> same_tables db0 db' | Inr k \<Rightarrow> rnd = Inr k \<and> sel_active_key db' = Some k)"
proof (cases rnd)
  case (Inl e)
  with assms show ?thesis by (auto simp: insert_and_commit_def)
next
  case (Inr key)
  show ?thesis
  proof (cases "db_exec (stmt_insert_key key now) db")
    case (Pair r1 db1)
    show ?thesis
    proof (cases r1)
      case (Inl e)
      with Pair Inr assms show ?thesis by (auto simp: insert_and_commit_def)
    next
      case r1: (Inr n)
      have k: "keys_inv db1 \<and> sel_active_key db1 = Some key"
        using Pair r1 assms(1,2) stmt_insert_key_inv [of "db_tick db" key now n db1] by (simp add: db_exec_Inr)
      then show ?thesis
        using Pair r1 Inr assms(3,4)
        by (auto simp: insert_and_commit_def db_exec_def stmt_none_def sel_active_key_def
            split: option.splits)
    qed
  qed
qed

lemma stmt_deactivate_keys_inv:
  assumes "keys_inv db" "stmt_deactivate_keys db = Inr (n, db')"
  shows "keys_inv db' \<and> filter sk_active (db_signing_keys db') = []"
  using assms
  by (auto simp: stmt_deactivate_keys_def keys_inv_def set_upd_where map_upd_where upd_where_def
      filter_empty_conv comp_def)

lemma RotateSigningKey_cases:
  assumes "keys_inv db" and "Registry_RotateSigningKey rnd now db = (r, db')"
  shows "keys_inv db' \<and> (case r of Inl e \<Rightarrow> same_tables db db' | Inr k \<Rightarrow> rnd = Inr k \<and> sel_active_key db' = Some k)"
proof (cases "db_fault db")
  case (Some e)
  with assms show ?thesis by (auto simp: Registry_RotateSigningKey_def db_exec_def)
next
  case None
  show ?thesis
  proof (cases "db_exec stmt_deactivate_keys (db_tick db)")
    case (Pair r1 db1)
    show ?thesis
    proof (cases r1)
      case (Inl e)
      with Pair None assms show ?thesis
        by (auto simp: Registry_RotateSigningKey_def db_exec_def stmt_none_def split: option.splits)
    next
      case (Inr n)
      have ic: "insert_and_commit ''rotated signing key'' rnd now db db1 = (r, db')"
        using assms(2) None Pair Inr
        by (simp add: Registry_RotateSigningKey_def db_exec_def [of stmt_none] stmt_none_def)
      have "keys_inv db1 \<and> filter sk_active (db_signing_keys db1) = []"
        using Pair Inr assms(1) stmt_deactivate_keys_inv [of "db_tick (db_tick db)" n db1]
        by (simp add: db_exec_Inr)
      with insert_and_commit_cases [OF _ _ assms(1) ic] show ?thesis by simp
    qed
  qed
qed

lemma EnsureSigningKey_cases:
  assumes "keys_inv db" and "Registry_EnsureSigningKey rnd now db = (r, db')"
  shows "keys_inv db' \<and>
    (case r of Inl e \<Rightarrow> same_tables db db'
     | Inr k \<Rightarrow> sel_active_key db' = Some k \<and>
         (if sel_active_key db = None then rnd = Inr k else same_tables db db'))"
proof (cases "db_fault db")
  case (Some e)
  with assms show ?thesis by (auto simp: Registry_EnsureSigningKey_def db_exec_def)
next
  case None
  note ens = assms(2) [unfolded Registry_EnsureSigningKey_def db_exec_def stmt_none_def]
  show ?thesis
  proof (cases "db_fault (db_tick db)")
    case (Some e)
    with None ens assms(1) show ?thesis by (auto simp: db_query_def)
  next
    case no: None
    have sel: "sel_active_key (db_tick (db_tick db)) = sel_active_key db"
      by (simp add: sel_active_key_def)
    show ?thesis
    proof (cases "sel_active_key db")
      case (Some k)
      with None no ens sel assms(1) show ?thesis
        by (auto simp: db_query_def sel_active_key_def)
    next
      case key: None
      have ic: "insert_and_commit ''signing key'' rnd now db (db_tick (db_tick db)) = (r, db')"
        using None no ens sel key by (simp add: db_query_def)
      have "filter sk_active (db_signing_keys (db_tick (db_tick db))) = []"
        using key by (simp add: sel_active_key_None)
      with insert_and_commit_cases [OF _ this assms(1) ic] assms(1) key show ?thesis
        by (auto split: sum.splits)
    qed
  qed
qed

end
