(* ===== verification/Cloud_Store.thy ===== *)
theory Cloud_Store
  imports Registry
begin

text \<open>
  \<^verbatim>\<open>internal/cloud/users.go\<close> and \<^verbatim>\<open>internal/cloud/sessions.go\<close>: the accounts and login sessions
  of cloud mode, in the same database as the instances. User names compare without case (the
  primary key is \<^verbatim>\<open>COLLATE NOCASE\<close>, and the foreign key of sessions follows the parent's
  collation), while \<^verbatim>\<open>cloud_sessions.user_id\<close> itself compares exactly. bcrypt is the pair of
  arguments \<open>bgen\<close>, \<open>bcmp\<close>. Times of day are nanoseconds; the RFC 3339 columns of sessions hold
  whole seconds, as \<^verbatim>\<open>Format\<close> truncates them.

  The second half is the state machine of the whole database: every operation of the registry,
  the users and the sessions is a rule, and the invariant of all tables holds in every reachable
  state, whatever driver calls fail.
\<close>

section \<open>Users\<close>

definition ErrUserNotFound :: go_error where
  "ErrUserNotFound = Sentinel ''user not found''"

definition ErrUserExists :: go_error where
  "ErrUserExists = Sentinel ''user already exists''"

definition ErrInvalidCredentials :: go_error where
  "ErrInvalidCredentials = Sentinel ''invalid credentials''"

record cloud_user =
  cu_Username :: string
  cu_InstanceID :: "string option"
  cu_CreatedAt :: string
  cu_UpdatedAt :: string

definition user_of_row :: "user_row \<Rightarrow> cloud_user" where
  "user_of_row u = \<lparr>cu_Username = usr_username u, cu_InstanceID = usr_instance_id u,
     cu_CreatedAt = usr_created_at u, cu_UpdatedAt = usr_updated_at u\<rparr>"

definition nocase :: "string \<Rightarrow> string \<Rightarrow> bool" where
  "nocase a b \<longleftrightarrow> ToLower a = ToLower b"

definition isUniqueViolation :: "go_error \<Rightarrow> bool" where
  "isUniqueViolation e \<longleftrightarrow>
     Contains (error_text e) ''UNIQUE constraint failed'' \<or> Contains (error_text e) ''unique constraint''"

definition stmt_insert_user :: "user_row \<Rightarrow> registry_db \<Rightarrow> go_error + nat \<times> registry_db" where
  "stmt_insert_user u db =
     (if \<exists>x \<in> set (db_cloud_users db). nocase (usr_username x) (usr_username u)
      then Inl (Errorf ''UNIQUE constraint failed: cloud_users.username'')
      else Inr (1, db\<lparr>db_cloud_users := db_cloud_users db @ [u]\<rparr>))"

definition UserStore_Create ::
  "(string \<Rightarrow> string result) \<Rightarrow> string \<Rightarrow> string \<Rightarrow> string \<Rightarrow> registry_db
     \<Rightarrow> cloud_user result \<times> registry_db" where
  "UserStore_Create bgen now username password db =
     (if username = '''' then (Inl (Errorf ''cloud: username must not be empty''), db)
      else if password = '''' then (Inl (Errorf ''cloud: password must not be empty''), db)
      else case bgen password of
        Inl e \<Rightarrow> (Inl (Wrap ''cloud: hash password'' e), db)
      | Inr hash \<Rightarrow>
          (case db_exec (stmt_insert_user
                  \<lparr>usr_username = username, usr_password_hash = hash, usr_instance_id = None,
                   usr_created_at = now, usr_updated_at = now\<rparr>) db of
             (Inl e, db1) \<Rightarrow>
               (Inl (if isUniqueViolation e then ErrUserExists
                     else Wrap (''cloud: create user '' @ username) e), db1)
           | (Inr _, db1) \<Rightarrow>
               (Inr \<lparr>cu_Username = username, cu_InstanceID = None,
                     cu_CreatedAt = now, cu_UpdatedAt = now\<rparr>, db1)))"

definition sel_user :: "string \<Rightarrow> registry_db \<Rightarrow> user_row option" where
  "sel_user username db = query_row (\<lambda>u. nocase (usr_username u) username) (db_cloud_users db)"

definition UserStore_Get :: "string \<Rightarrow> registry_db \<Rightarrow> cloud_user result \<times> registry_db" where
  "UserStore_Get username db =
     (case db_query (sel_user username) db of
        (Inl e, db1) \<Rightarrow> (Inl (Wrap (''cloud: get user '' @ username) e), db1)
      | (Inr None, db1) \<Rightarrow> (Inl ErrUserNotFound, db1)
      | (Inr (Some u), db1) \<Rightarrow> (Inr (user_of_row u), db1))"

definition UserStore_List :: "registry_db \<Rightarrow> cloud_user list result \<times> registry_db" where
  "UserStore_List db =
     (case db_query (\<lambda>d. map user_of_row (sort_key usr_created_at (db_cloud_users d))) db of
        (Inl e, db1) \<Rightarrow> (Inl (Wrap ''cloud: list users'' e), db1)
      | (Inr us, db1) \<Rightarrow> (Inr us, db1))"

text \<open>
  \<^verbatim>\<open>UPDATE cloud_users ... WHERE username = ?\<close>. An assignment to \<^verbatim>\<open>instance_id\<close> is subject to the
  partial unique index \<^verbatim>\<open>idx_cloud_users_instance\<close> and to the foreign key into \<^verbatim>\<open>instances\<close>.
\<close>

definition stmt_update_user ::
  "string \<Rightarrow> (user_row \<Rightarrow> user_row) \<Rightarrow> registry_db \<Rightarrow> go_error + nat \<times> registry_db" where
  "stmt_update_user username f db =
     Inr (RowsAffected (\<lambda>u. nocase (usr_username u) username) (db_cloud_users db),
          db\<lparr>db_cloud_users :=
               upd_where (\<lambda>u. nocase (usr_username u) username) f (db_cloud_users db)\<rparr>)"

definition stmt_bind_user ::
  "string \<Rightarrow> string \<Rightarrow> string \<Rightarrow> registry_db \<Rightarrow> go_error + nat \<times> registry_db" where
  "stmt_bind_user username instanceID now db =
     (if \<not> (\<exists>u \<in> set (db_cloud_users db). nocase (usr_username u) username) then Inr (0, db)
      else if \<exists>u \<in> set (db_cloud_users db).
              usr_instance_id u = Some instanceID \<and> \<not> nocase (usr_username u) username
      then Inl (Errorf ''UNIQUE constraint failed: cloud_users.instance_id'')
      else if \<not> (\<exists>r \<in> set (db_instances db). inst_ID r = instanceID)
      then Inl (Errorf ''FOREIGN KEY constraint failed'')
      else stmt_update_user username
             (\<lambda>u. u\<lparr>usr_instance_id := Some instanceID, usr_updated_at := now\<rparr>) db)"

definition stmt_set_instance ::
  "string \<Rightarrow> string \<Rightarrow> string \<Rightarrow> registry_db \<Rightarrow> go_error + nat \<times> registry_db" where
  "stmt_set_instance username instanceID now =
     (if instanceID = ''''
      then stmt_update_user username (\<lambda>u. u\<lparr>usr_instance_id := None, usr_updated_at := now\<rparr>)
      else stmt_bind_user username instanceID now)"

text \<open>The steps of \<^verbatim>\<open>Update\<close> inside its transaction: each is a driver call or nothing.\<close>

definition update_password_step ::
  "(string \<Rightarrow> string result) \<Rightarrow> string \<Rightarrow> string \<Rightarrow> string option \<Rightarrow> registry_db
     \<Rightarrow> unit result \<times> registry_db" where
  "update_password_step bgen now username password db =
     (case password of
        None \<Rightarrow> (Inr (), db)
      | Some pw \<Rightarrow>
          (if pw = '''' then (Inl (Errorf ''cloud: password must not be empty''), db)
           else case bgen pw of
             Inl e \<Rightarrow> (Inl (Wrap ''cloud: hash password'' e), db)
           | Inr hash \<Rightarrow>
               (case db_exec (stmt_update_user username
                       (\<lambda>u. u\<lparr>usr_password_hash := hash, usr_updated_at := now\<rparr>)) db of
                  (Inl e, db1) \<Rightarrow> (Inl (Wrap ''cloud: update password'' e), db1)
                | (Inr _, db1) \<Rightarrow> (Inr (), db1))))"

definition update_instance_step ::
  "string \<Rightarrow> string \<Rightarrow> string option \<Rightarrow> registry_db \<Rightarrow> unit result \<times> registry_db" where
  "update_instance_step now username instanceID db =
     (case instanceID of
        None \<Rightarrow> (Inr (), db)
      | Some i \<Rightarrow>
          (case db_exec (stmt_set_instance username i now) db of
             (Inl e, db1) \<Rightarrow>
               (Inl (Wrap (if i = '''' then ''cloud: clear instance_id'' else ''cloud: update instance_id'') e), db1)
           | (Inr _, db1) \<Rightarrow> (Inr (), db1)))"

definition update_touch_step ::
  "string \<Rightarrow> string \<Rightarrow> bool \<Rightarrow> registry_db \<Rightarrow> unit result \<times> registry_db" where
  "update_touch_step now username only_touch db =
     (if only_touch then
        (case db_exec (stmt_update_user username (\<lambda>u. u\<lparr>usr_updated_at := now\<rparr>)) db of
           (Inl e, db1) \<Rightarrow> (Inl (Wrap ''cloud: touch updated_at'' e), db1)
         | (Inr _, db1) \<Rightarrow> (Inr (), db1))
      else (Inr (), db))"

definition and_then ::
  "unit result \<times> registry_db \<Rightarrow> (registry_db \<Rightarrow> 'a result \<times> registry_db) \<Rightarrow> 'a result \<times> registry_db" where
  "and_then r k = (case r of (Inl e, db) \<Rightarrow> (Inl e, db) | (Inr _, db) \<Rightarrow> k db)"

text \<open>The body between \<^verbatim>\<open>Begin\<close> and \<^verbatim>\<open>Commit\<close>; the deferred \<^verbatim>\<open>Rollback\<close> undoes it on
  any error.\<close>

definition update_body ::
  "(string \<Rightarrow> string result) \<Rightarrow> string \<Rightarrow> string \<Rightarrow> string option \<Rightarrow> string option \<Rightarrow> registry_db
     \<Rightarrow> unit result \<times> registry_db" where
  "update_body bgen now username password instanceID db =
     (case db_query (sel_user username) db of
        (Inl e, db1) \<Rightarrow> (Inl (Wrap ''cloud: update user check'' e), db1)
      | (Inr None, db1) \<Rightarrow> (Inl ErrUserNotFound, db1)
      | (Inr (Some _), db1) \<Rightarrow>
          and_then (update_password_step bgen now username password db1) (\<lambda>db2.
          and_then (update_instance_step now username instanceID db2) (\<lambda>db3.
          and_then (update_touch_step now username (password = None \<and> instanceID = None) db3) (\<lambda>db4.
            case db_exec stmt_none db4 of
              (Inl e, db5) \<Rightarrow> (Inl (Wrap ''cloud: commit update'' e), db5)
            | (Inr _, db5) \<Rightarrow> (Inr (), db5)))))"

definition UserStore_Update ::
  "(string \<Rightarrow> string result) \<Rightarrow> string \<Rightarrow> string \<Rightarrow> string option \<Rightarrow> string option \<Rightarrow> registry_db
     \<Rightarrow> cloud_user result \<times> registry_db" where
  "UserStore_Update bgen now username password instanceID db0 =
     (case db_exec stmt_none db0 of
        (Inl e, db) \<Rightarrow> (Inl (Wrap ''cloud: begin tx'' e), db)
      | (Inr _, db) \<Rightarrow>
          (case update_body bgen now username password instanceID db of
             (Inl e, db1) \<Rightarrow> (Inl e, tx_rollback db0 db1)
           | (Inr _, db1) \<Rightarrow> UserStore_Get username db1))"

text \<open>Deleting a user deletes the sessions that refer to it.\<close>

definition stmt_delete_user :: "string \<Rightarrow> registry_db \<Rightarrow> go_error + nat \<times> registry_db" where
  "stmt_delete_user username db =
     (let n = RowsAffected (\<lambda>u. nocase (usr_username u) username) (db_cloud_users db) in
      Inr (n, if n = 0 then db else
        db\<lparr>db_cloud_users := del_where (\<lambda>u. nocase (usr_username u) username) (db_cloud_users db),
           db_cloud_sessions := del_where (\<lambda>s. nocase (ses_user_id s) username) (db_cloud_sessions db)\<rparr>))"

definition user_affected :: "string \<Rightarrow> nat result \<times> registry_db \<Rightarrow> unit result \<times> registry_db" where
  "user_affected msg res =
     (case res of
        (Inl e, db1) \<Rightarrow> (Inl (Wrap msg e), db1)
      | (Inr n, db1) \<Rightarrow> (if n = 0 then Inl ErrUserNotFound else Inr (), db1))"

definition UserStore_Delete :: "string \<Rightarrow> registry_db \<Rightarrow> unit result \<times> registry_db" where
  "UserStore_Delete username db =
     user_affected (''cloud: delete user '' @ username) (db_exec (stmt_delete_user username) db)"

definition UserStore_Authenticate ::
  "(string \<Rightarrow> string \<Rightarrow> bool) \<Rightarrow> string \<Rightarrow> string \<Rightarrow> registry_db \<Rightarrow> cloud_user result \<times> registry_db" where
  "UserStore_Authenticate bcmp username password db =
     (case db_query (sel_user username) db of
        (Inl e, db1) \<Rightarrow> (Inl (Wrap (''cloud: authenticate '' @ username) e), db1)
      | (Inr None, db1) \<Rightarrow> (Inl ErrInvalidCredentials, db1)
      | (Inr (Some u), db1) \<Rightarrow>
          (if bcmp (usr_password_hash u) password then Inr (user_of_row u)
           else Inl ErrInvalidCredentials, db1))"

definition UserStore_SetInstanceID ::
  "string \<Rightarrow> string \<Rightarrow> string \<Rightarrow> registry_db \<Rightarrow> unit result \<times> registry_db" where
  "UserStore_SetInstanceID now username instanceID db =
     user_affected (''cloud: set instance_id for '' @ username)
       (db_exec (stmt_set_instance username instanceID now) db)"

section \<open>Sessions\<close>

definition ErrSessionNotFound :: go_error where
  "ErrSessionNotFound = Sentinel ''session not found''"

definition sessionHash :: "(string \<Rightarrow> string) \<Rightarrow> string \<Rightarrow> string" where
  "sessionHash sha token = hex_encode (sha token)"

definition to_sec :: "int \<Rightarrow> int" where
  "to_sec t = t div 1000000000"

definition of_sec :: "int \<Rightarrow> int" where
  "of_sec s = s * 1000000000"

definition stmt_insert_session :: "session_row \<Rightarrow> registry_db \<Rightarrow> go_error + nat \<times> registry_db" where
  "stmt_insert_session s db =
     (if \<exists>x \<in> set (db_cloud_sessions db). ses_token_hash x = ses_token_hash s
      then Inl (Errorf ''UNIQUE constraint failed: cloud_sessions.token_hash'')
      else if \<not> (\<exists>u \<in> set (db_cloud_users db). nocase (usr_username u) (ses_user_id s))
      then Inl (Errorf ''FOREIGN KEY constraint failed'')
      else Inr (1, db\<lparr>db_cloud_sessions := db_cloud_sessions db @ [s]\<rparr>))"

definition SessionStore_Create ::
  "(string \<Rightarrow> string) \<Rightarrow> string result \<Rightarrow> int \<Rightarrow> string \<Rightarrow> int \<Rightarrow> registry_db
     \<Rightarrow> (string \<times> session_row) result \<times> registry_db" where
  "SessionStore_Create sha rnd now userID ttl db =
     (if userID = '''' then (Inl (Errorf ''cloud: user_id must not be empty''), db)
      else case rnd of
        Inl e \<Rightarrow> (Inl (Wrap ''cloud: generate session token'' e), db)
      | Inr raw \<Rightarrow>
          (let token = hex_encode raw;
               s = \<lparr>ses_token_hash = sessionHash sha token, ses_user_id = userID,
                    ses_created_at = to_sec now, ses_expires_at = to_sec (now + ttl)\<rparr>
           in case db_exec (stmt_insert_session s) db of
                (Inl e, db1) \<Rightarrow> (Inl (Wrap ''cloud: create session'' e), db1)
              | (Inr _, db1) \<Rightarrow> (Inr (token, s), db1)))"

definition stmt_delete_sessions ::
  "(session_row \<Rightarrow> bool) \<Rightarrow> registry_db \<Rightarrow> go_error + nat \<times> registry_db" where
  "stmt_delete_sessions P db =
     Inr (RowsAffected P (db_cloud_sessions db),
          db\<lparr>db_cloud_sessions := del_where P (db_cloud_sessions db)\<rparr>)"

definition SessionStore_deleteByHash :: "string \<Rightarrow> registry_db \<Rightarrow> unit result \<times> registry_db" where
  "SessionStore_deleteByHash hash db =
     (case db_exec (stmt_delete_sessions (\<lambda>s. ses_token_hash s = hash)) db of
        (Inl e, db1) \<Rightarrow> (Inl (Wrap ''cloud: delete session'' e), db1)
      | (Inr n, db1) \<Rightarrow> (if n = 0 then Inl ErrSessionNotFound else Inr (), db1))"

definition SessionStore_Validate ::
  "(string \<Rightarrow> string) \<Rightarrow> int \<Rightarrow> string \<Rightarrow> registry_db \<Rightarrow> session_row result \<times> registry_db" where
  "SessionStore_Validate sha now token db =
     (let hash = sessionHash sha token in
      case db_query (\<lambda>d. query_row (\<lambda>s. ses_token_hash s = hash) (db_cloud_sessions d)) db of
        (Inl e, db1) \<Rightarrow> (Inl (Wrap ''cloud: validate session'' e), db1)
      | (Inr None, db1) \<Rightarrow> (Inl ErrSessionNotFound, db1)
      | (Inr (Some s), db1) \<Rightarrow>
          (if now > of_sec (ses_expires_at s)
           then (Inl ErrSessionNotFound, snd (SessionStore_deleteByHash hash db1))
           else (Inr s, db1)))"

definition SessionStore_Delete ::
  "(string \<Rightarrow> string) \<Rightarrow> string \<Rightarrow> registry_db \<Rightarrow> unit result \<times> registry_db" where
  "SessionStore_Delete sha token db = SessionStore_deleteByHash (sessionHash sha token) db"

definition SessionStore_DeleteByUser :: "string \<Rightarrow> registry_db \<Rightarrow> nat result \<times> registry_db" where
  "SessionStore_DeleteByUser userID db =
     (case db_exec (stmt_delete_sessions (\<lambda>s. ses_user_id s = userID)) db of
        (Inl e, db1) \<Rightarrow> (Inl (Wrap (''cloud: delete sessions for user '' @ userID) e), db1)
      | (Inr n, db1) \<Rightarrow> (Inr n, db1))"

definition SessionStore_PurgeExpired :: "int \<Rightarrow> registry_db \<Rightarrow> nat result \<times> registry_db" where
  "SessionStore_PurgeExpired now db =
     (case db_exec (stmt_delete_sessions (\<lambda>s. ses_expires_at s < to_sec now)) db of
        (Inl e, db1) \<Rightarrow> (Inl (Wrap ''cloud: purge expired sessions'' e), db1)
      | (Inr n, db1) \<Rightarrow> (Inr n, db1))"

section \<open>The invariant of users and sessions\<close>

definition names_distinct :: "user_row list \<Rightarrow> bool" where
  "names_distinct us \<longleftrightarrow> distinct (map (ToLower \<circ> usr_username) us)"

definition bindings_unique :: "user_row list \<Rightarrow> bool" where
  "bindings_unique us \<longleftrightarrow>
     (\<forall>u \<in> set us. \<forall>v \<in> set us.
        usr_instance_id u \<noteq> None \<longrightarrow> usr_instance_id u = usr_instance_id v \<longrightarrow> u = v)"

definition bindings_exist :: "string set \<Rightarrow> user_row list \<Rightarrow> bool" where
  "bindings_exist iids us \<longleftrightarrow> (\<forall>u \<in> set us. \<forall>i. usr_instance_id u = Some i \<longrightarrow> i \<in> iids)"

definition sessions_owned :: "user_row list \<Rightarrow> session_row list \<Rightarrow> bool" where
  "sessions_owned us ss \<longleftrightarrow> (\<forall>s \<in> set ss. \<exists>u \<in> set us. nocase (usr_username u) (ses_user_id s))"

definition cloud_inv :: "registry_db \<Rightarrow> bool" where
  "cloud_inv db \<longleftrightarrow>
     names_distinct (db_cloud_users db) \<and> bindings_unique (db_cloud_users db) \<and>
     bindings_exist (inst_ID ` set (db_instances db)) (db_cloud_users db) \<and>
     distinct (map ses_token_hash (db_cloud_sessions db)) \<and>
     sessions_owned (db_cloud_users db) (db_cloud_sessions db)"

interpretation cloud: table_invariant cloud_inv
  by unfold_locales (simp add: cloud_inv_def same_tables_def)

lemma nocase_refl [simp]: "nocase a a"
  by (simp add: nocase_def)

lemma nocase_sym: "nocase a b \<longleftrightarrow> nocase b a"
  by (auto simp: nocase_def)

lemma user_unique:
  assumes "cloud_inv db" "u \<in> set (db_cloud_users db)" "v \<in> set (db_cloud_users db)"
    and "nocase (usr_username u) (usr_username v)"
  shows "u = v"
  using assms by (auto simp: cloud_inv_def names_distinct_def distinct_map inj_on_def nocase_def)

text \<open>Statements on users and sessions: what they leave alone, and that they keep the
  invariant.\<close>

definition cloud_only :: "registry_db \<Rightarrow> registry_db \<Rightarrow> bool" where
  "cloud_only db db' \<longleftrightarrow>
     db_instances db' = db_instances db \<and> db_signing_keys db' = db_signing_keys db \<and>
     db_next_key_id db' = db_next_key_id db"

definition cloud_keeps :: "registry_db \<Rightarrow> registry_db \<Rightarrow> bool" where
  "cloud_keeps db db' \<longleftrightarrow> cloud_only db db' \<and> (cloud_inv db \<longrightarrow> cloud_inv db')"

lemma cloud_keeps_same: "same_tables db db' \<Longrightarrow> cloud_keeps db db'"
  using cloud.tables_only [of db db'] by (auto simp: cloud_keeps_def cloud_only_def same_tables_def)

lemma cloud_keeps_refl [simp]: "cloud_keeps db db"
  by (rule cloud_keeps_same) simp

lemma cloud_keeps_trans: "cloud_keeps a b \<Longrightarrow> cloud_keeps b c \<Longrightarrow> cloud_keeps a c"
  by (auto simp: cloud_keeps_def cloud_only_def)

lemma cloud_keeps_exec:
  assumes "\<And>n db1. stmt (db_tick db) = Inr (n, db1) \<Longrightarrow> cloud_keeps (db_tick db) db1"
    and "db_exec stmt db = (r, db')"
  shows "cloud_keeps db db'"
proof -
  have t: "cloud_keeps db (db_tick db)" by (rule cloud_keeps_same) simp
  show ?thesis
  proof (cases r)
    case (Inl e)
    with assms(2) show ?thesis using cloud_keeps_same db_exec_Inl by blast
  next
    case (Inr n)
    with assms have "cloud_keeps (db_tick db) db'" by (simp add: db_exec_Inr)
    with t show ?thesis by (rule cloud_keeps_trans)
  qed
qed

lemma stmt_insert_user_keeps:
  assumes "stmt_insert_user u db = Inr (n, db')" "usr_instance_id u = None"
  shows "cloud_keeps db db'"
proof -
  let ?us = "db_cloud_users db"
  from assms have no: "\<forall>x \<in> set ?us. ToLower (usr_username x) \<noteq> ToLower (usr_username u)"
    and db': "db' = db\<lparr>db_cloud_users := ?us @ [u]\<rparr>"
    by (auto simp: stmt_insert_user_def nocase_def split: if_splits)
  have "(ToLower \<circ> usr_username) u \<notin> set (map (ToLower \<circ> usr_username) ?us)"
    using no by (metis comp_apply imageE set_map)
  then have "names_distinct (?us @ [u]) = names_distinct ?us"
    unfolding names_distinct_def map_append distinct_append by simp
  moreover have "bindings_unique (?us @ [u])" if old: "bindings_unique ?us"
    unfolding bindings_unique_def
  proof (intro ballI impI)
    fix v w
    assume v: "v \<in> set (?us @ [u])" and w: "w \<in> set (?us @ [u])"
      and n: "usr_instance_id v \<noteq> None" and e: "usr_instance_id v = usr_instance_id w"
    from n e assms(2) have "v \<noteq> u" "w \<noteq> u" by metis+
    with v w have "v \<in> set ?us" "w \<in> set ?us" by simp_all
    with old n e show "v = w" unfolding bindings_unique_def by blast
  qed
  moreover have "bindings_exist iids (?us @ [u]) = bindings_exist iids ?us" for iids
    using assms(2) by (auto simp: bindings_exist_def)
  moreover have "sessions_owned ?us ss \<Longrightarrow> sessions_owned (?us @ [u]) ss" for ss
    by (auto simp: sessions_owned_def)
  ultimately show ?thesis by (simp add: cloud_keeps_def cloud_only_def db' cloud_inv_def)
qed

lemma upd_names:
  assumes "\<And>u. usr_username (f u) = usr_username u"
  shows "names_distinct (upd_where P f us) = names_distinct us"
    and "sessions_owned (upd_where P f us) ss = sessions_owned us ss"
proof -
  show "names_distinct (upd_where P f us) = names_distinct us"
    unfolding names_distinct_def by (subst map_upd_where) (simp_all add: assms)
  have "(\<exists>u \<in> set (upd_where P f us). nocase (usr_username u) x) \<longleftrightarrow>
      (\<exists>u \<in> set us. nocase (usr_username (if P u then f u else u)) x)" for x
    unfolding upd_where_def set_map by blast
  moreover have "usr_username (if P u then f u else u) = usr_username u" for u
    using assms by simp
  ultimately show "sessions_owned (upd_where P f us) ss = sessions_owned us ss"
    unfolding sessions_owned_def by simp
qed

lemma upd_bindings_unique:
  assumes "bindings_unique us"
    and f: "(\<forall>u. usr_instance_id (f u) = usr_instance_id u) \<or> (\<forall>u. usr_instance_id (f u) = None)"
  shows "bindings_unique (upd_where P f us)"
proof -
  let ?g = "\<lambda>u. if P u then f u else u"
  have "?g u = ?g v"
    if "u \<in> set us" "v \<in> set us" "usr_instance_id (?g u) \<noteq> None"
      "usr_instance_id (?g u) = usr_instance_id (?g v)" for u v
  proof -
    have g: "usr_instance_id (?g w) \<noteq> None \<Longrightarrow> usr_instance_id (?g w) = usr_instance_id w" for w
      using f by auto
    from g [of u] g [of v] that have "usr_instance_id u = usr_instance_id v" "usr_instance_id u \<noteq> None"
      by metis+
    with assms(1) that(1,2) have "u = v" unfolding bindings_unique_def by blast
    then show ?thesis by simp
  qed
  then show ?thesis
    unfolding bindings_unique_def upd_where_def set_map by blast
qed

lemma stmt_update_user_keeps:
  assumes "stmt_update_user username f db = Inr (n, db')"
    and f: "\<And>u. usr_username (f u) = usr_username u"
    and i: "(\<forall>u. usr_instance_id (f u) = usr_instance_id u) \<or> (\<forall>u. usr_instance_id (f u) = None)"
  shows "cloud_keeps db db'"
proof -
  let ?P = "\<lambda>u. nocase (usr_username u) username"
  from assms(1) have db': "db' = db\<lparr>db_cloud_users := upd_where ?P f (db_cloud_users db)\<rparr>"
    by (auto simp: stmt_update_user_def)
  have "bindings_exist iids us \<Longrightarrow> bindings_exist iids (upd_where ?P f us)" for iids us
    using i unfolding bindings_exist_def upd_where_def by auto
  then show ?thesis
    using upd_names [of f, OF f] upd_bindings_unique [OF _ i, of "db_cloud_users db" ?P]
    by (simp add: cloud_keeps_def cloud_only_def db' cloud_inv_def)
qed

lemma stmt_bind_user_keeps:
  assumes "stmt_bind_user username iid now db = Inr (n, db')"
  shows "cloud_keeps db db'"
proof (cases "\<exists>u \<in> set (db_cloud_users db). nocase (usr_username u) username")
  case False
  with assms show ?thesis by (simp add: stmt_bind_user_def)
next
  case True
  let ?P = "\<lambda>u. nocase (usr_username u) username" and ?us = "db_cloud_users db"
  let ?f = "\<lambda>u. u\<lparr>usr_instance_id := Some iid, usr_updated_at := now\<rparr>"
  let ?g = "\<lambda>u. if ?P u then ?f u else u"
  from assms True have other: "\<And>u. u \<in> set ?us \<Longrightarrow> usr_instance_id u = Some iid \<Longrightarrow> ?P u"
    and fk: "iid \<in> inst_ID ` set (db_instances db)"
    and db': "db' = db\<lparr>db_cloud_users := upd_where ?P ?f ?us\<rparr>"
    by (auto simp: stmt_bind_user_def stmt_update_user_def split: if_splits)
  have "bindings_unique (upd_where ?P ?f ?us)" if inv: "cloud_inv db"
  proof -
    have one: "u = v" if "u \<in> set ?us" "v \<in> set ?us" "?P u" "?P v" for u v
      using user_unique [OF inv that(1,2)] that(3,4) by (simp add: nocase_def)
    have old: "bindings_unique ?us" using inv by (simp add: cloud_inv_def)
    have "?g u = ?g v" if "u \<in> set ?us" "v \<in> set ?us" "usr_instance_id (?g u) \<noteq> None"
        "usr_instance_id (?g u) = usr_instance_id (?g v)" for u v
    proof (cases "?P u \<or> ?P v")
      case True
      with other that have "?P u" "?P v" by (auto split: if_splits)
      with one that(1,2) show ?thesis by metis
    next
      case False
      with that old show ?thesis unfolding bindings_unique_def by simp
    qed
    then show ?thesis unfolding bindings_unique_def upd_where_def set_map by blast
  qed
  moreover have "bindings_exist (inst_ID ` set (db_instances db)) ?us \<Longrightarrow>
      bindings_exist (inst_ID ` set (db_instances db)) (upd_where ?P ?f ?us)"
    using fk unfolding bindings_exist_def upd_where_def by auto
  ultimately show ?thesis
    using upd_names [of ?f] by (simp add: cloud_keeps_def cloud_only_def db' cloud_inv_def)
qed

lemma stmt_set_instance_keeps:
  assumes "stmt_set_instance username iid now db = Inr (n, db')"
  shows "cloud_keeps db db'"
proof (cases "iid = ''''")
  case True
  with assms show ?thesis
    by (intro stmt_update_user_keeps
          [of username "\<lambda>u. u\<lparr>usr_instance_id := None, usr_updated_at := now\<rparr>" db n])
      (simp_all add: stmt_set_instance_def)
next
  case False
  with assms show ?thesis by (auto simp: stmt_set_instance_def intro: stmt_bind_user_keeps)
qed

lemma stmt_delete_user_keeps:
  assumes "stmt_delete_user username db = Inr (n, db')"
  shows "cloud_keeps db db'"
proof (cases "n = 0")
  case True
  with assms show ?thesis by (auto simp: stmt_delete_user_def Let_def split: if_splits)
next
  case False
  let ?us = "del_where (\<lambda>u. nocase (usr_username u) username) (db_cloud_users db)"
  let ?ss = "del_where (\<lambda>s. nocase (ses_user_id s) username) (db_cloud_sessions db)"
  from False assms have db': "db' = db\<lparr>db_cloud_users := ?us, db_cloud_sessions := ?ss\<rparr>"
    by (auto simp: stmt_delete_user_def Let_def simp del: RowsAffected_0)
  have "names_distinct (db_cloud_users db) \<Longrightarrow> names_distinct ?us"
    unfolding names_distinct_def by (rule distinct_del_where)
  moreover have "bindings_unique (db_cloud_users db) \<Longrightarrow> bindings_unique ?us"
    unfolding bindings_unique_def by (auto simp: set_del_where)
  moreover have "bindings_exist iids (db_cloud_users db) \<Longrightarrow> bindings_exist iids ?us" for iids
    unfolding bindings_exist_def by (auto simp: set_del_where)
  moreover have "sessions_owned (db_cloud_users db) (db_cloud_sessions db) \<Longrightarrow> sessions_owned ?us ?ss"
    unfolding sessions_owned_def set_del_where nocase_def by (auto simp: set_del_where) metis
  ultimately show ?thesis
    by (simp add: cloud_keeps_def cloud_only_def db' cloud_inv_def distinct_del_where)
qed

lemma stmt_insert_session_keeps:
  assumes "stmt_insert_session s db = Inr (n, db')"
  shows "cloud_keeps db db'"
proof -
  from assms have no: "\<forall>x \<in> set (db_cloud_sessions db). ses_token_hash x \<noteq> ses_token_hash s"
    and fk: "\<exists>u \<in> set (db_cloud_users db). nocase (usr_username u) (ses_user_id s)"
    and db': "db' = db\<lparr>db_cloud_sessions := db_cloud_sessions db @ [s]\<rparr>"
    by (auto simp: stmt_insert_session_def split: if_splits)
  have "sessions_owned (db_cloud_users db) (db_cloud_sessions db) \<Longrightarrow>
      sessions_owned (db_cloud_users db) (db_cloud_sessions db @ [s])"
    using fk by (auto simp: sessions_owned_def)
  moreover have "ses_token_hash s \<notin> ses_token_hash ` set (db_cloud_sessions db)"
    using no by (metis imageE)
  ultimately have "cloud_inv db'" if "cloud_inv db"
    using that by (simp add: cloud_inv_def db')
  then show ?thesis by (simp add: cloud_keeps_def cloud_only_def db')
qed

lemma stmt_delete_sessions_keeps:
  "stmt_delete_sessions P db = Inr (n, db') \<Longrightarrow> cloud_keeps db db'"
  by (auto simp: stmt_delete_sessions_def cloud_keeps_def cloud_only_def cloud_inv_def set_del_where
      distinct_del_where sessions_owned_def)

section \<open>Every operation keeps the invariant\<close>

lemma cloud_keeps_query: "db_query q db = (r, db') \<Longrightarrow> cloud_keeps db db'"
  using db_query_same cloud_keeps_same by blast

lemma UserStore_Create_keeps: "cloud_keeps db (snd (UserStore_Create bgen now u p db))"
proof -
  have "cloud_keeps db db'" if "db_exec (stmt_insert_user r) db = (x, db')" "usr_instance_id r = None" for r x db'
    using cloud_keeps_exec [OF _ that(1)] stmt_insert_user_keeps that(2) by blast
  then show ?thesis
    by (auto simp: UserStore_Create_def split: sum.splits prod.splits)
qed

lemma user_affected_snd [simp]: "snd (user_affected msg res) = snd res"
  by (auto simp: user_affected_def split: prod.splits sum.splits)

lemma cloud_keeps_exec_snd:
  "(\<And>n db1. stmt (db_tick db) = Inr (n, db1) \<Longrightarrow> cloud_keeps (db_tick db) db1) \<Longrightarrow>
     cloud_keeps db (snd (db_exec stmt db))"
  by (cases "db_exec stmt db") (auto intro: cloud_keeps_exec)

lemma UserStore_Delete_keeps: "cloud_keeps db (snd (UserStore_Delete u db))"
  unfolding UserStore_Delete_def user_affected_snd
  by (rule cloud_keeps_exec_snd) (rule stmt_delete_user_keeps)

lemma UserStore_SetInstanceID_keeps: "cloud_keeps db (snd (UserStore_SetInstanceID now u i db))"
  unfolding UserStore_SetInstanceID_def user_affected_snd
  by (rule cloud_keeps_exec_snd) (rule stmt_set_instance_keeps)

lemma UserStore_Get_same: "same_tables db (snd (UserStore_Get u db))"
  by (cases "db_query (sel_user u) db")
    (auto simp: UserStore_Get_def dest: db_query_same split: sum.splits option.splits)

lemma and_then_keeps:
  assumes "cloud_keeps db (snd r)" and "\<And>db1. cloud_keeps db1 (snd (k db1))"
  shows "cloud_keeps db (snd (and_then r k))"
proof (cases r)
  case (Pair x db1)
  with assms(1) have a: "cloud_keeps db db1" by simp
  have "cloud_keeps db (snd (k db1))" using a assms(2) by (rule cloud_keeps_trans)
  with a Pair show ?thesis by (cases x) (auto simp: and_then_def)
qed

lemma update_password_step_keeps: "cloud_keeps db (snd (update_password_step bgen now u p db))"
proof -
  have "cloud_keeps db db'"
    if "db_exec (stmt_update_user u (\<lambda>u. u\<lparr>usr_password_hash := h, usr_updated_at := now\<rparr>)) db = (x, db')"
    for h x db'
    by (rule cloud_keeps_exec [OF _ that], erule stmt_update_user_keeps) simp_all
  then show ?thesis
    by (auto simp: update_password_step_def split: option.splits sum.splits prod.splits)
qed

lemma update_instance_step_keeps: "cloud_keeps db (snd (update_instance_step now u i db))"
proof -
  have "cloud_keeps db db'" if "db_exec (stmt_set_instance u j now) db = (x, db')" for j x db'
    by (rule cloud_keeps_exec [OF _ that]) (rule stmt_set_instance_keeps)
  then show ?thesis
    by (auto simp: update_instance_step_def split: option.splits sum.splits prod.splits)
qed

lemma update_touch_step_keeps: "cloud_keeps db (snd (update_touch_step now u b db))"
proof -
  have "cloud_keeps db db'"
    if "db_exec (stmt_update_user u (\<lambda>u. u\<lparr>usr_updated_at := now\<rparr>)) db = (x, db')" for x db'
    by (rule cloud_keeps_exec [OF _ that], erule stmt_update_user_keeps) simp_all
  then show ?thesis
    by (auto simp: update_touch_step_def split: sum.splits prod.splits)
qed

lemma db_exec_none_same: "same_tables db (snd (db_exec stmt_none db))"
  by (auto simp: db_exec_def stmt_none_def split: option.splits)

lemma update_body_keeps: "cloud_keeps db (snd (update_body bgen now u p i db))"
proof (cases "db_query (sel_user u) db")
  case (Pair r db1)
  have q: "cloud_keeps db db1" using Pair by (rule cloud_keeps_query)
  have c: "cloud_keeps d (snd (case db_exec stmt_none d of
      (Inl e, db5) \<Rightarrow> (Inl (Wrap ''cloud: commit update'' e), db5) | (Inr _, db5) \<Rightarrow> (Inr (), db5)))"
    for d :: registry_db
    using cloud_keeps_same [OF db_exec_none_same, of d] by (auto split: prod.splits sum.splits)
  let ?rest = "and_then (update_password_step bgen now u p db1) (\<lambda>db2.
      and_then (update_instance_step now u i db2) (\<lambda>db3.
      and_then (update_touch_step now u (p = None \<and> i = None) db3) (\<lambda>db4.
        case db_exec stmt_none db4 of
          (Inl e, db5) \<Rightarrow> (Inl (Wrap ''cloud: commit update'' e), db5)
        | (Inr _, db5) \<Rightarrow> (Inr (), db5))))"
  have "cloud_keeps db1 (snd ?rest)"
    by (intro and_then_keeps update_password_step_keeps update_instance_step_keeps
        update_touch_step_keeps c)
  with q have "cloud_keeps db (snd ?rest)" by (rule cloud_keeps_trans)
  with q Pair show ?thesis
    by (cases r) (auto simp: update_body_def split: option.splits)
qed

lemma UserStore_Update_keeps: "cloud_keeps db (snd (UserStore_Update bgen now u p i db))"
proof (cases "db_exec stmt_none db")
  case (Pair r db1)
  have k: "cloud_keeps db db1"
    using cloud_keeps_same [OF db_exec_none_same, of db] Pair by simp
  show ?thesis
  proof (cases "update_body bgen now u p i db1")
    case ub: (Pair r2 db2)
    from cloud_keeps_trans [OF k update_body_keeps] ub have "cloud_keeps db db2" by (metis snd_conv)
    then have "cloud_keeps db (snd (UserStore_Get u db2))"
      using cloud_keeps_trans cloud_keeps_same UserStore_Get_same by blast
    with k Pair ub show ?thesis
      by (cases r; cases r2) (auto simp: UserStore_Update_def intro: cloud_keeps_same)
  qed
qed

lemma SessionStore_Create_keeps: "cloud_keeps db (snd (SessionStore_Create sha rnd now u ttl db))"
proof -
  have "cloud_keeps db db'" if "db_exec (stmt_insert_session s) db = (x, db')" for s x db'
    by (rule cloud_keeps_exec [OF _ that]) (rule stmt_insert_session_keeps)
  then show ?thesis
    by (auto simp: SessionStore_Create_def Let_def split: sum.splits prod.splits)
qed

lemma delete_sessions_keeps: "db_exec (stmt_delete_sessions P) db = (x, db') \<Longrightarrow> cloud_keeps db db'"
  by (erule cloud_keeps_exec [rotated]) (rule stmt_delete_sessions_keeps)

lemma SessionStore_deleteByHash_keeps: "cloud_keeps db (snd (SessionStore_deleteByHash h db))"
  by (auto simp: SessionStore_deleteByHash_def intro: delete_sessions_keeps split: prod.splits sum.splits)

lemma SessionStore_DeleteByUser_keeps: "cloud_keeps db (snd (SessionStore_DeleteByUser u db))"
  by (auto simp: SessionStore_DeleteByUser_def intro: delete_sessions_keeps split: prod.splits sum.splits)

lemma SessionStore_PurgeExpired_keeps: "cloud_keeps db (snd (SessionStore_PurgeExpired now db))"
  by (auto simp: SessionStore_PurgeExpired_def intro: delete_sessions_keeps split: prod.splits sum.splits)

lemma SessionStore_Validate_keeps: "cloud_keeps db (snd (SessionStore_Validate sha now token db))"
proof (cases "db_query (\<lambda>d. query_row (\<lambda>s. ses_token_hash s = sessionHash sha token) (db_cloud_sessions d)) db")
  case (Pair r db1)
  have q: "cloud_keeps db db1" using Pair by (rule cloud_keeps_query)
  have "cloud_keeps db (snd (SessionStore_deleteByHash (sessionHash sha token) db1))"
    using q SessionStore_deleteByHash_keeps by (rule cloud_keeps_trans)
  with q Pair show ?thesis
    by (auto simp: SessionStore_Validate_def Let_def split: sum.splits option.splits)
qed

text \<open>The registry's own statements, as seen from the users table.\<close>

lemma cloud_inv_instances:
  assumes "cloud_inv db" "inst_ID ` set (db_instances db) \<subseteq> inst_ID ` set (db_instances db')"
    and "db_cloud_users db' = db_cloud_users db" "db_cloud_sessions db' = db_cloud_sessions db"
  shows "cloud_inv db'"
  using assms unfolding cloud_inv_def bindings_exist_def by (metis subsetD)

lemma stmt_upsert_cloud:
  assumes "cloud_inv db" "stmt_upsert_instance r db = Inr (n, db')"
  shows "cloud_inv db'"
proof (rule cloud_inv_instances [OF assms(1)])
  show "inst_ID ` set (db_instances db) \<subseteq> inst_ID ` set (db_instances db')"
  proof -
    have "set (map inst_ID (upd_where P (excluded_into r) t)) = set (map inst_ID t)" for P t
      by (subst map_upd_where) simp_all
    then have "inst_ID ` set (upd_where P (excluded_into r) t) = inst_ID ` set t" for P t
      by simp
    with assms(2) show ?thesis by (auto simp: stmt_upsert_instance_def split: if_splits)
  qed
qed (use assms(2) in \<open>auto simp: stmt_upsert_instance_def split: if_splits\<close>)

lemma stmt_update_cloud:
  assumes "cloud_inv db" "stmt_update_instance iid f db = Inr (n, db')"
    and f: "\<And>r. inst_ID (f r) = inst_ID r"
  shows "cloud_inv db'"
proof (rule cloud_inv_instances [OF assms(1)])
  have "set (map inst_ID (upd_where P f t)) = set (map inst_ID t)" for P t
    by (subst map_upd_where) (simp_all add: f)
  with assms(2) show "inst_ID ` set (db_instances db) \<subseteq> inst_ID ` set (db_instances db')"
    by (auto simp: stmt_update_instance_def simp del: set_map simp: set_map [symmetric])
qed (use assms(2) in \<open>auto simp: stmt_update_instance_def\<close>)

lemma stmt_delete_cloud:
  assumes "cloud_inv db" "stmt_delete_instance iid db = Inr (n, db')"
  shows "cloud_inv db'"
proof -
  let ?f = "\<lambda>u. u\<lparr>usr_instance_id := None\<rparr>" and ?P = "\<lambda>u. usr_instance_id u = Some iid"
  let ?us = "db_cloud_users db" and ?iids = "inst_ID ` set (db_instances db)"
  have i: "inst_ID ` set (db_instances db') = ?iids - {iid}"
    using assms(2) by (auto simp: stmt_delete_instance_def set_del_where)
  show ?thesis
  proof (cases "iid \<in> ?iids")
    case False
    with assms(2) have "db_cloud_users db' = ?us" "db_cloud_sessions db' = db_cloud_sessions db"
      by (auto simp: stmt_delete_instance_def)
    with assms(1) i False show ?thesis by (intro cloud_inv_instances [OF assms(1)]) auto
  next
    case True
    with assms(2) have db': "db_cloud_users db' = upd_where ?P ?f ?us"
        "db_cloud_sessions db' = db_cloud_sessions db"
      by (auto simp: stmt_delete_instance_def)
    have "bindings_exist (?iids - {iid}) (upd_where ?P ?f ?us)"
      using assms(1) by (auto simp: cloud_inv_def bindings_exist_def upd_where_def)
    moreover have "bindings_unique (upd_where ?P ?f ?us)"
      using assms(1) by (intro upd_bindings_unique) (auto simp: cloud_inv_def)
    ultimately show ?thesis
      using assms(1) upd_names [of ?f] by (simp add: cloud_inv_def db' i)
  qed
qed

lemma Registry_ops_cloud:
  assumes "cloud_inv db"
  shows "cloud_inv (snd (Registry_Create sha now inst db))"
    and "cloud_inv (snd (Registry_UpdateStatus iid st db))"
    and "cloud_inv (snd (Registry_UpdateImageDigest iid dg db))"
    and "cloud_inv (snd (Registry_UpdateQueryToken sha iid tok db))"
    and "cloud_inv (snd (Registry_Delete iid db))"
proof -
  from assms have t: "cloud_inv (db_tick db)" by simp
  have "cloud_inv db1" if "db_exec (stmt_upsert_instance r) db = (x, db1)" for r x db1
    using cloud.inv_exec [OF assms _ that] stmt_upsert_cloud [OF t] by blast
  then show "cloud_inv (snd (Registry_Create sha now inst db))"
    by (auto simp: Registry_Create_def split: prod.splits sum.splits)
  show "cloud_inv (snd (Registry_UpdateStatus iid st db))"
    unfolding Registry_UpdateStatus_def
    by (rule cloud.inv_affected [OF assms], erule stmt_update_cloud [OF t]) simp
  show "cloud_inv (snd (Registry_UpdateImageDigest iid dg db))"
    unfolding Registry_UpdateImageDigest_def
    by (rule cloud.inv_affected [OF assms], erule stmt_update_cloud [OF t]) simp
  show "cloud_inv (snd (Registry_UpdateQueryToken sha iid tok db))"
    unfolding Registry_UpdateQueryToken_def
    by (rule cloud.inv_affected [OF assms], erule stmt_update_cloud [OF t]) simp
  show "cloud_inv (snd (Registry_Delete iid db))"
    unfolding Registry_Delete_def
    by (rule cloud.inv_affected [OF assms], erule stmt_delete_cloud [OF t])
qed

text \<open>Operations on instances leave the key table alone, and key operations leave everything
  else alone.\<close>

definition same_keys :: "registry_db \<Rightarrow> registry_db \<Rightarrow> bool" where
  "same_keys db db' \<longleftrightarrow> db_signing_keys db' = db_signing_keys db \<and> db_next_key_id db' = db_next_key_id db"

lemma same_keys_inv: "same_keys db db' \<Longrightarrow> keys_inv db' = keys_inv db"
  by (simp add: same_keys_def keys_inv_def)

lemma Registry_ops_same_keys:
  "same_keys db (snd (Registry_Create sha now inst db))"
  "same_keys db (snd (Registry_UpdateStatus iid st db))"
  "same_keys db (snd (Registry_UpdateImageDigest iid dg db))"
  "same_keys db (snd (Registry_UpdateQueryToken sha iid tok db))"
  "same_keys db (snd (Registry_Delete iid db))"
  by (auto simp: same_keys_def Registry_Create_def Registry_UpdateStatus_def Registry_UpdateImageDigest_def
      Registry_UpdateQueryToken_def Registry_Delete_def driver_defs stmt_upsert_instance_def
      stmt_update_instance_def stmt_delete_instance_def split: option.splits)

definition keys_only :: "registry_db \<Rightarrow> registry_db \<Rightarrow> bool" where
  "keys_only db db' \<longleftrightarrow>
     db_instances db' = db_instances db \<and> db_cloud_users db' = db_cloud_users db \<and>
     db_cloud_sessions db' = db_cloud_sessions db"

lemma keys_only_inv:
  "keys_only db db' \<Longrightarrow> instances_inv sha db' = instances_inv sha db \<and> cloud_inv db' = cloud_inv db"
  by (simp add: keys_only_def instances_inv_def cloud_inv_def)

lemma insert_and_commit_keys_only:
  "keys_only db0 db \<Longrightarrow> keys_only db0 (snd (insert_and_commit what rnd now db0 db))"
  by (auto simp: keys_only_def insert_and_commit_def db_exec_def stmt_insert_key_def stmt_none_def
      split: sum.splits option.splits)

lemma key_ops_keys_only:
  "keys_only db (snd (Registry_EnsureSigningKey rnd now db))"
  "keys_only db (snd (Registry_RotateSigningKey rnd now db))"
proof -
  have r: "keys_only db (tx_rollback db d)" for d by (simp add: keys_only_def)
  have t: "keys_only db (db_tick (db_tick db))" by (simp add: keys_only_def)
  show "keys_only db (snd (Registry_EnsureSigningKey rnd now db))"
    using r insert_and_commit_keys_only [OF t]
    by (auto simp: Registry_EnsureSigningKey_def db_exec_def db_query_def stmt_none_def keys_only_def
        split: option.splits)
  have d: "keys_only db db1" if "stmt_deactivate_keys (db_tick (db_tick db)) = Inr (n, db1)" for n db1
    using that by (auto simp: stmt_deactivate_keys_def keys_only_def)
  show "keys_only db (snd (Registry_RotateSigningKey rnd now db))"
    using r insert_and_commit_keys_only [OF d]
    by (auto simp: Registry_RotateSigningKey_def db_exec_def stmt_none_def keys_only_def
        split: option.splits sum.splits)
qed

section \<open>The database as a state machine\<close>

definition db_inv :: "(string \<Rightarrow> string) \<Rightarrow> registry_db \<Rightarrow> bool" where
  "db_inv sha db \<longleftrightarrow> instances_inv sha db \<and> keys_inv db \<and> cloud_inv db"

definition empty_db :: "go_error option list \<Rightarrow> registry_db" where
  "empty_db faults = \<lparr>db_instances = [], db_signing_keys = [], db_next_key_id = 1,
     db_cloud_users = [], db_cloud_sessions = [], db_faults = faults\<rparr>"

text \<open>One step is one call of one component; arguments, random bytes, clock readings and bcrypt
  results are arbitrary. The operations other than \<open>Create\<close> are the updates; reading operations
  change no table.\<close>

inductive update_step :: "(string \<Rightarrow> string) \<Rightarrow> registry_db \<Rightarrow> registry_db \<Rightarrow> bool" for sha where
  step_status: "update_step sha db (snd (Registry_UpdateStatus iid st db))"
| step_image: "update_step sha db (snd (Registry_UpdateImageDigest iid dg db))"
| step_token: "update_step sha db (snd (Registry_UpdateQueryToken sha iid tok db))"
| step_delete: "update_step sha db (snd (Registry_Delete iid db))"
| step_query: "same_tables db db' \<Longrightarrow> update_step sha db db'"
| step_ensure_key: "update_step sha db (snd (Registry_EnsureSigningKey rnd nows db))"
| step_rotate_key: "update_step sha db (snd (Registry_RotateSigningKey rnd nows db))"
| step_user_create: "update_step sha db (snd (UserStore_Create bgen nows u p db))"
| step_user_update: "update_step sha db (snd (UserStore_Update bgen nows u po io db))"
| step_user_delete: "update_step sha db (snd (UserStore_Delete u db))"
| step_user_bind: "update_step sha db (snd (UserStore_SetInstanceID nows u i db))"
| step_session_create: "update_step sha db (snd (SessionStore_Create sha rnd t u ttl db))"
| step_session_validate: "update_step sha db (snd (SessionStore_Validate sha t tok db))"
| step_session_delete: "update_step sha db (snd (SessionStore_Delete sha tok db))"
| step_session_delete_user: "update_step sha db (snd (SessionStore_DeleteByUser u db))"
| step_session_purge: "update_step sha db (snd (SessionStore_PurgeExpired t db))"

inductive db_step :: "(string \<Rightarrow> string) \<Rightarrow> registry_db \<Rightarrow> registry_db \<Rightarrow> bool" for sha where
  step_create: "db_step sha db (snd (Registry_Create sha now inst db))"
| step_update: "update_step sha db db' \<Longrightarrow> db_step sha db db'"

inductive db_reachable :: "(string \<Rightarrow> string) \<Rightarrow> registry_db \<Rightarrow> bool" for sha where
  reach_init: "db_reachable sha (empty_db faults)"
| reach_step: "db_reachable sha db \<Longrightarrow> db_step sha db db' \<Longrightarrow> db_reachable sha db'"

lemma db_inv_empty: "db_inv sha (empty_db faults)"
  by (simp add: db_inv_def empty_db_def instances_inv_def keys_inv_def cloud_inv_def
      names_distinct_def bindings_unique_def bindings_exist_def sessions_owned_def)

lemma db_inv_cloud_keeps: "db_inv sha db \<Longrightarrow> cloud_keeps db db' \<Longrightarrow> db_inv sha db'"
  by (simp add: db_inv_def cloud_keeps_def cloud_only_def instances_inv_def keys_inv_def)

lemma db_inv_instances:
  "instances_inv sha db' \<Longrightarrow> cloud_inv db' \<Longrightarrow> same_keys db db' \<Longrightarrow> db_inv sha db \<Longrightarrow> db_inv sha db'"
  using same_keys_inv by (simp add: db_inv_def)

lemma db_inv_keys:
  assumes "db_inv sha db"
  shows "db_inv sha (snd (Registry_EnsureSigningKey rnd now db))"
    and "db_inv sha (snd (Registry_RotateSigningKey rnd now db))"
  using assms keys_only_inv [OF key_ops_keys_only(1)] keys_only_inv [OF key_ops_keys_only(2)]
    EnsureSigningKey_cases [of db rnd now] RotateSigningKey_cases [of db rnd now]
  unfolding db_inv_def by (metis prod.collapse)+

lemma update_step_inv:
  assumes "update_step sha db db'" "db_inv sha db"
  shows "db_inv sha db'"
proof -
  from assms(2) have i: "instances_inv sha db" "cloud_inv db" by (auto simp: db_inv_def)
  from assms(1) show ?thesis
  proof cases
    case (step_status iid st)
    then show ?thesis
      using db_inv_instances [OF Registry_update_inv(1) [OF i(1)] Registry_ops_cloud(2) [OF i(2)]
          Registry_ops_same_keys(2) assms(2)] by blast
  next
    case (step_image iid dg)
    then show ?thesis
      using db_inv_instances [OF Registry_update_inv(2) [OF i(1)] Registry_ops_cloud(3) [OF i(2)]
          Registry_ops_same_keys(3) assms(2)] by blast
  next
    case (step_token iid tok)
    then show ?thesis
      using db_inv_instances [OF Registry_update_inv(3) [OF i(1)] Registry_ops_cloud(4) [OF i(2)]
          Registry_ops_same_keys(4) assms(2)] by blast
  next
    case (step_delete iid)
    then show ?thesis
      using db_inv_instances [OF Registry_update_inv(4) [OF i(1)] Registry_ops_cloud(5) [OF i(2)]
          Registry_ops_same_keys(5) assms(2)] by blast
  qed (use db_inv_keys [OF assms(2)] db_inv_cloud_keeps [OF assms(2)] cloud_keeps_same UserStore_Create_keeps
      UserStore_Update_keeps UserStore_Delete_keeps UserStore_SetInstanceID_keeps
      SessionStore_Create_keeps SessionStore_Validate_keeps SessionStore_deleteByHash_keeps
      SessionStore_DeleteByUser_keeps SessionStore_PurgeExpired_keeps SessionStore_Delete_def in metis)+
qed

lemma Registry_Create_db_inv:
  assumes "db_inv sha db"
  shows "db_inv sha (snd (Registry_Create sha now inst db))"
  using assms db_inv_instances [OF Registry_Create_inv Registry_ops_cloud(1) Registry_ops_same_keys(1) assms]
  by (simp add: db_inv_def)

lemma db_step_inv: "db_step sha db db' \<Longrightarrow> db_inv sha db \<Longrightarrow> db_inv sha db'"
  by (induction rule: db_step.induct) (auto intro: Registry_Create_db_inv update_step_inv)

text \<open>No update adds an instance or changes a port.\<close>

lemma update_rows:
  assumes "\<And>r. inst_Port (f r) = inst_Port r"
  shows "inst_Port ` set (upd_where P f t) = inst_Port ` set t"
proof -
  have "map inst_Port (upd_where P f t) = map inst_Port t" by (rule map_upd_where) (rule assms)
  then show ?thesis by (metis set_map)
qed

definition shrinks :: "registry_db \<Rightarrow> registry_db \<Rightarrow> bool" where
  "shrinks db db' \<longleftrightarrow> length (db_instances db') \<le> length (db_instances db) \<and>
     inst_Port ` set (db_instances db') \<subseteq> inst_Port ` set (db_instances db)"

lemma update_step_shrinks:
  assumes "update_step sha db db'"
  shows "shrinks db db'"
proof -
  have upd: "shrinks db (snd (affected_or_not_found m (db_exec (stmt_update_instance iid f) db)))"
    if "\<And>r. inst_Port (f r) = inst_Port r" for m iid and f :: "instance_row \<Rightarrow> instance_row"
    using update_rows [of f, OF that]
    by (auto simp: shrinks_def driver_defs stmt_update_instance_def length_upd_where split: option.splits)
  have del: "shrinks db (snd (Registry_Delete iid db))" for iid
    by (auto simp: shrinks_def Registry_Delete_def driver_defs stmt_delete_instance_def set_del_where
        length_del_where_le split: option.splits)
  have same: "shrinks db d" if "db_instances d = db_instances db" for d
    using that by (simp add: shrinks_def)
  have cloud: "shrinks db d" if "cloud_keeps db d" for d
    using that by (intro same) (simp add: cloud_keeps_def cloud_only_def)
  have keys: "shrinks db d" if "keys_only db d" for d
    using that by (intro same) (simp add: keys_only_def)
  from assms show ?thesis
  proof cases
    case (step_status iid st)
    then show ?thesis unfolding Registry_UpdateStatus_def by (simp add: upd)
  next
    case (step_image iid dg)
    then show ?thesis unfolding Registry_UpdateImageDigest_def by (simp add: upd)
  next
    case (step_token iid tok)
    then show ?thesis unfolding Registry_UpdateQueryToken_def by (simp add: upd)
  next
    case step_query
    then show ?thesis by (intro same) (simp add: same_tables_def)
  qed (use del cloud keys key_ops_keys_only UserStore_Create_keeps UserStore_Update_keeps
      UserStore_Delete_keeps UserStore_SetInstanceID_keeps SessionStore_Create_keeps
      SessionStore_Validate_keeps SessionStore_deleteByHash_keeps SessionStore_DeleteByUser_keeps
      SessionStore_PurgeExpired_keeps SessionStore_Delete_def in metis)+
qed

lemma db_reachable_inv: "db_reachable sha db \<Longrightarrow> db_inv sha db"
  by (induction rule: db_reachable.induct) (auto intro: db_inv_empty db_step_inv)

section \<open>Accounts and sessions: behaviour\<close>

lemma sel_user_append:
  assumes "\<not> (\<exists>x \<in> set (db_cloud_users db). nocase (usr_username x) (usr_username u))"
    and "nocase name (usr_username u)"
  shows "sel_user name (db\<lparr>db_cloud_users := db_cloud_users db @ [u]\<rparr>) = Some u"
proof -
  have "query_row (\<lambda>x. nocase (usr_username x) name) (db_cloud_users db) = None"
    using assms by (auto simp: query_row_None_iff nocase_def)
  moreover have "nocase (usr_username u) name" using assms(2) nocase_sym by blast
  ultimately show ?thesis by (simp add: sel_user_def query_row_append)
qed

text \<open>A user created with password \<open>p\<close> can log in under any capitalisation of the name exactly
  with the passwords that bcrypt accepts for the stored hash of \<open>p\<close>; the answer is the created
  account, and every other password gets \<^verbatim>\<open>ErrInvalidCredentials\<close>.\<close>

theorem create_then_authenticate:
  assumes "UserStore_Create bgen now u p db = (Inr usr, db1)" and "bgen p = Inr h"
    and "nocase name u" and "db_fault db1 = None"
  shows "fst (UserStore_Authenticate bcmp name q db1) =
     (if bcmp h q then Inr usr else Inl ErrInvalidCredentials)"
proof -
  let ?row = "\<lparr>usr_username = u, usr_password_hash = h, usr_instance_id = None,
      usr_created_at = now, usr_updated_at = now\<rparr>"
  from assms(1,2) obtain n where ex: "db_exec (stmt_insert_user ?row) db = (Inr n, db1)"
    and usr: "usr = user_of_row ?row"
    by (auto simp: UserStore_Create_def user_of_row_def split: if_splits prod.splits sum.splits)
  then have st: "stmt_insert_user ?row (db_tick db) = Inr (n, db1)" by (simp add: db_exec_Inr)
  then have "sel_user name db1 = Some ?row"
    using sel_user_append [of "db_tick db" ?row name] assms(3)
    by (auto simp: stmt_insert_user_def split: if_splits)
  then have "sel_user name (db_tick db1) = Some ?row" by (simp add: sel_user_def)
  with assms(4) usr show ?thesis
    by (simp add: UserStore_Authenticate_def db_query_def)
qed

theorem create_then_authenticate_witness:
  "fst (UserStore_Authenticate (\<lambda>h q. h = ''$'' @ q) ''BOB'' ''pw''
     (snd (UserStore_Create (\<lambda>p. Inr (''$'' @ p)) ''t'' ''bob'' ''pw'' (empty_db [])))) =
   Inr \<lparr>cu_Username = ''bob'', cu_InstanceID = None, cu_CreatedAt = ''t'', cu_UpdatedAt = ''t''\<rparr>"
proof -
  let ?r = "UserStore_Create (\<lambda>p. Inr (''$'' @ p)) ''t'' ''bob'' ''pw'' (empty_db [])"
  have "fst ?r = Inr \<lparr>cu_Username = ''bob'', cu_InstanceID = None, cu_CreatedAt = ''t'', cu_UpdatedAt = ''t''\<rparr>"
    "db_fault (snd ?r) = None" "nocase ''BOB'' ''bob''"
    by code_simp+
  with create_then_authenticate
    [of "\<lambda>p. Inr (''$'' @ p)" "''t''" "''bob''" "''pw''" "empty_db []" "projr (fst ?r)" "snd ?r" "''$pw''"
      "''BOB''" "\<lambda>h q. h = ''$'' @ q" "''pw''"]
  show ?thesis by (metis append_Cons append_Nil prod.collapse sum.sel(2))
qed

lemma session_row_of_hash:
  assumes "distinct (map ses_token_hash ss)" "s \<in> set ss"
  shows "query_row (\<lambda>x. ses_token_hash x = ses_token_hash s) ss = Some s"
  using query_row_unique [OF assms] .

text \<open>What validation answers, as a function of the stored row.\<close>

definition live_session :: "(string \<Rightarrow> string) \<Rightarrow> int \<Rightarrow> string \<Rightarrow> registry_db \<Rightarrow> session_row option" where
  "live_session sha now token db =
     (case query_row (\<lambda>s. ses_token_hash s = sessionHash sha token) (db_cloud_sessions db) of
        None \<Rightarrow> None
      | Some s \<Rightarrow> if now > of_sec (ses_expires_at s) then None else Some s)"

lemma Validate_live:
  assumes "db_fault db = None"
  shows "fst (SessionStore_Validate sha now token db) =
     (case live_session sha now token db of None \<Rightarrow> Inl ErrSessionNotFound | Some s \<Rightarrow> Inr s)"
  using assms
  by (auto simp: SessionStore_Validate_def live_session_def db_query_def Let_def split: option.splits)

text \<open>The token a successful session creation returns validates, to the session created, up to
  and including the expiry second (the creation time plus the lifetime, truncated to seconds), and
  is refused as unknown from then on.\<close>

theorem session_lifetime:
  assumes "SessionStore_Create sha rnd t u ttl db = (Inr (tok, s), db1)" and "db_fault db1 = None"
  shows "fst (SessionStore_Validate sha t' tok db1) =
     (if t' \<le> of_sec (to_sec (t + ttl)) then Inr s else Inl ErrSessionNotFound)"
proof -
  from assms(1) obtain raw where raw: "rnd = Inr raw" and tok: "tok = hex_encode raw"
    and s: "s = \<lparr>ses_token_hash = sessionHash sha tok, ses_user_id = u,
        ses_created_at = to_sec t, ses_expires_at = to_sec (t + ttl)\<rparr>"
    and ex: "\<exists>n. db_exec (stmt_insert_session s) db = (Inr n, db1)"
    by (auto simp: SessionStore_Create_def Let_def split: if_splits prod.splits sum.splits)
  then have "query_row (\<lambda>x. ses_token_hash x = sessionHash sha tok) (db_cloud_sessions db1) = Some s"
    by (auto simp: db_exec_Inr stmt_insert_session_def query_row_append s split: if_splits option.splits
        dest!: query_row_SomeD)
  then have "live_session sha t' tok db1 = (if t' \<le> of_sec (to_sec (t + ttl)) then Some s else None)"
    by (simp add: live_session_def s)
  with Validate_live [OF assms(2)] show ?thesis by simp
qed

definition one_user_db :: registry_db where
  "one_user_db = snd (UserStore_Create Inr ''t'' ''bob'' ''pw'' (empty_db []))"

lemma one_user_db_reachable: "db_reachable sha one_user_db"
  unfolding one_user_db_def by (rule reach_step [OF reach_init step_update [OF step_user_create]])

theorem session_lifetime_witness:
  "fst (SessionStore_Validate (\<lambda>x. x) 5000000000 ''4142''
     (snd (SessionStore_Create (\<lambda>x. x) (Inr ''AB'') 1500000000 ''bob'' 4000000000 one_user_db)))
   = Inr \<lparr>ses_token_hash = hex_encode ''4142'', ses_user_id = ''bob'', ses_created_at = 1, ses_expires_at = 5\<rparr>"
proof -
  let ?r = "SessionStore_Create (\<lambda>x. x) (Inr ''AB'') 1500000000 ''bob'' 4000000000 one_user_db"
  let ?s = "\<lparr>ses_token_hash = hex_encode ''4142'', ses_user_id = ''bob'', ses_created_at = 1, ses_expires_at = 5\<rparr>"
  have "fst ?r = Inr (''4142'', ?s)" "db_fault (snd ?r) = None" by code_simp+
  then have "?r = (Inr (''4142'', ?s), snd ?r)" "db_fault (snd ?r) = None" by (simp_all only: prod_eq_iff fst_conv snd_conv)
  from session_lifetime [OF this, of 5000000000] show ?thesis by (simp add: of_sec_def to_sec_def)
qed

lemma query_row_filter_other:
  "(\<And>r. P r \<Longrightarrow> r \<in> set t \<Longrightarrow> \<not> Q r) \<Longrightarrow> query_row P (del_where Q t) = query_row P t"
  by (induction t) (auto simp: del_where_def)

lemma to_sec_less: "e < to_sec t \<Longrightarrow> of_sec e < t"
  unfolding to_sec_def of_sec_def by linarith

text \<open>The background purge is invisible to clients: in any reachable database, purging at a time
  \<open>t\<close> changes what validation finds for no token at \<open>t\<close> or later.\<close>

theorem purge_invisible:
  assumes "db_reachable sha db" and "t \<le> t'"
  shows "live_session sha t' tok (snd (SessionStore_PurgeExpired t db)) = live_session sha t' tok db"
proof -
  let ?P = "\<lambda>s. ses_token_hash s = sessionHash sha tok" and ?Q = "\<lambda>s. ses_expires_at s < to_sec t"
  let ?ss = "db_cloud_sessions db"
  have d: "distinct (map ses_token_hash ?ss)"
    using db_reachable_inv [OF assms(1)] by (simp add: db_inv_def cloud_inv_def)
  have "db_cloud_sessions (snd (SessionStore_PurgeExpired t db)) \<in> {?ss, del_where ?Q ?ss}"
    by (auto simp: SessionStore_PurgeExpired_def db_exec_def stmt_delete_sessions_def split: option.splits)
  moreover have "live_session sha t' tok (db\<lparr>db_cloud_sessions := del_where ?Q ?ss\<rparr>) = live_session sha t' tok db"
  proof (cases "query_row ?P ?ss")
    case None
    then have "query_row ?P (del_where ?Q ?ss) = None"
      by (auto simp: query_row_None_iff set_del_where)
    with None show ?thesis by (simp add: live_session_def)
  next
    case (Some s)
    then have s: "s \<in> set ?ss" "?P s" by (auto dest: query_row_SomeD)
    have only: "r = s" if "r \<in> set ?ss" "?P r" for r
      using d s that by (auto simp: distinct_map inj_on_def)
    show ?thesis
    proof (cases "?Q s")
      case True
      then have "query_row ?P (del_where ?Q ?ss) = None"
        using only by (auto simp: query_row_None_iff set_del_where)
      with Some to_sec_less [OF True] assms(2) show ?thesis by (simp add: live_session_def)
    next
      case False
      then have "query_row ?P (del_where ?Q ?ss) = query_row ?P ?ss"
        using only by (intro query_row_filter_other) blast
      then show ?thesis by (simp add: live_session_def)
    qed
  qed
  ultimately show ?thesis by (auto simp: live_session_def)
qed

theorem purge_invisible_witness:
  "live_session (\<lambda>x. x) 7000000000 ''4142'' (snd (SessionStore_PurgeExpired 6000000000 one_user_db)) =
   live_session (\<lambda>x. x) 7000000000 ''4142'' one_user_db"
proof -
  show ?thesis by (rule purge_invisible [OF one_user_db_reachable]) simp
qed

text \<open>Deleting a user ends all its sessions: after a successful delete no
  token validates to a session of that user, under any capitalisation, at any time.\<close>

theorem delete_user_ends_sessions:
  assumes "UserStore_Delete u db = (Inr (), db1)" and "nocase (ses_user_id s) u"
  shows "live_session sha t tok db1 \<noteq> Some s"
proof -
  from assms(1) obtain n where "n \<noteq> 0" and st: "stmt_delete_user u (db_tick db) = Inr (n, db1)"
    by (auto simp: UserStore_Delete_def user_affected_def db_exec_Inr split: prod.splits sum.splits if_splits)
  then have "\<forall>x \<in> set (db_cloud_sessions db1). \<not> nocase (ses_user_id x) u"
    by (auto simp: stmt_delete_user_def Let_def set_del_where simp del: RowsAffected_0)
  with assms(2) show ?thesis
    by (auto simp: live_session_def dest: query_row_SomeD split: option.splits if_splits)
qed

theorem delete_user_ends_sessions_witness:
  "live_session (\<lambda>x. x) 0 ''4142''
     (snd (UserStore_Delete ''BOB'' (snd (SessionStore_Create (\<lambda>x. x) (Inr ''AB'') 0 ''bob'' 4000000000 one_user_db))))
   \<noteq> Some \<lparr>ses_token_hash = hex_encode ''4142'', ses_user_id = ''bob'', ses_created_at = 0, ses_expires_at = 4\<rparr>"
proof (rule delete_user_ends_sessions)
  let ?r = "UserStore_Delete ''BOB'' (snd (SessionStore_Create (\<lambda>x. x) (Inr ''AB'') 0 ''bob'' 4000000000 one_user_db))"
  have "fst ?r = Inr ()" by code_simp
  then show "?r = (Inr (), snd ?r)" by (metis prod.collapse)
qed code_simp

text \<open>C6: In every database reachable by any sequence of registry, user and session operations, under
  any pattern of driver failures: instance ids and ports are unique, every stored token hash is
  the hash of the stored token, at most one signing key is active, user names are unique up to
  case, no two users share an instance, every bound instance exists, session tokens are unique
  and every session belongs to an existing user.\<close>

theorem database_invariant:
  assumes "db_reachable sha db"
  shows "distinct (map inst_ID (db_instances db)) \<and> distinct (map inst_Port (db_instances db)) \<and>
     (\<forall>r \<in> set (db_instances db). hash_ok sha r) \<and>
     length (filter sk_active (db_signing_keys db)) \<le> 1 \<and>
     distinct (map (ToLower \<circ> usr_username) (db_cloud_users db)) \<and>
     bindings_unique (db_cloud_users db) \<and>
     bindings_exist (inst_ID ` set (db_instances db)) (db_cloud_users db) \<and>
     distinct (map ses_token_hash (db_cloud_sessions db)) \<and>
     sessions_owned (db_cloud_users db) (db_cloud_sessions db)"
  using db_reachable_inv [OF assms]
  by (simp add: db_inv_def instances_inv_def keys_inv_def cloud_inv_def names_distinct_def)

theorem database_invariant_witness:
  "distinct (map (ToLower \<circ> usr_username) (db_cloud_users one_user_db))"
proof -
  show ?thesis using database_invariant [OF one_user_db_reachable] by blast
qed

section \<open>Registry: behaviour in reachable databases\<close>

text \<open>Create then Get: after a successful create the registry returns the instance that was stored,
  with the creation time of the row it replaced if there was one, and every other instance is
  unchanged; an instance can be stored exactly when no other instance has its port.\<close>

theorem create_get_roundtrip:
  assumes "Registry_Create sha now inst db = (Inr (), db1)" and "db_fault db1 = None"
  shows "fst (Registry_Get (inst_ID inst) db1) = Inr (created_instance now db inst) \<and>
    (\<forall>j. j \<noteq> inst_ID inst \<longrightarrow> fst (Registry_Get j db1) =
       (case inst_view db j of None \<Rightarrow> Inl ErrNotFound | Some i \<Rightarrow> Inr i)) \<and>
    (\<forall>x \<in> set (db_instances db). inst_Port x = inst_Port inst \<longrightarrow> inst_ID x = inst_ID inst)"
  using Registry_Create_ok [OF assms(1)] assms Registry_Create_succeeds_iff [of sha now inst db]
  by (auto simp: Registry_Get_view)

definition sample_instance :: "string \<Rightarrow> int \<Rightarrow> string \<Rightarrow> fox_instance" where
  "sample_instance iid port tok = \<lparr>inst_ID = iid, inst_ImageDigest = ''d1'', inst_Port = port,
     inst_DataDir = ''/d'', inst_Status = ''running'', inst_CreatedAt = '''', inst_SkillsetName = '''',
     inst_PrincipalRole = '''', inst_QueryToken = tok, inst_PlaneAuthToken = ''pa'', inst_InstancePassword = ''pw''\<rparr>"

theorem create_get_roundtrip_witness:
  "fst (Registry_Get ''a'' (snd (Registry_Create (\<lambda>x. x) ''t'' (sample_instance ''a'' 9100 ''q'') (empty_db [])))) =
   Inr ((sample_instance ''a'' 9100 ''q'')\<lparr>inst_CreatedAt := ''t''\<rparr>)"
proof -
  let ?i = "sample_instance ''a'' 9100 ''q''" and ?r = "Registry_Create (\<lambda>x. x) ''t'' (sample_instance ''a'' 9100 ''q'') (empty_db [])"
  have "fst ?r = Inr ()" "db_fault (snd ?r) = None" by code_simp+
  then have "?r = (Inr (), snd ?r)" "db_fault (snd ?r) = None" by (simp_all add: prod_eq_iff)
  note create_get_roundtrip [OF this]
  moreover have "inst_ID ?i = ''a''" "created_instance ''t'' (empty_db []) ?i = ?i\<lparr>inst_CreatedAt := ''t''\<rparr>" by code_simp+
  ultimately show ?thesis by metis
qed

text \<open>In a reachable database the data plane accepts a query token exactly when it is non-empty and
  the token of some instance (for a hash without a collision between the presented and a stored
  token): rotated or deleted tokens stop working at once.\<close>

theorem query_token_accepted:
  assumes "db_reachable sha db" "sha_len sha" "no_collision sha db t" "db_fault db = None"
  shows "fst (Registry_ValidQueryToken sha t db) \<longleftrightarrow>
     t \<noteq> '''' \<and> (\<exists>r \<in> set (db_instances db). inst_QueryToken r = t)"
  using ValidQueryToken_iff [of sha db t] assms db_reachable_inv [OF assms(1)] by (simp add: db_inv_def)

definition sha32 :: "string \<Rightarrow> string" where
  "sha32 x = take 32 (x @ replicate 32 (CHR ''.''))"

theorem query_token_accepted_witness:
  "fst (Registry_ValidQueryToken sha32 ''q'' (snd (Registry_Create sha32 ''t'' (sample_instance ''a'' 9100 ''q'') (empty_db []))))"
proof -
  let ?db = "snd (Registry_Create sha32 ''t'' (sample_instance ''a'' 9100 ''q'') (empty_db []))"
  have "db_reachable sha32 ?db" by (rule reach_step [OF reach_init step_create])
  moreover have "sha_len sha32" by (simp add: sha_len_def sha32_def min_def)
  moreover have "no_collision sha32 ?db ''q''" "db_fault ?db = None"
    "\<exists>r \<in> set (db_instances ?db). inst_QueryToken r = ''q''" by code_simp+
  ultimately show ?thesis using query_token_accepted [of sha32 ?db "''q''"] by simp
qed

text \<open>C26: Rotating the signing key in a reachable database either fails and changes no table, or makes
  the freshly drawn key the active one; from then on it is the key that signs and verifies, and no
  other key is active.\<close>

theorem rotate_signing_key:
  assumes "db_reachable sha db" and "Registry_RotateSigningKey rnd now db = (r, db')"
  shows "case r of
     Inl e \<Rightarrow> same_tables db db'
   | Inr k \<Rightarrow> rnd = Inr k \<and> sel_active_key db' = Some k \<and> length (filter sk_active (db_signing_keys db')) = 1"
proof -
  have "keys_inv db" using db_reachable_inv [OF assms(1)] by (simp add: db_inv_def)
  note rot = RotateSigningKey_cases [OF this assms(2)]
  show ?thesis
  proof (cases r)
    case (Inl e)
    with rot show ?thesis by simp
  next
    case (Inr k)
    with rot have "sel_active_key db' \<noteq> None" "length (filter sk_active (db_signing_keys db')) \<le> 1"
      by (auto simp: keys_inv_def)
    then have "length (filter sk_active (db_signing_keys db')) = 1"
      unfolding sel_active_key_None by (cases "filter sk_active (db_signing_keys db')") auto
    with rot Inr show ?thesis by simp
  qed
qed

theorem rotate_signing_key_witness:
  "sel_active_key (snd (Registry_RotateSigningKey (Inr ''k2'') ''t'' (snd (Registry_EnsureSigningKey (Inr ''k1'') ''t'' (empty_db []))))) = Some ''k2''"
proof -
  let ?db = "snd (Registry_EnsureSigningKey (Inr ''k1'') ''t'' (empty_db []))"
  let ?r = "Registry_RotateSigningKey (Inr ''k2'') ''t'' ?db"
  have "db_reachable (\<lambda>x. x) ?db" by (rule reach_step [OF reach_init step_update [OF step_ensure_key]])
  moreover have "fst ?r = Inr ''k2''" by code_simp
  then have "?r = (Inr ''k2'', snd ?r)" by (simp add: prod_eq_iff)
  ultimately show ?thesis using rotate_signing_key [of "\<lambda>x. x" ?db "Inr ''k2''" "''t''"] by fastforce
qed

end
