(* ===== verification/Go_Fs.thy ===== *)
theory Go_Fs
  imports Fleet_Prelude
begin

text \<open>
  Paths and files, as the packages \<^verbatim>\<open>path/filepath\<close> and \<^verbatim>\<open>os\<close> give them to the program: lexical
  \<open>Clean\<close>, \<open>Join\<close>, \<open>Dir\<close>, \<open>Base\<close>, and a file system with directories, permissions and a list of
  the failures the next calls report. A failing write may leave a prefix of the new contents
  behind and a failing \<open>RemoveAll\<close> may have removed part of the tree; the fault says how much.
\<close>

section \<open>Paths\<close>

fun split_on :: "char \<Rightarrow> string \<Rightarrow> string list" where
  "split_on c [] = ['''']"
| "split_on c (d # s) =
     (if d = c then '''' # split_on c s
      else case split_on c s of [] \<Rightarrow> [[d]] | p # ps \<Rightarrow> (d # p) # ps)"

fun clean_segs :: "bool \<Rightarrow> string list \<Rightarrow> string list \<Rightarrow> string list" where
  "clean_segs rooted acc [] = rev acc"
| "clean_segs rooted acc (p # ps) =
     (if p = '''' \<or> p = ''.'' then clean_segs rooted acc ps
      else if p = ''..'' then
        (if acc \<noteq> [] \<and> hd acc \<noteq> ''..'' then clean_segs rooted (tl acc) ps
         else if rooted then clean_segs rooted acc ps
         else clean_segs rooted (p # acc) ps)
      else clean_segs rooted (p # acc) ps)"

definition path_Clean :: "string \<Rightarrow> string" where
  "path_Clean s =
     (let rooted = (s \<noteq> '''' \<and> hd s = CHR ''/'');
          r = (if rooted then ''/'' else '''') @
              strings_join (clean_segs rooted [] (split_on (CHR ''/'') s)) ''/''
      in if r = '''' then ''.'' else r)"

definition path_Join :: "string list \<Rightarrow> string" where
  "path_Join elems =
     (let es = filter (\<lambda>e. e \<noteq> '''') elems
      in if es = [] then '''' else path_Clean (strings_join es ''/''))"

definition path_Dir :: "string \<Rightarrow> string" where
  "path_Dir s =
     (case str_last_index s ''/'' of None \<Rightarrow> ''.'' | Some i \<Rightarrow> path_Clean (take (i + 1) s))"

definition path_Base :: "string \<Rightarrow> string" where
  "path_Base s =
     (let t = rev (dropWhile (\<lambda>c. c = CHR ''/'') (rev s))
      in if s = '''' then ''.'' else if t = '''' then ''/''
         else case str_last_index t ''/'' of None \<Rightarrow> t | Some i \<Rightarrow> drop (i + 1) t)"

section \<open>Files\<close>

record fs =
  fs_files :: "(string \<times> nat \<times> string) list"
  fs_dirs :: "string list"
  fs_faults :: "(go_error \<times> nat option) option list"

definition ErrNotExist :: go_error where
  "ErrNotExist = Sentinel ''file does not exist''"

definition fs_fault :: "fs \<Rightarrow> (go_error \<times> nat option) option" where
  "fs_fault s = (case fs_faults s of [] \<Rightarrow> None | f # _ \<Rightarrow> f)"

definition fs_tick :: "fs \<Rightarrow> fs" where
  "fs_tick s = s\<lparr>fs_faults := tl (fs_faults s)\<rparr>"

definition file_content :: "fs \<Rightarrow> string \<Rightarrow> string option" where
  "file_content s p = map_option snd (map_of (fs_files s) p)"

definition os_ReadFile :: "string \<Rightarrow> fs \<Rightarrow> string result \<times> fs" where
  "os_ReadFile p s =
     (case fs_fault s of
        Some (e, _) \<Rightarrow> (Inl e, fs_tick s)
      | None \<Rightarrow> (case file_content s p of None \<Rightarrow> Inl ErrNotExist | Some d \<Rightarrow> Inr d, fs_tick s))"

text \<open>A new file takes the permission given; an existing one keeps its own.\<close>

definition put_file :: "string \<Rightarrow> string \<Rightarrow> nat \<Rightarrow> fs \<Rightarrow> fs" where
  "put_file p d perm s =
     (let pm = (case map_of (fs_files s) p of Some (old, _) \<Rightarrow> old | None \<Rightarrow> perm)
      in s\<lparr>fs_files := (p, pm, d) # filter (\<lambda>(q, _). q \<noteq> p) (fs_files s)\<rparr>)"

definition dir_exists :: "fs \<Rightarrow> string \<Rightarrow> bool" where
  "dir_exists s d \<longleftrightarrow> d = ''.'' \<or> d = ''/'' \<or> d \<in> set (fs_dirs s)"

definition os_WriteFile :: "string \<Rightarrow> string \<Rightarrow> nat \<Rightarrow> fs \<Rightarrow> unit result \<times> fs" where
  "os_WriteFile p d perm s =
     (case fs_fault s of
        Some (e, None) \<Rightarrow> (Inl e, fs_tick s)
      | Some (e, Some n) \<Rightarrow> (Inl e, put_file p (take n d) perm (fs_tick s))
      | None \<Rightarrow>
          (if \<not> dir_exists s (path_Dir p) then (Inl ErrNotExist, fs_tick s)
           else if p \<in> set (fs_dirs s) then (Inl (Errorf ''is a directory''), fs_tick s)
           else (Inr (), put_file p d perm (fs_tick s))))"

definition path_prefixes :: "string \<Rightarrow> string list" where
  "path_prefixes p = map (\<lambda>i. take i p) (filter (\<lambda>i. p ! i = CHR ''/'') [1..<length p]) @ [p]"

definition os_MkdirAll :: "string \<Rightarrow> fs \<Rightarrow> unit result \<times> fs" where
  "os_MkdirAll p s =
     (case fs_fault s of
        Some (e, None) \<Rightarrow> (Inl e, fs_tick s)
      | Some (e, Some n) \<Rightarrow> (Inl e, (fs_tick s)\<lparr>fs_dirs := fs_dirs s @ take n (path_prefixes p)\<rparr>)
      | None \<Rightarrow>
          (if \<exists>q \<in> set (path_prefixes p). file_content s q \<noteq> None
           then (Inl (Errorf ''not a directory''), fs_tick s)
           else (Inr (), (fs_tick s)\<lparr>fs_dirs := fs_dirs s @ path_prefixes p\<rparr>)))"

definition below :: "string \<Rightarrow> string \<Rightarrow> bool" where
  "below p q \<longleftrightarrow> q = p \<or> HasPrefix q (p @ ''/'')"

definition os_RemoveAll :: "string \<Rightarrow> fs \<Rightarrow> unit result \<times> fs" where
  "os_RemoveAll p s =
     (case fs_fault s of
        Some (e, None) \<Rightarrow> (Inl e, fs_tick s)
      | Some (e, Some n) \<Rightarrow>
          (let gone = take n (filter (below p) (map fst (fs_files s)))
           in (Inl e, (fs_tick s)\<lparr>fs_files := filter (\<lambda>(q, _). q \<notin> set gone) (fs_files s)\<rparr>))
      | None \<Rightarrow>
          (Inr (), (fs_tick s)\<lparr>fs_files := filter (\<lambda>(q, _). \<not> below p q) (fs_files s),
                               fs_dirs := filter (\<lambda>q. \<not> below p q) (fs_dirs s)\<rparr>))"

section \<open>Laws\<close>

lemma fs_tick_simps [simp]:
  "fs_files (fs_tick s) = fs_files s" "fs_dirs (fs_tick s) = fs_dirs s"
  "file_content (fs_tick s) = file_content s"
  by (simp_all add: fs_tick_def file_content_def fun_eq_iff)

lemma map_of_filter_key: "map_of (filter (\<lambda>(q, _). P q) xs) k = (if P k then map_of xs k else None)"
  by (induction xs) auto

lemma file_content_put: "file_content (put_file p d perm s) = (file_content s)(p \<mapsto> d)"
  by (auto simp: put_file_def file_content_def Let_def fun_eq_iff map_of_filter_key)

lemma os_ReadFile_content [simp]: "file_content (snd (os_ReadFile p s)) = file_content s"
  by (auto simp: os_ReadFile_def split: option.splits)

lemma os_MkdirAll_content [simp]: "file_content (snd (os_MkdirAll p s)) = file_content s"
  by (auto simp: os_MkdirAll_def file_content_def fun_eq_iff split: option.splits)

lemma os_WriteFile_ok:
  "os_WriteFile p d perm s = (Inr (), s') \<Longrightarrow> file_content s' = (file_content s)(p \<mapsto> d)"
  by (auto simp: os_WriteFile_def file_content_put split: option.splits if_splits)

lemma os_WriteFile_other:
  "q \<noteq> p \<Longrightarrow> file_content (snd (os_WriteFile p d perm s)) q = file_content s q"
  by (auto simp: os_WriteFile_def file_content_put split: option.splits)

lemma os_RemoveAll_content:
  "os_RemoveAll p s = (Inr (), s') \<Longrightarrow> file_content s' q = (if below p q then None else file_content s q)"
  by (auto simp: os_RemoveAll_def file_content_def map_of_filter_key split: option.splits)

lemma os_RemoveAll_other: "\<not> below p q \<Longrightarrow> file_content (snd (os_RemoveAll p s)) q = file_content s q"
  by (auto simp: os_RemoveAll_def file_content_def map_of_filter_key Let_def dest!: in_set_takeD
      split: option.splits)

text \<open>A path component that is an ordinary name is appended as it is.\<close>

lemma split_on_nonempty [simp]: "split_on c s \<noteq> []"
  by (cases s) (auto split: list.splits)

lemma split_on_append: "split_on c (s @ c # t) = split_on c s @ split_on c t"
  by (induction s) (auto split: list.splits)

lemma split_on_plain: "c \<notin> set s \<Longrightarrow> split_on c s = [s]"
  by (induction s) auto

definition plain_seg :: "string \<Rightarrow> bool" where
  "plain_seg p \<longleftrightarrow> p \<noteq> '''' \<and> p \<noteq> ''.'' \<and> p \<noteq> ''..'' \<and> CHR ''/'' \<notin> set p"

lemma clean_segs_append:
  "\<forall>p \<in> set qs. plain_seg p \<Longrightarrow> clean_segs rooted acc (ps @ qs) = clean_segs rooted acc ps @ qs"
proof (induction ps arbitrary: acc)
  case Nil
  then show ?case
    by (induction qs arbitrary: acc) (auto simp: plain_seg_def)
next
  case (Cons p ps)
  then show ?case by (cases rooted) simp_all
qed

lemma strings_join_append:
  "xs \<noteq> [] \<Longrightarrow> ys \<noteq> [] \<Longrightarrow> strings_join (xs @ ys) sep = strings_join xs sep @ sep @ strings_join ys sep"
proof (induction xs sep rule: strings_join.induct)
  case (2 s sep)
  then show ?case by (cases ys) auto
qed auto

text \<open>The children of one directory under plain names are different paths.\<close>

lemma path_Join_plain:
  assumes "root \<noteq> ''''" "plain_seg a" "plain_seg b"
  shows "path_Join [root, a, b] = path_Join [root, a] @ ''/'' @ b"
proof -
  let ?rt = "hd root = CHR ''/''"
  let ?segs = "clean_segs ?rt [] (split_on (CHR ''/'') root)"
  have hd: "hd (root @ xs) = hd root" for xs using assms(1) by simp
  have ne: "a \<noteq> ''''" "b \<noteq> ''''" using assms by (auto simp: plain_seg_def)
  have s2: "split_on (CHR ''/'') (root @ ''/'' @ a) = split_on (CHR ''/'') root @ [a]"
    using assms(2) by (simp add: split_on_append split_on_plain plain_seg_def)
  have s3: "split_on (CHR ''/'') (root @ ''/'' @ a @ ''/'' @ b) = split_on (CHR ''/'') root @ [a, b]"
    using assms(2,3) by (simp add: split_on_append split_on_plain plain_seg_def)
  have c2: "clean_segs ?rt [] (split_on (CHR ''/'') root @ [a]) = ?segs @ [a]"
    and c3: "clean_segs ?rt [] (split_on (CHR ''/'') root @ [a, b]) = ?segs @ [a] @ [b]"
    using assms clean_segs_append [of "[a]" ?rt "[]"] clean_segs_append [of "[a, b]" ?rt "[]"] by simp_all
  have j: "strings_join (?segs @ [a] @ [b]) ''/'' = strings_join (?segs @ [a]) ''/'' @ ''/'' @ b"
    using strings_join_append [of "?segs @ [a]" "[b]" "''/''"] by simp
  have n2: "strings_join (?segs @ [a]) ''/'' \<noteq> ''''"
    using strings_join_append [of ?segs "[a]" "''/''"] ne by (cases "?segs = []") auto
  have "path_Join [root, a] = (if ?rt then ''/'' else '''') @ strings_join (?segs @ [a]) ''/''"
    using assms(1) ne n2 by (simp add: path_Join_def path_Clean_def Let_def s2 [simplified] c2)
  moreover have "path_Join [root, a, b] =
      (if ?rt then ''/'' else '''') @ strings_join (?segs @ [a]) ''/'' @ ''/'' @ b"
    using assms(1) ne by (simp add: path_Join_def path_Clean_def Let_def s3 [simplified] c3 [simplified] j [simplified])
  ultimately show ?thesis by simp
qed

text \<open>All children of a directory share one prefix.\<close>

definition child_prefix :: "string \<Rightarrow> string" where
  "child_prefix root =
     (let rooted = (hd root = CHR ''/'');
          segs = clean_segs rooted [] (split_on (CHR ''/'') root)
      in (if rooted then ''/'' else '''') @ (if segs = [] then '''' else strings_join segs ''/'' @ ''/''))"

lemma path_Join_child:
  assumes "root \<noteq> ''''" "plain_seg a"
  shows "path_Join [root, a] = child_prefix root @ a"
proof -
  let ?rt = "hd root = CHR ''/''"
  let ?segs = "clean_segs ?rt [] (split_on (CHR ''/'') root)"
  have a: "a \<noteq> ''''" using assms(2) by (auto simp: plain_seg_def)
  have "split_on (CHR ''/'') (root @ ''/'' @ a) = split_on (CHR ''/'') root @ [a]"
    using assms(2) by (simp add: split_on_append split_on_plain plain_seg_def)
  moreover have "clean_segs ?rt [] (split_on (CHR ''/'') root @ [a]) = ?segs @ [a]"
    using assms(2) clean_segs_append [of "[a]" ?rt "[]"] by simp
  moreover have "strings_join (?segs @ [a]) ''/'' = (if ?segs = [] then '''' else strings_join ?segs ''/'' @ ''/'') @ a"
    using strings_join_append [of ?segs "[a]" "''/''"] by simp
  ultimately show ?thesis
    using assms(1) a by (simp add: path_Join_def path_Clean_def child_prefix_def Let_def)
qed

lemma path_Join_grandchild:
  "root \<noteq> '''' \<Longrightarrow> plain_seg a \<Longrightarrow> plain_seg b \<Longrightarrow> path_Join [root, a, b] = child_prefix root @ a @ ''/'' @ b"
  by (simp add: path_Join_plain path_Join_child)

lemma below_iff: "below p q \<longleftrightarrow> (\<exists>x. q = p @ x \<and> (x = '''' \<or> (\<exists>u. x = ''/'' @ u)))"
  by (auto simp: below_def HasPrefix_iff)

end
