(* ===== verification/Plugin_Api.thy ===== *)
theory Plugin_Api
  imports Complex_Main Fleet_Prelude
begin

text \<open>
  \<^verbatim>\<open>plugins/plugin.go\<close>: the contract between the control plane and a deployment target. The Go
  interface is a record of functions over the target's world \<open>'w\<close> (containers, networks, clock);
  every call returns the Go result and the world after it; times are nanoseconds and a log
  stream is the text it delivers. Go maps that are only looked up or
  iterated in sorted key order are association lists with distinct keys.
\<close>

record image_ref =
  img_Repository :: string
  img_Digest :: string

record instance_config =
  ic_AuthSecret :: string
  ic_InstancePassword :: string
  ic_ProxyEndpoint :: string
  ic_CapabilityFlags :: "(string \<times> bool) list"
  ic_Env :: "(string \<times> string) list"
  ic_SkillsetPath :: string
  ic_DataPlaneURL :: string
  ic_PrincipalRole :: string

record provision_request =
  pr_InstanceID :: string
  pr_Image :: image_ref
  pr_Config :: instance_config
  pr_Port :: int
  pr_DataDir :: string
  pr_CloudEnv :: "(string \<times> string) list"

record health_status =
  hs_Healthy :: bool
  hs_Ready :: bool
  hs_Checks :: "(string \<times> bool) list"
  hs_CheckedAt :: int

text \<open>The zero value, and the value a failed check leaves in the cache.\<close>

definition unhealthy_at :: "int \<Rightarrow> health_status" where
  "unhealthy_at t = \<lparr>hs_Healthy = False, hs_Ready = False, hs_Checks = [], hs_CheckedAt = t\<rparr>"

text \<open>CPU load is a ratio of counters; \<^verbatim>\<open>float64\<close> is read as the exact rational.\<close>

record container_stats =
  st_CPUPercent :: rat
  st_MemoryUsed :: nat
  st_MemoryLimit :: nat
  st_NetRxBytes :: nat
  st_NetTxBytes :: nat

record log_opts =
  lo_Tail :: int
  lo_Follow :: bool

record 'w deployment_plugin =
  pl_Provision :: "provision_request \<Rightarrow> 'w \<Rightarrow> unit result \<times> 'w"
  pl_HealthCheck :: "string \<Rightarrow> 'w \<Rightarrow> health_status result \<times> 'w"
  pl_Configure :: "string \<Rightarrow> instance_config \<Rightarrow> 'w \<Rightarrow> unit result \<times> 'w"
  pl_Rollout :: "string \<Rightarrow> image_ref \<Rightarrow> 'w \<Rightarrow> unit result \<times> 'w"
  pl_Rollback :: "string \<Rightarrow> image_ref \<Rightarrow> 'w \<Rightarrow> unit result \<times> 'w"
  pl_Destroy :: "string \<Rightarrow> 'w \<Rightarrow> unit result \<times> 'w"
  pl_Logs :: "string \<Rightarrow> log_opts \<Rightarrow> 'w \<Rightarrow> string result \<times> 'w"
  pl_Restart :: "string \<Rightarrow> 'w \<Rightarrow> unit result \<times> 'w"
  pl_Stats :: "string \<Rightarrow> 'w \<Rightarrow> container_stats result \<times> 'w"

end
