(* ===== verification/Config_Inject.thy ===== *)
theory Config_Inject
  imports Go_Fs Plugin_Api "HOL-Library.AList"
begin

text \<open>
  \<^verbatim>\<open>internal/config/inject.go\<close> and \<^verbatim>\<open>internal/config/onboarding.go\<close>: the files the control plane
  writes into an instance's data directory before it boots. \<^verbatim>\<open>encoding/json\<close>'s indented output is
  modelled (for text whose bytes above 127 are valid UTF-8 other than U+2028 and U+2029, which it
  copies); the YAML encoder is
  the argument \<open>yamlMarshal\<close>. Go maps are association lists with distinct keys, in some order.
\<close>

section \<open>JSON\<close>

datatype json = JStr string | JBool bool | JInt int | JObj "(string \<times> json) list" | JArr "json list"

definition hex4 :: "nat \<Rightarrow> string" where
  "hex4 n = CHR 0x5C # ''u00'' @ [''0123456789abcdef'' ! (n div 16), ''0123456789abcdef'' ! (n mod 16)]"

definition json_escape :: "char \<Rightarrow> string" where
  "json_escape c =
     (let n = (of_char c :: nat) in
      if n = 34 \<or> n = 92 then [CHR 0x5C, c]
      else if n = 10 then [CHR 0x5C, CHR ''n''] else if n = 13 then [CHR 0x5C, CHR ''r''] else if n = 9 then [CHR 0x5C, CHR ''t'']
      else if n = 8 then [CHR 0x5C, CHR ''b''] else if n = 12 then [CHR 0x5C, CHR ''f'']
      else if n < 32 \<or> n \<in> {38, 60, 62} then hex4 n
      else [c])"

definition json_quote :: "string \<Rightarrow> string" where
  "json_quote s = [CHR 0x22] @ concat (map json_escape s) @ [CHR 0x22]"

definition json_nl :: "nat \<Rightarrow> string" where
  "json_nl d = CHR 0x0A # concat (replicate d ''  '')"

fun json_indent :: "nat \<Rightarrow> json \<Rightarrow> string" where
  "json_indent d (JStr s) = json_quote s"
| "json_indent d (JBool b) = (if b then ''true'' else ''false'')"
| "json_indent d (JInt i) = int_str i"
| "json_indent d (JObj kvs) =
     (if kvs = [] then ''{}''
      else ''{'' @ strings_join (map (\<lambda>(k, v). json_nl (Suc d) @ json_quote k @ '': '' @ json_indent (Suc d) v) kvs) '',''
           @ json_nl d @ ''}'')"
| "json_indent d (JArr vs) =
     (if vs = [] then ''[]''
      else ''['' @ strings_join (map (\<lambda>v. json_nl (Suc d) @ json_indent (Suc d) v) vs) '','' @ json_nl d @ '']'')"

definition MarshalIndent :: "json \<Rightarrow> string" where
  "MarshalIndent v = json_indent 0 v"

text \<open>A map is written with its keys sorted.\<close>

definition json_map :: "(string \<times> json) list \<Rightarrow> json" where
  "json_map kvs = JObj (sort_key fst kvs)"

section \<open>Parameters\<close>

record cloud_config =
  cc_Enabled :: bool
  cc_Domain :: string
  cc_Slug :: string

record inject_params =
  ip_DataDir :: string
  ip_InstancePassword :: string
  ip_Config :: instance_config
  ip_QueryToken :: string
  ip_Cloud :: cloud_config

definition ErrMissingAuthSecret :: go_error where
  "ErrMissingAuthSecret = Sentinel ''config: auth_secret must not be empty''"

definition ErrMissingInstancePassword :: go_error where
  "ErrMissingInstancePassword = Sentinel ''config: instance_password must not be empty''"

definition CloudEnvVars :: "cloud_config \<Rightarrow> (string \<times> string) list" where
  "CloudEnvVars cloud =
     (if \<not> cc_Enabled cloud \<or> cc_Domain cloud = '''' then []
      else let origin = (if cc_Slug cloud \<noteq> '''' then cc_Slug cloud @ ''.'' @ cc_Domain cloud
                         else cc_Domain cloud)
           in [(''HERMES_WEBUI_ALLOWED_ORIGINS'', ''https://'' @ origin),
               (''HERMES_WEBUI_TRUST_FORWARDED_HOST'', ''true''),
               (''HERMES_WEBUI_CSP_CONNECT_EXTRA'', ''https://'' @ origin @ '' wss://'' @ origin)])"

section \<open>Rendering\<close>

definition reserved_env :: "string list" where
  "reserved_env =
     [''FOX_PLANE_AUTH_SECRET'', ''HERMES_WEBUI_PASSWORD'', ''FOX_DATA_PLANE_URL'', ''FOX_DATA_PLANE_TOKEN'',
      ''FOX_SKILLSET_PATH'', ''PATH'', ''HOME'', ''LD_PRELOAD'', ''LD_LIBRARY_PATH'',
      ''HERMES_WEBUI_ALLOWED_ORIGINS'', ''HERMES_WEBUI_TRUST_FORWARDED_HOST'',
      ''HERMES_WEBUI_CSP_CONNECT_EXTRA'']"

definition put_unless_empty :: "string \<Rightarrow> string \<Rightarrow> (string \<times> string) list \<Rightarrow> (string \<times> string) list" where
  "put_unless_empty k v env = (if v \<noteq> '''' then AList.update k v env else env)"

definition base_env :: "inject_params \<Rightarrow> (string \<times> string) list" where
  "base_env p =
     put_unless_empty ''FOX_SKILLSET_PATH'' (ic_SkillsetPath (ip_Config p))
      (put_unless_empty ''FOX_DATA_PLANE_TOKEN'' (ip_QueryToken p)
        (put_unless_empty ''FOX_DATA_PLANE_URL'' (ic_DataPlaneURL (ip_Config p))
          [(''FOX_PLANE_AUTH_SECRET'', ic_AuthSecret (ip_Config p)),
           (''HERMES_WEBUI_PASSWORD'', ip_InstancePassword p)]))"

fun add_user_env :: "(string \<times> string) list \<Rightarrow> (string \<times> string) list \<Rightarrow> (string \<times> string) list result" where
  "add_user_env [] env = Inr env"
| "add_user_env ((k, v) # kvs) env =
     (if ToUpper k \<in> set reserved_env
      then Inl (Errorf (''env key '' @ json_quote k @ '' is reserved and cannot be overridden''))
      else add_user_env kvs (AList.update k v env))"

definition hermes_env :: "inject_params \<Rightarrow> (string \<times> string) list result" where
  "hermes_env p =
     (case add_user_env (ic_Env (ip_Config p)) (base_env p) of
        Inl e \<Rightarrow> Inl e
      | Inr env \<Rightarrow> Inr (fold (\<lambda>(k, v). AList.update k v) (CloudEnvVars (ip_Cloud p)) env))"

definition env_line :: "(string \<times> string) list \<Rightarrow> string \<Rightarrow> string" where
  "env_line env k = k @ [CHR ''='', CHR 0x22] @ the (map_of env k) @ [CHR 0x22, CHR 0x0A]"

definition renderHermesEnv :: "inject_params \<Rightarrow> string result" where
  "renderHermesEnv p =
     (case hermes_env p of
        Inl e \<Rightarrow> Inl e
      | Inr env \<Rightarrow> Inr (concat (map (env_line env) (sort (map fst env)))))"

datatype yaml = YStr string | YFlags "(string \<times> bool) list"

definition renderConfigYAML ::
  "((string \<times> yaml) list \<Rightarrow> string result) \<Rightarrow> inject_params \<Rightarrow> string result" where
  "renderConfigYAML yamlMarshal p =
     (let c = ip_Config p;
          cfg = (if ic_ProxyEndpoint c \<noteq> '''' then [(''proxy_endpoint'', YStr (ic_ProxyEndpoint c))] else []) @
                (if ic_PrincipalRole c \<noteq> '''' then [(''principal_role'', YStr (ic_PrincipalRole c))] else []) @
                (if length (ic_CapabilityFlags c) > 0 then [(''capabilities'', YFlags (ic_CapabilityFlags c))] else [])
      in case yamlMarshal cfg of
           Inl e \<Rightarrow> Inl e
         | Inr d \<Rightarrow> Inr (''# Managed by fox-control '' @ [CHR 0xE2, CHR 0x80, CHR 0x94] @
                         '' do not edit manually.'' @ [CHR 0x0A] @ d))"

definition renderSettingsJSON :: "inject_params \<Rightarrow> string result" where
  "renderSettingsJSON p =
     (let c = ip_Config p;
          settings =
            (if ic_ProxyEndpoint c \<noteq> '''' then [(''proxy_endpoint'', JStr (ic_ProxyEndpoint c))] else []) @
            (if length (ic_CapabilityFlags c) > 0
             then [(''capabilities'', json_map (map (\<lambda>(k, b). (k, JBool b)) (ic_CapabilityFlags c)))] else [])
      in Inr (MarshalIndent (json_map settings) @ [CHR 0x0A]))"

definition knowledge_tool :: "string \<Rightarrow> json" where
  "knowledge_tool url = JObj
     [(''name'', JStr ''knowledge_query''),
      (''description'', JStr ''Search the knowledge base for relevant information''),
      (''url'', JStr (url @ ''/v1/query'')),
      (''method'', JStr ''POST''),
      (''auth'', JObj [(''header'', JStr ''X-Fox-Auth''), (''env'', JStr ''FOX_DATA_PLANE_TOKEN'')]),
      (''parameters'', json_map
         [(''query'', JObj [(''type'', JStr ''string''), (''required'', JBool True),
                            (''description'', JStr ''Search query text'')]),
          (''top_k'', JObj [(''type'', JStr ''integer''), (''default'', JInt 5),
                            (''description'', JStr ''Maximum number of results to return'')]),
          (''source_id'', JObj [(''type'', JStr ''string''),
                                (''description'', JStr ''Filter results by source ID'')])])]"

definition renderToolsJSON :: "inject_params \<Rightarrow> string result" where
  "renderToolsJSON p =
     (let url = ic_DataPlaneURL (ip_Config p);
          tools = (if url \<noteq> '''' then [knowledge_tool url] else [])
      in Inr (MarshalIndent (JObj [(''tools'', JArr tools)]) @ [CHR 0x0A]))"

section \<open>Writing\<close>

definition writeIfChanged :: "string \<Rightarrow> string \<Rightarrow> nat \<Rightarrow> fs \<Rightarrow> unit result \<times> fs" where
  "writeIfChanged path data perm s =
     (case os_ReadFile path s of
        (r, s1) \<Rightarrow>
          if r = Inr data then (Inr (), s1)
          else case os_MkdirAll (path_Dir path) s1 of
                 (Inl e, s2) \<Rightarrow> (Inl e, s2)
               | (Inr _, s2) \<Rightarrow> os_WriteFile path data perm s2)"

type_synonym writer = "string \<times> (inject_params \<Rightarrow> string result) \<times> nat"

fun run_writers :: "writer list \<Rightarrow> inject_params \<Rightarrow> fs \<Rightarrow> unit result \<times> fs" where
  "run_writers [] p s = (Inr (), s)"
| "run_writers ((path, fn, perm) # ws) p s =
     (case fn p of
        Inl e \<Rightarrow> (Inl (Wrap (''config: render '' @ path_Base path) e), s)
      | Inr data \<Rightarrow>
          (case writeIfChanged path data perm s of
             (Inl e, s1) \<Rightarrow> (Inl (Wrap (''config: write '' @ path_Base path) e), s1)
           | (Inr _, s1) \<Rightarrow> run_writers ws p s1))"

definition inject_files :: "((string \<times> yaml) list \<Rightarrow> string result) \<Rightarrow> string \<Rightarrow> writer list" where
  "inject_files yamlMarshal dir =
     [(path_Join [dir, ''config'', ''hermes.env''], renderHermesEnv, 384),
      (path_Join [dir, ''config.yaml''], renderConfigYAML yamlMarshal, 420),
      (path_Join [dir, ''settings.json''], renderSettingsJSON, 420),
      (path_Join [dir, ''tools.json''], renderToolsJSON, 384)]"

definition Inject ::
  "((string \<times> yaml) list \<Rightarrow> string result) \<Rightarrow> inject_params \<Rightarrow> fs \<Rightarrow> unit result \<times> fs" where
  "Inject yamlMarshal p s =
     (if ic_AuthSecret (ip_Config p) = '''' then (Inl ErrMissingAuthSecret, s)
      else if ip_InstancePassword p = '''' then (Inl ErrMissingInstancePassword, s)
      else run_writers (inject_files yamlMarshal (ip_DataDir p)) p s)"

definition ValidateSecrets :: "string \<Rightarrow> string \<Rightarrow> unit result" where
  "ValidateSecrets authSecret instancePassword =
     (let errs = (if authSecret = '''' then [''admin_secret is empty''] else []) @
                 (if instancePassword = '''' then [''instance_password is empty''] else [])
      in if length errs > 0 then Inl (Errorf (''config: refusing to start: '' @ strings_join errs ''; ''))
         else Inr ())"

definition MarkOnboardingComplete :: "string \<Rightarrow> fs \<Rightarrow> unit result \<times> fs" where
  "MarkOnboardingComplete dataDir s =
     (let dir = path_Join [dataDir, ''config'']
      in case os_MkdirAll dir s of
           (Inl e, s1) \<Rightarrow> (Inl e, s1)
         | (Inr _, s1) \<Rightarrow>
             os_WriteFile (path_Join [dir, ''onboarding.json''])
               (''{'' @ json_quote ''completed'' @ '':true}'' @ [CHR 0x0A]) 420 s1)"

section \<open>What an instance's environment holds\<close>

definition plane_env :: "inject_params \<Rightarrow> string \<Rightarrow> string option" where
  "plane_env p = map_of (base_env p) ++ map_of (CloudEnvVars (ip_Cloud p))"

lemma reserved_upper: "k \<in> set reserved_env \<Longrightarrow> ToUpper k = k"
proof -
  have "list_all (\<lambda>k. ToUpper k = k) reserved_env" by code_simp
  then show "k \<in> set reserved_env \<Longrightarrow> ToUpper k = k" by (simp add: list_all_iff)
qed

lemma add_user_env_Inl:
  "(\<exists>e. add_user_env kvs env = Inl e) \<longleftrightarrow> (\<exists>(k, v) \<in> set kvs. ToUpper k \<in> set reserved_env)"
  by (induction kvs env rule: add_user_env.induct) auto

lemma add_user_env_map:
  "add_user_env kvs env = Inr env' \<Longrightarrow> map_of env' = map_of env ++ map_of (rev kvs)"
  by (induction kvs env arbitrary: env' rule: add_user_env.induct)
    (auto simp: update_conv' split: if_splits)

lemma fold_update_map:
  "map_of (fold (\<lambda>(k, v). AList.update k v) kvs env) = map_of env ++ map_of (rev kvs)"
proof (induction kvs arbitrary: env)
  case (Cons kv kvs)
  then show ?case by (cases kv) (simp add: update_conv' del: fun_upd_apply)
qed simp

lemma map_of_rev: "distinct (map fst kvs) \<Longrightarrow> map_of (rev kvs) = map_of kvs"
  using map_of_inject_set [of "rev kvs" kvs] distinct_rev [of "map fst kvs"] by (simp add: rev_map)

lemma cloud_env_distinct: "distinct (map fst (CloudEnvVars c))"
  by (simp add: CloudEnvVars_def Let_def)

lemma cloud_env_reserved: "k \<in> dom (map_of (CloudEnvVars c)) \<Longrightarrow> k \<in> set reserved_env"
  by (auto simp: CloudEnvVars_def Let_def reserved_env_def split: if_splits)

lemma hermes_env_map:
  assumes "hermes_env p = Inr env" "distinct (map fst (ic_Env (ip_Config p)))"
  shows "map_of env = map_of (base_env p) ++ map_of (ic_Env (ip_Config p)) ++ map_of (CloudEnvVars (ip_Cloud p))"
  using assms map_of_rev [OF cloud_env_distinct] map_of_rev [OF assms(2)]
  by (auto simp: hermes_env_def fold_update_map dest!: add_user_env_map split: sum.splits)

lemma hermes_env_Inl:
  "(\<exists>e. hermes_env p = Inl e) \<longleftrightarrow> (\<exists>(k, v) \<in> set (ic_Env (ip_Config p)). ToUpper k \<in> set reserved_env)"
  using add_user_env_Inl [of "ic_Env (ip_Config p)" "base_env p"]
  by (auto simp: hermes_env_def split: sum.splits)

lemma hermes_env_protected:
  assumes "hermes_env p = Inr env" "distinct (map fst (ic_Env (ip_Config p)))"
  shows "map_of env k = (if ToUpper k \<in> set reserved_env \<or> map_of (ic_Env (ip_Config p)) k = None
     then plane_env p k else map_of (ic_Env (ip_Config p)) k)"
proof -
  have none: "map_of (ic_Env (ip_Config p)) k = None" if "ToUpper k \<in> set reserved_env"
  proof (rule ccontr)
    assume "map_of (ic_Env (ip_Config p)) k \<noteq> None"
    then obtain v where "(k, v) \<in> set (ic_Env (ip_Config p))" by (auto dest: map_of_SomeD)
    with that hermes_env_Inl [of p] assms(1) show False by auto
  qed
  have cloud: "map_of (CloudEnvVars (ip_Cloud p)) k = None" if "ToUpper k \<notin> set reserved_env"
    using that cloud_env_reserved [of k "ip_Cloud p"] reserved_upper [of k] by (metis domIff)
  show ?thesis
    using none cloud unfolding hermes_env_map [OF assms] plane_env_def
    by (cases "ToUpper k \<in> set reserved_env") (auto simp: map_add_def split: option.splits)
qed


definition sample_params :: "(string \<times> string) list \<Rightarrow> inject_params" where
  "sample_params env =
     \<lparr>ip_DataDir = ''/d'', ip_InstancePassword = ''pw'',
      ip_Config = \<lparr>ic_AuthSecret = ''s'', ic_InstancePassword = ''pw'', ic_ProxyEndpoint = '''',
        ic_CapabilityFlags = [], ic_Env = env, ic_SkillsetPath = '''', ic_DataPlaneURL = '''',
        ic_PrincipalRole = ''''\<rparr>,
      ip_QueryToken = ''t'', ip_Cloud = \<lparr>cc_Enabled = False, cc_Domain = '''', cc_Slug = ''''\<rparr>\<rparr>"


text \<open>Values are written between quotes without escaping, so a value with a quote and a newline
  adds a line of its own; here an accepted request ends in the line \<^verbatim>\<open>PATH="/x"\<close>.\<close>

lemma env_value_injection:
  "\<exists>v pre. renderHermesEnv (sample_params [(''ZZ'', v)]) =
     Inr (pre @ [CHR 0x0A] @ ''PATH='' @ [CHR 0x22] @ ''/x'' @ [CHR 0x22, CHR 0x0A])"
proof (intro exI)
  let ?v = "[CHR 0x22, CHR 0x0A] @ ''PATH='' @ [CHR 0x22] @ ''/x''"
  let ?pre = "''FOX_DATA_PLANE_TOKEN='' @ [CHR 0x22] @ ''t'' @ [CHR 0x22, CHR 0x0A] @
    ''FOX_PLANE_AUTH_SECRET='' @ [CHR 0x22] @ ''s'' @ [CHR 0x22, CHR 0x0A] @
    ''HERMES_WEBUI_PASSWORD='' @ [CHR 0x22] @ ''pw'' @ [CHR 0x22, CHR 0x0A] @ ''ZZ='' @ [CHR 0x22, CHR 0x22]"
  show "renderHermesEnv (sample_params [(''ZZ'', ?v)]) =
     Inr (?pre @ [CHR 0x0A] @ ''PATH='' @ [CHR 0x22] @ ''/x'' @ [CHR 0x22, CHR 0x0A])"
    by code_simp
qed

section \<open>Injection writes exactly its files\<close>

lemma writeIfChanged_ok:
  assumes "writeIfChanged path data perm s = (Inr (), s')"
  shows "file_content s' = (file_content s)(path \<mapsto> data)"
proof (cases "os_ReadFile path s")
  case (Pair r s1)
  have c: "file_content s1 = file_content s" using os_ReadFile_content [of path s] Pair by simp
  show ?thesis
  proof (cases "r = Inr data")
    case True
    with Pair have "file_content s path = Some data"
      by (auto simp: os_ReadFile_def split: option.splits)
    with True Pair assms c show ?thesis by (auto simp: writeIfChanged_def)
  next
    case False
    with Pair assms obtain u s2 where "os_MkdirAll (path_Dir path) s1 = (Inr u, s2)"
      and w: "os_WriteFile path data perm s2 = (Inr (), s')"
      by (auto simp: writeIfChanged_def split: prod.splits sum.splits)
    then have "file_content s2 = file_content s" using c os_MkdirAll_content [of "path_Dir path" s1] by simp
    with os_WriteFile_ok [OF w] show ?thesis by simp
  qed
qed

lemma writeIfChanged_other: "q \<noteq> path \<Longrightarrow> file_content (snd (writeIfChanged path data perm s)) q = file_content s q"
proof -
  assume q: "q \<noteq> path"
  obtain r s1 where r: "os_ReadFile path s = (r, s1)" by fastforce
  obtain m s2 where m: "os_MkdirAll (path_Dir path) s1 = (m, s2)" by fastforce
  have "file_content s1 = file_content s" using os_ReadFile_content [of path s] r by simp
  moreover from this have "file_content s2 = file_content s" using os_MkdirAll_content [of "path_Dir path" s1] m by simp
  ultimately show ?thesis
    using q os_WriteFile_other [OF q, of data perm s2] r m
    by (auto simp: writeIfChanged_def split: sum.splits)
qed

lemma run_writers_ok:
  assumes "run_writers ws p s = (Inr (), s')" "distinct (map fst ws)"
  shows "\<forall>(path, fn, perm) \<in> set ws. \<exists>d. fn p = Inr d \<and> file_content s' path = Some d"
    and "\<forall>q. q \<notin> fst ` set ws \<longrightarrow> file_content s' q = file_content s q"
  using assms
proof (induction ws p s rule: run_writers.induct)
  case (2 path fn perm ws p s)
  {
    case 1
    from 1(1) obtain d s1 where d: "fn p = Inr d" and w: "writeIfChanged path d perm s = (Inr (), s1)"
      and rest: "run_writers ws p s1 = (Inr (), s')"
      by (auto split: sum.splits prod.splits)
    have n: "path \<notin> fst ` set ws" and ds: "distinct (map fst ws)" using 1(2) by auto
    note ih = "2.IH" [OF d w [symmetric] refl]
    have "file_content s' path = Some d"
      using ih(2) [OF rest ds] n writeIfChanged_ok [OF w] by simp
    with d ih(1) [OF rest ds] show ?case by auto
  next
    case 2
    from 2(1) obtain d s1 where d: "fn p = Inr d" and w: "writeIfChanged path d perm s = (Inr (), s1)"
      and rest: "run_writers ws p s1 = (Inr (), s')"
      by (auto split: sum.splits prod.splits)
    have ds: "distinct (map fst ws)" using 2(2) by auto
    note ih = "2.IH" [OF d w [symmetric] refl]
    show ?case using ih(2) [OF rest ds] writeIfChanged_ok [OF w] by auto
  }
qed auto

lemma run_writers_other:
  "q \<notin> fst ` set ws \<Longrightarrow> file_content (snd (run_writers ws p s)) q = file_content s q"
proof (induction ws p s rule: run_writers.induct)
  case (2 path fn perm ws p s)
  show ?case
  proof (cases "fn p")
    case (Inr d)
    obtain r s1 where w: "writeIfChanged path d perm s = (r, s1)" by fastforce
    have "file_content s1 q = file_content s q"
      using writeIfChanged_other [of q path d perm s] w "2.prems" by auto
    with 2 Inr w show ?thesis by (cases r) auto
  qed simp
qed simp

lemma inject_names: "plain_seg ''config''" "plain_seg ''hermes.env''" "plain_seg ''config.yaml''"
  "plain_seg ''settings.json''" "plain_seg ''tools.json''"
  by code_simp+

lemma inject_files_distinct: "dir \<noteq> '''' \<Longrightarrow> distinct (map fst (inject_files ym dir))"
  by (simp add: inject_files_def path_Join_child path_Join_grandchild inject_names)

text \<open>After a successful injection each of the four files holds exactly its rendering (none is
  left out or stale), and no other file has changed, whatever was there before; a failed injection
  touches no other file either.\<close>

theorem Inject_writes:
  assumes "ip_DataDir p \<noteq> ''''" and "Inject ym p s = (r, s')"
  shows "(r = Inr () \<longrightarrow> (\<forall>(path, render, perm) \<in> set (inject_files ym (ip_DataDir p)).
            \<exists>d. render p = Inr d \<and> file_content s' path = Some d)) \<and>
     (\<forall>q. q \<notin> fst ` set (inject_files ym (ip_DataDir p)) \<longrightarrow> file_content s' q = file_content s q)"
proof -
  let ?ws = "inject_files ym (ip_DataDir p)"
  consider (ran) "run_writers ?ws p s = (r, s')" | (refused) "r \<noteq> Inr ()" "s' = s"
    using assms(2) by (auto simp: Inject_def split: if_splits)
  then show ?thesis
  proof cases
    case ran
    have "file_content s' q = file_content s q" if "q \<notin> fst ` set ?ws" for q
      using run_writers_other [OF that, of p s] ran by simp
    moreover have "\<forall>(path, render, perm) \<in> set ?ws. \<exists>d. render p = Inr d \<and> file_content s' path = Some d"
      if "r = Inr ()"
      using run_writers_ok(1) [OF _ inject_files_distinct [OF assms(1)]] ran that by blast
    ultimately show ?thesis by blast
  qed simp
qed

theorem Inject_writes_witness:
  "file_content (snd (Inject (\<lambda>_. Inr ''{}'') (sample_params []) \<lparr>fs_files = [], fs_dirs = [], fs_faults = []\<rparr>))
     ''/d/settings.json'' = Some (''{}'' @ [CHR 0x0A])"
proof -
  let ?p = "sample_params []" and ?s = "\<lparr>fs_files = [], fs_dirs = [], fs_faults = []\<rparr>"
  let ?r = "Inject (\<lambda>_. Inr ''{}'') ?p ?s"
  have 1: "ip_DataDir ?p \<noteq> ''''" "fst ?r = Inr ()" by code_simp+
  have 2: "\<forall>(path, render, perm) \<in> set (inject_files (\<lambda>_. Inr ''{}'') (ip_DataDir ?p)).
      \<exists>d. render ?p = Inr d \<and> file_content (snd ?r) path = Some d"
    using Inject_writes [of ?p "\<lambda>_. Inr ''{}''" ?s "fst ?r" "snd ?r"] 1
    by (metis (no_types, lifting) prod.collapse)
  have 3: "path_Join [ip_DataDir ?p, ''settings.json''] = ''/d/settings.json''"
    "renderSettingsJSON ?p = Inr (''{}'' @ [CHR 0x0A])" by code_simp+
  have "(path_Join [ip_DataDir ?p, ''settings.json''], renderSettingsJSON, 420)
      \<in> set (inject_files (\<lambda>_. Inr ''{}'') (ip_DataDir ?p))"
    by (simp add: inject_files_def)
  with 2 3 show ?thesis by fastforce
qed

end
