(* ===== verification/Go_Net.thy ===== *)
theory Go_Net
  imports Fleet_Prelude
begin

text \<open>
  The parts of Go's standard library that the network-facing code relies on:
  \<^verbatim>\<open>net.SplitHostPort\<close>, the decimal scan of \<^verbatim>\<open>fmt.Sscanf(s, "%d", &p)\<close>, 64-bit \<^verbatim>\<open>int\<close>
  arithmetic, and the address classes of \<^verbatim>\<open>net.IP\<close> used by the outbound dialer and the TLS
  check.
\<close>

section \<open>64-bit signed integers\<close>

definition wrap64 :: "int \<Rightarrow> int" where
  "wrap64 x = (x + 2 ^ 63) mod 2 ^ 64 - 2 ^ 63"

lemma wrap64_id: "- (2 ^ 63) \<le> x \<Longrightarrow> x < 2 ^ 63 \<Longrightarrow> wrap64 x = x"
  unfolding wrap64_def by (subst mod_pos_pos_trivial) auto

lemma wrap64_range: "- (2 ^ 63) \<le> wrap64 x \<and> wrap64 x < 2 ^ 63"
proof -
  have "0 \<le> (x + 2 ^ 63) mod 2 ^ 64" and "(x + 2 ^ 63) mod 2 ^ 64 < (2 ^ 64 :: int)"
    by (intro pos_mod_sign pos_mod_bound; simp)+
  then show ?thesis unfolding wrap64_def by simp
qed

section \<open>Scanning and splitting\<close>

definition is_digit_char :: "char \<Rightarrow> bool" where
  "is_digit_char c \<longleftrightarrow> (let n = (of_char c :: nat) in 48 \<le> n \<and> n \<le> 57)"

definition digit_val :: "char \<Rightarrow> int" where
  "digit_val c = int (of_char c) - 48"

definition dec_val :: "string \<Rightarrow> int" where
  "dec_val ds = foldl (\<lambda>a c. a * 10 + digit_val c) 0 ds"

text \<open>Leading blanks, an optional sign, at least one digit; trailing input is left alone. A value
  outside the 64-bit range is an error.\<close>

definition scan_int :: "string \<Rightarrow> int option" where
  "scan_int s =
     (let s1 = dropWhile (\<lambda>c. c \<in> {CHR '' '', CHR 0x09, CHR 0x0B, CHR 0x0C, CHR 0x0D}) s;
          neg = (s1 \<noteq> [] \<and> hd s1 = CHR ''-'');
          s2 = (if s1 \<noteq> [] \<and> (hd s1 = CHR ''-'' \<or> hd s1 = CHR ''+'') then tl s1 else s1);
          ds = takeWhile is_digit_char s2;
          v = (if neg then - dec_val ds else dec_val ds)
      in if ds = [] then None
         else if - (2 ^ 63) \<le> v \<and> v < 2 ^ 63 then Some v else None)"

definition SplitHostPort :: "string \<Rightarrow> (string \<times> string) result" where
  "SplitHostPort hp =
     (case str_last_index hp [CHR '':''] of
        None \<Rightarrow> Inl (Errorf ''missing port in address'')
      | Some i \<Rightarrow>
          (let hostjk =
             (if hd hp = CHR ''['' then
                (case str_index hp [CHR '']''] of
                   None \<Rightarrow> Inl (Errorf ''missing ']' in address'')
                 | Some e \<Rightarrow>
                     (if e + 1 = length hp then Inl (Errorf ''missing port in address'')
                      else if e + 1 = i then Inr (take (e - 1) (tl hp), 1, e + 1)
                      else if hp ! (e + 1) = CHR '':'' then Inl (Errorf ''too many colons in address'')
                      else Inl (Errorf ''missing port in address'')))
              else if CHR '':'' \<in> set (take i hp) then Inl (Errorf ''too many colons in address'')
              else Inr (take i hp, 0, 0))
           in case hostjk of
                Inl e \<Rightarrow> Inl e
              | Inr (host, j, k) \<Rightarrow>
                  (if CHR ''['' \<in> set (drop j hp) then Inl (Errorf ''unexpected '[' in address'')
                   else if CHR '']'' \<in> set (drop k hp) then Inl (Errorf ''unexpected ']' in address'')
                   else Inr (host, drop (i + 1) hp))))"

text \<open>A plain \<^verbatim>\<open>host:port\<close> splits at its colon.\<close>

lemma str_last_index_unique:
  assumes "c \<notin> set v"
  shows "str_last_index (u @ c # v) [c] = Some (length u)"
proof (induction u)
  case Nil
  from assms have "str_last_index v [c] = None" by (simp add: str_last_index_char_None)
  then show ?case by (simp add: HasPrefix_def)
next
  case (Cons d u)
  then show ?case by simp
qed

lemma SplitHostPort_plain:
  assumes "CHR '':'' \<notin> set h" "CHR ''['' \<notin> set h" "CHR '']'' \<notin> set h"
    and "CHR '':'' \<notin> set p" "CHR ''['' \<notin> set p" "CHR '']'' \<notin> set p"
  shows "SplitHostPort (h @ '':'' @ p) = Inr (h, p)"
proof -
  have i: "str_last_index (h @ '':'' @ p) [CHR '':''] = Some (length h)"
    using str_last_index_unique [of "CHR '':''" p h] assms(4) by simp
  have "hd (h @ '':'' @ p) \<noteq> CHR ''[''"
    using assms(2) by (cases h) auto
  with assms show ?thesis
    unfolding SplitHostPort_def i by simp
qed

text \<open>The port a successful split returns is what follows the last colon, so it holds none.\<close>

lemma SplitHostPort_port:
  assumes "SplitHostPort hp = Inr (h, p)"
  shows "CHR '':'' \<notin> set p"
proof -
  from assms obtain i where i: "str_last_index hp [CHR '':''] = Some i"
    and p: "p = drop (i + 1) hp"
    by (auto simp: SplitHostPort_def Let_def split: option.splits sum.splits prod.splits if_splits)
  with str_last_index_char_after [OF i] show ?thesis by simp
qed

section \<open>IP addresses\<close>

text \<open>
  A parsed \<^verbatim>\<open>net.IP\<close>: four bytes (an IPv4 address, or an IPv4-mapped IPv6 address, which
  \<^verbatim>\<open>To4\<close> turns into four bytes) or sixteen bytes that are not IPv4-mapped.
\<close>

datatype ip = IP4 nat nat nat nat | IP6 "nat list"

fun To4 :: "ip \<Rightarrow> (nat \<times> nat \<times> nat \<times> nat) option" where
  "To4 (IP4 a b c d) = Some (a, b, c, d)"
| "To4 (IP6 bs) = None"

fun IsLoopback :: "ip \<Rightarrow> bool" where
  "IsLoopback (IP4 a b c d) \<longleftrightarrow> a = 127"
| "IsLoopback (IP6 bs) \<longleftrightarrow> bs = replicate 15 0 @ [1]"

fun IsPrivate :: "ip \<Rightarrow> bool" where
  "IsPrivate (IP4 a b c d) \<longleftrightarrow> a = 10 \<or> a = 172 \<and> b div 16 = 1 \<or> a = 192 \<and> b = 168"
| "IsPrivate (IP6 bs) \<longleftrightarrow> length bs = 16 \<and> bs ! 0 div 2 * 2 = 252"

fun IsLinkLocalUnicast :: "ip \<Rightarrow> bool" where
  "IsLinkLocalUnicast (IP4 a b c d) \<longleftrightarrow> a = 169 \<and> b = 254"
| "IsLinkLocalUnicast (IP6 bs) \<longleftrightarrow> length bs = 16 \<and> bs ! 0 = 254 \<and> bs ! 1 div 64 = 2"

fun IsLinkLocalMulticast :: "ip \<Rightarrow> bool" where
  "IsLinkLocalMulticast (IP4 a b c d) \<longleftrightarrow> a = 224 \<and> b = 0 \<and> c = 0"
| "IsLinkLocalMulticast (IP6 bs) \<longleftrightarrow> length bs = 16 \<and> bs ! 0 = 255 \<and> bs ! 1 mod 16 = 2"

fun IsUnspecified :: "ip \<Rightarrow> bool" where
  "IsUnspecified (IP4 a b c d) \<longleftrightarrow> a = 0 \<and> b = 0 \<and> c = 0 \<and> d = 0"
| "IsUnspecified (IP6 bs) \<longleftrightarrow> bs = replicate 16 0"

end
