(* ===== verification/Skillsets.thy ===== *)
theory Skillsets
  imports Go_Fs Go_Net
begin

text \<open>
  \<^verbatim>\<open>skillsets/manifest.go\<close> and \<^verbatim>\<open>skillsets/parse.go\<close>: skillset manifests, their validation and
  the comparison with the tools an image offers. The semantic-version regular expression is a
  recogniser that cuts the text at its first \<^verbatim>\<open>+\<close> and \<^verbatim>\<open>-\<close>; it is proved equal to the language
  the expression denotes. The YAML decoder is the argument \<open>unmarshal\<close>.
\<close>

section \<open>Semantic versions\<close>

definition is_alpha_char :: "char \<Rightarrow> bool" where
  "is_alpha_char c \<longleftrightarrow> (let n = (of_char c :: nat) in 65 \<le> n \<and> n \<le> 90 \<or> 97 \<le> n \<and> n \<le> 122)"

definition is_ident_char :: "char \<Rightarrow> bool" where
  "is_ident_char c \<longleftrightarrow> is_digit_char c \<or> is_alpha_char c \<or> c = CHR ''-''"

text \<open>\<^verbatim>\<open>0|[1-9]\d*\<close>, \<^verbatim>\<open>\d*[a-zA-Z-][0-9a-zA-Z-]*\<close>, \<^verbatim>\<open>[0-9a-zA-Z-]+\<close>.\<close>

definition numeric_ident :: "string \<Rightarrow> bool" where
  "numeric_ident s \<longleftrightarrow> s \<noteq> '''' \<and> list_all is_digit_char s \<and> (s = ''0'' \<or> hd s \<noteq> CHR ''0'')"

definition pre_ident :: "string \<Rightarrow> bool" where
  "pre_ident s \<longleftrightarrow> numeric_ident s \<or> list_all is_ident_char s \<and> \<not> list_all is_digit_char s"

definition build_ident :: "string \<Rightarrow> bool" where
  "build_ident s \<longleftrightarrow> s \<noteq> '''' \<and> list_all is_ident_char s"

definition cut :: "char \<Rightarrow> string \<Rightarrow> string \<times> string option" where
  "cut c s = (let a = takeWhile (\<lambda>x. x \<noteq> c) s
              in (a, if length a < length s then Some (drop (Suc (length a)) s) else None))"

definition semverRe :: "string \<Rightarrow> bool" where
  "semverRe s =
     (let (v, build) = cut (CHR ''+'') s;
          (core, pre) = cut (CHR ''-'') v
      in length (split_on (CHR ''.'') core) = 3 \<and> list_all numeric_ident (split_on (CHR ''.'') core) \<and>
         (case pre of None \<Rightarrow> True | Some p \<Rightarrow> list_all pre_ident (split_on (CHR ''.'') p)) \<and>
         (case build of None \<Rightarrow> True | Some b \<Rightarrow> list_all build_ident (split_on (CHR ''.'') b)))"

section \<open>Manifests\<close>

record skill_tool =
  tool_Name :: string
  tool_Type :: string

record data_source =
  ds_Binding :: string
  ds_QueryMode :: string

record manifest =
  mf_Name :: string
  mf_Version :: string
  mf_ContractVersion :: string
  mf_Tools :: "skill_tool list"
  mf_DataSources :: "data_source list"

datatype skill_complaint =
    NameRequired | VersionRequired | VersionInvalid string
  | ContractVersionRequired | ContractVersionInvalid string
  | ToolNameRequired nat | ToolTypeRequired nat | ToolTypeInvalid nat string
  | BindingRequired nat | QueryModeRequired nat | QueryModeInvalid nat string

definition tool_complaints :: "nat \<Rightarrow> skill_tool \<Rightarrow> skill_complaint list" where
  "tool_complaints i t =
     (if tool_Name t = '''' then [ToolNameRequired i] else []) @
     (if tool_Type t = '''' then [ToolTypeRequired i]
      else if tool_Type t \<noteq> ''builtin'' \<and> tool_Type t \<noteq> ''custom'' then [ToolTypeInvalid i (tool_Type t)]
      else [])"

definition source_complaints :: "nat \<Rightarrow> data_source \<Rightarrow> skill_complaint list" where
  "source_complaints i d =
     (if ds_Binding d = '''' then [BindingRequired i] else []) @
     (if ds_QueryMode d = '''' then [QueryModeRequired i]
      else if ds_QueryMode d \<noteq> ''rag'' \<and> ds_QueryMode d \<noteq> ''function_call''
      then [QueryModeInvalid i (ds_QueryMode d)] else [])"

definition Validate :: "manifest \<Rightarrow> skill_complaint list" where
  "Validate m =
     (if mf_Name m = '''' then [NameRequired] else []) @
     (if mf_Version m = '''' then [VersionRequired]
      else if \<not> semverRe (mf_Version m) then [VersionInvalid (mf_Version m)] else []) @
     (if mf_ContractVersion m = '''' then [ContractVersionRequired]
      else if \<not> semverRe (mf_ContractVersion m) then [ContractVersionInvalid (mf_ContractVersion m)] else []) @
     concat (map (\<lambda>(i, t). tool_complaints i t) (enumerate 0 (mf_Tools m))) @
     concat (map (\<lambda>(i, d). source_complaints i d) (enumerate 0 (mf_DataSources m)))"

datatype skill_error = SkillParse go_error | SkillInvalid "skill_complaint list" | SkillRead string go_error

definition Parse :: "(string \<Rightarrow> manifest result) \<Rightarrow> string \<Rightarrow> skill_error + manifest" where
  "Parse unmarshal data =
     (case unmarshal data of
        Inl e \<Rightarrow> Inl (SkillParse e)
      | Inr m \<Rightarrow> (case Validate m of [] \<Rightarrow> Inr m | errs \<Rightarrow> Inl (SkillInvalid errs)))"

definition LoadFile :: "(string \<Rightarrow> manifest result) \<Rightarrow> string \<Rightarrow> fs \<Rightarrow> (skill_error + manifest) \<times> fs" where
  "LoadFile unmarshal path s =
     (case os_ReadFile path s of
        (Inl e, s1) \<Rightarrow> (Inl (SkillRead path e), s1)
      | (Inr data, s1) \<Rightarrow> (Parse unmarshal data, s1))"

record tool_validation =
  tv_Missing :: "string list"
  tv_Extra :: "string list"

definition ValidateAgainstManifest :: "manifest \<Rightarrow> skill_tool list \<Rightarrow> tool_validation" where
  "ValidateAgainstManifest skillset available =
     \<lparr>tv_Missing = filter (\<lambda>n. n \<notin> set (map tool_Name available)) (map tool_Name (mf_Tools skillset)),
      tv_Extra = filter (\<lambda>n. n \<notin> set (map tool_Name (mf_Tools skillset))) (map tool_Name available)\<rparr>"

definition tool_validation_OK :: "tool_validation \<Rightarrow> bool" where
  "tool_validation_OK r \<longleftrightarrow> length (tv_Missing r) = 0"

section \<open>The recogniser is the regular expression\<close>

lemma cut_none: "cut c s = (a, None) \<longleftrightarrow> a = s \<and> c \<notin> set s"
proof -
  have "length (takeWhile (\<lambda>x. x \<noteq> c) s) < length s \<longleftrightarrow> c \<in> set s"
    by (induction s) auto
  then show ?thesis
    by (auto simp: cut_def Let_def takeWhile_eq_all_conv split: if_splits)
qed

lemma cut_some: "cut c s = (a, Some b) \<longleftrightarrow> s = a @ c # b \<and> c \<notin> set a"
proof
  assume "cut c s = (a, Some b)"
  then have a: "a = takeWhile (\<lambda>x. x \<noteq> c) s" and l: "length a < length s"
    and b: "b = drop (Suc (length a)) s"
    by (auto simp: cut_def Let_def split: if_splits)
  have "c \<notin> set a" using a by (auto dest: set_takeWhileD)
  moreover have "s ! length a = c" using a l nth_length_takeWhile by blast
  with l b have "s = a @ c # b"
    using a by (metis append_take_drop_id Cons_nth_drop_Suc takeWhile_eq_take)
  ultimately show "s = a @ c # b \<and> c \<notin> set a" by simp
next
  assume "s = a @ c # b \<and> c \<notin> set a"
  moreover from this have "takeWhile (\<lambda>x. x \<noteq> c) s = a"
    by (simp add: takeWhile_append)
  ultimately show "cut c s = (a, Some b)" by (simp add: cut_def Let_def)
qed

lemma cut_total: "\<exists>a b. cut c s = (a, b)"
  by (cases "cut c s") auto

lemma strings_join_split: "strings_join (split_on c s) [c] = s"
proof (induction s)
  case (Cons d s)
  then show ?case
    by (cases "split_on c s"; cases "tl (split_on c s)") (auto split: list.splits)
qed simp

lemma split_on_join:
  "ps \<noteq> [] \<Longrightarrow> \<forall>p \<in> set ps. c \<notin> set p \<Longrightarrow> split_on c (strings_join ps [c]) = ps"
  by (induction ps "[c]" rule: strings_join.induct) (auto simp: split_on_plain split_on_append)

text \<open>The language of the expression, group by group.\<close>

definition semver_language :: "string set" where
  "semver_language = {strings_join [x, y, z] ''.'' @ pre @ build | x y z pre build.
     numeric_ident x \<and> numeric_ident y \<and> numeric_ident z \<and>
     (pre = '''' \<or> (\<exists>ps. ps \<noteq> [] \<and> list_all pre_ident ps \<and> pre = ''-'' @ strings_join ps ''.'')) \<and>
     (build = '''' \<or> (\<exists>bs. bs \<noteq> [] \<and> list_all build_ident bs \<and> build = ''+'' @ strings_join bs ''.''))}"

lemma special_not_ident: "\<not> is_ident_char (CHR ''+'')" "\<not> is_ident_char (CHR ''.'')" "\<not> is_digit_char (CHR ''-'')"
  "\<not> is_digit_char (CHR ''+'')" "\<not> is_digit_char (CHR ''.'')"
  by code_simp+

lemma numeric_ident_chars:
  "numeric_ident s \<Longrightarrow> CHR ''+'' \<notin> set s \<and> CHR ''-'' \<notin> set s \<and> CHR ''.'' \<notin> set s"
  using special_not_ident by (auto simp: numeric_ident_def list_all_iff)

lemma pre_ident_chars: "pre_ident s \<Longrightarrow> CHR ''+'' \<notin> set s \<and> CHR ''.'' \<notin> set s"
  using special_not_ident numeric_ident_chars by (auto simp: pre_ident_def list_all_iff)

lemma build_ident_chars: "build_ident s \<Longrightarrow> CHR ''.'' \<notin> set s"
  using special_not_ident by (auto simp: build_ident_def list_all_iff)

lemma set_strings_join: "set (strings_join ps sep) \<subseteq> \<Union> (set ` set ps) \<union> set sep"
  by (induction ps sep rule: strings_join.induct) auto

lemma core_split:
  assumes "numeric_ident x" "numeric_ident y" "numeric_ident z"
  shows "split_on (CHR ''.'') (strings_join [x, y, z] ''.'') = [x, y, z]"
    and "CHR ''+'' \<notin> set (strings_join [x, y, z] ''.'')" "CHR ''-'' \<notin> set (strings_join [x, y, z] ''.'')"
  using assms numeric_ident_chars split_on_join [of "[x, y, z]" "CHR ''.''"] by auto

lemma list_3: "length xs = 3 \<Longrightarrow> \<exists>x y z. xs = [x, y, z]"
  by (auto simp: length_Suc_conv numeral_3_eq_3)

lemma no_plus_pre:
  assumes "list_all pre_ident ps"
  shows "CHR ''+'' \<notin> set (strings_join ps ''.'')"
  using set_strings_join [of ps "''.''"] assms pre_ident_chars by (fastforce simp: list_all_iff)

lemma semverRe_sound:
  assumes "semverRe s"
  shows "s \<in> semver_language"
proof -
  obtain v build where b: "cut (CHR ''+'') s = (v, build)" using cut_total by blast
  obtain core pre where p: "cut (CHR ''-'') v = (core, pre)" using cut_total by blast
  from assms b p have core: "length (split_on (CHR ''.'') core) = 3" "list_all numeric_ident (split_on (CHR ''.'') core)"
    and pre: "case pre of None \<Rightarrow> True | Some q \<Rightarrow> list_all pre_ident (split_on (CHR ''.'') q)"
    and bld: "case build of None \<Rightarrow> True | Some q \<Rightarrow> list_all build_ident (split_on (CHR ''.'') q)"
    by (auto simp: semverRe_def)
  from list_3 [OF core(1)] obtain x y z where xyz: "split_on (CHR ''.'') core = [x, y, z]" by blast
  then have c: "core = strings_join [x, y, z] ''.''" using strings_join_split by metis
  have "\<exists>t. v = core @ t \<and> (t = '''' \<or> (\<exists>ps. ps \<noteq> [] \<and> list_all pre_ident ps \<and> t = ''-'' @ strings_join ps ''.''))"
  proof (cases pre)
    case None
    with p show ?thesis by (simp add: cut_none)
  next
    case (Some q)
    with p have "v = core @ CHR ''-'' # q" by (simp add: cut_some)
    with pre Some show ?thesis
      by (intro exI [of _ "CHR ''-'' # q"]) (metis append_Cons append_Nil option.simps(5) split_on_nonempty strings_join_split)
  qed
  then obtain t1 where t1: "v = core @ t1"
    "t1 = '''' \<or> (\<exists>ps. ps \<noteq> [] \<and> list_all pre_ident ps \<and> t1 = ''-'' @ strings_join ps ''.'')" by blast
  have "\<exists>t. s = v @ t \<and> (t = '''' \<or> (\<exists>ps. ps \<noteq> [] \<and> list_all build_ident ps \<and> t = ''+'' @ strings_join ps ''.''))"
  proof (cases build)
    case None
    with b show ?thesis by (simp add: cut_none)
  next
    case (Some q)
    with b have "s = v @ CHR ''+'' # q" by (simp add: cut_some)
    with bld Some show ?thesis
      by (intro exI [of _ "CHR ''+'' # q"]) (metis append_Cons append_Nil option.simps(5) split_on_nonempty strings_join_split)
  qed
  then obtain t2 where t2: "s = v @ t2"
    "t2 = '''' \<or> (\<exists>ps. ps \<noteq> [] \<and> list_all build_ident ps \<and> t2 = ''+'' @ strings_join ps ''.'')" by blast
  have "numeric_ident x" "numeric_ident y" "numeric_ident z" using core(2) xyz by simp_all
  moreover have "s = strings_join [x, y, z] ''.'' @ t1 @ t2"
    using t1(1) t2(1) c by (simp only: append_assoc)
  ultimately show ?thesis
    using t1(2) t2(2) unfolding semver_language_def mem_Collect_eq by blast
qed

lemma semverRe_complete:
  assumes "s \<in> semver_language"
  shows "semverRe s"
proof -
  from assms obtain x y z pre build where s: "s = strings_join [x, y, z] ''.'' @ pre @ build"
    and n: "numeric_ident x" "numeric_ident y" "numeric_ident z"
    and pre: "pre = '''' \<or> (\<exists>ps. ps \<noteq> [] \<and> list_all pre_ident ps \<and> pre = ''-'' @ strings_join ps ''.'')"
    and bld: "build = '''' \<or> (\<exists>bs. bs \<noteq> [] \<and> list_all build_ident bs \<and> build = ''+'' @ strings_join bs ''.'')"
    unfolding semver_language_def mem_Collect_eq by blast
  let ?core = "strings_join [x, y, z] ''.''"
  note core = core_split [OF n]
  from pre have np: "CHR ''+'' \<notin> set (?core @ pre)"
    using core(2) no_plus_pre by auto
  from bld have b: "cut (CHR ''+'') s = (?core @ pre, if build = '''' then None else Some (tl build))"
    using np unfolding s by (auto simp: cut_none cut_some)
  from pre have p: "cut (CHR ''-'') (?core @ pre) = (?core, if pre = '''' then None else Some (tl pre))"
    using core(3) by (auto simp: cut_none cut_some)
  have sj: "split_on (CHR ''.'') (strings_join ps ''.'') = ps"
    if "ps \<noteq> []" "list_all I ps" "\<And>q. I q \<Longrightarrow> CHR ''.'' \<notin> set q" for ps I
    using that split_on_join [of ps "CHR ''.''"] by (auto simp: list_all_iff)
  have pok: "pre \<noteq> '''' \<Longrightarrow> list_all pre_ident (split_on (CHR ''.'') (tl pre))"
    using pre sj [of _ pre_ident] pre_ident_chars by auto
  have bok: "build \<noteq> '''' \<Longrightarrow> list_all build_ident (split_on (CHR ''.'') (tl build))"
    using bld sj [of _ build_ident] build_ident_chars by auto
  show ?thesis
    unfolding semverRe_def b prod.case Let_def p core(1) using n pok bok by simp
qed

section \<open>What validation means\<close>

lemma concat_enumerate_Nil:
  "concat (map (\<lambda>(i, x). f i x) (enumerate n xs)) = [] \<longleftrightarrow> (\<forall>i < length xs. f (n + i) (xs ! i) = [])"
proof (induction xs arbitrary: n)
  case (Cons x xs)
  have "(\<forall>i < length (x # xs). f (n + i) ((x # xs) ! i) = []) \<longleftrightarrow>
      f n x = [] \<and> (\<forall>i < length xs. f (Suc n + i) (xs ! i) = [])"
    by (simp add: All_less_Suc2)
  with Cons.IH [of "Suc n"] show ?case by simp
qed simp

definition manifest_ok :: "manifest \<Rightarrow> bool" where
  "manifest_ok m \<longleftrightarrow>
     mf_Name m \<noteq> '''' \<and> mf_Version m \<in> semver_language \<and> mf_ContractVersion m \<in> semver_language \<and>
     (\<forall>t \<in> set (mf_Tools m). tool_Name t \<noteq> '''' \<and> tool_Type t \<in> {''builtin'', ''custom''}) \<and>
     (\<forall>d \<in> set (mf_DataSources m). ds_Binding d \<noteq> '''' \<and> ds_QueryMode d \<in> {''rag'', ''function_call''})"

lemma tool_complaints_Nil: "tool_complaints i t = [] \<longleftrightarrow> tool_Name t \<noteq> '''' \<and> tool_Type t \<in> {''builtin'', ''custom''}"
  by (auto simp: tool_complaints_def)

lemma source_complaints_Nil:
  "source_complaints i d = [] \<longleftrightarrow> ds_Binding d \<noteq> '''' \<and> ds_QueryMode d \<in> {''rag'', ''function_call''}"
  by (auto simp: source_complaints_def)

lemma semver_nonempty: "'''' \<notin> semver_language"
  using semverRe_complete [of "''''"] by (auto simp: semverRe_def cut_def Let_def)

lemma Validate_Nil: "Validate m = [] \<longleftrightarrow> manifest_ok m"
proof -
  have v: "mf_Version m \<in> semver_language \<longleftrightarrow> mf_Version m \<noteq> '''' \<and> semverRe (mf_Version m)"
    and c: "mf_ContractVersion m \<in> semver_language \<longleftrightarrow> mf_ContractVersion m \<noteq> '''' \<and> semverRe (mf_ContractVersion m)"
    using semver_nonempty semverRe_sound semverRe_complete by metis+
  show ?thesis
    unfolding Validate_def manifest_ok_def append_is_Nil_conv concat_enumerate_Nil tool_complaints_Nil
      source_complaints_Nil v c
    by (auto simp: all_set_conv_all_nth)
qed

text \<open>A skillset file is accepted exactly when its manifest has a name, both its versions are in the
  language of the semantic-version expression, every tool is named and builtin or custom, and every
  data source is bound with a known query mode; the manifest is returned unchanged.\<close>

theorem Parse_accepts:
  "Parse unmarshal data = Inr m \<longleftrightarrow> unmarshal data = Inr m \<and> manifest_ok m"
  by (auto simp: Parse_def Validate_Nil [symmetric] split: sum.splits list.splits)

text \<open>A tool check passes exactly when every declared tool is available.\<close>

lemma tool_validation_OK_iff:
  "tool_validation_OK (ValidateAgainstManifest m av) \<longleftrightarrow> tool_Name ` set (mf_Tools m) \<subseteq> tool_Name ` set av"
  by (auto simp: tool_validation_OK_def ValidateAgainstManifest_def filter_empty_conv)

end
