(* ===== verification/Api_Names.thy ===== *)
theory Api_Names
  imports Skillsets
begin

text \<open>
  The names the panel API accepts: instance ids (\<^verbatim>\<open>panel/api/handlers.go\<close>), slugs
  (\<^verbatim>\<open>panel/api/provision_handler.go\<close>) and cloud user names (\<^verbatim>\<open>panel/api/user_handlers.go\<close>). The
  regular expressions are anchored character classes with a length, so they are recognisers over
  the list of characters.
\<close>

definition is_lower_char :: "char \<Rightarrow> bool" where
  "is_lower_char c \<longleftrightarrow> (let n = (of_char c :: nat) in 97 \<le> n \<and> n \<le> 122)"

definition is_slug_end :: "char \<Rightarrow> bool" where
  "is_slug_end c \<longleftrightarrow> is_lower_char c \<or> is_digit_char c"

definition is_slug_char :: "char \<Rightarrow> bool" where
  "is_slug_char c \<longleftrightarrow> is_slug_end c \<or> c = CHR ''-''"

definition validInstanceID :: "string \<Rightarrow> bool" where
  "validInstanceID s \<longleftrightarrow>
     (case s of
        [] \<Rightarrow> False
      | c # cs \<Rightarrow> (is_alpha_char c \<or> is_digit_char c) \<and> length cs \<le> 63 \<and>
          list_all (\<lambda>x. is_alpha_char x \<or> is_digit_char x \<or> x = CHR ''.'' \<or> x = CHR ''_'' \<or> x = CHR ''-'') cs)"

definition validSlug :: "string \<Rightarrow> bool" where
  "validSlug s \<longleftrightarrow>
     2 \<le> length s \<and> length s \<le> 63 \<and> is_slug_end (hd s) \<and> is_slug_end (last s) \<and> list_all is_slug_char s"

definition isValidSlug :: "string \<Rightarrow> bool" where
  "isValidSlug s \<longleftrightarrow>
     (if length s = 0 \<or> length s > 63 then False
      else if length s = 1 then is_lower_char (hd s) \<or> is_digit_char (hd s)
      else validSlug s \<and> \<not> Contains s ''--'')"

definition validCloudUsername :: "string \<Rightarrow> bool" where
  "validCloudUsername s \<longleftrightarrow>
     (case s of
        [] \<Rightarrow> False
      | [c] \<Rightarrow> is_slug_end c
      | _ \<Rightarrow> length s \<le> 63 \<and> is_slug_end (hd s) \<and> is_slug_end (last s) \<and> list_all is_slug_char s)"

definition reservedSlugs :: "string list" where
  "reservedSlugs = [''admin'', ''api'', ''www'', ''mail'', ''login'', ''logout'', ''cloud'', ''fleet'', ''fox'',
     ''static'', ''assets'', ''healthz'', ''robots'']"

text \<open>A valid instance id is an ordinary path component, and every valid slug is a valid user name
  and a valid instance id.\<close>

lemma instance_id_plain:
  assumes "validInstanceID s"
  shows "plain_seg s"
proof -
  have no: "\<not> is_alpha_char (CHR ''/'')" "\<not> is_digit_char (CHR ''/'')"
    "\<not> is_alpha_char (CHR ''.'')" "\<not> is_digit_char (CHR ''.'')" by code_simp+
  obtain c cs where s: "s = c # cs" using assms by (cases s) (auto simp: validInstanceID_def)
  with assms no have "CHR ''/'' \<notin> set s" "c \<noteq> CHR ''.''"
    by (auto simp: validInstanceID_def list_all_iff)
  with s show ?thesis by (simp add: plain_seg_def)
qed

lemma slug_is_name:
  assumes "isValidSlug s"
  shows "validCloudUsername s \<and> validInstanceID s"
proof -
  have end_ok: "is_alpha_char c \<or> is_digit_char c" if "is_slug_end c" for c
    using that by (auto simp: is_slug_end_def is_lower_char_def is_alpha_char_def Let_def)
  obtain c cs where s: "s = c # cs" using assms by (cases s) (auto simp: isValidSlug_def)
  show ?thesis
  proof (cases cs)
    case Nil
    with assms s end_ok [of c] show ?thesis
      by (auto simp: isValidSlug_def validCloudUsername_def validInstanceID_def is_slug_end_def)
  next
    case (Cons d ds)
    with assms s have v: "validSlug s" by (auto simp: isValidSlug_def split: if_splits)
    then have "list_all (\<lambda>x. is_alpha_char x \<or> is_digit_char x \<or> x = CHR ''.'' \<or> x = CHR ''_'' \<or> x = CHR ''-'') cs"
      using end_ok by (auto simp: validSlug_def s list_all_iff is_slug_char_def)
    with v s Cons end_ok [of c] show ?thesis
      by (auto simp: validSlug_def validCloudUsername_def validInstanceID_def)
  qed
qed

end
