(* ===== verification/Control_Config.thy ===== *)
theory Control_Config
  imports Go_Net Plugin_Api
begin

text \<open>
  \<^verbatim>\<open>cmd/fox-control/config.go\<close>: the TOML configuration of the control plane, its defaults, the
  environment overrides and the validation that every command runs before it does anything.
  \<open>validateConfig\<close> collects all complaints; each message of the source is a constructor of
  \<open>config_complaint\<close> carrying the values the message prints. The TOML decoder is the argument
  \<open>decode\<close> of \<open>LoadConfig\<close> and the environment the argument \<open>getenv\<close>.
\<close>

section \<open>Sections\<close>

record control_section =
  ctl_Listen :: string
  ctl_DataRoot :: string
  ctl_HealthPollSeconds :: int
  ctl_SessionTokenTTLSecs :: int
  ctl_LogFormat :: string
  ctl_LogLevel :: string
  ctl_MetricsEnabled :: "bool option"

record docker_section =
  dck_Socket :: string
  dck_Image :: string

record auth_section =
  auth_AdminSecret :: string
  auth_InstancePassword :: string

record instances_section =
  ins_PortStart :: int
  ins_MaxInstances :: int
  ins_DefaultSkillset :: string
  ins_DefaultRole :: string

record qdrant_section =
  qd_Enabled :: bool
  qd_Image :: string
  qd_HTTPPort :: int
  qd_GRPCPort :: int
  qd_DataDir :: string

record data_plane_section =
  dp_Enabled :: bool
  dp_Listen :: string
  dp_Collection :: string
  dp_VectorSize :: int

record embedding_section =
  emb_BaseURL :: string
  emb_APIKey :: string
  emb_Model :: string

record tls_section =
  tls_CertFile :: string
  tls_KeyFile :: string

record webhook_config =
  wh_URL :: string
  wh_Events :: "string list"
  wh_Secret :: string

record rate_limit_section =
  rl_RequestsPerMinute :: int
  rl_ProvisionPerMinute :: int

record auto_restart_section =
  ar_Enabled :: bool
  ar_Threshold :: int
  ar_CooldownSeconds :: int

record cloud_section =
  cl_Enabled :: bool
  cl_Domain :: string
  cl_SessionTTL :: int
  cl_LoginRateLimit :: int
  cl_CookieName :: string

record config =
  Control :: control_section
  Docker :: docker_section
  Auth :: auth_section
  Instances :: instances_section
  Qdrant :: qdrant_section
  DataPlane :: data_plane_section
  Embedding :: embedding_section
  TLS :: tls_section
  Webhooks :: "webhook_config list"
  RateLimit :: rate_limit_section
  AutoRestart :: auto_restart_section
  Cloud :: cloud_section

section \<open>Defaults and overrides\<close>

definition defaultDockerSocket :: "string \<Rightarrow> string" where
  "defaultDockerSocket goos =
     (if goos = ''windows'' then ''//./pipe/docker_engine'' else ''/var/run/docker.sock'')"

text \<open>The assignment \<^verbatim>\<open>if x == zero { x = d }\<close>.\<close>

definition or_default :: "'a \<Rightarrow> 'a \<Rightarrow> 'a \<Rightarrow> 'a" where
  "or_default zero d x = (if x = zero then d else x)"

definition applyDefaults :: "string \<Rightarrow> config \<Rightarrow> config" where
  "applyDefaults goos cfg = cfg
     \<lparr>Control := (Control cfg)
        \<lparr>ctl_Listen := or_default '''' ''127.0.0.1:9090'' (ctl_Listen (Control cfg)),
         ctl_HealthPollSeconds := or_default 0 15 (ctl_HealthPollSeconds (Control cfg)),
         ctl_SessionTokenTTLSecs := or_default 0 600 (ctl_SessionTokenTTLSecs (Control cfg)),
         ctl_LogFormat := or_default '''' ''text'' (ctl_LogFormat (Control cfg)),
         ctl_LogLevel := or_default '''' ''info'' (ctl_LogLevel (Control cfg))\<rparr>,
      Docker := (Docker cfg)
        \<lparr>dck_Socket := or_default '''' (defaultDockerSocket goos) (dck_Socket (Docker cfg))\<rparr>,
      Instances := (Instances cfg)
        \<lparr>ins_PortStart := or_default 0 8787 (ins_PortStart (Instances cfg)),
         ins_MaxInstances := or_default 0 10 (ins_MaxInstances (Instances cfg))\<rparr>,
      AutoRestart := (AutoRestart cfg)
        \<lparr>ar_Threshold := or_default 0 3 (ar_Threshold (AutoRestart cfg)),
         ar_CooldownSeconds := or_default 0 300 (ar_CooldownSeconds (AutoRestart cfg))\<rparr>,
      Cloud := (Cloud cfg)
        \<lparr>cl_SessionTTL := or_default 0 86400 (cl_SessionTTL (Cloud cfg)),
         cl_LoginRateLimit := or_default 0 5 (cl_LoginRateLimit (Cloud cfg)),
         cl_CookieName := or_default '''' ''fox_cloud_session'' (cl_CookieName (Cloud cfg))\<rparr>,
      DataPlane := (DataPlane cfg)
        \<lparr>dp_Listen := or_default '''' ''127.0.0.1:9091'' (dp_Listen (DataPlane cfg)),
         dp_Collection := or_default '''' ''fox-knowledge'' (dp_Collection (DataPlane cfg)),
         dp_VectorSize := or_default 0 1536 (dp_VectorSize (DataPlane cfg))\<rparr>\<rparr>"

definition applyEnvOverrides :: "(string \<Rightarrow> string) \<Rightarrow> config \<Rightarrow> config" where
  "applyEnvOverrides getenv cfg = cfg
     \<lparr>Auth := (Auth cfg)
        \<lparr>auth_AdminSecret :=
           (if getenv ''FOX_ADMIN_SECRET'' \<noteq> '''' then getenv ''FOX_ADMIN_SECRET''
            else auth_AdminSecret (Auth cfg)),
         auth_InstancePassword :=
           (if getenv ''FOX_INSTANCE_PASSWORD'' \<noteq> '''' then getenv ''FOX_INSTANCE_PASSWORD''
            else auth_InstancePassword (Auth cfg))\<rparr>\<rparr>"

section \<open>Ports\<close>

definition parsePort :: "string \<Rightarrow> int" where
  "parsePort s = (case scan_int s of None \<Rightarrow> 0 | Some p \<Rightarrow> p)"

definition listen_entry :: "string \<Rightarrow> string \<Rightarrow> (int \<times> string) list" where
  "listen_entry listen key =
     (case SplitHostPort listen of
        Inl _ \<Rightarrow> []
      | Inr (_, portStr) \<Rightarrow> let p = parsePort portStr in if p > 0 then [(p, key)] else [])"

definition port_entries :: "config \<Rightarrow> (int \<times> string) list" where
  "port_entries cfg =
     listen_entry (ctl_Listen (Control cfg)) ''control.listen'' @
     (if qd_Enabled (Qdrant cfg) then
        (if qd_HTTPPort (Qdrant cfg) > 0 then [(qd_HTTPPort (Qdrant cfg), ''qdrant.http_port'')] else []) @
        (if qd_GRPCPort (Qdrant cfg) > 0 then [(qd_GRPCPort (Qdrant cfg), ''qdrant.grpc_port'')] else [])
      else []) @
     (if dp_Enabled (DataPlane cfg)
      then listen_entry (dp_Listen (DataPlane cfg)) ''data_plane.listen'' else [])"

datatype config_complaint =
    DataRootRequired
  | DockerImageRequired
  | AdminSecretEmpty
  | AdminSecretShort
  | InstancePasswordEmpty
  | ListenInvalid string
  | LogFormatInvalid string
  | LogLevelInvalid string
  | TLSPair
  | HealthPollRange int
  | SessionTTLRange int
  | PortStartRange int
  | MaxInstancesRange int
  | PortRangeExceeds int int
  | QdrantDataDirRequired
  | QdrantImageRequired
  | QdrantHTTPPortRange int
  | QdrantGRPCPortRange int
  | QdrantPortsEqual int
  | CloudDomainRequired
  | DataPlaneListenInvalid string
  | VectorSizeRange int
  | EmbeddingURLRequired
  | EmbeddingModelRequired
  | QdrantMustBeEnabled
  | PortCollision string int int int

definition checkPortCollisions :: "config \<Rightarrow> config_complaint list" where
  "checkPortCollisions cfg =
     (let instStart = ins_PortStart (Instances cfg);
          instEnd = wrap64 (instStart + ins_MaxInstances (Instances cfg))
      in map (\<lambda>(port, key). PortCollision key port instStart instEnd)
           (filter (\<lambda>(port, key). port \<ge> instStart \<and> port < instEnd) (port_entries cfg)))"

section \<open>Validation\<close>

definition complain :: "bool \<Rightarrow> config_complaint \<Rightarrow> config_complaint list" where
  "complain b m = (if b then [m] else [])"

definition split_fails :: "string \<Rightarrow> bool" where
  "split_fails a \<longleftrightarrow> (case SplitHostPort a of Inl _ \<Rightarrow> True | Inr _ \<Rightarrow> False)"

text \<open>The one assignment validation makes: the qdrant data directory below the data root.\<close>

definition fill_qdrant_dir :: "config \<Rightarrow> config" where
  "fill_qdrant_dir cfg =
     (if qd_Enabled (Qdrant cfg) \<and> qd_DataDir (Qdrant cfg) = '''' \<and> ctl_DataRoot (Control cfg) \<noteq> ''''
      then cfg\<lparr>Qdrant := (Qdrant cfg)\<lparr>qd_DataDir := ctl_DataRoot (Control cfg) @ ''/qdrant''\<rparr>\<rparr>
      else cfg)"

definition base_complaints :: "config \<Rightarrow> config_complaint list" where
  "base_complaints cfg =
     (let c = Control cfg; a = Auth cfg; i = Instances cfg in
      complain (ctl_DataRoot c = '''') DataRootRequired @
      complain (dck_Image (Docker cfg) = '''') DockerImageRequired @
      (if auth_AdminSecret a = '''' then [AdminSecretEmpty]
       else complain (length (auth_AdminSecret a) < 16) AdminSecretShort) @
      complain (auth_InstancePassword a = '''') InstancePasswordEmpty @
      complain (split_fails (ctl_Listen c)) (ListenInvalid (ctl_Listen c)) @
      complain (ctl_LogFormat c \<notin> {''text'', ''json''}) (LogFormatInvalid (ctl_LogFormat c)) @
      complain (ctl_LogLevel c \<notin> {''debug'', ''info'', ''warn'', ''error''}) (LogLevelInvalid (ctl_LogLevel c)) @
      complain ((tls_CertFile (TLS cfg) = '''') \<noteq> (tls_KeyFile (TLS cfg) = '''')) TLSPair @
      complain (ctl_HealthPollSeconds c < 1 \<or> ctl_HealthPollSeconds c > 3600)
        (HealthPollRange (ctl_HealthPollSeconds c)) @
      complain (ctl_SessionTokenTTLSecs c < 60 \<or> ctl_SessionTokenTTLSecs c > 3600)
        (SessionTTLRange (ctl_SessionTokenTTLSecs c)) @
      complain (ins_PortStart i < 1 \<or> ins_PortStart i > 65535) (PortStartRange (ins_PortStart i)) @
      complain (ins_MaxInstances i < 1 \<or> ins_MaxInstances i > 1000) (MaxInstancesRange (ins_MaxInstances i)) @
      complain (ins_PortStart i > 0 \<and> ins_MaxInstances i > 0 \<and>
                wrap64 (ins_PortStart i + ins_MaxInstances i - 1) > 65535)
        (PortRangeExceeds (ins_PortStart i) (ins_MaxInstances i)))"

definition qdrant_complaints :: "config \<Rightarrow> config_complaint list" where
  "qdrant_complaints cfg =
     (let q = Qdrant cfg in
      if qd_Enabled q then
        complain (qd_DataDir q = '''') QdrantDataDirRequired @
        complain (qd_Image q = '''') QdrantImageRequired @
        complain (qd_HTTPPort q < 1 \<or> qd_HTTPPort q > 65535) (QdrantHTTPPortRange (qd_HTTPPort q)) @
        complain (qd_GRPCPort q < 1 \<or> qd_GRPCPort q > 65535) (QdrantGRPCPortRange (qd_GRPCPort q)) @
        complain (qd_HTTPPort q > 0 \<and> qd_GRPCPort q > 0 \<and> qd_HTTPPort q = qd_GRPCPort q)
          (QdrantPortsEqual (qd_HTTPPort q))
      else [])"

definition feature_complaints :: "config \<Rightarrow> config_complaint list" where
  "feature_complaints cfg =
     (if cl_Enabled (Cloud cfg) then complain (cl_Domain (Cloud cfg) = '''') CloudDomainRequired else []) @
     (let d = DataPlane cfg in
      if dp_Enabled d then
        complain (split_fails (dp_Listen d)) (DataPlaneListenInvalid (dp_Listen d)) @
        complain (dp_VectorSize d < 1 \<or> dp_VectorSize d > 65536) (VectorSizeRange (dp_VectorSize d)) @
        complain (emb_BaseURL (Embedding cfg) = '''') EmbeddingURLRequired @
        complain (emb_Model (Embedding cfg) = '''') EmbeddingModelRequired @
        complain (\<not> qd_Enabled (Qdrant cfg)) QdrantMustBeEnabled
      else [])"

text \<open>The result: all complaints, and the configuration as the assignment left it.\<close>

definition validateConfig :: "config \<Rightarrow> config_complaint list \<times> config" where
  "validateConfig cfg0 =
     (let errs0 = base_complaints cfg0;
          cfg = fill_qdrant_dir cfg0;
          errs = errs0 @ qdrant_complaints cfg @ feature_complaints cfg
      in (if errs = [] then checkPortCollisions cfg else errs, cfg))"

datatype load_error =
    ParseFailed string go_error
  | MaxAssistantsKey
  | ValidationFailed "config_complaint list"

definition LoadConfig ::
  "(string \<Rightarrow> (config \<times> (string list \<Rightarrow> bool)) result) \<Rightarrow> string \<Rightarrow> (string \<Rightarrow> string) \<Rightarrow> string
     \<Rightarrow> load_error + config" where
  "LoadConfig decode goos getenv path =
     (case decode path of
        Inl e \<Rightarrow> Inl (ParseFailed path e)
      | Inr (cfg, isDefined) \<Rightarrow>
          (if isDefined [''instances'', ''max_assistants''] then Inl MaxAssistantsKey
           else case validateConfig (applyEnvOverrides getenv (applyDefaults goos cfg)) of
                  ([], cfg1) \<Rightarrow> Inr cfg1
                | (errs, _) \<Rightarrow> Inl (ValidationFailed errs)))"

definition parseImageRef :: "string \<Rightarrow> image_ref" where
  "parseImageRef s =
     (case str_last_index s ''@'' of
        Some i \<Rightarrow> (if i > 0 then \<lparr>img_Repository = take i s, img_Digest = drop (i + 1) s\<rparr>
                   else \<lparr>img_Repository = s, img_Digest = ''''\<rparr>)
      | None \<Rightarrow> \<lparr>img_Repository = s, img_Digest = ''''\<rparr>)"

section \<open>What validation guarantees\<close>

text \<open>The specification of an acceptable configuration, over the integers (no wrap-around).\<close>

definition ports_acceptable :: "config \<Rightarrow> bool" where
  "ports_acceptable cfg \<longleftrightarrow>
     (let i = Instances cfg in
      1 \<le> ins_PortStart i \<and> 1 \<le> ins_MaxInstances i \<and> ins_MaxInstances i \<le> 1000 \<and>
      ins_PortStart i + ins_MaxInstances i \<le> 65536 \<and>
      (\<forall>(p, k) \<in> set (port_entries cfg).
         p < ins_PortStart i \<or> ins_PortStart i + ins_MaxInstances i \<le> p))"

definition control_acceptable :: "config \<Rightarrow> bool" where
  "control_acceptable cfg \<longleftrightarrow>
     (let c = Control cfg in
      ctl_DataRoot c \<noteq> '''' \<and> dck_Image (Docker cfg) \<noteq> '''' \<and>
      16 \<le> length (auth_AdminSecret (Auth cfg)) \<and> auth_InstancePassword (Auth cfg) \<noteq> '''' \<and>
      (\<exists>hp. SplitHostPort (ctl_Listen c) = Inr hp) \<and>
      ctl_LogFormat c \<in> {''text'', ''json''} \<and> ctl_LogLevel c \<in> {''debug'', ''info'', ''warn'', ''error''} \<and>
      (tls_CertFile (TLS cfg) = '''' \<longleftrightarrow> tls_KeyFile (TLS cfg) = '''') \<and>
      1 \<le> ctl_HealthPollSeconds c \<and> ctl_HealthPollSeconds c \<le> 3600 \<and>
      60 \<le> ctl_SessionTokenTTLSecs c \<and> ctl_SessionTokenTTLSecs c \<le> 3600)"

definition features_acceptable :: "config \<Rightarrow> bool" where
  "features_acceptable cfg \<longleftrightarrow>
     (let q = Qdrant cfg; d = DataPlane cfg in
      (qd_Enabled q \<longrightarrow> qd_DataDir q \<noteq> '''' \<and> qd_Image q \<noteq> '''' \<and>
         1 \<le> qd_HTTPPort q \<and> qd_HTTPPort q \<le> 65535 \<and> 1 \<le> qd_GRPCPort q \<and> qd_GRPCPort q \<le> 65535 \<and>
         qd_HTTPPort q \<noteq> qd_GRPCPort q) \<and>
      (cl_Enabled (Cloud cfg) \<longrightarrow> cl_Domain (Cloud cfg) \<noteq> '''') \<and>
      (dp_Enabled d \<longrightarrow> qd_Enabled q \<and> (\<exists>hp. SplitHostPort (dp_Listen d) = Inr hp) \<and>
         1 \<le> dp_VectorSize d \<and> dp_VectorSize d \<le> 65536 \<and>
         emb_BaseURL (Embedding cfg) \<noteq> '''' \<and> emb_Model (Embedding cfg) \<noteq> ''''))"

definition config_accepted :: "config \<Rightarrow> bool" where
  "config_accepted cfg \<longleftrightarrow> control_acceptable cfg \<and> ports_acceptable cfg \<and> features_acceptable cfg"

lemma complain_Nil [simp]: "complain b m = [] \<longleftrightarrow> \<not> b"
  by (simp add: complain_def)

lemma split_fails_iff: "split_fails a \<longleftrightarrow> (\<nexists>hp. SplitHostPort a = Inr hp)"
  by (auto simp: split_fails_def split: sum.splits)

lemma fill_qdrant_simps [simp]:
  "Control (fill_qdrant_dir cfg) = Control cfg"
  "Docker (fill_qdrant_dir cfg) = Docker cfg"
  "Auth (fill_qdrant_dir cfg) = Auth cfg"
  "Instances (fill_qdrant_dir cfg) = Instances cfg"
  "DataPlane (fill_qdrant_dir cfg) = DataPlane cfg"
  "Embedding (fill_qdrant_dir cfg) = Embedding cfg"
  "TLS (fill_qdrant_dir cfg) = TLS cfg"
  "Cloud (fill_qdrant_dir cfg) = Cloud cfg"
  "qd_Enabled (Qdrant (fill_qdrant_dir cfg)) = qd_Enabled (Qdrant cfg)"
  by (simp_all add: fill_qdrant_dir_def)

text \<open>The instance range as the base checks leave it: no 64-bit sum in the code wraps.\<close>

definition range_ok :: "config \<Rightarrow> bool" where
  "range_ok cfg \<longleftrightarrow>
     1 \<le> ins_PortStart (Instances cfg) \<and> 1 \<le> ins_MaxInstances (Instances cfg) \<and>
     ins_MaxInstances (Instances cfg) \<le> 1000 \<and>
     ins_PortStart (Instances cfg) + ins_MaxInstances (Instances cfg) \<le> 65536"

lemma range_checks_iff:
  fixes s m :: int
  shows "\<not> (s < 1 \<or> s > 65535) \<and> \<not> (m < 1 \<or> m > 1000) \<and> \<not> (s > 0 \<and> m > 0 \<and> wrap64 (s + m - 1) > 65535) \<longleftrightarrow>
     1 \<le> s \<and> 1 \<le> m \<and> m \<le> 1000 \<and> s + m \<le> 65536"
proof (cases "1 \<le> s \<and> s \<le> 65535 \<and> 1 \<le> m \<and> m \<le> 1000")
  case True
  then have "wrap64 (s + m - 1) = s + m - 1" by (intro wrap64_id) auto
  with True show ?thesis by auto
qed auto

lemma base_complaints_Nil:
  "base_complaints cfg = [] \<longleftrightarrow> control_acceptable cfg \<and> range_ok cfg"
proof (cases "auth_AdminSecret (Auth cfg) = ''''")
  case True
  then show ?thesis by (simp add: base_complaints_def control_acceptable_def Let_def)
next
  case False
  show ?thesis
    unfolding range_ok_def range_checks_iff [symmetric]
    using False
    by (simp add: base_complaints_def control_acceptable_def Let_def split_fails_iff not_less
        conj_ac disj_ac)
qed

lemma checkPortCollisions_Nil:
  assumes "range_ok cfg"
  shows "checkPortCollisions cfg = [] \<longleftrightarrow> ports_acceptable cfg"
proof -
  have "wrap64 (ins_PortStart (Instances cfg) + ins_MaxInstances (Instances cfg)) =
      ins_PortStart (Instances cfg) + ins_MaxInstances (Instances cfg)"
    using assms by (intro wrap64_id) (auto simp: range_ok_def)
  with assms show ?thesis
    by (auto simp: checkPortCollisions_def ports_acceptable_def range_ok_def Let_def filter_empty_conv
        not_le not_less split: prod.splits)
qed

lemma feature_complaints_Nil:
  "qdrant_complaints cfg = [] \<and> feature_complaints cfg = [] \<longleftrightarrow> features_acceptable cfg"
  by (auto simp: qdrant_complaints_def feature_complaints_def features_acceptable_def Let_def
      split_fails_iff)

lemma validateConfig_Nil:
  "validateConfig cfg = ([], cfg') \<longleftrightarrow> cfg' = fill_qdrant_dir cfg \<and> config_accepted cfg'"
proof -
  have c: "control_acceptable (fill_qdrant_dir cfg) = control_acceptable cfg"
    and r: "range_ok (fill_qdrant_dir cfg) = range_ok cfg"
    by (simp_all add: control_acceptable_def range_ok_def Let_def)
  have p: "ports_acceptable (fill_qdrant_dir cfg) \<Longrightarrow> range_ok cfg"
    by (simp add: ports_acceptable_def range_ok_def Let_def)
  show ?thesis
    using feature_complaints_Nil [of "fill_qdrant_dir cfg"] base_complaints_Nil [of cfg] c r p
      checkPortCollisions_Nil [of "fill_qdrant_dir cfg"]
    by (auto simp: validateConfig_def Let_def config_accepted_def)
qed

lemma LoadConfig_Inr:
  "LoadConfig decode goos getenv path = Inr cfg \<longleftrightarrow>
     (\<exists>cfg0 isDefined. decode path = Inr (cfg0, isDefined) \<and>
        \<not> isDefined [''instances'', ''max_assistants''] \<and>
        cfg = fill_qdrant_dir (applyEnvOverrides getenv (applyDefaults goos cfg0)) \<and>
        config_accepted cfg)"
proof -
  have "(case v of ([], cfg1) \<Rightarrow> Inr cfg1 | (errs, _) \<Rightarrow> Inl (ValidationFailed errs)) = Inr cfg \<longleftrightarrow>
      v = ([], cfg)" for v :: "config_complaint list \<times> config"
    by (cases v; cases "fst v") auto
  then show ?thesis
    by (auto simp: LoadConfig_def validateConfig_Nil split: sum.splits)
qed

text \<open>Rejection reports something, and validation never runs on other ports than it was given.\<close>

lemma LoadConfig_Inl:
  "LoadConfig decode goos getenv path = Inl (ValidationFailed errs) \<Longrightarrow> errs \<noteq> []"
  by (auto simp: LoadConfig_def split: sum.splits prod.splits list.splits if_splits)

text \<open>Defaults only fill zero values, so applying them twice is applying them once.\<close>

lemma or_default_idem [simp]: "or_default z d (or_default z d x) = or_default z d x"
  by (simp add: or_default_def)

lemma applyDefaults_idem: "applyDefaults goos (applyDefaults goos cfg) = applyDefaults goos cfg"
  by (simp add: applyDefaults_def)

text \<open>An image reference with a digest is taken apart at its last \<^verbatim>\<open>@\<close>.\<close>

lemma parseImageRef_digest:
  assumes "repo \<noteq> ''''" "CHR ''@'' \<notin> set digest"
  shows "parseImageRef (repo @ ''@'' @ digest) = \<lparr>img_Repository = repo, img_Digest = digest\<rparr>"
  using str_last_index_unique [OF assms(2), of repo] assms(1) by (simp add: parseImageRef_def)

lemma parseImageRef_tag:
  "CHR ''@'' \<notin> set s \<Longrightarrow> parseImageRef s = \<lparr>img_Repository = s, img_Digest = ''''\<rparr>"
  using str_last_index_char_None [of s "CHR ''@''"] by (simp add: parseImageRef_def)

text \<open>A configuration that passes, used by the examples.\<close>

definition sample_config :: config where
  "sample_config =
     \<lparr>Control = \<lparr>ctl_Listen = ''0.0.0.0:9090'', ctl_DataRoot = ''/data'', ctl_HealthPollSeconds = 15,
        ctl_SessionTokenTTLSecs = 600, ctl_LogFormat = ''text'', ctl_LogLevel = ''info'',
        ctl_MetricsEnabled = None\<rparr>,
      Docker = \<lparr>dck_Socket = '''', dck_Image = ''fox@sha256:1''\<rparr>,
      Auth = \<lparr>auth_AdminSecret = ''0123456789abcdef'', auth_InstancePassword = ''pw''\<rparr>,
      Instances = \<lparr>ins_PortStart = 9100, ins_MaxInstances = 2, ins_DefaultSkillset = '''', ins_DefaultRole = ''''\<rparr>,
      Qdrant = \<lparr>qd_Enabled = True, qd_Image = ''qdrant'', qd_HTTPPort = 6333, qd_GRPCPort = 6334, qd_DataDir = ''''\<rparr>,
      DataPlane = \<lparr>dp_Enabled = False, dp_Listen = '''', dp_Collection = '''', dp_VectorSize = 0\<rparr>,
      Embedding = \<lparr>emb_BaseURL = '''', emb_APIKey = '''', emb_Model = ''''\<rparr>,
      TLS = \<lparr>tls_CertFile = '''', tls_KeyFile = ''''\<rparr>,
      Webhooks = [],
      RateLimit = \<lparr>rl_RequestsPerMinute = 0, rl_ProvisionPerMinute = 0\<rparr>,
      AutoRestart = \<lparr>ar_Enabled = False, ar_Threshold = 0, ar_CooldownSeconds = 0\<rparr>,
      Cloud = \<lparr>cl_Enabled = False, cl_Domain = '''', cl_SessionTTL = 0, cl_LoginRateLimit = 0, cl_CookieName = ''''\<rparr>\<rparr>"

lemma LoadConfig_sample:
  "case LoadConfig (\<lambda>_. Inr (sample_config, \<lambda>_. False)) ''linux'' (\<lambda>_. '''') ''c.toml'' of
     Inl _ \<Rightarrow> False
   | Inr cfg \<Rightarrow> ins_MaxInstances (Instances cfg) = 2 \<and> ins_PortStart (Instances cfg) = 9100"
  by code_simp



end
