(* ===== verification/Provisioner.thy ===== *)
theory Provisioner
  imports Cloud_Store Config_Inject Api_Names Control_Config
begin

text \<open>
  \<^verbatim>\<open>internal/provisioner/provisioner.go\<close>. The state is the registry database, the file system and
  the world of the deployment plugin. \<open>Provision\<close> is composed as in the code: the checks before
  the lock, the critical section under the mutex (\<open>reserve\<close>: cap check, port allocation, registry
  row), the preparation of the data directory, the deployment, the status update; every failure
  after the critical section goes through \<open>rollback\<close>.
\<close>

section \<open>Types\<close>

definition ErrCapReached :: go_error where
  "ErrCapReached = Sentinel ''provisioner: max instances reached''"

definition ErrPortExhausted :: go_error where
  "ErrPortExhausted = Sentinel ''provisioner: no free port in range''"

definition maxPortScan :: int where "maxPortScan = 1000"
definition registryRetries :: nat where "registryRetries = 3"

record request =
  rq_InstanceID :: string
  rq_AdminSecret :: string
  rq_InstancePassword :: string
  rq_Image :: image_ref
  rq_ProxyEndpoint :: string
  rq_CapabilityFlags :: "(string \<times> bool) list"
  rq_Env :: "(string \<times> string) list"
  rq_SkillsetPath :: string
  rq_DataPlaneURL :: string
  rq_PrincipalRole :: string
  rq_Cloud :: cloud_config

record prov_instance =
  pi_ID :: string
  pi_Port :: int
  pi_DataDir :: string
  pi_Status :: string
  pi_CreatedAt :: string

type_synonym config_writer = "inject_params \<Rightarrow> fs \<Rightarrow> unit result \<times> fs"

record 'w options =
  opt_Plugin :: "'w deployment_plugin"
  opt_ConfigWriter :: "config_writer option"
  opt_DataRoot :: string
  opt_PortRangeStart :: int
  opt_MaxInstances :: int
  opt_HealthTimeout :: int

record 'w service =
  svc_plugin :: "'w deployment_plugin"
  svc_configWriter :: config_writer
  svc_dataRoot :: string
  svc_portRangeStart :: int
  svc_maxInstances :: int
  svc_healthTimeout :: int

record 'w prov_state =
  ps_db :: registry_db
  ps_fs :: fs
  ps_world :: 'w

text \<open>Durations in nanoseconds.\<close>

definition DefaultHealthInterval :: "int \<Rightarrow> int" where
  "DefaultHealthInterval elapsed = (if elapsed < 30 * 1000000000 then 2 * 1000000000 else 5 * 1000000000)"

definition New :: "((string \<times> yaml) list \<Rightarrow> string result) \<Rightarrow> 'w options \<Rightarrow> 'w service" where
  "New yamlMarshal opts =
     \<lparr>svc_plugin = opt_Plugin opts,
      svc_configWriter = (case opt_ConfigWriter opts of None \<Rightarrow> Inject yamlMarshal | Some f \<Rightarrow> f),
      svc_dataRoot = opt_DataRoot opts,
      svc_portRangeStart = (if opt_PortRangeStart opts = 0 then 9100 else opt_PortRangeStart opts),
      svc_maxInstances = (if opt_MaxInstances opts = 0 then 10 else opt_MaxInstances opts),
      svc_healthTimeout = (if opt_HealthTimeout opts = 0 then 120 * 1000000000 else opt_HealthTimeout opts)\<rparr>"

section \<open>Port allocation\<close>

function allocate_from :: "int \<Rightarrow> int \<Rightarrow> (int \<Rightarrow> bool) \<Rightarrow> int" where
  "allocate_from p limit used =
     (if p < limit then (if \<not> used p then p else allocate_from (p + 1) limit used) else 0)"
  by pat_completeness auto
termination by (relation "measure (\<lambda>(p, limit, used). nat (limit - p))") auto

declare allocate_from.simps [simp del]

definition allocatePort :: "'w service \<Rightarrow> (int \<Rightarrow> bool) \<Rightarrow> int" where
  "allocatePort svc used =
     allocate_from (svc_portRangeStart svc) (wrap64 (svc_portRangeStart svc + maxPortScan)) used"

section \<open>Provisioning\<close>

definition skill_go_error :: "skill_error \<Rightarrow> go_error" where
  "skill_go_error e =
     (case e of
        SkillParse g \<Rightarrow> Wrap ''skillset: parse YAML'' g
      | SkillInvalid _ \<Rightarrow> Errorf ''skillset validation failed''
      | SkillRead p g \<Rightarrow> Wrap (''skillset: read '' @ p) g)"

text \<open>Before the lock: secrets and skillset.\<close>

definition precheck :: "(string \<Rightarrow> manifest result) \<Rightarrow> request \<Rightarrow> fs \<Rightarrow> string result \<times> fs" where
  "precheck unmarshal req s =
     (case ValidateSecrets (rq_AdminSecret req) (rq_InstancePassword req) of
        Inl e \<Rightarrow> (Inl (Wrap ''provisioner'' e), s)
      | Inr _ \<Rightarrow>
          (if rq_SkillsetPath req \<noteq> '''' then
             (case LoadFile unmarshal (rq_SkillsetPath req) s of
                (Inl e, s1) \<Rightarrow> (Inl (Wrap ''provisioner: validate skillset'' (skill_go_error e)), s1)
              | (Inr m, s1) \<Rightarrow> (Inr (mf_Name m), s1))
           else (Inr '''', s)))"

text \<open>The three tokens drawn in the critical section, in order.\<close>

definition draw_tokens :: "(nat \<Rightarrow> string result) \<Rightarrow> (string \<times> string \<times> string) result" where
  "draw_tokens rnd =
     (case GenerateQueryToken (rnd 0) of
        Inl e \<Rightarrow> Inl (Wrap ''provisioner'' e)
      | Inr queryToken \<Rightarrow>
          (case GenerateQueryToken (rnd 1) of
             Inl e \<Rightarrow> Inl (Wrap ''provisioner: generate plane auth token'' e)
           | Inr planeAuthToken \<Rightarrow>
               (case GenerateQueryToken (rnd 2) of
                  Inl e \<Rightarrow> Inl (Wrap ''provisioner: generate instance password'' e)
                | Inr instancePwd \<Rightarrow> Inr (queryToken, planeAuthToken, instancePwd))))"

definition reserved_instance ::
  "'w service \<Rightarrow> request \<Rightarrow> string \<Rightarrow> string \<Rightarrow> int \<Rightarrow> string \<times> string \<times> string \<Rightarrow> fox_instance" where
  "reserved_instance svc req now skillsetName port toks =
     \<lparr>inst_ID = rq_InstanceID req, inst_ImageDigest = img_Digest (rq_Image req), inst_Port = port,
      inst_DataDir = path_Join [svc_dataRoot svc, ''instances'', rq_InstanceID req],
      inst_Status = ''provisioning'', inst_CreatedAt = now, inst_SkillsetName = skillsetName,
      inst_PrincipalRole = rq_PrincipalRole req, inst_QueryToken = fst toks,
      inst_PlaneAuthToken = fst (snd toks), inst_InstancePassword = snd (snd toks)\<rparr>"

definition reserve ::
  "'w service \<Rightarrow> (string \<Rightarrow> string) \<Rightarrow> string \<Rightarrow> (nat \<Rightarrow> string result) \<Rightarrow> request \<Rightarrow> string
     \<Rightarrow> registry_db \<Rightarrow> fox_instance result \<times> registry_db" where
  "reserve svc sha now rnd req skillsetName db =
     (case Registry_List db of
        (Inl e, db1) \<Rightarrow> (Inl (Wrap ''provisioner: list instances'' e), db1)
      | (Inr instances, db1) \<Rightarrow>
          (if int (length instances) \<ge> svc_maxInstances svc then (Inl ErrCapReached, db1)
           else if \<exists>inst \<in> set instances. inst_ID inst = rq_InstanceID req
           then (Inl (Errorf (''provisioner: instance '' @ rq_InstanceID req @ '' already exists'')), db1)
           else case Registry_UsedPorts db1 of
             (Inl e, db2) \<Rightarrow> (Inl (Wrap ''provisioner: used ports'' e), db2)
           | (Inr used, db2) \<Rightarrow>
               (let port = allocatePort svc used in
                if port = 0 then (Inl ErrPortExhausted, db2)
                else case draw_tokens rnd of
                  Inl e \<Rightarrow> (Inl e, db2)
                | Inr toks \<Rightarrow>
                    (let inst = reserved_instance svc req now skillsetName port toks in
                     case Registry_Create sha now inst db2 of
                       (Inl e, db3) \<Rightarrow> (Inl (Wrap ''provisioner: reserve instance'' e), db3)
                     | (Inr _, db3) \<Rightarrow> (Inr inst, db3)))))"

definition instance_cfg :: "request \<Rightarrow> fox_instance \<Rightarrow> instance_config" where
  "instance_cfg req inst =
     \<lparr>ic_AuthSecret = inst_PlaneAuthToken inst, ic_InstancePassword = inst_InstancePassword inst,
      ic_ProxyEndpoint = rq_ProxyEndpoint req, ic_CapabilityFlags = rq_CapabilityFlags req,
      ic_Env = rq_Env req, ic_SkillsetPath = rq_SkillsetPath req,
      ic_DataPlaneURL = rq_DataPlaneURL req, ic_PrincipalRole = rq_PrincipalRole req\<rparr>"

definition copy_skillset ::
  "request \<Rightarrow> string \<Rightarrow> instance_config \<Rightarrow> fs \<Rightarrow> instance_config result \<times> fs" where
  "copy_skillset req dataDir cfg s =
     (if rq_SkillsetPath req \<noteq> '''' then
        (case os_ReadFile (rq_SkillsetPath req) s of
           (Inl e, s1) \<Rightarrow> (Inl (Wrap ''provisioner: read skillset'' e), s1)
         | (Inr src, s1) \<Rightarrow>
             (case os_WriteFile (path_Join [dataDir, ''skillset.yaml'']) src 420 s1 of
                (Inl e, s2) \<Rightarrow> (Inl (Wrap ''provisioner: copy skillset'' e), s2)
              | (Inr _, s2) \<Rightarrow> (Inr (cfg\<lparr>ic_SkillsetPath := ''/data/skillset.yaml''\<rparr>), s2)))
      else (Inr cfg, s))"

text \<open>The steps between the critical section and the deployment, which touch files only.\<close>

definition prepare ::
  "'w service \<Rightarrow> request \<Rightarrow> fox_instance \<Rightarrow> fs \<Rightarrow> instance_config result \<times> fs" where
  "prepare svc req inst s =
     (let dataDir = inst_DataDir inst in
      case os_MkdirAll dataDir s of
        (Inl e, s1) \<Rightarrow> (Inl (Wrap ''provisioner: create data dir'' e), s1)
      | (Inr _, s1) \<Rightarrow>
          (case copy_skillset req dataDir (instance_cfg req inst) s1 of
             (Inl e, s2) \<Rightarrow> (Inl e, s2)
           | (Inr cfg, s2) \<Rightarrow>
               (case svc_configWriter svc
                       \<lparr>ip_DataDir = dataDir, ip_InstancePassword = inst_InstancePassword inst,
                        ip_Config = cfg, ip_QueryToken = inst_QueryToken inst, ip_Cloud = rq_Cloud req\<rparr> s2 of
                  (Inl e, s3) \<Rightarrow> (Inl (Wrap ''provisioner: inject config'' e), s3)
                | (Inr _, s3) \<Rightarrow>
                    (case MarkOnboardingComplete dataDir s3 of
                       (Inl e, s4) \<Rightarrow> (Inl (Wrap ''provisioner: mark onboarding complete'' e), s4)
                     | (Inr _, s4) \<Rightarrow> (Inr cfg, s4)))))"

definition rollback :: "'w service \<Rightarrow> string \<Rightarrow> string \<Rightarrow> bool \<Rightarrow> 'w prov_state \<Rightarrow> 'w prov_state" where
  "rollback svc iid dataDir destroyContainer st =
     (let st1 = (if destroyContainer
                 then st\<lparr>ps_world := snd (pl_Destroy (svc_plugin svc) iid (ps_world st))\<rparr> else st);
          st2 = st1\<lparr>ps_fs := snd (os_RemoveAll dataDir (ps_fs st1))\<rparr>
      in st2\<lparr>ps_db := snd (Registry_Delete iid (ps_db st2))\<rparr>)"

definition retryUpdateStatus :: "string \<Rightarrow> string \<Rightarrow> registry_db \<Rightarrow> unit result \<times> registry_db" where
  "retryUpdateStatus iid status db =
     retry registryRetries (\<lambda>d. Registry_UpdateStatus iid status d) (Inr ()) db"

definition deploy ::
  "'w service \<Rightarrow> request \<Rightarrow> fox_instance \<Rightarrow> 'w prov_state \<Rightarrow> prov_instance result \<times> 'w prov_state" where
  "deploy svc req inst st =
     (let iid = rq_InstanceID req; dataDir = inst_DataDir inst in
      case prepare svc req inst (ps_fs st) of
        (Inl e, s1) \<Rightarrow> (Inl e, rollback svc iid dataDir False (st\<lparr>ps_fs := s1\<rparr>))
      | (Inr cfg, s1) \<Rightarrow>
          (let st1 = st\<lparr>ps_fs := s1\<rparr> in
           case pl_Provision (svc_plugin svc)
                  \<lparr>pr_InstanceID = iid, pr_Image = rq_Image req, pr_Config = cfg,
                   pr_Port = inst_Port inst, pr_DataDir = dataDir,
                   pr_CloudEnv = CloudEnvVars (rq_Cloud req)\<rparr> (ps_world st1) of
             (Inl e, w) \<Rightarrow>
               (Inl (Wrap ''provisioner: deploy'' e), rollback svc iid dataDir True (st1\<lparr>ps_world := w\<rparr>))
           | (Inr _, w) \<Rightarrow>
               (case retryUpdateStatus iid ''running'' (ps_db st1) of
                  (Inl e, db) \<Rightarrow>
                    (Inl (Wrap ''provisioner: update status'' e),
                     rollback svc iid dataDir True (st1\<lparr>ps_world := w, ps_db := db\<rparr>))
                | (Inr _, db) \<Rightarrow>
                    (Inr \<lparr>pi_ID = iid, pi_Port = inst_Port inst, pi_DataDir = dataDir,
                          pi_Status = ''running'', pi_CreatedAt = inst_CreatedAt inst\<rparr>,
                     st1\<lparr>ps_world := w, ps_db := db\<rparr>))))"

definition Provision ::
  "'w service \<Rightarrow> (string \<Rightarrow> manifest result) \<Rightarrow> (string \<Rightarrow> string) \<Rightarrow> string \<Rightarrow> (nat \<Rightarrow> string result)
     \<Rightarrow> request \<Rightarrow> 'w prov_state \<Rightarrow> prov_instance result \<times> 'w prov_state" where
  "Provision svc unmarshal sha now rnd req st =
     (case precheck unmarshal req (ps_fs st) of
        (Inl e, s1) \<Rightarrow> (Inl e, st\<lparr>ps_fs := s1\<rparr>)
      | (Inr skillsetName, s1) \<Rightarrow>
          (case reserve svc sha now rnd req skillsetName (ps_db st) of
             (Inl e, db) \<Rightarrow> (Inl e, st\<lparr>ps_fs := s1, ps_db := db\<rparr>)
           | (Inr inst, db) \<Rightarrow> deploy svc req inst (st\<lparr>ps_fs := s1, ps_db := db\<rparr>)))"

definition Destroy ::
  "'w service \<Rightarrow> string \<Rightarrow> bool \<Rightarrow> 'w prov_state \<Rightarrow> unit result \<times> 'w prov_state" where
  "Destroy svc instanceID removeData st =
     (case Registry_Get instanceID (ps_db st) of
        (Inl e, db) \<Rightarrow> (Inl (Wrap ''provisioner'' e), st\<lparr>ps_db := db\<rparr>)
      | (Inr inst, db) \<Rightarrow>
          (case pl_Destroy (svc_plugin svc) instanceID (ps_world st) of
             (Inl e, w) \<Rightarrow>
               (Inl (Wrap (''provisioner: destroy container '' @ instanceID) e), st\<lparr>ps_db := db, ps_world := w\<rparr>)
           | (Inr _, w) \<Rightarrow>
               (case (if removeData then os_RemoveAll (inst_DataDir inst) (ps_fs st) else (Inr (), ps_fs st)) of
                  (Inl e, s) \<Rightarrow>
                    (Inl (Wrap (''provisioner: remove data dir '' @ inst_DataDir inst) e),
                     st\<lparr>ps_db := db, ps_world := w, ps_fs := s\<rparr>)
                | (Inr _, s) \<Rightarrow>
                    (case Registry_Delete instanceID db of
                       (Inl e, db1) \<Rightarrow>
                         (Inl (Wrap (''provisioner: delete registry entry '' @ instanceID) e),
                          st\<lparr>ps_db := db1, ps_world := w, ps_fs := s\<rparr>)
                     | (Inr _, db1) \<Rightarrow> (Inr (), st\<lparr>ps_db := db1, ps_world := w, ps_fs := s\<rparr>)))))"

section \<open>Port allocation\<close>

lemma allocate_from_cases:
  "(allocate_from p limit used = 0 \<and> (\<forall>q. p \<le> q \<longrightarrow> q < limit \<longrightarrow> used q)) \<or>
   (p \<le> allocate_from p limit used \<and> allocate_from p limit used < limit \<and>
    \<not> used (allocate_from p limit used) \<and> (\<forall>q. p \<le> q \<longrightarrow> q < allocate_from p limit used \<longrightarrow> used q))"
proof (induction p limit used rule: allocate_from.induct)
  case (1 p limit used)
  show ?case
  proof (cases "p < limit \<and> used p")
    case True
    then have e: "allocate_from p limit used = allocate_from (p + 1) limit used"
      by (simp add: allocate_from.simps [of p])
    have step: "(\<forall>q. p \<le> q \<longrightarrow> q < x \<longrightarrow> used q) \<longleftrightarrow> (\<forall>q. p + 1 \<le> q \<longrightarrow> q < x \<longrightarrow> used q)" for x
      using True by (metis add1_zle_eq order_le_less)
    from 1 True show ?thesis unfolding e step by force
  next
    case False
    then show ?thesis by (auto simp: allocate_from.simps [of p])
  qed
qed

text \<open>First fit: when \<open>n\<close> ports are in use, the port found is at most \<open>n\<close> above the start.\<close>

lemma first_fit_bound:
  fixes s p :: int
  assumes "\<forall>q. s \<le> q \<longrightarrow> q < p \<longrightarrow> q \<in> set ps"
  shows "p \<le> s + int (length ps)"
proof (rule ccontr)
  assume "\<not> p \<le> s + int (length ps)"
  then have n: "length ps < nat (p - s)" by linarith
  have "{s..<p} \<subseteq> set ps" using assms by auto
  then have "card {s..<p} \<le> card (set ps)" by (intro card_mono) auto
  with n card_length [of ps] show False by simp
qed

section \<open>The critical section\<close>

text \<open>What a successful reservation established, and that a failed one changed nothing.\<close>

lemma UsedPorts_ok:
  "Registry_UsedPorts db = (Inr used, db') \<Longrightarrow> same_tables db db' \<and> (\<forall>p. used p \<longleftrightarrow> p \<in> set (map inst_Port (db_instances db)))"
  by (auto simp: Registry_UsedPorts_def db_query_def split: option.splits)

lemma UsedPorts_same: "Registry_UsedPorts db = (r, db') \<Longrightarrow> same_tables db db'"
  by (auto simp: Registry_UsedPorts_def db_query_def split: option.splits)

lemma Registry_List_ok:
  "Registry_List db = (Inr xs, db') \<Longrightarrow>
     same_tables db db' \<and> length xs = length (db_instances db) \<and> set xs = instance_of_row ` set (db_instances db)"
  by (auto simp: Registry_List_def db_query_def split: option.splits)

lemma Registry_List_same: "Registry_List db = (r, db') \<Longrightarrow> same_tables db db'"
  by (auto simp: Registry_List_def db_query_def split: option.splits)

lemma Registry_Create_new_rows:
  assumes "Registry_Create sha now inst db = (Inr u, db')"
    and "\<forall>r \<in> set (db_instances db). inst_ID r \<noteq> inst_ID inst"
  shows "db_instances db' = db_instances db @ [create_row sha now inst]"
proof -
  from assms(1) obtain n where "stmt_upsert_instance (create_row sha now inst) (db_tick db) = Inr (n, db')"
    by (auto simp: Registry_Create_def db_exec_Inr split: prod.splits sum.splits)
  with assms(2) show ?thesis by (auto simp: stmt_upsert_instance_def split: if_splits)
qed



lemma reserve_ok:
  assumes "reserve svc sha now rnd req name db = (Inr inst, db')"
  shows "inst_view db (rq_InstanceID req) = None"
    and "int (length (db_instances db)) < svc_maxInstances svc"
    and "\<exists>port toks. inst = reserved_instance svc req now name port toks"
    and "inst_Port inst = allocatePort svc (\<lambda>p. p \<in> set (map inst_Port (db_instances db)))"
    and "inst_Port inst \<noteq> 0"
    and "\<exists>db2. same_tables db db2 \<and> Registry_Create sha now inst db2 = (Inr (), db')"
proof -
  obtain xs db1 where l: "Registry_List db = (Inr xs, db1)"
    using assms by (auto simp: reserve_def split: prod.splits sum.splits)
  note list = Registry_List_ok [OF l]
  have cap: "\<not> int (length xs) \<ge> svc_maxInstances svc"
    and new: "\<not> (\<exists>i \<in> set xs. inst_ID i = rq_InstanceID req)"
    using assms l by (auto simp: reserve_def split: if_splits)
  obtain used db2 where u: "Registry_UsedPorts db1 = (Inr used, db2)"
    using assms l cap new by (auto simp: reserve_def split: prod.splits sum.splits)
  note ports = UsedPorts_ok [OF u]
  let ?port = "allocatePort svc used"
  have p: "?port \<noteq> 0" using assms l cap new u by (auto simp: reserve_def Let_def split: if_splits)
  obtain toks where t: "draw_tokens rnd = Inr toks"
    using assms l cap new u p by (auto simp: reserve_def Let_def split: sum.splits)
  let ?inst = "reserved_instance svc req now name ?port toks"
  have c: "Registry_Create sha now ?inst db2 = (Inr (), db')" and i: "inst = ?inst"
    using assms l cap new u p t by (auto simp: reserve_def Let_def split: prod.splits sum.splits)
  have s: "same_tables db db2" using list ports same_tables_trans by blast
  have port: "inst_Port inst = ?port" by (simp add: i reserved_instance_def)
  have eq: "used = (\<lambda>p. p \<in> set (map inst_Port (db_instances db)))"
    using ports list by (auto simp: same_tables_def)
  show "inst_view db (rq_InstanceID req) = None"
    using new list by (auto simp: inst_view_None_iff)
  show "int (length (db_instances db)) < svc_maxInstances svc" using cap list by simp
  show "\<exists>port toks. inst = reserved_instance svc req now name port toks" using i by blast
  show "inst_Port inst = allocatePort svc (\<lambda>p. p \<in> set (map inst_Port (db_instances db)))"
    using port eq by simp
  show "inst_Port inst \<noteq> 0" using port p by simp
  show "\<exists>db2. same_tables db db2 \<and> Registry_Create sha now inst db2 = (Inr (), db')" using c s i by blast
qed

lemma reserve_err:
  assumes "reserve svc sha now rnd req name db = (Inl e, db')"
  shows "same_tables db db'"
proof (cases "Registry_List db")
  case (Pair r db1)
  note s1 = Registry_List_same [OF Pair]
  show ?thesis
  proof (cases "Registry_UsedPorts db1")
    case up: (Pair r2 db2)
    have s2: "same_tables db db2" using s1 UsedPorts_same [OF up] same_tables_trans by blast
    have s3: "same_tables db db3" if "Registry_Create sha now i db2 = (Inl e', db3)" for i e' db3
      using s2 Registry_Create_err [OF that] same_tables_trans by blast
    from assms Pair up s1 s2 s3 show ?thesis
      by (auto simp: reserve_def Let_def split: sum.splits if_splits prod.splits)
  qed
qed

lemma reserve_view:
  assumes "reserve svc sha now rnd req name db = (Inr inst, db')"
  shows "inst_view db' = (inst_view db)(rq_InstanceID req \<mapsto> inst)"
    and "db_instances db' = db_instances db @ [create_row sha now inst]"
proof -
  note r = reserve_ok [OF assms]
  from r(6) obtain db2 where s: "same_tables db db2" and c: "Registry_Create sha now inst db2 = (Inr (), db')" by blast
  from r(3) have iid: "inst_ID inst = rq_InstanceID req" and ca: "inst_CreatedAt inst = now"
    by (auto simp: reserved_instance_def)
  have v: "inst_view db2 = inst_view db" using s by (rule same_tables_view)
  have "created_instance now db2 inst = inst" using r(1) iid ca v by (simp add: created_instance_def)
  with Registry_Create_ok [OF c] v iid show "inst_view db' = (inst_view db)(rq_InstanceID req \<mapsto> inst)" by simp
  have "\<forall>r \<in> set (db_instances db2). inst_ID r \<noteq> inst_ID inst"
    using r(1) s iid by (simp add: inst_view_None_iff same_tables_def)
  from Registry_Create_new_rows [OF c this] s show "db_instances db' = db_instances db @ [create_row sha now inst]"
    by (simp add: same_tables_def)
qed

section \<open>Interleaved provisioning\<close>

text \<open>
  Any number of provisionings, destructions, rollouts, token rotations and logins in flight at
  once: the critical section is one step because of the mutex, and every other registry call is a
  step of its own. The database starts empty.
\<close>

inductive fleet_step :: "'w service \<Rightarrow> (string \<Rightarrow> string) \<Rightarrow> registry_db \<Rightarrow> registry_db \<Rightarrow> bool" for svc sha where
  fleet_reserve: "fleet_step svc sha db (snd (reserve svc sha now rnd req name db))"
| fleet_update: "update_step sha db db' \<Longrightarrow> fleet_step svc sha db db'"

inductive fleet_reachable :: "'w service \<Rightarrow> (string \<Rightarrow> string) \<Rightarrow> registry_db \<Rightarrow> bool" for svc sha where
  fleet_init: "fleet_reachable svc sha (empty_db faults)"
| fleet_more: "fleet_reachable svc sha db \<Longrightarrow> fleet_step svc sha db db' \<Longrightarrow> fleet_reachable svc sha db'"

definition fleet_inv :: "'w service \<Rightarrow> registry_db \<Rightarrow> bool" where
  "fleet_inv svc db \<longleftrightarrow>
     int (length (db_instances db)) \<le> svc_maxInstances svc \<and>
     (\<forall>r \<in> set (db_instances db). svc_portRangeStart svc \<le> inst_Port r \<and>
        inst_Port r < svc_portRangeStart svc + svc_maxInstances svc)"

definition svc_ok :: "'w service \<Rightarrow> bool" where
  "svc_ok svc \<longleftrightarrow> 1 \<le> svc_portRangeStart svc \<and> 1 \<le> svc_maxInstances svc \<and> svc_maxInstances svc \<le> 1000 \<and>
     svc_portRangeStart svc + svc_maxInstances svc \<le> 65536"

lemma allocatePort_scan:
  "svc_ok svc \<Longrightarrow> allocatePort svc used = allocate_from (svc_portRangeStart svc) (svc_portRangeStart svc + 1000) used"
  unfolding allocatePort_def maxPortScan_def svc_ok_def by (subst wrap64_id) auto

lemma allocatePort_cases:
  assumes "svc_ok svc" "int (length ps) < svc_maxInstances svc"
  defines "p \<equiv> allocatePort svc (\<lambda>q. q \<in> set ps)"
  shows "svc_portRangeStart svc \<le> p \<and> p < svc_portRangeStart svc + svc_maxInstances svc \<and> p \<notin> set ps \<and> p \<noteq> 0"
proof -
  let ?s = "svc_portRangeStart svc"
  note cs = allocate_from_cases [of ?s "?s + 1000" "\<lambda>q. q \<in> set ps", folded allocatePort_scan [OF assms(1)], folded p_def]
  have full: "\<not> (\<forall>q. ?s \<le> q \<longrightarrow> q < ?s + 1000 \<longrightarrow> q \<in> set ps)"
    using first_fit_bound [of ?s "?s + 1000" ps] assms(1,2) by (auto simp: svc_ok_def)
  with cs have found: "?s \<le> p" "p \<notin> set ps" "\<forall>q. ?s \<le> q \<longrightarrow> q < p \<longrightarrow> q \<in> set ps" by auto
  with first_fit_bound [of ?s p ps] assms(1,2) show ?thesis by (auto simp: svc_ok_def)
qed

lemma reserve_inv:
  assumes "svc_ok svc" "fleet_inv svc db"
  shows "fleet_inv svc (snd (reserve svc sha now rnd req name db))"
proof (cases "reserve svc sha now rnd req name db")
  case (Pair r db')
  show ?thesis
  proof (cases r)
    case (Inl e)
    with Pair reserve_err [of svc sha now rnd req name db e db'] assms(2) show ?thesis
      by (simp add: fleet_inv_def same_tables_def)
  next
    case (Inr inst)
    note ok = reserve_ok [OF Pair [unfolded Inr]] and v = reserve_view [OF Pair [unfolded Inr]]
    from allocatePort_cases [OF assms(1), of "map inst_Port (db_instances db)"] ok(2,4) assms(2) Pair
    show ?thesis by (simp add: fleet_inv_def v(2))
  qed
qed

lemma fleet_step_inv:
  assumes "fleet_step svc sha db db'" "svc_ok svc" "fleet_inv svc db"
  shows "fleet_inv svc db'"
  using assms(1)
proof cases
  case (fleet_reserve now rnd req name)
  with reserve_inv [OF assms(2,3)] show ?thesis by simp
next
  case fleet_update
  from update_step_shrinks [OF this] assms(3) show ?thesis
    by (fastforce simp: shrinks_def fleet_inv_def)
qed

lemma fleet_reachable_inv: "fleet_reachable svc sha db \<Longrightarrow> svc_ok svc \<Longrightarrow> fleet_inv svc db"
proof (induction rule: fleet_reachable.induct)
  case (fleet_init faults)
  then show ?case by (simp add: fleet_inv_def empty_db_def svc_ok_def)
next
  case (fleet_more db db')
  then show ?case by (blast intro: fleet_step_inv)
qed

text \<open>The service the control plane builds from a validated configuration.\<close>

definition service_of_config :: "config \<Rightarrow> 'w deployment_plugin \<Rightarrow> ((string \<times> yaml) list \<Rightarrow> string result) \<Rightarrow> 'w service" where
  "service_of_config cfg plugin ym = New ym
     \<lparr>opt_Plugin = plugin, opt_ConfigWriter = None, opt_DataRoot = ctl_DataRoot (Control cfg),
      opt_PortRangeStart = ins_PortStart (Instances cfg), opt_MaxInstances = ins_MaxInstances (Instances cfg),
      opt_HealthTimeout = 0\<rparr>"

lemma service_of_config_ok:
  assumes "config_accepted cfg"
  shows "svc_ok (service_of_config cfg plugin ym)"
    and "svc_portRangeStart (service_of_config cfg plugin ym) = ins_PortStart (Instances cfg)"
    and "svc_maxInstances (service_of_config cfg plugin ym) = ins_MaxInstances (Instances cfg)"
  using assms
  by (auto simp: service_of_config_def New_def svc_ok_def config_accepted_def ports_acceptable_def Let_def)

section \<open>Provisioning and rollback, end to end\<close>

lemma retryUpdateStatus_ok:
  assumes "retryUpdateStatus iid st db = (Inr u, db')"
  shows "inst_view db iid \<noteq> None \<and>
     inst_view db' = (inst_view db)(iid := map_option (\<lambda>i. i\<lparr>inst_Status := st\<rparr>) (inst_view db iid))"
proof -
  have "retryUpdateStatus iid st db = retry registryRetries (\<lambda>d. Registry_UpdateStatus iid st d) (Inl ErrNotFound) db"
    by (simp add: retryUpdateStatus_def registryRetries_def numeral_3_eq_3)
  with assms show ?thesis using update_status.retry_ok [of registryRetries iid st ErrNotFound db u db'] by simp
qed

lemma retryUpdateStatus_err:
  assumes "retryUpdateStatus iid st db = (Inl e, db')"
  shows "inst_view db' = inst_view db"
proof -
  have "retryUpdateStatus iid st db = retry registryRetries (\<lambda>d. Registry_UpdateStatus iid st d) (Inl ErrNotFound) db"
    by (simp add: retryUpdateStatus_def registryRetries_def numeral_3_eq_3)
  with assms show ?thesis using update_status.retry_err [of registryRetries iid st ErrNotFound db e db'] by simp
qed

text \<open>After a rollback the row is gone, or (when the driver failed on the delete) it is as it
  was.\<close>

lemma Registry_Delete_view:
  "inst_view (snd (Registry_Delete iid db)) = (inst_view db)(iid := None) \<or>
   inst_view (snd (Registry_Delete iid db)) = inst_view db \<and> (db_fault db \<noteq> None \<or> inst_view db iid = None)"
proof (cases "Registry_Delete iid db")
  case (Pair r db')
  show ?thesis
  proof (cases r)
    case (Inl e)
    have "inst_view db' = inst_view db" using Pair Inl Registry_Delete_err same_tables_view by blast
    moreover have "db_fault db \<noteq> None \<or> inst_view db iid = None"
      using Pair Inl
      by (auto simp: Registry_Delete_def driver_defs stmt_delete_instance_def inst_view_None_iff
          split: option.splits if_splits)
    ultimately show ?thesis using Pair by simp
  next
    case (Inr u)
    with Pair Registry_Delete_ok [of iid db u db'] show ?thesis by simp
  qed
qed

lemma rollback_db: "ps_db (rollback svc iid d b st) = snd (Registry_Delete iid (ps_db st))"
  by (simp add: rollback_def Let_def)

lemma rollback_fs: "ps_fs (rollback svc iid d b st) = snd (os_RemoveAll d (ps_fs st))"
  by (simp add: rollback_def Let_def)

lemma rollback_world:
  "ps_world (rollback svc iid d b st) =
     (if b then snd (pl_Destroy (svc_plugin svc) iid (ps_world st)) else ps_world st)"
  by (simp add: rollback_def Let_def)

text \<open>The three ways a deployment ends in an error, as the state they leave.\<close>

lemma deploy_err:
  assumes "deploy svc req inst st = (Inl e, st')"
  shows "\<exists>b st1. st' = rollback svc (rq_InstanceID req) (inst_DataDir inst) b st1 \<and>
     inst_view (ps_db st1) = inst_view (ps_db st)"
proof -
  let ?iid = "rq_InstanceID req" and ?dir = "inst_DataDir inst"
  obtain p s1 where p: "prepare svc req inst (ps_fs st) = (p, s1)" by fastforce
  show ?thesis
  proof (cases p)
    case (Inl e')
    with assms p have "st' = rollback svc ?iid ?dir False (st\<lparr>ps_fs := s1\<rparr>)"
      by (simp add: deploy_def Let_def)
    then show ?thesis by (intro exI conjI, assumption) simp
  next
    case (Inr cfg)
    let ?pr = "\<lparr>pr_InstanceID = ?iid, pr_Image = rq_Image req, pr_Config = cfg, pr_Port = inst_Port inst,
        pr_DataDir = ?dir, pr_CloudEnv = CloudEnvVars (rq_Cloud req)\<rparr>"
    obtain d w where d: "pl_Provision (svc_plugin svc) ?pr (ps_world st) = (d, w)" by fastforce
    obtain u db where u: "retryUpdateStatus ?iid ''running'' (ps_db st) = (u, db)" by fastforce
    show ?thesis
    proof (cases d)
      case (Inl e')
      with assms p Inr d have "st' = rollback svc ?iid ?dir True (st\<lparr>ps_fs := s1, ps_world := w\<rparr>)"
        by (simp add: deploy_def Let_def)
      then show ?thesis by (intro exI conjI, assumption) simp
    next
      case dd: (Inr v)
      with assms p Inr d u obtain e' where e': "u = Inl e'"
        and st': "st' = rollback svc ?iid ?dir True (st\<lparr>ps_fs := s1, ps_world := w, ps_db := db\<rparr>)"
        by (cases u) (simp_all add: deploy_def Let_def)
      have "inst_view db = inst_view (ps_db st)" using u e' retryUpdateStatus_err by blast
      then have "inst_view (ps_db (st\<lparr>ps_fs := s1, ps_world := w, ps_db := db\<rparr>)) = inst_view (ps_db st)"
        by simp
      with st' show ?thesis by blast
    qed
  qed
qed

lemma deploy_ok:
  assumes "deploy svc req inst st = (Inr pinst, st')"
  shows "pinst = \<lparr>pi_ID = rq_InstanceID req, pi_Port = inst_Port inst, pi_DataDir = inst_DataDir inst,
      pi_Status = ''running'', pi_CreatedAt = inst_CreatedAt inst\<rparr>"
    and "inst_view (ps_db st') = (inst_view (ps_db st))(rq_InstanceID req :=
      map_option (\<lambda>i. i\<lparr>inst_Status := ''running''\<rparr>) (inst_view (ps_db st) (rq_InstanceID req)))"
  using assms
  by (auto simp: deploy_def Let_def split: prod.splits sum.splits dest!: retryUpdateStatus_ok)

lemma Provision_err_view:
  assumes "Provision svc um sha now rnd req st = (Inl e, st')"
  shows "inst_view (ps_db st') = inst_view (ps_db st) \<or>
    (\<exists>inst. inst_view (ps_db st) (rq_InstanceID req) = None \<and> inst_Status inst = ''provisioning'' \<and>
       inst_view (ps_db st') = (inst_view (ps_db st))(rq_InstanceID req \<mapsto> inst))"
proof -
  let ?iid = "rq_InstanceID req"
  obtain p s1 where p: "precheck um req (ps_fs st) = (p, s1)" by fastforce
  show ?thesis
  proof (cases p)
    case (Inl e')
    with assms p show ?thesis by (auto simp: Provision_def)
  next
    case (Inr name)
    obtain r db where r: "reserve svc sha now rnd req name (ps_db st) = (r, db)" by fastforce
    show ?thesis
    proof (cases r)
      case re: (Inl e')
      with assms p Inr r have "ps_db st' = db" by (auto simp: Provision_def)
      with re r reserve_err same_tables_view show ?thesis by metis
    next
      case ri: (Inr inst)
      note ok = reserve_ok [OF r [unfolded ri]] and v = reserve_view(1) [OF r [unfolded ri]]
      from assms p Inr r ri have "deploy svc req inst (st\<lparr>ps_fs := s1, ps_db := db\<rparr>) = (Inl e, st')"
        by (simp add: Provision_def)
      from deploy_err [OF this] obtain b st1
        where st': "st' = rollback svc ?iid (inst_DataDir inst) b st1" and v1: "inst_view (ps_db st1) = inst_view db"
        by auto
      have s: "inst_Status inst = ''provisioning''" using ok(3) by (auto simp: reserved_instance_def)
      from Registry_Delete_view [of ?iid "ps_db st1"]
      consider "inst_view (snd (Registry_Delete ?iid (ps_db st1))) = (inst_view (ps_db st1))(?iid := None)"
        | "inst_view (snd (Registry_Delete ?iid (ps_db st1))) = inst_view (ps_db st1)" by blast
      then show ?thesis
      proof cases
        case 1
        then have "inst_view (ps_db st') = inst_view (ps_db st)"
          using v v1 ok(1) by (simp add: st' rollback_db fun_upd_idem)
        then show ?thesis by simp
      next
        case 2
        then have "inst_view (ps_db st') = (inst_view (ps_db st))(?iid \<mapsto> inst)"
          using v v1 by (simp add: st' rollback_db)
        with ok(1) s show ?thesis by blast
      qed
    qed
  qed
qed

lemma Provision_ok_view:
  assumes "Provision svc um sha now rnd req st = (Inr pinst, st')"
  shows "\<exists>inst. inst_view (ps_db st) (rq_InstanceID req) = None \<and>
    inst_view (ps_db st') = (inst_view (ps_db st))(rq_InstanceID req \<mapsto> inst) \<and>
    inst_Status inst = ''running'' \<and> inst_Port inst = pi_Port pinst \<and> inst_DataDir inst = pi_DataDir pinst \<and>
    pi_ID pinst = rq_InstanceID req \<and> pi_Status pinst = ''running'' \<and> inst_CreatedAt inst = pi_CreatedAt pinst \<and>
    inst_Port inst \<notin> inst_Port ` set (db_instances (ps_db st)) \<and>
    int (length (db_instances (ps_db st))) < svc_maxInstances svc"
proof -
  let ?iid = "rq_InstanceID req"
  obtain name s1 where p: "precheck um req (ps_fs st) = (Inr name, s1)"
    using assms by (auto simp: Provision_def split: prod.splits sum.splits)
  obtain inst db where r: "reserve svc sha now rnd req name (ps_db st) = (Inr inst, db)"
    using assms p by (auto simp: Provision_def split: prod.splits sum.splits)
  note ok = reserve_ok [OF r] and v = reserve_view(1) [OF r]
  from assms p r have d: "deploy svc req inst (st\<lparr>ps_fs := s1, ps_db := db\<rparr>) = (Inr pinst, st')"
    by (simp add: Provision_def)
  note dep = deploy_ok [OF d]
  have "inst_view (ps_db st') = (inst_view (ps_db st))(?iid \<mapsto> inst\<lparr>inst_Status := ''running''\<rparr>)"
    using dep(2) v by simp
  moreover have "inst_Port inst \<notin> set (map inst_Port (db_instances (ps_db st)))"
    using ok(4,5) allocate_from_cases [of "svc_portRangeStart svc" "wrap64 (svc_portRangeStart svc + maxPortScan)"
        "\<lambda>p. p \<in> set (map inst_Port (db_instances (ps_db st)))"]
    unfolding allocatePort_def by auto
  ultimately show ?thesis
    using ok(1,2) dep(1) by (intro exI [of _ "inst\<lparr>inst_Status := ''running''\<rparr>"]) simp
qed

text \<open>Without driver failures the rollback always removes the row.\<close>

lemma db_ops_no_faults:
  assumes "db_faults db = []"
  shows "db_faults (snd (Registry_List db)) = []" "db_faults (snd (Registry_UsedPorts db)) = []"
    "db_faults (snd (Registry_Create sha now inst db)) = []"
    "db_faults (snd (Registry_UpdateStatus iid st db)) = []"
  using assms
  by (auto simp: Registry_List_def Registry_UsedPorts_def Registry_Create_def Registry_UpdateStatus_def
      driver_defs db_fault_def db_tick_def stmt_upsert_instance_def stmt_update_instance_def)

lemma retry_no_faults:
  "db_faults db = [] \<Longrightarrow> db_faults (snd (retry n (Registry_UpdateStatus iid st) err db)) = []"
proof (induction n arbitrary: err db)
  case (Suc n)
  obtain r db1 where a: "Registry_UpdateStatus iid st db = (r, db1)" by fastforce
  with db_ops_no_faults(4) [OF Suc.prems, of iid st] have "db_faults db1 = []" by simp
  with a Suc.IH show ?case by (cases r) auto
qed simp

lemma reserve_no_faults:
  assumes "db_faults db = []"
  shows "db_faults (snd (reserve svc sha now rnd req name db)) = []"
proof -
  obtain r db1 where l: "Registry_List db = (r, db1)" by fastforce
  have 1: "db_faults db1 = []" using db_ops_no_faults(1) [OF assms] l by simp
  obtain u db2 where u: "Registry_UsedPorts db1 = (u, db2)" by fastforce
  have 2: "db_faults db2 = []" using db_ops_no_faults(2) [OF 1] u by simp
  have 3: "db_faults db3 = []" if "Registry_Create sha now i db2 = (x, db3)" for i x db3
    using db_ops_no_faults(3) [OF 2, of sha now i] that by simp
  from l u 1 2 3 show ?thesis
    by (auto simp: reserve_def Let_def split: sum.splits prod.splits)
qed

lemma deploy_err_no_faults:
  assumes "deploy svc req inst st = (Inl e, st')" "db_faults (ps_db st) = []"
  shows "inst_view (ps_db st') (rq_InstanceID req) = None"
proof -
  have gone: "inst_view (snd (Registry_Delete iid db)) iid = None" if "db_faults db = []" for iid db
    using Registry_Delete_view [of iid db] that by (auto simp: db_fault_def)
  have "db_faults (snd (retryUpdateStatus iid s (ps_db st))) = []" for iid s
    using retry_no_faults [OF assms(2)] by (simp add: retryUpdateStatus_def)
  then have "db_faults db = []" if "retryUpdateStatus iid s (ps_db st) = (r, db)" for iid s r db
    using that by (metis snd_conv)
  with assms gone show ?thesis
    by (auto simp: deploy_def Let_def rollback_db split: prod.splits sum.splits)
qed

lemma Provision_err_restored:
  assumes "Provision svc um sha now rnd req st = (Inl e, st')" and f: "db_faults (ps_db st) = []"
  shows "inst_view (ps_db st') (rq_InstanceID req) = inst_view (ps_db st) (rq_InstanceID req)"
proof -
  obtain p s1 where p: "precheck um req (ps_fs st) = (p, s1)" by fastforce
  show ?thesis
  proof (cases p)
    case (Inl e')
    with assms(1) p show ?thesis by (auto simp: Provision_def)
  next
    case (Inr name)
    obtain r db where r: "reserve svc sha now rnd req name (ps_db st) = (r, db)" by fastforce
    show ?thesis
    proof (cases r)
      case re: (Inl e')
      with assms(1) p Inr r have "ps_db st' = db" by (auto simp: Provision_def)
      with re r reserve_err same_tables_view show ?thesis by metis
    next
      case ri: (Inr inst)
      have "db_faults db = []" using reserve_no_faults [OF f] r by (metis snd_conv)
      with assms(1) p Inr r ri deploy_err_no_faults [of svc req inst "st\<lparr>ps_fs := s1, ps_db := db\<rparr>"]
        reserve_ok(1) [OF r [unfolded ri]]
      show ?thesis by (simp add: Provision_def)
    qed
  qed
qed

text \<open>C2: A provisioning that fails leaves the registry as it found it, whatever step failed; if the
  registry driver itself fails during the rollback, the one thing left over is the new row, still
  marked \<^verbatim>\<open>provisioning\<close>. Without driver failures the registry is always restored.\<close>

theorem Provision_failure_restores:
  assumes "Provision svc um sha now rnd req st = (Inl e, st')"
  shows "(\<forall>j. j \<noteq> rq_InstanceID req \<longrightarrow> inst_view (ps_db st') j = inst_view (ps_db st) j) \<and>
    (inst_view (ps_db st') (rq_InstanceID req) = inst_view (ps_db st) (rq_InstanceID req) \<or>
     db_faults (ps_db st) \<noteq> [] \<and> inst_view (ps_db st) (rq_InstanceID req) = None \<and>
     (\<exists>i. inst_view (ps_db st') (rq_InstanceID req) = Some i \<and> inst_Status i = ''provisioning''))"
proof -
  let ?iid = "rq_InstanceID req"
  show ?thesis using Provision_err_view [OF assms] Provision_err_restored [OF assms] by fastforce
qed

definition null_plugin :: "string list deployment_plugin" where
  "null_plugin = \<lparr>pl_Provision = (\<lambda>r w. if pr_Port r = 9101 then (Inl (Errorf ''image not found''), w)
        else (Inr (), pr_InstanceID r # w)),
      pl_HealthCheck = (\<lambda>i w. (Inr \<lparr>hs_Healthy = i \<in> set w, hs_Ready = True, hs_Checks = [], hs_CheckedAt = 0\<rparr>, w)),
      pl_Configure = (\<lambda>i c w. (Inr (), w)), pl_Rollout = (\<lambda>i t w. (Inr (), w)),
      pl_Rollback = (\<lambda>i t w. (Inr (), w)), pl_Destroy = (\<lambda>i w. (Inr (), filter (\<lambda>x. x \<noteq> i) w)),
      pl_Logs = (\<lambda>i opts w. (Inr '''', w)), pl_Restart = (\<lambda>i w. (Inr (), w)),
      pl_Stats = (\<lambda>i w. (Inl (Errorf ''no stats''), w))\<rparr>"

definition sample_service :: "string list service" where
  "sample_service = service_of_config sample_config null_plugin (\<lambda>_. Inr '''')"

definition sample_request :: "string \<Rightarrow> request" where
  "sample_request iid = \<lparr>rq_InstanceID = iid, rq_AdminSecret = ''s'', rq_InstancePassword = ''p'',
     rq_Image = \<lparr>img_Repository = ''fox'', img_Digest = ''d1''\<rparr>, rq_ProxyEndpoint = '''', rq_CapabilityFlags = [],
     rq_Env = [], rq_SkillsetPath = '''', rq_DataPlaneURL = '''', rq_PrincipalRole = '''',
     rq_Cloud = \<lparr>cc_Enabled = False, cc_Domain = '''', cc_Slug = ''''\<rparr>\<rparr>"

definition sample_state :: "string list prov_state" where
  "sample_state = \<lparr>ps_db = empty_db [], ps_fs = \<lparr>fs_files = [], fs_dirs = [], fs_faults = []\<rparr>, ps_world = []\<rparr>"

definition provision_sample :: "string \<Rightarrow> string list prov_state \<Rightarrow> prov_instance result \<times> string list prov_state" where
  "provision_sample iid st = Provision sample_service (\<lambda>_. Inl ErrNotExist) (\<lambda>x. x) ''t'' (\<lambda>n. Inr (nat_str n))
     (sample_request iid) st"

theorem Provision_failure_restores_witness:
  "inst_view (ps_db (snd (provision_sample ''b'' (snd (provision_sample ''a'' sample_state))))) ''b'' = None"
proof -
  let ?st = "snd (provision_sample ''a'' sample_state)"
  let ?r = "provision_sample ''b'' ?st"
  have f: "case fst ?r of Inl _ \<Rightarrow> True | Inr _ \<Rightarrow> False" "db_faults (ps_db ?st) = []"
    "inst_view (ps_db ?st) ''b'' = None" by code_simp+
  then obtain e where "?r = (Inl e, snd ?r)" by (cases "fst ?r") (auto simp: prod_eq_iff)
  from Provision_failure_restores [OF this [unfolded provision_sample_def [of "''b''"]]] f(2,3)
  show ?thesis by (simp add: provision_sample_def [of "''b''"] sample_request_def)
qed

text \<open>C12: A provisioning that succeeds registered a new instance: the id was free, the fleet was below
  its cap, the port returned was used by no other instance, and afterwards the registry holds
  exactly one more row, running, with the port, directory and creation time that were returned.\<close>

theorem Provision_success:
  assumes "Provision svc um sha now rnd req st = (Inr pinst, st')"
  shows "\<exists>inst. inst_view (ps_db st) (rq_InstanceID req) = None \<and>
    inst_view (ps_db st') = (inst_view (ps_db st))(rq_InstanceID req \<mapsto> inst) \<and>
    inst_Status inst = ''running'' \<and> inst_Port inst = pi_Port pinst \<and> inst_DataDir inst = pi_DataDir pinst \<and>
    pi_ID pinst = rq_InstanceID req \<and> pi_Status pinst = ''running'' \<and> inst_CreatedAt inst = pi_CreatedAt pinst \<and>
    inst_Port inst \<notin> inst_Port ` set (db_instances (ps_db st)) \<and>
    int (length (db_instances (ps_db st))) < svc_maxInstances svc"
  by (rule Provision_ok_view [OF assms])

theorem Provision_success_witness:
  "\<exists>inst. inst_view (ps_db (snd (provision_sample ''a'' sample_state))) ''a'' = Some inst \<and>
     inst_Status inst = ''running'' \<and> inst_Port inst = 9100"
proof -
  let ?r = "provision_sample ''a'' sample_state"
  have "fst ?r = Inr \<lparr>pi_ID = ''a'', pi_Port = 9100, pi_DataDir = ''/data/instances/a'', pi_Status = ''running'', pi_CreatedAt = ''t''\<rparr>"
    by code_simp
  then have "?r = (Inr \<lparr>pi_ID = ''a'', pi_Port = 9100, pi_DataDir = ''/data/instances/a'', pi_Status = ''running'', pi_CreatedAt = ''t''\<rparr>, snd ?r)"
    by (simp add: prod_eq_iff)
  from Provision_success [OF this [unfolded provision_sample_def]]
  show ?thesis by (auto simp: provision_sample_def sample_request_def)
qed

section \<open>Cap and ports under concurrency\<close>

text \<open>C7: Under a validated configuration, however provisionings and all other registry calls of one
  control plane interleave: the number of instances never exceeds \<^verbatim>\<open>max_instances\<close>, every
  instance port lies in the configured range and below 65536, and none equals a port of the
  control plane's own services.\<close>

theorem fleet_cap_and_ports:
  assumes "config_accepted cfg" and "fleet_reachable (service_of_config cfg plugin ym) sha db"
  shows "int (length (db_instances db)) \<le> ins_MaxInstances (Instances cfg) \<and>
    (\<forall>r \<in> set (db_instances db).
       ins_PortStart (Instances cfg) \<le> inst_Port r \<and> inst_Port r \<le> 65535 \<and>
       inst_Port r \<notin> fst ` set (port_entries cfg))"
proof -
  note svc = service_of_config_ok [OF assms(1), of plugin ym]
  have inv: "fleet_inv (service_of_config cfg plugin ym) db" using fleet_reachable_inv [OF assms(2) svc(1)] .
  have ports: "ports_acceptable cfg" using assms(1) by (simp add: config_accepted_def)
  have "inst_Port r \<notin> fst ` set (port_entries cfg)" if "r \<in> set (db_instances db)" for r
    using inv svc(2,3) ports that by (fastforce simp: fleet_inv_def ports_acceptable_def Let_def)
  with inv svc(2,3) ports show ?thesis by (force simp: fleet_inv_def ports_acceptable_def Let_def)
qed

lemma sample_config_accepted: "config_accepted (fill_qdrant_dir (applyDefaults ''linux'' sample_config))"
proof -
  have "validateConfig (applyDefaults ''linux'' sample_config) =
      ([], fill_qdrant_dir (applyDefaults ''linux'' sample_config))"
    unfolding prod_eq_iff by code_simp
  then show ?thesis unfolding validateConfig_Nil by simp
qed

theorem fleet_cap_and_ports_witness:
  "list_all (\<lambda>r. inst_Port r \<le> 65535)
     (db_instances (snd (reserve (service_of_config (fill_qdrant_dir (applyDefaults ''linux'' sample_config))
        null_plugin (\<lambda>_. Inr '''')) (\<lambda>x. x) ''t'' (\<lambda>n. Inr (nat_str n)) (sample_request ''a'') '''' (empty_db []))))"
  using fleet_cap_and_ports [OF sample_config_accepted fleet_more [OF fleet_init [of _ _ "[]"] fleet_reserve]]
  unfolding list_all_iff by blast

text \<open>With a validated configuration the port scan never runs out: in every reachable state a
  reservation either is refused for another reason or gets a port, because fewer than
  \<^verbatim>\<open>max_instances\<close> (at most 1000) ports are taken when the scan of 1000 ports starts.\<close>

theorem ports_never_exhausted:
  assumes "config_accepted cfg"
  shows "fst (reserve (service_of_config cfg plugin ym) sha now rnd req name db) \<noteq> Inl ErrPortExhausted"
proof
  let ?svc = "service_of_config cfg plugin ym"
  assume a: "fst (reserve ?svc sha now rnd req name db) = Inl ErrPortExhausted"
  obtain r db1 where l: "Registry_List db = (r, db1)" by fastforce
  obtain u db2 where u: "Registry_UsedPorts db1 = (u, db2)" by fastforce
  have wraps: "Wrap m e \<noteq> ErrPortExhausted" for m e by (simp add: ErrPortExhausted_def)
  from a l u obtain xs used where xs: "r = Inr xs" and used: "u = Inr used"
    and cap: "int (length xs) < svc_maxInstances ?svc"
    by (auto simp: reserve_def wraps ErrCapReached_def ErrPortExhausted_def split: sum.splits if_splits)
  note list = Registry_List_ok [OF l [unfolded xs]] and up = UsedPorts_ok [OF u [unfolded used]]
  have "used = (\<lambda>p. p \<in> set (map inst_Port (db_instances db)))"
    using up list by (auto simp: same_tables_def)
  with allocatePort_cases [OF service_of_config_ok(1) [OF assms], of "map inst_Port (db_instances db)" plugin ym]
    cap list have p: "allocatePort ?svc used \<noteq> 0" by simp
  have "draw_tokens rnd = Inl e \<Longrightarrow> e \<noteq> ErrPortExhausted" for e
    by (auto simp: draw_tokens_def ErrPortExhausted_def split: sum.splits)
  with a l u xs used cap p show False
    by (auto simp: reserve_def Let_def wraps ErrPortExhausted_def split: sum.splits if_splits prod.splits)
qed

theorem ports_never_exhausted_witness:
  "fst (reserve (service_of_config (fill_qdrant_dir (applyDefaults ''linux'' sample_config)) null_plugin (\<lambda>_. Inr ''''))
     (\<lambda>x. x) ''t'' (\<lambda>n. Inr (nat_str n)) (sample_request ''a'') '''' (empty_db [])) \<noteq> Inl ErrPortExhausted"
  by (rule ports_never_exhausted [OF sample_config_accepted])

section \<open>Data directories\<close>

text \<open>For ids the API accepts, the data directory is the id below \<^verbatim>\<open>instances\<close> under the data root,
  so two instances never share one and none lies inside another: removing one instance's data
  touches no file of another.\<close>

theorem data_dirs_disjoint:
  assumes "validInstanceID a" "validInstanceID b" "a \<noteq> b" "svc_dataRoot svc \<noteq> ''''"
    and "below (inst_DataDir (reserved_instance svc ra now n p t)) q" "rq_InstanceID ra = a"
    and "rq_InstanceID rb = b"
  shows "\<not> below (inst_DataDir (reserved_instance svc rb now' n' p' t')) q"
proof
  let ?pre = "child_prefix (svc_dataRoot svc) @ ''instances/''"
  have pl: "plain_seg a" "plain_seg b" "plain_seg ''instances''"
    using assms(1,2) instance_id_plain by (auto simp: plain_seg_def)
  have da: "inst_DataDir (reserved_instance svc ra now n p t) = ?pre @ a"
    and db: "inst_DataDir (reserved_instance svc rb now' n' p' t') = ?pre @ b"
    using assms(4,6,7) pl by (simp_all add: reserved_instance_def path_Join_grandchild)
  assume "below (inst_DataDir (reserved_instance svc rb now' n' p' t')) q"
  then obtain y where qy: "q = (?pre @ b) @ y" and y: "y = '''' \<or> (\<exists>u. y = ''/'' @ u)"
    unfolding db below_iff by blast
  from assms(5) obtain x where qx: "q = (?pre @ a) @ x" and x: "x = '''' \<or> (\<exists>u. x = ''/'' @ u)"
    unfolding da below_iff by blast
  from qx qy have "a @ x = b @ y" by simp
  moreover have "takeWhile (\<lambda>c. c \<noteq> CHR ''/'') (s @ z) = s" if "plain_seg s" "z = '''' \<or> (\<exists>u. z = ''/'' @ u)" for s z
  proof -
    have "\<forall>c \<in> set s. c \<noteq> CHR ''/''" using that(1) by (auto simp: plain_seg_def)
    then have "takeWhile (\<lambda>c. c \<noteq> CHR ''/'') (s @ z) = s @ takeWhile (\<lambda>c. c \<noteq> CHR ''/'') z"
      by (intro takeWhile_append2) simp
    with that(2) show ?thesis by auto
  qed
  ultimately have "a = b" using pl x y by metis
  with assms(3) show False by simp
qed

theorem data_dirs_disjoint_witness:
  "\<not> below (inst_DataDir (reserved_instance sample_service (sample_request ''b'') ''t'' '''' 1 ('''', '''', ''''))) ''/data/instances/a/x''"
  by (rule data_dirs_disjoint [where a = "''a''" and b = "''b''" and ra = "sample_request ''a''" and now = "''t''"
        and n = "''''" and p = 1 and t = "('''', '''', '''')"]) code_simp+

text \<open>An id that skips this check is not confined: with the id \<^verbatim>\<open>..\<close>, which the command line tool
  passes on unchecked, the data directory is the data root itself, and a deployment failure
  removes everything below it.\<close>

lemma unchecked_id_escapes:
  "inst_DataDir (reserved_instance sample_service (sample_request ''..'') now n p t) = ''/data''"
proof -
  have "path_Join [svc_dataRoot sample_service, ''instances'', ''..''] = ''/data''" by code_simp
  then show ?thesis by (simp add: reserved_instance_def sample_request_def)
qed

end
