(* ===== verification/Rollout.thy ===== *)
theory Rollout
  imports Cloud_Store Plugin_Api "HOL-Library.Multiset"
begin

text \<open>
  \<^verbatim>\<open>rollout/rollout.go\<close>: rolling an image out over the fleet, one instance at a time, stopping at
  the first failure. The world \<open>'w\<close> of the deployment plugin also carries the clock: \<open>ck_now\<close> reads
  it, \<open>ck_ctxDone\<close> says whether the caller's context is cancelled, and \<open>ck_select\<close> is the
  \<^verbatim>\<open>select\<close> between the health context (cancelled at a deadline) and \<^verbatim>\<open>time.After\<close>; it answers
  whether the context fired. The wait loop may run as long as the clock lets it, so it is a
  partial function whose result is \<open>None\<close> when it does not return; that it returns is proved from
  \<open>clock_ok\<close>, the documented behaviour of timers and contexts.
\<close>

section \<open>Reports\<close>

datatype result_status = StatusRolledOut | StatusRolledBack | StatusSkipped

fun status_str :: "result_status \<Rightarrow> string" where
  "status_str StatusRolledOut = ''rolled_out''"
| "status_str StatusRolledBack = ''rolled_back''"
| "status_str StatusSkipped = ''skipped''"

record instance_result =
  ir_ID :: string
  ir_Status :: result_status
  ir_Previous :: image_ref
  ir_Error :: string

record report =
  rp_Target :: image_ref
  rp_Instances :: "instance_result list"

fun all_rolled_out :: "instance_result list \<Rightarrow> bool" where
  "all_rolled_out [] = True"
| "all_rolled_out (r # rs) = (if ir_Status r \<noteq> StatusRolledOut then False else all_rolled_out rs)"

definition Report_OK :: "report \<Rightarrow> bool" where
  "Report_OK r = all_rolled_out (rp_Instances r)"

definition pad20 :: "string \<Rightarrow> string" where
  "pad20 s = s @ replicate (20 - length s) (CHR '' '')"

definition result_line :: "instance_result \<Rightarrow> string" where
  "result_line r = ''  '' @ pad20 (ir_ID r) @ '' '' @ status_str (ir_Status r) @
     (if ir_Error r \<noteq> '''' then ''  ('' @ ir_Error r @ '')'' else '''') @ [CHR 0x0A]"

definition Report_Format :: "report \<Rightarrow> string" where
  "Report_Format r =
     ''Rollout target: '' @ img_Repository (rp_Target r) @ ''@'' @ img_Digest (rp_Target r) @ [CHR 0x0A, CHR 0x0A] @
     concat (map result_line (rp_Instances r))"

section \<open>The orchestrator\<close>

record 'w clock =
  ck_now :: "'w \<Rightarrow> int"
  ck_ctxDone :: "'w \<Rightarrow> bool"
  ck_select :: "int \<Rightarrow> int \<Rightarrow> 'w \<Rightarrow> bool \<times> 'w"

record 'w orchestrator =
  or_plugin :: "'w deployment_plugin"
  or_healthTimeout :: int
  or_healthInterval :: "int \<Rightarrow> int"
  or_clock :: "'w clock"

definition DefaultHealthInterval :: "int \<Rightarrow> int" where
  "DefaultHealthInterval elapsed = (if elapsed < 30 * 1000000000 then 2 * 1000000000 else 5 * 1000000000)"

definition Orchestrator_New :: "'w deployment_plugin \<Rightarrow> 'w clock \<Rightarrow> int \<Rightarrow> (int \<Rightarrow> int) option \<Rightarrow> 'w orchestrator" where
  "Orchestrator_New plugin ck timeout interval =
     \<lparr>or_plugin = plugin,
      or_healthTimeout = (if timeout = 0 then 120 * 1000000000 else timeout),
      or_healthInterval = (case interval of None \<Rightarrow> DefaultHealthInterval | Some f \<Rightarrow> f),
      or_clock = ck\<rparr>"

text \<open>\<^verbatim>\<open>Duration.Round(time.Second)\<close> printed.\<close>

definition seconds_str :: "int \<Rightarrow> string" where
  "seconds_str ns =
     (let s = (ns + 500000000) div 1000000000; h = s div 3600; m = (s mod 3600) div 60
      in (if h > 0 then int_str h @ ''h'' else '''') @
         (if s \<ge> 60 then int_str m @ ''m'' else '''') @ int_str (s mod 60) @ ''s'')"

text \<open>The loop of \<open>waitHealthy\<close>: check, then wait for the next interval or the end of the health
  context.\<close>

partial_function (option) wait_loop ::
  "'w orchestrator \<Rightarrow> string \<Rightarrow> int \<Rightarrow> int \<Rightarrow> 'w \<Rightarrow> (unit result \<times> 'w) option" where
  [code]: "wait_loop o' iid start deadline w =
     (case pl_HealthCheck (or_plugin o') iid w of
        (chk, w1) \<Rightarrow>
          (if (case chk of Inl _ \<Rightarrow> False | Inr hs \<Rightarrow> hs_Healthy hs) then Some (Inr (), w1)
           else let elapsed = ck_now (or_clock o') w1 - start
                in case ck_select (or_clock o') deadline (or_healthInterval o' elapsed) w1 of
                     (fired, w2) \<Rightarrow>
                       (if fired then Some (Inl (Errorf (''health check timed out after '' @ seconds_str elapsed)), w2)
                        else wait_loop o' iid start deadline w2)))"

definition waitHealthy :: "'w orchestrator \<Rightarrow> string \<Rightarrow> 'w \<Rightarrow> (unit result \<times> 'w) option" where
  "waitHealthy o' iid w =
     (let start = ck_now (or_clock o') w
      in wait_loop o' iid start (start + or_healthTimeout o') w)"

record 'w roll_state =
  rs_db :: registry_db
  rs_world :: 'w

definition previous_of :: "image_ref \<Rightarrow> fox_instance \<Rightarrow> image_ref" where
  "previous_of target inst = \<lparr>img_Repository = img_Repository target, img_Digest = inst_ImageDigest inst\<rparr>"

definition mk_result :: "fox_instance \<Rightarrow> image_ref \<Rightarrow> result_status \<Rightarrow> string \<Rightarrow> instance_result" where
  "mk_result inst target status err =
     \<lparr>ir_ID = inst_ID inst, ir_Status = status, ir_Previous = previous_of target inst, ir_Error = err\<rparr>"

definition rolloutInstance ::
  "'w orchestrator \<Rightarrow> fox_instance \<Rightarrow> image_ref \<Rightarrow> 'w roll_state \<Rightarrow> (instance_result \<times> 'w roll_state) option" where
  "rolloutInstance o' inst target st =
     (let previous = previous_of target inst; iid = inst_ID inst in
      case pl_Rollout (or_plugin o') iid target (rs_world st) of
        (Inl e, w1) \<Rightarrow>
          Some (mk_result inst target StatusRolledBack (''rollout: '' @ error_text e), st\<lparr>rs_world := w1\<rparr>)
      | (Inr _, w1) \<Rightarrow>
          (case waitHealthy o' iid w1 of
             None \<Rightarrow> None
           | Some (Inl e, w2) \<Rightarrow>
               (case pl_Rollback (or_plugin o') iid previous w2 of
                  (Inl rbErr, w3) \<Rightarrow>
                    Some (mk_result inst target StatusRolledBack
                            (''health failed: '' @ error_text e @ ''; rollback failed: '' @ error_text rbErr),
                          st\<lparr>rs_world := w3\<rparr>)
                | (Inr _, w3) \<Rightarrow>
                    Some (mk_result inst target StatusRolledBack (''health failed: '' @ error_text e),
                          st\<lparr>rs_world := w3\<rparr>))
           | Some (Inr _, w2) \<Rightarrow>
               (case Registry_UpdateImageDigest iid (img_Digest target) (rs_db st) of
                  (Inl e, db1) \<Rightarrow>
                    Some (mk_result inst target StatusRolledBack (''registry update: '' @ error_text e),
                          st\<lparr>rs_db := db1, rs_world := snd (pl_Rollback (or_plugin o') iid previous w2)\<rparr>)
                | (Inr _, db1) \<Rightarrow>
                    Some (mk_result inst target StatusRolledOut '''', st\<lparr>rs_db := db1, rs_world := w2\<rparr>))))"

definition skipped :: "image_ref \<Rightarrow> fox_instance \<Rightarrow> instance_result" where
  "skipped target inst = mk_result inst target StatusSkipped ''aborted due to prior failure''"

fun exec_loop ::
  "'w orchestrator \<Rightarrow> image_ref \<Rightarrow> fox_instance list \<Rightarrow> 'w roll_state
     \<Rightarrow> (instance_result list \<times> 'w roll_state) option" where
  "exec_loop o' target [] st = Some ([], st)"
| "exec_loop o' target (inst # rest) st =
     (if ck_ctxDone (or_clock o') (rs_world st) then Some (map (skipped target) (inst # rest), st)
      else case rolloutInstance o' inst target st of
        None \<Rightarrow> None
      | Some (result, st1) \<Rightarrow>
          (if ir_Status result \<noteq> StatusRolledOut then Some (result # map (skipped target) rest, st1)
           else case exec_loop o' target rest st1 of
             None \<Rightarrow> None
           | Some (rs, st2) \<Rightarrow> Some (result # rs, st2)))"

definition Execute ::
  "'w orchestrator \<Rightarrow> image_ref \<Rightarrow> 'w roll_state \<Rightarrow> (report result \<times> 'w roll_state) option" where
  "Execute o' target st =
     (case Registry_List (rs_db st) of
        (Inl e, db1) \<Rightarrow> Some (Inl (Wrap ''rollout: list instances'' e), st\<lparr>rs_db := db1\<rparr>)
      | (Inr instances, db1) \<Rightarrow>
          (case exec_loop o' target instances (st\<lparr>rs_db := db1\<rparr>) of
             None \<Rightarrow> None
           | Some (rs, st1) \<Rightarrow> Some (Inr \<lparr>rp_Target = target, rp_Instances = rs\<rparr>, st1)))"

section \<open>The wait loop returns\<close>

text \<open>
  Timers and contexts: a health check does not turn the clock back; once the deadline has passed
  the \<^verbatim>\<open>select\<close> takes the context's branch; and when it takes the timer's branch at least the
  waiting time has passed.
\<close>

definition clock_ok :: "'w orchestrator \<Rightarrow> bool" where
  "clock_ok o' \<longleftrightarrow>
     (\<forall>iid w. ck_now (or_clock o') w \<le> ck_now (or_clock o') (snd (pl_HealthCheck (or_plugin o') iid w))) \<and>
     (\<forall>deadline d w. 0 < d \<longrightarrow> deadline \<le> ck_now (or_clock o') w \<longrightarrow> fst (ck_select (or_clock o') deadline d w)) \<and>
     (\<forall>deadline d w. 0 < d \<longrightarrow> \<not> fst (ck_select (or_clock o') deadline d w) \<longrightarrow>
        ck_now (or_clock o') w + d \<le> ck_now (or_clock o') (snd (ck_select (or_clock o') deadline d w)))"

definition interval_ok :: "'w orchestrator \<Rightarrow> bool" where
  "interval_ok o' \<longleftrightarrow> (\<forall>e. 0 < or_healthInterval o' e)"

lemma wait_loop_returns:
  assumes "clock_ok o'" "interval_ok o'"
  shows "\<exists>r. wait_loop o' iid start deadline w = Some r"
proof (induction "nat (deadline - ck_now (or_clock o') w)" arbitrary: w rule: less_induct)
  case less
  let ?ck = "or_clock o'"
  obtain chk w1 where h: "pl_HealthCheck (or_plugin o') iid w = (chk, w1)" by fastforce
  let ?d = "or_healthInterval o' (ck_now ?ck w1 - start)"
  obtain b w2 where s: "ck_select ?ck deadline ?d w1 = (b, w2)" by fastforce
  have d: "0 < ?d" using assms(2) by (simp add: interval_ok_def)
  have h1: "ck_now ?ck w \<le> ck_now ?ck w1" using assms(1) h unfolding clock_ok_def by (metis snd_conv)
  have next_ok: "\<exists>r. wait_loop o' iid start deadline w2 = Some r" if "\<not> b"
  proof -
    have "\<not> deadline \<le> ck_now ?ck w1" using assms(1) d s that unfolding clock_ok_def by (metis fst_conv)
    moreover have "ck_now ?ck w1 + ?d \<le> ck_now ?ck w2"
      using assms(1) d s that unfolding clock_ok_def by (metis fst_conv snd_conv)
    ultimately have "nat (deadline - ck_now ?ck w2) < nat (deadline - ck_now ?ck w)" using d h1 by linarith
    then show ?thesis by (rule less)
  qed
  show ?case
    by (subst wait_loop.simps, cases b) (use h s next_ok in \<open>auto simp: Let_def\<close>)
qed

lemma waitHealthy_returns: "clock_ok o' \<Longrightarrow> interval_ok o' \<Longrightarrow> \<exists>r. waitHealthy o' iid w = Some r"
  unfolding waitHealthy_def Let_def by (rule wait_loop_returns)

lemma rolloutInstance_returns:
  assumes "clock_ok o'" "interval_ok o'"
  shows "\<exists>r. rolloutInstance o' inst target st = Some r"
proof -
  obtain d w1 where d: "pl_Rollout (or_plugin o') (inst_ID inst) target (rs_world st) = (d, w1)" by fastforce
  obtain r w2 where "waitHealthy o' (inst_ID inst) w1 = Some (r, w2)"
    using waitHealthy_returns [OF assms] by (metis surj_pair)
  with d show ?thesis
    by (cases d; cases r) (auto simp: rolloutInstance_def Let_def split: prod.splits sum.splits)
qed

lemma exec_loop_returns:
  assumes "clock_ok o'" "interval_ok o'"
  shows "\<exists>r. exec_loop o' target insts st = Some r"
proof (induction insts arbitrary: st)
  case (Cons inst rest)
  obtain r st1 where r: "rolloutInstance o' inst target st = Some (r, st1)"
    using rolloutInstance_returns [OF assms] by (metis surj_pair)
  obtain rs st2 where "exec_loop o' target rest st1 = Some (rs, st2)"
    using Cons.IH [of st1] by (metis surj_pair)
  with r show ?case by simp
qed simp

section \<open>What a rollout does\<close>

definition with_digest :: "string \<Rightarrow> fox_instance \<Rightarrow> fox_instance" where
  "with_digest dg i = i\<lparr>inst_ImageDigest := dg\<rparr>"

lemma rolloutInstance_result:
  assumes "rolloutInstance o' inst target st = Some (r, st1)"
  shows "ir_ID r = inst_ID inst \<and> ir_Previous r = previous_of target inst \<and> ir_Status r \<noteq> StatusSkipped \<and>
    inst_view (rs_db st1) =
      (if ir_Status r = StatusRolledOut
       then (inst_view (rs_db st))(inst_ID inst := map_option (with_digest (img_Digest target)) (inst_view (rs_db st) (inst_ID inst)))
       else inst_view (rs_db st))"
  using assms
  by (auto simp: rolloutInstance_def Let_def mk_result_def with_digest_def fun_eq_iff
      split: prod.splits sum.splits option.splits dest!: update_image.act_ok update_image.act_err)

text \<open>The shape of a report: a run of successes, then at most one failure, then skips.\<close>

definition stops_at_failure :: "instance_result list \<Rightarrow> bool" where
  "stops_at_failure rs \<longleftrightarrow>
     (\<exists>ok rest. rs = ok @ rest \<and> (\<forall>r \<in> set ok. ir_Status r = StatusRolledOut) \<and>
        (case rest of [] \<Rightarrow> True
         | f # sk \<Rightarrow> ir_Status f \<noteq> StatusRolledOut \<and> (\<forall>r \<in> set sk. ir_Status r = StatusSkipped)))"

definition rolled_out_ids :: "instance_result list \<Rightarrow> string set" where
  "rolled_out_ids rs = ir_ID ` {r \<in> set rs. ir_Status r = StatusRolledOut}"

lemma skipped_simps [simp]:
  "ir_ID (skipped t i) = inst_ID i" "ir_Status (skipped t i) = StatusSkipped"
  "ir_Previous (skipped t i) = previous_of t i"
  by (simp_all add: skipped_def mk_result_def)

lemma stops_at_failure_skip: "stops_at_failure (map (skipped t) insts)"
  unfolding stops_at_failure_def by (rule exI [of _ "[]"]) (auto split: list.splits)

lemma stops_at_failure_fail:
  "ir_Status r \<noteq> StatusRolledOut \<Longrightarrow> stops_at_failure (r # map (skipped t) insts)"
  unfolding stops_at_failure_def by (rule exI [of _ "[]"]) auto

lemma stops_at_failure_Cons:
  assumes "stops_at_failure rs" "ir_Status r = StatusRolledOut"
  shows "stops_at_failure (r # rs)"
proof -
  from assms(1) obtain ok rest where "rs = ok @ rest" "\<forall>r \<in> set ok. ir_Status r = StatusRolledOut"
    "case rest of [] \<Rightarrow> True | f # sk \<Rightarrow> ir_Status f \<noteq> StatusRolledOut \<and> (\<forall>r \<in> set sk. ir_Status r = StatusSkipped)"
    unfolding stops_at_failure_def by blast
  with assms(2) show ?thesis
    unfolding stops_at_failure_def by (intro exI [of _ "r # ok"] exI [of _ rest]) simp
qed

lemma rolled_out_ids_skip [simp]: "rolled_out_ids (map (skipped t) insts) = {}"
  by (auto simp: rolled_out_ids_def)

lemma rolled_out_ids_Cons:
  "rolled_out_ids (r # rs) = (if ir_Status r = StatusRolledOut then {ir_ID r} else {}) \<union> rolled_out_ids rs"
  by (auto simp: rolled_out_ids_def)

lemma exec_loop_report:
  assumes "exec_loop o' target insts st = Some (rs, st')"
  shows "map ir_ID rs = map inst_ID insts \<and> map ir_Previous rs = map (previous_of target) insts \<and> stops_at_failure rs"
  using assms
proof (induction insts arbitrary: st rs)
  case Nil
  then show ?case using stops_at_failure_skip [of target "[]"] by simp
next
  case (Cons inst rest)
  show ?case
  proof (cases "ck_ctxDone (or_clock o') (rs_world st)")
    case True
    with Cons.prems have "rs = map (skipped target) (inst # rest)" by simp
    then show ?thesis using stops_at_failure_skip [of target "inst # rest"] by simp
  next
    case False
    with Cons.prems obtain r st1 where r: "rolloutInstance o' inst target st = Some (r, st1)"
      by (auto split: option.splits)
    note res = rolloutInstance_result [OF r]
    show ?thesis
    proof (cases "ir_Status r = StatusRolledOut")
      case True
      with Cons.prems False r obtain rs1 where "exec_loop o' target rest st1 = Some (rs1, st')" "rs = r # rs1"
        by (auto split: option.splits)
      with Cons.IH [of st1 rs1] res True show ?thesis by (auto intro: stops_at_failure_Cons)
    next
      case f: False
      with Cons.prems False r have "rs = r # map (skipped target) rest" by simp
      with f res stops_at_failure_fail [of r target rest] show ?thesis by simp
    qed
  qed
qed

lemma exec_loop_view:
  assumes "exec_loop o' target insts st = Some (rs, st')" "distinct (map inst_ID insts)"
  shows "inst_view (rs_db st') j =
     (if j \<in> rolled_out_ids rs then map_option (with_digest (img_Digest target)) (inst_view (rs_db st) j)
      else inst_view (rs_db st) j)"
  using assms
proof (induction insts arbitrary: st rs)
  case Nil
  then show ?case by (simp add: rolled_out_ids_def)
next
  case (Cons inst rest)
  show ?case
  proof (cases "ck_ctxDone (or_clock o') (rs_world st)")
    case True
    with Cons.prems have "rs = map (skipped target) (inst # rest)" "st' = st" by auto
    then show ?thesis using rolled_out_ids_skip [of target "inst # rest"] by simp
  next
    case False
    with Cons.prems obtain r st1 where r: "rolloutInstance o' inst target st = Some (r, st1)"
      by (auto split: option.splits)
    note res = rolloutInstance_result [OF r]
    show ?thesis
    proof (cases "ir_Status r = StatusRolledOut")
      case True
      with Cons.prems False r obtain rs1 where e: "exec_loop o' target rest st1 = Some (rs1, st')" and rs: "rs = r # rs1"
        by (auto split: option.splits)
      have "inst_ID inst \<notin> rolled_out_ids rs1"
        using exec_loop_report [OF e] Cons.prems(2) unfolding rolled_out_ids_def
        by (metis (no_types, lifting) distinct.simps(2) image_iff list.simps(9) mem_Collect_eq set_map)
      with Cons.IH [OF e] Cons.prems(2) res True show ?thesis
        by (auto simp: rs rolled_out_ids_Cons)
    next
      case f: False
      with Cons.prems False r have "rs = r # map (skipped target) rest" "st' = st1" by auto
      with f res show ?thesis by (simp add: rolled_out_ids_Cons)
    qed
  qed
qed

text \<open>C28: A rollout returns: with timers and contexts as documented and positive poll intervals, every
  health wait ends and \<^verbatim>\<open>Execute\<close> produces its report or its error, whatever the plugin answers.\<close>

theorem Execute_returns:
  assumes "clock_ok o'" "interval_ok o'"
  shows "\<exists>r st'. Execute o' target st = Some (r, st')"
proof -
  obtain l db1 where l: "Registry_List (rs_db st) = (l, db1)" by fastforce
  show ?thesis
  proof (cases l)
    case (Inl e)
    with l show ?thesis by (simp add: Execute_def)
  next
    case (Inr insts)
    obtain rs st1 where "exec_loop o' target insts (st\<lparr>rs_db := db1\<rparr>) = Some (rs, st1)"
      using exec_loop_returns [OF assms] by (metis surj_pair)
    with l Inr show ?thesis by (simp add: Execute_def)
  qed
qed

lemma distinct_map_sort_key: "distinct (map f (sort_key g xs)) = distinct (map f xs)"
  by (rule mset_eq_imp_distinct_iff) simp

text \<open>A plugin whose world is a clock and the ids it finds unhealthy, for the examples.\<close>

definition sim_plugin :: "(int \<times> string list) deployment_plugin" where
  "sim_plugin = \<lparr>pl_Provision = (\<lambda>r w. (Inr (), w)),
      pl_HealthCheck = (\<lambda>i w. (Inr \<lparr>hs_Healthy = i \<notin> set (snd w), hs_Ready = True, hs_Checks = [], hs_CheckedAt = 0\<rparr>, w)),
      pl_Configure = (\<lambda>i c w. (Inr (), w)), pl_Rollout = (\<lambda>i t w. (Inr (), w)),
      pl_Rollback = (\<lambda>i t w. (Inr (), w)), pl_Destroy = (\<lambda>i w. (Inr (), w)),
      pl_Logs = (\<lambda>i opts w. (Inr '''', w)), pl_Restart = (\<lambda>i w. (Inr (), w)),
      pl_Stats = (\<lambda>i w. (Inl (Errorf ''no stats''), w))\<rparr>"

definition sim_clock :: "(int \<times> string list) clock" where
  "sim_clock = \<lparr>ck_now = fst, ck_ctxDone = (\<lambda>w. False),
     ck_select = (\<lambda>deadline d w. if deadline \<le> fst w then (True, w) else (False, (fst w + d, snd w)))\<rparr>"

definition sim_orchestrator :: "(int \<times> string list) orchestrator" where
  "sim_orchestrator = Orchestrator_New sim_plugin sim_clock 6000000000 None"

definition sim_state :: "string list \<Rightarrow> (int \<times> string list) roll_state" where
  "sim_state bad = \<lparr>rs_db = snd (Registry_Create (\<lambda>x. x) ''t'' (sample_instance ''b'' 9101 ''r'')
       (snd (Registry_Create (\<lambda>x. x) ''s'' (sample_instance ''a'' 9100 ''q'') (empty_db [])))),
     rs_world = (0, bad)\<rparr>"

definition sim_target :: image_ref where
  "sim_target = \<lparr>img_Repository = ''fox'', img_Digest = ''d2''\<rparr>"

theorem Execute_returns_witness: "Execute sim_orchestrator sim_target (sim_state [''a'']) \<noteq> None"
proof -
  have "clock_ok sim_orchestrator"
    by (simp add: clock_ok_def sim_orchestrator_def Orchestrator_New_def sim_clock_def sim_plugin_def)
  moreover have "interval_ok sim_orchestrator"
    by (simp add: interval_ok_def sim_orchestrator_def Orchestrator_New_def DefaultHealthInterval_def)
  ultimately show ?thesis using Execute_returns by blast
qed

text \<open>C29: The report of a rollout is complete and honest about the registry: it lists every instance
  exactly once, in registry order, each with the digest it had; the successes come first, nothing
  is touched after the first failure; and afterwards exactly the instances reported as rolled out
  have the target digest recorded, every other instance being unchanged.\<close>

theorem Execute_report:
  assumes "Execute o' target st = Some (Inr rep, st')" and "db_reachable sha (rs_db st)"
  shows "\<exists>insts. fst (Registry_List (rs_db st)) = Inr insts \<and>
     map ir_ID (rp_Instances rep) = map inst_ID insts \<and>
     map ir_Previous (rp_Instances rep) = map (previous_of target) insts \<and>
     stops_at_failure (rp_Instances rep) \<and>
     (\<forall>j. inst_view (rs_db st') j =
        (if j \<in> rolled_out_ids (rp_Instances rep)
         then map_option (with_digest (img_Digest target)) (inst_view (rs_db st) j)
         else inst_view (rs_db st) j))"
proof -
  obtain insts db1 where l: "Registry_List (rs_db st) = (Inr insts, db1)"
    and e: "exec_loop o' target insts (st\<lparr>rs_db := db1\<rparr>) = Some (rp_Instances rep, st')"
    using assms(1) by (auto simp: Execute_def split: prod.splits sum.splits option.splits)
  have "same_tables (rs_db st) db1" and "insts = sort_key inst_CreatedAt (map instance_of_row (db_instances (rs_db st)))"
    using l by (auto simp: Registry_List_def db_query_def split: option.splits)
  then have v: "inst_view db1 = inst_view (rs_db st)"
    and d: "distinct (map inst_ID insts) = distinct (map inst_ID (map instance_of_row (db_instances (rs_db st))))"
    using same_tables_view distinct_map_sort_key by blast+
  have "distinct (map inst_ID insts)"
    using db_reachable_inv [OF assms(2)] unfolding d by (simp add: db_inv_def instances_inv_def comp_def)
  from exec_loop_report [OF e] exec_loop_view [OF e this] l v show ?thesis by simp
qed

theorem Execute_report_witness:
  "inst_view (rs_db (snd (the (Execute sim_orchestrator sim_target (sim_state [''b'']))))) ''a'' =
     map_option (with_digest ''d2'') (inst_view (rs_db (sim_state [''b''])) ''a'')"
proof -
  let ?x = "Execute sim_orchestrator sim_target (sim_state [''b''])"
  have "db_reachable (\<lambda>x. x) (rs_db (sim_state [''b'']))"
    unfolding sim_state_def roll_state.select_convs
    by (rule reach_step [OF reach_step [OF reach_init step_create] step_create])
  moreover have r: "case ?x of Some (Inr rep, _) \<Rightarrow> ''a'' \<in> rolled_out_ids (rp_Instances rep) | _ \<Rightarrow> False"
    by code_simp
  then obtain rep st' where x: "?x = Some (Inr rep, st')" by (auto split: option.splits prod.splits sum.splits)
  moreover from r x have "''a'' \<in> rolled_out_ids (rp_Instances rep)" by simp
  ultimately show ?thesis
    using Execute_report [OF x, of "\<lambda>x. x"] unfolding x by (auto simp: sim_target_def)
qed

text \<open>A report is OK exactly when every instance in it was rolled out.\<close>

lemma Report_OK_iff: "Report_OK rep \<longleftrightarrow> (\<forall>r \<in> set (rp_Instances rep). ir_Status r = StatusRolledOut)"
proof -
  have "all_rolled_out rs \<longleftrightarrow> (\<forall>r \<in> set rs. ir_Status r = StatusRolledOut)" for rs
    by (induction rs) auto
  then show ?thesis by (simp add: Report_OK_def)
qed

text \<open>When the plugin's own \<^verbatim>\<open>Rollout\<close> fails, the instance is reported as rolled back although
  \<^verbatim>\<open>Rollback\<close> is never called: the world is the one the failed call left.\<close>

lemma failed_rollout_reported_rolled_back:
  assumes "pl_Rollout (or_plugin o') (inst_ID inst) target (rs_world st) = (Inl e, w1)"
  shows "rolloutInstance o' inst target st =
     Some (mk_result inst target StatusRolledBack (''rollout: '' @ error_text e), st\<lparr>rs_world := w1\<rparr>)"
  using assms by (simp add: rolloutInstance_def Let_def)

end
