(* ===== verification/Safe_Dialer.thy ===== *)
theory Safe_Dialer
  imports Go_Net
begin

text \<open>
  \<^verbatim>\<open>internal/safedialer/safedialer.go\<close>: the dialer the REST connector uses refuses any resolved
  address that is not public. \<open>parseIP\<close> stands for \<^verbatim>\<open>net.ParseIP\<close>; the address classes are
  those of Go_Net. The result is stated against the numeric CIDR blocks, not the byte tests.
\<close>

definition isPublic :: "ip \<Rightarrow> bool" where
  "isPublic a \<longleftrightarrow>
     (if IsLoopback a \<or> IsPrivate a \<or> IsLinkLocalUnicast a \<or> IsLinkLocalMulticast a \<or> IsUnspecified a
      then False
      else case To4 a of
             Some (b0, b1, b2, b3) \<Rightarrow> \<not> (b0 = 100 \<and> 64 \<le> b1 \<and> b1 \<le> 127)
           | None \<Rightarrow> True)"

definition checkAddr :: "(string \<Rightarrow> ip option) \<Rightarrow> string \<Rightarrow> unit result" where
  "checkAddr parseIP address =
     (case SplitHostPort address of
        Inl e \<Rightarrow> Inl (Wrap ''safedialer: invalid address'' e)
      | Inr (host, _) \<Rightarrow>
          (case parseIP host of
             None \<Rightarrow> Inl (Errorf ''safedialer: resolved address is not an IP'')
           | Some a \<Rightarrow> if isPublic a then Inr () else Inl (Errorf ''safedialer: address is not a public IP'')))"

text \<open>The numeric value of an IPv4 address and membership in a CIDR block.\<close>

fun ipv4_num :: "ip \<Rightarrow> nat" where
  "ipv4_num (IP4 a b c d) = ((a * 256 + b) * 256 + c) * 256 + d"
| "ipv4_num (IP6 bs) = 0"

definition in_cidr :: "nat \<Rightarrow> nat \<Rightarrow> nat \<Rightarrow> bool" where
  "in_cidr base len n \<longleftrightarrow> n div 2 ^ (32 - len) = base div 2 ^ (32 - len)"

fun wf_ip :: "ip \<Rightarrow> bool" where
  "wf_ip (IP4 a b c d) \<longleftrightarrow> a < 256 \<and> b < 256 \<and> c < 256 \<and> d < 256"
| "wf_ip (IP6 bs) \<longleftrightarrow> length bs = 16 \<and> (\<forall>b \<in> set bs. b < 256)"

definition blocked_cidrs :: "(nat \<times> nat) list" where
  "blocked_cidrs =
     [(127 * 2 ^ 24, 8), (10 * 2 ^ 24, 8), (172 * 2 ^ 24 + 16 * 2 ^ 16, 12),
      (192 * 2 ^ 24 + 168 * 2 ^ 16, 16), (169 * 2 ^ 24 + 254 * 2 ^ 16, 16),
      (224 * 2 ^ 24, 24), (0, 32), (100 * 2 ^ 24 + 64 * 2 ^ 16, 10)]"

lemma in_cidr_octets:
  fixes a b c d :: nat
  assumes "b < 256" "c < 256" "d < 256"
  defines "n \<equiv> ((a * 256 + b) * 256 + c) * 256 + d"
  shows "n div 2 ^ 24 = a" and "n div 2 ^ 16 = a * 256 + b" and "n div 2 ^ 8 = (a * 256 + b) * 256 + c"
    and "n div 2 ^ 20 = a * 16 + b div 16" and "n div 2 ^ 22 = a * 4 + b div 64"
proof -
  show 8: "n div 2 ^ 8 = (a * 256 + b) * 256 + c" using assms by simp
  have "n div 2 ^ 16 = n div 2 ^ 8 div 2 ^ 8" by (simp add: div_mult2_eq [symmetric])
  with 8 show 16: "n div 2 ^ 16 = a * 256 + b" using assms(2) by simp
  have "n div 2 ^ 24 = n div 2 ^ 16 div 2 ^ 8" by (simp add: div_mult2_eq [symmetric])
  with 16 show "n div 2 ^ 24 = a" using assms(1) by simp
  have "n div 2 ^ 20 = n div 2 ^ 16 div 2 ^ 4" by (simp add: div_mult2_eq [symmetric])
  also have "\<dots> = a * 16 + b div 16" unfolding 16 by simp
  finally show "n div 2 ^ 20 = a * 16 + b div 16" .
  have "n div 2 ^ 22 = n div 2 ^ 16 div 2 ^ 6" by (simp add: div_mult2_eq [symmetric])
  also have "\<dots> = a * 4 + b div 64" unfolding 16 by simp
  finally show "n div 2 ^ 22 = a * 4 + b div 64" .
qed

lemma digits_eq_iff:
  fixes a b x y n :: nat
  assumes "b < n" "y < n"
  shows "a * n + b = x * n + y \<longleftrightarrow> a = x \<and> b = y"
proof
  assume e: "a * n + b = x * n + y"
  then have "(a * n + b) div n = (x * n + y) div n" "(a * n + b) mod n = (x * n + y) mod n" by simp_all
  with assms show "a = x \<and> b = y" by simp
qed simp

lemma in_cidr_IP4:
  assumes "wf_ip (IP4 a b c d)"
  shows "in_cidr (x * 2 ^ 24) 8 (ipv4_num (IP4 a b c d)) \<longleftrightarrow> a = x"
    and "in_cidr (x * 2 ^ 24 + y * 16 * 2 ^ 16) 12 (ipv4_num (IP4 a b c d)) \<longleftrightarrow> a * 16 + b div 16 = x * 16 + y"
    and "in_cidr (x * 2 ^ 24 + y * 2 ^ 16) 16 (ipv4_num (IP4 a b c d)) \<longleftrightarrow> a * 256 + b = x * 256 + y"
    and "in_cidr (x * 2 ^ 24) 24 (ipv4_num (IP4 a b c d)) \<longleftrightarrow> (a * 256 + b) * 256 + c = (x * 256 + 0) * 256 + 0"
    and "in_cidr (x * 2 ^ 24 + y * 64 * 2 ^ 16) 10 (ipv4_num (IP4 a b c d)) \<longleftrightarrow> a * 4 + b div 64 = x * 4 + y"
  using assms in_cidr_octets [of b c d a] by (simp_all add: in_cidr_def mult.commute)

text \<open>The byte tests of the code are exactly membership in the eight reserved blocks.\<close>

lemma isPublic_IP4:
  assumes "wf_ip (IP4 a b c d)"
  shows "isPublic (IP4 a b c d) \<longleftrightarrow> (\<forall>(base, len) \<in> set blocked_cidrs. \<not> in_cidr base len (ipv4_num (IP4 a b c d)))"
proof -
  let ?n = "ipv4_num (IP4 a b c d)"
  from assms have l: "b < 256" "c < 256" "d < 256" "b div 16 < 16" "b div 64 < 4" by auto
  note cidr = in_cidr_IP4 [OF assms]
  have "in_cidr (127 * 2 ^ 24) 8 ?n \<longleftrightarrow> a = 127" "in_cidr (10 * 2 ^ 24) 8 ?n \<longleftrightarrow> a = 10"
    by (rule cidr(1))+
  moreover have "in_cidr (172 * 2 ^ 24 + 16 * 2 ^ 16) 12 ?n \<longleftrightarrow> a = 172 \<and> b div 16 = 1"
    using cidr(2) [of 172 1] digits_eq_iff [of "b div 16" 16 1 a 172] l by simp
  moreover have "in_cidr (192 * 2 ^ 24 + 168 * 2 ^ 16) 16 ?n \<longleftrightarrow> a = 192 \<and> b = 168"
    "in_cidr (169 * 2 ^ 24 + 254 * 2 ^ 16) 16 ?n \<longleftrightarrow> a = 169 \<and> b = 254"
    using cidr(3) [of 192 168] cidr(3) [of 169 254] digits_eq_iff [of b 256 168 a 192]
      digits_eq_iff [of b 256 254 a 169] l by simp_all
  moreover have "in_cidr (224 * 2 ^ 24) 24 ?n \<longleftrightarrow> a = 224 \<and> b = 0 \<and> c = 0"
    using l by (simp only: cidr(4), simp only: digits_eq_iff) simp
  moreover have "in_cidr 0 32 ?n \<longleftrightarrow> a = 0 \<and> b = 0 \<and> c = 0 \<and> d = 0"
    by (simp add: in_cidr_def)
  moreover have "in_cidr (100 * 2 ^ 24 + 64 * 2 ^ 16) 10 ?n \<longleftrightarrow> a = 100 \<and> b div 64 = 1"
    using cidr(5) [of 100 1] digits_eq_iff [of "b div 64" 4 1 a 100] l by simp
  moreover have "b div 64 = 1 \<longleftrightarrow> 64 \<le> b \<and> b \<le> 127" by auto
  ultimately show ?thesis
    unfolding blocked_cidrs_def isPublic_def by (simp del: power_numeral)
qed

text \<open>C37: The dialer connects to an IPv4 address exactly when the address lies in none of the eight
  reserved blocks 127.0.0.0/8, 10.0.0.0/8, 172.16.0.0/12, 192.168.0.0/16, 169.254.0.0/16,
  224.0.0.0/24, 0.0.0.0/32 and 100.64.0.0/10, whatever textual form resolved to it.\<close>

theorem dial_only_public:
  assumes "SplitHostPort address = Inr (host, port)" "parseIP host = Some (IP4 a b c d)" "wf_ip (IP4 a b c d)"
  shows "checkAddr parseIP address = Inr () \<longleftrightarrow>
    list_all (\<lambda>(base, len). \<not> in_cidr base len (ipv4_num (IP4 a b c d))) blocked_cidrs"
  using assms isPublic_IP4 [OF assms(3)] by (simp add: checkAddr_def list_all_iff)

theorem dial_only_public_witness:
  "checkAddr (\<lambda>h. if h = ''10.0.0.7'' then Some (IP4 10 0 0 7) else None) ''10.0.0.7:80'' \<noteq> Inr () \<and>
   checkAddr (\<lambda>h. if h = ''9.9.9.9'' then Some (IP4 9 9 9 9) else None) ''9.9.9.9:443'' = Inr ()"
proof
  have s: "SplitHostPort ''10.0.0.7:80'' = Inr (''10.0.0.7'', ''80'')" "SplitHostPort ''9.9.9.9:443'' = Inr (''9.9.9.9'', ''443'')"
    by code_simp+
  show "checkAddr (\<lambda>h. if h = ''10.0.0.7'' then Some (IP4 10 0 0 7) else None) ''10.0.0.7:80'' \<noteq> Inr ()"
    by (subst dial_only_public [OF s(1), of _ 10 0 0 7]) (simp_all add: blocked_cidrs_def in_cidr_def)
  show "checkAddr (\<lambda>h. if h = ''9.9.9.9'' then Some (IP4 9 9 9 9) else None) ''9.9.9.9:443'' = Inr ()"
    by (subst dial_only_public [OF s(2), of _ 9 9 9 9]) (simp_all add: blocked_cidrs_def in_cidr_def)
qed

end
