(* ===== verification/Rate_Limit.thy ===== *)
theory Rate_Limit
  imports Complex_Main Fleet_Prelude
begin

text \<open>
  The two token buckets of the program: the request limiter of the panel API
  (\<^verbatim>\<open>panel/api/ratelimit.go\<close>) and the per-target limiter of the webhook dispatcher
  (\<^verbatim>\<open>internal/events/webhook.go\<close>). Levels and times are rational numbers of tokens and seconds
  (the code uses \<^verbatim>\<open>float64\<close>; its rounding is not modelled). The contract of a bucket is the locale
  \<open>token_bucket\<close>, both limiters are instances of it, and the bound on what a bucket lets through in
  a window of time is proved once, there.
\<close>

section \<open>The request limiter\<close>

record rate_limiter =
  rl_tokens :: rat
  rl_max :: rat
  rl_rate :: rat
  rl_lastTick :: rat

definition newRateLimiter :: "int \<Rightarrow> rat \<Rightarrow> rate_limiter" where
  "newRateLimiter perMinute now =
     \<lparr>rl_tokens = of_int perMinute, rl_max = of_int perMinute, rl_rate = of_int perMinute / 60, rl_lastTick = now\<rparr>"

definition refill :: "rat \<Rightarrow> rate_limiter \<Rightarrow> rate_limiter" where
  "refill now rl =
     (let elapsed = now - rl_lastTick rl; t = rl_tokens rl + elapsed * rl_rate rl
      in rl\<lparr>rl_lastTick := now, rl_tokens := (if t > rl_max rl then rl_max rl else t)\<rparr>)"

text \<open>The answer, the waiting time in nanoseconds (truncated, as the conversion to
  \<^verbatim>\<open>time.Duration\<close> does) and the limiter after the call.\<close>

definition allow :: "rat \<Rightarrow> rate_limiter \<Rightarrow> (bool \<times> int) \<times> rate_limiter" where
  "allow now rl =
     (let rl1 = refill now rl in
      if rl_tokens rl1 < 1
      then ((False, \<lfloor>(1 - rl_tokens rl1) / rl_rate rl1 * 1000000000\<rfloor>), rl1)
      else ((True, 0), rl1\<lparr>rl_tokens := rl_tokens rl1 - 1\<rparr>))"

datatype limited_response = Served | TooManyRequests int

definition rateLimitMiddleware :: "rat \<Rightarrow> rate_limiter \<Rightarrow> limited_response \<times> rate_limiter" where
  "rateLimitMiddleware now rl =
     (case allow now rl of
        ((ok, wait), rl1) \<Rightarrow>
          (if \<not> ok then TooManyRequests (wait div 1000000000 + 1) else Served, rl1))"

section \<open>The webhook limiters\<close>

record webhook_limiter =
  wl_tokens :: rat
  wl_max :: rat
  wl_rate :: rat
  wl_lastTick :: rat

definition new_webhook_limiter :: "rat \<Rightarrow> webhook_limiter" where
  "new_webhook_limiter now = \<lparr>wl_tokens = 10, wl_max = 10, wl_rate = 10 / 1, wl_lastTick = now\<rparr>"

definition webhook_take :: "rat \<Rightarrow> webhook_limiter \<Rightarrow> bool \<times> webhook_limiter" where
  "webhook_take now rl =
     (let elapsed = now - wl_lastTick rl; t = wl_tokens rl + elapsed * wl_rate rl;
          rl1 = rl\<lparr>wl_lastTick := now, wl_tokens := (if t > wl_max rl then wl_max rl else t)\<rparr>
      in if wl_tokens rl1 < 1 then (False, rl1) else (True, rl1\<lparr>wl_tokens := wl_tokens rl1 - 1\<rparr>))"

definition rateLimitAllow ::
  "rat \<Rightarrow> string \<Rightarrow> (string \<times> webhook_limiter) list \<Rightarrow> bool \<times> (string \<times> webhook_limiter) list" where
  "rateLimitAllow now url limiters =
     (case map_of limiters url of
        None \<Rightarrow> (True, limiters)
      | Some rl \<Rightarrow>
          (case webhook_take now rl of
             (ok, rl1) \<Rightarrow> (ok, map (\<lambda>(u, l). if u = url then (u, rl1) else (u, l)) limiters)))"

section \<open>The contract of a token bucket\<close>

fun run_bucket :: "(rat \<Rightarrow> 's \<Rightarrow> bool \<times> 's) \<Rightarrow> rat list \<Rightarrow> 's \<Rightarrow> nat \<times> 's" where
  "run_bucket draw [] s = (0, s)"
| "run_bucket draw (t # ts) s =
     (case draw t s of (ok, s1) \<Rightarrow>
        case run_bucket draw ts s1 of (n, s2) \<Rightarrow> ((if ok then Suc n else n), s2))"

locale token_bucket =
  fixes draw :: "rat \<Rightarrow> 's \<Rightarrow> bool \<times> 's"
    and ok :: "'s \<Rightarrow> bool"
    and level burst rate clock :: "'s \<Rightarrow> rat"
  assumes keeps: "ok s \<Longrightarrow> clock s \<le> now \<Longrightarrow>
      ok (snd (draw now s)) \<and> clock (snd (draw now s)) = now \<and>
      burst (snd (draw now s)) = burst s \<and> rate (snd (draw now s)) = rate s"
    and spends: "ok s \<Longrightarrow> clock s \<le> now \<Longrightarrow>
      level (snd (draw now s)) + (if fst (draw now s) then 1 else 0) =
        min (burst s) (level s + rate s * (now - clock s))"
    and bounded: "ok s \<Longrightarrow> 0 \<le> level s \<and> level s \<le> burst s \<and> 0 \<le> rate s"
    and grants: "ok s \<Longrightarrow> clock s \<le> now \<Longrightarrow>
      fst (draw now s) \<longleftrightarrow> 1 \<le> min (burst s) (level s + rate s * (now - clock s))"
begin

text \<open>What is let through during a run of calls is paid for by the level at its start and the refill
  since.\<close>

lemma run_paid:
  assumes "ok s" "sorted (clock s # ts)" "run_bucket draw ts s = (n, s')"
  shows "ok s' \<and> rate s' = rate s \<and> burst s' = burst s \<and> clock s' = last (clock s # ts) \<and>
    of_nat n + level s' \<le> level s + rate s * (last (clock s # ts) - clock s)"
  using assms
proof (induction ts arbitrary: s n)
  case Nil
  then show ?case by simp
next
  case (Cons t ts)
  obtain b s1 where t: "draw t s = (b, s1)" by fastforce
  obtain m where r: "run_bucket draw ts s1 = (m, s')" and n: "n = (if b then Suc m else m)"
    using Cons.prems(3) t by (cases "run_bucket draw ts s1") auto
  have le: "clock s \<le> t" using Cons.prems(2) by simp
  note k = keeps [OF Cons.prems(1) le, unfolded t snd_conv]
  note sp = spends [OF Cons.prems(1) le, unfolded t snd_conv fst_conv]
  have so: "sorted (clock s1 # ts)" using Cons.prems(2) k by simp
  note ih = Cons.IH [OF conjunct1 [OF k] so r]

  let ?e = "last (t # ts)"
  have "level s1 + (if b then 1 else 0) \<le> level s + rate s * (t - clock s)" using sp by simp
  moreover have "of_nat m + level s' \<le> level s1 + rate s * (?e - t)" using ih k by simp
  moreover have "rate s * (?e - clock s) = rate s * (?e - t) + rate s * (t - clock s)"
    by (simp add: algebra_simps)
  ultimately have "of_nat n + level s' \<le> level s + rate s * (?e - clock s)" using n by (auto split: if_splits)
  then show ?case using n ih k by simp
qed

lemma window_bound:
  assumes "ok s" "sorted (clock s # ts)"
  shows "of_nat (fst (run_bucket draw ts s)) \<le> burst s + rate s * (last (clock s # ts) - clock s)"
proof -
  obtain n s' where r: "run_bucket draw ts s = (n, s')" by fastforce
  note p = run_paid [OF assms r]
  have "0 \<le> level s'" using p bounded by blast
  moreover have "level s \<le> burst s" using assms(1) bounded by blast
  ultimately have "of_nat n \<le> burst s + rate s * (last (clock s # ts) - clock s)"
    using p by linarith
  with r show ?thesis by simp
qed

text \<open>A client that waits until the bucket has refilled is served.\<close>

lemma served_after_wait:
  assumes "ok s" "clock s \<le> now" "1 \<le> burst s" "1 \<le> rate s * (now - clock s)"
  shows "fst (draw now s)"
  using grants [OF assms(1,2)] bounded [OF assms(1)] assms(3,4) by (simp add: min_def)

end

section \<open>Both limiters are token buckets\<close>

definition limiter_ok :: "rate_limiter \<Rightarrow> bool" where
  "limiter_ok rl \<longleftrightarrow> 0 \<le> rl_tokens rl \<and> rl_tokens rl \<le> rl_max rl \<and> 0 \<le> rl_rate rl"

definition api_take :: "rat \<Rightarrow> rate_limiter \<Rightarrow> bool \<times> rate_limiter" where
  "api_take now rl = (case allow now rl of ((ok, _), rl1) \<Rightarrow> (ok, rl1))"

interpretation api_limit: token_bucket api_take limiter_ok rl_tokens rl_max rl_rate rl_lastTick
proof unfold_locales
  fix s now
  assume ok: "limiter_ok s" and le: "rl_lastTick s \<le> now"
  have "0 \<le> (now - rl_lastTick s) * rl_rate s" using ok le by (simp add: limiter_ok_def)
  then show "limiter_ok (snd (api_take now s)) \<and> rl_lastTick (snd (api_take now s)) = now \<and>
      rl_max (snd (api_take now s)) = rl_max s \<and> rl_rate (snd (api_take now s)) = rl_rate s"
    using ok by (auto simp: api_take_def allow_def refill_def Let_def limiter_ok_def)
qed (auto simp: api_take_def allow_def refill_def Let_def limiter_ok_def min_def algebra_simps)

definition webhook_ok :: "webhook_limiter \<Rightarrow> bool" where
  "webhook_ok rl \<longleftrightarrow> 0 \<le> wl_tokens rl \<and> wl_tokens rl \<le> wl_max rl \<and> 0 \<le> wl_rate rl"

interpretation webhook_limit: token_bucket webhook_take webhook_ok wl_tokens wl_max wl_rate wl_lastTick
proof unfold_locales
  fix s now
  assume ok: "webhook_ok s" and le: "wl_lastTick s \<le> now"
  have "0 \<le> (now - wl_lastTick s) * wl_rate s" using ok le by (simp add: webhook_ok_def)
  then show "webhook_ok (snd (webhook_take now s)) \<and> wl_lastTick (snd (webhook_take now s)) = now \<and>
      wl_max (snd (webhook_take now s)) = wl_max s \<and> wl_rate (snd (webhook_take now s)) = wl_rate s"
    using ok by (auto simp: webhook_take_def Let_def webhook_ok_def)
qed (auto simp: webhook_take_def Let_def webhook_ok_def min_def algebra_simps)

lemma newRateLimiter_ok: "0 \<le> n \<Longrightarrow> limiter_ok (newRateLimiter n t)"
  by (simp add: limiter_ok_def newRateLimiter_def)



text \<open>A refused request is served if it is repeated after the time the \<^verbatim>\<open>Retry-After\<close> header
  names and no other request came in between.\<close>

lemma refill_twice:
  assumes "rl_tokens (refill now rl) < rl_max rl" "rl_tokens (refill now rl) < 1" "1 \<le> rl_max rl"
  shows "rl_tokens (refill later (refill now rl)) =
     min (rl_max rl) (rl_tokens (refill now rl) + (later - now) * rl_rate rl)"
  using assms by (auto simp: refill_def Let_def min_def split: if_splits)

lemma retry_after_suffices:
  fixes wait :: int
  assumes "0 < r" "wait = \<lfloor>x / r * 1000000000\<rfloor>" "0 \<le> (x :: rat)"
  shows "x \<le> of_int (wait div 1000000000 + 1) * r"
proof -
  have "x / r * 1000000000 < of_int (wait + 1)" unfolding assms(2) by linarith
  moreover have "wait + 1 \<le> (wait div 1000000000 + 1) * 1000000000" by presburger
  then have "(of_int (wait + 1) :: rat) \<le> of_int ((wait div 1000000000 + 1) * 1000000000)" by (simp only: of_int_le_iff)
  ultimately have "x / r * 1000000000 \<le> of_int (wait div 1000000000 + 1) * 1000000000" by simp
  then have "x / r \<le> of_int (wait div 1000000000 + 1)" by (simp only: mult_le_cancel_right)
  then show ?thesis using assms(1) by (simp add: pos_divide_le_eq)
qed

text \<open>The \<^verbatim>\<open>Retry-After\<close> value is honest: a client that is refused and repeats its request that many
  seconds later, with no other request in between, is served.\<close>

theorem retry_after_served:
  assumes "limiter_ok rl" "1 \<le> rl_max rl" "0 < rl_rate rl" "rl_lastTick rl \<le> now"
    and "rateLimitMiddleware now rl = (TooManyRequests secs, rl1)"
  shows "fst (rateLimitMiddleware (now + of_int secs) rl1) = Served"
proof -
  let ?x = "1 - rl_tokens (refill now rl)"
  from assms(5) have low: "rl_tokens (refill now rl) < 1" and rl1: "rl1 = refill now rl"
    and secs: "secs = \<lfloor>?x / rl_rate rl * 1000000000\<rfloor> div 1000000000 + 1"
    by (auto simp: rateLimitMiddleware_def allow_def Let_def refill_def split: if_splits prod.splits)
  have "?x \<le> of_int secs * rl_rate rl"
    unfolding secs by (rule retry_after_suffices [OF assms(3) refl]) (use low in simp)
  then have "1 \<le> rl_tokens (refill now rl) + of_int secs * rl_rate rl" by simp
  moreover have "rl_tokens (refill (now + of_int secs) rl1) =
      min (rl_max rl) (rl_tokens (refill now rl) + of_int secs * rl_rate rl)"
    unfolding rl1 using refill_twice [of now rl "now + of_int secs"] low assms(2) by simp
  ultimately have "1 \<le> rl_tokens (refill (now + of_int secs) rl1)" using assms(2) by simp
  then show ?thesis by (simp add: rateLimitMiddleware_def allow_def Let_def)
qed

theorem retry_after_served_witness:
  "fst (rateLimitMiddleware 31 (snd (rateLimitMiddleware 0 \<lparr>rl_tokens = 0, rl_max = 2, rl_rate = 1 / 30, rl_lastTick = 0\<rparr>))) = Served"
proof -
  let ?rl = "\<lparr>rl_tokens = 0, rl_max = 2, rl_rate = 1 / 30, rl_lastTick = 0\<rparr> :: rate_limiter"
  have r: "rateLimitMiddleware 0 ?rl = (TooManyRequests 31, snd (rateLimitMiddleware 0 ?rl))"
    by (simp add: rateLimitMiddleware_def allow_def refill_def Let_def)
  have "fst (rateLimitMiddleware (0 + of_int 31) (snd (rateLimitMiddleware 0 ?rl))) = Served"
    by (rule retry_after_served [OF _ _ _ _ r]) (simp_all add: limiter_ok_def)
  then show ?thesis by simp
qed

end
