(* ===== verification/Event_Log.thy ===== *)
theory Event_Log
  imports Rate_Limit Registry Config_Inject
begin

text \<open>
  \<^verbatim>\<open>internal/events\<close>: the fleet's event log. The in-memory ring buffer (\<^verbatim>\<open>events.go\<close>), the table
  behind it (\<^verbatim>\<open>store.go\<close>) and the webhook fan-out (\<^verbatim>\<open>webhook.go\<close>). A Go channel with a buffer of 16
  is the list of events waiting in it. \<open>Emit\<close> is split where the code releases its locks: giving
  the event its id, writing it to the ring, publishing it to subscribers and webhooks. Ids are
  \<^verbatim>\<open>uint64\<close>, so the counter wraps at \<open>2 ^ 64\<close>. HMAC-SHA256 is the argument \<open>hmac\<close>.
\<close>

record event =
  ev_ID :: nat
  ev_Type :: string
  ev_Instance :: string
  ev_Message :: string
  ev_CreatedAt :: string

section \<open>The events table\<close>

record event_store =
  es_rows :: "event list"
  es_next :: nat
  es_faults :: "go_error option list"

definition es_fault :: "event_store \<Rightarrow> go_error option" where
  "es_fault s = (case es_faults s of [] \<Rightarrow> None | f # _ \<Rightarrow> f)"

definition es_tick :: "event_store \<Rightarrow> event_store" where
  "es_tick s = s\<lparr>es_faults := tl (es_faults s)\<rparr>"

definition Store_Insert :: "event \<Rightarrow> event_store \<Rightarrow> nat result \<times> event_store" where
  "Store_Insert e s =
     (case es_fault s of
        Some err \<Rightarrow> (Inl (Wrap ''events: insert'' err), es_tick s)
      | None \<Rightarrow> (Inr (es_next s),
                 (es_tick s)\<lparr>es_rows := es_rows s @ [e\<lparr>ev_ID := es_next s\<rparr>], es_next := Suc (es_next s)\<rparr>))"

definition es_query :: "string \<Rightarrow> (event list \<Rightarrow> event list) \<Rightarrow> event_store \<Rightarrow> event list result \<times> event_store" where
  "es_query msg q s =
     (case es_fault s of
        Some err \<Rightarrow> (Inl (Wrap msg err), es_tick s)
      | None \<Rightarrow> (Inr (q (es_rows s)), es_tick s))"

definition desc_by_id :: "event list \<Rightarrow> event list" where
  "desc_by_id es = rev (sort_key ev_ID es)"

text \<open>A negative \<^verbatim>\<open>LIMIT\<close> is no limit in SQLite.\<close>

definition sql_limit :: "int \<Rightarrow> event list \<Rightarrow> event list" where
  "sql_limit n es = (if n < 0 then es else take (nat n) es)"

definition Store_Recent :: "int \<Rightarrow> event_store \<Rightarrow> event list result \<times> event_store" where
  "Store_Recent n s = es_query ''events: recent'' (\<lambda>rows. sql_limit n (desc_by_id rows)) s"

definition Store_ByInstance :: "string \<Rightarrow> string \<Rightarrow> int \<Rightarrow> event_store \<Rightarrow> event list result \<times> event_store" where
  "Store_ByInstance instanceID since limit s =
     es_query ''events: by_instance''
       (\<lambda>rows. sql_limit limit
          (desc_by_id (sel_where (\<lambda>e. ev_Instance e = instanceID \<and> since \<le> ev_CreatedAt e) rows))) s"

definition Store_SinceID :: "nat \<Rightarrow> event_store \<Rightarrow> event list result \<times> event_store" where
  "Store_SinceID lastID s =
     es_query ''events: since'' (\<lambda>rows. sort_key ev_ID (sel_where (\<lambda>e. lastID < ev_ID e) rows)) s"

section \<open>Webhooks\<close>

record webhook_target =
  wt_URL :: string
  wt_Events :: "string list"
  wt_Secret :: string

record webhook_dispatcher =
  wd_targets :: "webhook_target list"
  wd_limiter :: "(string \<times> webhook_limiter) list"

fun put_limiter :: "string \<Rightarrow> webhook_limiter \<Rightarrow> (string \<times> webhook_limiter) list \<Rightarrow> (string \<times> webhook_limiter) list" where
  "put_limiter u l [] = [(u, l)]"
| "put_limiter u l ((v, m) # ls) = (if u = v then (u, l) # ls else (v, m) # put_limiter u l ls)"

definition NewWebhookDispatcher :: "rat \<Rightarrow> webhook_target list \<Rightarrow> webhook_dispatcher" where
  "NewWebhookDispatcher now targets =
     \<lparr>wd_targets = targets,
      wd_limiter = fold (\<lambda>t. put_limiter (wt_URL t) (new_webhook_limiter now)) targets []\<rparr>"

fun matchesFilter :: "string \<Rightarrow> string list \<Rightarrow> bool" where
  "matchesFilter eventType filt =
     (if length filt = 0 then True else \<exists>f \<in> set filt. f = eventType)"

text \<open>The loop of \<open>Dispatch\<close>: the deliveries it starts.\<close>

fun dispatch_loop ::
  "rat \<Rightarrow> event \<Rightarrow> webhook_target list \<Rightarrow> (string \<times> webhook_limiter) list
     \<Rightarrow> webhook_target list \<times> (string \<times> webhook_limiter) list" where
  "dispatch_loop now e [] ls = ([], ls)"
| "dispatch_loop now e (t # ts) ls =
     (if \<not> matchesFilter (ev_Type e) (wt_Events t) then dispatch_loop now e ts ls
      else case rateLimitAllow now (wt_URL t) ls of
        (ok, ls1) \<Rightarrow>
          (if \<not> ok then dispatch_loop now e ts ls1
           else case dispatch_loop now e ts ls1 of (ds, ls2) \<Rightarrow> (t # ds, ls2)))"

definition Dispatch :: "rat \<Rightarrow> event \<Rightarrow> webhook_dispatcher \<Rightarrow> webhook_target list \<times> webhook_dispatcher" where
  "Dispatch now e wd =
     (case dispatch_loop now e (wd_targets wd) (wd_limiter wd) of
        (ds, ls) \<Rightarrow> (ds, wd\<lparr>wd_limiter := ls\<rparr>))"

definition computeHMAC :: "(string \<Rightarrow> string \<Rightarrow> string) \<Rightarrow> string \<Rightarrow> string \<Rightarrow> string \<Rightarrow> string" where
  "computeHMAC hmac secret timestamp body = hex_encode (hmac secret (timestamp @ body))"

text \<open>The request a delivery sends: its headers and body (\<^verbatim>\<open>json.Marshal\<close> without
  indentation).\<close>

definition event_json :: "event \<Rightarrow> string" where
  "event_json e =
     ''{'' @ json_quote ''id'' @ '':'' @ nat_str (ev_ID e) @ '','' @ json_quote ''type'' @ '':'' @ json_quote (ev_Type e) @
     (if ev_Instance e \<noteq> '''' then '','' @ json_quote ''instance'' @ '':'' @ json_quote (ev_Instance e) else '''') @
     '','' @ json_quote ''message'' @ '':'' @ json_quote (ev_Message e) @
     '','' @ json_quote ''created_at'' @ '':'' @ json_quote (ev_CreatedAt e) @ ''}''"

record delivery =
  dl_URL :: string
  dl_Headers :: "(string \<times> string) list"
  dl_Body :: string

definition deliver :: "(string \<Rightarrow> string \<Rightarrow> string) \<Rightarrow> int \<Rightarrow> webhook_target \<Rightarrow> event \<Rightarrow> delivery" where
  "deliver hmac unix t e =
     (let body = event_json e; timestamp = int_str unix in
      \<lparr>dl_URL = wt_URL t,
       dl_Headers = [(''Content-Type'', ''application/json''), (''X-Fox-Event'', ev_Type e),
                     (''X-Fox-Timestamp'', timestamp)] @
                    (if wt_Secret t \<noteq> '''' then [(''X-Fox-Signature'', computeHMAC hmac (wt_Secret t) timestamp body)]
                     else []),
       dl_Body = body\<rparr>)"

section \<open>The ring buffer\<close>

record event_log =
  lg_buf :: "event list"
  lg_cap :: nat
  lg_pos :: nat
  lg_full :: bool
  lg_seq :: nat
  lg_store :: "event_store option"
  lg_subs :: "(nat \<times> event list) list"
  lg_subSeq :: nat
  lg_webhooks :: "webhook_dispatcher option"

definition zero_event :: event where
  "zero_event = \<lparr>ev_ID = 0, ev_Type = '''', ev_Instance = '''', ev_Message = '''', ev_CreatedAt = ''''\<rparr>"

definition NewLog :: "int \<Rightarrow> event_log" where
  "NewLog capacity =
     (let c = (if capacity < 1 then 200 else nat capacity)
      in \<lparr>lg_buf = replicate c zero_event, lg_cap = c, lg_pos = 0, lg_full = False, lg_seq = 0,
          lg_store = None, lg_subs = [], lg_subSeq = 0, lg_webhooks = None\<rparr>)"

text \<open>The write under the lock.\<close>

definition ring_write :: "event \<Rightarrow> event_log \<Rightarrow> event_log" where
  "ring_write e l =
     (let pos = (lg_pos l + 1) mod lg_cap l
      in l\<lparr>lg_buf := (lg_buf l)[lg_pos l := e], lg_pos := pos, lg_full := (lg_full l \<or> pos = 0)\<rparr>)"

definition load_recent :: "event \<Rightarrow> event_log \<Rightarrow> event_log" where
  "load_recent e l =
     (let l1 = ring_write e l in if ev_ID e > lg_seq l1 then l1\<lparr>lg_seq := ev_ID e\<rparr> else l1)"

definition NewPersistentLog :: "int \<Rightarrow> event_store \<Rightarrow> event_log" where
  "NewPersistentLog capacity store =
     (case Store_Recent capacity store of
        (Inl _, s1) \<Rightarrow> (NewLog capacity)\<lparr>lg_store := Some s1\<rparr>
      | (Inr recent, s1) \<Rightarrow> fold load_recent (rev recent) ((NewLog capacity)\<lparr>lg_store := Some s1\<rparr>))"

definition seq_add :: "nat \<Rightarrow> nat" where
  "seq_add s = (s + 1) mod 2 ^ 64"

definition emit_assign :: "event \<Rightarrow> event_log \<Rightarrow> event \<times> event_log" where
  "emit_assign e l =
     (case lg_store l of
        None \<Rightarrow> (e\<lparr>ev_ID := seq_add (lg_seq l)\<rparr>, l\<lparr>lg_seq := seq_add (lg_seq l)\<rparr>)
      | Some s \<Rightarrow>
          (case Store_Insert e s of
             (Inl _, s1) \<Rightarrow> (e\<lparr>ev_ID := seq_add (lg_seq l)\<rparr>, l\<lparr>lg_store := Some s1, lg_seq := seq_add (lg_seq l)\<rparr>)
           | (Inr i, s1) \<Rightarrow> (e\<lparr>ev_ID := i\<rparr>, l\<lparr>lg_store := Some s1, lg_seq := i\<rparr>)))"

definition chan_send :: "event \<Rightarrow> event list \<Rightarrow> event list" where
  "chan_send e q = (if length q < 16 then q @ [e] else q)"

definition emit_publish :: "event \<Rightarrow> event_log \<Rightarrow> event_log" where
  "emit_publish e l = l\<lparr>lg_subs := map (\<lambda>(i, q). (i, chan_send e q)) (lg_subs l)\<rparr>"

definition emit_webhooks :: "rat \<Rightarrow> event \<Rightarrow> event_log \<Rightarrow> webhook_target list \<times> event_log" where
  "emit_webhooks now e l =
     (case lg_webhooks l of
        None \<Rightarrow> ([], l)
      | Some wd \<Rightarrow> (case Dispatch now e wd of (ds, wd1) \<Rightarrow> (ds, l\<lparr>lg_webhooks := Some wd1\<rparr>)))"

definition Emit ::
  "rat \<Rightarrow> string \<Rightarrow> string \<Rightarrow> string \<Rightarrow> string \<Rightarrow> event_log \<Rightarrow> webhook_target list \<times> event_log" where
  "Emit now created typ inst message l =
     (let e0 = \<lparr>ev_ID = 0, ev_Type = typ, ev_Instance = inst, ev_Message = message, ev_CreatedAt = created\<rparr>
      in case emit_assign e0 l of
           (e, l1) \<Rightarrow> emit_webhooks now e (emit_publish e (ring_write e l1)))"

definition Subscribe :: "event_log \<Rightarrow> nat \<times> event_log" where
  "Subscribe l =
     (let i = seq_add (lg_subSeq l)
      in (i, l\<lparr>lg_subSeq := i, lg_subs := (i, []) # filter (\<lambda>(j, _). j \<noteq> i) (lg_subs l)\<rparr>))"

definition Unsubscribe :: "nat \<Rightarrow> event_log \<Rightarrow> event_log" where
  "Unsubscribe i l = l\<lparr>lg_subs := filter (\<lambda>(j, _). j \<noteq> i) (lg_subs l)\<rparr>"

definition log_size :: "event_log \<Rightarrow> nat" where
  "log_size l = (if lg_full l then lg_cap l else lg_pos l)"

text \<open>Go's \<^verbatim>\<open>(l.pos - n + i + l.cap) % l.cap\<close>, whose operand is never negative.\<close>

definition ring_idx :: "event_log \<Rightarrow> nat \<Rightarrow> nat \<Rightarrow> nat" where
  "ring_idx l n i = nat ((int (lg_pos l) - int n + int i + int (lg_cap l)) mod int (lg_cap l))"

definition SinceID :: "nat \<Rightarrow> event_log \<Rightarrow> event list" where
  "SinceID lastID l =
     filter (\<lambda>e. ev_ID e > lastID) (map (\<lambda>i. lg_buf l ! ring_idx l (log_size l) i) [0..<log_size l])"

definition Recent :: "int \<Rightarrow> event_log \<Rightarrow> event list" where
  "Recent n l =
     (let m = (if n \<le> 0 \<or> n > int (log_size l) then log_size l else nat n)
      in fold (\<lambda>i out. out[m - 1 - i := lg_buf l ! ring_idx l m i]) [0..<m] (replicate m zero_event))"

section \<open>The ring buffer holds the latest events\<close>

definition last_n :: "nat \<Rightarrow> 'a list \<Rightarrow> 'a list" where
  "last_n n xs = drop (length xs - n) xs"

lemma length_last_n [simp]: "length (last_n n xs) = min n (length xs)"
  by (simp add: last_n_def)

lemma map_last_n: "map f (last_n n xs) = last_n n (map f xs)"
  by (simp add: last_n_def drop_map)

lemma last_n_all: "length xs \<le> n \<Longrightarrow> last_n n xs = xs"
  by (simp add: last_n_def)

lemma last_n_absorb: "last_n n (last_n n xs @ ys) = last_n n (xs @ ys)"
proof (cases "length xs \<le> n")
  case True
  then show ?thesis by (simp add: last_n_all)
next
  case False
  then have "length xs - n + (n + length ys - n) = length xs + length ys - n" by simp
  with False show ?thesis by (simp add: last_n_def min_def drop_drop add.commute)
qed

definition log_wf :: "event_log \<Rightarrow> bool" where
  "log_wf l \<longleftrightarrow> 1 \<le> lg_cap l \<and> length (lg_buf l) = lg_cap l \<and> lg_pos l < lg_cap l"

text \<open>The abstraction: the events in the ring, oldest first.\<close>

definition contents :: "event_log \<Rightarrow> event list" where
  "contents l = (if lg_full l then rotate (lg_pos l) (lg_buf l) else take (lg_pos l) (lg_buf l))"

lemma length_contents: "log_wf l \<Longrightarrow> length (contents l) = log_size l"
  by (simp add: contents_def log_size_def log_wf_def)

lemma NewLog_wf: "log_wf (NewLog c)" "contents (NewLog c) = []" "lg_full (NewLog c) = False" "lg_pos (NewLog c) = 0"
  by (auto simp: log_wf_def contents_def NewLog_def Let_def)

lemma ring_write_wf: "log_wf l \<Longrightarrow> log_wf (ring_write e l)"
  by (simp add: log_wf_def ring_write_def Let_def)

lemma contents_ring_write:
  assumes "log_wf l"
  shows "contents (ring_write e l) = last_n (lg_cap l) (contents l @ [e])"
proof -
  let ?b = "lg_buf l" and ?p = "lg_pos l" and ?c = "lg_cap l"
  have wf: "1 \<le> ?c" "length ?b = ?c" "?p < ?c" using assms by (auto simp: log_wf_def)
  have split: "?b[?p := e] = take ?p ?b @ e # drop (Suc ?p) ?b" using wf by (simp add: upd_conv_take_nth_drop)
  have rot: "rotate (Suc ?p mod ?c) (?b[?p := e]) = drop (Suc ?p) ?b @ take ?p ?b @ [e]"
  proof (cases "Suc ?p = ?c")
    case True
    then show ?thesis using wf by (simp add: split)
  next
    case False
    with wf have s: "Suc ?p < ?c" by simp
    with wf show ?thesis by (simp add: rotate_drop_take split)
  qed
  show ?thesis
  proof (cases "lg_full l")
    case True
    have "contents l = drop ?p ?b @ take ?p ?b" using True wf by (simp add: contents_def rotate_drop_take)
    then have "last_n ?c (contents l @ [e]) = drop (Suc ?p) ?b @ take ?p ?b @ [e]"
      using wf by (simp add: last_n_def)
    with rot True show ?thesis by (simp add: contents_def ring_write_def Let_def)
  next
    case False
    show ?thesis
    proof (cases "Suc ?p = ?c")
      case True
      then have "Suc ?p mod ?c = 0" by simp
      with False True wf split show ?thesis
        by (simp add: contents_def ring_write_def Let_def last_n_def)
    next
      case n: False
      with wf have "Suc ?p mod ?c = Suc ?p" by simp
      with False wf n split show ?thesis
        by (simp add: contents_def ring_write_def Let_def last_n_def)
    qed
  qed
qed

lemma ring_idx_nat:
  assumes "log_wf l" "n \<le> lg_cap l"
  shows "ring_idx l n i = (lg_pos l + (lg_cap l - n) + i) mod lg_cap l"
proof -
  have "int (lg_pos l) - int n + int i + int (lg_cap l) = int (lg_pos l + (lg_cap l - n) + i)"
    using assms by (simp add: of_nat_diff)
  then show ?thesis unfolding ring_idx_def by (simp only: zmod_int [symmetric] nat_int)
qed

lemma ring_nth:
  assumes "log_wf l" "n \<le> log_size l" "i < n"
  shows "lg_buf l ! ring_idx l n i = contents l ! (log_size l - n + i)"
proof -
  have wf: "1 \<le> lg_cap l" "length (lg_buf l) = lg_cap l" "lg_pos l < lg_cap l"
    using assms(1) by (auto simp: log_wf_def)
  have nc: "n \<le> lg_cap l" using assms(2) wf by (auto simp: log_size_def split: if_splits)
  show ?thesis
  proof (cases "lg_full l")
    case True
    with assms(2,3) wf have "contents l ! (log_size l - n + i) = lg_buf l ! ((lg_pos l + (lg_cap l - n + i)) mod lg_cap l)"
      by (simp add: contents_def log_size_def nth_rotate)
    then show ?thesis unfolding ring_idx_nat [OF assms(1) nc] by (simp add: add.assoc)
  next
    case False
    then have le: "n \<le> lg_pos l" using assms(2) by (simp add: log_size_def)
    then have e: "lg_pos l + (lg_cap l - n) + i = (lg_pos l - n + i) + lg_cap l" using nc by simp
    have lt: "lg_pos l - n + i < lg_cap l" using le assms(3) wf by linarith
    have "ring_idx l n i = lg_pos l - n + i"
      unfolding ring_idx_nat [OF assms(1) nc] e mod_add_self2 using lt by (rule mod_less)
    with False le assms(3) show ?thesis by (simp add: contents_def log_size_def)
  qed
qed

lemma SinceID_contents:
  assumes "log_wf l"
  shows "SinceID k l = filter (\<lambda>e. ev_ID e > k) (contents l)"
proof -
  have "map (\<lambda>i. lg_buf l ! ring_idx l (log_size l) i) [0..<log_size l] = contents l"
    by (rule nth_equalityI) (simp_all add: length_contents [OF assms] ring_nth [OF assms])
  then show ?thesis by (simp add: SinceID_def)
qed

lemma fold_fill:
  fixes out :: "'b list"
  assumes "length out = m" "k \<le> m"
  shows "fold (\<lambda>i out. out[m - 1 - i := f i]) [0..<k] out = take (m - k) out @ rev (map f [0..<k])"
  using assms
proof (induction k)
  case (Suc k)
  let ?o = "take (m - k) out @ rev (map f [0..<k])"
  have "m - 1 - k < length (take (m - k) out)" using Suc.prems by simp
  then have "?o[m - 1 - k := f k] = (take (m - k) out)[m - 1 - k := f k] @ rev (map f [0..<k])"
    by (simp add: list_update_append)
  also have "(take (m - k) out)[m - 1 - k := f k] = take (m - Suc k) out @ [f k]"
  proof -
    have mk: "m - k = Suc (m - Suc k)" "m - 1 - k = m - Suc k" using Suc.prems by simp_all
    have "m - Suc k < length out" using Suc.prems by simp
    then have "take (m - k) out = take (m - Suc k) out @ [out ! (m - Suc k)]"
      unfolding mk(1) by (rule take_Suc_conv_app_nth)
    moreover have "length (take (m - Suc k) out) = m - Suc k" using Suc.prems by simp
    ultimately show ?thesis unfolding mk(2) by (simp add: list_update_append)
  qed
  finally show ?case using Suc by simp
qed simp

lemma Recent_contents:
  assumes "log_wf l"
  shows "Recent n l = rev (last_n (if n \<le> 0 \<or> n > int (log_size l) then log_size l else nat n) (contents l))"
proof -
  let ?m = "if n \<le> 0 \<or> n > int (log_size l) then log_size l else nat n"
  have m: "?m \<le> log_size l" by auto
  have "map (\<lambda>i. lg_buf l ! ring_idx l ?m i) [0..<?m] = last_n ?m (contents l)"
    by (rule nth_equalityI)
      (use m in \<open>simp_all add: last_n_def length_contents [OF assms] ring_nth [OF assms m]\<close>)
  moreover have "Recent n l = rev (map (\<lambda>i. lg_buf l ! ring_idx l ?m i) [0..<?m])"
    unfolding Recent_def Let_def by (subst fold_fill) simp_all
  ultimately show ?thesis by simp
qed

section \<open>Sequences of events\<close>

type_synonym emit_args = "rat \<times> string \<times> string \<times> string \<times> string"

definition raw_event :: "emit_args \<Rightarrow> event" where
  "raw_event a = (case a of (now, created, typ, inst, msg) \<Rightarrow>
     \<lparr>ev_ID = 0, ev_Type = typ, ev_Instance = inst, ev_Message = msg, ev_CreatedAt = created\<rparr>)"

fun emit_seq :: "emit_args list \<Rightarrow> event_log \<Rightarrow> event list \<times> event_log" where
  "emit_seq [] l = ([], l)"
| "emit_seq ((now, created, typ, inst, msg) # as) l =
     (let e = fst (emit_assign (raw_event (now, created, typ, inst, msg)) l)
      in case emit_seq as (snd (Emit now created typ inst msg l)) of (es, l2) \<Rightarrow> (e # es, l2))"

lemma emit_assign_ring:
  "contents (snd (emit_assign e l)) = contents l" "log_wf (snd (emit_assign e l)) = log_wf l"
  "lg_cap (snd (emit_assign e l)) = lg_cap l"
  by (auto simp: emit_assign_def contents_def log_wf_def split: option.splits prod.splits sum.splits)

lemma emit_webhooks_ring:
  "contents (snd (emit_webhooks now e l)) = contents l" "log_wf (snd (emit_webhooks now e l)) = log_wf l"
  "lg_cap (snd (emit_webhooks now e l)) = lg_cap l"
  by (auto simp: emit_webhooks_def contents_def log_wf_def split: option.splits prod.splits)

lemma emit_publish_ring:
  "contents (emit_publish e l) = contents l" "log_wf (emit_publish e l) = log_wf l"
  "lg_cap (emit_publish e l) = lg_cap l"
  by (auto simp: emit_publish_def contents_def log_wf_def)

lemma Emit_ring:
  fixes now :: rat and created ty inst msg :: string
  assumes "log_wf l"
  defines "e \<equiv> fst (emit_assign (raw_event (now, created, ty, inst, msg)) l)"
    and "l' \<equiv> snd (Emit now created ty inst msg l)"
  shows "contents l' = last_n (lg_cap l) (contents l @ [e])" and "log_wf l'" and "lg_cap l' = lg_cap l"
proof -
  obtain e1 l1 where a: "emit_assign (raw_event (now, created, ty, inst, msg)) l = (e1, l1)" by fastforce
  note r = emit_assign_ring [of "raw_event (now, created, ty, inst, msg)" l, unfolded a snd_conv]
  have l': "l' = snd (emit_webhooks now e1 (emit_publish e1 (ring_write e1 l1)))"
    using a by (simp add: l'_def Emit_def raw_event_def)
  have wf: "log_wf l1" using r assms(1) by simp
  show "contents l' = last_n (lg_cap l) (contents l @ [e])"
    using contents_ring_write [OF wf, of e1] r a by (simp add: l' emit_webhooks_ring emit_publish_ring e_def)
  show "log_wf l'" using ring_write_wf [OF wf] by (simp add: l' emit_webhooks_ring emit_publish_ring)
  show "lg_cap l' = lg_cap l"
    using r by (simp add: l' emit_webhooks_ring emit_publish_ring ring_write_def Let_def)
qed

lemma emit_seq_ring:
  assumes "log_wf l" "emit_seq as l = (es, l')"
  shows "contents l' = last_n (lg_cap l) (contents l @ es) \<and> log_wf l' \<and> lg_cap l' = lg_cap l"
  using assms
proof (induction as arbitrary: l es)
  case Nil
  then have "length (contents l) \<le> lg_cap l"
    by (simp add: length_contents log_size_def log_wf_def)
  with Nil show ?case by (simp add: last_n_all)
next
  case (Cons a as)
  obtain now created ty inst msg where a: "a = (now, created, ty, inst, msg)" by (cases a) auto
  let ?l1 = "snd (Emit now created ty inst msg l)"
  obtain es1 where s: "emit_seq as ?l1 = (es1, l')"
    and es: "es = fst (emit_assign (raw_event (now, created, ty, inst, msg)) l) # es1"
    using Cons.prems(2) a by (auto simp: Let_def split: prod.splits)
  note e = Emit_ring [OF Cons.prems(1), of now created ty inst msg]
  have "contents l' = last_n (lg_cap l) (last_n (lg_cap l) (contents l @ [hd es]) @ es1)"
    using Cons.IH [OF e(2) s] e(1,3) es by simp
  then have "contents l' = last_n (lg_cap l) (contents l @ es)"
    unfolding last_n_absorb using es by simp
  with Cons.IH [OF e(2) s] e(3) show ?case by simp
qed

text \<open>Ids: without a store they count up from the sequence number; with a store that does not fail
  they are the row ids.\<close>

lemma Emit_store:
  "lg_store (snd (Emit now created ty inst msg l)) =
     lg_store (snd (emit_assign (raw_event (now, created, ty, inst, msg)) l))"
  "lg_seq (snd (Emit now created ty inst msg l)) =
     lg_seq (snd (emit_assign (raw_event (now, created, ty, inst, msg)) l))"
  by (auto simp: Emit_def raw_event_def emit_webhooks_def emit_publish_def ring_write_def Let_def
      split: prod.splits option.splits)

lemma emit_seq_ids:
  assumes "lg_store l = None" "lg_seq l + length as < 2 ^ 64" "emit_seq as l = (es, l')"
  shows "map ev_ID es = [Suc (lg_seq l)..<Suc (lg_seq l + length as)] \<and>
    lg_seq l' = lg_seq l + length as \<and> lg_store l' = None"
  using assms
proof (induction as arbitrary: l es)
  case (Cons a as)
  obtain now created ty inst msg where a: "a = (now, created, ty, inst, msg)" by (cases a) auto
  let ?l1 = "snd (Emit now created ty inst msg l)" and ?e = "fst (emit_assign (raw_event a) l)"
  obtain es1 where s: "emit_seq as ?l1 = (es1, l')" and es: "es = ?e # es1"
    using Cons.prems(3) a by (auto simp: Let_def split: prod.splits)
  have next_id: "seq_add (lg_seq l) = Suc (lg_seq l)" using Cons.prems(2) by (simp add: seq_add_def)
  have l1: "lg_store ?l1 = None" "lg_seq ?l1 = Suc (lg_seq l)" and e: "ev_ID ?e = Suc (lg_seq l)"
    using Cons.prems(1) next_id by (auto simp: Emit_store emit_assign_def a)
  have "map ev_ID es1 = [Suc (lg_seq ?l1)..<Suc (lg_seq ?l1 + length as)] \<and>
      lg_seq l' = lg_seq ?l1 + length as \<and> lg_store l' = None"
    using Cons.IH [OF l1(1) _ s] Cons.prems(2) l1(2) by simp
  with es e l1(2) show ?case by (simp add: upt_conv_Cons del: upt_Suc)
qed simp

lemma emit_seq_stored:
  assumes "lg_store l = Some s" "es_faults s = []" "emit_seq as l = (es, l')"
  shows "\<exists>s'. lg_store l' = Some s' \<and> es_faults s' = [] \<and> es_rows s' = es_rows s @ es \<and>
    es_next s' = es_next s + length as \<and> map ev_ID es = [es_next s..<es_next s + length as] \<and>
    lg_seq l' = (if as = [] then lg_seq l else es_next s + length as - 1)"
  using assms
proof (induction as arbitrary: l s es)
  case (Cons a as)
  obtain now created ty inst msg where a: "a = (now, created, ty, inst, msg)" by (cases a) auto
  let ?l1 = "snd (Emit now created ty inst msg l)" and ?e = "fst (emit_assign (raw_event a) l)"
  obtain es1 where s: "emit_seq as ?l1 = (es1, l')" and es: "es = ?e # es1"
    using Cons.prems(3) a by (auto simp: Let_def split: prod.splits)
  let ?s1 = "snd (Store_Insert (raw_event a) s)"
  have ins: "Store_Insert (raw_event a) s = (Inr (es_next s), ?s1)"
    and s1: "es_faults ?s1 = []" "es_next ?s1 = Suc (es_next s)"
      "es_rows ?s1 = es_rows s @ [(raw_event a)\<lparr>ev_ID := es_next s\<rparr>]"
    using Cons.prems(2) by (auto simp: Store_Insert_def es_fault_def es_tick_def)
  have l1: "lg_store ?l1 = Some ?s1" "lg_seq ?l1 = es_next s" and e: "?e = (raw_event a)\<lparr>ev_ID := es_next s\<rparr>"
    using Cons.prems(1) ins by (auto simp: Emit_store emit_assign_def a split: prod.splits)
  from Cons.IH [OF l1(1) s1(1) s] obtain s' where "lg_store l' = Some s'" "es_faults s' = []"
    "es_rows s' = es_rows ?s1 @ es1" "es_next s' = es_next ?s1 + length as"
    "map ev_ID es1 = [es_next ?s1..<es_next ?s1 + length as]"
    "lg_seq l' = (if as = [] then lg_seq ?l1 else es_next ?s1 + length as - 1)" by blast
  with e es s1 l1 show ?case by (auto simp: upt_conv_Cons simp del: upt_Suc)
qed auto

text \<open>C33: The in-memory log of capacity \<open>c\<close> refines the list of all events: after any sequence of events it
  numbers them 1, 2, 3, ..., \<^verbatim>\<open>SinceID\<close> returns exactly the retained (latest \<open>c\<close>) events with a
  larger id in order of emission, and \<^verbatim>\<open>Recent\<close> the latest ones, newest first.\<close>

theorem log_refines_list:
  assumes "emit_seq as (NewLog (int c)) = (es, l)" "1 \<le> c" "length as < 2 ^ 64"
  shows "map ev_ID es = [1..<Suc (length as)] \<and>
    SinceID k l = filter (\<lambda>e. k < ev_ID e) (last_n c es) \<and>
    Recent 0 l = rev (last_n c es) \<and>
    (1 \<le> n \<and> n \<le> c \<and> n \<le> length es \<longrightarrow> Recent (int n) l = rev (last_n n es))"
proof -
  have c: "lg_cap (NewLog (int c)) = c" "lg_store (NewLog (int c)) = None" "lg_seq (NewLog (int c)) = 0"
    using assms(2) by (auto simp: NewLog_def Let_def)
  note ring = emit_seq_ring [OF NewLog_wf(1) assms(1), unfolded c NewLog_wf(2) append_Nil]
  have wf: "log_wf l" and con: "contents l = last_n c es" using ring by auto
  have ids: "map ev_ID es = [1..<Suc (length as)]"
    using emit_seq_ids [OF c(2) _ assms(1)] assms(3) c(3) by (simp del: upt_Suc)
  have size: "log_size l = min c (length es)" using length_contents [OF wf] con by simp
  have inner: "last_n n (last_n c es) = last_n n es" if "n \<le> c" "n \<le> length es" for n
    using that by (simp add: last_n_def min_def)
  show ?thesis
    using ids SinceID_contents [OF wf, of k] Recent_contents [OF wf] con size inner [of n]
    by (auto simp: last_n_all)
qed

definition sample_emits :: "emit_args list" where
  "sample_emits = [(0, ''t1'', ''provision'', ''a'', ''m1''), (0, ''t2'', ''health'', ''a'', ''m2''), (0, ''t3'', ''error'', ''b'', ''m3'')]"

theorem log_refines_list_witness:
  "map ev_ID (Recent 0 (snd (emit_seq sample_emits (NewLog (int 2))))) = [3, 2]"
proof -
  let ?r = "emit_seq sample_emits (NewLog (int 2))"
  have "?r = (fst ?r, snd ?r)" "(1 :: nat) \<le> 2" "length sample_emits < 2 ^ 64" by (simp_all add: sample_emits_def)
  from log_refines_list [OF this] have "map ev_ID (fst ?r) = [1..<Suc (length sample_emits)]"
    and "Recent 0 (snd ?r) = rev (last_n 2 (fst ?r))" by blast+
  then have "map ev_ID (Recent 0 (snd ?r)) = rev (last_n 2 [1..<Suc (length sample_emits)])"
    by (simp only: rev_map [symmetric] map_last_n)
  then show ?thesis by (simp add: last_n_def sample_emits_def upt_conv_Cons)
qed

section \<open>Restarts\<close>

lemma load_recent_ring:
  assumes "log_wf l"
  shows "contents (load_recent e l) = last_n (lg_cap l) (contents l @ [e])"
    "log_wf (load_recent e l)" "lg_cap (load_recent e l) = lg_cap l" "lg_seq (load_recent e l) = max (lg_seq l) (ev_ID e)"
    "lg_store (load_recent e l) = lg_store l"
proof -
  have *: "contents (l\<lparr>lg_seq := x\<rparr>) = contents l" "log_wf (l\<lparr>lg_seq := x\<rparr>) = log_wf l" for x and l :: event_log
    by (simp_all add: contents_def log_wf_def)
  show "contents (load_recent e l) = last_n (lg_cap l) (contents l @ [e])" "log_wf (load_recent e l)"
    using contents_ring_write [OF assms] ring_write_wf [OF assms] by (simp_all add: load_recent_def Let_def *)
  show "lg_cap (load_recent e l) = lg_cap l" "lg_seq (load_recent e l) = max (lg_seq l) (ev_ID e)"
    "lg_store (load_recent e l) = lg_store l"
    by (simp_all add: load_recent_def Let_def ring_write_def)
qed

lemma load_all_ring:
  assumes "log_wf l"
  shows "contents (fold load_recent es l) = last_n (lg_cap l) (contents l @ es) \<and>
    log_wf (fold load_recent es l) \<and> lg_seq (fold load_recent es l) = fold max (map ev_ID es) (lg_seq l)"
  using assms
proof (induction es arbitrary: l)
  case Nil
  then have "length (contents l) \<le> lg_cap l" by (simp add: length_contents log_size_def log_wf_def)
  with Nil show ?case by (simp add: last_n_all)
next
  case (Cons e es)
  note r = load_recent_ring [OF Cons.prems, of e]
  have "contents (fold load_recent (e # es) l) = last_n (lg_cap l) (last_n (lg_cap l) (contents l @ [e]) @ es)"
    using Cons.IH [OF r(2)] r(1,3) by simp
  then have "contents (fold load_recent (e # es) l) = last_n (lg_cap l) (contents l @ e # es)"
    unfolding last_n_absorb by simp
  with Cons.IH [OF r(2)] r(4) show ?case by (simp add: max.commute)
qed

lemma NewPersistentLog_contents:
  assumes "es_faults s = []" "sorted (map ev_ID (es_rows s))" "1 \<le> c"
  shows "contents (NewPersistentLog (int c) s) = last_n c (es_rows s)" "log_wf (NewPersistentLog (int c) s)"
proof -
  have srt: "sort_key ev_ID (es_rows s) = es_rows s" using assms(2) by (rule sort_key_id_if_sorted)
  have rec: "rev (take c (rev (es_rows s))) = last_n c (es_rows s)"
    by (simp add: last_n_def rev_take)
  have l: "NewPersistentLog (int c) s =
      fold load_recent (last_n c (es_rows s)) ((NewLog (int c))\<lparr>lg_store := Some (es_tick s)\<rparr>)"
    using assms(1) srt rec
    by (simp add: NewPersistentLog_def Store_Recent_def es_query_def es_fault_def desc_by_id_def sql_limit_def)
  let ?l0 = "(NewLog (int c))\<lparr>lg_store := Some (es_tick s)\<rparr>"
  have l0: "log_wf ?l0" "contents ?l0 = []" "lg_cap ?l0 = c"
    using NewLog_wf [of "int c"] assms(3) by (auto simp: log_wf_def contents_def NewLog_def Let_def)
  have "last_n c (last_n c (es_rows s)) = last_n c (es_rows s)"
    using last_n_absorb [of c "es_rows s" "[]"] by simp
  with load_all_ring [OF l0(1), of "last_n c (es_rows s)"] l0 l
  show "contents (NewPersistentLog (int c) s) = last_n c (es_rows s)" "log_wf (NewPersistentLog (int c) s)"
    by simp_all
qed

text \<open>A restart is invisible to reconnecting clients: when a control plane with an event store (that
  did not fail) is restarted, the new log answers \<^verbatim>\<open>SinceID\<close> exactly as the old one did.\<close>

theorem restart_replays:
  assumes "emit_seq as (NewPersistentLog (int c) \<lparr>es_rows = [], es_next = 1, es_faults = []\<rparr>) = (es, l)"
    and "1 \<le> c" and "lg_store l = Some s"
  shows "SinceID k (NewPersistentLog (int c) s) = SinceID k l"
proof -
  let ?s0 = "\<lparr>es_rows = [], es_next = 1, es_faults = []\<rparr>"
  let ?l0 = "NewPersistentLog (int c) ?s0"
  have l0: "contents ?l0 = []" "log_wf ?l0"
    using NewPersistentLog_contents [of ?s0 c] assms(2) by (auto simp: last_n_def)
  have st: "lg_store ?l0 = Some ?s0" "lg_cap ?l0 = c"
    using assms(2) by (auto simp: NewPersistentLog_def Store_Recent_def es_query_def es_fault_def es_tick_def
        desc_by_id_def sql_limit_def NewLog_def Let_def)
  from emit_seq_stored [OF st(1) _ assms(1)] assms(3)
  have s: "es_faults s = []" "es_rows s = es" "map ev_ID es = [1..<1 + length as]" by auto
  have con: "contents l = last_n c es" "log_wf l" using emit_seq_ring [OF l0(2) assms(1)] l0(1) st(2) by auto
  have "sorted (map ev_ID (es_rows s))" unfolding s(2,3) by (simp del: upt_Suc)
  from NewPersistentLog_contents [OF s(1) this assms(2)] con s(2) show ?thesis
    by (simp add: SinceID_contents)
qed

theorem restart_replays_witness:
  "\<exists>s. lg_store (snd (emit_seq sample_emits (NewPersistentLog (int 2) \<lparr>es_rows = [], es_next = 1, es_faults = []\<rparr>))) = Some s \<and>
     SinceID 1 (NewPersistentLog (int 2) s) =
     SinceID 1 (snd (emit_seq sample_emits (NewPersistentLog (int 2) \<lparr>es_rows = [], es_next = 1, es_faults = []\<rparr>)))"
proof -
  let ?r = "emit_seq sample_emits (NewPersistentLog (int 2) \<lparr>es_rows = [], es_next = 1, es_faults = []\<rparr>)"
  have "case lg_store (snd ?r) of None \<Rightarrow> False | Some _ \<Rightarrow> True" by code_simp
  then obtain s where s: "lg_store (snd ?r) = Some s" by (auto split: option.splits)
  with restart_replays [of sample_emits 2 "fst ?r" "snd ?r" s 1] show ?thesis by auto
qed

text \<open>Event ids are not unique when the store fails once: an event whose insert fails takes the next
  sequence number, and the next stored event is given the same id by the table.\<close>

theorem duplicate_event_ids:
  "\<exists>s as. map ev_ID (fst (emit_seq as (NewPersistentLog 10 s))) = [1, 1] \<and> es_rows s = []"
proof (intro exI conjI)
  let ?s = "\<lparr>es_rows = [], es_next = 1, es_faults = [None, Some (Errorf ''database is locked'')]\<rparr>"
  show "map ev_ID (fst (emit_seq (take 2 sample_emits) (NewPersistentLog 10 ?s))) = [1, 1]"
    by (simp add: sample_emits_def NewPersistentLog_def Store_Recent_def es_query_def es_fault_def es_tick_def
        desc_by_id_def sql_limit_def NewLog_def Let_def Emit_def emit_assign_def Store_Insert_def seq_add_def
        emit_webhooks_def emit_publish_def ring_write_def raw_event_def numeral_2_eq_2)
qed simp

end
