(* ===== verification/Health_Poller.thy ===== *)
theory Health_Poller
  imports Event_Log Plugin_Api "HOL-Library.AList"
begin

text \<open>
  \<^verbatim>\<open>panel/api/poller.go\<close>: the background loop that checks every instance, caches the answers, emits
  an event when an instance changes between healthy and unhealthy, and restarts instances that
  stay unhealthy. The health checks of one round run concurrently and each writes its own slot of
  \<^verbatim>\<open>results\<close>; a round's model takes the slots' outcomes (\<open>None\<close> for an instance whose check was never
  started because the context ended). The restarts run one after the other on the world \<open>'w\<close>, whose
  clock \<open>now\<close> reads. The trace a round returns has one entry per result the restart loop looked at.
\<close>

record auto_restart_config =
  ar_Enabled :: bool
  ar_Threshold :: int
  ar_Cooldown :: int

record poll_result =
  pr_id :: string
  pr_status :: health_status

record health_poller =
  hp_cache :: "(string \<times> health_status) list"
  hp_hasQdrant :: bool
  hp_qdrantHealthy :: bool
  hp_autoRestart :: auto_restart_config
  hp_unhealthyRuns :: "string \<Rightarrow> int option"
  hp_lastRestart :: "string \<Rightarrow> int option"
  hp_events :: "event_log option"

section \<open>A round\<close>

text \<open>The slot of one instance: a failed check counts as unhealthy now, a check never started
  leaves the zero value.\<close>

definition poll_slot :: "int \<Rightarrow> fox_instance \<Rightarrow> health_status result option \<Rightarrow> poll_result" where
  "poll_slot t inst out =
     (case out of
        None \<Rightarrow> \<lparr>pr_id = '''', pr_status = unhealthy_at 0\<rparr>
      | Some (Inl _) \<Rightarrow> \<lparr>pr_id = inst_ID inst, pr_status = unhealthy_at t\<rparr>
      | Some (Inr hs) \<Rightarrow> \<lparr>pr_id = inst_ID inst, pr_status = hs\<rparr>)"

definition poll_results :: "int \<Rightarrow> fox_instance list \<Rightarrow> health_status result option list \<Rightarrow> poll_result list" where
  "poll_results t instances outs = map (\<lambda>(inst, out). poll_slot t inst out) (zip instances outs)"

definition new_cache :: "poll_result list \<Rightarrow> (string \<times> health_status) list" where
  "new_cache results =
     fold (\<lambda>r c. if pr_id r \<noteq> '''' then AList.update (pr_id r) (pr_status r) c else c) results []"

definition health_message :: "string \<Rightarrow> bool \<Rightarrow> string" where
  "health_message iid healthy =
     ''instance '' @ iid @ (if healthy then '' is healthy'' else '' is unhealthy'')"

fun emit_changes ::
  "rat \<Rightarrow> string \<Rightarrow> (string \<times> health_status) list \<Rightarrow> poll_result list \<Rightarrow> event_log \<Rightarrow> event_log" where
  "emit_changes now created old [] l = l"
| "emit_changes now created old (r # rs) l =
     (if pr_id r = '''' then emit_changes now created old rs l
      else if (case map_of old (pr_id r) of None \<Rightarrow> True
               | Some prev \<Rightarrow> hs_Healthy prev \<noteq> hs_Healthy (pr_status r))
      then emit_changes now created old rs
             (snd (Emit now created ''health'' (pr_id r) (health_message (pr_id r) (hs_Healthy (pr_status r))) l))
      else emit_changes now created old rs l)"

section \<open>Automatic restarts\<close>

text \<open>One entry of the restart loop's trace: the instance, whether it was healthy, the time of the
  decision, and, when a restart was attempted, whether it succeeded and the time after it.\<close>

record restart_entry =
  re_id :: string
  re_healthy :: bool
  re_at :: int
  re_attempt :: "(bool \<times> int) option"

definition runs_of :: "(string \<Rightarrow> int option) \<Rightarrow> string \<Rightarrow> int" where
  "runs_of m i = (case m i of None \<Rightarrow> 0 | Some n \<Rightarrow> n)"

definition cooling :: "int \<Rightarrow> int \<Rightarrow> int option \<Rightarrow> bool" where
  "cooling cooldown t lastAt = (case lastAt of None \<Rightarrow> False | Some l \<Rightarrow> t - l < cooldown)"

fun checkAutoRestart ::
  "('w \<Rightarrow> int) \<Rightarrow> 'w deployment_plugin \<Rightarrow> poll_result list \<Rightarrow> health_poller \<Rightarrow> 'w
     \<Rightarrow> restart_entry list \<times> health_poller \<times> 'w" where
  "checkAutoRestart now plugin [] p w = ([], p, w)"
| "checkAutoRestart now plugin (r # rs) p w =
     (let i = pr_id r; entry = \<lparr>re_id = i, re_healthy = hs_Healthy (pr_status r), re_at = now w, re_attempt = None\<rparr> in
      if i = '''' then checkAutoRestart now plugin rs p w
      else if hs_Healthy (pr_status r)
      then (case checkAutoRestart now plugin rs (p\<lparr>hp_unhealthyRuns := (hp_unhealthyRuns p)(i := None)\<rparr>) w of
              (tr, p1, w1) \<Rightarrow> (entry # tr, p1, w1))
      else
        let runs = runs_of (hp_unhealthyRuns p) i + 1;
            p1 = p\<lparr>hp_unhealthyRuns := (hp_unhealthyRuns p)(i \<mapsto> runs)\<rparr>
        in if runs < ar_Threshold (hp_autoRestart p) \<or> cooling (ar_Cooldown (hp_autoRestart p)) (now w) (hp_lastRestart p i)
           then (case checkAutoRestart now plugin rs p1 w of (tr, p2, w2) \<Rightarrow> (entry # tr, p2, w2))
           else
             (case pl_Restart plugin i w of
                (Inl _, w1) \<Rightarrow>
                  (case checkAutoRestart now plugin rs p1 w1 of
                     (tr, p2, w2) \<Rightarrow> (entry\<lparr>re_attempt := Some (False, now w1)\<rparr> # tr, p2, w2))
              | (Inr _, w1) \<Rightarrow>
                  (case checkAutoRestart now plugin rs
                          (p1\<lparr>hp_lastRestart := (hp_lastRestart p1)(i \<mapsto> now w1),
                              hp_unhealthyRuns := (hp_unhealthyRuns p1)(i \<mapsto> 0)\<rparr>) w1 of
                     (tr, p2, w2) \<Rightarrow> (entry\<lparr>re_attempt := Some (True, now w1)\<rparr> # tr, p2, w2))))"

text \<open>What the concurrent part of a round delivers: the outcomes of the checks, Qdrant's answer,
  and the clock readings used for failed checks and for events.\<close>

record poll_env =
  pe_outs :: "health_status result option list"
  pe_qdrant :: bool
  pe_checked :: int
  pe_now :: rat
  pe_created :: string

definition poll ::
  "('w \<Rightarrow> int) \<Rightarrow> 'w deployment_plugin \<Rightarrow> fox_instance list result \<Rightarrow> poll_env \<Rightarrow> health_poller \<Rightarrow> 'w
     \<Rightarrow> restart_entry list \<times> health_poller \<times> 'w" where
  "poll now plugin listed env p w =
     (case listed of
        Inl _ \<Rightarrow> ([], p, w)
      | Inr instances \<Rightarrow>
          (let results = poll_results (pe_checked env) instances (pe_outs env);
               oldCache = hp_cache p;
               p1 = p\<lparr>hp_cache := new_cache results,
                      hp_qdrantHealthy := (if hp_hasQdrant p then pe_qdrant env else True)\<rparr>;
               p2 = p1\<lparr>hp_events := map_option (emit_changes (pe_now env) (pe_created env) oldCache results) (hp_events p1)\<rparr>
           in if ar_Enabled (hp_autoRestart p) then checkAutoRestart now plugin results p2 w else ([], p2, w)))"

definition HealthPoller_Get :: "string \<Rightarrow> health_poller \<Rightarrow> health_status option" where
  "HealthPoller_Get i p = map_of (hp_cache p) i"

definition QdrantHealthy :: "health_poller \<Rightarrow> bool" where
  "QdrantHealthy p = hp_qdrantHealthy p"

text \<open>\<open>Run\<close>: one round at once and one per tick until the context ends. Between rounds the world
  changes freely, so each round brings its own.\<close>

fun poller_run ::
  "('w \<Rightarrow> int) \<Rightarrow> 'w deployment_plugin \<Rightarrow> (fox_instance list result \<times> poll_env \<times> 'w) list \<Rightarrow> health_poller
     \<Rightarrow> restart_entry list \<times> health_poller" where
  "poller_run now plugin [] p = ([], p)"
| "poller_run now plugin ((listed, env, w) # rounds) p =
     (case poll now plugin listed env p w of
        (tr, p1, _) \<Rightarrow> (case poller_run now plugin rounds p1 of (trs, p2) \<Rightarrow> (tr @ trs, p2)))"

section \<open>The restart policy\<close>

text \<open>The policy read off a trace alone: \<open>streak\<close> is how many times in a row an instance was seen
  unhealthy since it was last healthy or successfully restarted, \<open>last_restart\<close> when that restart
  ended.\<close>

fun streak_step :: "string \<Rightarrow> restart_entry \<Rightarrow> int \<Rightarrow> int" where
  "streak_step i e n =
     (if re_id e \<noteq> i then n
      else if re_healthy e then 0
      else case re_attempt e of Some (True, _) \<Rightarrow> 0 | _ \<Rightarrow> n + 1)"

definition streak :: "string \<Rightarrow> restart_entry list \<Rightarrow> int" where
  "streak i tr = fold (streak_step i) tr 0"

fun last_restart_step :: "string \<Rightarrow> restart_entry \<Rightarrow> int option \<Rightarrow> int option" where
  "last_restart_step i e t =
     (if re_id e \<noteq> i then t else case re_attempt e of Some (True, t') \<Rightarrow> Some t' | _ \<Rightarrow> t)"

definition last_restart :: "string \<Rightarrow> restart_entry list \<Rightarrow> int option" where
  "last_restart i tr = fold (last_restart_step i) tr None"

definition due :: "auto_restart_config \<Rightarrow> restart_entry list \<Rightarrow> restart_entry \<Rightarrow> bool" where
  "due cfg before e \<longleftrightarrow>
     \<not> re_healthy e \<and> ar_Threshold cfg \<le> streak (re_id e) before + 1 \<and>
     (case last_restart (re_id e) before of None \<Rightarrow> True | Some t \<Rightarrow> ar_Cooldown cfg \<le> re_at e - t)"

fun follows_policy :: "auto_restart_config \<Rightarrow> restart_entry list \<Rightarrow> restart_entry list \<Rightarrow> bool" where
  "follows_policy cfg before [] \<longleftrightarrow> True"
| "follows_policy cfg before (e # tr) \<longleftrightarrow>
     (re_attempt e \<noteq> None \<longleftrightarrow> due cfg before e) \<and> follows_policy cfg (before @ [e]) tr"

definition tracks :: "restart_entry list \<Rightarrow> health_poller \<Rightarrow> bool" where
  "tracks before p \<longleftrightarrow>
     (\<forall>i. runs_of (hp_unhealthyRuns p) i = streak i before \<and> hp_lastRestart p i = last_restart i before)"

lemma streak_snoc: "streak i (tr @ [e]) = streak_step i e (streak i tr)"
  by (simp add: streak_def)

lemma last_restart_snoc: "last_restart i (tr @ [e]) = last_restart_step i e (last_restart i tr)"
  by (simp add: last_restart_def)

lemma runs_of_upd: "runs_of (m(i := v)) j = (if j = i then (case v of None \<Rightarrow> 0 | Some n \<Rightarrow> n) else runs_of m j)"
  by (simp add: runs_of_def)

lemmas trace_simps = streak_snoc last_restart_snoc runs_of_upd tracks_def

lemma due_iff:
  assumes "tracks before p"
  shows "due (hp_autoRestart p) before e \<longleftrightarrow>
    \<not> re_healthy e \<and> \<not> (runs_of (hp_unhealthyRuns p) (re_id e) + 1 < ar_Threshold (hp_autoRestart p) \<or>
      cooling (ar_Cooldown (hp_autoRestart p)) (re_at e) (hp_lastRestart p (re_id e)))"
  using assms by (auto simp: due_def tracks_def cooling_def not_less split: option.splits)

lemma checkAutoRestart_tracks:
  assumes "checkAutoRestart now plugin rs p w = (tr, p', w')" "tracks before p"
  shows "follows_policy (hp_autoRestart p) before tr \<and> tracks (before @ tr) p' \<and> hp_autoRestart p' = hp_autoRestart p"
  using assms
proof (induction rs arbitrary: p w tr before)
  case Nil
  then show ?case by simp
next
  case (Cons r rs)
  let ?i = "pr_id r"
  let ?runs = "runs_of (hp_unhealthyRuns p) ?i + 1"
  let ?e = "\<lparr>re_id = ?i, re_healthy = hs_Healthy (pr_status r), re_at = now w, re_attempt = None\<rparr>"
  let ?p1 = "p\<lparr>hp_unhealthyRuns := (hp_unhealthyRuns p)(?i \<mapsto> ?runs)\<rparr>"
  have step: "follows_policy (hp_autoRestart p) before tr \<and> tracks (before @ tr) p' \<and> hp_autoRestart p' = hp_autoRestart p"
    if "checkAutoRestart now plugin rs q w1 = (tr1, p', w')" "tr = e # tr1" "hp_autoRestart q = hp_autoRestart p"
      "tracks (before @ [e]) q" "re_attempt e \<noteq> None \<longleftrightarrow> due (hp_autoRestart p) before e" for q w1 tr1 e
    using Cons.IH [OF that(1,4)] that by simp
  note due = due_iff [OF Cons.prems(2)]
  consider (none) "?i = ''''" | (healthy) "?i \<noteq> ''''" "hs_Healthy (pr_status r)"
    | (wait) "?i \<noteq> ''''" "\<not> hs_Healthy (pr_status r)"
        "?runs < ar_Threshold (hp_autoRestart p) \<or> cooling (ar_Cooldown (hp_autoRestart p)) (now w) (hp_lastRestart p ?i)"
    | (restart) "?i \<noteq> ''''" "\<not> hs_Healthy (pr_status r)"
        "\<not> (?runs < ar_Threshold (hp_autoRestart p) \<or> cooling (ar_Cooldown (hp_autoRestart p)) (now w) (hp_lastRestart p ?i))"
    by blast
  then show ?case
  proof cases
    case none
    with Cons show ?thesis by (simp add: Let_def)
  next
    case healthy
    with Cons.prems(1) obtain tr1 where
      t: "checkAutoRestart now plugin rs (p\<lparr>hp_unhealthyRuns := (hp_unhealthyRuns p)(?i := None)\<rparr>) w = (tr1, p', w')"
      "tr = ?e # tr1" by (auto simp: Let_def split: prod.splits)
    show ?thesis by (rule step [OF t]) (use Cons.prems(2) healthy due in \<open>auto simp: trace_simps\<close>)
  next
    case wait
    with Cons.prems(1) obtain tr1 where t: "checkAutoRestart now plugin rs ?p1 w = (tr1, p', w')" "tr = ?e # tr1"
      by (auto simp: Let_def split: prod.splits)
    show ?thesis by (rule step [OF t]) (use Cons.prems(2) wait due in \<open>auto simp: trace_simps\<close>)
  next
    case restart
    obtain res w1 where res: "pl_Restart plugin ?i w = (res, w1)" by force
    have d: "due (hp_autoRestart p) before (?e\<lparr>re_attempt := a\<rparr>)" for a using restart due by simp
    show ?thesis
    proof (cases res)
      case (Inl err)
      with Cons.prems(1) restart res obtain tr1 where t: "checkAutoRestart now plugin rs ?p1 w1 = (tr1, p', w')"
        "tr = ?e\<lparr>re_attempt := Some (False, now w1)\<rparr> # tr1" by (auto simp: Let_def split: prod.splits)
      show ?thesis by (rule step [OF t]) (use Cons.prems(2) restart d in \<open>auto simp: trace_simps\<close>)
    next
      case (Inr u)
      with Cons.prems(1) restart res obtain tr1 where
        t: "checkAutoRestart now plugin rs (?p1\<lparr>hp_lastRestart := (hp_lastRestart ?p1)(?i \<mapsto> now w1),
              hp_unhealthyRuns := (hp_unhealthyRuns ?p1)(?i \<mapsto> 0)\<rparr>) w1 = (tr1, p', w')"
        "tr = ?e\<lparr>re_attempt := Some (True, now w1)\<rparr> # tr1" by (auto simp: Let_def split: prod.splits)
      show ?thesis by (rule step [OF t]) (use Cons.prems(2) restart d in \<open>auto simp: trace_simps\<close>)
    qed
  qed
qed

lemma poll_tracks:
  assumes "poll now plugin listed env p w = (tr, p', w')" "tracks before p"
  shows "follows_policy (hp_autoRestart p) before tr" "tracks (before @ tr) p'" "hp_autoRestart p' = hp_autoRestart p"
proof -
  have "tracks before (p\<lparr>hp_cache := c, hp_qdrantHealthy := q, hp_events := l\<rparr>)" for c q l
    using assms(2) by (simp add: tracks_def)
  note this [THEN checkAutoRestart_tracks [rotated]]
  then show "follows_policy (hp_autoRestart p) before tr" "tracks (before @ tr) p'"
    "hp_autoRestart p' = hp_autoRestart p"
    using assms by (fastforce simp: poll_def Let_def tracks_def split: sum.splits if_splits)+
qed

lemma follows_policy_append:
  "follows_policy cfg before (tr @ us) \<longleftrightarrow> follows_policy cfg before tr \<and> follows_policy cfg (before @ tr) us"
  by (induction tr arbitrary: before) auto

lemma poller_run_tracks:
  assumes "poller_run now plugin rounds p = (tr, p')" "tracks before p"
  shows "follows_policy (hp_autoRestart p) before tr \<and> tracks (before @ tr) p'"
  using assms
proof (induction rounds arbitrary: p tr before)
  case Nil
  then show ?case by simp
next
  case (Cons rd rounds)
  obtain listed env w where rd: "rd = (listed, env, w)" by (cases rd) auto
  with Cons.prems(1) obtain tr1 p1 w1 trs where
    p: "poll now plugin listed env p w = (tr1, p1, w1)" and r: "poller_run now plugin rounds p1 = (trs, p')"
    and tr: "tr = tr1 @ trs" by (auto split: prod.splits)
  note p1 = poll_tracks [OF p Cons.prems(2)]
  from Cons.IH [OF r p1(2)] p1(1,3) tr show ?case
    by (auto simp: follows_policy_append)
qed

definition newHealthPoller :: "auto_restart_config \<Rightarrow> bool \<Rightarrow> event_log option \<Rightarrow> health_poller" where
  "newHealthPoller cfg hasQdrant evs =
     \<lparr>hp_cache = [], hp_hasQdrant = hasQdrant, hp_qdrantHealthy = False, hp_autoRestart = cfg,
      hp_unhealthyRuns = Map.empty, hp_lastRestart = Map.empty, hp_events = evs\<rparr>"

lemma tracks_new [simp]: "tracks [] (newHealthPoller cfg q l)"
  by (simp add: tracks_def newHealthPoller_def streak_def last_restart_def runs_of_def)

lemma follows_policy_split:
  "follows_policy cfg before (tr @ e # us) \<Longrightarrow> re_attempt e \<noteq> None \<longleftrightarrow> due cfg (before @ tr) e"
  by (simp add: follows_policy_append)


lemma streak_le: "streak i tr \<le> int (length (filter (\<lambda>e. re_id e = i \<and> \<not> re_healthy e) tr))"
  by (induction tr rule: rev_induct) (auto simp: streak_snoc streak_def split: option.splits bool.splits)

lemma streak_after_restart:
  assumes "re_id e = i" "re_attempt e = Some (True, t)" "\<not> re_healthy e"
  shows "streak i (pre @ e # tr) = streak i tr"
  using assms by (simp add: streak_def)

lemma last_restart_after:
  assumes "re_id e = i" "re_attempt e = Some (True, t)"
    and "\<not> (\<exists>x \<in> set tr. re_id x = i \<and> (\<exists>t'. re_attempt x = Some (True, t')))"
  shows "last_restart i (pre @ e # tr) = Some t"
  using assms(3)
proof (induction tr rule: rev_induct)
  case Nil
  then show ?case using assms by (simp add: last_restart_def)
next
  case (snoc x tr)
  then have "last_restart i (pre @ e # tr) = Some t" by auto
  with last_restart_snoc [of i "pre @ e # tr" x] snoc.prems show ?case
    by (auto split: option.splits bool.splits)
qed

text \<open>Two successive successful restarts of one instance are at least the cooldown apart, and
  between them the instance was seen unhealthy at least as often as the threshold says.\<close>

theorem restarts_spaced:
  assumes run: "poller_run now plugin rounds (newHealthPoller cfg q l) = (pre @ e1 # mid @ e2 # post, p')"
    and e1: "re_id e1 = i" "re_attempt e1 = Some (True, t1)"
    and e2: "re_id e2 = i" "re_attempt e2 = Some (True, t2)"
    and mid: "\<not> (\<exists>x \<in> set mid. re_id x = i \<and> (\<exists>t. re_attempt x = Some (True, t)))"
  shows "ar_Cooldown cfg \<le> re_at e2 - t1 \<and>
    ar_Threshold cfg \<le> int (length (filter (\<lambda>e. re_id e = i \<and> \<not> re_healthy e) (mid @ [e2])))"
proof -
  let ?p = "newHealthPoller cfg q l"
  have pol: "follows_policy cfg [] (pre @ e1 # mid @ e2 # post)"
    using poller_run_tracks [OF run tracks_new] by (simp add: newHealthPoller_def)
  have d1: "due cfg pre e1" using follows_policy_split [OF pol] e1 by simp
  have "pre @ e1 # mid @ e2 # post = (pre @ e1 # mid) @ e2 # post" by simp
  then have d2: "due cfg (pre @ e1 # mid) e2"
    using follows_policy_split [of cfg "[]" "pre @ e1 # mid" e2 post] pol e2 by simp
  have h: "\<not> re_healthy e1" "\<not> re_healthy e2" using d1 d2 by (simp_all add: due_def)
  have "ar_Threshold cfg \<le> streak i mid + 1"
    using d2 e2 streak_after_restart [OF e1 h(1)] by (simp add: due_def)
  moreover have "streak i mid \<le> int (length (filter (\<lambda>e. re_id e = i \<and> \<not> re_healthy e) mid))" by (rule streak_le)
  moreover have "ar_Cooldown cfg \<le> re_at e2 - t1"
    using d2 e2 last_restart_after [OF e1 mid] by (simp add: due_def)
  ultimately show ?thesis using e2 h by simp
qed

text \<open>A fleet of one instance that stays unhealthy; the world is the clock.\<close>

definition sample_plugin :: "int deployment_plugin" where
  "sample_plugin =
     \<lparr>pl_Provision = (\<lambda>r w. (Inr (), w)), pl_HealthCheck = (\<lambda>i w. (Inr (unhealthy_at w), w)),
      pl_Configure = (\<lambda>i c w. (Inr (), w)), pl_Rollout = (\<lambda>i t w. (Inr (), w)),
      pl_Rollback = (\<lambda>i t w. (Inr (), w)), pl_Destroy = (\<lambda>i w. (Inr (), w)),
      pl_Logs = (\<lambda>i opts w. (Inr '''', w)), pl_Restart = (\<lambda>i w. (Inr (), w + 1)),
      pl_Stats = (\<lambda>i w. (Inl (Errorf ''no stats''), w))\<rparr>"

definition sample_instance :: fox_instance where
  "sample_instance =
     \<lparr>inst_ID = ''a'', inst_ImageDigest = ''d'', inst_Port = 8801, inst_DataDir = ''/d/a'',
      inst_Status = ''running'', inst_CreatedAt = ''t'', inst_SkillsetName = '''', inst_PrincipalRole = '''',
      inst_QueryToken = ''q'', inst_PlaneAuthToken = ''s'', inst_InstancePassword = ''p''\<rparr>"

definition sample_round :: "int \<Rightarrow> fox_instance list result \<times> poll_env \<times> int" where
  "sample_round t =
     (Inr [sample_instance],
      \<lparr>pe_outs = [Some (Inr (unhealthy_at t))], pe_qdrant = True, pe_checked = t, pe_now = 0, pe_created = ''t''\<rparr>, t)"

definition sample_policy :: auto_restart_config where
  "sample_policy = \<lparr>ar_Enabled = True, ar_Threshold = 2, ar_Cooldown = 50\<rparr>"

definition sample_entry :: "int \<Rightarrow> (bool \<times> int) option \<Rightarrow> restart_entry" where
  "sample_entry t a = \<lparr>re_id = ''a'', re_healthy = False, re_at = t, re_attempt = a\<rparr>"

lemma sample_run:
  "fst (poller_run (\<lambda>w. w) sample_plugin (map sample_round [10, 20, 40, 60, 80]) (newHealthPoller sample_policy False None)) =
     [sample_entry 10 None, sample_entry 20 (Some (True, 21)), sample_entry 40 None, sample_entry 60 None,
      sample_entry 80 (Some (True, 81))]"
  by (simp add: sample_round_def poll_def poll_results_def poll_slot_def sample_instance_def newHealthPoller_def
      sample_policy_def sample_plugin_def sample_entry_def unhealthy_at_def new_cache_def runs_of_def cooling_def Let_def)


theorem restarts_spaced_witness:
  "ar_Cooldown sample_policy \<le> 80 - 21 \<and>
   ar_Threshold sample_policy \<le> int (length (filter (\<lambda>e. re_id e = ''a'' \<and> \<not> re_healthy e)
     ([sample_entry 40 None, sample_entry 60 None] @ [sample_entry 80 (Some (True, 81))])))"
proof -
  let ?r = "poller_run (\<lambda>w. w) sample_plugin (map sample_round [10, 20, 40, 60, 80]) (newHealthPoller sample_policy False None)"
  have "?r = ([sample_entry 10 None] @ sample_entry 20 (Some (True, 21)) #
      [sample_entry 40 None, sample_entry 60 None] @ sample_entry 80 (Some (True, 81)) # [], snd ?r)"
    using sample_run by (simp add: prod_eq_iff)
  from restarts_spaced [OF this, of "''a''" 21 81] show ?thesis by (simp add: sample_entry_def)
qed

end
