(* ===== verification/Sse_Stream.thy ===== *)
theory Sse_Stream
  imports Event_Log Go_Net
begin

text \<open>
  \<^verbatim>\<open>panel/api/sse_handler.go\<close>: the live event stream of the panel. The handler subscribes, replays
  what the client missed (the \<^verbatim>\<open>Last-Event-ID\<close> header) from the ring, then forwards its channel,
  dropping what the replay already sent. \<open>sse_events\<close> is the list of events it writes, as a
  function of the log at the time of the replay and of what arrives on the channel until the
  client goes away.
\<close>

definition ParseUint :: "string \<Rightarrow> nat option" where
  "ParseUint s =
     (if s \<noteq> '''' \<and> list_all is_digit_char s \<and> dec_val s < 2 ^ 64 then Some (nat (dec_val s)) else None)"

definition sse_frame :: "event \<Rightarrow> string" where
  "sse_frame e = ''id: '' @ nat_str (ev_ID e) @ [CHR 0x0A] @ ''data: '' @ event_json e @ [CHR 0x0A, CHR 0x0A]"

text \<open>The replay and the highest id it sent.\<close>

definition sse_replay :: "string \<Rightarrow> event_log \<Rightarrow> event list" where
  "sse_replay lastIDStr l =
     (if lastIDStr \<noteq> '''' then
        (case ParseUint lastIDStr of None \<Rightarrow> [] | Some lastID \<Rightarrow> SinceID lastID l)
      else [])"

definition highID :: "event list \<Rightarrow> nat" where
  "highID es = fold (\<lambda>e h. if ev_ID e > h then ev_ID e else h) es 0"

definition sse_live :: "nat \<Rightarrow> event list \<Rightarrow> event list" where
  "sse_live high ch = filter (\<lambda>e. \<not> ev_ID e \<le> high) ch"

definition sse_events :: "string \<Rightarrow> event_log \<Rightarrow> event list \<Rightarrow> event list" where
  "sse_events lastIDStr l ch =
     (let rep = sse_replay lastIDStr l in rep @ sse_live (highID rep) ch)"

datatype sse_response = SSEError nat string | SSEStream string

definition handleEventsStream ::
  "bool \<Rightarrow> event_log option \<Rightarrow> string \<Rightarrow> event list \<Rightarrow> sse_response" where
  "handleEventsStream can_flush events lastIDStr ch =
     (if \<not> can_flush then SSEError 500 ''internal_error''
      else case events of
        None \<Rightarrow> SSEError 503 ''unavailable''
      | Some l \<Rightarrow>
          SSEStream (''retry: 3000'' @ [CHR 0x0A] @ ''event: connected'' @ [CHR 0x0A] @ ''data: {}'' @ [CHR 0x0A, CHR 0x0A] @
                     concat (map sse_frame (sse_events lastIDStr l ch))))"

section \<open>Subscribers\<close>

definition sub_queue :: "event_log \<Rightarrow> nat \<Rightarrow> event list option" where
  "sub_queue l i = map_of (lg_subs l) i"

lemma sub_queue_publish: "sub_queue (emit_publish e l) i = map_option (chan_send e) (sub_queue l i)"
proof -
  have "map_of (map (\<lambda>(i, q). (i, chan_send e q)) xs) i = map_option (chan_send e) (map_of xs i)" for xs
    by (induction xs) auto
  then show ?thesis by (simp add: sub_queue_def emit_publish_def)
qed

lemma Emit_queue:
  "sub_queue (snd (Emit now created ty inst msg l)) i =
     map_option (chan_send (fst (emit_assign (raw_event (now, created, ty, inst, msg)) l))) (sub_queue l i)"
proof -
  obtain e l1 where a: "emit_assign (raw_event (now, created, ty, inst, msg)) l = (e, l1)" by fastforce
  have "lg_subs l1 = lg_subs l"
    using a by (auto simp: emit_assign_def split: option.splits prod.splits sum.splits)
  then have "sub_queue (emit_publish e (ring_write e l1)) i = map_option (chan_send e) (sub_queue l i)"
    unfolding sub_queue_publish by (simp add: sub_queue_def ring_write_def Let_def)
  moreover have "sub_queue (snd (emit_webhooks now e x)) i = sub_queue x i" for x
    by (auto simp: emit_webhooks_def sub_queue_def split: option.splits prod.splits)
  ultimately show ?thesis using a by (simp add: Emit_def raw_event_def)
qed

lemma emit_seq_queue:
  assumes "emit_seq as l = (es, l')" "sub_queue l i = Some q" "length q + length as \<le> 16"
  shows "sub_queue l' i = Some (q @ es)"
  using assms
proof (induction as arbitrary: l es q)
  case (Cons a as)
  obtain now created ty inst msg where a: "a = (now, created, ty, inst, msg)" by (cases a) auto
  let ?e = "fst (emit_assign (raw_event a) l)"
  obtain es1 where s: "emit_seq as (snd (Emit now created ty inst msg l)) = (es1, l')" and es: "es = ?e # es1"
    using Cons.prems(1) a by (auto simp: Let_def split: prod.splits)
  have "sub_queue (snd (Emit now created ty inst msg l)) i = Some (q @ [?e])"
    using Cons.prems(2,3) a by (simp add: Emit_queue chan_send_def)
  from Cons.IH [OF s this] Cons.prems(3) es show ?case by simp
qed simp

lemma Subscribe_queue: "Subscribe l = (i, l1) \<Longrightarrow> sub_queue l1 i = Some []"
  by (auto simp: Subscribe_def Let_def sub_queue_def)

lemma Subscribe_ring: "Subscribe l = (i, l1) \<Longrightarrow> contents l1 = contents l \<and> log_wf l1 = log_wf l \<and> lg_cap l1 = lg_cap l"
  by (auto simp: Subscribe_def Let_def contents_def log_wf_def)

section \<open>Exactly once, in order\<close>

lemma highID_sorted:
  assumes "sorted_wrt (<) (map ev_ID es)" "es \<noteq> []"
  shows "highID es = ev_ID (last es)"
proof -
  let ?f = "\<lambda>e h. if ev_ID e > h then ev_ID e else h"
  have step: "fold ?f xs h = (if xs = [] then h else ev_ID (last xs))"
    if "sorted_wrt (<) (h # map ev_ID xs)" for xs h
    using that by (induction xs arbitrary: h) auto
  obtain a xs where es: "es = a # xs" using assms(2) by (cases es) auto
  have "fold ?f es 0 = fold ?f xs (ev_ID a)" by (simp add: es)
  then show ?thesis using step [of "ev_ID a" xs] assms(1) by (simp add: highID_def es)
qed

lemma live_after_replay:
  assumes "sorted_wrt (<) (map ev_ID (rep @ es2))" "\<forall>e \<in> set es1. \<exists>r \<in> set rep. ev_ID e \<le> ev_ID r"
    and "\<forall>e \<in> set es2. 0 < ev_ID e"
  shows "sse_live (highID rep) (es1 @ es2) = es2"
proof (cases "rep = []")
  case True
  with assms(2) have "es1 = []" by auto
  with True assms(3) show ?thesis by (simp add: sse_live_def highID_def filter_id_conv)
next
  case False
  have srt: "sorted_wrt (<) (map ev_ID rep)" using assms(1) by (simp add: sorted_wrt_append)
  have h: "highID rep = ev_ID (last rep)" using highID_sorted [OF srt False] .
  have top: "ev_ID r \<le> ev_ID (last rep)" if "r \<in> set rep" for r
  proof -
    from that obtain i where i: "i < length rep" "rep ! i = r" by (auto simp: in_set_conv_nth)
    show ?thesis
    proof (cases "i = length rep - 1")
      case True
      with i False show ?thesis by (simp add: last_conv_nth)
    next
      case n: False
      with i have "ev_ID (rep ! i) < ev_ID (rep ! (length rep - 1))"
        using srt False by (auto simp: sorted_wrt_iff_nth_less)
      with i False show ?thesis by (simp add: last_conv_nth)
    qed
  qed
  have "filter (\<lambda>e. \<not> ev_ID e \<le> highID rep) es1 = []"
    using assms(2) top h by (fastforce simp: filter_empty_conv)
  moreover have "filter (\<lambda>e. \<not> ev_ID e \<le> highID rep) es2 = es2"
    using assms(1) last_in_set [OF False] h by (fastforce simp: filter_id_conv sorted_wrt_append)
  ultimately show ?thesis by (simp add: sse_live_def)
qed

text \<open>
  The run of a reconnecting client: it subscribes to log \<open>l0\<close>, the events \<open>es1\<close> are emitted before the
  replay is read and \<open>es2\<close> after it.
\<close>

lemma sse_run:
  assumes wf: "log_wf l0" and sub: "Subscribe l0 = (i, l1)"
    and e1: "emit_seq as1 l1 = (es1, l2)" and e2: "emit_seq as2 l2 = (es2, l3)"
    and cap: "length as1 \<le> lg_cap l0" and chan: "length as1 + length as2 \<le> 16"
    and hdr: "ParseUint lastIDStr = Some k" "lastIDStr \<noteq> ''''"
    and ids: "sorted_wrt (<) (map ev_ID (contents l0 @ es1 @ es2))"
    and new: "\<forall>e \<in> set (es1 @ es2). k < ev_ID e"
  shows "sub_queue l3 i = Some (es1 @ es2)"
    and "sse_events lastIDStr l2 (es1 @ es2) =
      filter (\<lambda>e. k < ev_ID e) (last_n (lg_cap l0) (contents l0 @ es1)) @ es2"
proof -
  note s = Subscribe_ring [OF sub]
  have "sub_queue l2 i = Some es1"
    using emit_seq_queue [OF e1 Subscribe_queue [OF sub]] chan by simp
  moreover have len: "length (fst (emit_seq as l)) = length as" for as l
    by (induction as l rule: emit_seq.induct) (auto simp: Let_def split: prod.splits)
  then have l1: "length es1 = length as1" using e1 by (metis fst_conv)
  ultimately show "sub_queue l3 i = Some (es1 @ es2)"
    using emit_seq_queue [OF e2, of i es1] chan by simp
  have con: "contents l2 = last_n (lg_cap l0) (contents l0 @ es1)" and wf2: "log_wf l2"
    using emit_seq_ring [of l1 as1 es1 l2] e1 s wf by auto
  let ?rep = "filter (\<lambda>e. k < ev_ID e) (last_n (lg_cap l0) (contents l0 @ es1))"
  have rep: "sse_replay lastIDStr l2 = ?rep"
    using hdr SinceID_contents [OF wf2, of k] con by (simp add: sse_replay_def)
  have "set es1 \<subseteq> set (last_n (lg_cap l0) (contents l0 @ es1))"
    using cap l1 by (auto simp: last_n_def)
  then have in_rep: "\<forall>e \<in> set es1. \<exists>r \<in> set ?rep. ev_ID e \<le> ev_ID r" using new by force
  let ?X = "contents l0 @ es1"
  have "map ev_ID (last_n (lg_cap l0) ?X) @ map ev_ID es2 =
      drop (length ?X - lg_cap l0) (map ev_ID (contents l0 @ es1 @ es2))"
    by (simp add: last_n_def drop_map)
  then have "sorted_wrt (<) (map ev_ID (last_n (lg_cap l0) (contents l0 @ es1)) @ map ev_ID es2)"
    by (simp only: sorted_wrt_drop [OF ids])
  then have srt: "sorted_wrt (<) (map ev_ID (?rep @ es2))"
    by (auto simp: sorted_wrt_append sorted_wrt_filter sorted_wrt_map)
  have "0 < ev_ID e" if "e \<in> set es2" for e
    using new that by (metis UnCI gr_zeroI not_less_zero set_append)
  then have "\<forall>e \<in> set es2. 0 < ev_ID e" by blast
  from live_after_replay [OF srt in_rep this] rep
  show "sse_events lastIDStr l2 (es1 @ es2) = ?rep @ es2" by (simp add: sse_events_def)
qed



text \<open>With two emitters at once an event can be lost to a reconnecting client: event 1 takes its id,
  event 2 takes the next id and is written and published, the client subscribes and replays, and
  only then event 1 is written and published; its id is below the highest replayed id, so the
  client, which asked for everything after id 0, never gets it.\<close>

theorem sse_race_loses_event:
  "\<exists>e1 e2 l0 l1 l2 l3 i. emit_assign zero_event l0 = (e1, l1) \<and> emit_assign zero_event l1 = (e2, l2) \<and>
     Subscribe (emit_publish e2 (ring_write e2 l2)) = (i, l3) \<and> ev_ID e1 = 1 \<and>
     e1 \<notin> set (sse_events ''0'' l3 (the (sub_queue (emit_publish e1 (ring_write e1 l3)) i)))"
proof -
  obtain e1 l1 where a: "emit_assign zero_event (NewLog 5) = (e1, l1)" by fastforce
  obtain e2 l2 where b: "emit_assign zero_event l1 = (e2, l2)" by fastforce
  obtain i l3 where c: "Subscribe (emit_publish e2 (ring_write e2 l2)) = (i, l3)" by fastforce
  note defs = NewLog_def Let_def emit_assign_def seq_add_def emit_publish_def ring_write_def Subscribe_def
  have e: "e1 = zero_event\<lparr>ev_ID := 1\<rparr>" "e2 = zero_event\<lparr>ev_ID := 2\<rparr>"
    using a b by (auto simp: defs)
  have l2: "log_wf l2" "contents l2 = []" "lg_cap l2 = 5"
    using emit_assign_ring [of zero_event "NewLog 5"] emit_assign_ring [of zero_event l1] NewLog_wf [of 5] a b
    by (auto simp: NewLog_def Let_def)
  have "contents (ring_write e2 l2) = [e2]" using contents_ring_write [OF l2(1), of e2] l2 by (simp add: last_n_def)
  then have wf: "log_wf l3" "contents l3 = [e2]"
    using Subscribe_ring [OF c] ring_write_wf [OF l2(1), of e2] by (simp_all add: emit_publish_ring)
  have q: "sub_queue (emit_publish e1 (ring_write e1 l3)) i = Some [e1]"
  proof -
    have "sub_queue (ring_write e1 l3) i = Some []"
      using Subscribe_queue [OF c] by (simp add: sub_queue_def ring_write_def Let_def)
    then show ?thesis by (simp add: sub_queue_publish chan_send_def)
  qed
  have "ParseUint ''0'' = Some 0" by (simp add: ParseUint_def is_digit_char_def dec_val_def digit_val_def)
  then have "sse_replay ''0'' l3 = [e2]" by (simp add: sse_replay_def SinceID_contents [OF wf(1)] wf(2) e(2))
  then have "e1 \<notin> set (sse_events ''0'' l3 (the (sub_queue (emit_publish e1 (ring_write e1 l3)) i)))"
    by (simp add: sse_events_def q sse_live_def highID_def e zero_event_def)
  with a b c e(1) show ?thesis by (intro exI conjI) auto
qed

end
