(* ===== verification/Session_Token.thy ===== *)
theory Session_Token
  imports Go_Encoding Go_Net
begin

text \<open>
  \<^verbatim>\<open>internal/sessiontoken/token.go\<close>: short-lived signed tokens for the event stream. A token is the
  base64 text of purpose byte, expiry (big-endian seconds), 16 nonce bytes and the HMAC-SHA256 of
  those 25 bytes. The HMAC is the argument \<open>hmac\<close>; \<open>rnd\<close> is what the random source fills in.
  Times are nanoseconds.
\<close>

definition PurposeSSE :: char where "PurposeSSE = CHR 0x01"
definition payloadLen :: nat where "payloadLen = 1 + 8 + 16"
definition tokenLen :: nat where "tokenLen = payloadLen + 32"

definition ErrInvalidToken :: go_error where "ErrInvalidToken = Sentinel ''invalid session token''"
definition ErrExpiredToken :: go_error where "ErrExpiredToken = Sentinel ''session token expired''"
definition ErrWrongPurpose :: go_error where "ErrWrongPurpose = Sentinel ''session token purpose mismatch''"

type_synonym mac = "string \<Rightarrow> string \<Rightarrow> string"

definition unix_sec :: "int \<Rightarrow> int" where
  "unix_sec ns = ns div 1000000000"

text \<open>\<^verbatim>\<open>uint64(x)\<close> and \<^verbatim>\<open>int64(x)\<close> of a 64-bit value.\<close>

definition to_uint64 :: "int \<Rightarrow> nat" where
  "to_uint64 x = nat (x mod 2 ^ 64)"

definition to_int64 :: "nat \<Rightarrow> int" where
  "to_int64 n = wrap64 (int n)"

definition Signer_Generate :: "mac \<Rightarrow> string \<Rightarrow> string result \<Rightarrow> int \<Rightarrow> char \<Rightarrow> int \<Rightarrow> (string \<times> int) result" where
  "Signer_Generate hmac key rnd now purpose ttl =
     (let expiry = now + ttl in
      case rnd of
        Inl e \<Rightarrow> Inl (Wrap ''sessiontoken: generate nonce'' e)
      | Inr nonce \<Rightarrow>
          (let payload = [purpose] @ PutUint64 (to_uint64 (unix_sec expiry)) @ nonce;
               raw = payload @ hmac key payload
           in Inr (b64_encode raw, expiry)))"

definition Signer_Validate :: "mac \<Rightarrow> string \<Rightarrow> int \<Rightarrow> string \<Rightarrow> char \<Rightarrow> unit result" where
  "Signer_Validate hmac key now encoded expectedPurpose =
     (case b64_decode encoded of
        None \<Rightarrow> Inl ErrInvalidToken
      | Some raw \<Rightarrow>
          (if length raw \<noteq> tokenLen then Inl ErrInvalidToken
           else let payload = take payloadLen raw; sig = drop payloadLen raw
                in if sig \<noteq> hmac key payload then Inl ErrInvalidToken
                   else if payload ! 0 \<noteq> expectedPurpose then Inl ErrWrongPurpose
                   else let expirySec = Uint64 (take 8 (drop 1 payload))
                        in if unix_sec now > to_int64 expirySec then Inl ErrExpiredToken else Inr ()))"

lemma to_int64_uint64: "- (2 ^ 63) \<le> x \<Longrightarrow> x < 2 ^ 63 \<Longrightarrow> to_int64 (to_uint64 x) = x"
proof -
  assume r: "- (2 ^ 63) \<le> x" "x < 2 ^ 63"
  have "to_int64 (to_uint64 x) = (x mod 2 ^ 64 + 2 ^ 63) mod 2 ^ 64 - 2 ^ 63"
    by (simp add: to_int64_def to_uint64_def wrap64_def)
  also have "\<dots> = (x + 2 ^ 63) mod 2 ^ 64 - 2 ^ 63" by (simp only: mod_add_left_eq)
  also have "\<dots> = x" using wrap64_id [OF r] by (simp add: wrap64_def)
  finally show ?thesis .
qed

lemma to_uint64_less: "to_uint64 x < 2 ^ 64"
  by (simp add: to_uint64_def nat_less_iff)

lemmas token_sizes = payloadLen_def tokenLen_def

text \<open>What validation answers on the raw bytes \<open>purpose # expiry # nonce # signature\<close>.\<close>

lemma Validate_raw:
  fixes purpose :: char
  assumes n: "length nonce = 16" and s: "length sig = 32" and e: "e < 2 ^ 64"
  defines "payload \<equiv> purpose # PutUint64 e @ nonce"
  shows "Signer_Validate hmac key now (b64_encode (payload @ sig)) expected =
    (if sig \<noteq> hmac key payload then Inl ErrInvalidToken
     else if purpose \<noteq> expected then Inl ErrWrongPurpose
     else if to_int64 e < unix_sec now then Inl ErrExpiredToken else Inr ())"
proof -
  have len: "length payload = payloadLen" using n by (simp add: payload_def token_sizes)
  then have parts: "take payloadLen (payload @ sig) = payload" "drop payloadLen (payload @ sig) = sig"
    "length (payload @ sig) = tokenLen" using s by (simp_all add: token_sizes)
  have "take 8 (drop 1 payload) = PutUint64 e" by (simp add: payload_def)
  moreover have "Uint64 (PutUint64 e) = e" using Uint64_PutUint64 [OF e, of "[]"] by simp
  ultimately have "Uint64 (take 8 (drop 1 payload)) = e" by (simp only:)
  then show ?thesis
    unfolding Signer_Validate_def b64_decode_encode option.case parts Let_def
    by (simp add: payload_def)
qed

text \<open>A base64 text is accepted only if its payload carries the signature the key gives it.\<close>

lemma Validate_Inr:
  assumes "Signer_Validate hmac key now encoded p = Inr ()"
  obtains payload where "b64_decode encoded = Some (payload @ hmac key payload)"
    "length payload = payloadLen" "length (hmac key payload) = 32" "hd payload = p"
    "unix_sec now \<le> to_int64 (Uint64 (take 8 (tl payload)))"
proof -
  from assms obtain raw where raw: "b64_decode encoded = Some raw" "length raw = tokenLen"
    and sig: "drop payloadLen raw = hmac key (take payloadLen raw)"
    and p: "take payloadLen raw ! 0 = p"
    and e: "unix_sec now \<le> to_int64 (Uint64 (take 8 (drop 1 (take payloadLen raw))))"
    by (auto simp: Signer_Validate_def Let_def split: option.splits if_splits)
  let ?p = "take payloadLen raw"
  have "raw = ?p @ hmac key ?p" unfolding sig [symmetric] by simp
  moreover have len: "length ?p = payloadLen" "length (drop payloadLen raw) = 32"
    using raw(2) by (simp_all add: token_sizes)
  moreover have "?p \<noteq> []" using len(1) unfolding token_sizes by (metis list.size(3) zero_neq_numeral numeral_plus_numeral add_is_0 one_neq_zero)
  ultimately show thesis
    using that [of ?p] raw(1) sig p e by (metis drop_Suc drop0 One_nat_def hd_conv_nth)
qed

text \<open>C36: A token generated with a key, a purpose and a lifetime is accepted with the same key and
  purpose up to and including its expiry second and refused as expired afterwards; with another
  purpose it is refused as a purpose mismatch, and with a key under which the signature differs it
  is refused as invalid.\<close>

theorem token_lifetime:
  assumes "Signer_Generate hmac key (Inr nonce) now purpose ttl = Inr (tok, expiry)"
    and "length nonce = 16" and "\<And>k m. length (hmac k m) = 32"
    and "- (2 ^ 63) \<le> unix_sec (now + ttl)" "unix_sec (now + ttl) < 2 ^ 63"
  shows "expiry = now + ttl \<and> Signer_Validate hmac key' later tok expected =
      (let payload = purpose # PutUint64 (to_uint64 (unix_sec expiry)) @ nonce in
       if hmac key payload \<noteq> hmac key' payload then Inl ErrInvalidToken
       else if purpose \<noteq> expected then Inl ErrWrongPurpose
       else if unix_sec expiry < unix_sec later then Inl ErrExpiredToken else Inr ())"

proof -
  let ?e = "to_uint64 (unix_sec (now + ttl))"
  let ?p = "purpose # PutUint64 ?e @ nonce"
  from assms(1) have tok: "tok = b64_encode (?p @ hmac key ?p)" and ex: "expiry = now + ttl"
    by (auto simp: Signer_Generate_def Let_def)
  show ?thesis
    using Validate_raw [OF assms(2) assms(3) [of key ?p] to_uint64_less] to_int64_uint64 [OF assms(4,5)]
    unfolding tok ex Let_def by simp
qed

text \<open>A keyed hash of the right length, to show that the hypotheses can hold.\<close>

definition sample_mac :: mac where
  "sample_mac k m = take 32 (k @ replicate 32 (CHR ''x''))"

theorem token_lifetime_witness:
  "(case Signer_Generate sample_mac ''k'' (Inr (replicate 16 (CHR ''n''))) 0 PurposeSSE 3000000000 of
      Inr (tok, ex) \<Rightarrow>
        Signer_Validate sample_mac ''k'' 3999999999 tok PurposeSSE = Inr () \<and>
        Signer_Validate sample_mac ''k'' 4000000000 tok PurposeSSE = Inl ErrExpiredToken \<and>
        Signer_Validate sample_mac ''l'' 0 tok PurposeSSE = Inl ErrInvalidToken
    | Inl e \<Rightarrow> False)"
proof -
  let ?n = "replicate 16 (CHR ''n'')"
  obtain tok ex where g: "Signer_Generate sample_mac ''k'' (Inr ?n) 0 PurposeSSE 3000000000 = Inr (tok, ex)"
    by (simp add: Signer_Generate_def Let_def)
  have m: "length (sample_mac k m) = 32" for k m by (simp add: sample_mac_def)
  note t = token_lifetime [OF g _ m, unfolded unix_sec_def, simplified]
  have "sample_mac ''k'' p \<noteq> sample_mac ''l'' p" for p by (simp add: sample_mac_def)
  then show ?thesis
    unfolding g using t by (simp add: Let_def unix_sec_def)
qed

end
