(* ===== verification/Docker_Plugin.thy ===== *)
theory Docker_Plugin
  imports Plugin_Api Go_Net "HOL-Library.AList"
begin

text \<open>
  \<^verbatim>\<open>plugins/docker/plugin.go\<close>: the deployment plugin for a Docker daemon. The Docker client library,
  HTTP, the clock and the caller's context are the record \<open>docker_client\<close> of functions over the
  daemon's world \<open>'w\<close>; \<open>dc_wait\<close> is the \<^verbatim>\<open>select\<close> between the context and a timer (it answers the
  context's error when that fired). Go maps are association lists in the order of their
  iteration. What the proofs need of the daemon is \<open>daemon_ok\<close>: which calls change the
  configuration of a named container, and how.
\<close>

section \<open>The client library's data\<close>

record container_config =
  cc_Image :: string
  cc_Env :: "string list"
  cc_ExposedPorts :: "string list"
  cc_Labels :: "(string \<times> string) list"

record port_binding =
  pb_HostIP :: string
  pb_HostPort :: string

record device_mapping =
  dm_PathOnHost :: string
  dm_PathInContainer :: string
  dm_CgroupPermissions :: string

record host_config =
  hc_PortBindings :: "(string \<times> port_binding list) list"
  hc_Binds :: "string list"
  hc_CapAdd :: "string list"
  hc_ExtraHosts :: "string list"
  hc_Devices :: "device_mapping list"
  hc_Sysctls :: "(string \<times> string) list"
  hc_RestartPolicy :: string

record inspect_response =
  ir_ID :: string
  ir_Running :: bool
  ir_Config :: container_config
  ir_HostConfig :: host_config

record stats_response =
  sr_CPUTotal :: nat
  sr_PreCPUTotal :: nat
  sr_System :: nat
  sr_PreSystem :: nat
  sr_OnlineCPUs :: nat
  sr_MemUsage :: nat
  sr_MemLimit :: nat
  sr_Networks :: "(string \<times> nat \<times> nat) list"

record logs_options =
  lgo_ShowStdout :: bool
  lgo_ShowStderr :: bool
  lgo_Follow :: bool
  lgo_Tail :: string

record 'w docker_client =
  dc_ImagePull :: "string \<Rightarrow> 'w \<Rightarrow> unit result \<times> 'w"
  dc_ContainerCreate :: "container_config \<Rightarrow> host_config \<Rightarrow> string \<Rightarrow> 'w \<Rightarrow> string result \<times> 'w"
  dc_ContainerStart :: "string \<Rightarrow> 'w \<Rightarrow> unit result \<times> 'w"
  dc_ContainerStop :: "string \<Rightarrow> int \<Rightarrow> 'w \<Rightarrow> unit result \<times> 'w"
  dc_ContainerRemove :: "string \<Rightarrow> 'w \<Rightarrow> unit result \<times> 'w"
  dc_ContainerInspect :: "string \<Rightarrow> 'w \<Rightarrow> inspect_response result \<times> 'w"
  dc_ContainerLogs :: "string \<Rightarrow> logs_options \<Rightarrow> 'w \<Rightarrow> string result \<times> 'w"
  dc_ContainerStats :: "string \<Rightarrow> 'w \<Rightarrow> string result \<times> 'w"
  dc_DecodeStats :: "string \<Rightarrow> stats_response result"
  dc_IsNotFound :: "go_error \<Rightarrow> bool"
  dc_Get :: "string \<Rightarrow> 'w \<Rightarrow> int result \<times> 'w"
  dc_wait :: "int \<Rightarrow> 'w \<Rightarrow> go_error option \<times> 'w"
  dc_now :: "'w \<Rightarrow> int"

section \<open>The plugin\<close>

definition blockedEnvKeys :: "string list" where
  "blockedEnvKeys =
     [''FOX_PLANE_AUTH_SECRET'', ''FOX_PROXY_ENDPOINT'', ''FOX_DATA_PLANE_URL'', ''FOX_DATA_PLANE_TOKEN'',
      ''FOX_SKILLSET_PATH'', ''HERMES_WEBUI_PASSWORD'', ''HERMES_WEBUI_ALLOWED_ORIGINS'',
      ''HERMES_WEBUI_TRUST_FORWARDED_HOST'', ''HERMES_WEBUI_CSP_CONNECT_EXTRA'',
      ''PATH'', ''HOME'', ''LD_PRELOAD'', ''LD_LIBRARY_PATH'']"

definition containerPrefix :: string where "containerPrefix = ''fox-''"
definition healthPollDelay :: int where "healthPollDelay = 2 * 1000000000"
definition healthPollMax :: nat where "healthPollMax = 60"
definition stopTimeout :: int where "stopTimeout = 30"
definition internalPort :: string where "internalPort = ''8787/tcp''"

definition refString :: "image_ref \<Rightarrow> string" where
  "refString ref =
     (if img_Digest ref \<noteq> '''' then img_Repository ref @ ''@'' @ img_Digest ref else img_Repository ref)"

definition extractHostPort :: "inspect_response \<Rightarrow> int" where
  "extractHostPort info =
     (case map_of (hc_PortBindings (ir_HostConfig info)) internalPort of
        None \<Rightarrow> 0
      | Some [] \<Rightarrow> 0
      | Some (b # _) \<Rightarrow> (case scan_int (pb_HostPort b) of None \<Rightarrow> 0 | Some port \<Rightarrow> port))"

definition httpProbe :: "'w docker_client \<Rightarrow> int \<Rightarrow> string \<Rightarrow> 'w \<Rightarrow> bool \<times> 'w" where
  "httpProbe c port path w =
     (case dc_Get c (''http://127.0.0.1:'' @ int_str port @ path) w of
        (Inl _, w1) \<Rightarrow> (False, w1)
      | (Inr code, w1) \<Rightarrow> (code = 200, w1))"

fun poll_health_loop :: "'w docker_client \<Rightarrow> int \<Rightarrow> nat \<Rightarrow> 'w \<Rightarrow> unit result \<times> 'w" where
  "poll_health_loop c port 0 w =
     (Inl (Errorf (''health check timed out after '' @ nat_str healthPollMax @ '' attempts'')), w)"
| "poll_health_loop c port (Suc n) w =
     (case dc_wait c healthPollDelay w of
        (Some e, w1) \<Rightarrow> (Inl e, w1)
      | (None, w1) \<Rightarrow>
          (case httpProbe c port ''/health'' w1 of
             (ok, w2) \<Rightarrow> if ok then (Inr (), w2) else poll_health_loop c port n w2))"

definition pollHealth :: "'w docker_client \<Rightarrow> int \<Rightarrow> 'w \<Rightarrow> unit result \<times> 'w" where
  "pollHealth c port w = poll_health_loop c port healthPollMax w"

definition env_entry :: "string \<Rightarrow> string \<Rightarrow> string" where
  "env_entry k v = k @ ''='' @ v"

fun user_env_lines :: "(string \<times> string) list \<Rightarrow> string list result" where
  "user_env_lines [] = Inr []"
| "user_env_lines ((k, v) # kvs) =
     (if ToUpper k \<in> set blockedEnvKeys
      then Inl (Errorf (''docker: env key '' @ k @ '' is reserved and cannot be overridden''))
      else case user_env_lines kvs of Inl e \<Rightarrow> Inl e | Inr ls \<Rightarrow> Inr (env_entry k v # ls))"

definition optional_env :: "string \<Rightarrow> string \<Rightarrow> string list" where
  "optional_env k v = (if v \<noteq> '''' then [env_entry k v] else [])"

definition container_env :: "provision_request \<Rightarrow> string list result" where
  "container_env req =
     (let cfg = pr_Config req;
          env = [env_entry ''FOX_PLANE_AUTH_SECRET'' (ic_AuthSecret cfg)] @
                optional_env ''HERMES_WEBUI_PASSWORD'' (ic_InstancePassword cfg) @
                optional_env ''FOX_PROXY_ENDPOINT'' (ic_ProxyEndpoint cfg) @
                optional_env ''FOX_DATA_PLANE_URL'' (ic_DataPlaneURL cfg) @
                optional_env ''FOX_SKILLSET_PATH'' (ic_SkillsetPath cfg)
      in case user_env_lines (ic_Env cfg) of
           Inl e \<Rightarrow> Inl e
         | Inr ls \<Rightarrow> Inr (env @ ls @ map (\<lambda>(k, v). env_entry k v) (pr_CloudEnv req)))"

definition container_config_of :: "provision_request \<Rightarrow> string list \<Rightarrow> container_config" where
  "container_config_of req env =
     \<lparr>cc_Image = refString (pr_Image req), cc_Env = env, cc_ExposedPorts = [internalPort],
      cc_Labels = [(''fox.instance-id'', pr_InstanceID req), (''fox.managed-by'', ''fox-control''),
                   (''fox.image-digest'', img_Digest (pr_Image req))]\<rparr>"

definition host_config_of :: "provision_request \<Rightarrow> host_config" where
  "host_config_of req =
     \<lparr>hc_PortBindings = [(internalPort, [\<lparr>pb_HostIP = ''127.0.0.1'', pb_HostPort = int_str (pr_Port req)\<rparr>])],
      hc_Binds = [pr_DataDir req @ '':/data''],
      hc_CapAdd = [''NET_ADMIN''],
      hc_ExtraHosts = [''host.docker.internal:host-gateway''],
      hc_Devices = [\<lparr>dm_PathOnHost = ''/dev/net/tun'', dm_PathInContainer = ''/dev/net/tun'', dm_CgroupPermissions = ''rwm''\<rparr>],
      hc_Sysctls = [(''net.ipv4.ip_forward'', ''1'')],
      hc_RestartPolicy = ''unless-stopped''\<rparr>"

definition Docker_Provision :: "'w docker_client \<Rightarrow> provision_request \<Rightarrow> 'w \<Rightarrow> unit result \<times> 'w" where
  "Docker_Provision c req w =
     (let cname = containerPrefix @ pr_InstanceID req in
      case container_env req of
        Inl e \<Rightarrow> (Inl e, w)
      | Inr env \<Rightarrow>
          (let imageRef = refString (pr_Image req) in
           case dc_ImagePull c imageRef w of
             (Inl e, w1) \<Rightarrow> (Inl (Wrap (''docker: pull '' @ imageRef) e), w1)
           | (Inr _, w1) \<Rightarrow>
               (case dc_ContainerCreate c (container_config_of req env) (host_config_of req) cname w1 of
                  (Inl e, w2) \<Rightarrow> (Inl (Wrap (''docker: create container '' @ cname) e), w2)
                | (Inr cid, w2) \<Rightarrow>
                    (case dc_ContainerStart c cid w2 of
                       (Inl e, w3) \<Rightarrow> (Inl (Wrap (''docker: start container '' @ cname) e), w3)
                     | (Inr _, w3) \<Rightarrow>
                         (case pollHealth c (pr_Port req) w3 of
                            (Inl e, w4) \<Rightarrow> (Inl (Wrap (''docker: health poll '' @ cname) e), w4)
                          | (Inr _, w4) \<Rightarrow> (Inr (), w4))))))"

definition Docker_HealthCheck :: "'w docker_client \<Rightarrow> string \<Rightarrow> 'w \<Rightarrow> health_status result \<times> 'w" where
  "Docker_HealthCheck c instanceID w =
     (let cname = containerPrefix @ instanceID in
      case dc_ContainerInspect c cname w of
        (Inl e, w1) \<Rightarrow> (Inl (Wrap (''docker: inspect '' @ cname) e), w1)
      | (Inr info, w1) \<Rightarrow>
          (if \<not> ir_Running info then (Inr (unhealthy_at (dc_now c w1)), w1)
           else let port = extractHostPort info in
             if port = 0 then (Inr (unhealthy_at (dc_now c w1)), w1)
             else case httpProbe c port ''/health'' w1 of
               (healthy, w2) \<Rightarrow>
                 (case httpProbe c port ''/readyz'' w2 of
                    (ready, w3) \<Rightarrow>
                      (Inr \<lparr>hs_Healthy = healthy, hs_Ready = ready,
                            hs_Checks = [(''http_health'', healthy), (''http_readyz'', ready)],
                            hs_CheckedAt = dc_now c w3\<rparr>, w3))))"

definition Docker_Configure :: "'w docker_client \<Rightarrow> string \<Rightarrow> instance_config \<Rightarrow> 'w \<Rightarrow> unit result \<times> 'w" where
  "Docker_Configure c instanceID cfg w =
     (let cname = containerPrefix @ instanceID in
      case dc_ContainerInspect c cname w of
        (Inl e, w1) \<Rightarrow> (Inl (Wrap (''docker: inspect '' @ cname) e), w1)
      | (Inr _, w1) \<Rightarrow> (Inr (), w1))"

definition rollout_config :: "container_config \<Rightarrow> image_ref \<Rightarrow> container_config" where
  "rollout_config cfg target =
     cfg\<lparr>cc_Image := refString target,
         cc_Labels := AList.update ''fox.image-digest'' (img_Digest target) (cc_Labels cfg)\<rparr>"

text \<open>The second half of \<open>Rollout\<close>, from the recreation of the container.\<close>

definition recreate :: "'w docker_client \<Rightarrow> string \<Rightarrow> inspect_response \<Rightarrow> image_ref \<Rightarrow> 'w \<Rightarrow> unit result \<times> 'w" where
  "recreate c cname info target w =
     (case dc_ContainerCreate c (rollout_config (ir_Config info) target) (ir_HostConfig info) cname w of
        (Inl e, w1) \<Rightarrow> (Inl (Wrap (''docker: recreate '' @ cname) e), w1)
      | (Inr cid, w1) \<Rightarrow>
          (case dc_ContainerStart c cid w1 of
             (Inl e, w2) \<Rightarrow> (Inl (Wrap (''docker: restart '' @ cname) e), w2)
           | (Inr _, w2) \<Rightarrow>
               (let port = extractHostPort info in
                if port > 0
                then (case pollHealth c port w2 of
                        (Inl e, w3) \<Rightarrow> (Inl (Wrap (''docker: rollout health '' @ cname) e), w3)
                      | (Inr _, w3) \<Rightarrow> (Inr (), w3))
                else (Inr (), w2))))"

definition Docker_Rollout :: "'w docker_client \<Rightarrow> string \<Rightarrow> image_ref \<Rightarrow> 'w \<Rightarrow> unit result \<times> 'w" where
  "Docker_Rollout c instanceID target w =
     (let cname = containerPrefix @ instanceID; imageRef = refString target in
      case dc_ContainerInspect c cname w of
        (Inl e, w1) \<Rightarrow> (Inl (Wrap (''docker: inspect '' @ cname @ '' for rollout'') e), w1)
      | (Inr info, w1) \<Rightarrow>
          (case dc_ImagePull c imageRef w1 of
             (Inl e, w2) \<Rightarrow> (Inl (Wrap (''docker: pull '' @ imageRef) e), w2)
           | (Inr _, w2) \<Rightarrow>
               (case dc_ContainerStop c cname stopTimeout w2 of
                  (Inl e, w3) \<Rightarrow> (Inl (Wrap (''docker: stop '' @ cname @ '' for rollout'') e), w3)
                | (Inr _, w3) \<Rightarrow>
                    (case dc_ContainerRemove c cname w3 of
                       (Inl e, w4) \<Rightarrow> (Inl (Wrap (''docker: remove '' @ cname @ '' for rollout'') e), w4)
                     | (Inr _, w4) \<Rightarrow> recreate c cname info target w4))))"

definition Docker_Rollback :: "'w docker_client \<Rightarrow> string \<Rightarrow> image_ref \<Rightarrow> 'w \<Rightarrow> unit result \<times> 'w" where
  "Docker_Rollback c instanceID previous w = Docker_Rollout c instanceID previous w"

definition Docker_Destroy :: "'w docker_client \<Rightarrow> string \<Rightarrow> 'w \<Rightarrow> unit result \<times> 'w" where
  "Docker_Destroy c instanceID w =
     (let cname = containerPrefix @ instanceID;
          bad = (\<lambda>r. case r of Inl e \<Rightarrow> \<not> dc_IsNotFound c e | Inr _ \<Rightarrow> False) in
      case dc_ContainerStop c cname stopTimeout w of
        (r, w1) \<Rightarrow>
          (if bad r then (Inl (Wrap (''docker: stop '' @ cname) (projl r)), w1)
           else case dc_ContainerRemove c cname w1 of
             (r2, w2) \<Rightarrow>
               (if bad r2 then (Inl (Wrap (''docker: remove '' @ cname) (projl r2)), w2) else (Inr (), w2))))"

definition Docker_Logs :: "'w docker_client \<Rightarrow> string \<Rightarrow> log_opts \<Rightarrow> 'w \<Rightarrow> string result \<times> 'w" where
  "Docker_Logs c instanceID opts w =
     (let cname = containerPrefix @ instanceID in
      case dc_ContainerLogs c cname
             \<lparr>lgo_ShowStdout = True, lgo_ShowStderr = True, lgo_Follow = lo_Follow opts,
              lgo_Tail = (if lo_Tail opts > 0 then int_str (lo_Tail opts) else '''')\<rparr> w of
        (Inl e, w1) \<Rightarrow> (Inl (Wrap (''docker: logs '' @ cname) e), w1)
      | (Inr s, w1) \<Rightarrow> (Inr s, w1))"

definition Docker_Restart :: "'w docker_client \<Rightarrow> string \<Rightarrow> 'w \<Rightarrow> unit result \<times> 'w" where
  "Docker_Restart c instanceID w =
     (let cname = containerPrefix @ instanceID in
      case dc_ContainerStop c cname stopTimeout w of
        (Inl e, w1) \<Rightarrow> (Inl (Wrap (''docker: stop '' @ cname @ '' for restart'') e), w1)
      | (Inr _, w1) \<Rightarrow> dc_ContainerStart c cname w1)"

definition calculateCPUPercent :: "stats_response \<Rightarrow> rat" where
  "calculateCPUPercent s =
     (let cpuDelta = of_nat (sr_CPUTotal s) - of_nat (sr_PreCPUTotal s);
          systemDelta = of_nat (sr_System s) - of_nat (sr_PreSystem s)
      in if systemDelta \<le> 0 \<or> cpuDelta < 0 then 0
         else (cpuDelta / systemDelta) * of_nat (sr_OnlineCPUs s) * 100)"

definition add_uint64 :: "nat \<Rightarrow> nat \<Rightarrow> nat" where
  "add_uint64 a b = (a + b) mod 2 ^ 64"

definition Docker_Stats :: "'w docker_client \<Rightarrow> string \<Rightarrow> 'w \<Rightarrow> container_stats result \<times> 'w" where
  "Docker_Stats c instanceID w =
     (let cname = containerPrefix @ instanceID in
      case dc_ContainerStats c cname w of
        (Inl e, w1) \<Rightarrow> (Inl (Wrap (''docker: stats '' @ cname) e), w1)
      | (Inr body, w1) \<Rightarrow>
          (case dc_DecodeStats c body of
             Inl e \<Rightarrow> (Inl (Wrap (''docker: stats '' @ cname @ '': decode'') e), w1)
           | Inr s \<Rightarrow>
               (Inr \<lparr>st_CPUPercent = calculateCPUPercent s, st_MemoryUsed = sr_MemUsage s, st_MemoryLimit = sr_MemLimit s,
                     st_NetRxBytes = fold (\<lambda>(_, rx, tx) a. add_uint64 a rx) (sr_Networks s) 0,
                     st_NetTxBytes = fold (\<lambda>(_, rx, tx) a. add_uint64 a tx) (sr_Networks s) 0\<rparr>, w1)))"

text \<open>The plugin as an implementation of the interface.\<close>

definition docker_plugin :: "'w docker_client \<Rightarrow> 'w deployment_plugin" where
  "docker_plugin c =
     \<lparr>pl_Provision = Docker_Provision c, pl_HealthCheck = Docker_HealthCheck c, pl_Configure = Docker_Configure c,
      pl_Rollout = Docker_Rollout c, pl_Rollback = Docker_Rollback c, pl_Destroy = Docker_Destroy c,
      pl_Logs = Docker_Logs c, pl_Restart = Docker_Restart c, pl_Stats = Docker_Stats c\<rparr>"

section \<open>Container configurations\<close>

text \<open>The documented behaviour of the daemon's calls on the configurations of named containers,
  \<open>conf w name\<close>: only a successful create or remove changes one, inspection reports it, and
  inspecting a container that does not exist is an error.\<close>

definition daemon_ok :: "'w docker_client \<Rightarrow> ('w \<Rightarrow> string \<Rightarrow> (container_config \<times> host_config) option) \<Rightarrow> bool" where
  "daemon_ok c conf \<longleftrightarrow>
     (\<forall>r w. conf (snd (dc_ImagePull c r w)) = conf w) \<and>
     (\<forall>i w. conf (snd (dc_ContainerStart c i w)) = conf w) \<and>
     (\<forall>n t w. conf (snd (dc_ContainerStop c n t w)) = conf w) \<and>
     (\<forall>u w. conf (snd (dc_Get c u w)) = conf w) \<and>
     (\<forall>d w. conf (snd (dc_wait c d w)) = conf w) \<and>
     (\<forall>n w. conf (snd (dc_ContainerInspect c n w)) = conf w) \<and>
     (\<forall>n w info. fst (dc_ContainerInspect c n w) = Inr info \<longrightarrow> conf w n = Some (ir_Config info, ir_HostConfig info)) \<and>
     (\<forall>n w. conf (snd (dc_ContainerRemove c n w)) =
        (case fst (dc_ContainerRemove c n w) of Inl _ \<Rightarrow> conf w | Inr _ \<Rightarrow> (conf w)(n := None))) \<and>
     (\<forall>cc hc n w. conf (snd (dc_ContainerCreate c cc hc n w)) =
        (case fst (dc_ContainerCreate c cc hc n w) of Inl _ \<Rightarrow> conf w | Inr _ \<Rightarrow> (conf w)(n \<mapsto> (cc, hc))))"

lemma daemon_keeps:
  assumes "daemon_ok c conf"
  shows "dc_ImagePull c r w = (x, w') \<Longrightarrow> conf w' = conf w"
    and "dc_ContainerStart c i w = (x, w') \<Longrightarrow> conf w' = conf w"
    and "dc_ContainerStop c n t w = (x, w') \<Longrightarrow> conf w' = conf w"
    and "dc_Get c u w = (y, w') \<Longrightarrow> conf w' = conf w"
    and "dc_wait c d w = (z, w') \<Longrightarrow> conf w' = conf w"
    and "dc_ContainerInspect c n w = (v, w') \<Longrightarrow> conf w' = conf w"
  using assms unfolding daemon_ok_def by (metis snd_conv)+

lemma daemon_changes:
  assumes "daemon_ok c conf"
  shows "dc_ContainerInspect c n w = (Inr info, w') \<Longrightarrow> conf w n = Some (ir_Config info, ir_HostConfig info)"
    and "dc_ContainerRemove c n w = (Inl e, w') \<Longrightarrow> conf w' = conf w"
    and "dc_ContainerRemove c n w = (Inr u, w') \<Longrightarrow> conf w' = (conf w)(n := None)"
    and "dc_ContainerCreate c cc hc n w = (Inl e, w') \<Longrightarrow> conf w' = conf w"
    and "dc_ContainerCreate c cc hc n w = (Inr i, w') \<Longrightarrow> conf w' = (conf w)(n \<mapsto> (cc, hc))"
proof -
  from assms have i: "\<And>n w info. fst (dc_ContainerInspect c n w) = Inr info \<Longrightarrow> conf w n = Some (ir_Config info, ir_HostConfig info)"
    and r: "\<And>n w. conf (snd (dc_ContainerRemove c n w)) =
      (case fst (dc_ContainerRemove c n w) of Inl _ \<Rightarrow> conf w | Inr _ \<Rightarrow> (conf w)(n := None))"
    and k: "\<And>cc hc n w. conf (snd (dc_ContainerCreate c cc hc n w)) =
      (case fst (dc_ContainerCreate c cc hc n w) of Inl _ \<Rightarrow> conf w | Inr _ \<Rightarrow> (conf w)(n \<mapsto> (cc, hc)))"
    unfolding daemon_ok_def by blast+
  show "dc_ContainerInspect c n w = (Inr info, w') \<Longrightarrow> conf w n = Some (ir_Config info, ir_HostConfig info)"
    using i [of n w] by simp
  show "dc_ContainerRemove c n w = (Inl e, w') \<Longrightarrow> conf w' = conf w"
    "dc_ContainerRemove c n w = (Inr u, w') \<Longrightarrow> conf w' = (conf w)(n := None)" using r [of n w] by simp_all
  show "dc_ContainerCreate c cc hc n w = (Inl e, w') \<Longrightarrow> conf w' = conf w"
    "dc_ContainerCreate c cc hc n w = (Inr i, w') \<Longrightarrow> conf w' = (conf w)(n \<mapsto> (cc, hc))" using k [of cc hc n w] by simp_all
qed

lemma httpProbe_keeps:
  assumes "daemon_ok c conf" "httpProbe c port path w = (ok, w')"
  shows "conf w' = conf w"
  using assms(2) daemon_keeps(4) [OF assms(1)] by (auto simp: httpProbe_def split: prod.splits sum.splits)

lemma poll_health_loop_keeps:
  assumes ok: "daemon_ok c conf"
  shows "poll_health_loop c port n w = (r, w') \<Longrightarrow> conf w' = conf w"
proof (induction n arbitrary: w)
  case (Suc n)
  obtain e w1 where w1: "dc_wait c healthPollDelay w = (e, w1)" by force
  obtain b w2 where w2: "httpProbe c port ''/health'' w1 = (b, w2)" by force
  from Suc daemon_keeps(5) [OF ok w1] httpProbe_keeps [OF ok w2] w1 w2 show ?case
    by (auto split: option.splits if_splits)
qed simp

lemma recreate_conf:
  assumes ok: "daemon_ok c conf" and r: "recreate c cname info target w = (res, w')"
  shows "conf w' = conf w \<and> (\<exists>e. res = Inl e) \<or>
    conf w' = (conf w)(cname \<mapsto> (rollout_config (ir_Config info) target, ir_HostConfig info))"
proof -
  obtain k w1 where k: "dc_ContainerCreate c (rollout_config (ir_Config info) target) (ir_HostConfig info) cname w = (k, w1)"
    by force
  show ?thesis
  proof (cases k)
    case (Inl e)
    with r k daemon_changes(4) [OF ok k [unfolded Inl]] show ?thesis by (auto simp: recreate_def)
  next
    case (Inr cid)
    obtain s w2 where s: "dc_ContainerStart c cid w1 = (s, w2)" by force
    have "conf w' = conf w1"
      using r k s Inr daemon_keeps(2) [OF ok s] poll_health_loop_keeps [OF ok]
      by (fastforce simp: recreate_def pollHealth_def Let_def split: sum.splits if_splits prod.splits)
    with daemon_changes(5) [OF ok k [unfolded Inr]] show ?thesis by simp
  qed
qed

lemma rollout_cases:
  assumes "daemon_ok c conf" "Docker_Rollout c iid target w = (res, w')"
  defines "cname \<equiv> containerPrefix @ iid"
  shows "conf w' = conf w \<and> (\<exists>e. res = Inl e) \<or>
    conf w' = (conf w)(cname := None) \<and> (\<exists>e. res = Inl e) \<or>
    (\<exists>cc hc. conf w cname = Some (cc, hc) \<and> conf w' = (conf w)(cname \<mapsto> (rollout_config cc target, hc)))"
proof -
  note ok = assms(1)
  obtain i w1 where i: "dc_ContainerInspect c cname w = (i, w1)" by force
  obtain p w2 where p: "dc_ImagePull c (refString target) w1 = (p, w2)" by force
  obtain s w3 where s: "dc_ContainerStop c cname stopTimeout w2 = (s, w3)" by force
  obtain r w4 where r: "dc_ContainerRemove c cname w3 = (r, w4)" by force
  note keeps = daemon_keeps(6) [OF ok i] daemon_keeps(1) [OF ok p] daemon_keeps(3) [OF ok s]
  note unf = assms(2) [unfolded Docker_Rollout_def Let_def cname_def [symmetric] i p s r prod.case]
  show ?thesis
  proof (cases "\<exists>info. i = Inr info \<and> isl p = False \<and> isl s = False \<and> isl r = False")
    case False
    then have "conf w' = conf w \<and> (\<exists>e. res = Inl e)"
      using unf keeps i p s r daemon_changes(2) [OF ok, of cname w3] by (auto split: sum.splits prod.splits)
    then show ?thesis by blast
  next
    case True
    then obtain info where info: "i = Inr info" and oks: "\<not> isl p" "\<not> isl s" "\<not> isl r" by auto
    from oks obtain u where u: "r = Inr u" by (cases r) auto
    have w4: "conf w4 = (conf w)(cname := None)"
      using keeps daemon_changes(3) [OF ok r [unfolded u]] by simp
    have "recreate c cname info target w4 = (res, w')"
      using unf info oks by (auto split: sum.splits)
    from recreate_conf [OF ok this] w4 daemon_changes(1) [OF ok i [unfolded info]] show ?thesis
      by (auto simp: fun_upd_upd)
  qed
qed


lemma rollout_success:
  assumes "daemon_ok c conf" "Docker_Rollout c iid target w = (Inr u, w')"
  shows "\<exists>cc hc. conf w (containerPrefix @ iid) = Some (cc, hc) \<and>
    conf w' = (conf w)(containerPrefix @ iid \<mapsto> (rollout_config cc target, hc))"
  using rollout_cases [OF assms] by auto

lemma AList_update_same: "map_of al k = Some v \<Longrightarrow> AList.update k v al = al"
  by (induction al) (auto split: if_splits)

lemma rollout_config_back:
  assumes "cc_Image cc = refString previous" "map_of (cc_Labels cc) ''fox.image-digest'' = Some (img_Digest previous)"
  shows "rollout_config (rollout_config cc target) previous = cc"
  using assms by (simp add: rollout_config_def AList.update_last AList_update_same)


lemma rollout_missing:
  assumes ok: "daemon_ok c conf" and "conf w (containerPrefix @ iid) = None"
    and "Docker_Rollout c iid target w = (res, w')"
  shows "(\<exists>e. res = Inl e) \<and> conf w' (containerPrefix @ iid) = None"
  using rollout_cases [OF ok assms(3)] assms(2) by auto

text \<open>When a rollout removed the old container and could not recreate it, no rollback recovers
  the instance: every later rollback, to any image, fails and leaves it without a container.\<close>

theorem failed_recreate_unrecoverable:
  assumes "daemon_ok c conf" "Docker_Rollout c iid target w = (Inl e, w1)"
    and "conf w1 (containerPrefix @ iid) = None" "Docker_Rollback c iid previous w1 = (res, w2)"
  shows "(\<exists>e. res = Inl e) \<and> conf w2 (containerPrefix @ iid) = None"
  using rollout_missing [OF assms(1,3)] assms(4) by (simp add: Docker_Rollback_def)

section \<open>Environment of a container\<close>

text \<open>The variable an environment entry sets: the text before the first equals sign.\<close>

definition var_name :: "string \<Rightarrow> string" where
  "var_name l = takeWhile (\<lambda>ch. ch \<noteq> CHR ''='') l"

definition sets :: "string \<Rightarrow> string list \<Rightarrow> string list" where
  "sets k env = filter (\<lambda>l. var_name l = k) env"

definition without_env :: "provision_request \<Rightarrow> provision_request" where
  "without_env req = req\<lparr>pr_Config := (pr_Config req)\<lparr>ic_Env := []\<rparr>\<rparr>"

lemma var_name_env_entry: "CHR ''='' \<notin> set k \<Longrightarrow> var_name (env_entry k v) = k"
proof -
  assume "CHR ''='' \<notin> set k"
  then have "\<forall>x \<in> set k. x \<noteq> CHR ''=''" by blast
  then show ?thesis by (simp add: var_name_def env_entry_def)
qed

lemma blocked_upper: "k \<in> set blockedEnvKeys \<Longrightarrow> ToUpper k = k"
  unfolding blockedEnvKeys_def by (simp, elim disjE) (simp_all add: ToUpper_def upper_char_def)

lemma user_env_lines_reserved:
  assumes "user_env_lines kvs = Inr ls" "\<forall>(k, v) \<in> set kvs. CHR ''='' \<notin> set k" "r \<in> set blockedEnvKeys"
  shows "sets r ls = []"
  using assms(1,2)
proof (induction kvs arbitrary: ls rule: user_env_lines.induct)
  case (2 k v kvs)
  then have "ToUpper k \<notin> set blockedEnvKeys" by (auto split: if_splits)
  then have "k \<noteq> r" using blocked_upper [OF assms(3)] assms(3) by metis
  with 2 show ?case by (auto simp: sets_def var_name_env_entry split: if_splits sum.splits)
qed (simp add: sets_def)

lemma user_env_lines_Inl:
  "(\<exists>e. user_env_lines kvs = Inl e) \<longleftrightarrow> (\<exists>(k, v) \<in> set kvs. ToUpper k \<in> set blockedEnvKeys)"
  by (induction kvs rule: user_env_lines.induct) (auto split: sum.splits)

text \<open>With variable names free of equals signs, a requested environment that names a reserved
  variable, in any capitalisation, is refused before the daemon is contacted; any other requested
  environment leaves every reserved variable of the container with exactly the entries it has
  without one.\<close>

theorem docker_env_reserved:
  assumes "\<forall>(k, v) \<in> set (ic_Env (pr_Config req)). CHR ''='' \<notin> set k"
  shows "if \<exists>(k, v) \<in> set (ic_Env (pr_Config req)). ToUpper k \<in> set blockedEnvKeys
    then \<exists>e. Docker_Provision c req w = (Inl e, w)
    else \<exists>env env0. container_env req = Inr env \<and> container_env (without_env req) = Inr env0 \<and>
           (\<forall>r \<in> set blockedEnvKeys. sets r env = sets r env0)"
proof (cases "\<exists>(k, v) \<in> set (ic_Env (pr_Config req)). ToUpper k \<in> set blockedEnvKeys")
  case True
  then obtain e where "user_env_lines (ic_Env (pr_Config req)) = Inl e"
    using user_env_lines_Inl by blast
  with True show ?thesis by (simp add: Docker_Provision_def container_env_def Let_def)
next
  case False
  then obtain ls where ls: "user_env_lines (ic_Env (pr_Config req)) = Inr ls"
    using user_env_lines_Inl by (metis sum.exhaust)
  let ?cfg = "pr_Config req"
  let ?base = "[env_entry ''FOX_PLANE_AUTH_SECRET'' (ic_AuthSecret ?cfg)] @
      optional_env ''HERMES_WEBUI_PASSWORD'' (ic_InstancePassword ?cfg) @
      optional_env ''FOX_PROXY_ENDPOINT'' (ic_ProxyEndpoint ?cfg) @
      optional_env ''FOX_DATA_PLANE_URL'' (ic_DataPlaneURL ?cfg) @
      optional_env ''FOX_SKILLSET_PATH'' (ic_SkillsetPath ?cfg)"
  let ?cloud = "map (\<lambda>(k, v). env_entry k v) (pr_CloudEnv req)"
  have e: "container_env req = Inr (?base @ ls @ ?cloud)" "container_env (without_env req) = Inr (?base @ ?cloud)"
    by (simp_all add: container_env_def without_env_def ls Let_def)
  have "sets r (?base @ ls @ ?cloud) = sets r (?base @ ?cloud)" if "r \<in> set blockedEnvKeys" for r
    using user_env_lines_reserved [OF ls assms that] by (simp add: sets_def)
  with False e show ?thesis by auto
qed

text \<open>A name holding an equals sign slips through: the container gets a second entry for a reserved
  variable.\<close>

lemma env_name_with_equals:
  "ToUpper ''FOX_PLANE_AUTH_SECRET=x'' \<notin> set blockedEnvKeys \<and>
   var_name (env_entry ''FOX_PLANE_AUTH_SECRET=x'' v) = ''FOX_PLANE_AUTH_SECRET''"
  by (simp add: blockedEnvKeys_def ToUpper_def upper_char_def var_name_def env_entry_def)

section \<open>A daemon\<close>

text \<open>A daemon that keeps a list of named containers and refuses to create the image \<open>bad\<close>; every
  probe answers 200.\<close>

type_synonym sample_world = "(string \<times> container_config \<times> host_config) list"

definition sample_client :: "string \<Rightarrow> sample_world docker_client" where
  "sample_client bad =
     \<lparr>dc_ImagePull = (\<lambda>r w. (Inr (), w)),
      dc_ContainerCreate = (\<lambda>cc hc n w. if cc_Image cc = bad then (Inl (Errorf ''bad image''), w) else (Inr n, AList.update n (cc, hc) w)),
      dc_ContainerStart = (\<lambda>i w. (Inr (), w)),
      dc_ContainerStop = (\<lambda>n t w. (Inr (), w)),
      dc_ContainerRemove = (\<lambda>n w. (Inr (), AList.delete n w)),
      dc_ContainerInspect = (\<lambda>n w. case map_of w n of None \<Rightarrow> (Inl (Errorf ''no such container''), w)
         | Some (cc, hc) \<Rightarrow> (Inr \<lparr>ir_ID = n, ir_Running = True, ir_Config = cc, ir_HostConfig = hc\<rparr>, w)),
      dc_ContainerLogs = (\<lambda>n opts w. (Inr '''', w)),
      dc_ContainerStats = (\<lambda>n w. (Inr '''', w)),
      dc_DecodeStats = (\<lambda>b. Inl (Errorf ''EOF'')),
      dc_IsNotFound = (\<lambda>e. False),
      dc_Get = (\<lambda>u w. (Inr 200, w)),
      dc_wait = (\<lambda>d w. (None, w)),
      dc_now = (\<lambda>w. 0)\<rparr>"

lemma sample_daemon: "daemon_ok (sample_client bad) map_of"
  unfolding daemon_ok_def sample_client_def
  by (auto simp: AList.update_conv' AList.delete_conv' split: option.splits)

definition sample_ref :: "string \<Rightarrow> image_ref" where
  "sample_ref d = \<lparr>img_Repository = ''fox'', img_Digest = d\<rparr>"

definition sample_request :: "(string \<times> string) list \<Rightarrow> provision_request" where
  "sample_request env =
     \<lparr>pr_InstanceID = ''a'', pr_Image = sample_ref ''d1'',
      pr_Config = \<lparr>ic_AuthSecret = ''s'', ic_InstancePassword = ''p'', ic_ProxyEndpoint = '''', ic_CapabilityFlags = [],
        ic_Env = env, ic_SkillsetPath = '''', ic_DataPlaneURL = '''', ic_PrincipalRole = ''''\<rparr>,
      pr_Port = 8801, pr_DataDir = ''/d/a'', pr_CloudEnv = []\<rparr>"

definition sample_start :: sample_world where
  "sample_start = [(''fox-a'', container_config_of (sample_request []) [''FOX_PLANE_AUTH_SECRET=s''], host_config_of (sample_request []))]"

lemma sample_pollHealth: "pollHealth (sample_client bad) port w = (Inr (), w)"
  by (simp add: pollHealth_def healthPollMax_def sample_client_def httpProbe_def eval_nat_numeral)

lemma sample_calls:
  "dc_ImagePull (sample_client bad) r w = (Inr (), w)"
  "dc_ContainerCreate (sample_client bad) cc hc n w =
     (if cc_Image cc = bad then (Inl (Errorf ''bad image''), w) else (Inr n, AList.update n (cc, hc) w))"
  "dc_ContainerStart (sample_client bad) i w = (Inr (), w)"
  "dc_ContainerStop (sample_client bad) n t w = (Inr (), w)"
  "dc_ContainerRemove (sample_client bad) n w = (Inr (), AList.delete n w)"
  "dc_ContainerInspect (sample_client bad) n w =
     (case map_of w n of None \<Rightarrow> (Inl (Errorf ''no such container''), w)
      | Some (cc, hc) \<Rightarrow> (Inr \<lparr>ir_ID = n, ir_Running = True, ir_Config = cc, ir_HostConfig = hc\<rparr>, w))"
  by (simp_all add: sample_client_def)

lemma sample_Rollout:
  assumes "map_of w (containerPrefix @ iid) = Some (cc, hc)"
  shows "Docker_Rollout (sample_client bad) iid t w =
    (if refString t = bad
     then (Inl (Wrap (''docker: recreate '' @ containerPrefix @ iid) (Errorf ''bad image'')), AList.delete (containerPrefix @ iid) w)
     else (Inr (), AList.update (containerPrefix @ iid) (rollout_config cc t, hc) (AList.delete (containerPrefix @ iid) w)))"
  using assms by (simp add: Docker_Rollout_def recreate_def sample_pollHealth sample_calls Let_def rollout_config_def)

lemma sample_refString [simp]: "refString (sample_ref d) = (if d = '''' then ''fox'' else ''fox@'' @ d)"
  by (simp add: refString_def sample_ref_def)


theorem failed_recreate_unrecoverable_witness:
  "map_of (snd (Docker_Rollback (sample_client ''fox@d3'') ''a'' (sample_ref ''d1'')
     (snd (Docker_Rollout (sample_client ''fox@d3'') ''a'' (sample_ref ''d3'') sample_start)))) (containerPrefix @ ''a'') = None"
proof -
  have st: "map_of sample_start (containerPrefix @ ''a'') =
      Some (container_config_of (sample_request []) [''FOX_PLANE_AUTH_SECRET=s''], host_config_of (sample_request []))"
    by (simp add: sample_start_def containerPrefix_def)
  note r = sample_Rollout [OF st, of "''fox@d3''" "sample_ref ''d3''", simplified]
  have gone: "map_of (AList.delete (containerPrefix @ ''a'') sample_start) (containerPrefix @ ''a'') = None" by (simp add: AList.delete_conv')
  let ?b = "Docker_Rollback (sample_client ''fox@d3'') ''a'' (sample_ref ''d1'') (AList.delete (containerPrefix @ ''a'') sample_start)"
  from failed_recreate_unrecoverable [OF sample_daemon r gone, of "sample_ref ''d1''" "fst ?b" "snd ?b"] r
  show ?thesis by simp
qed


theorem docker_env_reserved_witness:
  "(\<exists>e. Docker_Provision (sample_client '''') (sample_request [(''PATH'', ''/x'')]) [] = (Inl e, [])) \<and>
   container_env (sample_request [(''LANG'', ''C'')]) = Inr [''FOX_PLANE_AUTH_SECRET=s'', ''HERMES_WEBUI_PASSWORD=p'', ''LANG=C'']"
proof
  have e: "ic_Env (pr_Config (sample_request env)) = env" for env by (simp add: sample_request_def)
  have u: "ToUpper ''PATH'' \<in> set blockedEnvKeys" by code_simp
  show "\<exists>e. Docker_Provision (sample_client '''') (sample_request [(''PATH'', ''/x'')]) [] = (Inl e, [])"
    using docker_env_reserved [of "sample_request [(''PATH'', ''/x'')]" "sample_client ''''" "[]"] e u by simp
  show "container_env (sample_request [(''LANG'', ''C'')]) = Inr [''FOX_PLANE_AUTH_SECRET=s'', ''HERMES_WEBUI_PASSWORD=p'', ''LANG=C'']"
    by code_simp
qed

end
