(* ===== verification/Chunker.thy ===== *)
theory Chunker
  imports Fleet_Prelude
begin

text \<open>
  \<^verbatim>\<open>data-plane/chunker/chunker.go\<close>: cutting a document into overlapping chunks. A text is its list of
  runes. Slicing \<^verbatim>\<open>runes[start:end]\<close> with \<open>stop < start\<close> panics in Go (it takes a negative chunk size);
  that is the result \<open>None\<close>. The loop moves its start forward by at least one rune, which is why it
  ends.
\<close>

type_synonym rune = nat

record chunk_options =
  ck_ChunkSize :: int
  ck_Overlap :: int

record chunk =
  ch_Text :: "rune list"
  ch_Index :: nat

definition DefaultChunkSize :: int where "DefaultChunkSize = 512"
definition DefaultOverlap :: int where "DefaultOverlap = 64"

definition chunker_applyDefaults :: "chunk_options \<Rightarrow> chunk_options" where
  "chunker_applyDefaults o' =
     (if ck_ChunkSize o' = 0
      then (let o1 = o'\<lparr>ck_ChunkSize := DefaultChunkSize\<rparr>
            in if ck_Overlap o1 = 0 then o1\<lparr>ck_Overlap := DefaultOverlap\<rparr> else o1)
      else o')"

definition next_start :: "int \<Rightarrow> int \<Rightarrow> nat \<Rightarrow> nat" where
  "next_start sz overlap start =
     (let next = int start + sz - overlap in if next \<le> int start then start + 1 else nat next)"

lemma next_start_greater: "start < next_start sz overlap start"
  by (simp add: next_start_def Let_def) linarith

function split_loop :: "rune list \<Rightarrow> int \<Rightarrow> int \<Rightarrow> nat \<Rightarrow> nat \<Rightarrow> chunk list option" where
  "split_loop runes sz overlap start idx =
     (if start < length runes
      then let e = int start + sz; stop = (if e > int (length runes) then int (length runes) else e) in
           if stop < int start then None
           else map_option (Cons \<lparr>ch_Text = take (nat stop - start) (drop start runes), ch_Index = idx\<rparr>)
                  (split_loop runes sz overlap (next_start sz overlap start) (idx + 1))
      else Some [])"
  by pat_completeness auto
termination
  by (relation "measure (\<lambda>(runes, sz, overlap, start, idx). length runes - start)")
    (auto intro: diff_less_mono2 next_start_greater)

definition Split :: "rune list \<Rightarrow> chunk_options \<Rightarrow> chunk list option" where
  "Split text opts =
     (let o1 = chunker_applyDefaults opts in
      if length text = 0 then Some [] else split_loop text (ck_ChunkSize o1) (ck_Overlap o1) 0 0)"

section \<open>Nothing is lost\<close>

declare split_loop.simps [simp del]

text \<open>The stride between chunk starts.\<close>

definition stride :: "int \<Rightarrow> int \<Rightarrow> nat" where
  "stride sz overlap = (if sz - overlap \<le> 0 then 1 else nat (sz - overlap))"

lemma next_start_stride: "next_start sz overlap start = start + stride sz overlap"
  by (auto simp: next_start_def stride_def Let_def)

lemma stride_pos: "0 < stride sz overlap"
  by (simp add: stride_def)

text \<open>Chunk \<open>i\<close> is the window of \<open>sz\<close> runes at \<open>i\<close> strides.\<close>

definition window :: "rune list \<Rightarrow> nat \<Rightarrow> nat \<Rightarrow> rune list" where
  "window runes start len = take len (drop start runes)"

lemma count_step:
  fixes n s :: nat
  assumes "0 < n" "0 < s"
  shows "(n + s - 1) div s = Suc ((n - s + s - 1) div s)"
proof -
  obtain m where m: "n = Suc m" using assms(1) by (cases n) auto
  have "(n + s - 1) div s = Suc (m div s)" using m assms(2) div_add_self2 [of s m] by simp
  moreover have "(n - s + s - 1) div s = m div s" using m assms(2) by (cases "s \<le> n") auto
  ultimately show ?thesis by simp
qed

lemma map_upt_Cons: "map f [0..<Suc n] = f 0 # map (\<lambda>k. f (Suc k)) [0..<n]"
  by (induction n) auto

lemma split_loop_window:
  assumes "0 \<le> sz"
  shows "split_loop runes sz overlap start idx =
    Some (map (\<lambda>k. \<lparr>ch_Text = window runes (start + k * stride sz overlap) (nat sz), ch_Index = idx + k\<rparr>)
      [0..<(length runes - start + stride sz overlap - 1) div stride sz overlap])"
  using assms
proof (induction runes sz overlap start idx rule: split_loop.induct)
  case (1 runes sz overlap start idx)
  let ?s = "stride sz overlap"
  show ?case
  proof (cases "start < length runes")
    case False
    have "length runes - start = 0" using False by simp
    then have "(length runes - start + ?s - 1) div ?s = 0" using stride_pos [of sz overlap] by simp
    with False show ?thesis by (subst split_loop.simps) simp
  next
    case True
    let ?stop = "if int start + sz > int (length runes) then int (length runes) else int start + sz"
    have e: "\<not> ?stop < int start" using True 1(2) by auto
    have "nat ?stop - start = min (nat sz) (length runes - start)" using True 1(2) by auto
    then have w: "take (nat ?stop - start) (drop start runes) = window runes start (nat sz)"
      by (simp add: window_def min_def)
    have c: "(length runes - start + ?s - 1) div ?s = Suc ((length runes - (start + ?s) + ?s - 1) div ?s)"
      using count_step [of "length runes - start" ?s] True stride_pos by simp
    note ih = 1(1) [OF True refl refl e 1(2), unfolded next_start_stride]
    show ?thesis
      unfolding c map_upt_Cons
      by (subst split_loop.simps) (simp only: True e Let_def if_True if_False next_start_stride ih w option.map, simp add: algebra_simps)
  qed
qed

lemma concat_windows: "concat (map (\<lambda>k. take s (drop (k * s) xs)) [0..<m]) = take (m * s) xs"
  by (induction m) (auto simp: take_add [symmetric] add.commute)

lemma count_covers:
  fixes n s :: nat
  assumes "0 < s"
  shows "n \<le> (n + s - 1) div s * s"
proof -
  have "(n + s - 1) div s * s + (n + s - 1) mod s = n + s - 1" by simp
  moreover have "(n + s - 1) mod s < s" using assms by simp
  ultimately show ?thesis using assms by linarith
qed

lemma stride_le: "0 < sz \<Longrightarrow> 0 \<le> overlap \<Longrightarrow> stride sz overlap \<le> nat sz"
  by (auto simp: stride_def)

lemma Split_windows:
  assumes "0 \<le> ck_ChunkSize (chunker_applyDefaults opts)"
  defines "sz \<equiv> ck_ChunkSize (chunker_applyDefaults opts)"
    and "s \<equiv> stride (ck_ChunkSize (chunker_applyDefaults opts)) (ck_Overlap (chunker_applyDefaults opts))"
  shows "Split text opts = Some (map (\<lambda>k. \<lparr>ch_Text = window text (k * s) (nat sz), ch_Index = k\<rparr>)
    [0..<(length text + s - 1) div s])"
proof (cases "text = []")
  case True
  have "(0 + s - 1) div s = 0" using stride_pos unfolding s_def by simp
  with True show ?thesis by (simp add: Split_def)
next
  case False
  with split_loop_window [OF assms(1), of "text" "ck_Overlap (chunker_applyDefaults opts)" 0 0] show ?thesis
    by (simp add: Split_def sz_def s_def Let_def)
qed

text \<open>C38: Chunking always succeeds for a positive chunk size and a non-negative overlap: the chunks are
  numbered from 0, none is empty or longer than the chunk size, and the text is the chunks with
  their overlaps (all but the first stride of each) removed, so no part of a document is lost.\<close>

theorem chunks_cover_text:
  assumes "0 < ck_ChunkSize (chunker_applyDefaults opts)" "0 \<le> ck_Overlap (chunker_applyDefaults opts)"
  defines "s \<equiv> stride (ck_ChunkSize (chunker_applyDefaults opts)) (ck_Overlap (chunker_applyDefaults opts))"
  shows "\<exists>cs. Split text opts = Some cs \<and> map ch_Index cs = [0..<length cs] \<and>
    concat (map (\<lambda>c. take s (ch_Text c)) cs) = text \<and>
    (\<forall>c \<in> set cs. ch_Text c \<noteq> [] \<and> int (length (ch_Text c)) \<le> ck_ChunkSize (chunker_applyDefaults opts))"
proof -
  let ?sz = "ck_ChunkSize (chunker_applyDefaults opts)"
  let ?m = "(length text + s - 1) div s"
  let ?cs = "map (\<lambda>k. \<lparr>ch_Text = window text (k * s) (nat ?sz), ch_Index = k\<rparr>) [0..<?m]"
  have s: "0 < s" "s \<le> nat ?sz" unfolding s_def using stride_pos stride_le assms(1,2) by auto
  have "concat (map (\<lambda>c. take s (ch_Text c)) ?cs) = take (?m * s) text"
    using s(2) by (simp add: window_def min_absorb1 concat_windows [symmetric] o_def)
  then have cover: "concat (map (\<lambda>c. take s (ch_Text c)) ?cs) = text"
    using count_covers [OF s(1), of "length text"] by simp
  have lt: "k * s < length text" if "k < ?m" for k
  proof -
    have "Suc k * s \<le> length text + s - 1"
      using that s(1) by (metis Suc_leI div_le_mono div_mult_self_is_m less_eq_div_iff_mult_less_eq mult.commute)
    then show ?thesis using s(1) by simp
  qed
  then have "window text (k * s) (nat ?sz) \<noteq> [] \<and> int (length (window text (k * s) (nat ?sz))) \<le> ?sz" if "k < ?m" for k
    using assms(1) lt [OF that] by (auto simp: window_def)
  then have "\<forall>c \<in> set ?cs. ch_Text c \<noteq> [] \<and> int (length (ch_Text c)) \<le> ?sz"
    by (auto simp del: One_nat_def)
  moreover have "Split text opts = Some ?cs" using Split_windows [of opts "text"] assms(1) unfolding s_def by simp
  moreover have "map ch_Index ?cs = [0..<length ?cs]" by (simp add: o_def)
  ultimately show ?thesis using cover by blast
qed

theorem chunks_cover_text_witness:
  "\<exists>cs. Split [1, 2, 3, 4, 5] \<lparr>ck_ChunkSize = 3, ck_Overlap = 1\<rparr> = Some cs \<and>
    concat (map (\<lambda>c. take 2 (ch_Text c)) cs) = [1, 2, 3, 4, 5]"
proof -
  have d: "chunker_applyDefaults \<lparr>ck_ChunkSize = 3, ck_Overlap = 1\<rparr> = \<lparr>ck_ChunkSize = 3, ck_Overlap = 1\<rparr>"
    by (simp add: chunker_applyDefaults_def)
  have "stride 3 1 = 2" by (simp add: stride_def)
  with chunks_cover_text [of "\<lparr>ck_ChunkSize = 3, ck_Overlap = 1\<rparr>" "[1, 2, 3, 4, 5]"] show ?thesis
    unfolding d by auto
qed

end
