(* ===== verification/Go_Http.thy ===== *)
theory Go_Http
  imports Complex_Main Go_Net Go_Encoding
begin

text \<open>
  What the clients of the data plane use of \<^verbatim>\<open>net/http\<close> and \<^verbatim>\<open>net/url\<close>. A request body is a typed value
  (the JSON document it is marshalled to). The peer is a record of functions over the world \<open>'w\<close>:
  \<open>ht_NewRequest\<close> is the check of a URL, \<open>ht_Do\<close> sends a request and answers the response's status and
  what decoding its body as JSON gives.
\<close>

record 'b http_request =
  hr_Method :: string
  hr_URL :: string
  hr_Headers :: "(string \<times> string) list"
  hr_Body :: "'b option"

record ('b, 'r, 'w) http_peer =
  ht_NewRequest :: "string \<Rightarrow> go_error option"
  ht_Do :: "'b http_request \<Rightarrow> 'w \<Rightarrow> (int \<times> 'r result) result \<times> 'w"

text \<open>The dash of the batch messages, U+2013 in UTF-8.\<close>

definition en_dash :: string where "en_dash = [CHR 0xE2, CHR 0x80, CHR 0x93]"

text \<open>\<^verbatim>\<open>url.PathEscape\<close>.\<close>

definition path_segment_char :: "char \<Rightarrow> bool" where
  "path_segment_char c \<longleftrightarrow>
     (let n = (of_char c :: nat) in
      48 \<le> n \<and> n \<le> 57 \<or> 65 \<le> n \<and> n \<le> 90 \<or> 97 \<le> n \<and> n \<le> 122 \<or> c \<in> set ''-_.~$&+=:@'')"

definition escape_segment_char :: "char \<Rightarrow> string" where
  "escape_segment_char c =
     (if path_segment_char c then [c]
      else [CHR ''%'', ''0123456789ABCDEF'' ! (of_char c div 16), ''0123456789ABCDEF'' ! (of_char c mod 16)])"

definition PathEscape :: "string \<Rightarrow> string" where
  "PathEscape s = concat (map escape_segment_char s)"

lemma PathEscape_no_slash: "CHR ''/'' \<notin> set (PathEscape s)"
proof -
  have d: "\<forall>d \<in> set [0..<16]. ''0123456789ABCDEF'' ! d \<noteq> CHR ''/''" by code_simp
  have lt: "(of_char c :: nat) div 16 < 16" "(of_char c :: nat) mod 16 < 16" for c
    using of_char_less [of c] by linarith+
  have p: "\<not> path_segment_char (CHR ''/'')" by code_simp
  have "CHR ''/'' \<notin> set (escape_segment_char c)" for c
  proof (cases "path_segment_char c")
    case True
    then show ?thesis using p by (auto simp: escape_segment_char_def)
  next
    case False
    have "''0123456789ABCDEF'' ! (of_char c div 16) \<noteq> CHR ''/''" "''0123456789ABCDEF'' ! (of_char c mod 16) \<noteq> CHR ''/''"
      using d lt [of c] unfolding set_upt by (meson atLeastLessThan_iff zero_le)+
    with False show ?thesis by (simp add: escape_segment_char_def)
  qed
  then show ?thesis by (auto simp: PathEscape_def)
qed

end
