(* ===== verification/Go_Server.thy ===== *)
theory Go_Server
  imports Go_Http
begin

text \<open>
  What the servers use of \<^verbatim>\<open>net/http\<close>: a request as a handler sees it, a response, and \<^verbatim>\<open>http.ServeMux\<close>.
  A path is the list of its segments after the first slash, unescaped, so \<^verbatim>\<open>/a/b\<close> is two segments and
  \<^verbatim>\<open>/a/\<close> ends in an empty one; a path with a dot segment or a double slash never reaches a handler
  (the mux redirects it to its clean form). Header names are in canonical form.
\<close>

record 'b http_incoming =
  rq_Method :: string
  rq_Host :: string
  rq_Path :: "string list"
  rq_Query :: "(string \<times> string) list"
  rq_Headers :: "(string \<times> string) list"
  rq_Cookies :: "(string \<times> string) list"
  rq_RemoteAddr :: string
  rq_TLS :: bool
  rq_Body :: 'b

record 'b http_response =
  rs_Code :: int
  rs_Headers :: "(string \<times> string) list"
  rs_Body :: 'b

definition assoc_get :: "(string \<times> string) list \<Rightarrow> string \<Rightarrow> string" where
  "assoc_get m k = (case map_of m k of None \<Rightarrow> '''' | Some v \<Rightarrow> v)"

definition Header_Get :: "'b http_incoming \<Rightarrow> string \<Rightarrow> string" where
  "Header_Get r k = assoc_get (rq_Headers r) k"

text \<open>The credential of an \<^verbatim>\<open>Authorization: Bearer\<close> header.\<close>

definition bearer_token :: "'b http_incoming \<Rightarrow> string" where
  "bearer_token r =
     (let h = Header_Get r ''Authorization'' in
      if HasPrefix h ''Bearer '' then drop (length ''Bearer '') h else '''')"

section \<open>Routing\<close>

datatype segment = Lit string | Wild string | Subtree

type_synonym pattern = "string option \<times> segment list"

fun match_path :: "segment list \<Rightarrow> string list \<Rightarrow> (string \<times> string) list option" where
  "match_path [] [] = Some []"
| "match_path (Lit s # ps) (x # xs) = (if x = s then match_path ps xs else None)"
| "match_path (Wild n # ps) (x # xs) = (if x = '''' then None else map_option (\<lambda>m. (n, x) # m) (match_path ps xs))"
| "match_path [Subtree] (x # xs) = Some []"
| "match_path _ _ = None"

definition method_ok :: "string option \<Rightarrow> string \<Rightarrow> bool" where
  "method_ok pm m \<longleftrightarrow> (case pm of None \<Rightarrow> True | Some p \<Rightarrow> p = m \<or> p = ''GET'' \<and> m = ''HEAD'')"

datatype 'h routed = Routed 'h "(string \<times> string) list" | SlashRedirect | MethodNotAllowed | NotFound

text \<open>Tables list the more specific patterns first.\<close>

fun first_match :: "(pattern \<times> 'h) list \<Rightarrow> string \<Rightarrow> string list \<Rightarrow> (segment list \<times> 'h \<times> (string \<times> string) list) option" where
  "first_match [] m path = None"
| "first_match (((pm, segs), h) # rs) m path =
     (case match_path segs path of
        Some vals \<Rightarrow> if method_ok pm m then Some (segs, h, vals) else first_match rs m path
      | None \<Rightarrow> first_match rs m path)"

definition exact_match :: "segment list \<Rightarrow> string list \<Rightarrow> bool" where
  "exact_match segs path \<longleftrightarrow>
     (if segs \<noteq> [] \<and> last segs = Subtree then last path = '''' \<and> length segs = length path else True)"

text \<open>Some pattern that ends in a slash is exactly the path with a slash added.\<close>

definition slash_added :: "(pattern \<times> 'h) list \<Rightarrow> string \<Rightarrow> string list \<Rightarrow> bool" where
  "slash_added table m path \<longleftrightarrow>
     last path \<noteq> '''' \<and>
     (case first_match table m (path @ ['''']) of None \<Rightarrow> False | Some (segs, _, _) \<Rightarrow> exact_match segs (path @ ['''']))"

definition serve_mux :: "(pattern \<times> 'h) list \<Rightarrow> string \<Rightarrow> string list \<Rightarrow> 'h routed" where
  "serve_mux table m path =
     (case first_match table m path of
        Some (segs, h, vals) \<Rightarrow>
          if \<not> exact_match segs path \<and> slash_added table m path then SlashRedirect else Routed h vals
      | None \<Rightarrow>
          if slash_added table m path then SlashRedirect
          else if list_ex (\<lambda>((_, segs), _). match_path segs path \<noteq> None) table then MethodNotAllowed
          else NotFound)"

end
