(* ===== verification/Go_Json.thy ===== *)
theory Go_Json
  imports Config_Inject
begin

text \<open>
  \<^verbatim>\<open>encoding/json\<close> for a \<^verbatim>\<open>map[string]string\<close>, as the source registry's configuration column uses it:
  \<^verbatim>\<open>json.Marshal\<close> (keys in sorted order, no blanks) and \<^verbatim>\<open>json.Unmarshal\<close> (blanks between tokens, every
  escape sequence, \<^verbatim>\<open>null\<close> as the zero value; any other document is an error). A parser takes the
  text and returns what it read and the unread rest. Texts are UTF-8.
\<close>

section \<open>Reading\<close>

definition json_blank :: "char \<Rightarrow> bool" where
  "json_blank c \<longleftrightarrow> c = CHR '' '' \<or> c = CHR 0x09 \<or> c = CHR 0x0A \<or> c = CHR 0x0D"

definition skip_blanks :: "string \<Rightarrow> string" where
  "skip_blanks s = dropWhile json_blank s"

definition hex_val :: "char \<Rightarrow> nat option" where
  "hex_val c =
     (let n = of_char c in
      if 48 \<le> n \<and> n \<le> 57 then Some (n - 48)
      else if 97 \<le> n \<and> n \<le> 102 then Some (n - 87)
      else if 65 \<le> n \<and> n \<le> 70 then Some (n - 55) else None)"

fun read_hex4 :: "string \<Rightarrow> (nat \<times> string) option" where
  "read_hex4 (a # b # c # d # r) =
     (case (hex_val a, hex_val b, hex_val c, hex_val d) of
        (Some p, Some q, Some s, Some t) \<Rightarrow> Some (((p * 16 + q) * 16 + s) * 16 + t, r)
      | _ \<Rightarrow> None)"
| "read_hex4 _ = None"

definition utf8_encode :: "nat \<Rightarrow> string" where
  "utf8_encode n =
     map char_of
       (if n < 128 then [n]
        else if n < 2048 then [192 + n div 64, 128 + n mod 64]
        else if n < 65536 then [224 + n div 4096, 128 + n div 64 mod 64, 128 + n mod 64]
        else [240 + n div 262144, 128 + n div 4096 mod 64, 128 + n div 64 mod 64, 128 + n mod 64])"

text \<open>A \<^verbatim>\<open>\u\<close> escape: a surrogate followed by its partner is one character, a lone surrogate is
  U+FFFD. The text after the four digits is given.\<close>

definition read_u :: "nat \<Rightarrow> string \<Rightarrow> string \<times> string" where
  "read_u n r =
     (if 55296 \<le> n \<and> n < 57344
      then (case r of
              b # u # r1 \<Rightarrow>
                (if b = CHR 0x5C \<and> u = CHR ''u''
                 then (case read_hex4 r1 of
                         Some (m, r2) \<Rightarrow>
                           (if n < 56320 \<and> 56320 \<le> m \<and> m < 57344
                            then (utf8_encode (65536 + (n - 55296) * 1024 + (m - 56320)), r2)
                            else (utf8_encode 65533, r))
                       | None \<Rightarrow> (utf8_encode 65533, r))
                 else (utf8_encode 65533, r))
            | _ \<Rightarrow> (utf8_encode 65533, r))
      else (utf8_encode n, r))"

definition simple_escape :: "char \<Rightarrow> char option" where
  "simple_escape c =
     (if c = CHR 0x22 \<or> c = CHR 0x5C \<or> c = CHR ''/'' then Some c
      else if c = CHR ''b'' then Some (CHR 0x08) else if c = CHR ''f'' then Some (CHR 0x0C)
      else if c = CHR ''n'' then Some (CHR 0x0A) else if c = CHR ''r'' then Some (CHR 0x0D)
      else if c = CHR ''t'' then Some (CHR 0x09) else None)"

text \<open>The rest of a string literal, up to and including its closing quote. The scanner checks every
  escape first, so an incomplete partner escape is an error of the document as well.\<close>

lemma read_hex4_length: "read_hex4 s = Some (n, r) \<Longrightarrow> length r < length s"
  by (induction s rule: read_hex4.induct) (auto split: option.splits)

lemma read_u_length: "length (snd (read_u n r)) \<le> length r"
  by (auto simp: read_u_def split: if_splits list.splits option.splits dest!: read_hex4_length)

function read_string :: "string \<Rightarrow> (string \<times> string) option" where
  "read_string [] = None"
| "read_string (c # r) =
     (if c = CHR 0x22 then Some ([], r)
      else if c = CHR 0x5C
      then (case r of
              [] \<Rightarrow> None
            | e # r1 \<Rightarrow>
                (if e = CHR ''u''
                 then (case read_hex4 r1 of
                         None \<Rightarrow> None
                       | Some (n, r2) \<Rightarrow>
                           map_option (\<lambda>(t, r4). (fst (read_u n r2) @ t, r4)) (read_string (snd (read_u n r2))))
                 else case simple_escape e of
                        None \<Rightarrow> None
                      | Some d \<Rightarrow> map_option (\<lambda>(t, r2). (d # t, r2)) (read_string r1)))
      else if (of_char c :: nat) < 32 then None
      else map_option (\<lambda>(t, r1). (c # t, r1)) (read_string r))"
  by pat_completeness auto
termination
proof (relation "measure length", goal_cases)
  case (2 c r e r1 p n r2)
  then have "length (snd (read_u n r2)) < length r1"
    using read_u_length [of n r2] read_hex4_length [of r1 n r2] by simp
  with 2 show ?case by simp
qed auto

declare read_string.simps [simp del]

lemma read_string_length: "read_string s = Some (t, r) \<Longrightarrow> length r < length s"
proof (induction s arbitrary: t r rule: read_string.induct)
  case 1
  then show ?case by (simp add: read_string.simps)
next
  case (2 c r t r')
  show ?case
  proof (cases "c = CHR 0x5C")
    case False
    with 2 show ?thesis by (auto simp: read_string.simps(2) split: if_splits)
  next
    case True
    with 2(4) obtain e r1 where r: "r = e # r1" by (auto simp: read_string.simps(2) split: list.splits)
    show ?thesis
    proof (cases "e = CHR ''u''")
      case e: True
      with 2(4) True r obtain n r2 where n: "read_hex4 r1 = Some (n, r2)"
        by (auto simp: read_string.simps(2) split: option.splits)
      with 2(4) True r e obtain t1 where "read_string (snd (read_u n r2)) = Some (t1, r')"
        by (auto simp: read_string.simps(2))
      then have "length r' < length (snd (read_u n r2))" using 2(1) True r e n by simp
      then show ?thesis using read_u_length [of n r2] read_hex4_length [OF n] r by simp
    next
      case False
      with 2(4) True r obtain d t1 where "simple_escape e = Some d" "read_string r1 = Some (t1, r')"
        by (auto simp: read_string.simps(2) split: option.splits)
      then show ?thesis using 2(2) [of e r1 d t1 r'] True r False by simp
    qed
  qed
qed

text \<open>\<^verbatim>\<open>null\<close> or a string, then the members of an object after its opening brace.\<close>

definition read_value :: "string \<Rightarrow> (string \<times> string) option" where
  "read_value s =
     (case s of
        c # r \<Rightarrow> (if c = CHR 0x22 then read_string r
                  else if HasPrefix s ''null'' then Some ('''', drop 4 s) else None)
      | [] \<Rightarrow> None)"

definition expect :: "char \<Rightarrow> string \<Rightarrow> string option" where
  "expect c s = (case skip_blanks s of [] \<Rightarrow> None | d # r \<Rightarrow> if d = c then Some r else None)"

definition read_member :: "string \<Rightarrow> ((string \<times> string) \<times> string) option" where
  "read_member s =
     (case expect (CHR 0x22) s of
        None \<Rightarrow> None
      | Some r1 \<Rightarrow>
          (case read_string r1 of
             None \<Rightarrow> None
           | Some (k, r2) \<Rightarrow>
               (case expect (CHR '':'') r2 of
                  None \<Rightarrow> None
                | Some r3 \<Rightarrow> map_option (\<lambda>(v, r4). ((k, v), r4)) (read_value (skip_blanks r3)))))"

lemma expect_length: "expect c s = Some r \<Longrightarrow> length r < length s"
proof -
  assume e: "expect c s = Some r"
  then have "skip_blanks s = c # r" by (auto simp: expect_def split: list.splits if_splits)
  moreover have "length (skip_blanks s) \<le> length s" by (simp add: skip_blanks_def length_dropWhile_le)
  ultimately show ?thesis by simp
qed

lemma read_value_length: "read_value s = Some (v, r) \<Longrightarrow> length r < length s"
  by (auto simp: read_value_def split: list.splits if_splits dest: read_string_length)

lemma read_member_length: "read_member s = Some (kv, r) \<Longrightarrow> length r < length s"
proof -
  assume "read_member s = Some (kv, r)"
  then obtain r1 k r2 r3 v where e: "expect (CHR 0x22) s = Some r1" "read_string r1 = Some (k, r2)"
    "expect (CHR '':'') r2 = Some r3" "read_value (skip_blanks r3) = Some (v, r)"
    by (auto simp: read_member_def split: option.splits)
  have "length (skip_blanks r3) \<le> length r3" by (simp add: skip_blanks_def length_dropWhile_le)
  with read_string_length [OF e(2)] read_value_length [OF e(4)] expect_length [OF e(1)] expect_length [OF e(3)]
  show ?thesis by simp
qed

text \<open>The members after the first, each announced by a comma, and the closing brace; then nothing but
  blanks.\<close>

function read_members :: "string \<Rightarrow> (string \<times> string) list option" where
  "read_members s =
     (case read_member s of
        None \<Rightarrow> None
      | Some (kv, r) \<Rightarrow>
          (case expect (CHR '','') r of
             Some r1 \<Rightarrow> map_option (Cons kv) (read_members r1)
           | None \<Rightarrow>
               (case expect (CHR ''}'') r of
                  Some r1 \<Rightarrow> if skip_blanks r1 = [] then Some [kv] else None
                | None \<Rightarrow> None)))"
  by pat_completeness auto
termination
  by (relation "measure length") (auto dest!: read_member_length expect_length)

declare read_members.simps [simp del]

text \<open>\<^verbatim>\<open>json.Unmarshal(s, &m)\<close> for a nil map \<^verbatim>\<open>m\<close>: the members in reading order, of which the last with a
  given key counts; \<^verbatim>\<open>null\<close> leaves the map nil.\<close>

definition Unmarshal_map :: "string \<Rightarrow> (string \<times> string) list option" where
  "Unmarshal_map s =
     (case expect (CHR ''{'') s of
        Some r \<Rightarrow>
          (case expect (CHR ''}'') r of
             Some r1 \<Rightarrow> if skip_blanks r1 = [] then Some [] else None
           | None \<Rightarrow> map_option (\<lambda>kvs. fold (\<lambda>(k, v). AList.update k v) kvs []) (read_members r))
      | None \<Rightarrow> if HasPrefix (skip_blanks s) ''null'' \<and> skip_blanks (drop 4 (skip_blanks s)) = [] then Some [] else None)"

definition Marshal_map :: "(string \<times> string) list \<Rightarrow> string" where
  "Marshal_map kvs =
     ''{'' @ strings_join (map (\<lambda>(k, v). json_quote k @ '':'' @ json_quote v) (sort_key fst kvs)) '','' @ ''}''"

section \<open>Reading back what was written\<close>

lemma hex_val_digit: "d < 16 \<Longrightarrow> hex_val (''0123456789abcdef'' ! d) = Some d"
proof -
  have "\<forall>d \<in> set [0..<16]. hex_val (''0123456789abcdef'' ! d) = Some d" by code_simp
  then show "d < 16 \<Longrightarrow> hex_val (''0123456789abcdef'' ! d) = Some d" by simp
qed

lemma read_hex4_hex4: "n < 256 \<Longrightarrow> read_hex4 (drop 2 (hex4 n) @ r) = Some (n, r)"
  by (simp add: hex4_def hex_val_digit) (simp add: hex_val_def)

lemma read_string_escape:
  "read_string (json_escape c @ r) = map_option (\<lambda>(t, r1). (c # t, r1)) (read_string r)"
proof -
  let ?n = "of_char c :: nat"
  have c: "c = char_of ?n" by simp
  have chars: "char_of (34 :: nat) = CHR 0x22" "char_of (92 :: nat) = CHR 0x5C" "char_of (10 :: nat) = CHR 0x0A"
    "char_of (13 :: nat) = CHR 0x0D" "char_of (9 :: nat) = CHR 0x09" "char_of (8 :: nat) = CHR 0x08"
    "char_of (12 :: nat) = CHR 0x0C" by code_simp+
  consider (q) "?n = 34 \<or> ?n = 92" | (s) "?n \<in> {10, 13, 9, 8, 12}"
    | (h) "?n \<notin> {34, 92, 10, 13, 9, 8, 12}" "?n < 32 \<or> ?n \<in> {38, 60, 62}"
    | (p) "?n \<notin> {34, 92}" "\<not> ?n < 32" "?n \<notin> {38, 60, 62}" by blast
  then show ?thesis
  proof cases
    case q
    then have "c = char_of (34 :: nat) \<or> c = char_of (92 :: nat)" using c by metis
    then have "c = CHR 0x22 \<or> c = CHR 0x5C" unfolding chars by blast
    then show ?thesis by (auto simp: json_escape_def read_string.simps simple_escape_def)
  next
    case s
    then have "c \<in> char_of ` {10, 13, 9, 8, 12 :: nat}" using c by blast
    then have "c \<in> {CHR 0x0A, CHR 0x0D, CHR 0x09, CHR 0x08, CHR 0x0C}" unfolding image_insert image_empty chars .
    then show ?thesis by (auto simp: json_escape_def read_string.simps simple_escape_def)
  next
    case h
    then have e: "json_escape c = hex4 ?n" by (auto simp: json_escape_def)
    have n: "?n < 256" "?n < 128" using h by auto
    have x: "hex4 ?n @ r = CHR 0x5C # CHR ''u'' # (drop 2 (hex4 ?n) @ r)" by (simp add: hex4_def)
    have "read_u ?n r = ([c], r)" using n by (simp add: read_u_def utf8_encode_def)
    then show ?thesis
      unfolding e x using read_hex4_hex4 [OF n(1), of r] by (simp add: read_string.simps(2))
  next
    case p
    then have e: "json_escape c = [c]" by (auto simp: json_escape_def)
    have "c \<noteq> CHR 0x22" "c \<noteq> CHR 0x5C" using p by auto
    then show ?thesis using p(2) by (simp add: e read_string.simps(2))
  qed
qed

lemma read_string_quote: "read_string (concat (map json_escape s) @ CHR 0x22 # r) = Some (s, r)"
  by (induction s) (simp_all add: read_string_escape, simp add: read_string.simps)

lemma expect_here: "\<not> json_blank c \<Longrightarrow> expect c (c # r) = Some r"
  by (simp add: expect_def skip_blanks_def)

lemma expect_other: "\<not> json_blank d \<Longrightarrow> d \<noteq> c \<Longrightarrow> expect c (d # r) = None"
  by (simp add: expect_def skip_blanks_def)

lemmas json_blanks = json_blank_def expect_here expect_other

lemma read_member_quote:
  "read_member (json_quote k @ '':'' @ json_quote v @ r) = Some ((k, v), r)"
  by (simp add: read_member_def json_quote_def json_blanks read_string_quote skip_blanks_def read_value_def)

lemma read_members_join:
  assumes "kvs \<noteq> []"
  shows "read_members (strings_join (map (\<lambda>(k, v). json_quote k @ '':'' @ json_quote v) kvs) '','' @ ''}'') = Some kvs"
  using assms
proof (induction kvs)
  case Nil
  then show ?case by simp
next
  case (Cons kv kvs)
  obtain k v where kv: "kv = (k, v)" by force
  show ?case
  proof (cases kvs)
    case Nil
    with kv show ?thesis
      using read_member_quote [of k v "''}''"] by (subst read_members.simps) (simp add: json_blanks skip_blanks_def)
  next
    case (Cons kv2 kvs2)
    let ?rest = "strings_join (map (\<lambda>(k, v). json_quote k @ '':'' @ json_quote v) kvs) '','' @ ''}''"
    have "strings_join (map (\<lambda>(k, v). json_quote k @ '':'' @ json_quote v) (kv # kvs)) '','' @ ''}'' =
        json_quote k @ '':'' @ json_quote v @ CHR '','' # ?rest"
      using kv Cons by simp
    moreover have "read_members ?rest = Some kvs" using Cons.IH Cons by simp
    ultimately show ?thesis
      using read_member_quote [of k v "CHR '','' # ?rest"] kv
      by (subst read_members.simps) (simp add: json_blanks)
  qed
qed

lemma fold_update_distinct:
  "distinct (map fst (acc @ kvs)) \<Longrightarrow> fold (\<lambda>(k, v). AList.update k v) kvs acc = acc @ kvs"
proof (induction kvs arbitrary: acc)
  case (Cons kv kvs)
  obtain k v where kv: "kv = (k, v)" by force
  have "k \<notin> fst ` set acc" using Cons.prems kv by auto
  then have "AList.update k v acc = acc @ [(k, v)]"
    by (induction acc) auto
  with Cons.IH [of "acc @ [(k, v)]"] Cons.prems kv show ?case by simp
qed simp

text \<open>A string map survives being written and read, in the order of its keys.\<close>

lemma Unmarshal_Marshal:
  assumes "distinct (map fst kvs)"
  shows "Unmarshal_map (Marshal_map kvs) = Some (sort_key fst kvs)"
proof (cases "kvs = []")
  case True
  then show ?thesis by (simp add: Marshal_map_def Unmarshal_map_def json_blanks skip_blanks_def)
next
  case False
  let ?s = "sort_key fst kvs"
  let ?t = "strings_join (map (\<lambda>(k, v). json_quote k @ '':'' @ json_quote v) ?s) '','' @ ''}''"
  have ne: "?s \<noteq> []" using False by (metis length_0_conv length_sort)
  then obtain k v s' where s: "?s = (k, v) # s'" by (cases ?s) auto
  obtain r where "?t = CHR 0x22 # r"
    unfolding s by (cases s') (auto simp: json_quote_def)
  then have "expect (CHR ''}'') ?t = None" by (simp add: json_blanks)
  moreover have "distinct (map fst ?s)" using assms by (simp add: distinct_map)
  then have "fold (\<lambda>(k, v). AList.update k v) ?s [] = ?s" using fold_update_distinct [of "[]" ?s] by simp
  ultimately show ?thesis
    using read_members_join [OF ne] by (simp add: Marshal_map_def Unmarshal_map_def json_blanks)
qed

end
