(* ===== verification/Go_Utf8.thy ===== *)
theory Go_Utf8
  imports Go_Json Chunker
begin

text \<open>
  Conversions between Go strings and runes: \<^verbatim>\<open>[]rune(s)\<close> decodes UTF-8, one U+FFFD for each byte that
  starts no valid sequence (overlong forms, surrogates and values above U+10FFFF are invalid), and
  \<^verbatim>\<open>string(rs)\<close> encodes.
\<close>

definition cont_byte :: "nat \<Rightarrow> bool" where
  "cont_byte b \<longleftrightarrow> 128 \<le> b \<and> b < 192"

definition utf8_second :: "nat \<Rightarrow> nat \<Rightarrow> bool" where
  "utf8_second b0 b1 \<longleftrightarrow>
     (if b0 = 224 then 160 \<le> b1 \<and> b1 < 192
      else if b0 = 237 then 128 \<le> b1 \<and> b1 < 160
      else if b0 = 240 then 144 \<le> b1 \<and> b1 < 192
      else if b0 = 244 then 128 \<le> b1 \<and> b1 < 144
      else cont_byte b1)"

text \<open>The first rune and its width.\<close>

fun decode_rune :: "nat list \<Rightarrow> rune \<times> nat" where
  "decode_rune [] = (65533, 0)"
| "decode_rune (b0 # bs) =
     (if b0 < 128 then (b0, 1)
      else if 194 \<le> b0 \<and> b0 < 224
      then (case bs of
              b1 # _ \<Rightarrow> if cont_byte b1 then ((b0 - 192) * 64 + (b1 - 128), 2) else (65533, 1)
            | _ \<Rightarrow> (65533, 1))
      else if 224 \<le> b0 \<and> b0 < 240
      then (case bs of
              b1 # b2 # _ \<Rightarrow>
                if utf8_second b0 b1 \<and> cont_byte b2
                then (((b0 - 224) * 64 + (b1 - 128)) * 64 + (b2 - 128), 3) else (65533, 1)
            | _ \<Rightarrow> (65533, 1))
      else if 240 \<le> b0 \<and> b0 < 245
      then (case bs of
              b1 # b2 # b3 # _ \<Rightarrow>
                if utf8_second b0 b1 \<and> cont_byte b2 \<and> cont_byte b3
                then ((((b0 - 240) * 64 + (b1 - 128)) * 64 + (b2 - 128)) * 64 + (b3 - 128), 4) else (65533, 1)
            | _ \<Rightarrow> (65533, 1))
      else (65533, 1))"

lemma decode_rune_width: "bs \<noteq> [] \<Longrightarrow> 0 < snd (decode_rune bs)"
  by (cases bs) (auto split: list.splits)

function decode_runes :: "nat list \<Rightarrow> rune list" where
  "decode_runes bs =
     (if bs = [] then []
      else fst (decode_rune bs) # decode_runes (drop (snd (decode_rune bs)) bs))"
  by pat_completeness auto
termination
  by (relation "measure length") (use decode_rune_width in \<open>auto simp: length_drop\<close>)

declare decode_runes.simps [simp del]

definition string_runes :: "string \<Rightarrow> rune list" where
  "string_runes s = decode_runes (map of_char s)"

definition runes_string :: "rune list \<Rightarrow> string" where
  "runes_string rs = concat (map utf8_encode rs)"

lemma string_runes_Nil [simp]: "string_runes s = [] \<longleftrightarrow> s = []"
  by (simp add: string_runes_def decode_runes.simps)

text \<open>ASCII text is its own list of runes.\<close>

lemma decode_runes_ascii: "\<forall>b \<in> set bs. b < 128 \<Longrightarrow> decode_runes bs = bs"
  by (induction bs) (auto simp: decode_runes.simps)

lemma runes_string_ascii: "\<forall>c \<in> set s. of_char c < (128 :: nat) \<Longrightarrow> runes_string (string_runes s) = s"
proof -
  assume a: "\<forall>c \<in> set s. of_char c < (128 :: nat)"
  then have "string_runes s = map of_char s" unfolding string_runes_def by (intro decode_runes_ascii) auto
  moreover have "concat (map (utf8_encode \<circ> of_char) s) = s" using a by (induction s) (auto simp: utf8_encode_def)
  ultimately show ?thesis by (simp add: runes_string_def)
qed

end
