(* ===== verification/Source_Registry.thy ===== *)
theory Source_Registry
  imports Go_Json
begin

text \<open>
  \<^verbatim>\<open>data-plane/source/registry.go\<close>: the data plane's table of knowledge sources and its table of
  ingested documents. As in Registry, \<open>sd_faults\<close> lists what the driver reports on the next calls
  and a failing statement leaves the tables as they were. The configuration column holds JSON text.
  The operations on documents are what the file connector calls its tracker; \<open>doc_tracker\<close> is that
  interface, the locale \<open>doc_tracking\<close> its contract, interpreted here on the table.
\<close>

section \<open>Rows\<close>

record source_base =
  src_ID :: string
  src_Type :: string
  src_Name :: string
  src_Collection :: string
  src_Status :: string
  src_DocCount :: int
  src_ChunkCount :: int
  src_ErrorDetail :: string
  src_CreatedAt :: string
  src_UpdatedAt :: string

record source = source_base +
  src_Config :: "(string \<times> string) list"

record source_row = source_base +
  row_config :: string

record doc_row =
  doc_source_id :: string
  doc_doc_id :: string
  doc_content_hash :: string
  doc_updated_at :: string

record source_db =
  sd_sources :: "source_row table"
  sd_docs :: "doc_row table"
  sd_faults :: "go_error option list"

definition source_ErrNotFound :: go_error where
  "source_ErrNotFound = Sentinel ''source not found''"

definition sd_fault :: "source_db \<Rightarrow> go_error option" where
  "sd_fault db = (case sd_faults db of [] \<Rightarrow> None | f # _ \<Rightarrow> f)"

definition sd_tick :: "source_db \<Rightarrow> source_db" where
  "sd_tick db = db\<lparr>sd_faults := tl (sd_faults db)\<rparr>"

definition sd_exec :: "(source_db \<Rightarrow> go_error + nat \<times> source_db) \<Rightarrow> source_db \<Rightarrow> nat result \<times> source_db" where
  "sd_exec stmt db =
     (case sd_fault db of
        Some e \<Rightarrow> (Inl e, sd_tick db)
      | None \<Rightarrow> (case stmt (sd_tick db) of
                  Inl e \<Rightarrow> (Inl e, sd_tick db)
                | Inr (n, db1) \<Rightarrow> (Inr n, db1)))"

definition sd_query :: "(source_db \<Rightarrow> 'a) \<Rightarrow> source_db \<Rightarrow> 'a result \<times> source_db" where
  "sd_query q db =
     (case sd_fault db of
        Some e \<Rightarrow> (Inl e, sd_tick db)
      | None \<Rightarrow> (Inr (q (sd_tick db)), sd_tick db))"

section \<open>Documents\<close>

definition doc_is :: "string \<Rightarrow> string \<Rightarrow> doc_row \<Rightarrow> bool" where
  "doc_is sid did r \<longleftrightarrow> doc_source_id r = sid \<and> doc_doc_id r = did"

definition GetDocHash :: "string \<Rightarrow> string \<Rightarrow> source_db \<Rightarrow> string result \<times> source_db" where
  "GetDocHash sid did db =
     (case sd_query (\<lambda>d. query_row (doc_is sid did) (sd_docs d)) db of
        (Inl e, db1) \<Rightarrow> (Inl e, db1)
      | (Inr None, db1) \<Rightarrow> (Inr '''', db1)
      | (Inr (Some r), db1) \<Rightarrow> (Inr (doc_content_hash r), db1))"

definition stmt_upsert_doc :: "doc_row \<Rightarrow> source_db \<Rightarrow> go_error + nat \<times> source_db" where
  "stmt_upsert_doc r db =
     (let P = doc_is (doc_source_id r) (doc_doc_id r) in
      Inr (1, db\<lparr>sd_docs :=
        (if \<exists>x \<in> set (sd_docs db). P x
         then upd_where P (\<lambda>x. x\<lparr>doc_content_hash := doc_content_hash r, doc_updated_at := doc_updated_at r\<rparr>) (sd_docs db)
         else sd_docs db @ [r])\<rparr>))"

definition unit_result :: "nat result \<times> 's \<Rightarrow> unit result \<times> 's" where
  "unit_result x = (case x of (Inl e, s) \<Rightarrow> (Inl e, s) | (Inr _, s) \<Rightarrow> (Inr (), s))"

definition SetDocHash :: "string \<Rightarrow> string \<Rightarrow> string \<Rightarrow> string \<Rightarrow> source_db \<Rightarrow> unit result \<times> source_db" where
  "SetDocHash now sid did hash db =
     unit_result (sd_exec (stmt_upsert_doc
       \<lparr>doc_source_id = sid, doc_doc_id = did, doc_content_hash = hash, doc_updated_at = now\<rparr>) db)"

definition ListDocIDs :: "string \<Rightarrow> source_db \<Rightarrow> string list result \<times> source_db" where
  "ListDocIDs sid db = sd_query (\<lambda>d. map doc_doc_id (sel_where (\<lambda>r. doc_source_id r = sid) (sd_docs d))) db"

definition stmt_delete_docs :: "(doc_row \<Rightarrow> bool) \<Rightarrow> source_db \<Rightarrow> go_error + nat \<times> source_db" where
  "stmt_delete_docs P db = Inr (RowsAffected P (sd_docs db), db\<lparr>sd_docs := del_where P (sd_docs db)\<rparr>)"

definition DeleteDocTracking :: "string \<Rightarrow> string \<Rightarrow> source_db \<Rightarrow> unit result \<times> source_db" where
  "DeleteDocTracking sid did db = unit_result (sd_exec (stmt_delete_docs (doc_is sid did)) db)"

definition DeleteAllDocTracking :: "string \<Rightarrow> source_db \<Rightarrow> unit result \<times> source_db" where
  "DeleteAllDocTracking sid db = unit_result (sd_exec (stmt_delete_docs (\<lambda>r. doc_source_id r = sid)) db)"

section \<open>Sources\<close>

definition marshalConfig :: "(string \<times> string) list \<Rightarrow> string" where
  "marshalConfig cfg = (if length cfg = 0 then ''{}'' else Marshal_map cfg)"

definition unmarshalConfig :: "string \<Rightarrow> (string \<times> string) list" where
  "unmarshalConfig s =
     (if s = '''' \<or> s = ''{}'' then []
      else case Unmarshal_map s of None \<Rightarrow> [] | Some m \<Rightarrow> m)"

definition row_of_source :: "source \<Rightarrow> source_row" where
  "row_of_source s = source_base.extend (source_base.truncate s) (source_row.fields (marshalConfig (src_Config s)))"

definition source_of_row :: "source_row \<Rightarrow> source" where
  "source_of_row r = source_base.extend (source_base.truncate r) (source.fields (unmarshalConfig (row_config r)))"

definition source_defaults :: "string \<Rightarrow> source \<Rightarrow> source" where
  "source_defaults now src =
     (let s1 = (if src_CreatedAt src = '''' then src\<lparr>src_CreatedAt := now\<rparr> else src);
          s2 = (if src_UpdatedAt s1 = '''' then s1\<lparr>src_UpdatedAt := now\<rparr> else s1)
      in if src_Status s2 = '''' then s2\<lparr>src_Status := ''pending''\<rparr> else s2)"

definition stmt_insert_source :: "source_row \<Rightarrow> source_db \<Rightarrow> go_error + nat \<times> source_db" where
  "stmt_insert_source r db =
     (if \<exists>x \<in> set (sd_sources db). src_ID x = src_ID r
      then Inl (Errorf ''UNIQUE constraint failed: sources.id'')
      else Inr (1, db\<lparr>sd_sources := sd_sources db @ [r]\<rparr>))"

definition Source_Create :: "string \<Rightarrow> source \<Rightarrow> source_db \<Rightarrow> unit result \<times> source_db" where
  "Source_Create now src db =
     (case sd_exec (stmt_insert_source (row_of_source (source_defaults now src))) db of
        (Inl e, db1) \<Rightarrow> (Inl (Wrap (''source: create '' @ src_ID src) e), db1)
      | (Inr _, db1) \<Rightarrow> (Inr (), db1))"

definition Source_Get :: "string \<Rightarrow> source_db \<Rightarrow> source result \<times> source_db" where
  "Source_Get sid db =
     (case sd_query (\<lambda>d. query_row (\<lambda>r. src_ID r = sid) (sd_sources d)) db of
        (Inl e, db1) \<Rightarrow> (Inl (Wrap (''source: get '' @ sid) e), db1)
      | (Inr None, db1) \<Rightarrow> (Inl source_ErrNotFound, db1)
      | (Inr (Some r), db1) \<Rightarrow> (Inr (source_of_row r), db1))"

definition Source_List :: "source_db \<Rightarrow> source list result \<times> source_db" where
  "Source_List db =
     (case sd_query (\<lambda>d. map source_of_row (sort_key src_CreatedAt (sd_sources d))) db of
        (Inl e, db1) \<Rightarrow> (Inl (Wrap ''source: list'' e), db1)
      | (Inr xs, db1) \<Rightarrow> (Inr xs, db1))"

definition stmt_update_source ::
  "string \<Rightarrow> (source_row \<Rightarrow> source_row) \<Rightarrow> source_db \<Rightarrow> go_error + nat \<times> source_db" where
  "stmt_update_source sid f db =
     Inr (RowsAffected (\<lambda>r. src_ID r = sid) (sd_sources db),
          db\<lparr>sd_sources := upd_where (\<lambda>r. src_ID r = sid) f (sd_sources db)\<rparr>)"

definition source_affected :: "string \<Rightarrow> nat result \<times> source_db \<Rightarrow> unit result \<times> source_db" where
  "source_affected msg x =
     (case x of
        (Inl e, db) \<Rightarrow> (Inl (Wrap msg e), db)
      | (Inr n, db) \<Rightarrow> if n = 0 then (Inl source_ErrNotFound, db) else (Inr (), db))"

definition Source_UpdateStatus :: "string \<Rightarrow> string \<Rightarrow> string \<Rightarrow> source_db \<Rightarrow> unit result \<times> source_db" where
  "Source_UpdateStatus now sid status db =
     source_affected (''source: update status '' @ sid)
       (sd_exec (stmt_update_source sid (\<lambda>r. r\<lparr>src_Status := status, src_UpdatedAt := now\<rparr>)) db)"

definition Source_UpdateCounts :: "string \<Rightarrow> string \<Rightarrow> int \<Rightarrow> int \<Rightarrow> source_db \<Rightarrow> unit result \<times> source_db" where
  "Source_UpdateCounts now sid docCount chunkCount db =
     source_affected (''source: update counts '' @ sid)
       (sd_exec (stmt_update_source sid
          (\<lambda>r. r\<lparr>src_DocCount := docCount, src_ChunkCount := chunkCount, src_UpdatedAt := now\<rparr>)) db)"

definition Source_SetError :: "string \<Rightarrow> string \<Rightarrow> string \<Rightarrow> source_db \<Rightarrow> unit result \<times> source_db" where
  "Source_SetError now sid detail db =
     source_affected (''source: set error '' @ sid)
       (sd_exec (stmt_update_source sid
          (\<lambda>r. r\<lparr>src_Status := ''error'', src_ErrorDetail := detail, src_UpdatedAt := now\<rparr>)) db)"

definition stmt_delete_source :: "string \<Rightarrow> source_db \<Rightarrow> go_error + nat \<times> source_db" where
  "stmt_delete_source sid db =
     Inr (RowsAffected (\<lambda>r. src_ID r = sid) (sd_sources db),
          db\<lparr>sd_sources := del_where (\<lambda>r. src_ID r = sid) (sd_sources db)\<rparr>)"

definition Source_Delete :: "string \<Rightarrow> source_db \<Rightarrow> unit result \<times> source_db" where
  "Source_Delete sid db = source_affected (''source: delete '' @ sid) (sd_exec (stmt_delete_source sid) db)"

section \<open>The tables\<close>

lemmas source_driver = sd_exec_def sd_query_def source_affected_def unit_result_def sd_fault_def sd_tick_def

lemma sd_query_cases:
  assumes "sd_query q db = (r, db')"
  shows "sd_sources db' = sd_sources db" "sd_docs db' = sd_docs db"
    and "r = Inr (q (sd_tick db)) \<or> (\<exists>e. r = Inl e)"
  using assms by (auto simp: source_driver split: option.splits list.splits)

lemma sd_tick_simps [simp]: "sd_sources (sd_tick db) = sd_sources db" "sd_docs (sd_tick db) = sd_docs db"
  by (simp_all add: sd_tick_def)

lemma sd_exec_cases:
  assumes "sd_exec stmt db = (r, db')"
  obtains e where "r = Inl e" "sd_sources db' = sd_sources db" "sd_docs db' = sd_docs db"
  | n where "r = Inr n" "stmt (sd_tick db) = Inr (n, db')"
proof (cases "sd_fault db")
  case (Some e)
  then show thesis using assms that(1) by (auto simp: sd_exec_def)
next
  case None
  show thesis
  proof (cases "stmt (sd_tick db)")
    case (Inl e)
    with None assms show thesis using that(1) by (auto simp: sd_exec_def)
  next
    case (Inr p)
    with None assms show thesis using that(2) by (auto simp: sd_exec_def split: prod.splits)
  qed
qed

section \<open>The tracker interface\<close>

record 's doc_tracker =
  dt_GetDocHash :: "string \<Rightarrow> string \<Rightarrow> 's \<Rightarrow> string result \<times> 's"
  dt_SetDocHash :: "string \<Rightarrow> string \<Rightarrow> string \<Rightarrow> 's \<Rightarrow> unit result \<times> 's"
  dt_ListDocIDs :: "string \<Rightarrow> 's \<Rightarrow> string list result \<times> 's"
  dt_DeleteDocTracking :: "string \<Rightarrow> string \<Rightarrow> 's \<Rightarrow> unit result \<times> 's"

definition source_tracker :: "string \<Rightarrow> source_db doc_tracker" where
  "source_tracker now =
     \<lparr>dt_GetDocHash = GetDocHash, dt_SetDocHash = SetDocHash now, dt_ListDocIDs = ListDocIDs,
      dt_DeleteDocTracking = DeleteDocTracking\<rparr>"

text \<open>What a tracker promises: \<open>view s src doc\<close> is the hash recorded for a document; a failed call
  changes nothing.\<close>

locale doc_tracking =
  fixes t :: "'s doc_tracker" and view :: "'s \<Rightarrow> string \<Rightarrow> string \<Rightarrow> string option"
  assumes get_view: "dt_GetDocHash t src doc s = (r, s') \<Longrightarrow> view s' = view s"
    and get_hash: "dt_GetDocHash t src doc s = (Inr h, s') \<Longrightarrow> h = (case view s src doc of None \<Rightarrow> '''' | Some h \<Rightarrow> h)"
    and set_err: "dt_SetDocHash t src doc h s = (Inl e, s') \<Longrightarrow> view s' = view s"
    and set_ok: "dt_SetDocHash t src doc h s = (Inr u, s') \<Longrightarrow> view s' = (view s)(src := (view s src)(doc \<mapsto> h))"
    and list_view: "dt_ListDocIDs t src s = (l, s') \<Longrightarrow> view s' = view s"
    and list_ids: "dt_ListDocIDs t src s = (Inr ids, s') \<Longrightarrow> set ids = dom (view s src)"
    and del_err: "dt_DeleteDocTracking t src doc s = (Inl e, s') \<Longrightarrow> view s' = view s"
    and del_ok: "dt_DeleteDocTracking t src doc s = (Inr u, s') \<Longrightarrow> view s' = (view s)(src := (view s src)(doc := None))"

text \<open>A tracker in a state without pending driver failures does not fail.\<close>

locale reliable_tracking = doc_tracking t view
  for t :: "'s doc_tracker" and view :: "'s \<Rightarrow> string \<Rightarrow> string \<Rightarrow> string option" +
  fixes quiet :: "'s \<Rightarrow> bool"
  assumes quiet_get: "quiet s \<Longrightarrow> \<exists>h s'. dt_GetDocHash t src doc s = (Inr h, s') \<and> quiet s'"
    and quiet_set: "quiet s \<Longrightarrow> \<exists>s'. dt_SetDocHash t src doc h s = (Inr (), s') \<and> quiet s'"
    and quiet_list: "quiet s \<Longrightarrow> \<exists>ids s'. dt_ListDocIDs t src s = (Inr ids, s') \<and> quiet s'"
    and quiet_del: "quiet s \<Longrightarrow> \<exists>s'. dt_DeleteDocTracking t src doc s = (Inr (), s') \<and> quiet s'"

definition doc_view :: "source_db \<Rightarrow> string \<Rightarrow> string \<Rightarrow> string option" where
  "doc_view db sid did = map_option doc_content_hash (query_row (doc_is sid did) (sd_docs db))"

lemma doc_view_cong: "sd_docs db' = sd_docs db \<Longrightarrow> doc_view db' = doc_view db"
  by (simp add: doc_view_def fun_eq_iff)

lemma query_row_delete: "query_row P (del_where Q xs) = query_row (\<lambda>x. P x \<and> \<not> Q x) xs"
  by (induction xs) (auto simp: query_row_def del_where_def)

lemma upsert_doc_view:
  assumes "stmt_upsert_doc r db = Inr (n, db')"
  shows "doc_view db' = (doc_view db)(doc_source_id r := (doc_view db (doc_source_id r))(doc_doc_id r \<mapsto> doc_content_hash r))"
proof -
  let ?P = "doc_is (doc_source_id r) (doc_doc_id r)"
  have "map_option doc_content_hash (query_row (doc_is s d) (sd_docs db')) =
      (if s = doc_source_id r \<and> d = doc_doc_id r then Some (doc_content_hash r)
       else map_option doc_content_hash (query_row (doc_is s d) (sd_docs db)))" for s d
  proof (cases "\<exists>x \<in> set (sd_docs db). ?P x")
    case True
    then have db': "sd_docs db' = upd_where ?P (\<lambda>x. x\<lparr>doc_content_hash := doc_content_hash r, doc_updated_at := doc_updated_at r\<rparr>) (sd_docs db)"
      using assms by (auto simp: stmt_upsert_doc_def Let_def)
    let ?f = "\<lambda>x. x\<lparr>doc_content_hash := doc_content_hash r, doc_updated_at := doc_updated_at r\<rparr>"
    show ?thesis
    proof (cases "s = doc_source_id r \<and> d = doc_doc_id r")
      case same: True
      obtain x where "query_row ?P (sd_docs db) = Some x"
        using True query_row_None_iff [of ?P "sd_docs db"] by auto
      moreover have "query_row ?P (upd_where ?P ?f (sd_docs db)) = map_option ?f (query_row ?P (sd_docs db))"
        by (rule query_row_upd_same) (simp add: doc_is_def)
      ultimately show ?thesis using same db' by simp
    next
      case False
      have "query_row (doc_is s d) (upd_where ?P ?f (sd_docs db)) = query_row (doc_is s d) (sd_docs db)"
        by (rule query_row_upd_other) (use False in \<open>auto simp: doc_is_def\<close>)
      with False db' show ?thesis by auto
    qed
  next
    case False
    then have db': "sd_docs db' = sd_docs db @ [r]" using assms by (auto simp: stmt_upsert_doc_def Let_def)
    have "query_row ?P (sd_docs db) = None" using False by (simp add: query_row_None_iff)
    then show ?thesis unfolding db' by (auto simp: query_row_append doc_is_def split: option.splits)
  qed
  then show ?thesis by (auto simp: doc_view_def fun_eq_iff)
qed

lemma SetDocHash_view:
  assumes "SetDocHash now src doc h s = (r, s')"
  shows "doc_view s' = (case r of Inl e \<Rightarrow> doc_view s | Inr u \<Rightarrow> (doc_view s)(src := (doc_view s src)(doc \<mapsto> h)))"
proof -
  let ?st = "stmt_upsert_doc \<lparr>doc_source_id = src, doc_doc_id = doc, doc_content_hash = h, doc_updated_at = now\<rparr>"
  obtain x s1 where x: "sd_exec ?st s = (x, s1)" by force
  with assms have s': "s' = s1" and r: "r = (case x of Inl e \<Rightarrow> Inl e | Inr n \<Rightarrow> Inr ())"
    by (auto simp: SetDocHash_def unit_result_def split: sum.splits)
  from x show ?thesis
  proof (cases rule: sd_exec_cases)
    case 1
    then show ?thesis using s' r doc_view_cong [OF 1(3)] by simp
  next
    case (2 n)
    have "doc_view (sd_tick s) = doc_view s" by (rule doc_view_cong) simp
    with upsert_doc_view [OF 2(2)] 2(1) s' r show ?thesis by simp
  qed
qed

lemma DeleteDocTracking_view:
  assumes "DeleteDocTracking src doc s = (r, s')"
  shows "doc_view s' = (case r of Inl e \<Rightarrow> doc_view s | Inr u \<Rightarrow> (doc_view s)(src := (doc_view s src)(doc := None)))"
proof -
  obtain x s1 where x: "sd_exec (stmt_delete_docs (doc_is src doc)) s = (x, s1)" by force
  with assms have s': "s' = s1" and r: "r = (case x of Inl e \<Rightarrow> Inl e | Inr n \<Rightarrow> Inr ())"
    by (auto simp: DeleteDocTracking_def unit_result_def split: sum.splits)
  from x show ?thesis
  proof (cases rule: sd_exec_cases)
    case 1
    then show ?thesis using s' r doc_view_cong [OF 1(3)] by simp
  next
    case (2 n)
    then have d: "sd_docs s1 = del_where (doc_is src doc) (sd_docs s)" by (auto simp: stmt_delete_docs_def)
    have "query_row (doc_is a b) (del_where (doc_is src doc) (sd_docs s)) =
        (if a = src \<and> b = doc then None else query_row (doc_is a b) (sd_docs s))" for a b
    proof (cases "a = src \<and> b = doc")
      case True
      then show ?thesis using query_row_del_same [of "doc_is src doc"] by simp
    next
      case False
      have "query_row (doc_is a b) (del_where (doc_is src doc) (sd_docs s)) = query_row (doc_is a b) (sd_docs s)"
        by (rule query_row_del_other) (use False in \<open>auto simp: doc_is_def\<close>)
      with False show ?thesis by auto
    qed
    with d 2(1) s' r show ?thesis by (simp add: doc_view_def fun_eq_iff)
  qed
qed

lemma doc_view_dom: "dom (doc_view db sid) = set (map doc_doc_id (sel_where (\<lambda>r. doc_source_id r = sid) (sd_docs db)))"
proof -
  have "doc_view db sid d \<noteq> None \<longleftrightarrow> (\<exists>r \<in> set (sd_docs db). doc_is sid d r)" for d
    using query_row_None_iff [of "doc_is sid d" "sd_docs db"] by (auto simp: doc_view_def)
  then show ?thesis by (auto simp: dom_def sel_where_def doc_is_def)
qed

interpretation source_docs: reliable_tracking "source_tracker now" doc_view "\<lambda>db. sd_faults db = []" for now
proof (unfold_locales, goal_cases)
  case (1 src doc s r s')
  then obtain q where "sd_query (\<lambda>d. query_row (doc_is src doc) (sd_docs d)) s = (q, s')"
    by (auto simp: source_tracker_def GetDocHash_def split: prod.splits sum.splits option.splits)
  then show ?case using doc_view_cong sd_query_cases(2) by blast
next
  case (2 src doc s h s')
  then obtain q where q: "sd_query (\<lambda>d. query_row (doc_is src doc) (sd_docs d)) s = (Inr q, s')"
      and "h = (case q of None \<Rightarrow> '''' | Some r \<Rightarrow> doc_content_hash r)"
    by (auto simp: source_tracker_def GetDocHash_def split: prod.splits sum.splits option.splits)
  then show ?case using sd_query_cases(3) [OF q] by (auto simp: doc_view_def split: option.splits)
next
  case (3 src doc h s e s')
  then show ?case using SetDocHash_view [of now src doc h s "Inl e" s'] by (simp add: source_tracker_def)
next
  case (4 src doc h s u s')
  then show ?case using SetDocHash_view [of now src doc h s "Inr u" s'] by (simp add: source_tracker_def)
next
  case (5 src s l s')
  then show ?case using doc_view_cong sd_query_cases(2) by (metis ListDocIDs_def doc_tracker.select_convs(3) source_tracker_def)
next
  case (6 src s ids s')
  then have q: "sd_query (\<lambda>d. map doc_doc_id (sel_where (\<lambda>r. doc_source_id r = src) (sd_docs d))) s = (Inr ids, s')"
    by (simp add: source_tracker_def ListDocIDs_def)
  have "ids = map doc_doc_id (sel_where (\<lambda>r. doc_source_id r = src) (sd_docs s))"
    using sd_query_cases(3) [OF q] by simp
  then show ?case by (simp only: doc_view_dom)
next
  case (7 src doc s e s')
  then show ?case using DeleteDocTracking_view [of src doc s "Inl e" s'] by (simp add: source_tracker_def)
next
  case (8 src doc s u s')
  then show ?case using DeleteDocTracking_view [of src doc s "Inr u" s'] by (simp add: source_tracker_def)
qed (auto simp: source_tracker_def GetDocHash_def SetDocHash_def ListDocIDs_def DeleteDocTracking_def source_driver
    stmt_upsert_doc_def stmt_delete_docs_def Let_def split: option.splits)

section \<open>Sources survive storage\<close>

lemma row_of_source_simps [simp]:
  "src_ID (row_of_source s) = src_ID s" "row_config (row_of_source s) = marshalConfig (src_Config s)"
  by (simp_all add: row_of_source_def source_base.defs source_row.defs)

lemma source_of_row_ID [simp]: "src_ID (source_of_row r) = src_ID r"
  by (simp add: source_of_row_def source_base.defs source.defs)

lemma source_defaults_simps [simp]:
  "src_ID (source_defaults now s) = src_ID s" "src_Config (source_defaults now s) = src_Config s"
  by (simp_all add: source_defaults_def Let_def)

lemma Marshal_map_not_empty: "kvs \<noteq> [] \<Longrightarrow> Marshal_map kvs \<noteq> ''{}''"
proof -
  assume "kvs \<noteq> []"
  then have "sort_key fst kvs \<noteq> []" by (metis length_0_conv length_sort)
  then obtain k v s' where "sort_key fst kvs = (k, v) # s'" by (metis neq_Nil_conv surj_pair)
  then show "Marshal_map kvs \<noteq> ''{}''" by (cases s') (auto simp: Marshal_map_def json_quote_def)
qed

lemma unmarshal_marshalConfig:
  assumes "distinct (map fst cfg)"
  shows "unmarshalConfig (marshalConfig cfg) = sort_key fst cfg"
proof (cases "cfg = []")
  case True
  then show ?thesis by (simp add: marshalConfig_def unmarshalConfig_def)
next
  case False
  then have "marshalConfig cfg = Marshal_map cfg" "Marshal_map cfg \<noteq> ''{}''" "Marshal_map cfg \<noteq> ''''"
    using Marshal_map_not_empty by (auto simp: marshalConfig_def Marshal_map_def)
  then show ?thesis using Unmarshal_Marshal [OF assms] by (simp add: unmarshalConfig_def)
qed

lemma source_of_row_of_source:
  assumes "distinct (map fst (src_Config s))"
  shows "source_of_row (row_of_source s) = s\<lparr>src_Config := sort_key fst (src_Config s)\<rparr>"
  using unmarshal_marshalConfig [OF assms]
  by (cases s) (simp add: source_of_row_def row_of_source_def source_base.defs source.defs source_row.defs)

lemma Source_Create_ok:
  assumes "Source_Create now src db = (Inr u, db1)"
  shows "sd_sources db1 = sd_sources db @ [row_of_source (source_defaults now src)]"
    and "src_ID src \<notin> src_ID ` set (sd_sources db)" "sd_docs db1 = sd_docs db"
proof -
  let ?st = "stmt_insert_source (row_of_source (source_defaults now src))"
  from assms obtain n where e: "sd_exec ?st db = (Inr n, db1)"
    by (auto simp: Source_Create_def split: prod.splits sum.splits)
  from e have st: "?st (sd_tick db) = Inr (n, db1)" by (cases rule: sd_exec_cases) auto
  then show "sd_sources db1 = sd_sources db @ [row_of_source (source_defaults now src)]"
    and "src_ID src \<notin> src_ID ` set (sd_sources db)" "sd_docs db1 = sd_docs db"
    by (auto simp: stmt_insert_source_def split: if_splits)
qed

definition source_view :: "source_db \<Rightarrow> string \<Rightarrow> source option" where
  "source_view db sid = map_option source_of_row (query_row (\<lambda>r. src_ID r = sid) (sd_sources db))"

lemma Source_Get_view:
  assumes "Source_Get sid db = (r, db')" "sd_faults db = []"
  shows "r = (case source_view db sid of None \<Rightarrow> Inl source_ErrNotFound | Some s \<Rightarrow> Inr s)"
  using assms by (auto simp: Source_Get_def source_view_def source_driver split: option.splits)

text \<open>A created source is read back with its defaults filled in and its configuration map
  intact after the round trip through JSON text, whatever characters its keys and values hold; the
  other sources keep their values, and an id in use is refused.\<close>

theorem source_create_get:
  assumes "Source_Create now src db = (Inr u, db1)" "distinct (map fst (src_Config src))"
  shows "source_view db (src_ID src) = None \<and>
    source_view db1 = (source_view db)(src_ID src \<mapsto>
      (source_defaults now src)\<lparr>src_Config := sort_key fst (src_Config src)\<rparr>)"
proof -
  note ok = Source_Create_ok [OF assms(1)]
  have none: "query_row (\<lambda>r. src_ID r = src_ID src) (sd_sources db) = None"
    unfolding query_row_None_iff using ok(2) by (metis imageI)
  have "source_of_row (row_of_source (source_defaults now src)) =
      (source_defaults now src)\<lparr>src_Config := sort_key fst (src_Config src)\<rparr>"
    using source_of_row_of_source [of "source_defaults now src"] assms(2) by simp
  with none show ?thesis
    by (auto simp: source_view_def ok(1) query_row_append fun_eq_iff split: option.splits)
qed

definition sample_source :: source where
  "sample_source =
     \<lparr>src_ID = ''docs'', src_Type = ''file'', src_Name = ''d'', src_Collection = ''c'', src_Status = '''', src_DocCount = 0,
      src_ChunkCount = 0, src_ErrorDetail = '''', src_CreatedAt = '''', src_UpdatedAt = '''',
      src_Config = [(''path'', ''/a <b>''), (''k'', [CHR 0x22, CHR 0x0A])]\<rparr>"

definition empty_source_db :: source_db where
  "empty_source_db = \<lparr>sd_sources = [], sd_docs = [], sd_faults = []\<rparr>"

theorem source_create_get_witness:
  "map_option src_Config (source_view (snd (Source_Create ''t'' sample_source empty_source_db)) ''docs'') =
     Some [(''k'', [CHR 0x22, CHR 0x0A]), (''path'', ''/a <b>'')]"
proof -
  let ?r = "Source_Create ''t'' sample_source empty_source_db"
  have "fst ?r = Inr ()"
    by (simp add: Source_Create_def empty_source_db_def source_driver stmt_insert_source_def)
  then have "?r = (Inr (), snd ?r)" by (simp add: prod_eq_iff)
  moreover have "distinct (map fst (src_Config sample_source))" by code_simp
  moreover have "sort_key fst (src_Config sample_source) = [(''k'', [CHR 0x22, CHR 0x0A]), (''path'', ''/a <b>'')]" by code_simp
  moreover have "src_ID sample_source = ''docs''" by (simp add: sample_source_def)
  ultimately show ?thesis using source_create_get [of "''t''" sample_source empty_source_db "()" "snd ?r"] by simp
qed

end
