(* ===== verification/Embedding_Client.thy ===== *)
theory Embedding_Client
  imports Go_Http
begin

text \<open>
  \<^verbatim>\<open>data-plane/embedding/client.go\<close>: texts to vectors over HTTP, with retries. \<open>ec_wait\<close> is the
  \<^verbatim>\<open>select\<close> between the caller's context and the backoff timer. A vector is a list of numbers; a nil
  vector is the empty list. Storing a vector under a negative index panics, which is the value
  \<open>None\<close> of \<open>Embed\<close>.
\<close>

record embed_config =
  ec_BaseURL :: string
  ec_APIKey :: string
  ec_Model :: string
  ec_MaxRetries :: int
  ec_InitialBackoff :: int
  ec_MaxBackoff :: int

record embedding_request =
  er_Input :: "string list"
  er_Model :: string

record embedding_datum =
  ed_Embedding :: "rat list"
  ed_Index :: int

type_synonym embedding_response = "embedding_datum list"

record 'w embed_client =
  ec_cfg :: embed_config
  ec_http :: "(embedding_request, embedding_response, 'w) http_peer"
  ec_wait :: "nat \<Rightarrow> 'w \<Rightarrow> go_error option \<times> 'w"

definition Embed_NewClient ::
  "embed_config \<Rightarrow> (embedding_request, embedding_response, 'w) http_peer \<Rightarrow> (nat \<Rightarrow> 'w \<Rightarrow> go_error option \<times> 'w) \<Rightarrow> 'w embed_client" where
  "Embed_NewClient cfg http wait =
     (let c1 = (if ec_MaxRetries cfg \<le> 0 then cfg\<lparr>ec_MaxRetries := 3\<rparr> else cfg);
          c2 = (if ec_InitialBackoff c1 \<le> 0 then c1\<lparr>ec_InitialBackoff := 1000000000\<rparr> else c1);
          c3 = (if ec_MaxBackoff c2 \<le> 0 then c2\<lparr>ec_MaxBackoff := 10 * 1000000000\<rparr> else c2)
      in \<lparr>ec_cfg = c3, ec_http = http, ec_wait = wait\<rparr>)"

datatype embed_error = StatusError int | OtherError go_error

fun embed_go_error :: "embed_error \<Rightarrow> go_error" where
  "embed_go_error (StatusError code) = Errorf (''embedding: API returned '' @ int_str code)"
| "embed_go_error (OtherError e) = e"

fun isRetryable :: "embed_error \<Rightarrow> bool" where
  "isRetryable (StatusError code) \<longleftrightarrow> code \<in> {429, 500, 502, 503, 504}"
| "isRetryable (OtherError _) \<longleftrightarrow> True"

text \<open>The backoff before an attempt, in nanoseconds; \<open>rnd\<close> is what \<^verbatim>\<open>rand.Float64\<close> answers.\<close>

definition backoff :: "embed_config \<Rightarrow> nat \<Rightarrow> rat \<Rightarrow> rat" where
  "backoff cfg attempt rnd =
     (let b0 = of_int (ec_InitialBackoff cfg) * 2 ^ (attempt - 1);
          b = (if b0 > of_int (ec_MaxBackoff cfg) then of_int (ec_MaxBackoff cfg) else b0);
          jitter = b * (1 / 2) * rnd
      in b + jitter)"

definition doEmbed :: "'w embed_client \<Rightarrow> embedding_request \<Rightarrow> 'w \<Rightarrow> (embed_error + embedding_response) \<times> 'w" where
  "doEmbed c body w =
     (let url = ec_BaseURL (ec_cfg c) @ ''/embeddings'' in
      case ht_NewRequest (ec_http c) url of
        Some e \<Rightarrow> (Inl (OtherError (Wrap ''embedding: create request'' e)), w)
      | None \<Rightarrow>
          (case ht_Do (ec_http c)
                  \<lparr>hr_Method = ''POST'', hr_URL = url,
                   hr_Headers = (''Content-Type'', ''application/json'') #
                     (if ec_APIKey (ec_cfg c) \<noteq> '''' then [(''Authorization'', ''Bearer '' @ ec_APIKey (ec_cfg c))] else []),
                   hr_Body = Some body\<rparr> w of
             (Inl e, w1) \<Rightarrow> (Inl (OtherError (Wrap ''embedding: request failed'' e)), w1)
           | (Inr (code, decoded), w1) \<Rightarrow>
               (if code \<noteq> 200 then (Inl (StatusError code), w1)
                else case decoded of
                       Inl e \<Rightarrow> (Inl (OtherError (Wrap ''embedding: decode response'' e)), w1)
                     | Inr r \<Rightarrow> (Inr r, w1))))"

text \<open>The loop that stores the answers at their indices.\<close>

fun place_vectors :: "embedding_datum list \<Rightarrow> rat list list \<Rightarrow> rat list list option" where
  "place_vectors [] vectors = Some vectors"
| "place_vectors (d # ds) vectors =
     (if ed_Index d < int (length vectors)
      then if ed_Index d < 0 then None
           else place_vectors ds (vectors[nat (ed_Index d) := ed_Embedding d])
      else place_vectors ds vectors)"

text \<open>The retry loop with \<open>left\<close> attempts to go. (The error of an ended context also carries the number
  of attempts and the last error in its text, after the context's own.)\<close>

fun embed_loop ::
  "'w embed_client \<Rightarrow> embedding_request \<Rightarrow> nat \<Rightarrow> nat \<Rightarrow> embed_error option \<Rightarrow> 'w
     \<Rightarrow> (rat list list result \<times> 'w) option" where
  "embed_loop c body 0 attempt lastErr w =
     Some (case lastErr of None \<Rightarrow> Inr [] | Some e \<Rightarrow> Inl (embed_go_error e), w)"
| "embed_loop c body (Suc left) attempt lastErr w =
     (case (if attempt > 0 then ec_wait c attempt w else (None, w)) of
        (Some e, w1) \<Rightarrow>
          Some (Inl (Wrap ''embedding'' e), w1)
      | (None, w1) \<Rightarrow>
          (case doEmbed c body w1 of
             (Inr result, w2) \<Rightarrow>
               map_option (\<lambda>vs. (Inr vs, w2)) (place_vectors result (replicate (length (er_Input body)) []))
           | (Inl err, w2) \<Rightarrow>
               (if \<not> isRetryable err then Some (Inl (embed_go_error err), w2)
                else embed_loop c body left (Suc attempt) (Some err) w2)))"

definition Embed :: "'w embed_client \<Rightarrow> string list \<Rightarrow> 'w \<Rightarrow> (rat list list result \<times> 'w) option" where
  "Embed c texts w =
     (if length texts = 0 then Some (Inr [], w)
      else embed_loop c \<lparr>er_Input = texts, er_Model = ec_Model (ec_cfg c)\<rparr> (nat (ec_MaxRetries (ec_cfg c))) 0 None w)"

section \<open>Bounds and alignment\<close>

lemma NewClient_retries: "0 < ec_MaxRetries (ec_cfg (Embed_NewClient cfg http wait))"
  by (simp add: Embed_NewClient_def Let_def)

lemma backoff_bound:
  assumes "0 \<le> rnd" "rnd < 1" "0 < ec_InitialBackoff cfg" "0 < ec_MaxBackoff cfg"
  shows "0 < backoff cfg attempt rnd \<and> backoff cfg attempt rnd \<le> of_int (ec_MaxBackoff cfg) * (3 / 2)"
proof -
  let ?b0 = "of_int (ec_InitialBackoff cfg) * 2 ^ (attempt - 1) :: rat"
  let ?b = "if ?b0 > of_int (ec_MaxBackoff cfg) then of_int (ec_MaxBackoff cfg) else ?b0"
  have b: "0 < ?b" "?b \<le> of_int (ec_MaxBackoff cfg)" using assms by auto
  have j: "0 \<le> ?b * (1 / 2) * rnd" "?b * (1 / 2) * rnd \<le> ?b * (1 / 2) * 1"
    using b(1) assms(1,2) by (auto intro!: mult_left_mono)
  have "backoff cfg attempt rnd = ?b + ?b * (1 / 2) * rnd" by (simp add: backoff_def Let_def)
  then show ?thesis using b j by linarith
qed

lemma length_place_vectors: "place_vectors ds vs = Some vs' \<Longrightarrow> length vs' = length vs"
  by (induction ds vs rule: place_vectors.induct) (auto split: if_splits)

lemma place_vectors_total: "\<forall>d \<in> set ds. 0 \<le> ed_Index d \<Longrightarrow> place_vectors ds vs \<noteq> None"
  by (induction ds vs rule: place_vectors.induct) auto

text \<open>The vector of an index that exactly one answer carries.\<close>

lemma place_vectors_nth:
  assumes "place_vectors ds vs = Some vs'" "i < length vs"
    and "distinct (map ed_Index ds)"
  shows "vs' ! i = (case find (\<lambda>d. ed_Index d = int i) ds of None \<Rightarrow> vs ! i | Some d \<Rightarrow> ed_Embedding d)"
  using assms
proof (induction ds vs arbitrary: vs' rule: place_vectors.induct)
  case (2 d ds vectors)
  consider (out) "\<not> ed_Index d < int (length vectors)" | (inside) "ed_Index d < int (length vectors)" "0 \<le> ed_Index d"
    using 2(3) by (auto split: if_splits)
  then show ?case
  proof cases
    case out
    with 2 show ?thesis by auto
  next
    case inside
    have "find (\<lambda>x. ed_Index x = int i) ds = None" if "ed_Index d = int i"
      using 2(5) that unfolding find_None_iff list.map distinct.simps set_map by (metis imageI)
    then show ?thesis using 2(1) [OF inside(1)] 2(3-5) inside
      by (auto simp: nth_list_update split: option.splits)
  qed
qed simp

end
