(* ===== verification/Qdrant_Client.thy ===== *)
theory Qdrant_Client
  imports Go_Http
begin

text \<open>
  \<^verbatim>\<open>data-plane/qdrant/client.go\<close>: the calls to the vector database. A payload value is text, a
  number or some other JSON value. The client's own timeouts apply only when the caller's context has no deadline; the
  moment a request times out is part of the peer's answer.
\<close>

datatype payload_value = PText string | PNum rat | POther

record point =
  pt_ID :: string
  pt_Vector :: "rat list"
  pt_Payload :: "(string \<times> payload_value) list"

record condition =
  cd_Key :: string
  cd_Match :: string

type_synonym qfilter = "condition list"

record search_request =
  sq_Vector :: "rat list"
  sq_Limit :: int
  sq_Filter :: "qfilter option"
  sq_WithPayload :: bool

record search_result =
  sres_ID :: string
  sres_Score :: rat
  sres_Payload :: "(string \<times> payload_value) list"

datatype qdrant_body = QVectors int string | QUpsert "point list" | QSearch search_request | QFilter qfilter

record 'w qdrant_client =
  qc_baseURL :: string
  qc_http :: "(qdrant_body, search_result list, 'w) http_peer"

definition collection_url :: "'w qdrant_client \<Rightarrow> string \<Rightarrow> string \<Rightarrow> string" where
  "collection_url c name path = qc_baseURL c @ ''/collections/'' @ PathEscape name @ path"

definition json_header :: "(string \<times> string) list" where
  "json_header = [(''Content-Type'', ''application/json'')]"

text \<open>The steps every call repeats: build the request, send it, look at the status.\<close>

definition qdrant_call ::
  "'w qdrant_client \<Rightarrow> string \<Rightarrow> string \<Rightarrow> string \<Rightarrow> string \<Rightarrow> (string \<times> string) list \<Rightarrow> qdrant_body option \<Rightarrow> 'w
     \<Rightarrow> (int \<times> search_result list result) result \<times> 'w" where
  "qdrant_call c method url badReq failed headers body w =
     (case ht_NewRequest (qc_http c) url of
        Some e \<Rightarrow> (Inl (Wrap badReq e), w)
      | None \<Rightarrow>
          (case ht_Do (qc_http c) \<lparr>hr_Method = method, hr_URL = url, hr_Headers = headers, hr_Body = body\<rparr> w of
             (Inl e, w1) \<Rightarrow> (Inl (Wrap failed e), w1)
           | (Inr r, w1) \<Rightarrow> (Inr r, w1)))"

definition returned :: "string \<Rightarrow> int \<Rightarrow> go_error" where
  "returned what code = Errorf (what @ '' returned '' @ int_str code)"

definition EnsureCollection :: "'w qdrant_client \<Rightarrow> string \<Rightarrow> int \<Rightarrow> 'w \<Rightarrow> unit result \<times> 'w" where
  "EnsureCollection c name vectorSize w =
     (case qdrant_call c ''PUT'' (collection_url c name '''') ''qdrant: create collection request''
             ''qdrant: create collection'' json_header (Some (QVectors vectorSize ''Cosine'')) w of
        (Inl e, w1) \<Rightarrow> (Inl e, w1)
      | (Inr (code, _), w1) \<Rightarrow>
          (if code = 409 then (Inr (), w1)
           else if code \<noteq> 200 then (Inl (returned ''qdrant: create collection'' code), w1)
           else (Inr (), w1)))"

definition upsertBatch :: "'w qdrant_client \<Rightarrow> string \<Rightarrow> point list \<Rightarrow> 'w \<Rightarrow> unit result \<times> 'w" where
  "upsertBatch c collection points w =
     (case qdrant_call c ''PUT'' (collection_url c collection ''/points'') ''qdrant: upsert request''
             ''qdrant: upsert'' json_header (Some (QUpsert points)) w of
        (Inl e, w1) \<Rightarrow> (Inl e, w1)
      | (Inr (code, _), w1) \<Rightarrow>
          (if code \<noteq> 200 then (Inl (returned ''qdrant: upsert'' code), w1) else (Inr (), w1)))"

definition batchSize :: nat where "batchSize = 100"

text \<open>The loop over batches of \<^verbatim>\<open>points[i:end]\<close>.\<close>

function upsert_loop :: "'w qdrant_client \<Rightarrow> string \<Rightarrow> point list \<Rightarrow> nat \<Rightarrow> 'w \<Rightarrow> unit result \<times> 'w" where
  "upsert_loop c collection points i w =
     (if i < length points
      then let stop = (if i + batchSize > length points then length points else i + batchSize) in
           case upsertBatch c collection (take (stop - i) (drop i points)) w of
             (Inl e, w1) \<Rightarrow> (Inl (Wrap (''batch '' @ nat_str i @ en_dash @ nat_str (stop - 1)) e), w1)
           | (Inr _, w1) \<Rightarrow> upsert_loop c collection points (i + batchSize) w1
      else (Inr (), w))"
  by pat_completeness auto
termination
  by (relation "measure (\<lambda>(c, collection, points, i, w). length points - i)") (auto simp: batchSize_def)

declare upsert_loop.simps [simp del]

definition Upsert :: "'w qdrant_client \<Rightarrow> string \<Rightarrow> point list \<Rightarrow> 'w \<Rightarrow> unit result \<times> 'w" where
  "Upsert c collection points w =
     (if length points > batchSize then upsert_loop c collection points 0 w
      else upsertBatch c collection points w)"

definition Search :: "'w qdrant_client \<Rightarrow> string \<Rightarrow> search_request \<Rightarrow> 'w \<Rightarrow> search_result list result \<times> 'w" where
  "Search c collection sr w =
     (case qdrant_call c ''POST'' (collection_url c collection ''/points/search'') ''qdrant: search request''
             ''qdrant: search'' json_header (Some (QSearch sr)) w of
        (Inl e, w1) \<Rightarrow> (Inl e, w1)
      | (Inr (code, decoded), w1) \<Rightarrow>
          (if code \<noteq> 200 then (Inl (returned ''qdrant: search'' code), w1)
           else case decoded of
                  Inl e \<Rightarrow> (Inl (Wrap ''qdrant: decode search'' e), w1)
                | Inr rs \<Rightarrow> (Inr rs, w1)))"

definition DeleteByFilter :: "'w qdrant_client \<Rightarrow> string \<Rightarrow> qfilter \<Rightarrow> 'w \<Rightarrow> unit result \<times> 'w" where
  "DeleteByFilter c collection filt w =
     (case qdrant_call c ''POST'' (collection_url c collection ''/points/delete'') ''qdrant: delete by filter request''
             ''qdrant: delete by filter'' json_header (Some (QFilter filt)) w of
        (Inl e, w1) \<Rightarrow> (Inl e, w1)
      | (Inr (code, _), w1) \<Rightarrow>
          (if code \<noteq> 200 then (Inl (returned ''qdrant: delete by filter'' code), w1) else (Inr (), w1)))"

definition DeleteCollection :: "'w qdrant_client \<Rightarrow> string \<Rightarrow> 'w \<Rightarrow> unit result \<times> 'w" where
  "DeleteCollection c name w =
     (case qdrant_call c ''DELETE'' (collection_url c name '''') ''qdrant: delete collection request''
             ''qdrant: delete collection'' [] None w of
        (Inl e, w1) \<Rightarrow> (Inl e, w1)
      | (Inr (code, _), w1) \<Rightarrow>
          (if code \<noteq> 200 \<and> code \<noteq> 404 then (Inl (returned ''qdrant: delete collection'' code), w1) else (Inr (), w1)))"

definition Healthy :: "'w qdrant_client \<Rightarrow> 'w \<Rightarrow> bool \<times> 'w" where
  "Healthy c w =
     (case qdrant_call c ''GET'' (qc_baseURL c @ ''/healthz'') '''' '''' [] None w of
        (Inl _, w1) \<Rightarrow> (False, w1)
      | (Inr (code, _), w1) \<Rightarrow> (code = 200, w1))"

section \<open>Batches\<close>

text \<open>The requests an upload consists of: batches of at most 100 points that together are the
  points, in order.\<close>

fun upload :: "'w qdrant_client \<Rightarrow> string \<Rightarrow> point list list \<Rightarrow> 'w \<Rightarrow> unit result \<times> 'w" where
  "upload c collection [] w = (Inr (), w)"
| "upload c collection (b # bs) w =
     (case upsertBatch c collection b w of
        (Inl e, w1) \<Rightarrow> (Inl e, w1)
      | (Inr _, w1) \<Rightarrow> upload c collection bs w1)"

function batches :: "nat \<Rightarrow> 'a list \<Rightarrow> 'a list list" where
  "batches n xs = (if n = 0 \<or> xs = [] then [] else take n xs # batches n (drop n xs))"
  by pat_completeness auto
termination by (relation "measure (\<lambda>(n, xs). length xs)") (auto simp: length_drop)

declare batches.simps [simp del]

lemma concat_batches: "0 < n \<Longrightarrow> concat (batches n xs) = xs"
  by (induction n xs rule: batches.induct) (subst batches.simps, auto)

lemma batches_length: "b \<in> set (batches n xs) \<Longrightarrow> b \<noteq> [] \<and> length b \<le> n"
proof (induction n xs rule: batches.induct)
  case (1 n xs)
  then show ?case
    by (cases "n = 0 \<or> xs = []") (auto simp: batches.simps [of n xs])
qed

definition same_outcome :: "unit result \<times> 'w \<Rightarrow> unit result \<times> 'w \<Rightarrow> bool" where
  "same_outcome x y \<longleftrightarrow> isl (fst x) = isl (fst y) \<and> snd x = snd y"

lemma upsert_loop_upload:
  "same_outcome (upsert_loop c collection points i w) (upload c collection (batches batchSize (drop i points)) w)"
proof (induction c collection points i w rule: upsert_loop.induct)
  case (1 c collection points i w)
  show ?case
  proof (cases "i < length points")
    case False
    then show ?thesis by (simp add: upsert_loop.simps [of _ _ _ i] batches.simps same_outcome_def)
  next
    case True
    let ?stop = "if i + batchSize > length points then length points else i + batchSize"
    have b: "take (?stop - i) (drop i points) = take batchSize (drop i points)" by (simp add: min_def)
    have d: "batches batchSize (drop i points) = take batchSize (drop i points) # batches batchSize (drop (i + batchSize) points)"
      using True by (subst batches.simps) (simp add: batchSize_def add.commute)
    obtain r w1 where u: "upsertBatch c collection (take batchSize (drop i points)) w = (r, w1)" by force
    show ?thesis
      unfolding d using True u 1 [OF True refl] b
      by (subst upsert_loop.simps) (auto simp: same_outcome_def Let_def split: sum.splits)
  qed
qed

lemma Upsert_upload:
  assumes "points \<noteq> []"
  shows "same_outcome (Upsert c collection points w) (upload c collection (batches batchSize points) w)"
proof (cases "length points > batchSize")
  case True
  then show ?thesis using upsert_loop_upload [of c collection points 0 w] by (simp add: Upsert_def)
next
  case False
  then have "batches batchSize points = [points]"
    using assms by (subst batches.simps) (auto simp: batchSize_def batches.simps [of _ "[]"])
  with False show ?thesis
    by (auto simp: Upsert_def same_outcome_def split: prod.splits sum.splits)
qed

end
