(* ===== verification/File_Connector.thy ===== *)
theory File_Connector
  imports Go_Utf8 Go_Fs Source_Registry Embedding_Client Qdrant_Client
begin

text \<open>
  \<^verbatim>\<open>data-plane/ingestion/file/connector.go\<close> (with the types of \<^verbatim>\<open>data-plane/ingestion/plugin.go\<close>): reading
  documents from a directory, cutting them into chunks, embedding the chunks in batches and storing
  them in the vector database. What the operating system answers during a call is the record
  \<open>file_os\<close>; the embedding service and the vector database live in the world \<open>'w\<close>, the document
  tracker in the state \<open>'s\<close>. SHA-256 is the argument \<open>sha\<close>. \<open>None\<close> stands for a panic.
\<close>

record source_config =
  sc_SourceID :: string
  sc_Type :: string
  sc_Credentials :: "(string \<times> string) list"
  sc_Schedule :: string
  sc_Collection :: string
  sc_Metadata :: "(string \<times> string) list"
  sc_Config :: "(string \<times> string) list"

record ingest_result =
  ig_DocumentsProcessed :: int
  ig_ChunksStored :: int
  ig_Errors :: "string list"

definition zero_result :: ingest_result where
  "zero_result = \<lparr>ig_DocumentsProcessed = 0, ig_ChunksStored = 0, ig_Errors = []\<rparr>"

record file_info =
  fi_IsDir :: bool
  fi_Size :: int

record dir_entry =
  de_Name :: string
  de_IsDir :: bool

record file_os =
  fo_Abs :: "string \<Rightarrow> string result"
  fo_EvalSymlinks :: "string \<Rightarrow> string result"
  fo_Stat :: "string \<Rightarrow> file_info result"
  fo_ReadDir :: "string \<Rightarrow> dir_entry list result"
  fo_ReadFile :: "string \<Rightarrow> string result"

record file_connector =
  fc_allowedDir :: string
  fc_sources :: "(string \<times> source_config) list"

definition maxFileSize :: int where "maxFileSize = 52428800"
definition maxEmbedBatch :: nat where "maxEmbedBatch = 256"

definition config_get :: "(string \<times> string) list \<Rightarrow> string \<Rightarrow> string" where
  "config_get m k = (case map_of m k of None \<Rightarrow> '''' | Some v \<Rightarrow> v)"

definition file_New :: "string \<Rightarrow> file_connector" where
  "file_New allowedDir = \<lparr>fc_allowedDir = allowedDir, fc_sources = []\<rparr>"

section \<open>Connecting\<close>

definition outside_allowed :: "string \<Rightarrow> string \<Rightarrow> bool" where
  "outside_allowed allowedDir resolved \<longleftrightarrow>
     allowedDir \<noteq> '''' \<and> resolved \<noteq> allowedDir \<and> \<not> HasPrefix resolved (allowedDir @ ''/'')"

definition file_Connect :: "file_os \<Rightarrow> source_config \<Rightarrow> file_connector \<Rightarrow> unit result \<times> file_connector" where
  "file_Connect os cfg c =
     (let path = config_get (sc_Config cfg) ''path'' in
      if path = '''' then (Inl (Errorf ''file connector: config.path is required''), c)
      else case fo_Abs os path of
        Inl e \<Rightarrow> (Inl (Wrap (''file connector: resolve path '' @ path) e), c)
      | Inr absolute \<Rightarrow>
          (case fo_EvalSymlinks os absolute of
             Inl e \<Rightarrow> (Inl (Wrap (''file connector: eval symlinks '' @ path) e), c)
           | Inr resolved \<Rightarrow>
               (if outside_allowed (fc_allowedDir c) resolved
                then (Inl (Errorf (''file connector: path '' @ resolved @ '' is outside allowed directory '' @ fc_allowedDir c)), c)
                else case fo_Stat os resolved of
                  Inl e \<Rightarrow> (Inl (Wrap (''file connector: stat '' @ resolved) e), c)
                | Inr info \<Rightarrow>
                    (if \<not> fi_IsDir info \<and> fi_Size info > maxFileSize
                     then (Inl (Errorf (''file connector: '' @ resolved @ '' exceeds '' @ int_str maxFileSize @ '' byte limit'')), c)
                     else let cfg1 = cfg\<lparr>sc_Config := AList.update ''path'' resolved (sc_Config cfg)\<rparr>
                          in (Inr (), c\<lparr>fc_sources := AList.update (sc_SourceID cfg) cfg1 (fc_sources c)\<rparr>)))))"

definition file_Status :: "string \<Rightarrow> file_connector \<Rightarrow> bool" where
  "file_Status sid c = (map_of (fc_sources c) sid \<noteq> None)"

definition file_Disconnect :: "string \<Rightarrow> file_connector \<Rightarrow> file_connector" where
  "file_Disconnect sid c = c\<lparr>fc_sources := AList.delete sid (fc_sources c)\<rparr>"

section \<open>Ingesting\<close>

text \<open>\<^verbatim>\<open>filepath.Ext\<close>: from the last dot of the last element.\<close>

definition path_Ext :: "string \<Rightarrow> string" where
  "path_Ext p =
     (let b = rev (takeWhile (\<lambda>c. c \<noteq> CHR ''/'') (rev p)) in
      if CHR ''.'' \<in> set b then CHR ''.'' # rev (takeWhile (\<lambda>c. c \<noteq> CHR ''.'') (rev b)) else '''')"

definition ingest_files :: "file_os \<Rightarrow> string \<Rightarrow> string list result" where
  "ingest_files os path =
     (case fo_Stat os path of
        Inl e \<Rightarrow> Inl (Wrap (''file connector: stat '' @ path) e)
      | Inr info \<Rightarrow>
          (if fi_IsDir info
           then (case fo_ReadDir os path of
                   Inl e \<Rightarrow> Inl (Wrap (''file connector: read dir '' @ path) e)
                 | Inr entries \<Rightarrow>
                     Inr (map (\<lambda>e. path_Join [path, de_Name e])
                       (filter (\<lambda>e. \<not> de_IsDir e \<and> path_Ext (de_Name e) \<in> {''.txt'', ''.csv'', ''.md''}) entries)))
           else Inr [path]))"

record pending_chunk =
  pc_path :: string
  pc_docID :: string
  pc_chunk :: chunk

record scan_state =
  sn_result :: ingest_result
  sn_pending :: "pending_chunk list"
  sn_hashes :: "(string \<times> string) list"

definition note_error :: "string \<Rightarrow> ingest_result \<Rightarrow> ingest_result" where
  "note_error msg r = r\<lparr>ig_Errors := ig_Errors r @ [msg]\<rparr>"

definition processed :: "ingest_result \<Rightarrow> ingest_result" where
  "processed r = r\<lparr>ig_DocumentsProcessed := ig_DocumentsProcessed r + 1\<rparr>"

text \<open>Whether the tracker already has this content.\<close>

definition already_known :: "'s doc_tracker option \<Rightarrow> string \<Rightarrow> string \<Rightarrow> string \<Rightarrow> 's \<Rightarrow> bool \<times> 's" where
  "already_known tracker sid docID contentHash s =
     (case tracker of
        None \<Rightarrow> (False, s)
      | Some t \<Rightarrow>
          (case dt_GetDocHash t sid docID s of
             (Inl _, s1) \<Rightarrow> (False, s1)
           | (Inr prev, s1) \<Rightarrow> (prev = contentHash, s1)))"

definition content_hash :: "(string \<Rightarrow> string) \<Rightarrow> string \<Rightarrow> string" where
  "content_hash sha data = hex_encode (sha data)"

definition doc_chunks :: "string \<Rightarrow> chunk list option" where
  "doc_chunks data = Split (string_runes data) \<lparr>ck_ChunkSize = 0, ck_Overlap = 0\<rparr>"

definition scan_file ::
  "file_os \<Rightarrow> (string \<Rightarrow> string) \<Rightarrow> 's doc_tracker option \<Rightarrow> string \<Rightarrow> string \<Rightarrow> scan_state \<Rightarrow> 's \<Rightarrow> (scan_state \<times> 's) option" where
  "scan_file os sha tracker sid f n s =
     (let docID = path_Base f in
      case fo_ReadFile os f of
        Inl e \<Rightarrow> Some (n\<lparr>sn_result := note_error (docID @ '': read: '' @ error_text e) (sn_result n)\<rparr>, s)
      | Inr data \<Rightarrow>
          (if int (length data) > maxFileSize
           then Some (n\<lparr>sn_result := note_error (docID @ '': exceeds '' @ int_str maxFileSize @ '' byte limit'') (sn_result n)\<rparr>, s)
           else let contentHash = content_hash sha data in
             case already_known tracker sid docID contentHash s of
               (known, s1) \<Rightarrow>
                 (if known then Some (n\<lparr>sn_result := processed (sn_result n)\<rparr>, s1)
                  else case doc_chunks data of
                    None \<Rightarrow> None
                  | Some chunks \<Rightarrow>
                      (if length chunks = 0 then Some (n\<lparr>sn_result := processed (sn_result n)\<rparr>, s1)
                       else Some (n\<lparr>sn_result := processed (sn_result n),
                                   sn_pending := sn_pending n @ map (\<lambda>ch. \<lparr>pc_path = f, pc_docID = docID, pc_chunk = ch\<rparr>) chunks,
                                   sn_hashes := AList.update docID contentHash (sn_hashes n)\<rparr>, s1)))))"

fun scan_files ::
  "file_os \<Rightarrow> (string \<Rightarrow> string) \<Rightarrow> 's doc_tracker option \<Rightarrow> string \<Rightarrow> string list \<Rightarrow> scan_state \<Rightarrow> 's \<Rightarrow> (scan_state \<times> 's) option" where
  "scan_files os sha tracker sid [] n s = Some (n, s)"
| "scan_files os sha tracker sid (f # fs) n s =
     (case scan_file os sha tracker sid f n s of
        None \<Rightarrow> None
      | Some (n1, s1) \<Rightarrow> scan_files os sha tracker sid fs n1 s1)"

definition point_of :: "(string \<Rightarrow> string) \<Rightarrow> string \<Rightarrow> pending_chunk \<Rightarrow> rat list \<Rightarrow> point" where
  "point_of sha sid p vector =
     (let idx = nat_str (ch_Index (pc_chunk p)) in
      \<lparr>pt_ID = hex_encode (take 16 (sha (sid @ '':'' @ pc_path p @ '':'' @ idx))), pt_Vector = vector,
       pt_Payload = [(''text'', PText (runes_string (ch_Text (pc_chunk p)))), (''source_id'', PText sid),
                     (''file'', PText (pc_docID p)), (''chunk_idx'', PNum (of_nat (ch_Index (pc_chunk p))))]\<rparr>)"

text \<open>One batch: embed, then store. \<^verbatim>\<open>vectors[j]\<close> panics when there are fewer vectors than chunks.\<close>

definition ingest_batch ::
  "'w embed_client \<Rightarrow> 'w qdrant_client \<Rightarrow> (string \<Rightarrow> string) \<Rightarrow> string \<Rightarrow> string \<Rightarrow> nat \<Rightarrow> pending_chunk list \<Rightarrow> ingest_result \<Rightarrow> 'w
     \<Rightarrow> (ingest_result \<times> 'w) option" where
  "ingest_batch embedder vector sha sid collection i batch r w =
     (let range = nat_str i @ en_dash @ nat_str (i + length batch - 1) in
      case Embed embedder (map (\<lambda>p. runes_string (ch_Text (pc_chunk p))) batch) w of
        None \<Rightarrow> None
      | Some (Inl e, w1) \<Rightarrow> Some (note_error (''embed batch '' @ range @ '': '' @ error_text e) r, w1)
      | Some (Inr vectors, w1) \<Rightarrow>
          (if length vectors < length batch then None
           else case Upsert vector collection (map2 (point_of sha sid) batch vectors) w1 of
             (Inl e, w2) \<Rightarrow> Some (note_error (''upsert batch '' @ range @ '': '' @ error_text e) r, w2)
           | (Inr _, w2) \<Rightarrow> Some (r\<lparr>ig_ChunksStored := ig_ChunksStored r + int (length batch)\<rparr>, w2)))"

function ingest_batches ::
  "'w embed_client \<Rightarrow> 'w qdrant_client \<Rightarrow> (string \<Rightarrow> string) \<Rightarrow> string \<Rightarrow> string \<Rightarrow> pending_chunk list \<Rightarrow> nat \<Rightarrow> ingest_result \<Rightarrow> 'w
     \<Rightarrow> (ingest_result \<times> 'w) option" where
  "ingest_batches embedder vector sha sid collection pending i r w =
     (if i < length pending
      then (case ingest_batch embedder vector sha sid collection i (take maxEmbedBatch (drop i pending)) r w of
              None \<Rightarrow> None
            | Some (r1, w1) \<Rightarrow> ingest_batches embedder vector sha sid collection pending (i + maxEmbedBatch) r1 w1)
      else Some (r, w))"
  by pat_completeness auto
termination
  by (relation "measure (\<lambda>(e, v, sha, sid, col, pending, i, r, w). length pending - i)") (auto simp: maxEmbedBatch_def)

declare ingest_batches.simps [simp del]

fun record_hashes :: "'s doc_tracker \<Rightarrow> string \<Rightarrow> (string \<times> string) list \<Rightarrow> 's \<Rightarrow> 's" where
  "record_hashes t sid [] s = s"
| "record_hashes t sid ((docID, hash) # hs) s = record_hashes t sid hs (snd (dt_SetDocHash t sid docID hash s))"

definition doc_filter :: "string \<Rightarrow> string \<Rightarrow> qfilter" where
  "doc_filter sid docID =
     [\<lparr>cd_Key = ''source_id'', cd_Match = sid\<rparr>, \<lparr>cd_Key = ''file'', cd_Match = docID\<rparr>]"

fun drop_unseen ::
  "'w qdrant_client \<Rightarrow> 's doc_tracker \<Rightarrow> string \<Rightarrow> string \<Rightarrow> string list \<Rightarrow> string list \<Rightarrow> 's \<Rightarrow> 'w \<Rightarrow> 's \<times> 'w" where
  "drop_unseen vector t sid collection seen [] s w = (s, w)"
| "drop_unseen vector t sid collection seen (docID # ids) s w =
     (if docID \<in> set seen then drop_unseen vector t sid collection seen ids s w
      else let w1 = snd (DeleteByFilter vector collection (doc_filter sid docID) w);
               s1 = snd (dt_DeleteDocTracking t sid docID s)
           in drop_unseen vector t sid collection seen ids s1 w1)"

definition finish_tracking ::
  "'w qdrant_client \<Rightarrow> 's doc_tracker option \<Rightarrow> string \<Rightarrow> string \<Rightarrow> string list \<Rightarrow> (string \<times> string) list \<Rightarrow> 's \<Rightarrow> 'w \<Rightarrow> 's \<times> 'w" where
  "finish_tracking vector tracker sid collection seen hashes s w =
     (case tracker of
        None \<Rightarrow> (s, w)
      | Some t \<Rightarrow>
          (case dt_ListDocIDs t sid (record_hashes t sid hashes s) of
             (Inl _, s2) \<Rightarrow> (s2, w)
           | (Inr prevDocs, s2) \<Rightarrow> drop_unseen vector t sid collection seen prevDocs s2 w))"

definition file_Ingest ::
  "file_os \<Rightarrow> (string \<Rightarrow> string) \<Rightarrow> 'w embed_client \<Rightarrow> 'w qdrant_client \<Rightarrow> 's doc_tracker option \<Rightarrow> string \<Rightarrow> file_connector \<Rightarrow> 's \<Rightarrow> 'w
     \<Rightarrow> (ingest_result result \<times> 's \<times> 'w) option" where
  "file_Ingest os sha embedder vector tracker sid c s w =
     (case map_of (fc_sources c) sid of
        None \<Rightarrow> Some (Inl (Errorf (''file connector: source '' @ sid @ '' not connected'')), s, w)
      | Some cfg \<Rightarrow>
          (case ingest_files os (config_get (sc_Config cfg) ''path'') of
             Inl e \<Rightarrow> Some (Inl e, s, w)
           | Inr files \<Rightarrow>
               (case scan_files os sha tracker sid files \<lparr>sn_result = zero_result, sn_pending = [], sn_hashes = []\<rparr> s of
                  None \<Rightarrow> None
                | Some (n, s1) \<Rightarrow>
                    (case ingest_batches embedder vector sha sid (sc_Collection cfg) (sn_pending n) 0 (sn_result n) w of
                       None \<Rightarrow> None
                     | Some (r, w1) \<Rightarrow>
                         (case finish_tracking vector tracker sid (sc_Collection cfg) (map path_Base files) (sn_hashes n) s1 w1 of
                            (s2, w2) \<Rightarrow> Some (Inr r, s2, w2))))))"

section \<open>A repeated ingest is silent\<close>

definition known_hash :: "(string \<Rightarrow> string option) \<Rightarrow> string \<Rightarrow> string" where
  "known_hash v docID = (case v docID of None \<Rightarrow> '''' | Some h \<Rightarrow> h)"

text \<open>A file that an ingest with recorded hashes \<open>v\<close> has nothing to do for.\<close>

definition settled :: "file_os \<Rightarrow> (string \<Rightarrow> string) \<Rightarrow> (string \<Rightarrow> string option) \<Rightarrow> string \<Rightarrow> bool" where
  "settled os sha v f \<longleftrightarrow>
     (case fo_ReadFile os f of
        Inl _ \<Rightarrow> True
      | Inr data \<Rightarrow>
          int (length data) > maxFileSize \<or> known_hash v (path_Base f) = content_hash sha data \<or> doc_chunks data = Some [])"

lemma settled_cong: "v (path_Base f) = v' (path_Base f) \<Longrightarrow> settled os sha v f = settled os sha v' f"
proof -
  assume "v (path_Base f) = v' (path_Base f)"
  then have "known_hash v (path_Base f) = known_hash v' (path_Base f)" by (simp add: known_hash_def)
  then show ?thesis by (simp add: settled_def split: sum.split)
qed

lemma result_updates [simp]:
  "ig_ChunksStored (processed r) = ig_ChunksStored r" "ig_ChunksStored (note_error m r) = ig_ChunksStored r"
  by (simp_all add: processed_def note_error_def)

context reliable_tracking
begin

lemma known_cases:
  assumes "quiet s"
  obtains s1 where "already_known (Some t) sid docID h s = (known_hash (view s sid) docID = h, s1)"
    "quiet s1" "view s1 = view s"
proof -
  obtain prev s1 where g: "dt_GetDocHash t sid docID s = (Inr prev, s1)" and q: "quiet s1"
    using quiet_get [OF assms] by blast
  have "prev = known_hash (view s sid) docID" using get_hash [OF g] by (simp add: known_hash_def)
  then show thesis using that [of s1] g q get_view [OF g] by (simp add: already_known_def)
qed

lemma scan_file_settled:
  assumes "quiet s" "settled os sha (view s sid) f"
  shows "\<exists>r s1. scan_file os sha (Some t) sid f n s = Some (n\<lparr>sn_result := r\<rparr>, s1) \<and> quiet s1 \<and> view s1 = view s \<and>
    ig_ChunksStored r = ig_ChunksStored (sn_result n)"
proof (cases "fo_ReadFile os f")
  case (Inl e)
  then show ?thesis using assms(1) by (auto simp: scan_file_def intro!: exI)
next
  case (Inr data)
  show ?thesis
  proof (cases "int (length data) > maxFileSize")
    case True
    then show ?thesis using Inr assms(1) by (auto simp: scan_file_def intro!: exI)
  next
    case False
    obtain s1 where k: "already_known (Some t) sid (path_Base f) (content_hash sha data) s =
        (known_hash (view s sid) (path_Base f) = content_hash sha data, s1)" "quiet s1" "view s1 = view s"
      using known_cases [OF assms(1)] by blast
    have "known_hash (view s sid) (path_Base f) = content_hash sha data \<or> doc_chunks data = Some []"
      using assms(2) Inr False by (simp add: settled_def)
    then have "scan_file os sha (Some t) sid f n s = Some (n\<lparr>sn_result := processed (sn_result n)\<rparr>, s1)"
      using Inr False k by (auto simp: scan_file_def Let_def)
    then show ?thesis using k by (metis result_updates(1))
  qed
qed

lemma scan_files_settled:
  assumes "quiet s" "\<forall>f \<in> set files. settled os sha (view s sid) f"
  shows "\<exists>r s1. scan_files os sha (Some t) sid files n s = Some (n\<lparr>sn_result := r\<rparr>, s1) \<and> quiet s1 \<and> view s1 = view s \<and>
    ig_ChunksStored r = ig_ChunksStored (sn_result n)"
  using assms
proof (induction files arbitrary: n s)
  case Nil
  have "scan_files os sha (Some t) sid [] n s = Some (n\<lparr>sn_result := sn_result n\<rparr>, s)" by simp
  with Nil show ?case by blast
next
  case (Cons f fs)
  obtain r s1 where f: "scan_file os sha (Some t) sid f n s = Some (n\<lparr>sn_result := r\<rparr>, s1)" "quiet s1" "view s1 = view s"
    "ig_ChunksStored r = ig_ChunksStored (sn_result n)"
    using scan_file_settled [of s os sha sid f n] Cons.prems by auto
  show ?case using Cons.IH [of s1 "n\<lparr>sn_result := r\<rparr>"] Cons.prems(2) f by auto
qed

text \<open>What a scan adds: for every file either there was nothing to do, or its hash is to be
  recorded.\<close>

lemma scan_file_hashes:
  assumes "scan_file os sha (Some t) sid f n s = Some (n1, s1)" "quiet s"
  shows "quiet s1 \<and> view s1 = view s \<and>
    (sn_hashes n1 = sn_hashes n \<and> settled os sha (view s sid) f \<or>
     (\<exists>data. fo_ReadFile os f = Inr data \<and> sn_hashes n1 = AList.update (path_Base f) (content_hash sha data) (sn_hashes n)))"
proof (cases "fo_ReadFile os f")
  case (Inl e)
  then show ?thesis using assms by (auto simp: scan_file_def settled_def)
next
  case (Inr data)
  obtain s2 where k: "already_known (Some t) sid (path_Base f) (content_hash sha data) s =
      (known_hash (view s sid) (path_Base f) = content_hash sha data, s2)" "quiet s2" "view s2 = view s"
    using known_cases [OF assms(2)] by blast
  show ?thesis using assms Inr k
    by (auto simp: scan_file_def settled_def Let_def split: if_splits option.splits)
qed

lemma scan_files_hashes:
  assumes "scan_files os sha (Some t) sid files n s = Some (n1, s1)" "quiet s"
    and "distinct (map path_Base files)" "distinct (map fst (sn_hashes n))" "\<forall>f \<in> set files. map_of (sn_hashes n) (path_Base f) = None"
  shows "quiet s1 \<and> view s1 = view s \<and> distinct (map fst (sn_hashes n1)) \<and>
    (\<forall>f \<in> set files. settled os sha (view s sid ++ map_of (sn_hashes n1)) f) \<and>
    (\<forall>d. d \<notin> path_Base ` set files \<longrightarrow> map_of (sn_hashes n1) d = map_of (sn_hashes n) d)"
  using assms
proof (induction files arbitrary: n s)
  case Nil
  then show ?case by simp
next
  case (Cons f fs)
  from Cons.prems(1) obtain n2 s2 where f: "scan_file os sha (Some t) sid f n s = Some (n2, s2)"
    and fs: "scan_files os sha (Some t) sid fs n2 s2 = Some (n1, s1)" by (auto split: option.splits)
  note h = scan_file_hashes [OF f Cons.prems(2)]
  have other: "map_of (sn_hashes n2) d = map_of (sn_hashes n) d" if "d \<noteq> path_Base f" for d
    using h that by (auto simp: AList.update_conv')
  have dist: "distinct (map fst (sn_hashes n2))" using h Cons.prems(4) by (auto simp: AList.distinct_update)
  have "path_Base g \<noteq> path_Base f" if "g \<in> set fs" for g
    using Cons.prems(3) that by (auto simp: rev_image_eqI)
  then have none: "\<forall>g \<in> set fs. map_of (sn_hashes n2) (path_Base g) = None" using other Cons.prems(5) by auto
  have ih: "quiet s1 \<and> view s1 = view s2 \<and> distinct (map fst (sn_hashes n1)) \<and>
    (\<forall>f \<in> set fs. settled os sha (view s2 sid ++ map_of (sn_hashes n1)) f) \<and>
    (\<forall>d. d \<notin> path_Base ` set fs \<longrightarrow> map_of (sn_hashes n1) d = map_of (sn_hashes n2) d)"
    using Cons.IH [OF fs] h Cons.prems(3) dist none by simp
  have f_out: "path_Base f \<notin> path_Base ` set fs" using Cons.prems(3) by simp
  then have at_f: "map_of (sn_hashes n1) (path_Base f) = map_of (sn_hashes n2) (path_Base f)" using ih by blast
  have "settled os sha (view s sid ++ map_of (sn_hashes n1)) f"
    using h
  proof (elim conjE disjE exE)
    assume "sn_hashes n2 = sn_hashes n" and set: "settled os sha (view s sid) f"
    then have "map_of (sn_hashes n1) (path_Base f) = None" using at_f Cons.prems(5) by simp
    then have "(view s sid ++ map_of (sn_hashes n1)) (path_Base f) = view s sid (path_Base f)" by (simp add: map_add_def)
    then show ?thesis using set settled_cong by metis
  next
    fix data assume "fo_ReadFile os f = Inr data"
      "sn_hashes n2 = AList.update (path_Base f) (content_hash sha data) (sn_hashes n)"
    then show ?thesis using at_f by (simp add: settled_def known_hash_def map_add_def AList.update_conv')
  qed
  with ih h other show ?case by auto
qed
end

context reliable_tracking
begin

lemma record_hashes_view:
  assumes "quiet s" "distinct (map fst hs)"
  shows "quiet (record_hashes t sid hs s) \<and> view (record_hashes t sid hs s) sid = view s sid ++ map_of hs"
  using assms
proof (induction hs arbitrary: s)
  case (Cons p hs)
  obtain d h where p: "p = (d, h)" by force
  obtain s1 where s1: "dt_SetDocHash t sid d h s = (Inr (), s1)" "quiet s1" using quiet_set [OF Cons.prems(1)] by blast
  have v: "view s1 sid = (view s sid)(d \<mapsto> h)" using set_ok [OF s1(1)] by simp
  have none: "map_of hs d = None" using Cons.prems(2) p by (simp add: map_of_eq_None_iff)
  have "(view s sid)(d \<mapsto> h) ++ map_of hs = view s sid ++ map_of (p # hs)"
    using none p by (auto simp: map_add_def fun_eq_iff split: option.splits)
  moreover have "quiet (record_hashes t sid hs s1) \<and> view (record_hashes t sid hs s1) sid = view s1 sid ++ map_of hs"
    using Cons.IH [OF s1(2)] Cons.prems(2) by simp
  moreover have "record_hashes t sid (p # hs) s = record_hashes t sid hs s1" by (simp add: p s1(1))
  ultimately show ?case using v by metis
qed simp

lemma drop_unseen_view:
  assumes "drop_unseen vector t sid collection seen ids s w = (s', w')" "quiet s"
  shows "quiet s' \<and> view s' sid = (\<lambda>d. if d \<in> set ids \<and> d \<notin> set seen then None else view s sid d)"
  using assms
proof (induction ids arbitrary: s w)
  case (Cons d ids)
  show ?case
  proof (cases "d \<in> set seen")
    case True
    then show ?thesis using Cons.IH [of s w] Cons.prems by (auto simp: fun_eq_iff)
  next
    case False
    obtain s1 where s1: "dt_DeleteDocTracking t sid d s = (Inr (), s1)" "quiet s1" using quiet_del [OF Cons.prems(2)] by blast
    have v: "view s1 sid = (view s sid)(d := None)" using del_ok [OF s1(1)] by simp
    show ?thesis using Cons.IH [OF _ s1(2)] Cons.prems(1) False s1(1) v by (auto simp: Let_def fun_eq_iff)
  qed
qed (simp add: fun_eq_iff)

lemma drop_unseen_nothing: "set ids \<subseteq> set seen \<Longrightarrow> drop_unseen vector t sid collection seen ids s w = (s, w)"
  by (induction ids) auto

text \<open>After an ingest, whatever happened to its batches, every file of the source is settled and
  nothing else is tracked.\<close>

lemma ingest_settles:
  assumes run: "file_Ingest os sha embedder vector (Some t) sid c s w = Some (Inr r, s', w')" and q: "quiet s"
    and cfg: "map_of (fc_sources c) sid = Some cfg"
    and files: "ingest_files os (config_get (sc_Config cfg) ''path'') = Inr files" "distinct (map path_Base files)"
  shows "quiet s' \<and> (\<forall>f \<in> set files. settled os sha (view s' sid) f) \<and> dom (view s' sid) \<subseteq> path_Base ` set files"
proof -
  let ?n0 = "\<lparr>sn_result = zero_result, sn_pending = [], sn_hashes = []\<rparr>"
  from run cfg files obtain n s1 w1 where scan: "scan_files os sha (Some t) sid files ?n0 s = Some (n, s1)"
    and fin: "finish_tracking vector (Some t) sid (sc_Collection cfg) (map path_Base files) (sn_hashes n) s1 w1 = (s', w')"
    by (auto simp: file_Ingest_def split: option.splits prod.splits)
  have h: "quiet s1 \<and> view s1 = view s \<and> distinct (map fst (sn_hashes n)) \<and>
      (\<forall>f \<in> set files. settled os sha (view s sid ++ map_of (sn_hashes n)) f)"
    using scan_files_hashes [OF scan q files(2)] by simp
  let ?s2 = "record_hashes t sid (sn_hashes n) s1"
  have rec: "quiet ?s2" "view ?s2 sid = view s sid ++ map_of (sn_hashes n)"
    using record_hashes_view [of s1 "sn_hashes n" sid] h by auto
  obtain ids s3 where l: "dt_ListDocIDs t sid ?s2 = (Inr ids, s3)" "quiet s3" using quiet_list [OF rec(1)] by blast
  have ids: "set ids = dom (view ?s2 sid)" and v3: "view s3 = view ?s2" using list_ids [OF l(1)] list_view [OF l(1)] by auto
  have "drop_unseen vector t sid (sc_Collection cfg) (map path_Base files) ids s3 w1 = (s', w')"
    using fin l(1) by (simp add: finish_tracking_def)
  from drop_unseen_view [OF this l(2)] have q': "quiet s'"
    and v': "view s' sid = (\<lambda>d. if d \<in> set ids \<and> d \<notin> path_Base ` set files then None else view ?s2 sid d)"
    using v3 by auto
  have "settled os sha (view s' sid) f" if "f \<in> set files" for f
  proof -
    have "view s' sid (path_Base f) = (view s sid ++ map_of (sn_hashes n)) (path_Base f)"
      using that v' rec(2) by simp
    then show ?thesis using h that settled_cong by blast
  qed
  moreover have "dom (view s' sid) \<subseteq> path_Base ` set files" using v' ids by (auto simp: dom_def split: if_splits)
  ultimately show ?thesis using q' by blast
qed

text \<open>When all files are settled and nothing else is tracked, an ingest sends nothing.\<close>

lemma settled_ingest:
  assumes q: "quiet s" and cfg: "map_of (fc_sources c) sid = Some cfg"
    and files: "ingest_files os (config_get (sc_Config cfg) ''path'') = Inr files"
    and settled: "\<forall>f \<in> set files. settled os sha (view s sid) f" "dom (view s sid) \<subseteq> path_Base ` set files"
  shows "\<exists>r s'. file_Ingest os sha embedder vector (Some t) sid c s w = Some (Inr r, s', w) \<and> view s' = view s \<and>
    ig_ChunksStored r = 0"
proof -
  let ?n0 = "\<lparr>sn_result = zero_result, sn_pending = [], sn_hashes = []\<rparr>"
  obtain r s1 where scan: "scan_files os sha (Some t) sid files ?n0 s = Some (?n0\<lparr>sn_result := r\<rparr>, s1)" "quiet s1" "view s1 = view s"
    "ig_ChunksStored r = 0"
    using scan_files_settled [OF q settled(1), of ?n0] by (auto simp: zero_result_def)
  obtain ids s2 where l: "dt_ListDocIDs t sid s1 = (Inr ids, s2)" using quiet_list [OF scan(2)] by blast
  have ids: "set ids \<subseteq> set (map path_Base files)" using list_ids [OF l] scan(3) settled(2) by simp
  have fin: "finish_tracking vector (Some t) sid (sc_Collection cfg) (map path_Base files) [] s1 w = (s2, w)"
    by (simp add: finish_tracking_def l drop_unseen_nothing [OF ids])
  have "ingest_batches embedder vector sha sid (sc_Collection cfg) [] 0 r w = Some (r, w)"
    by (simp add: ingest_batches.simps)
  then have "file_Ingest os sha embedder vector (Some t) sid c s w = Some (Inr r, s2, w)"
    using cfg files scan(1) fin by (simp add: file_Ingest_def)
  with list_view [OF l] scan(3,4) show ?thesis by auto
qed
end

text \<open>C39: Repeating an ingest whose files have not changed sends no request to the embedding service
  or the vector database and leaves the tracked documents alone, even when every batch of the
  first ingest failed: a document whose embedding or storage failed is never tried again until its
  content changes.\<close>

theorem ingest_repeat_silent:
  assumes "file_Ingest os sha embedder vector (Some (source_tracker now)) sid c db w = Some (Inr r, db1, w1)"
    and "sd_faults db = []" "map_of (fc_sources c) sid = Some cfg"
    and "ingest_files os (config_get (sc_Config cfg) ''path'') = Inr files" "distinct (map path_Base files)"
  shows "\<exists>r2 db2. file_Ingest os sha embedder2 vector2 (Some (source_tracker now2)) sid c db1 w2 = Some (Inr r2, db2, w2) \<and>
    doc_view db2 = doc_view db1 \<and> ig_ChunksStored r2 = 0"
proof -
  have "sd_faults db1 = [] \<and> (\<forall>f \<in> set files. settled os sha (doc_view db1 sid) f) \<and> dom (doc_view db1 sid) \<subseteq> path_Base ` set files"
    by (rule source_docs.ingest_settles [OF assms])
  then show ?thesis by (intro source_docs.settled_ingest [OF _ assms(3,4)]) simp_all
qed

text \<open>One text file, and an embedding service that answers every request with status 400 and counts
  them.\<close>

definition sample_os :: file_os where
  "sample_os =
     \<lparr>fo_Abs = Inr, fo_EvalSymlinks = Inr, fo_Stat = (\<lambda>p. Inr \<lparr>fi_IsDir = False, fi_Size = 2\<rparr>),
      fo_ReadDir = (\<lambda>p. Inr []), fo_ReadFile = (\<lambda>p. Inr ''hi'')\<rparr>"

definition sample_embedder :: "nat embed_client" where
  "sample_embedder =
     \<lparr>ec_cfg = \<lparr>ec_BaseURL = ''u'', ec_APIKey = '''', ec_Model = ''m'', ec_MaxRetries = 1, ec_InitialBackoff = 1, ec_MaxBackoff = 1\<rparr>,
      ec_http = \<lparr>ht_NewRequest = (\<lambda>u. None), ht_Do = (\<lambda>r w. (Inr (400, Inr []), Suc w))\<rparr>, ec_wait = (\<lambda>n w. (None, w))\<rparr>"

definition sample_vector :: "nat qdrant_client" where
  "sample_vector = \<lparr>qc_baseURL = ''q'', qc_http = \<lparr>ht_NewRequest = (\<lambda>u. None), ht_Do = (\<lambda>r w. (Inr (200, Inr []), Suc w))\<rparr>\<rparr>"

definition sample_connector :: file_connector where
  "sample_connector =
     \<lparr>fc_allowedDir = '''',
      fc_sources = [(''s'', \<lparr>sc_SourceID = ''s'', sc_Type = ''file'', sc_Credentials = [], sc_Schedule = '''', sc_Collection = ''c'',
        sc_Metadata = [], sc_Config = [(''path'', ''/d/a.txt'')]\<rparr>)]\<rparr>"

definition sample_ingest :: "source_db \<Rightarrow> nat \<Rightarrow> (ingest_result result \<times> source_db \<times> nat) option" where
  "sample_ingest db w =
     file_Ingest sample_os (\<lambda>d. ''h'') sample_embedder sample_vector (Some (source_tracker ''t'')) ''s'' sample_connector db w"

theorem ingest_repeat_silent_witness:
  "\<exists>r db1. sample_ingest empty_source_db 0 = Some (Inr r, db1, 1) \<and> length (ig_Errors r) = 1 \<and>
     (\<exists>r2 db2. sample_ingest db1 1 = Some (Inr r2, db2, 1) \<and> ig_ChunksStored r2 = 0)"
proof -
  have "case sample_ingest empty_source_db 0 of Some (Inr r, db1, w1) \<Rightarrow> w1 = 1 \<and> length (ig_Errors r) = 1 | _ \<Rightarrow> False"
    by code_simp
  then obtain r db1 where r: "sample_ingest empty_source_db 0 = Some (Inr r, db1, 1)" "length (ig_Errors r) = 1"
    by (cases "sample_ingest empty_source_db 0"; cases "fst (the (sample_ingest empty_source_db 0))") auto
  have "sd_faults empty_source_db = []" by (simp add: empty_source_db_def)
  moreover have "map_of (fc_sources sample_connector) ''s'' = Some (snd (hd (fc_sources sample_connector)))" by code_simp
  moreover have "ingest_files sample_os (config_get (sc_Config (snd (hd (fc_sources sample_connector)))) ''path'') = Inr [''/d/a.txt'']"
    by code_simp
  moreover have "distinct (map path_Base [''/d/a.txt''])"
    by code_simp
  ultimately have "\<exists>r2 db2. sample_ingest db1 1 = Some (Inr r2, db2, 1) \<and> doc_view db2 = doc_view db1 \<and> ig_ChunksStored r2 = 0"
    unfolding sample_ingest_def
    by (intro ingest_repeat_silent [OF r(1) [unfolded sample_ingest_def]])
  with r show ?thesis by blast
qed

end
