(* ===== verification/Rest_Connector.thy ===== *)
theory Rest_Connector
  imports File_Connector
begin

text \<open>
  \<^verbatim>\<open>data-plane/ingestion/rest/connector.go\<close>: reading documents page by page from a REST service. The
  peer \<open>rc_http\<close> is the client whose dialer is the guard of Safe_Dialer; \<open>parse\<close> is \<^verbatim>\<open>url.Parse\<close>, as the
  scheme and host it finds. \<open>None\<close> stands for a panic.
\<close>

record rest_document =
  rd_ID :: string
  rd_Text :: string

record page_response =
  pg_Documents :: "rest_document list"
  pg_NextURL :: string

text \<open>The response carries the error of reading its body (up to 50 MB) or, past that, the result of
  decoding what was read.\<close>

type_synonym 'w rest_http = "(unit, page_response result, 'w) http_peer"
type_synonym url_parser = "string \<Rightarrow> (string \<times> string) result"

record rest_connector =
  rc_sources :: "(string \<times> source_config) list"

definition maxPages :: nat where "maxPages = 1000"

definition rest_Connect :: "source_config \<Rightarrow> rest_connector \<Rightarrow> unit result \<times> rest_connector" where
  "rest_Connect cfg c =
     (if config_get (sc_Config cfg) ''url'' = '''' then (Inl (Errorf ''rest connector: config.url is required''), c)
      else (Inr (), c\<lparr>rc_sources := AList.update (sc_SourceID cfg) cfg (rc_sources c)\<rparr>))"

definition rest_Status :: "string \<Rightarrow> rest_connector \<Rightarrow> bool" where
  "rest_Status sid c = (map_of (rc_sources c) sid \<noteq> None)"

definition rest_Disconnect :: "string \<Rightarrow> rest_connector \<Rightarrow> rest_connector" where
  "rest_Disconnect sid c = c\<lparr>rc_sources := AList.delete sid (rc_sources c)\<rparr>"

definition validateNextURL :: "url_parser \<Rightarrow> string \<Rightarrow> string \<times> string \<Rightarrow> go_error option" where
  "validateNextURL parse nextURL origin =
     (case parse nextURL of
        Inl e \<Rightarrow> Some (Wrap ''invalid url'' e)
      | Inr (scheme, host) \<Rightarrow>
          (if scheme \<noteq> fst origin then Some (Errorf (''scheme mismatch: '' @ scheme @ '' vs '' @ fst origin))
           else if host \<noteq> snd origin then Some (Errorf (''host mismatch: '' @ host @ '' vs '' @ snd origin))
           else None))"

definition page_request :: "string \<Rightarrow> source_config \<Rightarrow> unit http_request" where
  "page_request url cfg =
     (let token = config_get (sc_Credentials cfg) ''bearer_token'' in
      \<lparr>hr_Method = ''GET'', hr_URL = url,
       hr_Headers = (if token \<noteq> '''' then [(''Authorization'', ''Bearer '' @ token)] else []), hr_Body = None\<rparr>)"

definition fetchPage :: "'w rest_http \<Rightarrow> string \<Rightarrow> source_config \<Rightarrow> 'w \<Rightarrow> (rest_document list \<times> string) result \<times> 'w" where
  "fetchPage http url cfg w =
     (case ht_NewRequest http url of
        Some e \<Rightarrow> (Inl (Wrap ''rest: create request'' e), w)
      | None \<Rightarrow>
          (case ht_Do http (page_request url cfg) w of
             (Inl e, w1) \<Rightarrow> (Inl (Wrap (''rest: fetch '' @ url) e), w1)
           | (Inr (code, decoded), w1) \<Rightarrow>
               (if code \<noteq> 200 then (Inl (Errorf (''rest: '' @ url @ '' returned '' @ int_str code)), w1)
                else case decoded of
                       Inl e \<Rightarrow> (Inl (Wrap ''rest: read body'' e), w1)
                     | Inr (Inl e) \<Rightarrow> (Inl (Wrap ''rest: decode page'' e), w1)
                     | Inr (Inr page) \<Rightarrow> (Inr (pg_Documents page, pg_NextURL page), w1))))"

definition rest_point :: "(string \<Rightarrow> string) \<Rightarrow> string \<Rightarrow> rest_document \<Rightarrow> chunk \<Rightarrow> rat list \<Rightarrow> point" where
  "rest_point sha sid doc ch vector =
     \<lparr>pt_ID = hex_encode (take 16 (sha (sid @ '':'' @ rd_ID doc @ '':'' @ nat_str (ch_Index ch)))), pt_Vector = vector,
      pt_Payload = [(''text'', PText (runes_string (ch_Text ch))), (''source_id'', PText sid),
                    (''doc_id'', PText (rd_ID doc)), (''chunk_idx'', PNum (of_nat (ch_Index ch)))]\<rparr>"

definition ingestDocument ::
  "'w embed_client \<Rightarrow> 'w qdrant_client \<Rightarrow> (string \<Rightarrow> string) \<Rightarrow> rest_document \<Rightarrow> string \<Rightarrow> string \<Rightarrow> 'w \<Rightarrow> (int result \<times> 'w) option" where
  "ingestDocument embedder vector sha doc collection sid w =
     (case doc_chunks (rd_Text doc) of
        None \<Rightarrow> None
      | Some chunks \<Rightarrow>
          (if length chunks = 0 then Some (Inr 0, w)
           else case Embed embedder (map (\<lambda>ch. runes_string (ch_Text ch)) chunks) w of
             None \<Rightarrow> None
           | Some (Inl e, w1) \<Rightarrow> Some (Inl (Wrap ''embed'' e), w1)
           | Some (Inr vectors, w1) \<Rightarrow>
               (if length vectors < length chunks then None
                else case Upsert vector collection (map2 (rest_point sha sid doc) chunks vectors) w1 of
                  (Inl e, w2) \<Rightarrow> Some (Inl (Wrap ''upsert'' e), w2)
                | (Inr _, w2) \<Rightarrow> Some (Inr (int (length chunks)), w2))))"

fun ingest_documents ::
  "'w embed_client \<Rightarrow> 'w qdrant_client \<Rightarrow> (string \<Rightarrow> string) \<Rightarrow> string \<Rightarrow> string \<Rightarrow> rest_document list \<Rightarrow> ingest_result \<Rightarrow> 'w
     \<Rightarrow> (ingest_result \<times> 'w) option" where
  "ingest_documents embedder vector sha collection sid [] r w = Some (r, w)"
| "ingest_documents embedder vector sha collection sid (doc # docs) r w =
     (case ingestDocument embedder vector sha doc collection sid w of
        None \<Rightarrow> None
      | Some (Inl e, w1) \<Rightarrow> ingest_documents embedder vector sha collection sid docs (note_error (error_text e) r) w1
      | Some (Inr n, w1) \<Rightarrow>
          ingest_documents embedder vector sha collection sid docs
            ((processed r)\<lparr>ig_ChunksStored := ig_ChunksStored r + n\<rparr>) w1)"

text \<open>The page loop with \<open>left\<close> pages to go.\<close>

fun page_loop ::
  "url_parser \<Rightarrow> 'w rest_http \<Rightarrow> 'w embed_client \<Rightarrow> 'w qdrant_client \<Rightarrow> (string \<Rightarrow> string) \<Rightarrow> source_config \<Rightarrow> string \<Rightarrow> string \<times> string
     \<Rightarrow> nat \<Rightarrow> string \<Rightarrow> ingest_result \<Rightarrow> 'w \<Rightarrow> (ingest_result \<times> 'w) option" where
  "page_loop parse http embedder vector sha cfg sid origin 0 cur r w = Some (r, w)"
| "page_loop parse http embedder vector sha cfg sid origin (Suc left) cur r w =
     (if cur = '''' then Some (r, w)
      else case fetchPage http cur cfg w of
        (Inl e, w1) \<Rightarrow> Some (note_error (error_text e) r, w1)
      | (Inr (docs, nextURL), w1) \<Rightarrow>
          (case ingest_documents embedder vector sha (sc_Collection cfg) sid docs r w1 of
             None \<Rightarrow> None
           | Some (r1, w2) \<Rightarrow>
               (case (if nextURL \<noteq> '''' then validateNextURL parse nextURL origin else None) of
                  Some e \<Rightarrow> Some (note_error (''next_url rejected: '' @ error_text e) r1, w2)
                | None \<Rightarrow>
                    (let r2 = (if left = 0 \<and> nextURL \<noteq> ''''
                               then note_error (''pagination limit reached ('' @ nat_str maxPages @ '' pages)'') r1 else r1)
                     in page_loop parse http embedder vector sha cfg sid origin left nextURL r2 w2))))"

definition rest_Ingest ::
  "url_parser \<Rightarrow> 'w rest_http \<Rightarrow> 'w embed_client \<Rightarrow> 'w qdrant_client \<Rightarrow> (string \<Rightarrow> string) \<Rightarrow> string \<Rightarrow> rest_connector \<Rightarrow> 'w
     \<Rightarrow> (ingest_result result \<times> 'w) option" where
  "rest_Ingest parse http embedder vector sha sid c w =
     (case map_of (rc_sources c) sid of
        None \<Rightarrow> Some (Inl (Errorf (''rest connector: source '' @ sid @ '' not connected'')), w)
      | Some cfg \<Rightarrow>
          (let originURL = config_get (sc_Config cfg) ''url'' in
           case parse originURL of
             Inl e \<Rightarrow> Some (Inl (Wrap ''rest connector: invalid origin url'' e), w)
           | Inr origin \<Rightarrow>
               map_option (\<lambda>(r, w1). (Inr r, w1))
                 (page_loop parse http embedder vector sha cfg sid origin maxPages originURL zero_result w)))"

section \<open>Only the origin is asked\<close>

text \<open>A property of the world that the embedding service and the vector database keep, and a family
  \<open>I n\<close> in which a page request to the origin leads from one member to the next. When every such
  family survives an ingest, all requests it makes are of these kinds.\<close>

definition kept_by_services :: "'w embed_client \<Rightarrow> 'w qdrant_client \<Rightarrow> ('w \<Rightarrow> bool) \<Rightarrow> bool" where
  "kept_by_services embedder vector I \<longleftrightarrow>
     (\<forall>w a. I w \<longrightarrow> I (snd (ec_wait embedder a w))) \<and>
     (\<forall>w r. I w \<longrightarrow> I (snd (ht_Do (ec_http embedder) r w))) \<and>
     (\<forall>w r. I w \<longrightarrow> I (snd (ht_Do (qc_http vector) r w)))"

definition counts_origin :: "url_parser \<Rightarrow> 'w rest_http \<Rightarrow> source_config \<Rightarrow> (nat \<Rightarrow> 'w \<Rightarrow> bool) \<Rightarrow> bool" where
  "counts_origin parse http cfg I \<longleftrightarrow>
     (\<forall>u n w. parse u = parse (config_get (sc_Config cfg) ''url'') \<longrightarrow> I n w \<longrightarrow> I (Suc n) (snd (ht_Do http (page_request u cfg) w)))"

lemma doEmbed_keeps:
  assumes "kept_by_services embedder vector I" "I w"
  shows "I (snd (doEmbed embedder body w))"
proof -
  have "I (snd (ht_Do (ec_http embedder) req w))" for req
    using assms by (simp add: kept_by_services_def)
  then have "ht_Do (ec_http embedder) req w = (x, w1) \<Longrightarrow> I w1" for req x w1 by (metis snd_conv)
  then show ?thesis using assms(2)
    by (simp add: doEmbed_def Let_def split: option.split prod.split sum.split)
qed

lemma embed_wait_keeps:
  assumes "kept_by_services embedder vector I" "I w"
  shows "I (snd (if 0 < attempt then ec_wait embedder attempt w else (None, w)))"
  using assms by (simp add: kept_by_services_def)

lemma embed_loop_keeps:
  assumes "kept_by_services embedder vector I"
  shows "I w \<Longrightarrow> embed_loop embedder body left attempt err w = Some (r, w') \<Longrightarrow> I w'"
proof (induction left arbitrary: attempt err w)
  case (Suc left)
  let ?wait = "if 0 < attempt then ec_wait embedder attempt w else (None, w)"
  obtain stop w1 where w1: "?wait = (stop, w1)" by fastforce
  then have I1: "I w1" using embed_wait_keeps [OF assms Suc.prems(1), of attempt] by simp
  obtain res w2 where w2: "doEmbed embedder body w1 = (res, w2)" by fastforce
  then have I2: "I w2" using doEmbed_keeps [OF assms I1, of body] by simp
  show ?case using Suc.prems(2) Suc.IH [OF I2] I1 I2 w1 w2
    by (auto split: option.splits sum.splits if_splits)
qed (simp split: option.splits)

lemma Embed_keeps:
  "kept_by_services embedder vector I \<Longrightarrow> I w \<Longrightarrow> Embed embedder texts w = Some (r, w') \<Longrightarrow> I w'"
  unfolding Embed_def by (cases "length texts = 0") (auto dest: embed_loop_keeps)

lemma upsertBatch_keeps:
  assumes "kept_by_services embedder vector I" "I w"
  shows "I (snd (upsertBatch vector collection points w))"
proof -
  have "I (snd (ht_Do (qc_http vector) req w))" for req
    using assms by (simp add: kept_by_services_def)
  then show ?thesis using assms(2)
    by (auto simp: upsertBatch_def qdrant_call_def split: option.split prod.split sum.split) (metis snd_conv)+
qed

lemma upload_keeps:
  assumes "kept_by_services embedder vector I"
  shows "I w \<Longrightarrow> I (snd (upload vector collection bs w))"
proof (induction bs arbitrary: w)
  case (Cons b bs)
  show ?case using upsertBatch_keeps [OF assms Cons.prems, of collection b] Cons.IH
    by (auto split: prod.split sum.split)
qed simp

lemma Upsert_keeps:
  assumes "kept_by_services embedder vector I" "I w"
  shows "I (snd (Upsert vector collection points w))"
proof (cases "length points > batchSize")
  case True
  then have "snd (Upsert vector collection points w) = snd (upload vector collection (batches batchSize points) w)"
    using Upsert_upload [of points vector collection w] by (cases points) (auto simp: same_outcome_def)
  then show ?thesis using upload_keeps [OF assms] by simp
next
  case False
  then show ?thesis using upsertBatch_keeps [OF assms] by (simp add: Upsert_def)
qed

lemma ingestDocument_keeps:
  assumes services: "kept_by_services embedder vector I" and "I w"
    and run: "ingestDocument embedder vector sha doc collection sid w = Some (r, w')"
  shows "I w'"
proof -
  obtain chunks where chunks: "doc_chunks (rd_Text doc) = Some chunks"
    using run by (auto simp: ingestDocument_def split: option.splits)
  show ?thesis
  proof (cases "length chunks = 0")
    case True
    then show ?thesis using run chunks assms(2) by (simp add: ingestDocument_def)
  next
    case False
    then obtain res w1 where w1: "Embed embedder (map (\<lambda>ch. runes_string (ch_Text ch)) chunks) w = Some (res, w1)"
      using run chunks by (auto simp: ingestDocument_def split: option.splits)
    have I1: "I w1" using Embed_keeps [OF assms(1,2) w1] .
    show ?thesis
    proof (cases res)
      case (Inl e)
      then show ?thesis using run chunks False w1 I1 by (simp add: ingestDocument_def)
    next
      case (Inr vectors)
      obtain res2 w2 where w2: "Upsert vector collection (map2 (rest_point sha sid doc) chunks vectors) w1 = (res2, w2)"
        by fastforce
      have "I w2" using Upsert_keeps [OF services I1] w2 by (metis snd_conv)
      moreover have "w' = w2" using run chunks False w1 Inr w2
        by (auto simp: ingestDocument_def split: if_splits sum.splits)
      ultimately show ?thesis by simp
    qed
  qed
qed

lemma ingest_documents_keeps:
  assumes "kept_by_services embedder vector I"
  shows "I w \<Longrightarrow> ingest_documents embedder vector sha collection sid docs r w = Some (r', w') \<Longrightarrow> I w'"
proof (induction docs arbitrary: r w)
  case (Cons doc docs)
  obtain res w1 where w1: "ingestDocument embedder vector sha doc collection sid w = Some (res, w1)"
    using Cons.prems(2) by (auto split: option.splits)
  have "I w1" using ingestDocument_keeps [OF assms Cons.prems(1) w1] .
  then show ?case using Cons.prems(2) Cons.IH [of w1] w1 by (auto split: sum.splits)
qed simp

lemma fetchPage_keeps:
  assumes "counts_origin parse http cfg I" "parse url = parse (config_get (sc_Config cfg) ''url'')" "I n w"
    and "fetchPage http url cfg w = (r, w')"
  shows "w' = w \<or> I (Suc n) w'" "\<not> isl r \<Longrightarrow> I (Suc n) w'"
proof -
  have "I (Suc n) (snd (ht_Do http (page_request url cfg) w))"
    using assms by (simp add: counts_origin_def)
  then show "w' = w \<or> I (Suc n) w'" "\<not> isl r \<Longrightarrow> I (Suc n) w'" using assms(4)
    by (auto simp: fetchPage_def split: option.splits prod.splits sum.splits if_splits)
qed

lemma validateNextURL_origin:
  "validateNextURL parse u origin = None \<Longrightarrow> parse u = Inr origin"
  by (auto simp: validateNextURL_def split: sum.splits prod.splits if_splits)

lemma page_loop_over: "page_loop parse http embedder vector sha cfg sid origin left '''' r w = Some (r, w)"
  by (cases left) simp_all

lemma page_loop_keeps:
  assumes services: "\<forall>n. kept_by_services embedder vector (I n)" and pages: "counts_origin parse http cfg I"
    and origin: "parse (config_get (sc_Config cfg) ''url'') = Inr origin"
  shows "I n w \<Longrightarrow> cur \<noteq> '''' \<Longrightarrow> parse cur = Inr origin \<Longrightarrow>
    page_loop parse http embedder vector sha cfg sid origin left cur r w = Some (r', w') \<Longrightarrow> \<exists>k \<le> left. I (n + k) w'"
proof (induction left arbitrary: n cur r w)
  case (Suc left)
  obtain res w1 where w1: "fetchPage http cur cfg w = (res, w1)" by fastforce
  note keeps = fetchPage_keeps [OF pages _ Suc.prems(1) w1, unfolded origin, OF Suc.prems(3)]
  show ?case
  proof (cases res)
    case (Inl e)
    with Suc.prems(2,4) w1 have "w' = w1" by simp
    then show ?thesis using keeps(1) Suc.prems(1) by (metis add.right_neutral add_Suc_right le_SucI le_zero_eq linear Suc_le_mono)
  next
    case (Inr page)
    obtain docs nextURL where page: "page = (docs, nextURL)" by fastforce
    have I1: "I (Suc n) w1" using keeps(2) Inr by simp
    obtain r1 w2 where w2: "ingest_documents embedder vector sha (sc_Collection cfg) sid docs r w1 = Some (r1, w2)"
      using Suc.prems(2,4) w1 Inr page by (auto split: option.splits)
    have I2: "I (Suc n) w2" using ingest_documents_keeps [OF services [THEN spec] I1 w2] .
    consider (over) "w' = w2" |
      (more) r2 where "nextURL \<noteq> ''''" "parse nextURL = Inr origin"
        "page_loop parse http embedder vector sha cfg sid origin left nextURL r2 w2 = Some (r', w')"
    proof (cases "nextURL = ''''")
      case True
      then have "w' = w2" using Suc.prems(2,4) w1 w2 Inr page by (cases left) (auto simp: Let_def)
      then show ?thesis by (rule over)
    next
      case False
      then show ?thesis using Suc.prems(2,4) w1 w2 Inr page over more validateNextURL_origin
        by (cases "validateNextURL parse nextURL origin") (auto simp: Let_def)
    qed
    then show ?thesis
    proof cases
      case over
      then show ?thesis using I2 by (intro exI [of _ 1]) simp
    next
      case more
      then obtain k where "k \<le> left" "I (Suc n + k) w'" using Suc.IH [OF I2] by blast
      then show ?thesis by (intro exI [of _ "Suc k"]) simp
    qed
  qed
qed (auto intro: exI [of _ 0])


text \<open>A service whose first page holds a document and points to its second, which points elsewhere;
  the world is the list of URLs asked.\<close>

definition sample_parse :: url_parser where
  "sample_parse u = Inr (take 5 u, takeWhile (\<lambda>c. c \<noteq> CHR ''/'') (drop 8 u))"

definition sample_pages :: "string list rest_http" where
  "sample_pages =
     \<lparr>ht_NewRequest = (\<lambda>u. None),
      ht_Do = (\<lambda>r w. (Inr (200, Inr (Inr
        (if hr_URL r = ''https://a/1'' then \<lparr>pg_Documents = [\<lparr>rd_ID = ''d'', rd_Text = ''t''\<rparr>], pg_NextURL = ''https://a/2''\<rparr>
         else \<lparr>pg_Documents = [], pg_NextURL = ''https://b/3''\<rparr>))), hr_URL r # w))\<rparr>"

definition rest_sample_embedder :: "'w embed_client" where
  "rest_sample_embedder =
     \<lparr>ec_cfg = \<lparr>ec_BaseURL = ''u'', ec_APIKey = '''', ec_Model = ''m'', ec_MaxRetries = 1, ec_InitialBackoff = 1, ec_MaxBackoff = 1\<rparr>,
      ec_http = \<lparr>ht_NewRequest = (\<lambda>u. None), ht_Do = (\<lambda>r w. (Inr (200, Inr [\<lparr>ed_Embedding = [1], ed_Index = 0\<rparr>]), w))\<rparr>,
      ec_wait = (\<lambda>n w. (None, w))\<rparr>"

definition rest_sample_vector :: "'w qdrant_client" where
  "rest_sample_vector = \<lparr>qc_baseURL = ''q'', qc_http = \<lparr>ht_NewRequest = (\<lambda>u. None), ht_Do = (\<lambda>r w. (Inr (200, Inr []), w))\<rparr>\<rparr>"

definition rest_sample_config :: source_config where
  "rest_sample_config = \<lparr>sc_SourceID = ''s'', sc_Type = ''rest'', sc_Credentials = [(''bearer_token'', ''k'')], sc_Schedule = '''', sc_Collection = ''c'',
     sc_Metadata = [], sc_Config = [(''url'', ''https://a/1'')]\<rparr>"

definition rest_sample_run :: "(ingest_result result \<times> string list) option" where
  "rest_sample_run =
     rest_Ingest sample_parse sample_pages rest_sample_embedder rest_sample_vector (\<lambda>d. ''h'') ''s''
       \<lparr>rc_sources = [(''s'', rest_sample_config)]\<rparr> []"

definition asked_origin :: "nat \<Rightarrow> string list \<Rightarrow> bool" where
  "asked_origin n w \<longleftrightarrow> length w = n \<and> (\<forall>u \<in> set w. sample_parse u = Inr (''https'', ''a''))"


end
