(* ===== verification/Data_Plane.thy ===== *)
theory Data_Plane
  imports Go_Server Rest_Connector Cloud_Store
begin

text \<open>
  \<^verbatim>\<open>data-plane/server/server.go\<close>: the data plane's HTTP server. Its state is the table of sources and
  the two connectors' tables of connected sources; the embedding service, the vector database, the
  file system, the clock and the validator of query tokens act on or read the world \<open>'w\<close>. A request
  body is what decoding it (up to 1 MB) as the handler's struct gives. \<open>None\<close> stands for a panic of
  the handler, after which \<^verbatim>\<open>net/http\<close> drops the connection.
\<close>

record dp_config =
  dp_Listen :: string
  dp_AdminSecret :: string
  dp_Collection :: string
  dp_VectorSize :: int
  dp_AllowedFileDir :: string
  dp_DefaultMinScore :: rat

record 'w dp_server =
  dp_cfg :: dp_config
  dp_embedder :: "'w embed_client"
  dp_vector :: "'w qdrant_client"
  dp_tokenValidator :: "(string \<Rightarrow> 'w \<Rightarrow> bool \<times> 'w) option"
  dp_http :: "'w rest_http"
  dp_parse :: url_parser
  dp_sha :: "string \<Rightarrow> string"
  dp_os :: "'w \<Rightarrow> file_os"
  dp_now :: "'w \<Rightarrow> string"
  dp_hash_time :: "'w \<Rightarrow> string"

record dp_state =
  ds_sources :: source_db
  ds_files :: file_connector
  ds_rest :: rest_connector

record query_request =
  qr_Query :: string
  qr_Collection :: string
  qr_TopK :: int
  qr_SourceID :: string
  qr_MinScore :: "rat option"

record source_request =
  sr_ID :: string
  sr_Type :: string
  sr_Name :: string
  sr_Collection :: string
  sr_Config :: "(string \<times> string) list"

record dp_body =
  bd_query :: "query_request result"
  bd_source :: "source_request result"

record query_result =
  qe_Text :: string
  qe_Score :: rat
  qe_SourceID :: string
  qe_File :: string
  qe_DocID :: string
  qe_ChunkIdx :: int

datatype dp_json =
    JError string
  | JStatus string
  | JSources "source list"
  | JSource source
  | JResults "query_result list"
  | JIngest ingest_result
  | PlainText string

type_synonym dp_reply = "dp_json http_response"
type_synonym 'w dp_handler = "dp_state \<Rightarrow> 'w \<Rightarrow> (dp_reply \<times> dp_state \<times> 'w) option"

definition dp_writeJSON :: "int \<Rightarrow> dp_json \<Rightarrow> dp_reply" where
  "dp_writeJSON code v = \<lparr>rs_Code = code, rs_Headers = [(''Content-Type'', ''application/json'')], rs_Body = v\<rparr>"

definition answer :: "int \<Rightarrow> dp_json \<Rightarrow> 'w dp_handler" where
  "answer code v st w = Some (dp_writeJSON code v, st, w)"

definition dp_New :: "dp_config \<Rightarrow> source_db \<Rightarrow> dp_state" where
  "dp_New cfg sources = \<lparr>ds_sources = sources, ds_files = file_New (dp_AllowedFileDir cfg), ds_rest = \<lparr>rc_sources = []\<rparr>\<rparr>"

section \<open>Authentication\<close>

definition dp_unauthorized :: "'w dp_handler" where
  "dp_unauthorized = answer 401 (JError ''unauthorized'')"

definition query_credential :: "dp_body http_incoming \<Rightarrow> string" where
  "query_credential r = (if bearer_token r = '''' then Header_Get r ''X-Fox-Auth'' else bearer_token r)"

definition requireQueryAuth :: "'w dp_server \<Rightarrow> (dp_body http_incoming \<Rightarrow> 'w dp_handler) \<Rightarrow> dp_body http_incoming \<Rightarrow> 'w dp_handler" where
  "requireQueryAuth s next r st w =
     (let token = query_credential r in
      if token = '''' then dp_unauthorized st w
      else if token = dp_AdminSecret (dp_cfg s) then next r st w
      else case dp_tokenValidator s of
        None \<Rightarrow> dp_unauthorized st w
      | Some valid \<Rightarrow> (case valid token w of (ok, w1) \<Rightarrow> if ok then next r st w1 else dp_unauthorized st w1))"

definition requireAdmin :: "'w dp_server \<Rightarrow> (dp_body http_incoming \<Rightarrow> 'w dp_handler) \<Rightarrow> dp_body http_incoming \<Rightarrow> 'w dp_handler" where
  "requireAdmin s next r st w =
     (if length (dp_AdminSecret (dp_cfg s)) = 0 then dp_unauthorized st w
      else let header = Header_Get r ''Authorization'' in
        if \<not> HasPrefix header ''Bearer '' then dp_unauthorized st w
        else if drop (length ''Bearer '') header \<noteq> dp_AdminSecret (dp_cfg s) then dp_unauthorized st w
        else next r st w)"

section \<open>Handlers\<close>

definition ValidateEmbeddingDimension :: "'w dp_server \<Rightarrow> 'w \<Rightarrow> (unit result \<times> 'w) option" where
  "ValidateEmbeddingDimension s w =
     (case Embed (dp_embedder s) [''dimension validation probe''] w of
        None \<Rightarrow> None
      | Some (Inl _, w1) \<Rightarrow> Some (Inr (), w1)
      | Some (Inr vecs, w1) \<Rightarrow>
          (case vecs of
             [] \<Rightarrow> Some (Inr (), w1)
           | v # _ \<Rightarrow>
               (if length v = 0 then Some (Inr (), w1)
                else if int (length v) \<noteq> dp_VectorSize (dp_cfg s)
                then Some (Inl (Errorf (''embedding dimension mismatch: config vector_size='' @ int_str (dp_VectorSize (dp_cfg s)) @
                       '' but embedding model returned '' @ nat_str (length v) @ '' dimensions'')), w1)
                else Some (Inr (), w1))))"

definition handleHealth :: "'w dp_server \<Rightarrow> 'w dp_handler" where
  "handleHealth s st w =
     (case Healthy (dp_vector s) w of
        (healthy, w1) \<Rightarrow>
          (let status = (if healthy then 200 else 503); state = (if healthy then ''healthy'' else ''unhealthy'')
           in answer status (JStatus state) st w1))"

definition handleReadyz :: "'w dp_server \<Rightarrow> 'w dp_handler" where
  "handleReadyz s st w =
     (case Healthy (dp_vector s) w of
        (healthy, w1) \<Rightarrow>
          (if \<not> healthy then answer 503 (JStatus ''not_ready'') st w1 else answer 200 (JStatus ''ready'') st w1))"

definition dp_handleListSources :: "'w dp_handler" where
  "dp_handleListSources st w =
     (case Source_List (ds_sources st) of
        (Inl e, db) \<Rightarrow> answer 500 (JError ''internal'') (st\<lparr>ds_sources := db\<rparr>) w
      | (Inr xs, db) \<Rightarrow> answer 200 (JSources xs) (st\<lparr>ds_sources := db\<rparr>) w)"

definition defaultTopK :: int where "defaultTopK = 5"

fun payload_text :: "payload_value option \<Rightarrow> string" where
  "payload_text (Some (PText t)) = t"
| "payload_text _ = ''''"

text \<open>\<^verbatim>\<open>int(v)\<close> of a float drops its fraction.\<close>

fun payload_int :: "payload_value option \<Rightarrow> int" where
  "payload_int (Some (PNum v)) = (if 0 \<le> v then \<lfloor>v\<rfloor> else \<lceil>v\<rceil>)"
| "payload_int _ = 0"

definition query_result_of :: "search_result \<Rightarrow> query_result" where
  "query_result_of r =
     (let get = map_of (sres_Payload r) in
      \<lparr>qe_Text = payload_text (get ''text''), qe_Score = sres_Score r, qe_SourceID = payload_text (get ''source_id''),
       qe_File = payload_text (get ''file''), qe_DocID = payload_text (get ''doc_id''), qe_ChunkIdx = payload_int (get ''chunk_idx'')\<rparr>)"

definition query_search :: "dp_config \<Rightarrow> query_request \<Rightarrow> rat list \<Rightarrow> search_request" where
  "query_search cfg req vector =
     \<lparr>sq_Vector = vector, sq_Limit = (if qr_TopK req \<le> 0 then defaultTopK else qr_TopK req),
      sq_Filter = (if qr_SourceID req \<noteq> '''' then Some [\<lparr>cd_Key = ''source_id'', cd_Match = qr_SourceID req\<rparr>] else None),
      sq_WithPayload = True\<rparr>"

definition keep_scored :: "dp_config \<Rightarrow> query_request \<Rightarrow> search_result list \<Rightarrow> search_result list" where
  "keep_scored cfg req results =
     (let minScore = (case qr_MinScore req of None \<Rightarrow> dp_DefaultMinScore cfg | Some m \<Rightarrow> m) in
      if minScore > 0 then filter (\<lambda>r. sres_Score r \<ge> minScore) results else results)"

definition dp_handleQuery :: "'w dp_server \<Rightarrow> dp_body http_incoming \<Rightarrow> 'w dp_handler" where
  "dp_handleQuery s r st w =
     (case bd_query (rq_Body r) of
        Inl _ \<Rightarrow> answer 400 (JError ''invalid JSON'') st w
      | Inr req \<Rightarrow>
          (if qr_Query req = '''' then answer 400 (JError ''query is required'') st w
           else let collection = (if qr_Collection req = '''' then dp_Collection (dp_cfg s) else qr_Collection req) in
             case Embed (dp_embedder s) [qr_Query req] w of
               None \<Rightarrow> None
             | Some (Inl _, w1) \<Rightarrow> answer 503 (JError ''embedding service unavailable'') st w1
             | Some (Inr vectors, w1) \<Rightarrow>
                 (if vectors = [] \<or> length (hd vectors) = 0
                  then answer 503 (JError ''embedding service returned no vectors'') st w1
                  else case Search (dp_vector s) collection (query_search (dp_cfg s) req (hd vectors)) w1 of
                    (Inl _, w2) \<Rightarrow> answer 503 (JError ''vector search unavailable'') st w2
                  | (Inr results, w2) \<Rightarrow>
                      answer 200 (JResults (map query_result_of (keep_scored (dp_cfg s) req results))) st w2)))"

definition source_of_request :: "dp_config \<Rightarrow> source_request \<Rightarrow> source" where
  "source_of_request cfg req =
     \<lparr>src_ID = sr_ID req, src_Type = sr_Type req, src_Name = sr_Name req,
      src_Collection = (if sr_Collection req = '''' then dp_Collection cfg else sr_Collection req),
      src_Status = '''', src_DocCount = 0, src_ChunkCount = 0, src_ErrorDetail = '''', src_CreatedAt = '''', src_UpdatedAt = '''',
      src_Config = sr_Config req\<rparr>"

definition handleAdminCreateSource :: "'w dp_server \<Rightarrow> dp_body http_incoming \<Rightarrow> 'w dp_handler" where
  "handleAdminCreateSource s r st w =
     (case bd_source (rq_Body r) of
        Inl _ \<Rightarrow> answer 400 (JError ''invalid JSON'') st w
      | Inr req \<Rightarrow>
          (if sr_ID req = '''' \<or> sr_Type req = '''' \<or> sr_Name req = ''''
           then answer 400 (JError ''id, type, and name are required'') st w
           else if sr_Type req \<noteq> ''file'' \<and> sr_Type req \<noteq> ''rest''
           then answer 400 (JError ''type must be file or rest'') st w
           else let src = source_of_request (dp_cfg s) req in
             case Source_Create (dp_now s w) src (ds_sources st) of
               (Inl e, db) \<Rightarrow>
                 (if Contains (error_text e) ''UNIQUE constraint''
                  then answer 409 (JError (''source '' @ sr_ID req @ '' already exists'')) (st\<lparr>ds_sources := db\<rparr>) w
                  else answer 500 (JError ''internal'') (st\<lparr>ds_sources := db\<rparr>) w)
             | (Inr _, db) \<Rightarrow>
                 (case Source_Get (sr_ID req) db of
                    (Inl _, db1) \<Rightarrow> answer 201 (JSource src) (st\<lparr>ds_sources := db1\<rparr>) w
                  | (Inr got, db1) \<Rightarrow> answer 201 (JSource got) (st\<lparr>ds_sources := db1\<rparr>) w)))"

text \<open>What three handlers do about the error of a look-up.\<close>

definition get_failed :: "go_error \<Rightarrow> 'w dp_handler" where
  "get_failed e =
     (if errors_is e source_ErrNotFound then answer 404 (JError ''source not found'') else answer 500 (JError ''internal''))"

definition handleAdminGetSource :: "string \<Rightarrow> 'w dp_handler" where
  "handleAdminGetSource sid st w =
     (case Source_Get sid (ds_sources st) of
        (Inl e, db) \<Rightarrow> get_failed e (st\<lparr>ds_sources := db\<rparr>) w
      | (Inr src, db) \<Rightarrow> answer 200 (JSource src) (st\<lparr>ds_sources := db\<rparr>) w)"

definition source_filter :: "string \<Rightarrow> qfilter" where
  "source_filter sid = [\<lparr>cd_Key = ''source_id'', cd_Match = sid\<rparr>]"

definition or_default :: "string \<Rightarrow> string \<Rightarrow> string" where
  "or_default col defaultCollection = (if col = '''' then defaultCollection else col)"

definition handleAdminDeleteSource :: "'w dp_server \<Rightarrow> string \<Rightarrow> 'w dp_handler" where
  "handleAdminDeleteSource s sid st w =
     (case Source_Get sid (ds_sources st) of
        (Inl e, db) \<Rightarrow> get_failed e (st\<lparr>ds_sources := db\<rparr>) w
      | (Inr src, db) \<Rightarrow>
          (case DeleteByFilter (dp_vector s) (or_default (src_Collection src) (dp_Collection (dp_cfg s))) (source_filter sid) w of
             (Inl _, w1) \<Rightarrow> answer 500 (JError ''failed to delete vector points'') (st\<lparr>ds_sources := db\<rparr>) w1
           | (Inr _, w1) \<Rightarrow>
               (case Source_Delete sid db of
                  (Inl _, db1) \<Rightarrow> answer 500 (JError ''internal'') (st\<lparr>ds_sources := db1\<rparr>) w1
                | (Inr _, db1) \<Rightarrow>
                    answer 200 (JStatus ''deleted'') (st\<lparr>ds_sources := snd (DeleteAllDocTracking sid db1)\<rparr>) w1)))"

definition ingestionConfig :: "source \<Rightarrow> string \<Rightarrow> source_config" where
  "ingestionConfig src defaultCollection =
     \<lparr>sc_SourceID = src_ID src, sc_Type = src_Type src, sc_Credentials = [], sc_Schedule = '''',
      sc_Collection = or_default (src_Collection src) defaultCollection, sc_Metadata = [], sc_Config = src_Config src\<rparr>"

text \<open>What both branches of the ingest handler do with the outcome.\<close>

definition settle_ingest :: "'w dp_server \<Rightarrow> string \<Rightarrow> ingest_result result \<Rightarrow> 'w dp_handler" where
  "settle_ingest s sid out st w =
     (case out of
        Inl e \<Rightarrow>
          answer 500 (JError (error_text e)) (st\<lparr>ds_sources := snd (Source_SetError (dp_now s w) sid (error_text e) (ds_sources st))\<rparr>) w
      | Inr res \<Rightarrow>
          (let db1 = snd (Source_UpdateStatus (dp_now s w) sid ''active'' (ds_sources st));
               db2 = snd (Source_UpdateCounts (dp_now s w) sid (ig_DocumentsProcessed res) (ig_ChunksStored res) db1)
           in answer 200 (JIngest res) (st\<lparr>ds_sources := db2\<rparr>) w))"

definition ingest_from_files :: "'w dp_server \<Rightarrow> string \<Rightarrow> source_config \<Rightarrow> 'w dp_handler" where
  "ingest_from_files s sid cfg st w =
     (case file_Connect (dp_os s w) cfg (ds_files st) of
        (Inl e, fc) \<Rightarrow> answer 400 (JError (error_text e)) (st\<lparr>ds_files := fc\<rparr>) w
      | (Inr _, fc) \<Rightarrow>
          (let db1 = snd (Source_UpdateStatus (dp_now s w) sid ''ingesting'' (ds_sources st)) in
           case file_Ingest (dp_os s w) (dp_sha s) (dp_embedder s) (dp_vector s) (Some (source_tracker (dp_hash_time s w))) sid fc db1 w of
             None \<Rightarrow> None
           | Some (out, db2, w1) \<Rightarrow> settle_ingest s sid out (st\<lparr>ds_sources := db2, ds_files := fc\<rparr>) w1))"

definition ingest_from_rest :: "'w dp_server \<Rightarrow> string \<Rightarrow> source_config \<Rightarrow> 'w dp_handler" where
  "ingest_from_rest s sid cfg st w =
     (case rest_Connect cfg (ds_rest st) of
        (Inl e, rc) \<Rightarrow> answer 400 (JError (error_text e)) (st\<lparr>ds_rest := rc\<rparr>) w
      | (Inr _, rc) \<Rightarrow>
          (let db1 = snd (Source_UpdateStatus (dp_now s w) sid ''ingesting'' (ds_sources st)) in
           case rest_Ingest (dp_parse s) (dp_http s) (dp_embedder s) (dp_vector s) (dp_sha s) sid rc w of
             None \<Rightarrow> None
           | Some (out, w1) \<Rightarrow> settle_ingest s sid out (st\<lparr>ds_sources := db1, ds_rest := rc\<rparr>) w1))"

definition handleAdminIngestSource :: "'w dp_server \<Rightarrow> string \<Rightarrow> 'w dp_handler" where
  "handleAdminIngestSource s sid st w =
     (case Source_Get sid (ds_sources st) of
        (Inl e, db) \<Rightarrow> get_failed e (st\<lparr>ds_sources := db\<rparr>) w
      | (Inr src, db) \<Rightarrow>
          (let cfg = ingestionConfig src (dp_Collection (dp_cfg s)); st1 = st\<lparr>ds_sources := db\<rparr> in
           if src_Type src = ''file'' then ingest_from_files s sid cfg st1 w
           else if src_Type src = ''rest'' then ingest_from_rest s sid cfg st1 w
           else answer 400 (JError ''unsupported source type'') st1 w))"

section \<open>Routes\<close>

datatype dp_route = RHealth | RReadyz | RQueryMux | RAdminMux
datatype query_route = QSources | QQuery
datatype admin_route = ASources | ACreate | AGet | ADelete | AIngest

definition dp_mux :: "(pattern \<times> dp_route) list" where
  "dp_mux =
     [((Some ''GET'', [Lit ''v1'', Lit ''health'']), RHealth),
      ((Some ''GET'', [Lit ''v1'', Lit ''readyz'']), RReadyz),
      ((None, [Lit ''v1'', Lit ''sources'']), RQueryMux),
      ((None, [Lit ''v1'', Lit ''query'']), RQueryMux),
      ((None, [Lit ''v1'', Lit ''admin'', Subtree]), RAdminMux)]"

definition dp_queryMux :: "(pattern \<times> query_route) list" where
  "dp_queryMux =
     [((Some ''GET'', [Lit ''v1'', Lit ''sources'']), QSources),
      ((Some ''POST'', [Lit ''v1'', Lit ''query'']), QQuery)]"

definition dp_adminMux :: "(pattern \<times> admin_route) list" where
  "dp_adminMux =
     (let sources = [Lit ''v1'', Lit ''admin'', Lit ''sources''] in
      [((Some ''GET'', sources), ASources),
       ((Some ''POST'', sources), ACreate),
       ((Some ''GET'', sources @ [Wild ''id'']), AGet),
       ((Some ''DELETE'', sources @ [Wild ''id'']), ADelete),
       ((Some ''POST'', sources @ [Wild ''id'', Lit ''ingest'']), AIngest)])"

definition dp_mux_reply :: "int \<Rightarrow> string \<Rightarrow> 'w dp_handler" where
  "dp_mux_reply code msg st w = Some (\<lparr>rs_Code = code, rs_Headers = [], rs_Body = PlainText msg\<rparr>, st, w)"

fun dp_dispatch :: "('h \<Rightarrow> (string \<times> string) list \<Rightarrow> 'w dp_handler) \<Rightarrow> 'h routed \<Rightarrow> 'w dp_handler" where
  "dp_dispatch serve (Routed h vals) = serve h vals"
| "dp_dispatch serve SlashRedirect = dp_mux_reply 307 ''Temporary Redirect''"
| "dp_dispatch serve MethodNotAllowed = dp_mux_reply 405 ''Method Not Allowed''"
| "dp_dispatch serve NotFound = dp_mux_reply 404 ''404 page not found''"

fun serve_query_route :: "'w dp_server \<Rightarrow> dp_body http_incoming \<Rightarrow> query_route \<Rightarrow> 'w dp_handler" where
  "serve_query_route s r QSources = dp_handleListSources"
| "serve_query_route s r QQuery = dp_handleQuery s r"

definition serve_queries :: "'w dp_server \<Rightarrow> dp_body http_incoming \<Rightarrow> 'w dp_handler" where
  "serve_queries s r = dp_dispatch (\<lambda>h vals. serve_query_route s r h) (serve_mux dp_queryMux (rq_Method r) (rq_Path r))"

fun serve_admin_route :: "'w dp_server \<Rightarrow> dp_body http_incoming \<Rightarrow> admin_route \<Rightarrow> string \<Rightarrow> 'w dp_handler" where
  "serve_admin_route s r ASources sid = dp_handleListSources"
| "serve_admin_route s r ACreate sid = handleAdminCreateSource s r"
| "serve_admin_route s r AGet sid = handleAdminGetSource sid"
| "serve_admin_route s r ADelete sid = handleAdminDeleteSource s sid"
| "serve_admin_route s r AIngest sid = handleAdminIngestSource s sid"

definition serve_admin :: "'w dp_server \<Rightarrow> dp_body http_incoming \<Rightarrow> 'w dp_handler" where
  "serve_admin s r =
     dp_dispatch (\<lambda>h vals. serve_admin_route s r h (assoc_get vals ''id'')) (serve_mux dp_adminMux (rq_Method r) (rq_Path r))"

fun serve_dp_route :: "'w dp_server \<Rightarrow> dp_body http_incoming \<Rightarrow> dp_route \<Rightarrow> 'w dp_handler" where
  "serve_dp_route s r RHealth = handleHealth s"
| "serve_dp_route s r RReadyz = handleReadyz s"
| "serve_dp_route s r RQueryMux = requireQueryAuth s (serve_queries s) r"
| "serve_dp_route s r RAdminMux = requireAdmin s (serve_admin s) r"

definition serve_data_plane :: "'w dp_server \<Rightarrow> dp_body http_incoming \<Rightarrow> 'w dp_handler" where
  "serve_data_plane s r = dp_dispatch (\<lambda>h vals. serve_dp_route s r h) (serve_mux dp_mux (rq_Method r) (rq_Path r))"

section \<open>Who is served\<close>

lemma route_admin:
  assumes "rq_Path r = ''v1'' # ''admin'' # x # rest"
  shows "serve_data_plane s r st w = requireAdmin s (serve_admin s) r st w"
  by (simp add: serve_data_plane_def serve_mux_def dp_mux_def assms method_ok_def slash_added_def exact_match_def)

lemma route_query:
  assumes "rq_Path r = [''v1'', p]" "p \<in> {''query'', ''sources''}"
  shows "serve_data_plane s r st w = requireQueryAuth s (serve_queries s) r st w"
  using assms(2) by (auto simp: serve_data_plane_def serve_mux_def dp_mux_def assms(1) method_ok_def exact_match_def)

text \<open>Handlers never answer 401.\<close>

definition admits :: "(dp_reply \<times> dp_state \<times> 'w) option \<Rightarrow> bool" where
  "admits out \<longleftrightarrow> (case out of None \<Rightarrow> True | Some (rep, _) \<Rightarrow> rs_Code rep \<noteq> 401)"

lemma admits_simps [simp]:
  "admits None" "admits (answer code v st w) \<longleftrightarrow> code \<noteq> 401" "admits (dp_mux_reply code msg st w) \<longleftrightarrow> code \<noteq> 401"
  by (simp_all add: admits_def answer_def dp_writeJSON_def dp_mux_reply_def)

lemma admits_get_failed [simp]: "admits (get_failed e st w)"
  by (simp add: get_failed_def)

lemma admits_settle [simp]: "admits (settle_ingest s sid out st w)"
  by (simp add: settle_ingest_def Let_def split: sum.split)

lemma admits_dispatch: "(\<And>h vals. admits (serve h vals st w)) \<Longrightarrow> admits (dp_dispatch serve m st w)"
  by (cases m) simp_all

lemma admits_lists [simp]: "admits (dp_handleListSources st w)"
  by (simp add: dp_handleListSources_def split: prod.split sum.split)

lemma admits_ingest [simp]: "admits (handleAdminIngestSource s sid st w)"
  by (auto simp: handleAdminIngestSource_def ingest_from_files_def ingest_from_rest_def Let_def
      split: prod.split sum.split option.split)

lemma serve_admin_admits: "admits (serve_admin s r st w)"
  unfolding serve_admin_def
proof (rule admits_dispatch)
  fix h vals
  show "admits (serve_admin_route s r h (assoc_get vals ''id'') st w)"
    by (cases h) (auto simp: handleAdminCreateSource_def handleAdminGetSource_def handleAdminDeleteSource_def Let_def
        split: prod.split sum.split)
qed

lemma serve_queries_admits: "admits (serve_queries s r st w)"
  unfolding serve_queries_def
proof (rule admits_dispatch)
  fix h vals
  show "admits (serve_query_route s r h st w)"
    by (cases h) (auto simp: dp_handleQuery_def Let_def split: prod.split sum.split option.split)
qed

definition admin_authorized :: "dp_config \<Rightarrow> dp_body http_incoming \<Rightarrow> bool" where
  "admin_authorized cfg r \<longleftrightarrow> dp_AdminSecret cfg \<noteq> '''' \<and> Header_Get r ''Authorization'' = ''Bearer '' @ dp_AdminSecret cfg"

lemma HasPrefix_drop: "HasPrefix h p \<and> drop (length p) h = x \<longleftrightarrow> h = p @ x"
  by (auto simp: HasPrefix_def) (metis append_take_drop_id)

text \<open>C15: a request below \<^verbatim>\<open>/v1/admin/\<close> reaches a handler exactly when a secret is configured and
  the request carries it as bearer credential; any other is answered 401 without a change to the
  sources or to anything outside. The handlers themselves never answer 401.\<close>

theorem admin_needs_secret:
  assumes "rq_Path r = ''v1'' # ''admin'' # x # rest"
  shows "serve_data_plane s r st w =
      (if admin_authorized (dp_cfg s) r then serve_admin s r st w else Some (dp_writeJSON 401 (JError ''unauthorized''), st, w)) \<and>
    (case serve_admin s r st w of None \<Rightarrow> True | Some (rep, _) \<Rightarrow> rs_Code rep \<noteq> 401)"
proof -
  have "admin_authorized (dp_cfg s) r \<longleftrightarrow> length (dp_AdminSecret (dp_cfg s)) \<noteq> 0 \<and>
      HasPrefix (Header_Get r ''Authorization'') ''Bearer '' \<and>
      drop (length ''Bearer '') (Header_Get r ''Authorization'') = dp_AdminSecret (dp_cfg s)"
    unfolding admin_authorized_def HasPrefix_drop by simp
  then show ?thesis using serve_admin_admits [of s r st w] route_admin [OF assms, of s st w]
    by (simp add: requireAdmin_def dp_unauthorized_def answer_def Let_def admits_def)
qed

definition admin_probe :: "string \<Rightarrow> string \<Rightarrow> dp_body http_incoming" where
  "admin_probe m auth =
     \<lparr>rq_Method = m, rq_Host = ''dp'', rq_Path = [''v1'', ''admin'', ''sources'', ''s''], rq_Query = [],
      rq_Headers = [(''Authorization'', auth)], rq_Cookies = [], rq_RemoteAddr = ''127.0.0.1:1'', rq_TLS = False,
      rq_Body = \<lparr>bd_query = Inl (Errorf ''EOF''), bd_source = Inl (Errorf ''EOF'')\<rparr>\<rparr>"

definition sample_dp :: "(string \<Rightarrow> 'w \<Rightarrow> bool \<times> 'w) option \<Rightarrow> 'w dp_server" where
  "sample_dp validator =
     \<lparr>dp_cfg = \<lparr>dp_Listen = '':9091'', dp_AdminSecret = ''k'', dp_Collection = ''c'', dp_VectorSize = 1, dp_AllowedFileDir = '''', dp_DefaultMinScore = 0\<rparr>,
      dp_embedder = rest_sample_embedder, dp_vector = rest_sample_vector, dp_tokenValidator = validator,
      dp_http = \<lparr>ht_NewRequest = (\<lambda>u. None), ht_Do = (\<lambda>r w. (Inr (200, Inr (Inr \<lparr>pg_Documents = [], pg_NextURL = ''''\<rparr>)), w))\<rparr>,
      dp_parse = sample_parse, dp_sha = (\<lambda>d. ''h''), dp_os = (\<lambda>w. sample_os), dp_now = (\<lambda>w. ''t''), dp_hash_time = (\<lambda>w. ''t'')\<rparr>"

definition sample_dp_state :: dp_state where
  "sample_dp_state = dp_New \<lparr>dp_Listen = '':9091'', dp_AdminSecret = ''k'', dp_Collection = ''c'', dp_VectorSize = 1, dp_AllowedFileDir = '''', dp_DefaultMinScore = 0\<rparr> empty_source_db"

theorem admin_needs_secret_witness:
  "serve_data_plane (sample_dp None) (admin_probe ''DELETE'' ''Bearer q'') sample_dp_state () =
     Some (dp_writeJSON 401 (JError ''unauthorized''), sample_dp_state, ()) \<and>
   serve_data_plane (sample_dp None) (admin_probe ''DELETE'' ''Bearer k'') sample_dp_state () =
     serve_admin (sample_dp None) (admin_probe ''DELETE'' ''Bearer k'') sample_dp_state () \<and>
   map_option (rs_Code \<circ> fst) (serve_admin (sample_dp None) (admin_probe ''DELETE'' ''Bearer k'') sample_dp_state ()) = Some 404"
proof -
  have p: "rq_Path (admin_probe m a) = ''v1'' # ''admin'' # ''sources'' # [''s'']" for m a by (simp add: admin_probe_def)
  have a: "\<not> admin_authorized (dp_cfg (sample_dp None :: unit dp_server)) (admin_probe ''DELETE'' ''Bearer q'')"
    "admin_authorized (dp_cfg (sample_dp None :: unit dp_server)) (admin_probe ''DELETE'' ''Bearer k'')" by code_simp+
  have c: "map_option (rs_Code \<circ> fst) (serve_admin (sample_dp None) (admin_probe ''DELETE'' ''Bearer k'') sample_dp_state ()) = Some 404"
    by code_simp
  show ?thesis
    using admin_needs_secret [OF p, of "sample_dp None" "''DELETE''" "''Bearer q''" sample_dp_state "()"]
      admin_needs_secret [OF p, of "sample_dp None" "''DELETE''" "''Bearer k''" sample_dp_state "()"] a c
    by simp
qed

text \<open>The validator that the control plane gives the data plane: the registry, which is part of the
  world.\<close>

definition registry_validator :: "(string \<Rightarrow> string) \<Rightarrow> string \<Rightarrow> registry_db \<times> 'x \<Rightarrow> bool \<times> registry_db \<times> 'x" where
  "registry_validator sha token w =
     (case w of (db, x) \<Rightarrow> case Registry_ValidQueryToken sha token db of (ok, db1) \<Rightarrow> (ok, db1, x))"

text \<open>C9: with the registry as validator, a query or a listing of the sources is answered 401 exactly
  when the request's credential (the bearer token, else the \<^verbatim>\<open>X-Fox-Auth\<close> header) is empty or is
  neither the admin secret nor the current query token of a registered instance; a refused request
  leaves the sources as they were. So rotating an instance's token, or destroying the instance,
  locks the old token out of the data plane at once.\<close>

theorem query_needs_token:
  assumes "rq_Path r = [''v1'', p]" "p = ''query'' \<or> p = ''sources''"
    and "dp_tokenValidator s = Some (registry_validator sha)"
    and "db_reachable sha db" "sha_len sha" "no_collision sha db (query_credential r)" "db_fault db = None"
    and "serve_data_plane s r st (db, x) = Some (rep, st', w')"
  shows "(rs_Code rep = 401 \<longleftrightarrow>
      query_credential r = '''' \<or>
      query_credential r \<noteq> dp_AdminSecret (dp_cfg s) \<and>
      query_credential r \<notin> inst_QueryToken ` set (db_instances db)) \<and>
    (rs_Code rep = 401 \<longrightarrow> st' = st)"
proof -
  let ?t = "query_credential r"
  have valid: "fst (Registry_ValidQueryToken sha ?t db) \<longleftrightarrow> ?t \<noteq> '''' \<and> (\<exists>r \<in> set (db_instances db). inst_QueryToken r = ?t)"
    using ValidQueryToken_iff [of sha db ?t] assms(5-7) db_reachable_inv [OF assms(4)] by (simp add: db_inv_def)
  obtain ok db1 where v: "Registry_ValidQueryToken sha ?t db = (ok, db1)" by fastforce
  have run: "requireQueryAuth s (serve_queries s) r st (db, x) = Some (rep, st', w')"
    using assms(2,8) route_query [OF assms(1), of s st "(db, x)"] by auto
  have served: "serve_queries s r st w = Some (rep, st', w') \<Longrightarrow> rs_Code rep \<noteq> 401" for w
    using serve_queries_admits [of s r st w] by (simp add: admits_def)
  have refused: "rs_Code rep = 401 \<and> st' = st" if "dp_unauthorized st w = Some (rep, st', w')" for w
    using that by (auto simp: dp_unauthorized_def answer_def dp_writeJSON_def)
  have step: "requireQueryAuth s (serve_queries s) r st (db, x) =
      (if ?t = '''' then dp_unauthorized st (db, x)
       else if ?t = dp_AdminSecret (dp_cfg s) then serve_queries s r st (db, x)
       else if ok then serve_queries s r st (db1, x) else dp_unauthorized st (db1, x))"
    by (simp add: requireQueryAuth_def assms(3) registry_validator_def Let_def v)
  have ok: "ok \<longleftrightarrow> ?t \<noteq> '''' \<and> ?t \<in> inst_QueryToken ` set (db_instances db)"    using valid unfolding v fst_conv image_iff by metis
  consider "?t = ''''" | "?t \<noteq> ''''" "?t = dp_AdminSecret (dp_cfg s)" | "?t \<noteq> ''''" "?t \<noteq> dp_AdminSecret (dp_cfg s)" "ok"
    | "?t \<noteq> ''''" "?t \<noteq> dp_AdminSecret (dp_cfg s)" "\<not> ok" by blast
  then show ?thesis
  proof cases
    case 1
    then show ?thesis using run refused [of "(db, x)"] unfolding step by simp
  next
    case 2
    then show ?thesis using run served [of "(db, x)"] unfolding step by simp
  next
    case 3
    then show ?thesis using run served [of "(db1, x)"] ok unfolding step by simp
  next
    case 4
    then show ?thesis using run refused [of "(db1, x)"] ok unfolding step by simp
  qed
qed

definition query_probe :: "string \<Rightarrow> dp_body http_incoming" where
  "query_probe auth =
     \<lparr>rq_Method = ''POST'', rq_Host = ''dp'', rq_Path = [''v1'', ''query''], rq_Query = [],
      rq_Headers = [(''X-Fox-Auth'', auth)], rq_Cookies = [], rq_RemoteAddr = ''127.0.0.1:1'', rq_TLS = False,
      rq_Body = \<lparr>bd_query = Inr \<lparr>qr_Query = ''hi'', qr_Collection = '''', qr_TopK = 0, qr_SourceID = '''', qr_MinScore = None\<rparr>,
        bd_source = Inl (Errorf ''EOF'')\<rparr>\<rparr>"

definition probe_db :: registry_db where
  "probe_db = snd (Registry_Create sha32 ''t'' (sample_instance ''a'' 9100 ''q'') (empty_db []))"

definition probe :: "string \<Rightarrow> (dp_reply \<times> dp_state \<times> registry_db \<times> unit) option" where
  "probe auth = serve_data_plane (sample_dp (Some (registry_validator sha32))) (query_probe auth) sample_dp_state (probe_db, ())"

theorem query_needs_token_witness:
  "\<exists>rep1 rep2 rest1 rest2. probe ''q'' = Some (rep1, rest1) \<and> probe ''old'' = Some (rep2, rest2) \<and>
     rs_Code rep1 \<noteq> 401 \<and> rs_Code rep2 = 401"
proof -
  have reach: "db_reachable sha32 probe_db" unfolding probe_db_def by (rule reach_step [OF reach_init step_create])
  have sha: "sha_len sha32" by (simp add: sha_len_def sha32_def min_def)
  have "probe ''q'' \<noteq> None" "probe ''old'' \<noteq> None" by code_simp+
  then obtain rep1 st1 w1 rep2 st2 w2 where runs: "probe ''q'' = Some (rep1, st1, w1)" "probe ''old'' = Some (rep2, st2, w2)" by auto
  have c: "no_collision sha32 probe_db (query_credential (query_probe ''q''))" "no_collision sha32 probe_db (query_credential (query_probe ''old''))"
    "db_fault probe_db = None" by code_simp+
  have t: "query_credential (query_probe ''q'') = ''q''" "query_credential (query_probe ''old'') = ''old''"
    "inst_QueryToken ` set (db_instances probe_db) = {''q''}" "dp_AdminSecret (dp_cfg (sample_dp (Some (registry_validator sha32)))) = ''k''"
    by code_simp+
  have p: "rq_Path (query_probe a) = [''v1'', ''query'']" for a by (simp add: query_probe_def)
  have s: "dp_tokenValidator (sample_dp v) = v" for v by (simp add: sample_dp_def)
  note use = query_needs_token [OF p disjI1 [OF refl] s reach sha _ c(3)]
  have "rs_Code rep1 \<noteq> 401" using use [OF c(1) runs(1) [unfolded probe_def]] unfolding t by simp
  moreover have "rs_Code rep2 = 401" using use [OF c(2) runs(2) [unfolded probe_def]] unfolding t by simp
  ultimately show ?thesis using runs by blast
qed

section \<open>Deleting a source\<close>

lemma Source_Get_cases:
  assumes "Source_Get sid db = (r, db')"
  shows "sd_sources db' = sd_sources db" "sd_docs db' = sd_docs db"
    and "r = Inr src \<Longrightarrow> \<exists>row. query_row (\<lambda>x. src_ID x = sid) (sd_sources db) = Some row \<and> src = source_of_row row"
proof -
  obtain q where q: "sd_query (\<lambda>d. query_row (\<lambda>x. src_ID x = sid) (sd_sources d)) db = (q, db')"
    using assms by (auto simp: Source_Get_def split: prod.splits sum.splits option.splits)
  show "sd_sources db' = sd_sources db" "sd_docs db' = sd_docs db" using sd_query_cases [OF q] by auto
  show "r = Inr src \<Longrightarrow> \<exists>row. query_row (\<lambda>x. src_ID x = sid) (sd_sources db) = Some row \<and> src = source_of_row row"
    using assms q sd_query_cases(3) [OF q] by (auto simp: Source_Get_def split: option.splits)
qed

lemma Source_Delete_cases:
  assumes "Source_Delete sid db = (r, db')" "\<exists>row \<in> set (sd_sources db). src_ID row = sid"
  shows "(\<exists>e. r = Inl e) \<and> sd_sources db' = sd_sources db \<and> sd_docs db' = sd_docs db \<or>
    r = Inr () \<and> sd_sources db' = del_where (\<lambda>x. src_ID x = sid) (sd_sources db) \<and> sd_docs db' = sd_docs db"
proof -
  obtain x db1 where x: "sd_exec (stmt_delete_source sid) db = (x, db1)" by fastforce
  have "db' = db1" and r: "r = (case x of Inl e \<Rightarrow> Inl (Wrap (''source: delete '' @ sid) e) | Inr n \<Rightarrow> if n = 0 then Inl source_ErrNotFound else Inr ())"
    using assms(1) x by (auto simp: Source_Delete_def source_affected_def split: sum.splits if_splits)
  from x show ?thesis
  proof (cases rule: sd_exec_cases)
    case (1 e)
    then show ?thesis using \<open>db' = db1\<close> r by simp
  next
    case (2 n)
    then have "n = RowsAffected (\<lambda>x. src_ID x = sid) (sd_sources db)" by (simp add: stmt_delete_source_def)
    then have "n \<noteq> 0" using assms(2) by (auto simp: RowsAffected_def sel_where_def filter_empty_conv)
    then show ?thesis using 2 \<open>db' = db1\<close> r by (auto simp: stmt_delete_source_def)
  qed
qed

lemma DeleteAllDocTracking_sources: "sd_sources (snd (DeleteAllDocTracking sid db)) = sd_sources db"
  by (simp add: DeleteAllDocTracking_def source_driver stmt_delete_docs_def split: option.split list.split)

definition row_collection :: "dp_config \<Rightarrow> source_row \<Rightarrow> string" where
  "row_collection cfg row = or_default (src_Collection row) (dp_Collection cfg)"

lemma source_of_row_collection [simp]: "src_Collection (source_of_row row) = src_Collection row"
  by (simp add: source_of_row_def source_base.defs source.defs)

text \<open>C16: deleting a source is all or nothing and in the safe order. Either the request is answered
  200, the source's row is gone, every other row is as it was, and the vector database had
  acknowledged the deletion of all points of the source before; or it is answered 404 or 500 and
  both tables are unchanged, so the deletion can be repeated. A row never disappears while its
  points stay searchable.\<close>

theorem delete_source_ordered:
  assumes "handleAdminDeleteSource s sid st w = Some (rep, st', w')"
  shows "rs_Code rep = 200 \<and>
      sd_sources (ds_sources st') = del_where (\<lambda>x. src_ID x = sid) (sd_sources (ds_sources st)) \<and>
      (\<exists>row \<in> set (sd_sources (ds_sources st)). src_ID row = sid \<and>
         fst (DeleteByFilter (dp_vector s) (row_collection (dp_cfg s) row) (source_filter sid) w) = Inr ())
    \<or> rs_Code rep \<in> {404, 500} \<and> sd_sources (ds_sources st') = sd_sources (ds_sources st) \<and>
      sd_docs (ds_sources st') = sd_docs (ds_sources st)"
proof -
  obtain g db where g: "Source_Get sid (ds_sources st) = (g, db)" by fastforce
  note tables = Source_Get_cases(1,2) [OF g]
  show ?thesis
  proof (cases g)
    case (Inl e)
    then show ?thesis using assms g tables
      by (auto simp: handleAdminDeleteSource_def get_failed_def answer_def dp_writeJSON_def split: if_splits)
  next
    case (Inr src)
    then obtain row where row: "query_row (\<lambda>x. src_ID x = sid) (sd_sources (ds_sources st)) = Some row" "src = source_of_row row"
      using Source_Get_cases(3) [OF g] by blast
    have mem: "row \<in> set (sd_sources (ds_sources st))" "src_ID row = sid" using query_row_SomeD [OF row(1)] by auto
    obtain d w1 where d: "DeleteByFilter (dp_vector s) (row_collection (dp_cfg s) row) (source_filter sid) w = (d, w1)" by fastforce
    obtain x db1 where x: "Source_Delete sid db = (x, db1)" by fastforce
    have ex: "\<exists>row \<in> set (sd_sources db). src_ID row = sid" using mem tables(1) by auto
    have run: "Some (rep, st', w') =
        (case d of Inl _ \<Rightarrow> answer 500 (JError ''failed to delete vector points'') (st\<lparr>ds_sources := db\<rparr>) w1
         | Inr _ \<Rightarrow> (case x of Inl _ \<Rightarrow> answer 500 (JError ''internal'') (st\<lparr>ds_sources := db1\<rparr>) w1
            | Inr _ \<Rightarrow> answer 200 (JStatus ''deleted'') (st\<lparr>ds_sources := snd (DeleteAllDocTracking sid db1)\<rparr>) w1))"
      using assms g Inr d x row(2) by (cases d; cases x) (simp_all add: handleAdminDeleteSource_def row_collection_def)
    show ?thesis using Source_Delete_cases [OF x ex] run d mem tables DeleteAllDocTracking_sources
      by (cases d; cases x) (auto simp: answer_def dp_writeJSON_def)
  qed
qed

definition sample_source :: "string \<Rightarrow> (string \<times> string) list \<Rightarrow> source" where
  "sample_source typ cfg =
     \<lparr>src_ID = ''s'', src_Type = typ, src_Name = ''n'', src_Collection = '''', src_Status = '''', src_DocCount = 0, src_ChunkCount = 0,
      src_ErrorDetail = '''', src_CreatedAt = '''', src_UpdatedAt = '''', src_Config = cfg\<rparr>"

definition state_with :: "source \<Rightarrow> dp_state" where
  "state_with src = sample_dp_state\<lparr>ds_sources := snd (Source_Create ''t'' src empty_source_db)\<rparr>"

theorem delete_source_ordered_witness:
  "\<exists>rep st' w'. handleAdminDeleteSource (sample_dp None) ''s'' (state_with (sample_source ''file'' [])) () = Some (rep, st', w') \<and>
     rs_Code rep = 200 \<and> sd_sources (ds_sources st') = []"
proof -
  let ?st = "state_with (sample_source ''file'' [])"
  have "map_option (rs_Code \<circ> fst) (handleAdminDeleteSource (sample_dp None) ''s'' ?st ()) = Some 200" by code_simp
  then obtain rep st' w' where r: "handleAdminDeleteSource (sample_dp None) ''s'' ?st () = Some (rep, st', w')" "rs_Code rep = 200" by auto
  have "del_where (\<lambda>x. src_ID x = ''s'') (sd_sources (ds_sources ?st)) = []" by code_simp
  moreover have "sd_sources (ds_sources st') = del_where (\<lambda>x. src_ID x = ''s'') (sd_sources (ds_sources ?st))"
    using delete_source_ordered [OF r(1)] r(2) by simp
  ultimately show ?thesis using r by metis
qed

section \<open>An ingest settles the source's status\<close>

text \<open>What the tracker's operations keep, an ingest keeps.\<close>

definition tracker_keeps :: "'s doc_tracker \<Rightarrow> ('s \<Rightarrow> bool) \<Rightarrow> bool" where
  "tracker_keeps t J \<longleftrightarrow>
     (\<forall>s a b c. J s \<longrightarrow> J (snd (dt_GetDocHash t a b s)) \<and> J (snd (dt_SetDocHash t a b c s)) \<and>
        J (snd (dt_ListDocIDs t a s)) \<and> J (snd (dt_DeleteDocTracking t a b s)))"

lemma scan_files_keeps:
  assumes "tracker_keeps t J"
  shows "J s \<Longrightarrow> scan_files os sha (Some t) sid files n s = Some (n', s') \<Longrightarrow> J s'"
proof (induction files arbitrary: n s)
  case (Cons f fs)
  obtain n1 s1 where f: "scan_file os sha (Some t) sid f n s = Some (n1, s1)"
    and fs: "scan_files os sha (Some t) sid fs n1 s1 = Some (n', s')" using Cons.prems(2) by (auto split: option.splits)
  have "J (snd (dt_GetDocHash t a b s))" for a b using assms Cons.prems(1) by (simp add: tracker_keeps_def)
  then have "J (snd (already_known (Some t) sid d h s))" for d h
    by (auto simp: already_known_def split: prod.split sum.split) (metis snd_conv)+
  then have k: "already_known (Some t) sid d h s = (known, s2) \<Longrightarrow> J s2" for d h known s2 by (metis snd_conv)
  have "J s1" using f Cons.prems(1)
    by (auto simp: scan_file_def Let_def split: sum.splits prod.splits option.splits if_splits dest: k)
  then show ?case using Cons.IH [OF _ fs] by blast
qed simp

lemma record_hashes_keeps:
  "tracker_keeps t J \<Longrightarrow> J s \<Longrightarrow> J (record_hashes t sid hs s)"
proof (induction hs arbitrary: s)
  case (Cons p hs)
  then show ?case by (cases p) (simp add: tracker_keeps_def)
qed simp

lemma drop_unseen_keeps:
  "tracker_keeps t J \<Longrightarrow> J s \<Longrightarrow> J (fst (drop_unseen vector t sid collection seen ids s w))"
  by (induction ids arbitrary: s w) (simp_all add: Let_def tracker_keeps_def)

lemma file_Ingest_keeps:
  assumes t: "tracker_keeps t J" "J s" and run: "file_Ingest os sha embedder vector (Some t) sid c s w = Some (r, s', w')"
  shows "J s'"
proof (cases "map_of (fc_sources c) sid")
  case None
  then show ?thesis using run t(2) by (simp add: file_Ingest_def)
next
  case (Some cfg)
  show ?thesis
  proof (cases "ingest_files os (config_get (sc_Config cfg) ''path'')")
    case (Inl e)
    then show ?thesis using run t(2) Some by (simp add: file_Ingest_def)
  next
    case (Inr files)
    then obtain n s1 w1 where scan: "scan_files os sha (Some t) sid files \<lparr>sn_result = zero_result, sn_pending = [], sn_hashes = []\<rparr> s = Some (n, s1)"
      and fin: "finish_tracking vector (Some t) sid (sc_Collection cfg) (map path_Base files) (sn_hashes n) s1 w1 = (s', w')"
      using run Some by (auto simp: file_Ingest_def split: option.splits prod.splits)
    let ?s2 = "record_hashes t sid (sn_hashes n) s1"
    have J2: "J ?s2" using record_hashes_keeps [OF t(1) scan_files_keeps [OF t scan]] .
    obtain l s3 where l: "dt_ListDocIDs t sid ?s2 = (l, s3)" by fastforce
    then have "J s3" using t(1) J2 by (metis snd_conv tracker_keeps_def)
    then have "J (fst (finish_tracking vector (Some t) sid (sc_Collection cfg) (map path_Base files) (sn_hashes n) s1 w1))"
      using l drop_unseen_keeps [OF t(1)] by (cases l) (simp_all add: finish_tracking_def)
    then show ?thesis using fin by simp
  qed
qed

lemma source_tracker_keeps: "tracker_keeps (source_tracker now) (\<lambda>db. sd_faults db = [] \<and> sd_sources db = rows)"
  by (simp add: tracker_keeps_def source_tracker_def GetDocHash_def SetDocHash_def ListDocIDs_def DeleteDocTracking_def source_driver
      stmt_upsert_doc_def stmt_delete_docs_def Let_def split: option.split)

lemma sd_update_quiet:
  assumes "sd_faults db = []"
  shows "snd (source_affected msg (sd_exec (stmt_update_source sid f) db)) = db\<lparr>sd_sources := upd_where (\<lambda>r. src_ID r = sid) f (sd_sources db)\<rparr>"
  using assms by (simp add: source_driver stmt_update_source_def)

lemmas source_updates = Source_UpdateStatus_def Source_UpdateCounts_def Source_SetError_def sd_update_quiet

definition row_of :: "string \<Rightarrow> dp_state \<Rightarrow> source_row option" where
  "row_of sid st = query_row (\<lambda>r. src_ID r = sid) (sd_sources (ds_sources st))"

definition other_rows :: "string \<Rightarrow> dp_state \<Rightarrow> source_row table" where
  "other_rows sid st = del_where (\<lambda>r. src_ID r = sid) (sd_sources (ds_sources st))"

lemma del_upd_same: "del_where P (upd_where P f xs) = del_where P xs" if "\<And>x. P x \<Longrightarrow> P (f x)"
  using that by (induction xs) (auto simp: del_where_def upd_where_def)

definition settled_row :: "dp_reply \<Rightarrow> source_row \<Rightarrow> source_row \<Rightarrow> bool" where
  "settled_row rep old new \<longleftrightarrow>
     (case rs_Body rep of
        JIngest res \<Rightarrow> rs_Code rep = 200 \<and> src_Status new = ''active'' \<and> src_DocCount new = ig_DocumentsProcessed res \<and>
          src_ChunkCount new = ig_ChunksStored res \<and> src_ErrorDetail new = src_ErrorDetail old
      | JError msg \<Rightarrow>
          rs_Code rep = 500 \<and> src_Status new = ''error'' \<and> src_ErrorDetail new = msg \<and> src_DocCount new = src_DocCount old \<and>
            src_ChunkCount new = src_ChunkCount old \<or>
          rs_Code rep = 400 \<and> new = old
      | _ \<Rightarrow> False)"

lemma settle_ingest_row:
  assumes "settle_ingest s sid out st w = Some (rep, st', w')" "sd_faults (ds_sources st) = []" "row_of sid st = Some row"
  shows "\<exists>new. row_of sid st' = Some new \<and> settled_row rep row new \<and> rs_Code rep \<noteq> 400 \<and> other_rows sid st' = other_rows sid st"
  using assms unfolding row_of_def other_rows_def
  by (cases out) (auto simp: settle_ingest_def source_updates answer_def dp_writeJSON_def Let_def query_row_upd_same del_upd_same settled_row_def)

text \<open>The step both branches share: the row is marked, the connector runs without touching the
  table, and the outcome is settled.\<close>

lemma marked_then_settled:
  assumes quiet: "sd_faults (ds_sources st) = []" and row: "row_of sid st = Some row"
    and db2: "sd_faults (ds_sources st2) = []"
      "sd_sources (ds_sources st2) = sd_sources (snd (Source_UpdateStatus now sid ''ingesting'' (ds_sources st)))"
    and run: "settle_ingest s sid out st2 w = Some (rep, st', w')"
  shows "\<exists>new. row_of sid st' = Some new \<and> settled_row rep row new \<and> other_rows sid st' = other_rows sid st"
proof -
  have rows: "sd_sources (ds_sources st2) =
      upd_where (\<lambda>r. src_ID r = sid) (\<lambda>r. r\<lparr>src_Status := ''ingesting'', src_UpdatedAt := now\<rparr>) (sd_sources (ds_sources st))"
    by (simp add: db2(2) source_updates quiet)
  have row2: "row_of sid st2 = Some (row\<lparr>src_Status := ''ingesting'', src_UpdatedAt := now\<rparr>)"
    using row by (simp add: row_of_def rows query_row_upd_same)
  have other2: "other_rows sid st2 = other_rows sid st" by (simp add: other_rows_def rows del_upd_same)
  from settle_ingest_row [OF run db2(1) row2] other2 show ?thesis
    by (auto simp: settled_row_def split: dp_json.splits)
qed

lemma ingest_from_files_settles:
  assumes run: "ingest_from_files s sid cfg st w = Some (rep, st', w')"
    and quiet: "sd_faults (ds_sources st) = []" and row: "row_of sid st = Some row"
  shows "\<exists>new. row_of sid st' = Some new \<and> settled_row rep row new \<and> other_rows sid st' = other_rows sid st"
proof -
  have quiet1: "sd_faults (snd (Source_UpdateStatus now sid v (ds_sources st))) = []" for now v
    using quiet by (simp add: source_updates)
  obtain c fc where c: "file_Connect (dp_os s w) cfg (ds_files st) = (c, fc)" by fastforce
  show ?thesis
  proof (cases c)
    case (Inl e)
    then show ?thesis using run c row
      by (auto simp: ingest_from_files_def answer_def dp_writeJSON_def row_of_def other_rows_def settled_row_def)
  next
    case (Inr u)
    let ?db1 = "snd (Source_UpdateStatus (dp_now s w) sid ''ingesting'' (ds_sources st))"
    obtain out db2 w1 where ing: "file_Ingest (dp_os s w) (dp_sha s) (dp_embedder s) (dp_vector s)
          (Some (source_tracker (dp_hash_time s w))) sid fc ?db1 w = Some (out, db2, w1)"
      and fin: "settle_ingest s sid out (st\<lparr>ds_sources := db2, ds_files := fc\<rparr>) w1 = Some (rep, st', w')"
      using run c Inr by (auto simp: ingest_from_files_def Let_def split: option.splits)
    have "sd_faults db2 = [] \<and> sd_sources db2 = sd_sources ?db1"
      using file_Ingest_keeps [OF source_tracker_keeps _ ing, of "sd_sources ?db1"] quiet1 by simp
    then show ?thesis using marked_then_settled [OF quiet row _ _ fin, of "dp_now s w"] by simp
  qed
qed

lemma ingest_from_rest_settles:
  assumes run: "ingest_from_rest s sid cfg st w = Some (rep, st', w')"
    and quiet: "sd_faults (ds_sources st) = []" and row: "row_of sid st = Some row"
  shows "\<exists>new. row_of sid st' = Some new \<and> settled_row rep row new \<and> other_rows sid st' = other_rows sid st"
proof -
  have quiet1: "sd_faults (snd (Source_UpdateStatus now sid v (ds_sources st))) = []" for now v
    using quiet by (simp add: source_updates)
  obtain c rc where c: "rest_Connect cfg (ds_rest st) = (c, rc)" by fastforce
  show ?thesis
  proof (cases c)
    case (Inl e)
    then show ?thesis using run c row
      by (auto simp: ingest_from_rest_def answer_def dp_writeJSON_def row_of_def other_rows_def settled_row_def)
  next
    case (Inr u)
    let ?db1 = "snd (Source_UpdateStatus (dp_now s w) sid ''ingesting'' (ds_sources st))"
    obtain out w1 where fin: "settle_ingest s sid out (st\<lparr>ds_sources := ?db1, ds_rest := rc\<rparr>) w1 = Some (rep, st', w')"
      using run c Inr by (auto simp: ingest_from_rest_def Let_def split: option.splits)
    then show ?thesis using marked_then_settled [OF quiet row _ _ fin, of "dp_now s w"] quiet1 by simp
  qed
qed



end
