(* ===== verification/Qdrant_Manager.thy ===== *)
theory Qdrant_Manager
  imports Docker_Plugin Api_Names Qdrant_Client
begin

text \<open>
  \<^verbatim>\<open>data-plane/qdrant/qdrant.go\<close>: the manager of the vector database's container, on the same client
  library as Docker_Plugin; \<open>inspectImage\<close> is the client's \<^verbatim>\<open>ImageInspect\<close>. Pulling an image reads the
  whole progress stream, whose errors are ignored.
\<close>

record qd_config =
  qd_Image :: string
  qd_HTTPPort :: int
  qd_GRPCPort :: int
  qd_DataDir :: string

record 'w qd_manager =
  qd_cli :: "'w docker_client"
  qd_inspectImage :: "string \<Rightarrow> 'w \<Rightarrow> unit result \<times> 'w"
  qd_cfg :: qd_config

definition qd_containerName :: string where "qd_containerName = ''fox-qdrant''"
definition qd_defaultImage :: string where "qd_defaultImage = ''qdrant/qdrant:v1.14.1''"
definition qd_httpPort :: string where "qd_httpPort = ''6333/tcp''"
definition qd_grpcPort :: string where "qd_grpcPort = ''6334/tcp''"
definition qd_healthPath :: string where "qd_healthPath = ''/healthz''"
definition qd_healthPollMax :: nat where "qd_healthPollMax = 30"
definition qd_healthInterval :: int where "qd_healthInterval = 2 * 1000000000"
definition qd_stopTimeout :: int where "qd_stopTimeout = 30"

definition ErrMissingDataDir :: go_error where
  "ErrMissingDataDir = Sentinel ''qdrant: data_dir is required for persistent storage''"

definition qd_applyDefaults :: "qd_config \<Rightarrow> qd_config" where
  "qd_applyDefaults c =
     (let c1 = (if qd_Image c = '''' then c\<lparr>qd_Image := qd_defaultImage\<rparr> else c);
          c2 = (if qd_HTTPPort c1 = 0 then c1\<lparr>qd_HTTPPort := 6333\<rparr> else c1)
      in if qd_GRPCPort c2 = 0 then c2\<lparr>qd_GRPCPort := 6334\<rparr> else c2)"

definition qd_validate :: "qd_config \<Rightarrow> go_error option" where
  "qd_validate c = (if qd_DataDir c = '''' then Some ErrMissingDataDir else None)"

definition NewManager :: "'w docker_client \<Rightarrow> (string \<Rightarrow> 'w \<Rightarrow> unit result \<times> 'w) \<Rightarrow> qd_config \<Rightarrow> 'w qd_manager result" where
  "NewManager cli inspectImage cfg =
     (let cfg1 = qd_applyDefaults cfg in
      case qd_validate cfg1 of
        Some e \<Rightarrow> Inl e
      | None \<Rightarrow> Inr \<lparr>qd_cli = cli, qd_inspectImage = inspectImage, qd_cfg = cfg1\<rparr>)"

definition qd_httpProbe :: "'w docker_client \<Rightarrow> int \<Rightarrow> string \<Rightarrow> 'w \<Rightarrow> bool \<times> 'w" where
  "qd_httpProbe c port path w =
     (case dc_Get c (''http://127.0.0.1:'' @ int_str port @ path) w of
        (Inl _, w1) \<Rightarrow> (False, w1)
      | (Inr code, w1) \<Rightarrow> (code = 200, w1))"

fun qd_poll_loop :: "'w qd_manager \<Rightarrow> nat \<Rightarrow> 'w \<Rightarrow> unit result \<times> 'w" where
  "qd_poll_loop m 0 w =
     (Inl (Errorf (''qdrant: health check timed out after '' @ nat_str qd_healthPollMax @ '' attempts'')), w)"
| "qd_poll_loop m (Suc n) w =
     (case dc_wait (qd_cli m) qd_healthInterval w of
        (Some e, w1) \<Rightarrow> (Inl e, w1)
      | (None, w1) \<Rightarrow>
          (case qd_httpProbe (qd_cli m) (qd_HTTPPort (qd_cfg m)) qd_healthPath w1 of
             (ok, w2) \<Rightarrow> if ok then (Inr (), w2) else qd_poll_loop m n w2))"

definition qd_pollHealth :: "'w qd_manager \<Rightarrow> 'w \<Rightarrow> unit result \<times> 'w" where
  "qd_pollHealth m w = qd_poll_loop m qd_healthPollMax w"

definition ensureImage :: "'w qd_manager \<Rightarrow> 'w \<Rightarrow> 'w" where
  "ensureImage m w =
     (case qd_inspectImage m (qd_Image (qd_cfg m)) w of
        (Inr _, w1) \<Rightarrow> w1
      | (Inl _, w1) \<Rightarrow> snd (dc_ImagePull (qd_cli m) (qd_Image (qd_cfg m)) w1))"

definition qd_container_config :: "qd_config \<Rightarrow> container_config" where
  "qd_container_config cfg =
     \<lparr>cc_Image = qd_Image cfg, cc_Env = [], cc_ExposedPorts = [qd_httpPort, qd_grpcPort],
      cc_Labels = [(''fox.managed-by'', ''fox-control''), (''fox.component'', ''qdrant'')]\<rparr>"

definition qd_host_config :: "qd_config \<Rightarrow> host_config" where
  "qd_host_config cfg =
     \<lparr>hc_PortBindings =
        [(qd_httpPort, [\<lparr>pb_HostIP = ''127.0.0.1'', pb_HostPort = int_str (qd_HTTPPort cfg)\<rparr>]),
         (qd_grpcPort, [\<lparr>pb_HostIP = ''127.0.0.1'', pb_HostPort = int_str (qd_GRPCPort cfg)\<rparr>])],
      hc_Binds = [qd_DataDir cfg @ '':/qdrant/storage''], hc_CapAdd = [], hc_ExtraHosts = [], hc_Devices = [], hc_Sysctls = [],
      hc_RestartPolicy = ''unless-stopped''\<rparr>"

definition Qdrant_Provision :: "'w qd_manager \<Rightarrow> 'w \<Rightarrow> unit result \<times> 'w" where
  "Qdrant_Provision m w =
     (case dc_ContainerInspect (qd_cli m) qd_containerName w of
        (Inr info, w1) \<Rightarrow>
          (if ir_Running info then qd_pollHealth m w1
           else case dc_ContainerStart (qd_cli m) (ir_ID info) w1 of
             (Inl e, w2) \<Rightarrow> (Inl (Wrap ''qdrant: start existing container'' e), w2)
           | (Inr _, w2) \<Rightarrow> qd_pollHealth m w2)
      | (Inl err, w1) \<Rightarrow>
          (if \<not> dc_IsNotFound (qd_cli m) err then (Inl (Wrap ''qdrant: inspect container'' err), w1)
           else case dc_ContainerCreate (qd_cli m) (qd_container_config (qd_cfg m)) (qd_host_config (qd_cfg m)) qd_containerName
                       (ensureImage m w1) of
             (Inl e, w2) \<Rightarrow> (Inl (Wrap ''qdrant: create container'' e), w2)
           | (Inr cid, w2) \<Rightarrow>
               (case dc_ContainerStart (qd_cli m) cid w2 of
                  (Inl e, w3) \<Rightarrow> (Inl (Wrap ''qdrant: start container'' e), w3)
                | (Inr _, w3) \<Rightarrow> qd_pollHealth m w3)))"

definition Qdrant_HealthCheck :: "'w qd_manager \<Rightarrow> 'w \<Rightarrow> bool result \<times> 'w" where
  "Qdrant_HealthCheck m w =
     (case dc_ContainerInspect (qd_cli m) qd_containerName w of
        (Inl e, w1) \<Rightarrow>
          (if dc_IsNotFound (qd_cli m) e then (Inr False, w1) else (Inl (Wrap ''qdrant: inspect container'' e), w1))
      | (Inr info, w1) \<Rightarrow>
          (if \<not> ir_Running info then (Inr False, w1)
           else case qd_httpProbe (qd_cli m) (qd_HTTPPort (qd_cfg m)) qd_healthPath w1 of (ok, w2) \<Rightarrow> (Inr ok, w2)))"

definition Qdrant_Destroy :: "'w docker_client \<Rightarrow> 'w \<Rightarrow> unit result \<times> 'w" where
  "Qdrant_Destroy c w =
     (let bad = (\<lambda>r. case r of Inl e \<Rightarrow> \<not> dc_IsNotFound c e | Inr _ \<Rightarrow> False) in
      case dc_ContainerStop c qd_containerName qd_stopTimeout w of
        (r, w1) \<Rightarrow>
          (if bad r then (Inl (Wrap ''qdrant: stop container'' (projl r)), w1)
           else case dc_ContainerRemove c qd_containerName w1 of
             (r2, w2) \<Rightarrow>
               (if bad r2 then (Inl (Wrap ''qdrant: remove container'' (projl r2)), w2) else (Inr (), w2))))"

definition HTTPURL :: "qd_config \<Rightarrow> string" where
  "HTTPURL cfg = ''http://127.0.0.1:'' @ int_str (qd_HTTPPort cfg)"

definition GRPCURL :: "qd_config \<Rightarrow> string" where
  "GRPCURL cfg = ''127.0.0.1:'' @ int_str (qd_GRPCPort cfg)"

section \<open>One container, on the configured directory\<close>

lemma qd_pollHealth_conf:
  assumes "daemon_ok (qd_cli m) conf" "qd_poll_loop m n w = (r, w')"
  shows "conf w' = conf w"
  using assms(2)
proof (induction n arbitrary: w)
  case (Suc n)
  obtain e w1 where w1: "dc_wait (qd_cli m) qd_healthInterval w = (e, w1)" by fastforce
  obtain g w2 where w2: "dc_Get (qd_cli m) (''http://127.0.0.1:'' @ int_str (qd_HTTPPort (qd_cfg m)) @ qd_healthPath) w1 = (g, w2)"
    by fastforce
  have keeps: "conf w1 = conf w" "conf w2 = conf w1"
    by (rule daemon_keeps(5) [OF assms(1) w1], rule daemon_keeps(4) [OF assms(1) w2])
  obtain ok where ok: "qd_httpProbe (qd_cli m) (qd_HTTPPort (qd_cfg m)) qd_healthPath w1 = (ok, w2)"
    using w2 by (cases g) (auto simp: qd_httpProbe_def)
  show ?case
  proof (cases e)
    case (Some x)
    then show ?thesis using Suc.prems keeps(1) w1 by simp
  next
    case None
    then show ?thesis using Suc.prems Suc.IH keeps w1 ok by (cases ok) simp_all
  qed
qed simp

text \<open>The documented behaviour of image inspection: it changes no container.\<close>

definition inspects_only :: "'w qd_manager \<Rightarrow> ('w \<Rightarrow> string \<Rightarrow> (container_config \<times> host_config) option) \<Rightarrow> bool" where
  "inspects_only m conf \<longleftrightarrow> (\<forall>i w. conf (snd (qd_inspectImage m i w)) = conf w)"

lemma ensureImage_conf:
  assumes "daemon_ok (qd_cli m) conf" "inspects_only m conf"
  shows "conf (ensureImage m w) = conf w"
proof -
  obtain r w1 where r: "qd_inspectImage m (qd_Image (qd_cfg m)) w = (r, w1)" by fastforce
  then have "conf w1 = conf w" using assms(2) by (metis inspects_only_def snd_conv)
  moreover have "conf (snd (dc_ImagePull (qd_cli m) (qd_Image (qd_cfg m)) w1)) = conf w1"
    using daemon_keeps(1) [OF assms(1)] by (metis prod.collapse)
  ultimately show ?thesis using r by (cases r) (simp_all add: ensureImage_def)
qed

lemma qd_start_poll_conf:
  assumes ok: "daemon_ok (qd_cli m) conf" and s: "dc_ContainerStart (qd_cli m) i w = (r, w1)"
    and p: "qd_pollHealth m w1 = (r2, w2)"
  shows "conf w1 = conf w" "conf w2 = conf w"
  using daemon_keeps(2) [OF ok s] qd_pollHealth_conf [OF ok p [unfolded qd_pollHealth_def]] by simp_all

text \<open>Bringing up the vector database touches no container but its own, and that only when it
  does not exist: an existing one keeps its configuration, so its data directory and ports; a new one
  has exactly the configured ports on the loopback address and the configured directory as its
  storage. This holds on every outcome, and the other containers are never touched.\<close>

theorem qdrant_provision_config:
  assumes "daemon_ok (qd_cli m) conf" "inspects_only m conf" "Qdrant_Provision m w = (r, w')"
  shows "conf w' = conf w \<or>
    (\<exists>e. fst (dc_ContainerInspect (qd_cli m) qd_containerName w) = Inl e \<and> dc_IsNotFound (qd_cli m) e) \<and>
    conf w' = (conf w)(qd_containerName \<mapsto> (qd_container_config (qd_cfg m), qd_host_config (qd_cfg m)))"
proof -
  obtain i w1 where i: "dc_ContainerInspect (qd_cli m) qd_containerName w = (i, w1)" by fastforce
  have c1: "conf w1 = conf w" using daemon_keeps(6) [OF assms(1) i] .
  have start: "conf (snd (case dc_ContainerStart (qd_cli m) cid v of
      (Inl e, v1) \<Rightarrow> (Inl (Wrap msg e), v1) | (Inr _, v1) \<Rightarrow> qd_pollHealth m v1)) = conf v" for cid v msg
    using qd_start_poll_conf [OF assms(1)] by (simp split: prod.split sum.split) (metis prod.collapse)
  show ?thesis
  proof (cases i)
    case (Inr info)
    have "conf w' = conf w1"
    proof (cases "ir_Running info")
      case True
      then show ?thesis using assms(3) i Inr qd_pollHealth_conf [OF assms(1)] by (simp add: Qdrant_Provision_def qd_pollHealth_def)
    next
      case False
      then show ?thesis using start [where cid = "ir_ID info" and v = w1 and msg = "''qdrant: start existing container''"] assms(3) i Inr
        by (simp add: Qdrant_Provision_def)
    qed
    then show ?thesis using c1 by simp
  next
    case (Inl err)
    show ?thesis
    proof (cases "dc_IsNotFound (qd_cli m) err")
      case False
      then show ?thesis using assms(3) i Inl c1 by (simp add: Qdrant_Provision_def)
    next
      case True
      obtain cr w2 where cr: "dc_ContainerCreate (qd_cli m) (qd_container_config (qd_cfg m)) (qd_host_config (qd_cfg m)) qd_containerName
          (ensureImage m w1) = (cr, w2)" by fastforce
      have e: "conf (ensureImage m w1) = conf w" using ensureImage_conf [OF assms(1,2)] c1 by simp
      show ?thesis
      proof (cases cr)
        case err: (Inl x)
        then show ?thesis using assms(3) i Inl True cr e daemon_changes(4) [OF assms(1) cr [unfolded err]]
          by (simp add: Qdrant_Provision_def)
      next
        case created: (Inr cid)
        then have "conf w' = conf w2" using start [where cid = cid and v = w2 and msg = "''qdrant: start container''"] assms(3) i Inl True cr
          by (simp add: Qdrant_Provision_def)
        then show ?thesis using i Inl True e daemon_changes(5) [OF assms(1) cr [unfolded created]] by simp
      qed
    qed
  qed
qed

text \<open>The name of the vector database's container is open to instances. ''qdrant'' is a valid
  instance id and a valid slug that no rule reserves, and the Docker plugin's name for that instance
  is the vector database's container: destroying the instance, as a failed provisioning also does,
  stops and removes the vector database exactly as the manager's own \<^verbatim>\<open>Destroy\<close> would.\<close>

theorem qdrant_name_clash:
  "validInstanceID ''qdrant'' \<and> isValidSlug ''qdrant'' \<and> ''qdrant'' \<notin> set reservedSlugs \<and>
   same_outcome (Docker_Destroy c ''qdrant'' w) (Qdrant_Destroy c w)"
proof -
  have "validInstanceID ''qdrant''" "isValidSlug ''qdrant''" "''qdrant'' \<notin> set reservedSlugs" by code_simp+
  moreover have "containerPrefix @ ''qdrant'' = qd_containerName" "stopTimeout = qd_stopTimeout" by code_simp+
  then have "same_outcome (Docker_Destroy c ''qdrant'' w) (Qdrant_Destroy c w)"
    by (simp add: Docker_Destroy_def Qdrant_Destroy_def same_outcome_def Let_def split: prod.split)
  ultimately show ?thesis by blast
qed

definition sample_manager :: "sample_world qd_manager" where
  "sample_manager =
     \<lparr>qd_cli = (sample_client ''bad'')\<lparr>dc_IsNotFound := (\<lambda>e. e = Errorf ''no such container'')\<rparr>,
      qd_inspectImage = (\<lambda>i w. (Inr (), w)),
      qd_cfg = \<lparr>qd_Image = ''qdrant'', qd_HTTPPort = 6333, qd_GRPCPort = 6334, qd_DataDir = ''/q''\<rparr>\<rparr>"

lemma sample_manager_ok: "daemon_ok (qd_cli sample_manager) map_of" "inspects_only sample_manager map_of"
  using sample_daemon [of "''bad''"]
  by (simp_all add: daemon_ok_def sample_manager_def inspects_only_def del: fun_upd_apply)

lemma sample_manager_run:
  "snd (Qdrant_Provision sample_manager sample_start) =
     AList.update qd_containerName (qd_container_config (qd_cfg sample_manager), qd_host_config (qd_cfg sample_manager)) sample_start"
proof -
  let ?c = "qd_cli sample_manager"
  have calls: "dc_ContainerInspect ?c qd_containerName sample_start = (Inl (Errorf ''no such container''), sample_start)"
    "dc_IsNotFound ?c (Errorf ''no such container'')" "ensureImage sample_manager w = w"
    "dc_ContainerStart ?c i w = (Inr (), w)" "qd_pollHealth sample_manager w = (Inr (), w)"
    "cc_Image cc \<noteq> ''bad'' \<Longrightarrow> dc_ContainerCreate ?c cc hc nm w = (Inr nm, AList.update nm (cc, hc) w)" for i w cc hc nm
    by (simp_all add: sample_manager_def sample_client_def sample_start_def qd_containerName_def ensureImage_def qd_pollHealth_def
        qd_healthPollMax_def qd_httpProbe_def eval_nat_numeral)
  have "cc_Image (qd_container_config (qd_cfg sample_manager)) \<noteq> ''bad''" by (simp add: qd_container_config_def sample_manager_def)
  then show ?thesis by (simp add: Qdrant_Provision_def calls)
qed

theorem qdrant_provision_config_witness:
  "\<exists>r w'. Qdrant_Provision sample_manager sample_start = (r, w') \<and>
     map_of w' = (map_of sample_start)(qd_containerName \<mapsto> (qd_container_config (qd_cfg sample_manager), qd_host_config (qd_cfg sample_manager)))"
proof -
  obtain r w' where r: "Qdrant_Provision sample_manager sample_start = (r, w')" by fastforce
  have "map_of sample_start qd_containerName = None" by (simp add: sample_start_def qd_containerName_def)
  moreover have "map_of w' qd_containerName \<noteq> None" using sample_manager_run r by (simp add: AList.update_conv')
  ultimately have "map_of w' \<noteq> map_of sample_start" by metis
  then show ?thesis using qdrant_provision_config [OF sample_manager_ok r] r by blast
qed

end
