(* ===== verification/Panel_Base.thy ===== *)
theory Panel_Base
  imports Go_Server Provisioner Health_Poller Session_Token Source_Registry
begin

text \<open>
  The panel's server (\<^verbatim>\<open>panel/api\<close>): its fixed parts, its state, the values its handlers answer, and
  the operations all handlers share. The state holds the provisioner's (database, file system and
  the plugin's world), the health poller's (whose event log is the server's own), the sources'
  database, the ids with an operation in flight, the background jobs that handlers have started and
  that have not run yet, the request limiters and the counters. A handler runs as one step; a job
  is a separate step (\<open>Panel_Jobs\<close>), so requests and jobs interleave freely.
\<close>

section \<open>Quoted text\<close>

text \<open>\<^verbatim>\<open>%q\<close>: ASCII text as a Go string literal; bytes of other characters are kept (they are printable
  characters in UTF-8).\<close>

definition quote_char :: "char \<Rightarrow> string" where
  "quote_char c =
     (let n = (of_char c :: nat) in
      if c = CHR 0x22 \<or> c = CHR 0x5C then [CHR 0x5C, c]
      else if 32 \<le> n \<and> n \<le> 126 \<or> 128 \<le> n then [c]
      else if n = 7 then [CHR 0x5C, CHR ''a''] else if n = 8 then [CHR 0x5C, CHR ''b'']
      else if n = 12 then [CHR 0x5C, CHR ''f''] else if n = 10 then [CHR 0x5C, CHR ''n'']
      else if n = 13 then [CHR 0x5C, CHR ''r''] else if n = 9 then [CHR 0x5C, CHR ''t'']
      else if n = 11 then [CHR 0x5C, CHR ''v'']
      else [CHR 0x5C, CHR ''x'', ''0123456789abcdef'' ! (n div 16), ''0123456789abcdef'' ! (n mod 16)])"

definition go_quote :: "string \<Rightarrow> string" where
  "go_quote s = [CHR 0x22] @ concat (map quote_char s) @ [CHR 0x22]"

section \<open>Requests and answers\<close>

record create_request =
  cr_ID :: string
  cr_SkillsetPath :: string
  cr_Role :: string
  cr_Owner :: string

record provision_body =
  pv_Username :: string
  pv_Password :: string
  pv_Slug :: string

record login_request =
  li_Username :: string
  li_Password :: string

record update_user_request =
  uu_Password :: "string option"
  uu_InstanceID :: "string option"

text \<open>A request body, as what reading it or decoding it as each handler's struct gives. For an upload,
  the outer error is that of the multipart form, the inner one that of reading the file; \<open>None\<close> is a
  form without the field.\<close>

record panel_body =
  bp_create :: "create_request result"
  bp_provision :: "provision_body result"
  bp_user :: "login_request result"
  bp_update :: "update_user_request result"
  bp_upgrade :: "string result"
  bp_session :: "string result"
  bp_raw :: "string result"
  bp_upload :: "string result option result"

type_synonym panel_request = "panel_body http_incoming"

record instance_item =
  it_ID :: string
  it_Status :: string
  it_Port :: int
  it_CreatedAt :: string
  it_Health :: "health_status option"

record instance_detail = instance_item +
  id_Logs :: string
  id_SkillsetName :: string
  id_PrincipalRole :: string

record slug_check =
  sl_Slug :: string
  sl_Available :: bool
  sl_Reason :: string

record upgrade_response =
  up_ID :: string
  up_Status :: string
  up_PreviousDigest :: string
  up_CurrentDigest :: string

record skillset_summary =
  ss_Name :: string
  ss_Version :: string
  ss_ContractVersion :: string
  ss_ToolCount :: nat
  ss_SourceCount :: nat
  ss_Filename :: string

text \<open>What a reverse proxy sends to a backend; the backend's answer is not part of the model.\<close>

record proxied =
  px_Host :: string
  px_Path :: "string list"
  px_Query :: "(string \<times> string) list"
  px_Auth :: "string option"

datatype panel_json =
    PError string string
  | PItems "instance_item list"
  | PDetail instance_detail
  | PCreated string string
  | PProvisioned string string string string
  | PSources "source list"
  | PSource source
  | PEvents "event list"
  | PStats container_stats
  | PUser cloud_user
  | PUsers "cloud_user list"
  | PUsername string
  | PSlug slug_check
  | PUpgrade upgrade_response
  | PSession string string string
  | PHealthz "string option" string
  | PSkillsets "skillset_summary list"
  | PSkillset skillset_summary
  | PManifest manifest
  | PData string
  | PHtml string
  | PUnavailable string string
  | PProxy proxied
  | PEmpty
  | PMetrics string
  | PMux string

type_synonym panel_reply = "panel_json http_response"

definition json_type :: "(string \<times> string) list" where
  "json_type = [(''Content-Type'', ''application/json'')]"

definition writeJSON :: "int \<Rightarrow> panel_json \<Rightarrow> panel_reply" where
  "writeJSON status v = \<lparr>rs_Code = status, rs_Headers = json_type, rs_Body = v\<rparr>"

definition writeError :: "int \<Rightarrow> string \<Rightarrow> string \<Rightarrow> panel_reply" where
  "writeError status code message = \<lparr>rs_Code = status, rs_Headers = json_type, rs_Body = PError code message\<rparr>"

definition noContent :: panel_reply where
  "noContent = \<lparr>rs_Code = 204, rs_Headers = [], rs_Body = PEmpty\<rparr>"

definition add_headers :: "(string \<times> string) list \<Rightarrow> panel_reply \<Rightarrow> panel_reply" where
  "add_headers hs r = r\<lparr>rs_Headers := hs @ rs_Headers r\<rparr>"

section \<open>The server\<close>

record panel_cloud =
  cl_CookieName :: string
  cl_Secure :: bool
  cl_Domain :: string
  cl_SessionTTL :: int
  cl_LoginRateLimit :: int

record 'w panel =
  pn_svc :: "'w service"
  pn_plugin :: "'w deployment_plugin"
  pn_secret :: string
  pn_instPwd :: string
  pn_image :: image_ref
  pn_maxInst :: int
  pn_dpURL :: string
  pn_defaultSkillset :: string
  pn_defaultRole :: string
  pn_skillsetsDir :: string
  pn_signingKey :: string
  pn_sessionTTL :: int
  pn_hasUsers :: bool
  pn_hasSessions :: bool
  pn_cloudCfg :: panel_cloud
  pn_metricsEnabled :: bool
  pn_hasWeb :: bool
  pn_http :: "(string, string, 'w) http_peer"

text \<open>What the clock, the random source and the cryptographic library answer during a step: the time in
  nanoseconds, as a rational number of seconds, and as text (now and a day ago); what formatting a
  time gives; the random bytes in the order they are drawn; bcrypt, SHA-256, HMAC, the YAML decoder
  and \<^verbatim>\<open>net.ParseIP\<close>.\<close>

record panel_env =
  pe_now :: int
  pe_seconds :: rat
  pe_stamp :: string
  pe_dayAgo :: string
  pe_format :: "int \<Rightarrow> string"
  pe_rnd :: "nat \<Rightarrow> string result"
  pe_bgen :: "string \<Rightarrow> string result"
  pe_bcmp :: "string \<Rightarrow> string \<Rightarrow> bool"
  pe_sha :: "string \<Rightarrow> string"
  pe_hmac :: mac
  pe_yaml :: "string \<Rightarrow> manifest result"
  pe_parseIP :: "string \<Rightarrow> ip option"

datatype job = CreateJob create_request string string | ProvisionJob string

record 'w panel_state =
  pp_prov :: "'w prov_state"
  pp_sources :: "source_db option"
  pp_poller :: health_poller
  pp_inFlight :: "string list"
  pp_jobs :: "job list"
  pp_limiter :: rate_limiter
  pp_loginRL :: "rate_limiter option"
  pp_requests :: int
  pp_provisions :: int
  pp_sse :: int
  pp_started :: rat

type_synonym 'w panel_handler = "panel_env \<Rightarrow> 'w panel_state \<Rightarrow> panel_reply \<times> 'w panel_state"

definition pp_db :: "'w panel_state \<Rightarrow> registry_db" where
  "pp_db st = ps_db (pp_prov st)"

definition set_db :: "registry_db \<Rightarrow> 'w panel_state \<Rightarrow> 'w panel_state" where
  "set_db db st = st\<lparr>pp_prov := (pp_prov st)\<lparr>ps_db := db\<rparr>\<rparr>"

definition set_world :: "'w \<Rightarrow> 'w panel_state \<Rightarrow> 'w panel_state" where
  "set_world w st = st\<lparr>pp_prov := (pp_prov st)\<lparr>ps_world := w\<rparr>\<rparr>"

definition set_fs :: "fs \<Rightarrow> 'w panel_state \<Rightarrow> 'w panel_state" where
  "set_fs s st = st\<lparr>pp_prov := (pp_prov st)\<lparr>ps_fs := s\<rparr>\<rparr>"

definition pp_world :: "'w panel_state \<Rightarrow> 'w" where
  "pp_world st = ps_world (pp_prov st)"

definition pp_events :: "'w panel_state \<Rightarrow> event_log option" where
  "pp_events st = hp_events (pp_poller st)"

text \<open>\<^verbatim>\<open>s.events.Emitf\<close> behind its nil check. (The deliveries to webhooks it starts are those of
  Event_Log.)\<close>

definition emitf :: "panel_env \<Rightarrow> string \<Rightarrow> string \<Rightarrow> string \<Rightarrow> 'w panel_state \<Rightarrow> 'w panel_state" where
  "emitf env typ iid msg st =
     (case pp_events st of
        None \<Rightarrow> st
      | Some l \<Rightarrow>
          st\<lparr>pp_poller := (pp_poller st)\<lparr>hp_events := Some (snd (Emit (pe_seconds env) (pe_stamp env) typ iid msg l))\<rparr>\<rparr>)"

definition clearInFlight :: "string \<Rightarrow> 'w panel_state \<Rightarrow> 'w panel_state" where
  "clearInFlight iid st = st\<lparr>pp_inFlight := removeAll iid (pp_inFlight st)\<rparr>"

definition incProvisions :: "'w panel_state \<Rightarrow> 'w panel_state" where
  "incProvisions st = st\<lparr>pp_provisions := pp_provisions st + 1\<rparr>"

definition maxLogBytes :: nat where "maxLogBytes = 1048576"
definition maxCreateBody :: nat where "maxCreateBody = 4096"
definition provisionTimeout :: int where "provisionTimeout = 5 * 60 * 1000000000"

text \<open>The part of the state that an operation's effects live in.\<close>

definition same_state :: "'w panel_state \<Rightarrow> 'w panel_state \<Rightarrow> bool" where
  "same_state st st' \<longleftrightarrow>
     pp_prov st' = pp_prov st \<and> pp_sources st' = pp_sources st \<and> pp_poller st' = pp_poller st \<and>
     pp_inFlight st' = pp_inFlight st \<and> pp_jobs st' = pp_jobs st \<and> pp_provisions st' = pp_provisions st"

lemma panel_state_simps [simp]:
  "pp_db (set_db db st) = db" "pp_inFlight (set_db db st) = pp_inFlight st" "pp_jobs (set_db db st) = pp_jobs st"
  "pp_db (set_world w st) = pp_db st" "pp_inFlight (set_world w st) = pp_inFlight st" "pp_jobs (set_world w st) = pp_jobs st"
  "pp_db (set_fs s st) = pp_db st" "pp_inFlight (set_fs s st) = pp_inFlight st" "pp_jobs (set_fs s st) = pp_jobs st"
  "pp_world (set_db db st) = pp_world st" "pp_world (set_world w st) = w"
  "pp_db (clearInFlight i st) = pp_db st" "pp_jobs (clearInFlight i st) = pp_jobs st"
  "pp_inFlight (clearInFlight i st) = removeAll i (pp_inFlight st)" "pp_world (clearInFlight i st) = pp_world st"
  "pp_db (incProvisions st) = pp_db st" "pp_jobs (incProvisions st) = pp_jobs st" "pp_inFlight (incProvisions st) = pp_inFlight st"
  by (simp_all add: pp_db_def set_db_def set_world_def set_fs_def pp_world_def clearInFlight_def incProvisions_def)

lemma emitf_simps [simp]:
  "pp_prov (emitf env t i m st) = pp_prov st" "pp_db (emitf env t i m st) = pp_db st" "pp_world (emitf env t i m st) = pp_world st"
  "pp_inFlight (emitf env t i m st) = pp_inFlight st" "pp_jobs (emitf env t i m st) = pp_jobs st"
  by (simp_all add: emitf_def pp_db_def pp_world_def split: option.split)

section \<open>A server to evaluate on\<close>

definition panel_sample :: "string list panel" where
  "panel_sample =
     \<lparr>pn_svc = sample_service, pn_plugin = null_plugin, pn_secret = ''0123456789abcdef'', pn_instPwd = ''p'',
      pn_image = \<lparr>img_Repository = ''fox'', img_Digest = ''d1''\<rparr>, pn_maxInst = 2, pn_dpURL = '''', pn_defaultSkillset = '''',
      pn_defaultRole = '''', pn_skillsetsDir = ''/s'', pn_signingKey = ''k'', pn_sessionTTL = 1000000000, pn_hasUsers = True,
      pn_hasSessions = True,
      pn_cloudCfg = \<lparr>cl_CookieName = ''fox'', cl_Secure = True, cl_Domain = ''fox.io'', cl_SessionTTL = 4000000000, cl_LoginRateLimit = 5\<rparr>,
      pn_metricsEnabled = True, pn_hasWeb = True,
      pn_http = \<lparr>ht_NewRequest = (\<lambda>u. None), ht_Do = (\<lambda>r w. (Inl (Errorf ''refused''), w))\<rparr>\<rparr>"

definition panel_env_sample :: panel_env where
  "panel_env_sample =
     \<lparr>pe_now = 1500000000, pe_seconds = 1, pe_stamp = ''t'', pe_dayAgo = ''s'', pe_format = int_str, pe_rnd = (\<lambda>n. Inr (''AB'' @ nat_str n)),
      pe_bgen = (\<lambda>p. Inr (''$'' @ p)), pe_bcmp = (\<lambda>h p. h = ''$'' @ p), pe_sha = (\<lambda>x. x), pe_hmac = sample_mac,
      pe_yaml = (\<lambda>_. Inl ErrNotExist), pe_parseIP = (\<lambda>h. None)\<rparr>"

definition panel_start :: "registry_db \<Rightarrow> string list panel_state" where
  "panel_start db =
     \<lparr>pp_prov = sample_state\<lparr>ps_db := db\<rparr>, pp_sources = None, pp_poller = newHealthPoller sample_policy False None, pp_inFlight = [],
      pp_jobs = [], pp_limiter = newRateLimiter 100 0, pp_loginRL = Some (newRateLimiter 5 0), pp_requests = 0, pp_provisions = 0, pp_sse = 0, pp_started = 0\<rparr>"

definition no_body :: panel_body where
  "no_body =
     (let e = Errorf ''EOF'' in
      \<lparr>bp_create = Inl e, bp_provision = Inl e, bp_user = Inl e, bp_update = Inl e, bp_upgrade = Inl e, bp_session = Inl e,
       bp_raw = Inl e, bp_upload = Inl e\<rparr>)"

definition panel_get :: "string \<Rightarrow> string \<Rightarrow> string list \<Rightarrow> panel_request" where
  "panel_get method host path =
     \<lparr>rq_Method = method, rq_Host = host, rq_Path = path, rq_Query = [], rq_Headers = [], rq_Cookies = [],
      rq_RemoteAddr = ''127.0.0.1:5'', rq_TLS = False, rq_Body = no_body\<rparr>"

end
