(* ===== verification/Panel_Handlers.thy ===== *)
theory Panel_Handlers
  imports Panel_Base Api_Names
begin

text \<open>
  The panel's handlers for instances, sources, events, users, upgrades, sessions and queries:
  \<^verbatim>\<open>panel/api/handlers.go\<close>, \<^verbatim>\<open>provision_handler.go\<close>, \<^verbatim>\<open>user_handlers.go\<close>, \<^verbatim>\<open>upgrade_handler.go\<close>,
  \<^verbatim>\<open>session_handler.go\<close> and \<^verbatim>\<open>query_handler.go\<close>. A handler that starts a goroutine adds a job; running
  it is \<open>run_job\<close>.
\<close>

section \<open>Instances (\<^verbatim>\<open>handlers.go\<close>)\<close>

definition bad_instance_id :: "string \<Rightarrow> panel_reply" where
  "bad_instance_id iid = writeError 400 ''bad_request'' (''invalid instance ID '' @ go_quote iid)"

definition instance_not_found :: "string \<Rightarrow> panel_reply" where
  "instance_not_found iid = writeError 404 ''not_found'' (''instance '' @ iid @ '' not found'')"

definition handleList :: "'w panel_handler" where
  "handleList env st =
     (case Registry_List (pp_db st) of
        (Inl _, db) \<Rightarrow> (writeError 500 ''internal_error'' ''cannot list instances'', set_db db st)
      | (Inr instances, db) \<Rightarrow>
          (writeJSON 200 (PItems (map (\<lambda>inst.
             \<lparr>it_ID = inst_ID inst, it_Status = inst_Status inst, it_Port = inst_Port inst, it_CreatedAt = inst_CreatedAt inst,
              it_Health = HealthPoller_Get (inst_ID inst) (pp_poller st)\<rparr>) instances)), set_db db st))"

definition handleDetail :: "'w panel \<Rightarrow> string \<Rightarrow> 'w panel_handler" where
  "handleDetail s iid env st =
     (if \<not> validInstanceID iid then (bad_instance_id iid, st)
      else case Registry_Get iid (pp_db st) of
        (Inl e, db) \<Rightarrow>
          (if errors_is e ErrNotFound then instance_not_found iid
           else writeError 500 ''internal_error'' ''cannot retrieve instance details'', set_db db st)
      | (Inr inst, db) \<Rightarrow>
          (case pl_Logs (pn_plugin s) iid \<lparr>lo_Tail = 100, lo_Follow = False\<rparr> (pp_world st) of
             (logs, w) \<Rightarrow>
               (writeJSON 200 (PDetail
                  \<lparr>it_ID = inst_ID inst, it_Status = inst_Status inst, it_Port = inst_Port inst, it_CreatedAt = inst_CreatedAt inst,
                   it_Health = HealthPoller_Get (inst_ID inst) (pp_poller st),
                   id_Logs = (case logs of Inl _ \<Rightarrow> '''' | Inr data \<Rightarrow> take maxLogBytes data),
                   id_SkillsetName = inst_SkillsetName inst, id_PrincipalRole = inst_PrincipalRole inst\<rparr>),
                set_world w (set_db db st))))"

definition in_progress :: "string \<Rightarrow> panel_reply" where
  "in_progress iid = writeError 409 ''conflict'' (''instance '' @ iid @ '' is already being provisioned'')"

definition cap_reached :: "int \<Rightarrow> panel_reply" where
  "cap_reached n = writeError 429 ''cap_reached'' (''maximum instance count reached ('' @ int_str n @ '')'')"

definition handleCreate :: "'w panel \<Rightarrow> panel_request \<Rightarrow> 'w panel_handler" where
  "handleCreate s r env st =
     (case bp_create (rq_Body r) of
        Inl _ \<Rightarrow> (writeError 400 ''bad_request'' ''request body is not valid JSON'', st)
      | Inr body \<Rightarrow>
          (let iid = cr_ID body in
           if iid = '''' then (writeError 400 ''bad_request'' ''id is required'', st)
           else if \<not> validInstanceID iid
           then (writeError 400 ''bad_request'' (''id must match [a-zA-Z0-9._-] and be 1-64 characters, got '' @ go_quote iid), st)
           else if cr_Owner body \<noteq> '''' \<and> \<not> validCloudUsername (cr_Owner body)
           then (writeError 400 ''bad_request'' ''owner must be a valid cloud username (1-63 lowercase alphanumeric or hyphen)'', st)
           else if iid \<in> set (pp_inFlight st) then (in_progress iid, st)
           else let st1 = st\<lparr>pp_inFlight := iid # pp_inFlight st\<rparr> in
             case Registry_Get iid (pp_db st1) of
               (Inr _, db) \<Rightarrow>
                 (writeError 409 ''conflict'' (''instance '' @ iid @ '' already exists''), clearInFlight iid (set_db db st1))
             | (Inl _, db) \<Rightarrow>
                 (case Registry_List db of
                    (Inl _, db1) \<Rightarrow>
                      (writeError 500 ''internal_error'' ''cannot list instances'', clearInFlight iid (set_db db1 st1))
                  | (Inr instances, db1) \<Rightarrow>
                      (let st2 = set_db db1 st1 in
                       if int (length instances) \<ge> pn_maxInst s then (cap_reached (pn_maxInst s), clearInFlight iid st2)
                       else let skillset = (if cr_SkillsetPath body = '''' then pn_defaultSkillset s else cr_SkillsetPath body);
                                role = (if cr_Role body = '''' then pn_defaultRole s else cr_Role body);
                                st3 = incProvisions (emitf env ''provision'' iid (''provisioning instance '' @ iid) st2)
                            in (writeJSON 201 (PCreated iid ''provisioning''),
                                st3\<lparr>pp_jobs := pp_jobs st3 @ [CreateJob body skillset role]\<rparr>)))))"

text \<open>The request that both background jobs hand to the provisioner.\<close>

definition provision_request_of :: "'w panel \<Rightarrow> string \<Rightarrow> string \<Rightarrow> string \<Rightarrow> string \<Rightarrow> request" where
  "provision_request_of s iid skillset role slug =
     \<lparr>rq_InstanceID = iid, rq_AdminSecret = pn_secret s, rq_InstancePassword = pn_instPwd s, rq_Image = pn_image s,
      rq_ProxyEndpoint = '''', rq_CapabilityFlags = [], rq_Env = [], rq_SkillsetPath = skillset, rq_DataPlaneURL = pn_dpURL s,
      rq_PrincipalRole = role,
      rq_Cloud = \<lparr>cc_Enabled = (cl_Domain (pn_cloudCfg s) \<noteq> ''''), cc_Domain = cl_Domain (pn_cloudCfg s), cc_Slug = slug\<rparr>\<rparr>"

definition panel_provision :: "'w panel \<Rightarrow> panel_env \<Rightarrow> request \<Rightarrow> 'w panel_state \<Rightarrow> prov_instance result \<times> 'w panel_state" where
  "panel_provision s env req st =
     (case Provision (pn_svc s) (pe_yaml env) (pe_sha env) (pe_stamp env) (pe_rnd env) req (pp_prov st) of
        (r, p) \<Rightarrow> (r, st\<lparr>pp_prov := p\<rparr>))"

definition bind_instance :: "panel_env \<Rightarrow> string \<Rightarrow> string \<Rightarrow> string \<Rightarrow> 'w panel_state \<Rightarrow> 'w panel_state" where
  "bind_instance env what username iid st =
     (case UserStore_SetInstanceID (pe_stamp env) username iid (pp_db st) of
        (Inl e, db) \<Rightarrow> emitf env ''error'' iid (''bind '' @ what @ '' '' @ username @ '' failed: '' @ error_text e) (set_db db st)
      | (Inr _, db) \<Rightarrow> set_db db st)"

definition run_create_job :: "'w panel \<Rightarrow> panel_env \<Rightarrow> create_request \<Rightarrow> string \<Rightarrow> string \<Rightarrow> 'w panel_state \<Rightarrow> 'w panel_state" where
  "run_create_job s env body skillset role st =
     (let iid = cr_ID body; owner = cr_Owner body in
      clearInFlight iid
        (case panel_provision s env (provision_request_of s iid skillset role owner) st of
           (Inl e, st1) \<Rightarrow> emitf env ''error'' iid (''provision failed: '' @ error_text e) st1
         | (Inr _, st1) \<Rightarrow>
             (if cl_Domain (pn_cloudCfg s) \<noteq> '''' \<and> owner \<noteq> '''' \<and> pn_hasUsers s
              then bind_instance env ''owner'' owner iid st1 else st1)))"

definition handleListSources :: "'w panel_handler" where
  "handleListSources env st =
     (case pp_sources st of
        None \<Rightarrow> (writeJSON 200 (PSources []), st)
      | Some db \<Rightarrow>
          (case Source_List db of
             (Inl _, db1) \<Rightarrow> (writeError 500 ''internal_error'' ''cannot list sources'', st\<lparr>pp_sources := Some db1\<rparr>)
           | (Inr xs, db1) \<Rightarrow> (writeJSON 200 (PSources xs), st\<lparr>pp_sources := Some db1\<rparr>)))"

definition em_dash :: string where "em_dash = [CHR 0xE2, CHR 0x80, CHR 0x94]"

definition handleGetSource :: "string \<Rightarrow> 'w panel_handler" where
  "handleGetSource sid env st =
     (case pp_sources st of
        None \<Rightarrow> (writeError 404 ''not_found'' (''source registry is not configured '' @ em_dash @ '' enable data_plane in config''), st)
      | Some db \<Rightarrow>
          (case Source_Get sid db of
             (Inl e, db1) \<Rightarrow>
               (if errors_is e source_ErrNotFound then writeError 404 ''not_found'' (''source '' @ sid @ '' not found'')
                else writeError 500 ''internal_error'' ''cannot retrieve source details'', st\<lparr>pp_sources := Some db1\<rparr>)
           | (Inr src, db1) \<Rightarrow> (writeJSON 200 (PSource src), st\<lparr>pp_sources := Some db1\<rparr>)))"

definition handleEvents :: "'w panel_handler" where
  "handleEvents env st = (writeJSON 200 (PEvents (case pp_events st of None \<Rightarrow> [] | Some l \<Rightarrow> Recent 50 l)), st)"

definition handleDestroy :: "'w panel \<Rightarrow> panel_request \<Rightarrow> string \<Rightarrow> 'w panel_handler" where
  "handleDestroy s r iid env st =
     (if \<not> validInstanceID iid then (bad_instance_id iid, st)
      else let removeData = (assoc_get (rq_Query r) ''remove_data'' = ''true'') in
        case Destroy (pn_svc s) iid removeData (pp_prov st) of
          (Inl e, p) \<Rightarrow>
            (if errors_is e ErrNotFound then instance_not_found iid
             else writeError 500 ''destroy_failed'' (''cannot destroy instance '' @ iid @ '' '' @ em_dash @ '' check server logs for details''),
             st\<lparr>pp_prov := p\<rparr>)
        | (Inr _, p) \<Rightarrow> (noContent, emitf env ''destroy'' iid (''destroyed instance '' @ iid) (st\<lparr>pp_prov := p\<rparr>)))"

definition handleHealthHistory :: "string \<Rightarrow> 'w panel_handler" where
  "handleHealthHistory iid env st =
     (if \<not> validInstanceID iid then (bad_instance_id iid, st)
      else case pp_events st of
        None \<Rightarrow> (writeJSON 200 (PEvents []), st)
      | Some l \<Rightarrow>
          (case lg_store l of
             None \<Rightarrow> (writeJSON 200 (PEvents []), st)
           | Some store \<Rightarrow>
               (case Store_ByInstance iid (pe_dayAgo env) 200 store of
                  (out, store1) \<Rightarrow>
                    (case out of
                       Inl _ \<Rightarrow> writeError 500 ''internal_error'' ''cannot retrieve health history''
                     | Inr evts \<Rightarrow> writeJSON 200 (PEvents evts),
                     st\<lparr>pp_poller := (pp_poller st)\<lparr>hp_events := Some (l\<lparr>lg_store := Some store1\<rparr>)\<rparr>\<rparr>))))"

definition handleInstanceStats :: "'w panel \<Rightarrow> string \<Rightarrow> 'w panel_handler" where
  "handleInstanceStats s iid env st =
     (if \<not> validInstanceID iid then (bad_instance_id iid, st)
      else case pl_Stats (pn_plugin s) iid (pp_world st) of
        (Inl _, w) \<Rightarrow>
          (writeError 503 ''stats_unavailable'' (''cannot retrieve stats for instance '' @ iid), set_world w st)
      | (Inr stats, w) \<Rightarrow> (writeJSON 200 (PStats stats), set_world w st))"

definition setSecurityHeaders :: "(string \<times> string) list" where
  "setSecurityHeaders =
     [(''X-Frame-Options'', ''DENY''), (''X-Content-Type-Options'', ''nosniff''),
      (''Referrer-Policy'', ''strict-origin-when-cross-origin'')]"

definition handleHealthz :: "'w panel_handler" where
  "handleHealthz env st =
     (let q = (if hp_hasQdrant (pp_poller st)
               then Some (if QdrantHealthy (pp_poller st) then ''healthy'' else ''unhealthy'') else None);
          status = (if q = Some ''unhealthy'' then ''degraded'' else ''ok'')
      in (add_headers setSecurityHeaders (writeJSON 200 (PHealthz q status)), st))"

section \<open>Provisioning for a user (\<^verbatim>\<open>provision_handler.go\<close>)\<close>

definition provision_complaint :: "provision_body \<Rightarrow> panel_reply option" where
  "provision_complaint req =
     (if pv_Slug req = '''' then Some (writeError 400 ''bad_request'' ''slug is required'')
      else if \<not> isValidSlug (pv_Slug req)
      then Some (writeError 400 ''bad_request'' ''slug must be a DNS label: 1-63 lowercase alphanumeric or hyphen characters, no leading/trailing/consecutive hyphens'')
      else if pv_Slug req \<in> set reservedSlugs
      then Some (writeError 409 ''slug_reserved'' (''slug '' @ go_quote (pv_Slug req) @ '' is reserved''))
      else if pv_Username req \<noteq> '''' \<and> pv_Username req \<noteq> pv_Slug req
      then Some (writeError 400 ''bad_request'' ''username must equal slug (subdomain = login identity)'')
      else if length (pv_Password req) < 8
      then Some (writeError 400 ''bad_request'' ''password must be at least 8 characters'')
      else if length (pv_Password req) > 72
      then Some (writeError 400 ''bad_request'' ''password too long'')
      else None)"

definition handleProvision :: "'w panel \<Rightarrow> panel_request \<Rightarrow> 'w panel_handler" where
  "handleProvision s r env st =
     (case bp_provision (rq_Body r) of
        Inl _ \<Rightarrow> (writeError 400 ''bad_request'' ''invalid JSON body'', st)
      | Inr req \<Rightarrow>
          (case provision_complaint req of
             Some reply \<Rightarrow> (reply, st)
           | None \<Rightarrow>
               (let iid = pv_Slug req in
                if iid \<in> set (pp_inFlight st) then (in_progress iid, st)
                else let st1 = st\<lparr>pp_inFlight := iid # pp_inFlight st\<rparr> in
                  case Registry_Get iid (pp_db st1) of
                    (Inr _, db) \<Rightarrow>
                      (writeError 409 ''slug_taken'' (''slug '' @ go_quote iid @ '' is already in use''),
                       clearInFlight iid (set_db db st1))
                  | (Inl _, db) \<Rightarrow>
                      (case Registry_List db of
                         (Inl _, db1) \<Rightarrow>
                           (writeError 500 ''internal_error'' ''cannot list instances'', clearInFlight iid (set_db db1 st1))
                       | (Inr instances, db1) \<Rightarrow>
                           (if int (length instances) \<ge> pn_maxInst s
                            then (cap_reached (pn_maxInst s), clearInFlight iid (set_db db1 st1))
                            else case UserStore_Create (pe_bgen env) (pe_stamp env) iid (pv_Password req) db1 of
                              (Inl e, db2) \<Rightarrow>
                                (if errors_is e ErrUserExists
                                 then writeError 409 ''user_exists'' ''username already taken''
                                 else writeError 500 ''internal_error'' ''cannot create user'',
                                 clearInFlight iid (set_db db2 st1))
                            | (Inr user, db2) \<Rightarrow>
                                (let st2 = incProvisions (emitf env ''provision'' iid
                                       (''provisioning instance '' @ iid @ '' for user '' @ iid) (set_db db2 st1))
                                 in (writeJSON 201 (PProvisioned iid iid ''provisioning'' (cu_CreatedAt user)),
                                     st2\<lparr>pp_jobs := pp_jobs st2 @ [ProvisionJob iid]\<rparr>)))))))"

definition rollbackUser :: "string \<Rightarrow> 'w panel_state \<Rightarrow> 'w panel_state" where
  "rollbackUser username st = set_db (snd (UserStore_Delete username (pp_db st))) st"

definition run_provision_job :: "'w panel \<Rightarrow> panel_env \<Rightarrow> string \<Rightarrow> 'w panel_state \<Rightarrow> 'w panel_state" where
  "run_provision_job s env iid st =
     clearInFlight iid
       (case panel_provision s env (provision_request_of s iid (pn_defaultSkillset s) (pn_defaultRole s) iid) st of
          (Inl e, st1) \<Rightarrow> rollbackUser iid (emitf env ''error'' iid (''provision failed: '' @ error_text e) st1)
        | (Inr _, st1) \<Rightarrow> bind_instance env ''user'' iid iid st1)"

definition handleCheckSlug :: "string \<Rightarrow> 'w panel_handler" where
  "handleCheckSlug slug env st =
     (let taken = (\<lambda>reason. writeJSON 200 (PSlug \<lparr>sl_Slug = slug, sl_Available = False, sl_Reason = reason\<rparr>)) in
      if \<not> isValidSlug slug then (taken ''invalid DNS label'', st)
      else if slug \<in> set reservedSlugs then (taken ''reserved'', st)
      else if slug \<in> set (pp_inFlight st) then (taken ''currently being provisioned'', st)
      else case Registry_Get slug (pp_db st) of
        (Inr _, db) \<Rightarrow> (taken ''already in use'', set_db db st)
      | (Inl e, db) \<Rightarrow>
          (if \<not> errors_is e ErrNotFound then writeError 500 ''internal_error'' ''cannot check slug availability''
           else writeJSON 200 (PSlug \<lparr>sl_Slug = slug, sl_Available = True, sl_Reason = ''''\<rparr>), set_db db st))"

section \<open>Users (\<^verbatim>\<open>user_handlers.go\<close>)\<close>

definition handleCreateUser :: "panel_request \<Rightarrow> 'w panel_handler" where
  "handleCreateUser r env st =
     (case bp_user (rq_Body r) of
        Inl _ \<Rightarrow> (writeError 400 ''bad_request'' ''invalid JSON body'', st)
      | Inr req \<Rightarrow>
          (if li_Username req = '''' then (writeError 400 ''bad_request'' ''username is required'', st)
           else if \<not> validCloudUsername (li_Username req)
           then (writeError 400 ''bad_request'' ''username must be 1-63 lowercase alphanumeric or hyphen characters, must start and end with alphanumeric'', st)
           else if length (li_Password req) < 8
           then (writeError 400 ''bad_request'' ''password must be at least 8 characters'', st)
           else case UserStore_Create (pe_bgen env) (pe_stamp env) (li_Username req) (li_Password req) (pp_db st) of
             (Inl e, db) \<Rightarrow>
               (if errors_is e ErrUserExists then writeError 409 ''conflict'' ''user already exists''
                else writeError 500 ''internal_error'' ''cannot create user'', set_db db st)
           | (Inr u, db) \<Rightarrow> (writeJSON 201 (PUser u), set_db db st)))"

definition handleListUsers :: "'w panel_handler" where
  "handleListUsers env st =
     (case UserStore_List (pp_db st) of
        (Inl _, db) \<Rightarrow> (writeError 500 ''internal_error'' ''cannot list users'', set_db db st)
      | (Inr users, db) \<Rightarrow> (writeJSON 200 (PUsers users), set_db db st))"

text \<open>What three handlers do about a store's error.\<close>

definition user_failed :: "go_error \<Rightarrow> string \<Rightarrow> panel_reply" where
  "user_failed e msg =
     (if errors_is e ErrUserNotFound then writeError 404 ''not_found'' ''user not found''
      else writeError 500 ''internal_error'' msg)"

definition bad_username :: panel_reply where
  "bad_username = writeError 400 ''bad_request'' ''invalid username''"

definition handleGetUser :: "string \<Rightarrow> 'w panel_handler" where
  "handleGetUser username env st =
     (if \<not> validInstanceID username then (bad_username, st)
      else case UserStore_Get username (pp_db st) of
        (Inl e, db) \<Rightarrow> (user_failed e ''cannot get user'', set_db db st)
      | (Inr u, db) \<Rightarrow> (writeJSON 200 (PUser u), set_db db st))"

definition handleUpdateUser :: "panel_request \<Rightarrow> string \<Rightarrow> 'w panel_handler" where
  "handleUpdateUser r username env st =
     (if \<not> validInstanceID username then (bad_username, st)
      else case bp_update (rq_Body r) of
        Inl _ \<Rightarrow> (writeError 400 ''bad_request'' ''invalid JSON body'', st)
      | Inr req \<Rightarrow>
          (if (case uu_Password req of None \<Rightarrow> False | Some p \<Rightarrow> length p < 8)
           then (writeError 400 ''bad_request'' ''password must be at least 8 characters'', st)
           else case UserStore_Update (pe_bgen env) (pe_stamp env) username (uu_Password req) (uu_InstanceID req) (pp_db st) of
             (Inl e, db) \<Rightarrow> (user_failed e ''cannot update user'', set_db db st)
           | (Inr u, db) \<Rightarrow> (writeJSON 200 (PUser u), set_db db st)))"

definition handleDeleteUser :: "string \<Rightarrow> 'w panel_handler" where
  "handleDeleteUser username env st =
     (if \<not> validInstanceID username then (bad_username, st)
      else case UserStore_Delete username (pp_db st) of
        (Inl e, db) \<Rightarrow> (user_failed e ''cannot delete user'', set_db db st)
      | (Inr _, db) \<Rightarrow> (noContent, set_db db st))"

section \<open>Upgrades (\<^verbatim>\<open>upgrade_handler.go\<close>)\<close>

text \<open>The comparison of the last colon with the last slash decides between two equal answers, so it
  does not appear.\<close>

definition parseImageRef :: "string \<Rightarrow> image_ref result" where
  "parseImageRef raw =
     (if \<not> Contains raw ''/''
      then Inl (Errorf (''invalid image reference '' @ go_quote raw @ '': must contain a registry path''))
      else if Contains raw ''://''
      then Inl (Errorf (''invalid image reference '' @ go_quote raw @ '': must not contain a scheme''))
      else case str_index raw ''@sha256:'' of
        Some idx \<Rightarrow> Inr \<lparr>img_Repository = take idx raw, img_Digest = drop (idx + 1) raw\<rparr>
      | None \<Rightarrow> Inr \<lparr>img_Repository = raw, img_Digest = ''''\<rparr>)"

text \<open>From the look-up of the instance on; the deferred \<^verbatim>\<open>clearInFlight\<close> is the caller's.\<close>

definition upgrade_instance :: "'w panel \<Rightarrow> string \<Rightarrow> string \<Rightarrow> image_ref \<Rightarrow> 'w panel_handler" where
  "upgrade_instance s iid raw target env st =
     (case Registry_Get iid (pp_db st) of
        (Inl e, db) \<Rightarrow>
          (if errors_is e ErrNotFound then instance_not_found iid
           else writeError 500 ''internal_error'' ''cannot retrieve instance'', set_db db st)
      | (Inr inst, db) \<Rightarrow>
          (let st1 = set_db db st in
           if img_Digest target \<noteq> '''' \<and> inst_ImageDigest inst = img_Digest target
           then (writeJSON 200 (PUpgrade \<lparr>up_ID = iid, up_Status = ''already_current'', up_PreviousDigest = '''',
                   up_CurrentDigest = inst_ImageDigest inst\<rparr>), st1)
           else let previousDigest = inst_ImageDigest inst;
                    st2 = emitf env ''upgrade_start'' iid (''upgrading instance '' @ iid @ '' to '' @ raw) st1 in
             case pl_Rollout (pn_plugin s) iid target (pp_world st2) of
               (Inl e, w) \<Rightarrow>
                 (let st3 = emitf env ''upgrade_failed'' iid (''rollout failed: '' @ error_text e) (set_world w st2);
                      rbRef = \<lparr>img_Repository = img_Repository target, img_Digest = previousDigest\<rparr>;
                      w2 = snd (pl_Rollback (pn_plugin s) iid rbRef w)
                  in (writeError 500 ''upgrade_failed'' (''rollout failed for instance '' @ iid), set_world w2 st3))
             | (Inr _, w) \<Rightarrow>
                 (let newDigest = (if img_Digest target = '''' then ''unknown'' else img_Digest target);
                      st3 = set_world w st2;
                      st4 = set_db (snd (Registry_UpdateImageDigest iid newDigest (pp_db st3))) st3;
                      st5 = emitf env ''upgrade_complete'' iid (''upgraded instance '' @ iid) st4
                  in (writeJSON 200 (PUpgrade \<lparr>up_ID = iid, up_Status = ''upgraded'', up_PreviousDigest = previousDigest,
                        up_CurrentDigest = newDigest\<rparr>), st5))))"

definition handleUpgrade :: "'w panel \<Rightarrow> panel_request \<Rightarrow> string \<Rightarrow> 'w panel_handler" where
  "handleUpgrade s r iid env st =
     (if \<not> validInstanceID iid then (bad_instance_id iid, st)
      else case bp_upgrade (rq_Body r) of
        Inl _ \<Rightarrow> (writeError 400 ''bad_request'' ''invalid JSON body'', st)
      | Inr raw \<Rightarrow>
          (if raw = '''' then (writeError 400 ''bad_request'' ''target_image is required'', st)
           else case parseImageRef raw of
             Inl e \<Rightarrow> (writeError 400 ''bad_request'' (error_text e), st)
           | Inr target \<Rightarrow>
               (if iid \<in> set (pp_inFlight st)
                then (writeError 409 ''conflict'' (''instance '' @ iid @ '' has an operation in progress''), st)
                else case upgrade_instance s iid raw target env (st\<lparr>pp_inFlight := iid # pp_inFlight st\<rparr>) of
                  (reply, st1) \<Rightarrow> (reply, clearInFlight iid st1))))"

section \<open>Stream tokens and queries (\<^verbatim>\<open>session_handler.go\<close>, \<^verbatim>\<open>query_handler.go\<close>)\<close>

definition handleSession :: "'w panel \<Rightarrow> panel_request \<Rightarrow> 'w panel_handler" where
  "handleSession s r env st =
     (case bp_session (rq_Body r) of
        Inl _ \<Rightarrow> (writeError 400 ''bad_request'' ''invalid JSON'', st)
      | Inr purpose \<Rightarrow>
          (if purpose \<noteq> ''sse'' then (writeError 400 ''bad_request'' ''unsupported purpose'', st)
           else case Signer_Generate (pe_hmac env) (pn_signingKey s) (pe_rnd env 0) (pe_now env) PurposeSSE (pn_sessionTTL s) of
             Inl _ \<Rightarrow> (writeError 500 ''internal_error'' ''cannot generate session token'', st)
           | Inr (token, expiresAt) \<Rightarrow>
               (add_headers [(''Set-Cookie'', ''fox_sse_token='' @ token @ ''; Path=/api/events; HttpOnly'' @
                     (if rq_TLS r then ''; Secure'' else '''') @ ''; SameSite=Strict'')]
                  (writeJSON 200 (PSession token (pe_format env expiresAt) purpose)), st)))"

definition trim_slashes :: "string \<Rightarrow> string" where
  "trim_slashes s = rev (dropWhile (\<lambda>c. c = CHR ''/'') (rev s))"

definition maxQueryReply :: nat where "maxQueryReply = 1048576"

definition handleQuery :: "'w panel \<Rightarrow> panel_request \<Rightarrow> 'w panel_handler" where
  "handleQuery s r env st =
     (if pn_dpURL s = ''''
      then (writeError 503 ''no_data_plane'' (''data plane is not configured '' @ em_dash @ '' set data_plane.enabled = true in config''), st)
      else case bp_raw (rq_Body r) of
        Inl _ \<Rightarrow> (writeError 400 ''bad_request'' ''cannot read request body'', st)
      | Inr body \<Rightarrow>
          (let target = trim_slashes (pn_dpURL s) @ ''/v1/query'' in
           case ht_NewRequest (pn_http s) target of
             Some _ \<Rightarrow> (writeError 500 ''internal_error'' ''cannot create proxy request to data plane'', st)
           | None \<Rightarrow>
               (case ht_Do (pn_http s)
                       \<lparr>hr_Method = ''POST'', hr_URL = target,
                        hr_Headers = [(''Content-Type'', ''application/json''), (''Authorization'', ''Bearer '' @ pn_secret s)],
                        hr_Body = Some body\<rparr> (pp_world st) of
                  (Inl _, w) \<Rightarrow>
                    (writeError 502 ''data_plane_error''
                       (''cannot reach data plane '' @ em_dash @ '' verify it is running and data_plane.listen is correct''), set_world w st)
                | (Inr (code, answer), w) \<Rightarrow>
                    (writeJSON code (PData (case answer of Inl _ \<Rightarrow> '''' | Inr data \<Rightarrow> take maxQueryReply data)), set_world w st))))"

end
