(* ===== verification/Panel_Cloud.thy ===== *)
theory Panel_Cloud
  imports Panel_Handlers
begin

text \<open>
  The panel's cloud mode: login and logout (\<^verbatim>\<open>panel/api/cloud_auth.go\<close>), the dispatch by host name and
  the proxy to a user's instance (\<^verbatim>\<open>cloud_dispatch.go\<close>), the login on a subdomain
  (\<^verbatim>\<open>cloud_subdomain_login.go\<close>), the pages of the base domain (\<^verbatim>\<open>cloud_proxy.go\<close>,
  \<^verbatim>\<open>cloud_login_page.go\<close>) and the certificate check (\<^verbatim>\<open>cloud_tls_check.go\<close>). The texts of the HTML
  pages are named, not spelled out.
\<close>

section \<open>Cookies and redirects\<close>

text \<open>A cookie that is missing and one that is empty are treated alike.\<close>

definition cookie_value :: "panel_request \<Rightarrow> string \<Rightarrow> string" where
  "cookie_value r name = assoc_get (rq_Cookies r) name"

definition cookie_max_age :: "int \<Rightarrow> string" where
  "cookie_max_age maxAge =
     (let n = (if 0 \<le> maxAge then maxAge div 1000000000 else - ((- maxAge) div 1000000000)) in
      if n > 0 then ''; Max-Age='' @ int_str n else if n < 0 then ''; Max-Age=0'' else '''')"

definition sessionCookie :: "'w panel \<Rightarrow> string \<Rightarrow> int \<Rightarrow> string \<times> string" where
  "sessionCookie s token maxAge =
     (''Set-Cookie'', cl_CookieName (pn_cloudCfg s) @ ''='' @ token @ ''; Path=/'' @ cookie_max_age maxAge @ ''; HttpOnly'' @
        (if cl_Secure (pn_cloudCfg s) then ''; Secure'' else '''') @ ''; SameSite=Strict'')"

definition hour :: int where "hour = 3600 * 1000000000"

definition redirect :: "int \<Rightarrow> string \<Rightarrow> panel_reply" where
  "redirect code url = \<lparr>rs_Code = code, rs_Headers = [(''Location'', url)], rs_Body = PEmpty\<rparr>"

definition html_escape_char :: "char \<Rightarrow> string" where
  "html_escape_char c =
     (if c = CHR ''&'' then ''&amp;'' else if c = CHR 0x27 then ''&#39;'' else if c = CHR ''<'' then ''&lt;''
      else if c = CHR ''>'' then ''&gt;'' else if c = CHR 0x22 then ''&#34;'' else [c])"

definition EscapeString :: "string \<Rightarrow> string" where
  "EscapeString s = concat (map html_escape_char s)"

definition serveCloud503 :: "string \<Rightarrow> string \<Rightarrow> panel_reply" where
  "serveCloud503 iid reason =
     add_headers setSecurityHeaders
       \<lparr>rs_Code = 503,
        rs_Headers = [(''Content-Type'', ''text/html; charset=utf-8''),
          (''Content-Security-Policy'', ''default-src 'none'; style-src 'unsafe-inline' https://fonts.googleapis.com; font-src https://fonts.gstatic.com; img-src 'self' data:'')],
        rs_Body = PUnavailable (EscapeString iid) (EscapeString reason)\<rparr>"

section \<open>Login and logout (\<^verbatim>\<open>cloud_auth.go\<close>)\<close>

definition loginRate :: "panel_cloud \<Rightarrow> int" where
  "loginRate c = (if cl_LoginRateLimit c > 0 then cl_LoginRateLimit c else 5)"

text \<open>The common end of both logins: check the password, create a session, set its cookie.\<close>

definition open_session :: "'w panel \<Rightarrow> string \<Rightarrow> string \<Rightarrow> 'w panel_handler" where
  "open_session s username password env st =
     (case UserStore_Authenticate (pe_bcmp env) username password (pp_db st) of
        (Inl e, db) \<Rightarrow>
          (if errors_is e ErrInvalidCredentials then writeError 401 ''unauthorized'' ''invalid credentials''
           else writeError 500 ''internal_error'' ''login failed'', set_db db st)
      | (Inr _, db) \<Rightarrow>
          (case SessionStore_Create (pe_sha env) (pe_rnd env 0) (pe_now env) username (cl_SessionTTL (pn_cloudCfg s)) db of
             (Inl _, db1) \<Rightarrow> (writeError 500 ''internal_error'' ''login failed'', set_db db1 st)
           | (Inr (token, _), db1) \<Rightarrow>
               (add_headers [sessionCookie s token (cl_SessionTTL (pn_cloudCfg s))] (writeJSON 200 (PUsername username)),
                set_db db1 st)))"

definition handleCloudLogin :: "'w panel \<Rightarrow> panel_request \<Rightarrow> 'w panel_handler" where
  "handleCloudLogin s r env st =
     (case bp_user (rq_Body r) of
        Inl _ \<Rightarrow> (writeError 400 ''bad_request'' ''invalid JSON body'', st)
      | Inr req \<Rightarrow>
          (if li_Username req = '''' \<or> li_Password req = ''''
           then (writeError 400 ''bad_request'' ''username and password are required'', st)
           else if length (li_Username req) > 63 then (writeError 400 ''bad_request'' ''username too long'', st)
           else if length (li_Password req) > 72 then (writeError 400 ''bad_request'' ''password too long'', st)
           else open_session s (li_Username req) (li_Password req) env st))"

definition handleCloudLogout :: "'w panel \<Rightarrow> panel_request \<Rightarrow> 'w panel_handler" where
  "handleCloudLogout s r env st =
     (let c = cookie_value r (cl_CookieName (pn_cloudCfg s)) in
      if c = '''' then (writeError 401 ''unauthorized'' ''not logged in'', st)
      else (add_headers [sessionCookie s '''' (- hour)] noContent,
            set_db (snd (SessionStore_Delete (pe_sha env) c (pp_db st))) st))"

definition requireCloudSession :: "'w panel \<Rightarrow> (string \<Rightarrow> 'w panel_handler) \<Rightarrow> panel_request \<Rightarrow> 'w panel_handler" where
  "requireCloudSession s next r env st =
     (let c = cookie_value r (cl_CookieName (pn_cloudCfg s)) in
      if c = '''' then (writeError 401 ''unauthorized'' ''session required'', st)
      else case SessionStore_Validate (pe_sha env) (pe_now env) c (pp_db st) of
        (Inl _, db) \<Rightarrow> (writeError 401 ''unauthorized'' ''session expired or invalid'', set_db db st)
      | (Inr sess, db) \<Rightarrow> next (ses_user_id sess) env (set_db db st))"

section \<open>The base domain's pages (\<^verbatim>\<open>cloud_proxy.go\<close>, \<^verbatim>\<open>cloud_login_page.go\<close>)\<close>

definition handleLegacyCloudRedirect :: "'w panel_handler" where
  "handleLegacyCloudRedirect env st = (redirect 301 ''/admin/'', st)"

definition handleCloudRoot :: "'w panel \<Rightarrow> panel_request \<Rightarrow> 'w panel_handler" where
  "handleCloudRoot s r env st =
     (let c = cookie_value r (cl_CookieName (pn_cloudCfg s)) in
      if c = '''' then (redirect 303 ''/cloud/login'', st)
      else case SessionStore_Validate (pe_sha env) (pe_now env) c (pp_db st) of
        (Inl _, db) \<Rightarrow> (redirect 303 ''/cloud/login'', set_db db st)
      | (Inr _, db) \<Rightarrow> (redirect 303 ''/admin/'', set_db db st))"

definition self_source :: string where "self_source = [CHR 0x27] @ ''self'' @ [CHR 0x27]"

definition html_page :: "string \<Rightarrow> string \<Rightarrow> panel_reply" where
  "html_page csp page =
     add_headers setSecurityHeaders
       \<lparr>rs_Code = 200, rs_Headers = [(''Content-Type'', ''text/html; charset=utf-8''), (''Content-Security-Policy'', csp)],
        rs_Body = PHtml page\<rparr>"

definition handleCloudLoginPage :: "'w panel \<Rightarrow> panel_request \<Rightarrow> 'w panel_handler" where
  "handleCloudLoginPage s r env st =
     (let c = cookie_value r (cl_CookieName (pn_cloudCfg s));
          page = html_page (''default-src 'none'; script-src 'unsafe-inline'; style-src 'unsafe-inline' https://fonts.googleapis.com; font-src https://fonts.gstatic.com; img-src 'self'; connect-src 'self'; form-action '' @ self_source) ''cloudLoginPage''
      in if c \<noteq> '''' then
           (case SessionStore_Validate (pe_sha env) (pe_now env) c (pp_db st) of
              (Inr _, db) \<Rightarrow> (redirect 303 ''/admin/'', set_db db st)
            | (Inl _, db) \<Rightarrow> (page, set_db db st))
         else (page, st))"

section \<open>Subdomains (\<^verbatim>\<open>cloud_dispatch.go\<close>, \<^verbatim>\<open>cloud_subdomain_login.go\<close>)\<close>

definition stripPort :: "string \<Rightarrow> string" where
  "stripPort host =
     (if HasPrefix host ''['' then
        (case str_last_index host '']:'' of Some i \<Rightarrow> take (i + 1) host | None \<Rightarrow> host)
      else case str_last_index host '':'' of Some i \<Rightarrow> take i host | None \<Rightarrow> host)"

text \<open>A port that is not negative always gives a URL.\<close>

definition proxyToInstance :: "panel_request \<Rightarrow> string \<Rightarrow> 'w panel_handler" where
  "proxyToInstance r slug env st =
     (case UserStore_Get slug (pp_db st) of
        (Inl _, db) \<Rightarrow> (serveCloud503 slug ''user not found'', set_db db st)
      | (Inr u, db) \<Rightarrow>
          (let iid = (case cu_InstanceID u of None \<Rightarrow> '''' | Some i \<Rightarrow> i) in
           if iid = '''' then (serveCloud503 slug ''no instance assigned'', set_db db st)
           else case Registry_Get iid db of
             (Inl _, db1) \<Rightarrow> (serveCloud503 iid ''instance not found'', set_db db1 st)
           | (Inr inst, db1) \<Rightarrow>
               (if inst_Status inst \<noteq> ''running'' then (serveCloud503 iid (inst_Status inst), set_db db1 st)
                else if inst_Port inst < 0 then (serveCloud503 (inst_ID inst) ''internal error'', set_db db1 st)
                else (\<lparr>rs_Code = 200, rs_Headers = [], rs_Body = PProxy
                         \<lparr>px_Host = ''localhost:'' @ int_str (inst_Port inst), px_Path = rq_Path r, px_Query = rq_Query r,
                          px_Auth = (if inst_PlaneAuthToken inst \<noteq> '''' then Some (inst_PlaneAuthToken inst) else None)\<rparr>\<rparr>,
                      set_db db1 st))))"

definition handleSubdomainLogin :: "'w panel \<Rightarrow> panel_request \<Rightarrow> string \<Rightarrow> 'w panel_handler" where
  "handleSubdomainLogin s r slug env st =
     (case bp_user (rq_Body r) of
        Inl _ \<Rightarrow> (writeError 400 ''bad_request'' ''invalid JSON body'', st)
      | Inr req \<Rightarrow>
          (let username = (if li_Username req = '''' then slug else li_Username req) in
           if li_Password req = '''' then (writeError 400 ''bad_request'' ''password is required'', st)
           else if length (li_Password req) > 72 then (writeError 400 ''bad_request'' ''password too long'', st)
           else if username \<noteq> slug then (writeError 403 ''forbidden'' ''username does not match subdomain'', st)
           else open_session s username (li_Password req) env st))"

definition handleSubdomainLoginPage :: "'w panel \<Rightarrow> panel_request \<Rightarrow> 'w panel_handler" where
  "handleSubdomainLoginPage s r env st =
     (let c = cookie_value r (cl_CookieName (pn_cloudCfg s));
          page = html_page (''default-src 'none'; script-src 'unsafe-inline'; style-src 'unsafe-inline' https://fonts.googleapis.com; font-src https://fonts.gstatic.com; img-src 'self' data:; connect-src 'self'; form-action '' @ self_source) ''subdomainLoginPage''
      in if c \<noteq> ''''
         then (add_headers [sessionCookie s '''' (- hour)] page, set_db (snd (SessionStore_Delete (pe_sha env) c (pp_db st))) st)
         else (page, st))"

definition too_many :: "int \<Rightarrow> panel_reply" where
  "too_many secs = add_headers [(''Retry-After'', int_str secs)] (writeError 429 ''rate_limited'' ''too many requests'')"

definition subdomain_login_request :: "'w panel \<Rightarrow> panel_request \<Rightarrow> string \<Rightarrow> 'w panel_handler" where
  "subdomain_login_request s r slug env st =
     (if rq_Method r = ''GET'' then handleSubdomainLoginPage s r env st
      else if rq_Method r = ''POST'' then
        (case pp_loginRL st of
           None \<Rightarrow> handleSubdomainLogin s r slug env st
         | Some rl \<Rightarrow>
             (case rateLimitMiddleware (pe_seconds env) rl of
                (TooManyRequests secs, rl1) \<Rightarrow> (too_many secs, st\<lparr>pp_loginRL := Some rl1\<rparr>)
              | (Served, rl1) \<Rightarrow> handleSubdomainLogin s r slug env (st\<lparr>pp_loginRL := Some rl1\<rparr>)))
      else (add_headers setSecurityHeaders (writeError 405 ''method_not_allowed'' ''use GET or POST''), st))"

definition without_session :: "'w panel \<Rightarrow> panel_request \<Rightarrow> string \<Rightarrow> 'w panel_handler" where
  "without_session s r slug env st =
     (if rq_Path r = [''login''] then subdomain_login_request s r slug env st else (redirect 303 ''/login'', st))"

definition handleSubdomainRequest :: "'w panel \<Rightarrow> panel_request \<Rightarrow> string \<Rightarrow> 'w panel_handler" where
  "handleSubdomainRequest s r slug env st =
     (if rq_Path r = [''logout''] \<and> rq_Method r = ''POST'' then handleCloudLogout s r env st
      else let c = cookie_value r (cl_CookieName (pn_cloudCfg s)) in
        if c = '''' then without_session s r slug env st
        else case SessionStore_Validate (pe_sha env) (pe_now env) c (pp_db st) of
          (Inr sess, db) \<Rightarrow>
            (if ses_user_id sess \<noteq> slug
             then (add_headers setSecurityHeaders (writeError 403 ''forbidden'' ''session does not match subdomain''), set_db db st)
             else proxyToInstance r slug env (set_db db st))
        | (Inl _, db) \<Rightarrow> without_session s r slug env (set_db db st))"

definition hostDispatcher :: "'w panel \<Rightarrow> (panel_request \<Rightarrow> 'w panel_handler) \<Rightarrow> panel_request \<Rightarrow> 'w panel_handler" where
  "hostDispatcher s mux r env st =
     (let baseDomain = cl_Domain (pn_cloudCfg s); suffix = ''.'' @ baseDomain; host = stripPort (rq_Host r) in
      if host = baseDomain \<or> \<not> HasSuffix host suffix then mux r env st
      else let slug = TrimSuffix host suffix in
        if slug = '''' \<or> Contains slug ''.''
        then (add_headers setSecurityHeaders (writeError 400 ''bad_request'' ''invalid subdomain''), st)
        else handleSubdomainRequest s r slug env st)"

section \<open>Certificates (\<^verbatim>\<open>cloud_tls_check.go\<close>)\<close>

definition forbidden :: "string \<Rightarrow> panel_reply" where
  "forbidden msg = writeError 403 ''forbidden'' msg"

definition from_loopback :: "panel_env \<Rightarrow> panel_request \<Rightarrow> bool" where
  "from_loopback env r \<longleftrightarrow>
     (let host = (case SplitHostPort (rq_RemoteAddr r) of Inl _ \<Rightarrow> rq_RemoteAddr r | Inr (h, _) \<Rightarrow> h) in
      case pe_parseIP env host of None \<Rightarrow> False | Some a \<Rightarrow> IsLoopback a)"

definition handleTLSCheck :: "'w panel \<Rightarrow> panel_request \<Rightarrow> 'w panel_handler" where
  "handleTLSCheck s r env st =
     (if \<not> from_loopback env r then (forbidden ''forbidden'', st)
      else let domain = assoc_get (rq_Query r) ''domain''; suffix = ''.'' @ cl_Domain (pn_cloudCfg s) in
        if domain = '''' then (forbidden ''missing domain parameter'', st)
        else if \<not> HasSuffix domain suffix then (forbidden ''domain not under base domain'', st)
        else let slug = TrimSuffix domain suffix in
          if slug = '''' \<or> Contains slug ''.'' then (forbidden ''invalid subdomain'', st)
          else case UserStore_Get slug (pp_db st) of
            (Inl _, db) \<Rightarrow> (forbidden ''forbidden'', set_db db st)
          | (Inr u, db) \<Rightarrow>
              (if cu_InstanceID u = None \<or> cu_InstanceID u = Some '''' then forbidden ''forbidden''
               else \<lparr>rs_Code = 200, rs_Headers = [], rs_Body = PEmpty\<rparr>, set_db db st))"

section \<open>Who reaches an instance\<close>

lemma session_Validate_Inr:
  assumes "SessionStore_Validate sha now tok db = (Inr sess, db')"
  shows "live_session sha now tok db = Some sess" "same_tables db db'"
proof -
  obtain q db1 where q: "db_query (\<lambda>d. query_row (\<lambda>s. ses_token_hash s = sessionHash sha tok) (db_cloud_sessions d)) db = (q, db1)" by fastforce
  then have "q = Inr (Some sess)" "db' = db1" "\<not> now > of_sec (ses_expires_at sess)"
    using assms by (auto simp: SessionStore_Validate_def Let_def split: sum.splits option.splits if_splits)
  then show "live_session sha now tok db = Some sess" "same_tables db db'"
    using q db_query_same [OF q] by (auto simp: live_session_def db_query_def split: option.splits)
qed

lemma UserStore_Get_Inr:
  assumes "UserStore_Get u db = (Inr x, db')"
  obtains row where "row \<in> set (db_cloud_users db)" "nocase (usr_username row) u" "x = user_of_row row" "same_tables db db'"
proof -
  obtain q db1 where q: "db_query (sel_user u) db = (q, db1)" by fastforce
  then obtain row where "q = Inr (Some row)" "x = user_of_row row" "db' = db1"
    using assms by (auto simp: UserStore_Get_def split: sum.splits option.splits)
  moreover from this q have "sel_user u db = Some row" by (auto simp: db_query_def sel_user_def split: option.splits)
  then have "row \<in> set (db_cloud_users db)" "nocase (usr_username row) u"
    unfolding sel_user_def by (auto dest: query_row_SomeD)
  ultimately show thesis using that db_query_same [OF q] by simp
qed

lemma Registry_Get_Inr:
  "Registry_Get iid db = (Inr inst, db') \<Longrightarrow> inst_view db iid = Some inst \<and> same_tables db db'"
  by (auto simp: Registry_Get_view split: option.splits)

lemma open_session_no_proxy: "rs_Body (fst (open_session s u p env st)) \<noteq> PProxy px"
  by (auto simp: open_session_def writeError_def writeJSON_def add_headers_def split: sum.split prod.split)

lemma login_no_proxy: "rs_Body (fst (handleSubdomainLogin s r slug env st)) \<noteq> PProxy px"
  by (auto simp: handleSubdomainLogin_def writeError_def Let_def open_session_no_proxy split: sum.split)

lemma without_session_no_proxy: "rs_Body (fst (without_session s r slug env st)) \<noteq> PProxy px"
  by (auto simp: without_session_def subdomain_login_request_def redirect_def handleSubdomainLoginPage_def html_page_def
      writeError_def add_headers_def too_many_def Let_def login_no_proxy
      split: option.split prod.split limited_response.split)

lemma proxyToInstance_cases:
  assumes "proxyToInstance r slug env st = (rep, st')" "rs_Body rep = PProxy px"
  obtains row inst where "row \<in> set (db_cloud_users (pp_db st))" "nocase (usr_username row) slug"
    "usr_instance_id row = Some (inst_ID inst)" "inst_view (pp_db st) (inst_ID inst) = Some inst" "inst_Status inst = ''running''"
    "px = \<lparr>px_Host = ''localhost:'' @ int_str (inst_Port inst), px_Path = rq_Path r, px_Query = rq_Query r,
           px_Auth = (if inst_PlaneAuthToken inst \<noteq> '''' then Some (inst_PlaneAuthToken inst) else None)\<rparr>"
proof -
  have u503: "rs_Body (serveCloud503 a b) \<noteq> PProxy px" for a b by (simp add: serveCloud503_def add_headers_def)
  obtain g db where g: "UserStore_Get slug (pp_db st) = (g, db)" by fastforce
  obtain u where u: "g = Inr u" using assms g u503 by (cases g) (auto simp: proxyToInstance_def)
  let ?iid = "case cu_InstanceID u of None \<Rightarrow> '''' | Some i \<Rightarrow> i"
  have "?iid \<noteq> ''''" using assms g u u503 by (auto simp: proxyToInstance_def Let_def)
  then have iid: "cu_InstanceID u = Some ?iid" by (cases "cu_InstanceID u") auto
  obtain h db1 where h: "Registry_Get ?iid db = (h, db1)" by fastforce
  obtain inst where inst: "h = Inr inst" using assms g u h \<open>?iid \<noteq> ''''\<close> u503 by (cases h) (auto simp: proxyToInstance_def Let_def)
  obtain row where row: "row \<in> set (db_cloud_users (pp_db st))" "nocase (usr_username row) slug" "u = user_of_row row" "same_tables (pp_db st) db"
    using g u UserStore_Get_Inr by blast
  have view: "inst_view (pp_db st) ?iid = Some inst"
    using Registry_Get_Inr [of ?iid db inst db1] h inst same_tables_view [OF row(4)] by simp
  then have "inst_ID inst = ?iid" by (auto simp: inst_view_def dest: query_row_SomeD)
  moreover have "inst_Status inst = ''running''" "px = \<lparr>px_Host = ''localhost:'' @ int_str (inst_Port inst), px_Path = rq_Path r, px_Query = rq_Query r,
      px_Auth = (if inst_PlaneAuthToken inst \<noteq> '''' then Some (inst_PlaneAuthToken inst) else None)\<rparr>"
    using assms g u h inst \<open>?iid \<noteq> ''''\<close> u503 by (auto simp: proxyToInstance_def Let_def split: if_splits)
  ultimately show thesis using that [of row inst] row iid view by (simp add: user_of_row_def)
qed

text \<open>C8: a request on a subdomain is forwarded only to the instance of the subdomain's own user, for
  that user. In a reachable database, when the answer is a forwarded request, the cookie is a live
  session of exactly the user the subdomain names, that user is bound to a running instance, the
  target is that instance's port with that instance's own token, and no other user is bound to it.\<close>

theorem proxy_own_instance:
  assumes "handleSubdomainRequest s r slug env st = (rep, st')" "rs_Body rep = PProxy px"
    and "db_reachable sha (pp_db st)"
  shows "\<exists>sess inst.
    live_session (pe_sha env) (pe_now env) (cookie_value r (cl_CookieName (pn_cloudCfg s))) (pp_db st) = Some sess \<and>
    ses_user_id sess = slug \<and>
    {u \<in> set (db_cloud_users (pp_db st)). usr_instance_id u = Some (inst_ID inst)} =
      {u \<in> set (db_cloud_users (pp_db st)). nocase (usr_username u) slug} \<and>
    inst_view (pp_db st) (inst_ID inst) = Some inst \<and> inst_Status inst = ''running'' \<and>
    px_Host px = ''localhost:'' @ int_str (inst_Port inst) \<and>
    (inst_PlaneAuthToken inst \<noteq> '''' \<longrightarrow> px_Auth px = Some (inst_PlaneAuthToken inst))"
proof -
  let ?db = "pp_db st" and ?c = "cookie_value r (cl_CookieName (pn_cloudCfg s))"
  have inv: "cloud_inv ?db" using db_reachable_inv [OF assms(3)] by (simp add: db_inv_def)
  obtain v db where v: "SessionStore_Validate (pe_sha env) (pe_now env) ?c ?db = (v, db)" by fastforce
  have no: "rs_Body (add_headers hs (writeError a b c)) \<noteq> PProxy px" "rs_Body (fst (handleCloudLogout s r env st)) \<noteq> PProxy px" for hs a b c
    by (simp_all add: add_headers_def writeError_def handleCloudLogout_def noContent_def Let_def)
  have logout: "\<not> (rq_Path r = [''logout''] \<and> rq_Method r = ''POST'')"
    using assms(1,2) no(2) by (auto simp: handleSubdomainRequest_def)
  have c: "?c \<noteq> ''''" using assms(1,2) logout without_session_no_proxy [of s r slug env st px]
    by (auto simp: handleSubdomainRequest_def Let_def)
  obtain sess where sess: "v = Inr sess"
    using assms(1,2) logout c v without_session_no_proxy [of s r slug env "set_db db st" px]
    by (cases v) (auto simp: handleSubdomainRequest_def Let_def)
  have own: "ses_user_id sess = slug" and run: "proxyToInstance r slug env (set_db db st) = (rep, st')"
    using assms(1,2) logout c v sess no(1) by (auto simp: handleSubdomainRequest_def Let_def split: if_splits)
  have same: "same_tables ?db db" and live: "live_session (pe_sha env) (pe_now env) ?c ?db = Some sess"
    using session_Validate_Inr v sess by blast+
  obtain row inst where p: "row \<in> set (db_cloud_users db)" "nocase (usr_username row) slug" "usr_instance_id row = Some (inst_ID inst)"
      "inst_view db (inst_ID inst) = Some inst" "inst_Status inst = ''running''"
      "px = \<lparr>px_Host = ''localhost:'' @ int_str (inst_Port inst), px_Path = rq_Path r, px_Query = rq_Query r,
           px_Auth = (if inst_PlaneAuthToken inst \<noteq> '''' then Some (inst_PlaneAuthToken inst) else None)\<rparr>"
    using proxyToInstance_cases [OF run assms(2)] by simp blast
  have mem: "row \<in> set (db_cloud_users ?db)" using p(1) same by (simp add: same_tables_def)
  have "u = row" if "u \<in> set (db_cloud_users ?db)" "nocase (usr_username u) slug" for u
    using user_unique [OF inv that(1) mem] that(2) p(2) by (simp add: nocase_def)
  moreover have "u = row" if "u \<in> set (db_cloud_users ?db)" "usr_instance_id u = Some (inst_ID inst)" for u
    using inv that mem p(3) by (auto simp: cloud_inv_def bindings_unique_def)
  ultimately have "{u \<in> set (db_cloud_users ?db). usr_instance_id u = Some (inst_ID inst)} =
      {u \<in> set (db_cloud_users ?db). nocase (usr_username u) slug}" using mem p(2,3) by blast
  then show ?thesis using live own p(4-6) same_tables_view [OF same] by (intro exI [of _ sess] exI [of _ inst]) simp
qed

text \<open>A user with a running instance and a session.\<close>

definition bob_db :: registry_db where
  "bob_db =
     snd (SessionStore_Create (\<lambda>x. x) (Inr ''AB'') 1500000000 ''bob'' 4000000000
       (snd (UserStore_SetInstanceID ''t'' ''bob'' ''b1''
         (snd (UserStore_Create (\<lambda>p. Inr (''$'' @ p)) ''t'' ''bob'' ''pw''
           (snd (Registry_Create (\<lambda>x. x) ''t'' (Cloud_Store.sample_instance ''b1'' 9100 ''q'') (empty_db []))))))))"

lemma bob_reachable: "db_reachable (\<lambda>x. x) bob_db"
  unfolding bob_db_def
  by (rule reach_step [OF reach_step [OF reach_step [OF reach_step [OF reach_init step_create]
    step_update [OF step_user_create]] step_update [OF step_user_bind]] step_update [OF step_session_create]])

definition bob_seen :: registry_db where
  "bob_seen = snd (SessionStore_Validate (\<lambda>x. x) 1500000000 ''4142'' bob_db)"

lemma bob_lookups:
  "fst (SessionStore_Validate (\<lambda>x. x) 1500000000 ''4142'' bob_db) =
     Inr \<lparr>ses_token_hash = hex_encode ''4142'', ses_user_id = ''bob'', ses_created_at = 1, ses_expires_at = 5\<rparr>"
  "fst (UserStore_Get ''bob'' bob_seen) = Inr \<lparr>cu_Username = ''bob'', cu_InstanceID = Some ''b1'', cu_CreatedAt = ''t'', cu_UpdatedAt = ''t''\<rparr>"
  "fst (Registry_Get ''b1'' (snd (UserStore_Get ''bob'' bob_seen))) = Inr ((Cloud_Store.sample_instance ''b1'' 9100 ''q'')\<lparr>inst_CreatedAt := ''t''\<rparr>)"
  by code_simp+

definition bob_request :: panel_request where
  "bob_request = (panel_get ''GET'' ''bob.fox.io'' [''x''])\<lparr>rq_Cookies := [(''fox'', ''4142'')]\<rparr>"

definition bob_target :: proxied where
  "bob_target = \<lparr>px_Host = ''localhost:'' @ int_str 9100, px_Path = [''x''], px_Query = [], px_Auth = Some ''pa''\<rparr>"

lemma bob_run:
  "\<exists>st'. handleSubdomainRequest panel_sample bob_request ''bob'' panel_env_sample (panel_start bob_db) =
     (\<lparr>rs_Code = 200, rs_Headers = [], rs_Body = PProxy bob_target\<rparr>, st')"
proof -
  let ?st = "set_db bob_seen (panel_start bob_db)"
  have db: "pp_db (panel_start bob_db) = bob_db" by (simp add: pp_db_def panel_start_def)
  have c: "cookie_value bob_request (cl_CookieName (pn_cloudCfg panel_sample)) = ''4142''" "rq_Path bob_request = [''x'']"
    "rq_Query bob_request = []" by code_simp+
  have env: "pe_sha panel_env_sample = (\<lambda>x. x)" "pe_now panel_env_sample = 1500000000" by (simp_all add: panel_env_sample_def)
  let ?sess = "\<lparr>ses_token_hash = hex_encode ''4142'', ses_user_id = ''bob'', ses_created_at = 1, ses_expires_at = 5\<rparr>"
  have v: "SessionStore_Validate (\<lambda>x. x) 1500000000 ''4142'' bob_db = (Inr ?sess, bob_seen)"
    using bob_lookups(1) by (simp add: bob_seen_def prod_eq_iff)
  obtain u d where ud: "UserStore_Get ''bob'' bob_seen = (u, d)" by fastforce
  then have g: "UserStore_Get ''bob'' bob_seen = (Inr \<lparr>cu_Username = ''bob'', cu_InstanceID = Some ''b1'', cu_CreatedAt = ''t'', cu_UpdatedAt = ''t''\<rparr>, d)"
    using bob_lookups(2) by simp
  obtain i d2 where id2: "Registry_Get ''b1'' d = (i, d2)" by fastforce
  then have h: "Registry_Get ''b1'' d = (Inr ((Cloud_Store.sample_instance ''b1'' 9100 ''q'')\<lparr>inst_CreatedAt := ''t''\<rparr>), d2)"
    using bob_lookups(3) ud by simp
  have "proxyToInstance bob_request ''bob'' panel_env_sample ?st =
      (\<lparr>rs_Code = 200, rs_Headers = [], rs_Body = PProxy bob_target\<rparr>, set_db d2 ?st)"
    unfolding proxyToInstance_def panel_state_simps g by (simp add: Let_def h c bob_target_def Cloud_Store.sample_instance_def)
  then show ?thesis using c v by (simp add: handleSubdomainRequest_def Let_def db env)
qed

theorem proxy_own_instance_witness:
  "\<exists>rep st'. handleSubdomainRequest panel_sample bob_request ''bob'' panel_env_sample (panel_start bob_db) = (rep, st') \<and>
     rs_Body rep = PProxy bob_target \<and>
     (\<exists>inst. inst_view bob_db (inst_ID inst) = Some inst \<and> px_Host bob_target = ''localhost:'' @ int_str (inst_Port inst))"
proof -
  obtain st' where run: "handleSubdomainRequest panel_sample bob_request ''bob'' panel_env_sample (panel_start bob_db) =
      (\<lparr>rs_Code = 200, rs_Headers = [], rs_Body = PProxy bob_target\<rparr>, st')" using bob_run by blast
  have db: "pp_db (panel_start bob_db) = bob_db" by (simp add: pp_db_def panel_start_def)
  have body: "rs_Body \<lparr>rs_Code = 200, rs_Headers = [], rs_Body = PProxy bob_target\<rparr> = PProxy bob_target" by simp
  have "db_reachable (\<lambda>x. x) (pp_db (panel_start bob_db))" using bob_reachable db by simp
  from proxy_own_instance [OF run body this]
  have "\<exists>inst. inst_view bob_db (inst_ID inst) = Some inst \<and> px_Host bob_target = ''localhost:'' @ int_str (inst_Port inst)"
    unfolding db by blast
  with run body show ?thesis by blast
qed

end
