(* ===== verification/Panel_Skillsets.thy ===== *)
theory Panel_Skillsets
  imports Panel_Handlers
begin

text \<open>
  \<^verbatim>\<open>panel/api/skillset_handlers.go\<close>: listing, reading, storing and deleting the skillset files, on the
  file system of the server's state. \<open>os_ReadDir\<close> and \<open>os_Remove\<close> are the operating system's, in the
  model of Go_Fs.
\<close>

section \<open>Directories\<close>

definition children :: "string \<Rightarrow> fs \<Rightarrow> (string \<times> bool) list" where
  "children d s =
     sort_key fst (remdups
       (map (\<lambda>p. (path_Base p, False)) (filter (\<lambda>p. path_Dir p = d) (map fst (fs_files s))) @
        map (\<lambda>p. (path_Base p, True)) (filter (\<lambda>p. path_Dir p = d \<and> p \<noteq> d) (fs_dirs s))))"

definition os_ReadDir :: "string \<Rightarrow> fs \<Rightarrow> (string \<times> bool) list result \<times> fs" where
  "os_ReadDir d s =
     (case fs_fault s of
        Some (e, _) \<Rightarrow> (Inl e, fs_tick s)
      | None \<Rightarrow> (if dir_exists s d then Inr (children d s) else Inl ErrNotExist, fs_tick s))"

definition os_Remove :: "string \<Rightarrow> fs \<Rightarrow> unit result \<times> fs" where
  "os_Remove p s =
     (case fs_fault s of
        Some (e, _) \<Rightarrow> (Inl e, fs_tick s)
      | None \<Rightarrow>
          (if file_content s p \<noteq> None
           then (Inr (), (fs_tick s)\<lparr>fs_files := filter (\<lambda>(q, _). q \<noteq> p) (fs_files s)\<rparr>)
           else if p \<notin> set (fs_dirs s) then (Inl ErrNotExist, fs_tick s)
           else if children p s \<noteq> [] then (Inl (Errorf ''directory not empty''), fs_tick s)
           else (Inr (), (fs_tick s)\<lparr>fs_dirs := removeAll p (fs_dirs s)\<rparr>)))"

section \<open>Handlers\<close>

definition maxSkillsetUpload :: nat where "maxSkillsetUpload = 1048576"

definition summary_of :: "manifest \<Rightarrow> string \<Rightarrow> skillset_summary" where
  "summary_of m filename =
     \<lparr>ss_Name = mf_Name m, ss_Version = mf_Version m, ss_ContractVersion = mf_ContractVersion m,
      ss_ToolCount = length (mf_Tools m), ss_SourceCount = length (mf_DataSources m), ss_Filename = filename\<rparr>"

definition yaml_name :: "string \<Rightarrow> bool" where
  "yaml_name n \<longleftrightarrow> HasSuffix n ''.yaml'' \<or> HasSuffix n ''.yml''"

fun list_entries :: "(string \<Rightarrow> manifest result) \<Rightarrow> string \<Rightarrow> (string \<times> bool) list \<Rightarrow> fs \<Rightarrow> skillset_summary list \<times> fs" where
  "list_entries unmarshal dir [] s = ([], s)"
| "list_entries unmarshal dir ((name, isDir) # es) s =
     (if isDir \<or> \<not> yaml_name name then list_entries unmarshal dir es s
      else case os_ReadFile (path_Join [dir, name]) s of
        (Inl _, s1) \<Rightarrow> list_entries unmarshal dir es s1
      | (Inr data, s1) \<Rightarrow>
          (case Parse unmarshal data of
             Inl _ \<Rightarrow> list_entries unmarshal dir es s1
           | Inr m \<Rightarrow> (case list_entries unmarshal dir es s1 of (items, s2) \<Rightarrow> (summary_of m name # items, s2))))"

text \<open>\<^verbatim>\<open>sort.Slice\<close> does not keep the order of equal names; the order of their files is one of the orders it
  may give.\<close>

definition handleListSkillsets :: "'w panel \<Rightarrow> 'w panel_handler" where
  "handleListSkillsets s env st =
     (case os_ReadDir (pn_skillsetsDir s) (ps_fs (pp_prov st)) of
        (Inl e, f) \<Rightarrow>
          (if e = ErrNotExist then writeJSON 200 (PSkillsets [])
           else writeError 500 ''internal_error'' ''cannot read skillsets directory'', set_fs f st)
      | (Inr entries, f) \<Rightarrow>
          (case list_entries (pe_yaml env) (pn_skillsetsDir s) entries f of
             (items, f1) \<Rightarrow> (writeJSON 200 (PSkillsets (sort_key ss_Name items)), set_fs f1 st)))"

definition bad_skillset_name :: panel_reply where
  "bad_skillset_name = writeError 400 ''bad_request'' ''invalid skillset name''"

definition skillset_not_found :: "string \<Rightarrow> panel_reply" where
  "skillset_not_found name = writeError 404 ''not_found'' (''skillset '' @ name @ '' not found'')"

definition skillset_path :: "'w panel \<Rightarrow> string \<Rightarrow> string \<Rightarrow> string" where
  "skillset_path s name ext = path_Join [pn_skillsetsDir s, name @ ext]"

text \<open>Reading a skillset under either extension.\<close>

definition read_skillset :: "'w panel \<Rightarrow> string \<Rightarrow> fs \<Rightarrow> string result \<times> fs" where
  "read_skillset s name f =
     (case os_ReadFile (skillset_path s name ''.yaml'') f of
        (Inr data, f1) \<Rightarrow> (Inr data, f1)
      | (Inl e, f1) \<Rightarrow> (if e = ErrNotExist then os_ReadFile (skillset_path s name ''.yml'') f1 else (Inl e, f1)))"

definition handleGetSkillset :: "'w panel \<Rightarrow> string \<Rightarrow> 'w panel_handler" where
  "handleGetSkillset s name env st =
     (if \<not> validInstanceID name then (bad_skillset_name, st)
      else case read_skillset s name (ps_fs (pp_prov st)) of
        (Inl _, f) \<Rightarrow> (skillset_not_found name, set_fs f st)
      | (Inr data, f) \<Rightarrow>
          (case Parse (pe_yaml env) data of
             Inl _ \<Rightarrow> writeError 500 ''parse_error''
                        (''skillset '' @ go_quote name @ '' is stored on disk but cannot be parsed '' @ em_dash @ '' re-upload or check YAML syntax'')
           | Inr m \<Rightarrow> writeJSON 200 (PManifest m), set_fs f st))"

definition store_skillset :: "'w panel \<Rightarrow> manifest \<Rightarrow> string \<Rightarrow> 'w panel_handler" where
  "store_skillset s m data env st =
     (case os_MkdirAll (pn_skillsetsDir s) (ps_fs (pp_prov st)) of
        (Inl _, f) \<Rightarrow> (writeError 500 ''internal_error'' ''cannot create skillsets directory'', set_fs f st)
      | (Inr _, f) \<Rightarrow>
          (case os_WriteFile (skillset_path s (mf_Name m) ''.yaml'') data 420 f of
             (Inl _, f1) \<Rightarrow> (writeError 500 ''internal_error'' ''cannot save skillset to disk'', set_fs f1 st)
           | (Inr _, f1) \<Rightarrow> (writeJSON 201 (PSkillset (summary_of m (mf_Name m @ ''.yaml''))), set_fs f1 st)))"

definition handleUploadSkillset :: "'w panel \<Rightarrow> panel_request \<Rightarrow> 'w panel_handler" where
  "handleUploadSkillset s r env st =
     (case bp_upload (rq_Body r) of
        Inl _ \<Rightarrow> (writeError 400 ''bad_request'' ''request is not valid multipart form data or exceeds 1 MB limit'', st)
      | Inr None \<Rightarrow>
          (writeError 400 ''bad_request'' (''multipart form must include a '' @ go_quote ''file'' @ '' field''), st)
      | Inr (Some (Inl _)) \<Rightarrow> (writeError 400 ''bad_request'' ''cannot read uploaded file'', st)
      | Inr (Some (Inr file)) \<Rightarrow>
          (let data = take maxSkillsetUpload file in
           case Parse (pe_yaml env) data of
             Inl e \<Rightarrow> (writeError 400 ''validation_error'' (error_text (skill_go_error e)), st)
           | Inr m \<Rightarrow>
               (if \<not> validInstanceID (mf_Name m)
                then (writeError 400 ''validation_error'' ''skillset name must be alphanumeric with dots/hyphens/underscores (max 64 chars)'', st)
                else store_skillset s m data env st)))"

definition handleDownloadSkillset :: "'w panel \<Rightarrow> string \<Rightarrow> 'w panel_handler" where
  "handleDownloadSkillset s name env st =
     (if \<not> validInstanceID name then (bad_skillset_name, st)
      else case read_skillset s name (ps_fs (pp_prov st)) of
        (Inl _, f) \<Rightarrow> (skillset_not_found name, set_fs f st)
      | (Inr data, f) \<Rightarrow>
          (\<lparr>rs_Code = 200,
            rs_Headers = [(''Content-Type'', ''application/x-yaml''),
              (''Content-Disposition'', ''attachment; filename='' @ go_quote (name @ ''.yaml''))],
            rs_Body = PData data\<rparr>, set_fs f st))"

definition remove_skillset :: "'w panel \<Rightarrow> string \<Rightarrow> fs \<Rightarrow> unit result \<times> fs" where
  "remove_skillset s name f =
     (case os_Remove (skillset_path s name ''.yaml'') f of
        (Inr u, f1) \<Rightarrow> (Inr u, f1)
      | (Inl e, f1) \<Rightarrow> (if e = ErrNotExist then os_Remove (skillset_path s name ''.yml'') f1 else (Inl e, f1)))"

definition handleDeleteSkillset :: "'w panel \<Rightarrow> string \<Rightarrow> 'w panel_handler" where
  "handleDeleteSkillset s name env st =
     (if \<not> validInstanceID name then (bad_skillset_name, st)
      else case remove_skillset s name (ps_fs (pp_prov st)) of
        (Inl e, f) \<Rightarrow>
          (if e = ErrNotExist then skillset_not_found name
           else writeError 500 ''internal_error'' ''cannot delete skillset from disk'', set_fs f st)
      | (Inr _, f) \<Rightarrow> (noContent, set_fs f st))"

section \<open>An uploaded skillset is found again\<close>

lemma store_skillset_written:
  assumes "store_skillset s m data env st = (rep, st')" "rs_Code rep = 201"
  shows "rep = writeJSON 201 (PSkillset (summary_of m (mf_Name m @ ''.yaml'')))"
    "file_content (ps_fs (pp_prov st')) = (file_content (ps_fs (pp_prov st)))(skillset_path s (mf_Name m) ''.yaml'' \<mapsto> data)"
    "fs_faults (ps_fs (pp_prov st)) = [] \<Longrightarrow> fs_faults (ps_fs (pp_prov st')) = []"
    "pp_db st' = pp_db st" "pp_world st' = pp_world st"
proof -
  let ?p = "skillset_path s (mf_Name m) ''.yaml''"
  obtain d f where d: "os_MkdirAll (pn_skillsetsDir s) (ps_fs (pp_prov st)) = (d, f)" by fastforce
  obtain u where u: "d = Inr u" using assms d by (cases d) (auto simp: store_skillset_def writeError_def)
  obtain x f1 where x: "os_WriteFile ?p data 420 f = (x, f1)" by fastforce
  obtain v where v: "x = Inr v" using assms d u x by (cases x) (auto simp: store_skillset_def writeError_def)
  have rep: "rep = writeJSON 201 (PSkillset (summary_of m (mf_Name m @ ''.yaml'')))" "st' = set_fs f1 st"
    using assms d u x v by (simp_all add: store_skillset_def)
  have c: "file_content f = file_content (ps_fs (pp_prov st))" using os_MkdirAll_content [of "pn_skillsetsDir s" "ps_fs (pp_prov st)"] d by simp
  have c1: "file_content f1 = (file_content f)(?p \<mapsto> data)" using os_WriteFile_ok [of ?p data 420 f f1] x v by simp
  show "rep = writeJSON 201 (PSkillset (summary_of m (mf_Name m @ ''.yaml'')))" by (rule rep(1))
  show "file_content (ps_fs (pp_prov st')) = (file_content (ps_fs (pp_prov st)))(?p \<mapsto> data)"
    by (simp add: rep(2) set_fs_def c1 c)
  show "fs_faults (ps_fs (pp_prov st)) = [] \<Longrightarrow> fs_faults (ps_fs (pp_prov st')) = []"
    using d x u v by (auto simp: rep(2) set_fs_def os_MkdirAll_def os_WriteFile_def fs_fault_def fs_tick_def put_file_def Let_def split: if_splits)
  show "pp_db st' = pp_db st" "pp_world st' = pp_world st" by (simp_all add: rep(2) set_fs_def pp_world_def pp_db_def)
qed

text \<open>When an upload is answered 201, the manifest in the answer is what a later request for its name
  gets, the only file that changed is the one named after it in the skillsets directory, and neither
  the database nor anything outside was touched.\<close>

theorem skillset_upload_get:
  assumes "handleUploadSkillset s r env st = (rep, st')" "rs_Code rep = 201" "fs_faults (ps_fs (pp_prov st)) = []"
  shows "\<exists>m. rs_Body rep = PSkillset (summary_of m (mf_Name m @ ''.yaml'')) \<and>
    fst (handleGetSkillset s (mf_Name m) env st') = writeJSON 200 (PManifest m) \<and>
    (\<forall>q. q \<noteq> skillset_path s (mf_Name m) ''.yaml'' \<longrightarrow> file_content (ps_fs (pp_prov st')) q = file_content (ps_fs (pp_prov st)) q) \<and>
    pp_db st' = pp_db st \<and> pp_world st' = pp_world st"
proof -
  obtain upl where upl: "bp_upload (rq_Body r) = Inr (Some (Inr upl))"
    using assms(1,2) by (auto simp: handleUploadSkillset_def writeError_def split: sum.splits option.splits)
  let ?data = "take maxSkillsetUpload upl"
  obtain m where m: "Parse (pe_yaml env) ?data = Inr m" "validInstanceID (mf_Name m)"
    and st: "store_skillset s m ?data env st = (rep, st')"
    using assms(1,2) upl by (auto simp: handleUploadSkillset_def writeError_def Let_def split: sum.splits if_splits)
  note w = store_skillset_written [OF st assms(2)]
  have "os_ReadFile (skillset_path s (mf_Name m) ''.yaml'') (ps_fs (pp_prov st')) = (Inr ?data, fs_tick (ps_fs (pp_prov st')))"
    using w(2,3) assms(3) by (simp add: os_ReadFile_def fs_fault_def)
  then have "fst (handleGetSkillset s (mf_Name m) env st') = writeJSON 200 (PManifest m)"
    using m by (simp add: handleGetSkillset_def read_skillset_def)
  then show ?thesis using w by (intro exI [of _ m]) (simp add: writeJSON_def)
qed

definition upload_env :: panel_env where
  "upload_env = panel_env_sample\<lparr>pe_yaml := (\<lambda>_. Inr \<lparr>mf_Name = ''kb'', mf_Version = ''1.0.0'', mf_ContractVersion = ''1.0.0'', mf_Tools = [], mf_DataSources = []\<rparr>)\<rparr>"

definition upload_request :: panel_request where
  "upload_request = (panel_get ''POST'' ''fox.io'' [''api'', ''skillsets''])\<lparr>rq_Body := no_body\<lparr>bp_upload := Inr (Some (Inr ''y''))\<rparr>\<rparr>"

theorem skillset_upload_get_witness:
  "\<exists>rep st' m. handleUploadSkillset panel_sample upload_request upload_env (panel_start (empty_db [])) = (rep, st') \<and> rs_Code rep = 201 \<and>
     fst (handleGetSkillset panel_sample (mf_Name m) upload_env st') = writeJSON 200 (PManifest m)"
proof -
  let ?run = "handleUploadSkillset panel_sample upload_request upload_env (panel_start (empty_db []))"
  obtain rep st' where run: "?run = (rep, st')" by fastforce
  let ?m = "\<lparr>mf_Name = ''kb'', mf_Version = ''1.0.0'', mf_ContractVersion = ''1.0.0'', mf_Tools = [], mf_DataSources = []\<rparr>"
  have "take maxSkillsetUpload ''y'' = ''y''" by (simp add: maxSkillsetUpload_def)
  moreover have "Validate ?m = []" "validInstanceID ''kb''" by code_simp+
  ultimately have "?run = store_skillset panel_sample ?m ''y'' upload_env (panel_start (empty_db []))"
    by (simp add: handleUploadSkillset_def upload_request_def panel_get_def no_body_def upload_env_def Parse_def Let_def)
  moreover have "rs_Code (fst (store_skillset panel_sample ?m ''y'' upload_env (panel_start (empty_db [])))) = 201" by code_simp
  ultimately have code: "rs_Code rep = 201" using run by (metis fst_conv)
  have "fs_faults (ps_fs (pp_prov (panel_start (empty_db [])))) = []" by (simp add: panel_start_def sample_state_def)
  from skillset_upload_get [OF run code this] run code show ?thesis by blast
qed

end
