(* ===== verification/Panel_Server.thy ===== *)
theory Panel_Server
  imports Panel_Cloud Panel_Skillsets Sse_Stream
begin

text \<open>
  \<^verbatim>\<open>panel/api/server.go\<close>, \<^verbatim>\<open>auth.go\<close> and the counters of \<^verbatim>\<open>metrics.go\<close>: which handler serves which
  request, behind which guards, and how requests and background jobs change the server's state. The
  event stream is the one of Sse_Stream; its answer here only names that the stream was opened.
\<close>

section \<open>Guards\<close>

definition extractToken :: "panel_request \<Rightarrow> string" where
  "extractToken r = bearer_token r"

definition requireAuth :: "'w panel \<Rightarrow> (panel_request \<Rightarrow> 'w panel_handler) \<Rightarrow> panel_request \<Rightarrow> 'w panel_handler" where
  "requireAuth s next r env st =
     (if extractToken r \<noteq> pn_secret s then (writeError 401 ''unauthorized'' ''invalid credentials'', st)
      else next r env st)"

definition extractSessionToken :: "panel_request \<Rightarrow> string" where
  "extractSessionToken r = cookie_value r ''fox_sse_token''"

definition requireSessionToken :: "'w panel \<Rightarrow> (panel_request \<Rightarrow> 'w panel_handler) \<Rightarrow> panel_request \<Rightarrow> 'w panel_handler" where
  "requireSessionToken s next r env st =
     (let token = extractSessionToken r in
      if token = '''' then (writeError 401 ''unauthorized'' ''session token required'', st)
      else case Signer_Validate (pe_hmac env) (pn_signingKey s) (pe_now env) token PurposeSSE of
        Inl _ \<Rightarrow> (writeError 401 ''unauthorized'' ''invalid or expired session token'', st)
      | Inr _ \<Rightarrow> next r env st)"

section \<open>Counters (\<^verbatim>\<open>metrics.go\<close>)\<close>

text \<open>The counters per path are never read; the counter of errors is never increased. Seconds are
  printed rounded to the nearest integer, ties to even.\<close>

definition incRequests :: "'w panel_state \<Rightarrow> 'w panel_state" where
  "incRequests st = st\<lparr>pp_requests := pp_requests st + 1\<rparr>"

definition sseConnect :: "'w panel_state \<Rightarrow> 'w panel_state" where
  "sseConnect st = st\<lparr>pp_sse := pp_sse st + 1\<rparr>"

definition sseDisconnect :: "'w panel_state \<Rightarrow> 'w panel_state" where
  "sseDisconnect st = st\<lparr>pp_sse := pp_sse st - 1\<rparr>"

definition round_even :: "rat \<Rightarrow> int" where
  "round_even x =
     (let n = floor x; d = x - of_int n in
      if d < 1 / 2 then n else if d > 1 / 2 then n + 1 else if even n then n else n + 1)"

definition newline :: string where "newline = [CHR 0x0A]"

definition metric_lines :: "string \<Rightarrow> string \<Rightarrow> string \<Rightarrow> string \<Rightarrow> string" where
  "metric_lines name help kind val =
     ''# HELP '' @ name @ '' '' @ help @ newline @ ''# TYPE '' @ name @ '' '' @ kind @ newline @ name @ '' '' @ val @ newline"

definition metrics_text :: "rat \<Rightarrow> 'w panel_state \<Rightarrow> string" where
  "metrics_text now st =
     metric_lines ''fox_control_requests_total'' ''Total API requests.'' ''counter'' (int_str (pp_requests st)) @
     metric_lines ''fox_control_errors_total'' ''Total API errors.'' ''counter'' (int_str 0) @
     metric_lines ''fox_control_provisions_total'' ''Total provision operations.'' ''counter'' (int_str (pp_provisions st)) @
     metric_lines ''fox_control_sse_connections'' ''Current SSE connections.'' ''gauge'' (int_str (pp_sse st)) @
     metric_lines ''fox_control_uptime_seconds'' ''Seconds since server start.'' ''gauge'' (int_str (round_even (now - pp_started st)))"

definition metrics_handler :: "'w panel_handler" where
  "metrics_handler env st =
     (\<lparr>rs_Code = 200, rs_Headers = [(''Content-Type'', ''text/plain; version=0.0.4; charset=utf-8'')],
       rs_Body = PMetrics (metrics_text (pe_seconds env) st)\<rparr>, st)"

section \<open>Headers of the web pages\<close>

definition securityHeaders :: "(string \<times> string) list" where
  "securityHeaders =
     [(''Content-Security-Policy'', ''default-src 'self'; script-src 'self' 'unsafe-inline'; style-src 'self' 'unsafe-inline' https://fonts.googleapis.com; font-src 'self' https://fonts.gstatic.com; img-src 'self' data:; connect-src '' @ self_source),
      (''X-Frame-Options'', ''DENY''), (''X-Content-Type-Options'', ''nosniff''),
      (''Referrer-Policy'', ''strict-origin-when-cross-origin'')]"

section \<open>Routes\<close>

datatype api_route =
    RList | RDetail | RCreate | RStats | RHealthHistory | RDestroy | RListSources | RGetSource
  | RListSkillsets | RGetSkillset | RUploadSkillset | RDownloadSkillset | RDeleteSkillset
  | RQuery | REvents | RSession | RUpgrade
  | RCreateUser | RListUsers | RGetUser | RUpdateUser | RDeleteUser | RProvision | RCheckSlug

definition api_path :: "string \<Rightarrow> segment list \<Rightarrow> segment list" where
  "api_path name rest = [Lit ''api'', Lit name] @ rest"

definition user_routes :: "(pattern \<times> api_route) list" where
  "user_routes =
     [((Some ''POST'', api_path ''users'' []), RCreateUser),
      ((Some ''GET'', api_path ''users'' []), RListUsers),
      ((Some ''GET'', api_path ''users'' [Wild ''username'']), RGetUser),
      ((Some ''PUT'', api_path ''users'' [Wild ''username'']), RUpdateUser),
      ((Some ''DELETE'', api_path ''users'' [Wild ''username'']), RDeleteUser),
      ((Some ''POST'', api_path ''instances'' [Lit ''provision'']), RProvision),
      ((Some ''GET'', api_path ''slugs'' [Lit ''check'', Wild ''slug'']), RCheckSlug)]"

definition api_mux :: "'w panel \<Rightarrow> (pattern \<times> api_route) list" where
  "api_mux s =
     (if pn_hasUsers s then user_routes else []) @
     [((Some ''GET'', api_path ''instances'' []), RList),
      ((Some ''GET'', api_path ''instances'' [Wild ''id'']), RDetail),
      ((Some ''POST'', api_path ''instances'' []), RCreate),
      ((Some ''GET'', api_path ''instances'' [Wild ''id'', Lit ''stats'']), RStats),
      ((Some ''GET'', api_path ''instances'' [Wild ''id'', Lit ''health-history'']), RHealthHistory),
      ((Some ''DELETE'', api_path ''instances'' [Wild ''id'']), RDestroy),
      ((Some ''GET'', api_path ''sources'' []), RListSources),
      ((Some ''GET'', api_path ''sources'' [Wild ''id'']), RGetSource),
      ((Some ''GET'', api_path ''skillsets'' []), RListSkillsets),
      ((Some ''GET'', api_path ''skillsets'' [Wild ''name'']), RGetSkillset),
      ((Some ''POST'', api_path ''skillsets'' []), RUploadSkillset),
      ((Some ''GET'', api_path ''skillsets'' [Wild ''name'', Lit ''download'']), RDownloadSkillset),
      ((Some ''DELETE'', api_path ''skillsets'' [Wild ''name'']), RDeleteSkillset),
      ((Some ''POST'', api_path ''query'' []), RQuery),
      ((Some ''GET'', api_path ''events'' []), REvents),
      ((Some ''POST'', api_path ''auth'' [Lit ''session'']), RSession),
      ((Some ''POST'', api_path ''instances'' [Wild ''id'', Lit ''upgrade'']), RUpgrade)]"

fun serve_api_route :: "'w panel \<Rightarrow> panel_request \<Rightarrow> (string \<Rightarrow> string) \<Rightarrow> api_route \<Rightarrow> 'w panel_handler" where
  "serve_api_route s r v RList = handleList"
| "serve_api_route s r v RDetail = handleDetail s (v ''id'')"
| "serve_api_route s r v RCreate = handleCreate s r"
| "serve_api_route s r v RStats = handleInstanceStats s (v ''id'')"
| "serve_api_route s r v RHealthHistory = handleHealthHistory (v ''id'')"
| "serve_api_route s r v RDestroy = handleDestroy s r (v ''id'')"
| "serve_api_route s r v RListSources = handleListSources"
| "serve_api_route s r v RGetSource = handleGetSource (v ''id'')"
| "serve_api_route s r v RListSkillsets = handleListSkillsets s"
| "serve_api_route s r v RGetSkillset = handleGetSkillset s (v ''name'')"
| "serve_api_route s r v RUploadSkillset = handleUploadSkillset s r"
| "serve_api_route s r v RDownloadSkillset = handleDownloadSkillset s (v ''name'')"
| "serve_api_route s r v RDeleteSkillset = handleDeleteSkillset s (v ''name'')"
| "serve_api_route s r v RQuery = handleQuery s r"
| "serve_api_route s r v REvents = handleEvents"
| "serve_api_route s r v RSession = handleSession s r"
| "serve_api_route s r v RUpgrade = handleUpgrade s r (v ''id'')"
| "serve_api_route s r v RCreateUser = handleCreateUser r"
| "serve_api_route s r v RListUsers = handleListUsers"
| "serve_api_route s r v RGetUser = handleGetUser (v ''username'')"
| "serve_api_route s r v RUpdateUser = handleUpdateUser r (v ''username'')"
| "serve_api_route s r v RDeleteUser = handleDeleteUser (v ''username'')"
| "serve_api_route s r v RProvision = handleProvision s r"
| "serve_api_route s r v RCheckSlug = handleCheckSlug (v ''slug'')"

definition panel_mux_reply :: "int \<Rightarrow> string \<Rightarrow> 'w panel_handler" where
  "panel_mux_reply code msg env st = (\<lparr>rs_Code = code, rs_Headers = [], rs_Body = PMux msg\<rparr>, st)"

fun panel_dispatch :: "('h \<Rightarrow> (string \<times> string) list \<Rightarrow> 'w panel_handler) \<Rightarrow> 'h routed \<Rightarrow> 'w panel_handler" where
  "panel_dispatch serve (Routed h vals) = serve h vals"
| "panel_dispatch serve SlashRedirect = panel_mux_reply 307 ''Temporary Redirect''"
| "panel_dispatch serve MethodNotAllowed = panel_mux_reply 405 ''Method Not Allowed''"
| "panel_dispatch serve NotFound = panel_mux_reply 404 ''404 page not found''"

definition serve_api :: "'w panel \<Rightarrow> panel_request \<Rightarrow> 'w panel_handler" where
  "serve_api s r =
     panel_dispatch (\<lambda>h vals. serve_api_route s r (assoc_get vals) h) (serve_mux (api_mux s) (rq_Method r) (rq_Path r))"

text \<open>The chain around the API: count the request, take a token of the request limiter, check the
  credential.\<close>

definition apiHandler :: "'w panel \<Rightarrow> panel_request \<Rightarrow> 'w panel_handler" where
  "apiHandler s r env st =
     (let st1 = incRequests st in
      case rateLimitMiddleware (pe_seconds env) (pp_limiter st1) of
        (TooManyRequests secs, rl) \<Rightarrow> (too_many secs, st1\<lparr>pp_limiter := rl\<rparr>)
      | (Served, rl) \<Rightarrow> requireAuth s (serve_api s) r env (st1\<lparr>pp_limiter := rl\<rparr>))"

definition limit_login :: "'w panel_handler \<Rightarrow> 'w panel_handler" where
  "limit_login next env st =
     (case pp_loginRL st of
        None \<Rightarrow> next env st
      | Some rl \<Rightarrow>
          (case rateLimitMiddleware (pe_seconds env) rl of
             (TooManyRequests secs, rl1) \<Rightarrow> (too_many secs, st\<lparr>pp_loginRL := Some rl1\<rparr>)
           | (Served, rl1) \<Rightarrow> next env (st\<lparr>pp_loginRL := Some rl1\<rparr>)))"

datatype root_route =
    RHealthz | RMetrics | RStream | RApi | RLogin | RLogout | RLoginPage | RTLSCheck | RLegacy | RAdminWeb | RCloudRoot | RWeb

definition root_mux :: "'w panel \<Rightarrow> (pattern \<times> root_route) list" where
  "root_mux s =
     [((Some ''GET'', [Lit ''healthz'']), RHealthz)] @
     (if pn_metricsEnabled s then [((Some ''GET'', [Lit ''metrics'']), RMetrics)] else []) @
     [((None, [Lit ''api'', Lit ''events'', Lit ''stream'']), RStream), ((None, [Lit ''api'', Subtree]), RApi)] @
     (if pn_hasSessions s then
        [((Some ''POST'', [Lit ''cloud'', Lit ''login'']), RLogin),
         ((Some ''POST'', [Lit ''cloud'', Lit ''logout'']), RLogout),
         ((Some ''GET'', [Lit ''cloud'', Lit ''login'']), RLoginPage),
         ((Some ''GET'', [Lit ''cloud'', Lit ''tls-check'']), RTLSCheck),
         ((None, [Lit ''cloud'', Subtree]), RLegacy)] @
        (if pn_hasWeb s then [((None, [Lit ''admin'', Subtree]), RAdminWeb)] else []) @
        [((Some ''GET'', [Lit '''']), RCloudRoot)]
      else if pn_hasWeb s then [((None, [Subtree]), RWeb)] else [])"

text \<open>Opening the event stream; what it then sends is Sse_Stream's, and its end is a step of its own
  (\<open>sseDisconnect\<close>).\<close>

definition open_stream :: "panel_request \<Rightarrow> 'w panel_handler" where
  "open_stream r env st =
     (case pp_events st of
        None \<Rightarrow> (writeError 503 ''unavailable'' ''event log is not configured on this server'', st)
      | Some _ \<Rightarrow>
          (\<lparr>rs_Code = 200,
            rs_Headers = [(''Content-Type'', ''text/event-stream''), (''Cache-Control'', ''no-cache''), (''Connection'', ''keep-alive''),
              (''X-Accel-Buffering'', ''no''), (''Referrer-Policy'', ''no-referrer'')],
            rs_Body = PMux ''stream''\<rparr>, sseConnect st))"

fun serve_root_route :: "'w panel \<Rightarrow> panel_request \<Rightarrow> root_route \<Rightarrow> 'w panel_handler" where
  "serve_root_route s r RHealthz env st = handleHealthz env st"
| "serve_root_route s r RMetrics env st = metrics_handler env st"
| "serve_root_route s r RStream env st =
     requireSessionToken s open_stream r env st"
| "serve_root_route s r RApi env st = apiHandler s r env st"
| "serve_root_route s r RLogin env st = limit_login (handleCloudLogin s r) env st"
| "serve_root_route s r RLogout env st = handleCloudLogout s r env st"
| "serve_root_route s r RLoginPage env st = handleCloudLoginPage s r env st"
| "serve_root_route s r RTLSCheck env st = handleTLSCheck s r env st"
| "serve_root_route s r RLegacy env st = handleLegacyCloudRedirect env st"
| "serve_root_route s r RAdminWeb env st = (\<lparr>rs_Code = 200, rs_Headers = securityHeaders, rs_Body = PMux ''web''\<rparr>, st)"
| "serve_root_route s r RCloudRoot env st = handleCloudRoot s r env st"
| "serve_root_route s r RWeb env st = (\<lparr>rs_Code = 200, rs_Headers = securityHeaders, rs_Body = PMux ''web''\<rparr>, st)"

definition panel_mux :: "'w panel \<Rightarrow> panel_request \<Rightarrow> 'w panel_handler" where
  "panel_mux s r = panel_dispatch (\<lambda>h vals. serve_root_route s r h) (serve_mux (root_mux s) (rq_Method r) (rq_Path r))"

definition panel_serve :: "'w panel \<Rightarrow> panel_request \<Rightarrow> 'w panel_handler" where
  "panel_serve s r =
     (if cl_Domain (pn_cloudCfg s) \<noteq> '''' then hostDispatcher s (panel_mux s) r else panel_mux s r)"

section \<open>A new server\<close>

text \<open>What the server is made from: its fixed parts, whose stream token's lifetime is filled in, the
  state its parts are in, and the settings that become part of its state. A key shorter than 32
  bytes panics. \<^verbatim>\<open>ProvisionRateLimit\<close> is never read.\<close>

record 'w panel_deps =
  pd_panel :: "'w panel"
  pd_prov :: "'w prov_state"
  pd_sources :: "source_db option"
  pd_events :: "event_log option"
  pd_hasQdrant :: bool
  pd_autoRestart :: auto_restart_config
  pd_PollInterval :: int
  pd_RateLimit :: int
  pd_ProvisionRateLimit :: int

definition defaultPollInterval :: int where "defaultPollInterval = 15 * 1000000000"
definition defaultSessionTokenTTL :: int where "defaultSessionTokenTTL = 10 * 60 * 1000000000"

definition poll_interval :: "'w panel_deps \<Rightarrow> int" where
  "poll_interval d = (if pd_PollInterval d = 0 then defaultPollInterval else pd_PollInterval d)"

definition NewServer :: "rat \<Rightarrow> 'w panel_deps \<Rightarrow> ('w panel \<times> 'w panel_state) option" where
  "NewServer now d =
     (let p = pd_panel d in
      if length (pn_signingKey p) < 32 then None
      else Some
        (p\<lparr>pn_sessionTTL := (if pn_sessionTTL p = 0 then defaultSessionTokenTTL else pn_sessionTTL p)\<rparr>,
         \<lparr>pp_prov = pd_prov d, pp_sources = pd_sources d,
          pp_poller = newHealthPoller (pd_autoRestart d) (pd_hasQdrant d) (pd_events d),
          pp_inFlight = [], pp_jobs = [],
          pp_limiter = newRateLimiter (if pd_RateLimit d \<le> 0 then 100 else pd_RateLimit d) now,
          pp_loginRL = (if pn_hasSessions p then Some (newRateLimiter (loginRate (pn_cloudCfg p)) now) else None),
          pp_requests = 0, pp_provisions = 0, pp_sse = 0, pp_started = now\<rparr>))"

end
