(* ===== verification/Panel_Jobs.thy ===== *)
theory Panel_Jobs
  imports Panel_Server "HOL-Library.Multiset"
begin

text \<open>
  The panel's server as a state machine: requests and background jobs interleave, each as one step.
  Every step is a chain of the registry's steps (\<open>fleet_step\<close>), so what holds in every reachable
  database holds behind every sequence of requests; and the ids with an operation in flight are
  those of the jobs that have not run yet.
\<close>

section \<open>Jobs and steps\<close>

fun job_id :: "job \<Rightarrow> string" where
  "job_id (CreateJob body skillset role) = cr_ID body"
| "job_id (ProvisionJob iid) = iid"

fun run_job :: "'w panel \<Rightarrow> panel_env \<Rightarrow> job \<Rightarrow> 'w panel_state \<Rightarrow> 'w panel_state" where
  "run_job s env (CreateJob body skillset role) st = run_create_job s env body skillset role st"
| "run_job s env (ProvisionJob iid) st = run_provision_job s env iid st"

definition take_job :: "job \<Rightarrow> 'w panel_state \<Rightarrow> 'w panel_state" where
  "take_job j st = st\<lparr>pp_jobs := remove1 j (pp_jobs st)\<rparr>"

inductive panel_step :: "'w panel \<Rightarrow> (string \<Rightarrow> string) \<Rightarrow> 'w panel_state \<Rightarrow> 'w panel_state \<Rightarrow> bool" for s sha where
  step_request: "pe_sha env = sha \<Longrightarrow> panel_step s sha st (snd (panel_serve s r env st))"
| step_stream_end: "0 < pp_sse st \<Longrightarrow> panel_step s sha st (sseDisconnect st)"
| step_job: "pe_sha env = sha \<Longrightarrow> j \<in> set (pp_jobs st) \<Longrightarrow> panel_step s sha st (run_job s env j (take_job j st))"

inductive panel_reachable :: "'w panel \<Rightarrow> (string \<Rightarrow> string) \<Rightarrow> 'w panel_state \<Rightarrow> bool" for s sha where
  panel_init: "pp_db st = empty_db faults \<Longrightarrow> pp_inFlight st = [] \<Longrightarrow> pp_jobs st = [] \<Longrightarrow> panel_reachable s sha st"
| panel_more: "panel_reachable s sha st \<Longrightarrow> panel_step s sha st st' \<Longrightarrow> panel_reachable s sha st'"

section \<open>The registry's steps behind an operation\<close>

abbreviation fleet_steps :: "'w service \<Rightarrow> (string \<Rightarrow> string) \<Rightarrow> registry_db \<Rightarrow> registry_db \<Rightarrow> bool" where
  "fleet_steps svc sha \<equiv> (fleet_step svc sha)\<^sup>*\<^sup>*"

lemma fleet_steps_reachable:
  "fleet_steps svc sha db db' \<Longrightarrow> fleet_reachable svc sha db \<Longrightarrow> fleet_reachable svc sha db'"
  by (induction rule: rtranclp_induct) (auto intro: fleet_more)

lemma fleet_one: "update_step sha db db' \<Longrightarrow> fleet_steps svc sha db db'"
  by (blast intro: fleet_update)

lemma fleet_same: "same_tables db db' \<Longrightarrow> fleet_steps svc sha db db'"
  by (blast intro: fleet_one step_query)

lemma Registry_Get_same: "Registry_Get iid db = (r, db') \<Longrightarrow> same_tables db db'"
  by (auto simp: Registry_Get_def db_query_def split: option.splits sum.splits)

lemma UserStore_List_same: "UserStore_List db = (r, db') \<Longrightarrow> same_tables db db'"
  by (auto simp: UserStore_List_def db_query_def split: option.splits sum.splits)

lemma UserStore_Authenticate_same: "UserStore_Authenticate bcmp u p db = (r, db') \<Longrightarrow> same_tables db db'"
  by (auto simp: UserStore_Authenticate_def db_query_def split: option.splits sum.splits)

lemma fleet_calls:
  "Registry_Get iid db = (r1, db') \<Longrightarrow> fleet_steps svc sha db db'"
  "Registry_List db = (r2, db') \<Longrightarrow> fleet_steps svc sha db db'"
  "Registry_Delete iid db = (r3, db') \<Longrightarrow> fleet_steps svc sha db db'"
  "UserStore_Create bgen now u p db = (r4, db') \<Longrightarrow> fleet_steps svc sha db db'"
  "UserStore_Update bgen now u po io db = (r5, db') \<Longrightarrow> fleet_steps svc sha db db'"
  "UserStore_Delete u db = (r6, db') \<Longrightarrow> fleet_steps svc sha db db'"
  "UserStore_SetInstanceID now u i db = (r7, db') \<Longrightarrow> fleet_steps svc sha db db'"
  "UserStore_Get u db = (r8, db') \<Longrightarrow> fleet_steps svc sha db db'"
  "UserStore_List db = (r9, db') \<Longrightarrow> fleet_steps svc sha db db'"
  "SessionStore_Create sha rnd t u ttl db = (r10, db') \<Longrightarrow> fleet_steps svc sha db db'"
  "SessionStore_Validate sha t tok db = (r11, db') \<Longrightarrow> fleet_steps svc sha db db'"
  "SessionStore_Delete sha tok db = (r12, db') \<Longrightarrow> fleet_steps svc sha db db'"
  "UserStore_Authenticate bcmp u p db = (r13, db') \<Longrightarrow> fleet_steps svc sha db db'"
  "Registry_UpdateStatus iid st db = (r14, db') \<Longrightarrow> fleet_steps svc sha db db'"
  "Registry_UpdateImageDigest iid dg db = (r15, db') \<Longrightarrow> fleet_steps svc sha db db'"
  by (auto intro: fleet_same Registry_Get_same Registry_List_same UserStore_List_same UserStore_Authenticate_same)
    (metis fleet_one step_delete step_user_create step_user_update step_user_delete step_user_bind step_session_create
      step_session_validate step_session_delete step_status step_image fleet_same UserStore_Get_same snd_conv)+

lemma fleet_retryUpdateStatus: "retryUpdateStatus iid st db = (r, db') \<Longrightarrow> fleet_steps svc sha db db'"
proof -
  have "fleet_steps svc sha db (snd (retry n (\<lambda>d. Registry_UpdateStatus iid st d) err db))" for n err
    by (induction n arbitrary: err db) (auto split: sum.split prod.split dest!: fleet_calls(14) intro: rtranclp_trans)
  then show "retryUpdateStatus iid st db = (r, db') \<Longrightarrow> fleet_steps svc sha db db'"
    by (simp add: retryUpdateStatus_def) (metis snd_conv)
qed

lemma fleet_Provision:
  assumes "Provision svc um sha now rnd req st = (r, st')"
  shows "fleet_steps svc sha (ps_db st) (ps_db st')"
proof -
  have res: "fleet_steps svc sha db db'" if "reserve svc sha now rnd req name db = (x, db')" for name db x db'
    using that fleet_reserve [of svc sha db now rnd req name] by (metis r_into_rtranclp snd_conv)
  have roll: "fleet_steps svc sha db (ps_db s1) \<Longrightarrow> fleet_steps svc sha db (ps_db (rollback svc iid d b s1))" for db iid d b s1
    using fleet_calls(3) [of iid "ps_db s1" _ _ svc sha, OF prod.collapse [symmetric]]
    by (auto simp: rollback_db intro: rtranclp_trans)
  have dep: "fleet_steps svc sha (ps_db s1) (ps_db (snd (deploy svc req inst s1)))" for inst s1
    by (auto simp: deploy_def Let_def split: prod.split sum.split intro!: roll dest: fleet_retryUpdateStatus [of _ _ _ _ _ svc sha])
  show ?thesis
  proof (cases "precheck um req (ps_fs st)")
    case (Pair p s1)
    show ?thesis
    proof (cases p)
      case (Inr name)
      obtain x db1 where r: "reserve svc sha now rnd req name (ps_db st) = (x, db1)" by fastforce
      show ?thesis using assms Pair Inr r res [OF r] dep [where ?s1.0 = "st\<lparr>ps_fs := s1, ps_db := db1\<rparr>"]
        by (cases x) (auto simp: Provision_def intro: rtranclp_trans, metis rtranclp_trans snd_conv)
    qed (use assms Pair in \<open>auto simp: Provision_def\<close>)
  qed
qed

lemma fleet_Destroy:
  "Destroy svc iid rm st = (r, st') \<Longrightarrow> fleet_steps svc' sha (ps_db st) (ps_db st')"
  by (auto simp: Destroy_def split: prod.splits sum.splits if_splits dest!: fleet_calls(1,3) [of _ _ _ _ svc' sha] intro: rtranclp_trans)

section \<open>Handlers that start nothing\<close>

text \<open>The effect of every handler but the two that create an instance: some steps of the registry, and
  nothing on the ids in flight and the pending jobs.\<close>

definition plain_step :: "'w panel \<Rightarrow> (string \<Rightarrow> string) \<Rightarrow> 'w panel_state \<Rightarrow> 'w panel_state \<Rightarrow> bool" where
  "plain_step s sha st st' \<longleftrightarrow>
     fleet_steps (pn_svc s) sha (pp_db st) (pp_db st') \<and> pp_inFlight st' = pp_inFlight st \<and> pp_jobs st' = pp_jobs st"

lemma plain_step_refl [simp]: "plain_step s sha st st"
  by (simp add: plain_step_def)

lemma plain_step_trans: "plain_step s sha a b \<Longrightarrow> plain_step s sha b c \<Longrightarrow> plain_step s sha a c"
  by (auto simp: plain_step_def)

lemma plain_step_parts [simp]:
  "plain_step s sha st (st'\<lparr>pp_sources := x\<rparr>) = plain_step s sha st st'"
  "plain_step s sha st (st'\<lparr>pp_poller := y\<rparr>) = plain_step s sha st st'"
  "plain_step s sha st (st'\<lparr>pp_limiter := z\<rparr>) = plain_step s sha st st'"
  "plain_step s sha st (st'\<lparr>pp_loginRL := u\<rparr>) = plain_step s sha st st'"
  "plain_step s sha st (set_world w st') = plain_step s sha st st'"
  "plain_step s sha st (set_fs f st') = plain_step s sha st st'"
  "plain_step s sha st (emitf env t i m st') = plain_step s sha st st'"
  "plain_step s sha st (incRequests st') = plain_step s sha st st'"
  "plain_step s sha st (sseConnect st') = plain_step s sha st st'"
  "plain_step s sha st (sseDisconnect st') = plain_step s sha st st'"
  by (simp_all add: plain_step_def) (simp_all add: pp_db_def incRequests_def sseConnect_def sseDisconnect_def)

lemma plain_step_from [simp]:
  "plain_step s sha (st\<lparr>pp_limiter := z\<rparr>) st' = plain_step s sha st st'"
  "plain_step s sha (st\<lparr>pp_loginRL := u\<rparr>) st' = plain_step s sha st st'"
  "plain_step s sha (incRequests st) st' = plain_step s sha st st'"
  by (simp_all add: plain_step_def pp_db_def incRequests_def)

lemma plain_set_db: "fleet_steps (pn_svc s) sha (pp_db st) db \<Longrightarrow> plain_step s sha st (set_db db st)"
  by (simp add: plain_step_def)

named_theorems plain

lemma plain_handlers [plain]:
  "plain_step s sha st (snd (handleList env st))"
  "plain_step s sha st (snd (handleDetail s iid env st))"
  "plain_step s sha st (snd (handleListSources env st))"
  "plain_step s sha st (snd (handleGetSource iid env st))"
  "plain_step s sha st (snd (handleEvents env st))"
  "plain_step s sha st (snd (handleHealthHistory iid env st))"
  "plain_step s sha st (snd (handleInstanceStats s iid env st))"
  "plain_step s sha st (snd (handleHealthz env st))"
  "plain_step s sha st (snd (handleCheckSlug iid env st))"
  "plain_step s sha st (snd (handleSession s r env st))"
  "plain_step s sha st (snd (handleQuery s r env st))"
  by (auto simp: handleList_def handleDetail_def handleListSources_def handleGetSource_def handleEvents_def
      handleHealthHistory_def handleInstanceStats_def handleHealthz_def handleCheckSlug_def handleSession_def handleQuery_def Let_def
      split: sum.split prod.split option.split intro!: plain_set_db dest: fleet_calls(1,2) [where svc = "pn_svc s" and sha = sha])

lemma plain_users [plain]:
  "plain_step s sha st (snd (handleCreateUser r env st))"
  "plain_step s sha st (snd (handleListUsers env st))"
  "plain_step s sha st (snd (handleGetUser u env st))"
  "plain_step s sha st (snd (handleUpdateUser r u env st))"
  "plain_step s sha st (snd (handleDeleteUser u env st))"
  by (auto simp: handleCreateUser_def handleListUsers_def handleGetUser_def handleUpdateUser_def handleDeleteUser_def Let_def
      split: sum.split prod.split option.split intro!: plain_set_db dest: fleet_calls(4-9) [where svc = "pn_svc s" and sha = sha])

lemma plain_skillsets [plain]:
  "plain_step s sha st (snd (handleListSkillsets s env st))"
  "plain_step s sha st (snd (handleGetSkillset s nm env st))"
  "plain_step s sha st (snd (handleUploadSkillset s r env st))"
  "plain_step s sha st (snd (handleDownloadSkillset s nm env st))"
  "plain_step s sha st (snd (handleDeleteSkillset s nm env st))"
  by (auto simp: handleListSkillsets_def handleGetSkillset_def handleUploadSkillset_def handleDownloadSkillset_def
      handleDeleteSkillset_def store_skillset_def Let_def split: sum.split prod.split option.split)

lemma plain_upgrade: "plain_step s sha st (snd (upgrade_instance s iid raw target env st))"
proof -
  obtain g db where g: "Registry_Get iid (pp_db st) = (g, db)" by fastforce
  note f = fleet_calls(1) [OF g, of "pn_svc s" sha]
  have u: "fleet_steps (pn_svc s) sha (pp_db st) (snd (Registry_UpdateImageDigest iid dg db))" for dg
    using f fleet_calls(15) [of iid dg db _ _ "pn_svc s" sha, OF prod.collapse [symmetric]] by (blast intro: rtranclp_trans)
  show ?thesis using f u g
    by (cases g) (auto simp: upgrade_instance_def Let_def split: sum.split prod.split intro!: plain_set_db
        simp flip: plain_step_def, auto simp: plain_step_def)
qed

lemma plain_destroy [plain]: "plain_step s sha st (snd (handleDestroy s r iid env st))"
  by (auto simp: handleDestroy_def Let_def plain_step_def pp_db_def split: sum.split prod.split
      dest!: fleet_Destroy [where svc' = "pn_svc s" and sha = sha])

lemma plain_handleUpgrade [plain]: "plain_step s sha st (snd (handleUpgrade s r iid env st))"
proof -
  let ?st1 = "st\<lparr>pp_inFlight := iid # pp_inFlight st\<rparr>"
  have "plain_step s sha st (clearInFlight iid (snd (upgrade_instance s iid raw target env ?st1)))" if "iid \<notin> set (pp_inFlight st)" for raw target
    using plain_upgrade [of s sha ?st1 iid raw target env] that
    by (simp add: plain_step_def) (simp add: pp_db_def)
  then show ?thesis
    by (auto simp: handleUpgrade_def split: sum.split prod.split) (metis snd_conv)+
qed

lemma plain_open_session: "plain_step s (pe_sha env) st (snd (open_session s u p env st))"
proof -
  obtain a db where a: "UserStore_Authenticate (pe_bcmp env) u p (pp_db st) = (a, db)" by fastforce
  obtain c db1 where c: "SessionStore_Create (pe_sha env) (pe_rnd env 0) (pe_now env) u (cl_SessionTTL (pn_cloudCfg s)) db = (c, db1)" by fastforce
  note f = fleet_calls(13) [OF a, of "pn_svc s" "pe_sha env"] fleet_calls(10) [OF c, of "pn_svc s"]
  show ?thesis using a c f rtranclp_trans [OF f]
    by (auto simp: open_session_def split: sum.split intro!: plain_set_db)
qed

lemma plain_login [plain]:
  "plain_step s (pe_sha env) st (snd (handleCloudLogin s r env st))"
  "plain_step s (pe_sha env) st (snd (handleSubdomainLogin s r slug env st))"
  by (auto simp: handleCloudLogin_def handleSubdomainLogin_def Let_def plain_open_session split: sum.split)

lemma fleet_session_delete: "fleet_steps svc sha db (snd (SessionStore_Delete sha tok db))"
  by (rule fleet_one [OF step_session_delete])

lemma plain_pages [plain]:
  "plain_step s (pe_sha env) st (snd (handleCloudLogout s r env st))"
  "plain_step s (pe_sha env) st (snd (handleLegacyCloudRedirect env st))"
  "plain_step s (pe_sha env) st (snd (handleCloudRoot s r env st))"
  "plain_step s (pe_sha env) st (snd (handleCloudLoginPage s r env st))"
  "plain_step s (pe_sha env) st (snd (handleSubdomainLoginPage s r env st))"
  "plain_step s (pe_sha env) st (snd (handleTLSCheck s r env st))"
  by (auto simp: handleCloudLogout_def handleLegacyCloudRedirect_def handleCloudRoot_def handleCloudLoginPage_def
      handleSubdomainLoginPage_def handleTLSCheck_def Let_def split: sum.split prod.split
      intro!: plain_set_db fleet_session_delete dest: fleet_calls(8,11) [where svc = "pn_svc s"])

lemma plain_proxy: "plain_step s sha st (snd (proxyToInstance r slug env st))"
proof -
  obtain g db where g: "UserStore_Get slug (pp_db st) = (g, db)" by fastforce
  have f: "fleet_steps (pn_svc s) sha (pp_db st) db" by (rule fleet_calls(8) [OF g])
  have f2: "Registry_Get iid db = (x, db1) \<Longrightarrow> fleet_steps (pn_svc s) sha (pp_db st) db1" for iid x db1
    using f fleet_calls(1) by (blast intro: rtranclp_trans)
  show ?thesis using f f2 g
    by (auto simp: proxyToInstance_def Let_def split: sum.split prod.split intro!: plain_set_db)
qed

lemma plain_without_session: "plain_step s (pe_sha env) st (snd (without_session s r slug env st))"
proof -
  have "plain_step s (pe_sha env) st (snd (handleSubdomainLogin s r slug env (st\<lparr>pp_loginRL := z\<rparr>)))" for z
    using plain_login(2) [of s env "st\<lparr>pp_loginRL := z\<rparr>" r slug] by simp
  then show ?thesis
    by (auto simp: without_session_def subdomain_login_request_def plain split: option.split prod.split limited_response.split)
qed

lemma plain_subdomain: "plain_step s (pe_sha env) st (snd (handleSubdomainRequest s r slug env st))"
proof (cases "SessionStore_Validate (pe_sha env) (pe_now env) (cookie_value r (cl_CookieName (pn_cloudCfg s))) (pp_db st)")
  case (Pair v db)
  have f: "plain_step s (pe_sha env) st (set_db db st)" by (rule plain_set_db [OF fleet_calls(11) [OF Pair]])
  show ?thesis
    using Pair f plain_step_trans [OF f plain_proxy] plain_step_trans [OF f plain_without_session] plain_without_session
    by (auto simp: handleSubdomainRequest_def Let_def plain split: sum.split)
qed

section \<open>The two handlers that start a job\<close>

text \<open>Either nothing starts, or one job with a fresh id does, and the id is in flight.\<close>

definition starts_job :: "'w panel \<Rightarrow> (string \<Rightarrow> string) \<Rightarrow> 'w panel_state \<Rightarrow> 'w panel_state \<Rightarrow> bool" where
  "starts_job s sha st st' \<longleftrightarrow>
     fleet_steps (pn_svc s) sha (pp_db st) (pp_db st') \<and>
     (\<exists>j. job_id j \<notin> set (pp_inFlight st) \<and> pp_inFlight st' = job_id j # pp_inFlight st \<and> pp_jobs st' = pp_jobs st @ [j])"

definition request_step :: "'w panel \<Rightarrow> (string \<Rightarrow> string) \<Rightarrow> 'w panel_state \<Rightarrow> 'w panel_state \<Rightarrow> bool" where
  "request_step s sha st st' \<longleftrightarrow> plain_step s sha st st' \<or> starts_job s sha st st'"

lemma plain_request: "plain_step s sha st st' \<Longrightarrow> request_step s sha st st'"
  by (simp add: request_step_def)

lemma request_step_from [simp]:
  "request_step s sha (st\<lparr>pp_limiter := z\<rparr>) st' = request_step s sha st st'"
  "request_step s sha (incRequests st) st' = request_step s sha st st'"
  by (simp_all add: request_step_def) (simp_all add: starts_job_def pp_db_def incRequests_def)

text \<open>What a handler that marked an id in flight leaves: the mark removed, or a job for it.\<close>

lemma marked_undone:
  assumes "iid \<notin> set (pp_inFlight st)" "fleet_steps (pn_svc s) sha (pp_db st) db"
  shows "request_step s sha st (clearInFlight iid (set_db db (st\<lparr>pp_inFlight := iid # pp_inFlight st\<rparr>)))"
  using assms by (simp add: request_step_def plain_step_def)

lemma marked_started:
  assumes "job_id j \<notin> set (pp_inFlight st)" "fleet_steps (pn_svc s) sha (pp_db st) db"
    and "st1 = incProvisions (emitf env t i m (set_db db (st\<lparr>pp_inFlight := job_id j # pp_inFlight st\<rparr>)))"
  shows "request_step s sha st (st1\<lparr>pp_jobs := pp_jobs st1 @ [j]\<rparr>)"
  using assms by (auto simp: request_step_def starts_job_def pp_db_def incProvisions_def set_db_def)

lemma handleCreate_step: "request_step s sha st (snd (handleCreate s r env st))"
proof (cases "bp_create (rq_Body r)")
  case (Inr body)
  let ?iid = "cr_ID body"
  obtain g db where g: "Registry_Get ?iid (pp_db st) = (g, db)" by fastforce
  obtain l db1 where l: "Registry_List db = (l, db1)" by fastforce
  note f = fleet_calls(1) [OF g, of "pn_svc s" sha]
  note f1 = rtranclp_trans [OF f fleet_calls(2) [OF l]]
  have j: "job_id (CreateJob body k ro) = ?iid" for k ro by simp
  have db: "pp_db (st\<lparr>pp_inFlight := x\<rparr>) = pp_db st" for x by (simp add: pp_db_def)
  show ?thesis
  proof (cases "?iid \<in> set (pp_inFlight st)")
    case False
    note u = marked_undone [OF False f] marked_undone [OF False f1]
    note m = marked_started [of "CreateJob body k ro" for k ro, unfolded j, OF False f1 refl]
    show ?thesis using Inr g l u m
      by (cases g; cases l) (auto simp: handleCreate_def Let_def db False plain_request)
  qed (use Inr in \<open>auto simp: handleCreate_def Let_def plain_request\<close>)
qed (auto simp: handleCreate_def plain_request)

lemma handleProvision_step: "request_step s sha st (snd (handleProvision s r env st))"
proof (cases "\<exists>req. bp_provision (rq_Body r) = Inr req \<and> provision_complaint req = None \<and> pv_Slug req \<notin> set (pp_inFlight st)")
  case True
  then obtain req where req: "bp_provision (rq_Body r) = Inr req" "provision_complaint req = None" "pv_Slug req \<notin> set (pp_inFlight st)" by blast
  let ?iid = "pv_Slug req"
  obtain g db where g: "Registry_Get ?iid (pp_db st) = (g, db)" by fastforce
  obtain l db1 where l: "Registry_List db = (l, db1)" by fastforce
  obtain c db2 where c: "UserStore_Create (pe_bgen env) (pe_stamp env) ?iid (pv_Password req) db1 = (c, db2)" by fastforce
  note f = fleet_calls(1) [OF g, of "pn_svc s" sha]
  note f1 = rtranclp_trans [OF f fleet_calls(2) [OF l]]
  note f2 = rtranclp_trans [OF f1 fleet_calls(4) [OF c]]
  have j: "job_id (ProvisionJob ?iid) = ?iid" by simp
  have db: "pp_db (st\<lparr>pp_inFlight := x\<rparr>) = pp_db st" for x by (simp add: pp_db_def)
  note u = marked_undone [OF req(3) f] marked_undone [OF req(3) f1] marked_undone [OF req(3) f2]
  note m = marked_started [of "ProvisionJob ?iid", unfolded j, OF req(3) f2 refl]
  show ?thesis using g l c u m req
    by (cases g; cases l; cases c) (auto simp: handleProvision_def Let_def db plain_request)
next
  case False
  then show ?thesis
    by (auto simp: handleProvision_def Let_def plain_request split: sum.split option.split)
qed

lemma serve_api_step: "pe_sha env = sha \<Longrightarrow> request_step s sha st (snd (serve_api s r env st))"
proof -
  have "request_step s sha st (snd (serve_api_route s r v h env st))" for v h
    by (cases h) (auto intro: plain_request plain handleCreate_step handleProvision_step)
  then show ?thesis
    by (cases "serve_mux (api_mux s) (rq_Method r) (rq_Path r)") (auto simp: serve_api_def panel_mux_reply_def plain_request)
qed

lemma apiHandler_step: "pe_sha env = sha \<Longrightarrow> request_step s sha st (snd (apiHandler s r env st))"
  using serve_api_step [of env sha s "(incRequests st)\<lparr>pp_limiter := z\<rparr>" r for z]
  by (auto simp: apiHandler_def requireAuth_def Let_def plain_request split: prod.split limited_response.split)

lemma limit_login_step: "pe_sha env = sha \<Longrightarrow> plain_step s sha st (snd (limit_login (handleCloudLogin s r) env st))"
  using plain_login(1) [of s env "st\<lparr>pp_loginRL := z\<rparr>" r for z] plain_login(1)
  by (auto simp: limit_login_def split: option.split prod.split limited_response.split)

lemma serve_root_step: "pe_sha env = sha \<Longrightarrow> request_step s sha st (snd (serve_root_route s r h env st))"
  by (cases h) (auto simp: requireSessionToken_def open_stream_def metrics_handler_def Let_def plain_request split: sum.split option.split
      intro: plain_request plain limit_login_step apiHandler_step)

lemma panel_mux_step: "pe_sha env = sha \<Longrightarrow> request_step s sha st (snd (panel_mux s r env st))"
  by (cases "serve_mux (root_mux s) (rq_Method r) (rq_Path r)")
    (auto simp: panel_mux_def panel_mux_reply_def serve_root_step plain_request)

lemma panel_serve_step: "pe_sha env = sha \<Longrightarrow> request_step s sha st (snd (panel_serve s r env st))"
  by (auto simp: panel_serve_def hostDispatcher_def Let_def panel_mux_step plain_request plain_subdomain)

section \<open>Running a job\<close>

text \<open>A job takes its id out of flight, whatever becomes of the provisioning.\<close>

lemma bind_instance_step: "plain_step s sha st (bind_instance env what u i st)"
  by (auto simp: bind_instance_def split: sum.split prod.split intro!: plain_set_db dest: fleet_calls(7))

lemma panel_provision_step:
  assumes "pe_sha env = sha"
  shows "plain_step s sha st (snd (panel_provision s env req st))"
  using assms
  by (auto simp: panel_provision_def plain_step_def pp_db_def split: prod.split dest: fleet_Provision)

lemma run_job_step:
  assumes "pe_sha env = sha"
  shows "\<exists>st1. plain_step s sha st st1 \<and> run_job s env j st = clearInFlight (job_id j) st1"
proof (cases j)
  case (CreateJob body skillset role)
  let ?req = "provision_request_of s (cr_ID body) skillset role (cr_Owner body)"
  obtain x st1 where p: "panel_provision s env ?req st = (x, st1)" by fastforce
  have "plain_step s sha st st1" using panel_provision_step [OF assms, of s st ?req] p by simp
  with plain_step_trans [OF this bind_instance_step] have
    "plain_step s sha st (case x of Inl e \<Rightarrow> emitf env ''error'' (cr_ID body) (''provision failed: '' @ error_text e) st1
       | Inr _ \<Rightarrow> (if cl_Domain (pn_cloudCfg s) \<noteq> '''' \<and> cr_Owner body \<noteq> '''' \<and> pn_hasUsers s
                 then bind_instance env ''owner'' (cr_Owner body) (cr_ID body) st1 else st1))"
    by (auto split: sum.split)
  with p CreateJob show ?thesis unfolding run_job.simps CreateJob run_create_job_def Let_def job_id.simps p prod.case by blast
next
  case (ProvisionJob iid)
  let ?req = "provision_request_of s iid (pn_defaultSkillset s) (pn_defaultRole s) iid"
  obtain x st1 where p: "panel_provision s env ?req st = (x, st1)" by fastforce
  have st1: "plain_step s sha st st1" using panel_provision_step [OF assms, of s st ?req] p by simp
  moreover have "plain_step s sha st2 (rollbackUser iid st2)" for st2
    unfolding rollbackUser_def by (intro plain_set_db fleet_one step_user_delete)
  then have "plain_step s sha st (rollbackUser iid (emitf env t i m st1))" for t i m
    using plain_step_trans [of s sha st "emitf env t i m st1"] st1 by simp
  ultimately have "plain_step s sha st (case x of Inl e \<Rightarrow> rollbackUser iid (emitf env ''error'' iid (''provision failed: '' @ error_text e) st1)
       | Inr _ \<Rightarrow> bind_instance env ''user'' iid iid st1)"
    using plain_step_trans [OF st1 bind_instance_step] by (auto split: sum.split)
  then show ?thesis unfolding ProvisionJob run_job.simps run_provision_job_def job_id.simps p prod.case by blast
qed

section \<open>Ids in flight\<close>

definition jobs_inv :: "'w panel_state \<Rightarrow> bool" where
  "jobs_inv st \<longleftrightarrow>
     distinct (map job_id (pp_jobs st)) \<and> distinct (pp_inFlight st) \<and> set (pp_inFlight st) = set (map job_id (pp_jobs st))"

lemma request_step_inv: "request_step s sha st st' \<Longrightarrow> jobs_inv st \<Longrightarrow> jobs_inv st'"
  by (auto simp: request_step_def plain_step_def starts_job_def jobs_inv_def)

lemma jobs_inv_disconnect [simp]: "jobs_inv (sseDisconnect st) = jobs_inv st"
  by (simp add: jobs_inv_def sseDisconnect_def)

lemma distinct_ids_remove1:
  assumes "distinct (map job_id js)" "j \<in> set js"
  shows "set (map job_id (remove1 j js)) = set (map job_id js) - {job_id j}" "distinct (map job_id (remove1 j js))"
proof -
  have "distinct js" using assms(1) by (simp add: distinct_map)
  then show "set (map job_id (remove1 j js)) = set (map job_id js) - {job_id j}"
    using assms by (auto simp: distinct_map inj_on_def)
  show "distinct (map job_id (remove1 j js))" using assms(1) by (auto simp: distinct_map inj_on_def dest: notin_set_remove1)
qed

lemma job_step_inv:
  assumes "jobs_inv st" "j \<in> set (pp_jobs st)" "pe_sha env = sha"
  shows "jobs_inv (run_job s env j (take_job j st))" "pp_jobs (run_job s env j (take_job j st)) = remove1 j (pp_jobs st)"
proof -
  obtain st1 where st1: "plain_step s sha (take_job j st) st1" "run_job s env j (take_job j st) = clearInFlight (job_id j) st1"
    using run_job_step [OF assms(3)] by blast
  have d: "distinct (map job_id (pp_jobs st))" using assms(1) by (simp add: jobs_inv_def)
  show "pp_jobs (run_job s env j (take_job j st)) = remove1 j (pp_jobs st)"
    using st1 by (simp add: plain_step_def take_job_def)
  with st1 assms(1) distinct_ids_remove1 [OF d assms(2)] show "jobs_inv (run_job s env j (take_job j st))"
    by (simp add: jobs_inv_def plain_step_def take_job_def distinct_removeAll)
qed

lemma panel_step_inv: "panel_step s sha st st' \<Longrightarrow> jobs_inv st \<Longrightarrow> jobs_inv st'"
  by (induction rule: panel_step.induct) (auto intro: request_step_inv panel_serve_step job_step_inv(1) plain_request)

lemma panel_reachable_inv: "panel_reachable s sha st \<Longrightarrow> jobs_inv st"
proof (induction rule: panel_reachable.induct)
  case panel_init
  then show ?case by (simp add: jobs_inv_def)
qed (rule panel_step_inv)

fun run_jobs :: "'w panel \<Rightarrow> (panel_env \<times> job) list \<Rightarrow> 'w panel_state \<Rightarrow> 'w panel_state" where
  "run_jobs s [] st = st"
| "run_jobs s ((env, j) # js) st = run_jobs s js (run_job s env j (take_job j st))"

lemma run_jobs_inv:
  assumes "panel_reachable s sha st" "mset (map snd js) = mset (pp_jobs st)" "\<forall>x \<in> set js. pe_sha (fst x) = sha"
  shows "panel_reachable s sha (run_jobs s js st) \<and> pp_jobs (run_jobs s js st) = []"
  using assms
proof (induction s js st rule: run_jobs.induct)
  case (2 s env j js st)
  let ?st1 = "run_job s env j (take_job j st)"
  have j: "j \<in> set (pp_jobs st)" using mset_eq_setD [OF 2(3)] by auto
  have e: "pe_sha env = sha" using 2(4) by simp
  have "panel_reachable s sha ?st1" by (rule panel_more [OF 2(2) step_job [of env sha j st s, OF e j]])
  moreover have "mset (map snd js) = mset (pp_jobs ?st1)"
    using 2(3) job_step_inv(2) [OF panel_reachable_inv [OF 2(2)] j e, of s] by (simp add: union_single_eq_diff)
  ultimately show ?case using 2 by simp
qed simp


text \<open>A server that has accepted one request.\<close>

definition create_a :: create_request where
  "create_a = \<lparr>cr_ID = ''a'', cr_SkillsetPath = '''', cr_Role = '''', cr_Owner = ''''\<rparr>"

definition post_a :: panel_request where
  "post_a = (panel_get ''POST'' ''fox.io'' [''api'', ''instances''])\<lparr>
     rq_Headers := [(''Authorization'', ''Bearer 0123456789abcdef'')], rq_Body := no_body\<lparr>bp_create := Inr create_a\<rparr>\<rparr>"

definition posted :: "string list panel \<Rightarrow> string list panel_state" where
  "posted s = snd (panel_serve s post_a panel_env_sample (panel_start (empty_db [])))"

lemma posted_reachable: "panel_reachable s (\<lambda>x. x) (posted s)"
proof -
  have "panel_reachable s (\<lambda>x. x) (panel_start (empty_db []))"
    by (rule panel_init [of _ "[]"]) (simp_all add: panel_start_def pp_db_def)
  moreover have "pe_sha panel_env_sample = (\<lambda>x. x)" by (simp add: panel_env_sample_def)
  ultimately show ?thesis unfolding posted_def by (blast intro: panel_more step_request)
qed

definition configured :: "string list panel" where
  "configured = panel_sample\<lparr>pn_svc := service_of_config (fill_qdrant_dir (applyDefaults ''linux'' sample_config)) null_plugin (\<lambda>_. Inr '''')\<rparr>"

lemma posted_jobs: "pp_jobs (posted configured) = [CreateJob create_a '''' '''']"
  by code_simp

definition run_a :: "string list panel_state" where
  "run_a = run_jobs configured [(panel_env_sample, CreateJob create_a '''' '''')] (posted configured)"



lemma sample_sha: "pe_sha panel_env_sample = (\<lambda>x. x)"
  by (simp add: panel_env_sample_def)

lemma run_a_job:
  "mset (map snd [(panel_env_sample, CreateJob create_a '''' '''')]) = mset (pp_jobs (posted configured))"
  "\<forall>x \<in> set [(panel_env_sample, CreateJob create_a '''' '''')]. pe_sha (fst x) = (\<lambda>x. x)"
  by (simp_all only: posted_jobs sample_sha list.set list.map ball_simps fst_conv snd_conv simp_thms)


lemma run_a_reachable: "panel_reachable configured (\<lambda>x. x) run_a"
  using run_jobs_inv [OF posted_reachable run_a_job] unfolding run_a_def by blast

section \<open>The registry behind the server\<close>

lemma reserve_db_reachable:
  assumes "db_reachable sha db"
  shows "db_reachable sha (snd (reserve svc sha now rnd req name db))"
proof (cases "reserve svc sha now rnd req name db")
  case (Pair r db')
  have same: "db_reachable sha db2" if "same_tables db db2" for db2
    using assms that by (blast intro: reach_step step_update step_query)
  show ?thesis
  proof (cases r)
    case (Inr inst)
    then obtain db2 where "same_tables db db2" "Registry_Create sha now inst db2 = (Inr (), db')"
      using reserve_ok(6) Pair by blast
    then show ?thesis using reach_step [OF same step_create [of sha db2 now inst]] Pair by simp
  qed (use Pair same reserve_err in fastforce)
qed

lemma fleet_reachable_db: "fleet_reachable svc sha db \<Longrightarrow> db_reachable sha db"
proof (induction rule: fleet_reachable.induct)
  case (fleet_more db db')
  from fleet_more(2) show ?case
    by cases (use fleet_more(3) in \<open>auto intro: reserve_db_reachable reach_step step_update\<close>)
qed (rule reach_init)

lemma request_step_fleet: "request_step s sha st st' \<Longrightarrow> fleet_steps (pn_svc s) sha (pp_db st) (pp_db st')"
  by (auto simp: request_step_def plain_step_def starts_job_def)

lemma panel_step_fleet: "panel_step s sha st st' \<Longrightarrow> fleet_steps (pn_svc s) sha (pp_db st) (pp_db st')"
proof (induction rule: panel_step.induct)
  case (step_request env st r)
  then show ?case by (intro request_step_fleet panel_serve_step)
next
  case (step_stream_end st)
  have "plain_step s sha st (sseDisconnect st)" by simp
  then show ?case by (simp add: plain_step_def)
next
  case (step_job env j st)
  from run_job_step [OF step_job(1)] obtain st1 where
    "plain_step s sha (take_job j st) st1" "run_job s env j (take_job j st) = clearInFlight (job_id j) st1" by blast
  then show ?case by (simp add: plain_step_def) (simp add: take_job_def pp_db_def)
qed

lemma panel_reachable_fleet: "panel_reachable s sha st \<Longrightarrow> fleet_reachable (pn_svc s) sha (pp_db st)"
proof (induction rule: panel_reachable.induct)
  case (panel_init st faults)
  then show ?case by (simp add: fleet_init)
qed (blast intro: fleet_steps_reachable panel_step_fleet)

text \<open>C1: the server refines the registry's model: whatever requests it serves and in whatever order its
  jobs run, its database is one the registry's own steps reach. So with an accepted configuration the
  fleet never grows past the configured maximum, every instance has a port of its own in the configured
  range, names, tokens and bindings satisfy the database's invariant, and no two instances share a port.\<close>

theorem server_refines_registry:
  assumes "config_accepted cfg" "pn_svc s = service_of_config cfg plugin ym" "panel_reachable s sha st"
  shows "fleet_reachable (pn_svc s) sha (pp_db st) \<and> db_inv sha (pp_db st) \<and>
    int (length (db_instances (pp_db st))) \<le> ins_MaxInstances (Instances cfg) \<and>
    distinct (map inst_Port (db_instances (pp_db st))) \<and>
    (\<forall>i \<in> set (db_instances (pp_db st)). ins_PortStart (Instances cfg) \<le> inst_Port i \<and>
       inst_Port i < ins_PortStart (Instances cfg) + ins_MaxInstances (Instances cfg))"
proof -
  note f = panel_reachable_fleet [OF assms(3)]
  note svc = service_of_config_ok [OF assms(1), of plugin ym, folded assms(2)]
  have inv: "fleet_inv (pn_svc s) (pp_db st)" by (rule fleet_reachable_inv [OF f svc(1)])
  have db: "db_inv sha (pp_db st)" by (rule db_reachable_inv [OF fleet_reachable_db [OF f]])
  show ?thesis using f inv db svc(2,3) by (auto simp: fleet_inv_def db_inv_def instances_inv_def)
qed

theorem server_refines_registry_witness:
  "fleet_reachable (pn_svc configured) (\<lambda>x. x) (pp_db run_a) \<and> db_inv (\<lambda>x. x) (pp_db run_a)"
  using server_refines_registry [OF sample_config_accepted _ run_a_reachable]
  unfolding configured_def by simp

end
