(* ===== verification/Panel_Rollback.thy ===== *)
theory Panel_Rollback
  imports Panel_Jobs
begin

text \<open>
  The panel's ways back: a background provisioning that fails removes the account it was for, and an
  upgrade that fails asks the plugin for the previous image and leaves the registry alone.
\<close>

section \<open>A failed provisioning for a user\<close>

lemma reserve_users:
  assumes "reserve svc sha now rnd req name db = (r, db')"
  shows "db_cloud_users db' = db_cloud_users db \<and> db_cloud_sessions db' = db_cloud_sessions db"
proof (cases r)
  case (Inl e)
  then show ?thesis using reserve_err [of svc sha now rnd req name db e db'] assms by (simp add: same_tables_def)
next
  case (Inr inst)
  then obtain db2 where s: "same_tables db db2" and c: "Registry_Create sha now inst db2 = (Inr (), db')"
    using reserve_ok(6) assms by blast
  obtain n where "stmt_upsert_instance (create_row sha now inst) (db_tick db2) = Inr (n, db')"
    using c by (auto simp: Registry_Create_def db_exec_Inr split: prod.splits sum.splits)
  then show ?thesis using s by (auto simp: stmt_upsert_instance_def same_tables_def split: if_splits)
qed

lemma UpdateStatus_users:
  "db_cloud_users (snd (Registry_UpdateStatus iid s db)) = db_cloud_users db \<and>
   db_cloud_sessions (snd (Registry_UpdateStatus iid s db)) = db_cloud_sessions db"
  by (auto simp: Registry_UpdateStatus_def affected_or_not_found_def db_exec_def stmt_update_instance_def
      split: option.split sum.split prod.split)

lemma retryUpdateStatus_users:
  assumes "retryUpdateStatus iid s db = (r, db')"
  shows "db_cloud_users db' = db_cloud_users db \<and> db_cloud_sessions db' = db_cloud_sessions db"
proof -
  have "db_cloud_users (snd (retry n (\<lambda>d. Registry_UpdateStatus iid s d) err db)) = db_cloud_users db \<and>
      db_cloud_sessions (snd (retry n (\<lambda>d. Registry_UpdateStatus iid s d) err db)) = db_cloud_sessions db" for n err
  proof (induction n arbitrary: err db)
    case (Suc n)
    show ?case using Suc [of _ "snd (Registry_UpdateStatus iid s db)"] UpdateStatus_users [of iid s db]
      by (auto split: prod.split sum.split)
  qed simp
  with assms show ?thesis by (simp add: retryUpdateStatus_def) (metis snd_conv)
qed

lemma Registry_Delete_users:
  assumes "\<forall>u \<in> set (db_cloud_users db). usr_instance_id u \<noteq> Some iid"
  shows "db_cloud_users (snd (Registry_Delete iid db)) = db_cloud_users db \<and>
    db_cloud_sessions (snd (Registry_Delete iid db)) = db_cloud_sessions db"
proof -
  have "upd_where (\<lambda>u. usr_instance_id u = Some iid) f (db_cloud_users db) = db_cloud_users db" for f
    using assms by (auto simp: upd_where_def intro: map_idI)
  then show ?thesis
    by (auto simp: Registry_Delete_def affected_or_not_found_def db_exec_def stmt_delete_instance_def
        split: option.split sum.split prod.split)
qed

lemma deploy_users:
  assumes "deploy svc req inst st = (r, st')"
    and "\<forall>u \<in> set (db_cloud_users (ps_db st)). usr_instance_id u \<noteq> Some (rq_InstanceID req)"
  shows "db_cloud_users (ps_db st') = db_cloud_users (ps_db st) \<and> db_cloud_sessions (ps_db st') = db_cloud_sessions (ps_db st)"
  using assms Registry_Delete_users
  by (auto simp: deploy_def Let_def rollback_db split: prod.splits sum.splits dest!: retryUpdateStatus_users)

lemma Provision_err_users:
  assumes "Provision svc um sha now rnd req st = (Inl e, st')" "cloud_inv (ps_db st)"
  shows "db_cloud_users (ps_db st') = db_cloud_users (ps_db st) \<and> db_cloud_sessions (ps_db st') = db_cloud_sessions (ps_db st)"
proof -
  obtain p s1 where p: "precheck um req (ps_fs st) = (p, s1)" by fastforce
  show ?thesis
  proof (cases p)
    case (Inr name)
    obtain r db where r: "reserve svc sha now rnd req name (ps_db st) = (r, db)" by fastforce
    note u = reserve_users [OF r]
    show ?thesis
    proof (cases r)
      case ri: (Inr inst)
      have "inst_view (ps_db st) (rq_InstanceID req) = None" using reserve_ok(1) r ri by blast
      then have "\<forall>v \<in> set (db_cloud_users (ps_db st)). usr_instance_id v \<noteq> Some (rq_InstanceID req)"
        using assms(2) unfolding inst_view_None_iff cloud_inv_def bindings_exist_def by (metis imageE)
      with deploy_users [of svc req inst "st\<lparr>ps_fs := s1, ps_db := db\<rparr>" "Inl e" st'] assms(1) p Inr r ri u
      show ?thesis by (simp add: Provision_def)
    qed (use assms(1) p Inr r u in \<open>auto simp: Provision_def\<close>)
  qed (use assms(1) p in \<open>auto simp: Provision_def\<close>)
qed

lemma Provision_err_no_faults:
  assumes "Provision svc um sha now rnd req st = (Inl e, st')" "db_faults (ps_db st) = []"
  shows "db_faults (ps_db st') = []"
proof -
  have del: "db_faults (snd (Registry_Delete iid db)) = []" if "db_faults db = []" for iid db
    using that by (auto simp: Registry_Delete_def affected_or_not_found_def db_exec_def stmt_delete_instance_def db_fault_def db_tick_def
        split: option.split sum.split prod.split)
  have st: "db_faults db' = []" if "retryUpdateStatus iid s db = (x, db')" "db_faults db = []" for iid s x db db'
    using that retry_no_faults [of db registryRetries iid s "Inr ()"] by (simp add: retryUpdateStatus_def)
  have res: "db_faults db' = []" if "reserve svc sha now rnd req name (ps_db st) = (x, db')" for x db' name
    using reserve_no_faults [OF assms(2), of svc sha now rnd req name] that by simp
  have dep: "db_faults (ps_db s2) = []" if "deploy svc req inst s1 = (y, s2)" "db_faults (ps_db s1) = []" for inst s1 y s2
    using that del st
    by (auto simp: deploy_def Let_def rollback_db split: prod.splits sum.splits) 
  show ?thesis using assms res dep
    by (auto simp: Provision_def split: prod.splits sum.splits)
qed

lemma UserStore_Delete_no_faults:
  assumes "db_faults db = []"
  shows "db_cloud_users (snd (UserStore_Delete u db)) = del_where (\<lambda>x. nocase (usr_username x) u) (db_cloud_users db) \<and>
    db_instances (snd (UserStore_Delete u db)) = db_instances db"
proof -
  have "del_where (\<lambda>x. nocase (usr_username x) u) us = us" if "RowsAffected (\<lambda>x. nocase (usr_username x) u) us = 0" for us
    using that by (induction us) (auto simp: del_where_def RowsAffected_def split: if_splits)
  from this [of "db_cloud_users db"] show ?thesis using assms
    by (auto simp: UserStore_Delete_def user_affected_def db_exec_def stmt_delete_user_def Let_def db_fault_def db_tick_def
        split: option.split)
qed


text \<open>A provider that can deploy nothing.\<close>

definition provision_b :: panel_request where
  "provision_b = (panel_get ''POST'' ''fox.io'' [''api'', ''instances'', ''provision''])\<lparr>
     rq_Body := no_body\<lparr>bp_provision := Inr \<lparr>pv_Username = '''', pv_Password = ''password'', pv_Slug = ''bob''\<rparr>\<rparr>\<rparr>"

definition failing_panel :: "string list panel" where
  "failing_panel = panel_sample\<lparr>pn_svc := sample_service\<lparr>svc_plugin :=
     null_plugin\<lparr>pl_Provision := (\<lambda>r w. (Inl (Errorf ''image not found''), w))\<rparr>\<rparr>\<rparr>"

definition one_job :: "string list panel_state" where
  "one_job = snd (handleProvision failing_panel provision_b panel_env_sample (panel_start (empty_db [])))"


section \<open>Upgrades\<close>

definition recorded_digest :: "image_ref \<Rightarrow> string" where
  "recorded_digest target = (if img_Digest target = '''' then ''unknown'' else img_Digest target)"

lemma UpdateImageDigest_view:
  "inst_view (snd (Registry_UpdateImageDigest iid dg db)) \<in>
     {inst_view db, (inst_view db)(iid := map_option (\<lambda>i. i\<lparr>inst_ImageDigest := dg\<rparr>) (inst_view db iid))}"
proof (cases "Registry_UpdateImageDigest iid dg db")
  case (Pair r db')
  show ?thesis using Pair update_image.act_ok [of iid dg db _ db'] update_image.act_err [of iid dg db _ db']
    by (cases r) auto
qed

text \<open>The three ways an upgrade whose request is accepted ends: no change, the digest recorded, or the
  plugin asked for the previous image.\<close>

lemma upgrade_instance_cases:
  assumes "upgrade_instance s iid raw target env st = (rep, st')"
  shows "inst_view (pp_db st') = inst_view (pp_db st) \<and> rs_Code rep \<in> {200, 404, 500} \<and> (\<forall>m. rs_Body rep \<noteq> PError ''upgrade_failed'' m) \<or>
    (\<exists>i w e. inst_view (pp_db st) iid = Some i \<and> pl_Rollout (pn_plugin s) iid target (pp_world st) = (Inl e, w) \<and>
       inst_view (pp_db st') = inst_view (pp_db st) \<and> rs_Code rep = 500 \<and>
       pp_world st' = snd (pl_Rollback (pn_plugin s) iid \<lparr>img_Repository = img_Repository target, img_Digest = inst_ImageDigest i\<rparr> w)) \<or>
    (\<exists>i w. inst_view (pp_db st) iid = Some i \<and> pl_Rollout (pn_plugin s) iid target (pp_world st) = (Inr (), w) \<and>
       rs_Body rep = PUpgrade \<lparr>up_ID = iid, up_Status = ''upgraded'', up_PreviousDigest = inst_ImageDigest i,
                       up_CurrentDigest = recorded_digest target\<rparr> \<and>
       inst_view (pp_db st') \<in> {inst_view (pp_db st), (inst_view (pp_db st))(iid \<mapsto> i\<lparr>inst_ImageDigest := recorded_digest target\<rparr>)})"
proof -
  obtain g db where g: "Registry_Get iid (pp_db st) = (g, db)" by fastforce
  have same: "inst_view db = inst_view (pp_db st)" using Registry_Get_same [OF g] same_tables_view by blast
  show ?thesis
  proof (cases g)
    case (Inl e)
    then show ?thesis using assms g same
      by (auto simp: upgrade_instance_def instance_not_found_def writeError_def split: if_splits)
  next
    case (Inr i)
    have i: "inst_view (pp_db st) iid = Some i" using Registry_Get_Inr g Inr by blast
    obtain x w where x: "pl_Rollout (pn_plugin s) iid target (pp_world st) = (x, w)" by fastforce
    show ?thesis
    proof (cases "img_Digest target \<noteq> '''' \<and> inst_ImageDigest i = img_Digest target")
      case True
      then show ?thesis using assms g Inr same by (auto simp: upgrade_instance_def Let_def writeJSON_def)
    next
      case False
      show ?thesis
      proof (cases x)
        case (Inl e)
        then show ?thesis using assms g \<open>g = Inr i\<close> same i x False
          by (auto simp: upgrade_instance_def Let_def writeError_def)
      next
        case (Inr u)
        then show ?thesis using assms g \<open>g = Inr i\<close> same i x False UpdateImageDigest_view [of iid "recorded_digest target" db]
          by (auto simp: upgrade_instance_def Let_def writeJSON_def recorded_digest_def)
      qed
    qed
  qed
qed

text \<open>C13: an upgrade is all or nothing for the registry: it never touches another instance; the entry
  changes only after the plugin has rolled the target out, then to the target's digest (to
  \<^verbatim>\<open>unknown\<close> for a target without one) and nothing else of it; when the rollout fails the plugin is
  asked for the digest the instance had, and the registry stays as it was; and the id is free again
  afterwards.\<close>

theorem upgrade_all_or_nothing:
  assumes "handleUpgrade s r iid env st = (rep, st')"
  shows "pp_inFlight st' = pp_inFlight st \<and>
    (inst_view (pp_db st') = inst_view (pp_db st) \<or>
     (\<exists>raw target i w. bp_upgrade (rq_Body r) = Inr raw \<and> parseImageRef raw = Inr target \<and>
        pl_Rollout (pn_plugin s) iid target (pp_world st) = (Inr (), w) \<and> inst_view (pp_db st) iid = Some i \<and>
        inst_view (pp_db st') = (inst_view (pp_db st))(iid \<mapsto> i\<lparr>inst_ImageDigest := recorded_digest target\<rparr>))) \<and>
    (rs_Body rep = PError ''upgrade_failed'' m \<longrightarrow>
     (\<exists>raw target i w e. bp_upgrade (rq_Body r) = Inr raw \<and> parseImageRef raw = Inr target \<and>
        pl_Rollout (pn_plugin s) iid target (pp_world st) = (Inl e, w) \<and> inst_view (pp_db st) iid = Some i \<and>
        inst_view (pp_db st') = inst_view (pp_db st) \<and>
        pp_world st' = snd (pl_Rollback (pn_plugin s) iid
          \<lparr>img_Repository = img_Repository target, img_Digest = inst_ImageDigest i\<rparr> w)))"
proof (cases "\<exists>raw target. validInstanceID iid \<and> bp_upgrade (rq_Body r) = Inr raw \<and> raw \<noteq> '''' \<and> parseImageRef raw = Inr target \<and>
    iid \<notin> set (pp_inFlight st)")
  case False
  then have "st' = st" "\<forall>m. rs_Body rep \<noteq> PError ''upgrade_failed'' m"
    using assms by (auto simp: handleUpgrade_def bad_instance_id_def writeError_def split: if_splits sum.splits)
  then show ?thesis by simp
next
  case True
  then obtain raw target where t: "validInstanceID iid" "bp_upgrade (rq_Body r) = Inr raw" "raw \<noteq> ''''" "parseImageRef raw = Inr target"
    "iid \<notin> set (pp_inFlight st)" by blast
  let ?st1 = "st\<lparr>pp_inFlight := iid # pp_inFlight st\<rparr>"
  obtain st2 where u: "upgrade_instance s iid raw target env ?st1 = (rep, st2)" and st': "st' = clearInFlight iid st2"
    using assms t by (auto simp: handleUpgrade_def split: prod.splits)
  have eqs: "pp_db ?st1 = pp_db st" "pp_world ?st1 = pp_world st" by (simp_all add: pp_db_def pp_world_def)
  have fl: "pp_inFlight st' = pp_inFlight st"
    using plain_upgrade [of s undefined ?st1 iid raw target env] u t(5) by (simp add: plain_step_def st')
  have v: "inst_view (pp_db st') = inst_view (pp_db st2)" "pp_world st' = pp_world st2" by (simp_all add: st')
  from upgrade_instance_cases [OF u, unfolded eqs, folded v] show ?thesis
    by (elim disjE) (use fl t in auto)
qed

definition upgrade_b1 :: panel_request where
  "upgrade_b1 = (panel_get ''POST'' ''fox.io'' [''api'', ''instances'', ''b1'', ''upgrade''])\<lparr>
     rq_Body := no_body\<lparr>bp_upgrade := Inr ''ghcr.io/fox@sha256:22''\<rparr>\<rparr>"

definition failing_rollout :: "string list panel" where
  "failing_rollout = panel_sample\<lparr>pn_plugin := null_plugin\<lparr>pl_Rollout := (\<lambda>i t w. (Inl (Errorf ''pull failed''), w)),
     pl_Rollback := (\<lambda>i t w. (Inr (), img_Digest t # w))\<rparr>\<rparr>"

theorem upgrade_all_or_nothing_witness:
  "inst_view (pp_db (snd (handleUpgrade failing_rollout upgrade_b1 ''b1'' panel_env_sample (panel_start bob_db)))) = inst_view (pp_db (panel_start bob_db)) \<and>
   pp_world (snd (handleUpgrade failing_rollout upgrade_b1 ''b1'' panel_env_sample (panel_start bob_db))) = [''d1'']"
proof -
  let ?h = "handleUpgrade failing_rollout upgrade_b1 ''b1'' panel_env_sample (panel_start bob_db)"
  have b: "rs_Body (fst ?h) = PError ''upgrade_failed'' ''rollout failed for instance b1''" by code_simp
  have w: "pp_world (snd ?h) = [''d1'']" by code_simp
  have "?h = (fst ?h, snd ?h)" by simp
  from upgrade_all_or_nothing [OF this, of "''rollout failed for instance b1''"] b
  have "inst_view (pp_db (snd ?h)) = inst_view (pp_db (panel_start bob_db))" by blast
  then show ?thesis using w by blast
qed

end
