(* ===== verification/Panel_Access.thy ===== *)
theory Panel_Access
  imports Panel_Server
begin

text \<open>
  What a request without the operator's secret can do to the panel's server: open and close login
  sessions, and nothing else, whatever its host, path, method and body.
\<close>

section \<open>States that differ in sessions only\<close>

definition sessions_only :: "registry_db \<Rightarrow> registry_db \<Rightarrow> bool" where
  "sessions_only db db' \<longleftrightarrow> cloud_only db db' \<and> db_cloud_users db' = db_cloud_users db"

definition harmless :: "'w panel_state \<Rightarrow> 'w panel_state \<Rightarrow> bool" where
  "harmless st st' \<longleftrightarrow>
     sessions_only (pp_db st) (pp_db st') \<and> ps_fs (pp_prov st') = ps_fs (pp_prov st) \<and> pp_world st' = pp_world st \<and>
     pp_sources st' = pp_sources st \<and> pp_poller st' = pp_poller st \<and>
     pp_inFlight st' = pp_inFlight st \<and> pp_jobs st' = pp_jobs st \<and> pp_provisions st' = pp_provisions st"

lemma sessions_only_refl [simp]: "sessions_only db db"
  by (simp add: sessions_only_def cloud_only_def)

lemma sessions_only_trans: "sessions_only a b \<Longrightarrow> sessions_only b c \<Longrightarrow> sessions_only a c"
  by (simp add: sessions_only_def cloud_only_def)

lemma sessions_only_same: "same_tables db db' \<Longrightarrow> sessions_only db db'"
  by (simp add: sessions_only_def cloud_only_def same_tables_def)

lemma sessions_only_calls:
  "UserStore_Get u db = (r1, db') \<Longrightarrow> sessions_only db db'"
  "UserStore_Authenticate bcmp u p db = (r2, db') \<Longrightarrow> sessions_only db db'"
  "Registry_Get iid db = (r3, db') \<Longrightarrow> sessions_only db db'"
  "SessionStore_Create sha rnd t u ttl db = (r4, db') \<Longrightarrow> sessions_only db db'"
  "SessionStore_Delete sha tok db = (r5, db') \<Longrightarrow> sessions_only db db'"
  "SessionStore_Validate sha t tok db = (r6, db') \<Longrightarrow> sessions_only db db'"
proof -
  show "UserStore_Get u db = (r1, db') \<Longrightarrow> sessions_only db db'" by (metis sessions_only_same UserStore_Get_same snd_conv)
  show "UserStore_Authenticate bcmp u p db = (r2, db') \<Longrightarrow> sessions_only db db'"
    by (auto simp: UserStore_Authenticate_def db_query_def intro: sessions_only_same split: option.splits sum.splits)
  show "Registry_Get iid db = (r3, db') \<Longrightarrow> sessions_only db db'"
    by (auto simp: Registry_Get_def db_query_def intro: sessions_only_same split: option.splits sum.splits)
  have ex: "sessions_only db db'" if "db_exec stmt db = (r, db')"
    and "\<And>n d. stmt (db_tick db) = Inr (n, d) \<Longrightarrow> sessions_only (db_tick db) d" for stmt r and db db' :: registry_db
    using that sessions_only_trans [OF sessions_only_same [OF same_tables_tick]]
    by (auto simp: db_exec_def intro: sessions_only_same split: option.splits sum.splits)
  have ins: "db_exec (stmt_insert_session s) db = (r, db') \<Longrightarrow> sessions_only db db'" for s r db db'
    by (erule ex) (auto simp: stmt_insert_session_def sessions_only_def cloud_only_def split: if_splits)
  have del: "db_exec (stmt_delete_sessions P) db = (r, db') \<Longrightarrow> sessions_only db db'" for P r db db'
    by (erule ex) (auto simp: stmt_delete_sessions_def sessions_only_def cloud_only_def)
  have del2: "sessions_only db (snd (SessionStore_deleteByHash h db))" for h db
    by (auto simp: SessionStore_deleteByHash_def dest: del split: prod.split sum.split)
  show "SessionStore_Create sha rnd t u ttl db = (r4, db') \<Longrightarrow> sessions_only db db'"
    by (auto simp: SessionStore_Create_def Let_def dest: ins split: if_splits prod.splits sum.splits)
  show "SessionStore_Delete sha tok db = (r5, db') \<Longrightarrow> sessions_only db db'"
    using del2 [of db "sessionHash sha tok"] by (simp add: SessionStore_Delete_def)
  show "SessionStore_Validate sha t tok db = (r6, db') \<Longrightarrow> sessions_only db db'"
    using del2 [of "db_tick db" "sessionHash sha tok"] sessions_only_trans [OF sessions_only_same [OF same_tables_tick]]
    by (auto simp: SessionStore_Validate_def db_query_def Let_def intro: sessions_only_same split: option.splits if_splits)
qed

lemma harmless_refl [simp]: "harmless st st"
  by (simp add: harmless_def)

lemma harmless_trans: "harmless a b \<Longrightarrow> harmless b c \<Longrightarrow> harmless a c"
  by (auto simp: harmless_def intro: sessions_only_trans)

lemma harmless_parts [simp]:
  "harmless st (st'\<lparr>pp_limiter := z\<rparr>) = harmless st st'"
  "harmless st (st'\<lparr>pp_loginRL := u\<rparr>) = harmless st st'"
  "harmless st (incRequests st') = harmless st st'"
  "harmless st (sseConnect st') = harmless st st'"
  "harmless (st\<lparr>pp_loginRL := u\<rparr>) st' = harmless st st'"
  by (simp_all add: harmless_def pp_db_def pp_world_def incRequests_def sseConnect_def)

lemma harmless_set_db: "sessions_only (pp_db st) db \<Longrightarrow> harmless st (set_db db st)"
  by (simp add: harmless_def) (simp add: set_db_def)

section \<open>The handlers outside the API\<close>

lemma harmless_open_session: "harmless st (snd (open_session s u p env st))"
proof -
  obtain a db where a: "UserStore_Authenticate (pe_bcmp env) u p (pp_db st) = (a, db)" by fastforce
  obtain c db1 where c: "SessionStore_Create (pe_sha env) (pe_rnd env 0) (pe_now env) u (cl_SessionTTL (pn_cloudCfg s)) db = (c, db1)" by fastforce
  note f = sessions_only_calls(2) [OF a] sessions_only_calls(4) [OF c]
  show ?thesis using a c f sessions_only_trans [OF f]
    by (auto simp: open_session_def split: sum.split intro!: harmless_set_db)
qed

lemma harmless_pages:
  "harmless st (snd (handleCloudLogin s r env st))"
  "harmless st (snd (handleSubdomainLogin s r slug env st))"
  "harmless st (snd (handleCloudLogout s r env st))"
  "harmless st (snd (handleLegacyCloudRedirect env st))"
  "harmless st (snd (handleCloudRoot s r env st))"
  "harmless st (snd (handleCloudLoginPage s r env st))"
  "harmless st (snd (handleSubdomainLoginPage s r env st))"
  "harmless st (snd (handleTLSCheck s r env st))"
  "harmless st (snd (handleHealthz env st))"
  by (auto simp: handleCloudLogin_def handleSubdomainLogin_def harmless_open_session handleCloudLogout_def
      handleLegacyCloudRedirect_def handleCloudRoot_def handleCloudLoginPage_def handleSubdomainLoginPage_def
      handleTLSCheck_def handleHealthz_def Let_def split: sum.split prod.split
      intro!: harmless_set_db sessions_only_calls(5) [OF prod.collapse [symmetric]] dest: sessions_only_calls)

lemma harmless_proxy: "harmless st (snd (proxyToInstance r slug env st))"
proof -
  obtain g db where g: "UserStore_Get slug (pp_db st) = (g, db)" by fastforce
  note f = sessions_only_calls(1) [OF g]
  have f2: "Registry_Get iid db = (x, db1) \<Longrightarrow> sessions_only (pp_db st) db1" for iid x db1
    using f sessions_only_calls(3) by (blast intro: sessions_only_trans)
  show ?thesis using f f2 g
    by (auto simp: proxyToInstance_def Let_def split: sum.split prod.split intro!: harmless_set_db)
qed

lemma harmless_without_session: "harmless st (snd (without_session s r slug env st))"
proof -
  have "harmless st (snd (handleSubdomainLogin s r slug env (st\<lparr>pp_loginRL := z\<rparr>)))" for z
    using harmless_pages(2) [of "st\<lparr>pp_loginRL := z\<rparr>" s r slug env] by simp
  then show ?thesis
    by (auto simp: without_session_def subdomain_login_request_def harmless_pages split: option.split prod.split limited_response.split)
qed

lemma harmless_subdomain: "harmless st (snd (handleSubdomainRequest s r slug env st))"
proof (cases "SessionStore_Validate (pe_sha env) (pe_now env) (cookie_value r (cl_CookieName (pn_cloudCfg s))) (pp_db st)")
  case (Pair v db)
  have f: "harmless st (set_db db st)" by (rule harmless_set_db [OF sessions_only_calls(6) [OF Pair]])
  show ?thesis
    using Pair f harmless_trans [OF f harmless_proxy] harmless_trans [OF f harmless_without_session] harmless_without_session
    by (auto simp: handleSubdomainRequest_def Let_def harmless_pages split: sum.split)
qed

lemma harmless_root:
  assumes "extractToken r \<noteq> pn_secret s"
  shows "harmless st (snd (serve_root_route s r h env st))"
proof (cases h)
  case RApi
  with assms show ?thesis
    by (auto simp: apiHandler_def requireAuth_def Let_def split: prod.split limited_response.split)
next
  case RLogin
  have "harmless st (snd (handleCloudLogin s r env (st\<lparr>pp_loginRL := z\<rparr>)))" for z
    using harmless_pages(1) [of "st\<lparr>pp_loginRL := z\<rparr>" s r env] by simp
  then show ?thesis using RLogin
    by (auto simp: limit_login_def harmless_pages split: option.split prod.split limited_response.split)
next
  case RStream
  then show ?thesis by (auto simp: requireSessionToken_def open_stream_def Let_def split: sum.split option.split)
qed (auto simp: harmless_pages metrics_handler_def)


definition anonymous_delete :: panel_request where
  "anonymous_delete = panel_get ''DELETE'' ''fox.io'' [''api'', ''instances'', ''a'']"


end
