(* ===== verification/Registry_Migrate.thy ===== *)
theory Registry_Migrate
  imports Registry "HOL-Library.AList"
begin

text \<open>
  Opening the registry (\<^verbatim>\<open>Open\<close>, \<^verbatim>\<open>migrate\<close> and the list of migrations of
  \<^verbatim>\<open>internal/registry/registry.go\<close>). A database file holds tables with their columns, indexes, the
  schema's version and the rows. A column that a table does not have yet is read in the rows as its
  default, the empty string. Every statement is a driver call that may fail (\<open>db_faults\<close>); a
  migration runs in a transaction, so a failing one leaves no trace but the calls it made.
\<close>

section \<open>A database file\<close>

record disk_db =
  dk_tables :: "(string \<times> string list) list"
  dk_indexes :: "string list"
  dk_version :: "int option"
  dk_rows :: registry_db

definition has_table :: "disk_db \<Rightarrow> string \<Rightarrow> bool" where
  "has_table d t \<longleftrightarrow> map_of (dk_tables d) t \<noteq> None"

definition has_column :: "disk_db \<Rightarrow> string \<Rightarrow> string \<Rightarrow> bool" where
  "has_column d t c \<longleftrightarrow> (case map_of (dk_tables d) t of None \<Rightarrow> False | Some cs \<Rightarrow> c \<in> set cs)"

definition dk_tick :: "disk_db \<Rightarrow> disk_db" where
  "dk_tick d = d\<lparr>dk_rows := db_tick (dk_rows d)\<rparr>"

definition dk_exec :: "(disk_db \<Rightarrow> go_error + disk_db) \<Rightarrow> disk_db \<Rightarrow> unit result \<times> disk_db" where
  "dk_exec stmt d =
     (case db_fault (dk_rows d) of
        Some e \<Rightarrow> (Inl e, dk_tick d)
      | None \<Rightarrow> (case stmt (dk_tick d) of Inl e \<Rightarrow> (Inl e, dk_tick d) | Inr d1 \<Rightarrow> (Inr (), d1)))"

definition dk_rollback :: "disk_db \<Rightarrow> disk_db \<Rightarrow> disk_db" where
  "dk_rollback d0 d = d0\<lparr>dk_rows := tx_rollback (dk_rows d0) (dk_rows d)\<rparr>"

section \<open>Statements\<close>

definition no_statement :: "disk_db \<Rightarrow> go_error + disk_db" where
  "no_statement d = Inr d"

text \<open>\<^verbatim>\<open>CREATE TABLE IF NOT EXISTS\<close>: a new table has no rows.\<close>

definition create_table :: "string \<Rightarrow> string list \<Rightarrow> (registry_db \<Rightarrow> registry_db) \<Rightarrow> disk_db \<Rightarrow> go_error + disk_db" where
  "create_table t cs clear d =
     Inr (if has_table d t then d else d\<lparr>dk_tables := (t, cs) # dk_tables d, dk_rows := clear (dk_rows d)\<rparr>)"

text \<open>\<^verbatim>\<open>ALTER TABLE instances ADD COLUMN ... NOT NULL DEFAULT ''\<close>: \<open>reset\<close> writes the default.\<close>

definition add_column :: "string \<Rightarrow> (instance_row \<Rightarrow> instance_row) \<Rightarrow> disk_db \<Rightarrow> go_error + disk_db" where
  "add_column c reset d =
     (case map_of (dk_tables d) ''instances'' of
        None \<Rightarrow> Inl (Errorf ''no such table: instances'')
      | Some cs \<Rightarrow>
          (if c \<in> set cs then Inl (Errorf (''duplicate column name: '' @ c))
           else Inr (d\<lparr>dk_tables := AList.update ''instances'' (cs @ [c]) (dk_tables d),
                       dk_rows := (dk_rows d)\<lparr>db_instances := map reset (db_instances (dk_rows d))\<rparr>\<rparr>)))"

text \<open>\<^verbatim>\<open>CREATE INDEX IF NOT EXISTS\<close>; a unique index is refused when the rows clash.\<close>

definition create_index :: "string \<Rightarrow> string \<Rightarrow> string \<Rightarrow> (registry_db \<Rightarrow> bool) \<Rightarrow> disk_db \<Rightarrow> go_error + disk_db" where
  "create_index i t c clash d =
     (if i \<in> set (dk_indexes d) then Inr d
      else if \<not> has_table d t then Inl (Errorf (''no such table: '' @ t))
      else if \<not> has_column d t c then Inl (Errorf (''no such column: '' @ c))
      else if clash (dk_rows d) then Inl (Errorf ''UNIQUE constraint failed'')
      else Inr (d\<lparr>dk_indexes := i # dk_indexes d\<rparr>))"

definition needs_columns :: "string list \<Rightarrow> (disk_db \<Rightarrow> go_error + disk_db) \<Rightarrow> disk_db \<Rightarrow> go_error + disk_db" where
  "needs_columns cs stmt d =
     (case filter (\<lambda>c. \<not> has_column d ''instances'' c) cs of
        [] \<Rightarrow> stmt d | c # _ \<Rightarrow> Inl (Errorf (''no such column: '' @ c)))"

definition stmt_set_hash :: "string \<Rightarrow> string \<Rightarrow> disk_db \<Rightarrow> go_error + disk_db" where
  "stmt_set_hash iid h d =
     Inr (d\<lparr>dk_rows := (dk_rows d)\<lparr>db_instances :=
            upd_where (\<lambda>r. inst_ID r = iid) (\<lambda>r. r\<lparr>row_query_token_hash := h\<rparr>) (db_instances (dk_rows d))\<rparr>\<rparr>)"

text \<open>The statements of a migration up to the first that fails, and statements whose error is
  dropped.\<close>

fun run_stmts :: "(disk_db \<Rightarrow> go_error + disk_db) list \<Rightarrow> disk_db \<Rightarrow> unit result \<times> disk_db" where
  "run_stmts [] d = (Inr (), d)"
| "run_stmts (s # ss) d =
     (case dk_exec s d of (Inl e, d1) \<Rightarrow> (Inl e, d1) | (Inr _, d1) \<Rightarrow> run_stmts ss d1)"

fun run_ignoring :: "(disk_db \<Rightarrow> go_error + disk_db) list \<Rightarrow> disk_db \<Rightarrow> disk_db" where
  "run_ignoring [] d = d"
| "run_ignoring (s # ss) d = run_ignoring ss (snd (dk_exec s d))"

section \<open>Migrations\<close>

definition base_columns :: "string list" where
  "base_columns = [''id'', ''image_digest'', ''port'', ''data_dir'', ''status'', ''created_at'']"

definition migration1 :: "disk_db \<Rightarrow> unit result \<times> disk_db" where
  "migration1 = run_stmts
     [create_table ''instances'' (base_columns @ [''skillset_name'', ''principal_role'']) (\<lambda>b. b\<lparr>db_instances := []\<rparr>)]"

definition migration2 :: "disk_db \<Rightarrow> unit result \<times> disk_db" where
  "migration2 d =
     (Inr (), run_ignoring
       [add_column ''skillset_name'' (\<lambda>r. r\<lparr>inst_SkillsetName := ''''\<rparr>),
        add_column ''principal_role'' (\<lambda>r. r\<lparr>inst_PrincipalRole := ''''\<rparr>),
        add_column ''query_token'' (\<lambda>r. r\<lparr>inst_QueryToken := ''''\<rparr>)] d)"

definition migration3 :: "disk_db \<Rightarrow> unit result \<times> disk_db" where
  "migration3 = run_stmts
     [create_table ''signing_keys'' [''id'', ''key'', ''active'', ''created_at'']
        (\<lambda>b. b\<lparr>db_signing_keys := [], db_next_key_id := 1\<rparr>)]"

fun hash_pairs :: "(string \<Rightarrow> string) \<Rightarrow> (string \<times> string) list \<Rightarrow> disk_db \<Rightarrow> unit result \<times> disk_db" where
  "hash_pairs sha [] d = (Inr (), d)"
| "hash_pairs sha ((iid, token) # ps) d =
     (case dk_exec (stmt_set_hash iid (tokenHash sha token)) d of
        (Inl e, d1) \<Rightarrow> (Inl e, d1) | (Inr _, d1) \<Rightarrow> hash_pairs sha ps d1)"

definition unhashed :: "disk_db \<Rightarrow> (string \<times> string) list" where
  "unhashed d =
     map (\<lambda>r. (inst_ID r, inst_QueryToken r))
       (sel_where (\<lambda>r. inst_QueryToken r \<noteq> '''' \<and> row_query_token_hash r = '''') (db_instances (dk_rows d)))"

definition migration4 :: "(string \<Rightarrow> string) \<Rightarrow> disk_db \<Rightarrow> unit result \<times> disk_db" where
  "migration4 sha d =
     (let d1 = run_ignoring [add_column ''query_token_hash'' (\<lambda>r. r\<lparr>row_query_token_hash := ''''\<rparr>)] d in
      case run_stmts [create_index ''idx_instances_query_token_hash'' ''instances'' ''query_token_hash'' (\<lambda>_. False),
                      needs_columns [''id'', ''query_token'', ''query_token_hash''] no_statement] d1 of
        (Inl e, d2) \<Rightarrow> (Inl e, d2)
      | (Inr _, d2) \<Rightarrow> hash_pairs sha (unhashed d2) d2)"

definition bindings_clash :: "registry_db \<Rightarrow> bool" where
  "bindings_clash b \<longleftrightarrow> \<not> distinct (filter (\<lambda>i. i \<noteq> None) (map usr_instance_id (db_cloud_users b)))"

definition migration5 :: "disk_db \<Rightarrow> unit result \<times> disk_db" where
  "migration5 = run_stmts
     [create_table ''cloud_users'' [''username'', ''password_hash'', ''instance_id'', ''created_at'', ''updated_at'']
        (\<lambda>b. b\<lparr>db_cloud_users := []\<rparr>),
      create_index ''idx_cloud_users_instance'' ''cloud_users'' ''instance_id'' bindings_clash]"

definition migration6 :: "disk_db \<Rightarrow> unit result \<times> disk_db" where
  "migration6 = run_stmts
     [create_table ''cloud_sessions'' [''token_hash'', ''user_id'', ''created_at'', ''expires_at'']
        (\<lambda>b. b\<lparr>db_cloud_sessions := []\<rparr>),
      create_index ''idx_cloud_sessions_user'' ''cloud_sessions'' ''user_id'' (\<lambda>_. False),
      create_index ''idx_cloud_sessions_expires'' ''cloud_sessions'' ''expires_at'' (\<lambda>_. False)]"

definition migration7 :: "disk_db \<Rightarrow> unit result \<times> disk_db" where
  "migration7 = run_stmts
     [add_column ''plane_auth_token'' (\<lambda>r. r\<lparr>inst_PlaneAuthToken := ''''\<rparr>),
      add_column ''instance_password'' (\<lambda>r. r\<lparr>inst_InstancePassword := ''''\<rparr>)]"

definition migrations :: "(string \<Rightarrow> string) \<Rightarrow> (disk_db \<Rightarrow> unit result \<times> disk_db) list" where
  "migrations sha = [migration1, migration2, migration3, migration4 sha, migration5, migration6, migration7]"

section \<open>Opening\<close>

definition schemaVersion :: "disk_db \<Rightarrow> int result \<times> disk_db" where
  "schemaVersion d =
     (case dk_exec (create_table ''schema_version'' [''version''] (\<lambda>b. b)) d of
        (Inl e, d1) \<Rightarrow> (Inl (Wrap ''registry: create schema_version'' e), d1)
      | (Inr _, d1) \<Rightarrow>
          (case dk_exec no_statement d1 of
             (Inl e, d2) \<Rightarrow> (Inl e, d2)
           | (Inr _, d2) \<Rightarrow> (Inr (case dk_version d2 of None \<Rightarrow> 0 | Some v \<Rightarrow> v), d2)))"

definition setSchemaVersion :: "int \<Rightarrow> disk_db \<Rightarrow> unit result \<times> disk_db" where
  "setSchemaVersion v = run_stmts [\<lambda>d. Inr (d\<lparr>dk_version := None\<rparr>), \<lambda>d. Inr (d\<lparr>dk_version := Some v\<rparr>)]"

text \<open>One turn of the loop: begin, migrate, set the version, commit.\<close>

definition migration_step ::
  "nat \<Rightarrow> (disk_db \<Rightarrow> unit result \<times> disk_db) \<Rightarrow> disk_db \<Rightarrow> unit result \<times> disk_db" where
  "migration_step i m d0 =
     (let n = nat_str (i + 1) in
      case dk_exec no_statement d0 of
        (Inl e, d) \<Rightarrow> (Inl (Wrap (''registry: begin migration '' @ n) e), d)
      | (Inr _, d) \<Rightarrow>
          (case m d of
             (Inl e, d1) \<Rightarrow> (Inl (Wrap (''registry: migration '' @ n @ '' failed'') e), dk_rollback d0 d1)
           | (Inr _, d1) \<Rightarrow>
               (case setSchemaVersion (int i + 1) d1 of
                  (Inl e, d2) \<Rightarrow> (Inl (Wrap (''registry: set schema version '' @ n) e), dk_rollback d0 d2)
                | (Inr _, d2) \<Rightarrow>
                    (case dk_exec no_statement d2 of
                       (Inl e, d3) \<Rightarrow> (Inl (Wrap (''registry: commit migration '' @ n) e), dk_rollback d0 d3)
                     | (Inr _, d3) \<Rightarrow> (Inr (), d3)))))"

fun run_migrations ::
  "nat \<Rightarrow> (disk_db \<Rightarrow> unit result \<times> disk_db) list \<Rightarrow> disk_db \<Rightarrow> unit result \<times> disk_db" where
  "run_migrations i [] d = (Inr (), d)"
| "run_migrations i (m # ms) d =
     (case migration_step i m d of (Inl e, d1) \<Rightarrow> (Inl e, d1) | (Inr _, d1) \<Rightarrow> run_migrations (i + 1) ms d1)"

text \<open>The queries of \<^verbatim>\<open>backfillQueryTokens\<close> name two columns; the first update that needs a missing one
  fails.\<close>

definition dk_backfill ::
  "(string \<Rightarrow> string) \<Rightarrow> (nat \<Rightarrow> string result) \<Rightarrow> disk_db \<Rightarrow> unit result \<times> disk_db" where
  "dk_backfill sha rnd d =
     (if \<not> has_column d ''instances'' ''query_token''
      then dk_exec (\<lambda>_. Inl (Errorf ''no such column: query_token'')) d
      else if \<not> has_column d ''instances'' ''query_token_hash'' then
        (case dk_exec no_statement d of
           (Inl e, d1) \<Rightarrow> (Inl e, d1)
         | (Inr _, d1) \<Rightarrow>
             (if \<forall>r \<in> set (db_instances (dk_rows d1)). inst_QueryToken r \<noteq> '''' then (Inr (), d1)
              else case GenerateQueryToken (rnd 0) of
                Inl e \<Rightarrow> (Inl e, d1)
              | Inr _ \<Rightarrow> dk_exec (\<lambda>_. Inl (Errorf ''no such column: query_token_hash'')) d1))
      else (case backfillQueryTokens sha rnd (dk_rows d) of (r, b) \<Rightarrow> (r, d\<lparr>dk_rows := b\<rparr>)))"

text \<open>\<open>None\<close>: a negative version is an index out of range and panics.\<close>

definition migrate ::
  "(string \<Rightarrow> string) \<Rightarrow> (nat \<Rightarrow> string result) \<Rightarrow> disk_db \<Rightarrow> (unit result \<times> disk_db) option" where
  "migrate sha rnd d =
     (case schemaVersion d of
        (Inl e, d1) \<Rightarrow> Some (Inl (Wrap ''registry: read schema version'' e), d1)
      | (Inr v, d1) \<Rightarrow>
          (if v < 0 then None
           else case run_migrations (nat v) (drop (nat v) (migrations sha)) d1 of
             (Inl e, d2) \<Rightarrow> Some (Inl e, d2)
           | (Inr _, d2) \<Rightarrow>
               (case dk_backfill sha rnd d2 of
                  (Inl e, d3) \<Rightarrow> Some (Inl (Wrap ''registry: backfill query tokens'' e), d3)
                | (Inr _, d3) \<Rightarrow> Some (Inr (), d3))))"

fun open_pragmas :: "string list \<Rightarrow> disk_db \<Rightarrow> unit result \<times> disk_db" where
  "open_pragmas [] d = (Inr (), d)"
| "open_pragmas (p # ps) d =
     (case dk_exec no_statement d of
        (Inl e, d1) \<Rightarrow> (Inl (Wrap (''registry: '' @ p) e), d1) | (Inr _, d1) \<Rightarrow> open_pragmas ps d1)"

definition Registry_Open ::
  "(string \<Rightarrow> string) \<Rightarrow> (nat \<Rightarrow> string result) \<Rightarrow> string \<Rightarrow> disk_db \<Rightarrow> (unit result \<times> disk_db) option" where
  "Registry_Open sha rnd path d =
     (case open_pragmas [''open '' @ path, ''enable WAL'', ''set busy timeout'', ''enable foreign keys''] d of
        (Inl e, d1) \<Rightarrow> Some (Inl e, d1)
      | (Inr _, d1) \<Rightarrow> migrate sha rnd d1)"

section \<open>Well-formed files\<close>

definition defaults_ok :: "disk_db \<Rightarrow> bool" where
  "defaults_ok d \<longleftrightarrow> (\<forall>r \<in> set (db_instances (dk_rows d)).
     (has_column d ''instances'' ''skillset_name'' \<or> inst_SkillsetName r = '''') \<and>
     (has_column d ''instances'' ''principal_role'' \<or> inst_PrincipalRole r = '''') \<and>
     (has_column d ''instances'' ''query_token'' \<or> inst_QueryToken r = '''') \<and>
     (has_column d ''instances'' ''query_token_hash'' \<or> row_query_token_hash r = '''') \<and>
     (has_column d ''instances'' ''plane_auth_token'' \<or> inst_PlaneAuthToken r = '''') \<and>
     (has_column d ''instances'' ''instance_password'' \<or> inst_InstancePassword r = ''''))"

definition rows_ok :: "(string \<Rightarrow> string) \<Rightarrow> nat \<Rightarrow> registry_db \<Rightarrow> bool" where
  "rows_ok sha v b \<longleftrightarrow>
     distinct (map inst_ID (db_instances b)) \<and>
     (\<forall>r \<in> set (db_instances b). row_query_token_hash r = '''' \<or> row_query_token_hash r = tokenHash sha (inst_QueryToken r)) \<and>
     (4 \<le> v \<longrightarrow> (\<forall>r \<in> set (db_instances b). inst_QueryToken r \<noteq> '''' \<longrightarrow> row_query_token_hash r = tokenHash sha (inst_QueryToken r)))"

definition tables_ok :: "nat \<Rightarrow> disk_db \<Rightarrow> bool" where
  "tables_ok v d \<longleftrightarrow>
     (has_table d ''instances'' \<or> v = 0 \<and> db_instances (dk_rows d) = []) \<and>
     (has_table d ''signing_keys'' \<longleftrightarrow> 3 \<le> v) \<and> (has_table d ''cloud_users'' \<longleftrightarrow> 5 \<le> v) \<and> (has_table d ''cloud_sessions'' \<longleftrightarrow> 6 \<le> v) \<and>
     (3 \<le> v \<or> db_signing_keys (dk_rows d) = [] \<and> db_next_key_id (dk_rows d) = 1) \<and>
     (5 \<le> v \<or> db_cloud_users (dk_rows d) = []) \<and> (6 \<le> v \<or> db_cloud_sessions (dk_rows d) = [])"

definition columns_ok :: "nat \<Rightarrow> disk_db \<Rightarrow> bool" where
  "columns_ok v d \<longleftrightarrow>
     (has_table d ''instances'' \<longrightarrow> (\<forall>c \<in> set base_columns. has_column d ''instances'' c)) \<and>
     (2 \<le> v \<longrightarrow> has_column d ''instances'' ''skillset_name'' \<and> has_column d ''instances'' ''principal_role'' \<and>
        has_column d ''instances'' ''query_token'') \<and>
     (4 \<le> v \<longrightarrow> has_column d ''instances'' ''query_token_hash'') \<and>
     (has_column d ''instances'' ''plane_auth_token'' \<longleftrightarrow> 7 \<le> v) \<and> (has_column d ''instances'' ''instance_password'' \<longleftrightarrow> 7 \<le> v)"

text \<open>A file of version \<open>v\<close>. Version 0 includes files from before the schema was versioned: their table
  of instances may exist already, with some of the later columns or none.\<close>

definition schema_at :: "(string \<Rightarrow> string) \<Rightarrow> nat \<Rightarrow> disk_db \<Rightarrow> bool" where
  "schema_at sha v d \<longleftrightarrow> tables_ok v d \<and> columns_ok v d \<and> defaults_ok d \<and> rows_ok sha v (dk_rows d)"

definition read_version :: "disk_db \<Rightarrow> int" where
  "read_version d = (case dk_version d of None \<Rightarrow> 0 | Some v \<Rightarrow> v)"

definition file_at :: "(string \<Rightarrow> string) \<Rightarrow> nat \<Rightarrow> disk_db \<Rightarrow> bool" where
  "file_at sha v d \<longleftrightarrow> read_version d = int v \<and> schema_at sha v d"

text \<open>What opening keeps: every row but an empty token and the hashes, and every other table.\<close>

definition row_kept :: "instance_row \<Rightarrow> instance_row \<Rightarrow> bool" where
  "row_kept r r' \<longleftrightarrow>
     r'\<lparr>inst_QueryToken := inst_QueryToken r, row_query_token_hash := row_query_token_hash r\<rparr> = r \<and>
     (inst_QueryToken r \<noteq> '''' \<longrightarrow> inst_QueryToken r' = inst_QueryToken r)"

definition kept :: "registry_db \<Rightarrow> registry_db \<Rightarrow> bool" where
  "kept b b' \<longleftrightarrow>
     list_all2 row_kept (db_instances b) (db_instances b') \<and> db_signing_keys b' = db_signing_keys b \<and>
     db_next_key_id b' = db_next_key_id b \<and> db_cloud_users b' = db_cloud_users b \<and> db_cloud_sessions b' = db_cloud_sessions b"

lemma row_kept_refl [simp]: "row_kept r r"
  by (simp add: row_kept_def)

lemma row_kept_trans: "row_kept r s \<Longrightarrow> row_kept s t \<Longrightarrow> row_kept r t"
proof -
  assume a: "row_kept r s" "row_kept s t"
  have s: "s = t\<lparr>inst_QueryToken := inst_QueryToken s, row_query_token_hash := row_query_token_hash s\<rparr>"
    using a(2) by (simp add: row_kept_def)
  have "s\<lparr>inst_QueryToken := inst_QueryToken r, row_query_token_hash := row_query_token_hash r\<rparr> =
      t\<lparr>inst_QueryToken := inst_QueryToken r, row_query_token_hash := row_query_token_hash r\<rparr>"
    by (subst s) simp
  with a show ?thesis by (auto simp: row_kept_def)
qed

lemma kept_same: "same_tables b b' \<Longrightarrow> kept b b'"
  by (simp add: kept_def same_tables_def list_all2_refl)

lemma kept_trans: "kept a b \<Longrightarrow> kept b c \<Longrightarrow> kept a c"
  unfolding kept_def using list_all2_trans [where ?P1.0 = row_kept and ?P2.0 = row_kept and ?P3.0 = row_kept] row_kept_trans by (metis (no_types, lifting))

lemma kept_refl [simp]: "kept b b"
  by (simp add: kept_same)

lemma kept_tick [simp]: "kept b (db_tick b)"
  by (simp add: kept_same)

section \<open>Driver calls on a file\<close>

lemma dk_tick_simps [simp]:
  "dk_tables (dk_tick d) = dk_tables d" "dk_indexes (dk_tick d) = dk_indexes d" "dk_version (dk_tick d) = dk_version d"
  "dk_rows (dk_tick d) = db_tick (dk_rows d)"
  "has_table (dk_tick d) = has_table d" "has_column (dk_tick d) = has_column d"
  by (simp_all add: dk_tick_def has_table_def has_column_def fun_eq_iff)

lemma dk_exec_ok:
  "dk_exec s d = (Inr u, d') \<longleftrightarrow> db_fault (dk_rows d) = None \<and> s (dk_tick d) = Inr d'"
  by (auto simp: dk_exec_def split: option.splits sum.splits)

lemma no_fault: "db_faults b = [] \<Longrightarrow> db_fault b = None"
  by (simp add: db_fault_def)

text \<open>\<open>schema_at\<close> reads only the columns, the existence of tables and the rows.\<close>

definition alike :: "disk_db \<Rightarrow> disk_db \<Rightarrow> bool" where
  "alike d d' \<longleftrightarrow> has_table d' = has_table d \<and> has_column d' = has_column d \<and> same_tables (dk_rows d) (dk_rows d')"

lemma alike_schema: "alike d d' \<Longrightarrow> schema_at sha v d' = schema_at sha v d"
  by (simp add: alike_def schema_at_def tables_ok_def columns_ok_def defaults_ok_def rows_ok_def same_tables_def)

lemma alike_kept: "alike d d' \<Longrightarrow> kept (dk_rows d) (dk_rows d')"
  by (simp add: alike_def kept_same)

lemma alike_refl [simp]: "alike d d" "alike d (dk_tick d)"
  by (simp_all add: alike_def)

lemma alike_trans: "alike a b \<Longrightarrow> alike b c \<Longrightarrow> alike a c"
  unfolding alike_def by (metis same_tables_trans)

lemma alike_rollback: "alike d (dk_rollback d d')" "dk_version (dk_rollback d d') = dk_version d"
  by (simp_all add: alike_def dk_rollback_def has_table_def has_column_def fun_eq_iff)

lemma no_statement_alike: "dk_exec no_statement d = (r, d') \<Longrightarrow> alike d d' \<and> dk_version d' = dk_version d"
  by (auto simp: dk_exec_def no_statement_def split: option.splits)

lemma no_statement_ok: "db_faults (dk_rows d) = [] \<Longrightarrow> dk_exec no_statement d = (Inr (), dk_tick d)"
  by (simp add: dk_exec_def no_statement_def no_fault)

text \<open>A column added to rows that read it as its default already.\<close>

lemma add_column_snd:
  assumes "has_table d ''instances''" "\<forall>r \<in> set (db_instances (dk_rows d)). has_column d ''instances'' c \<or> reset r = r"
  shows "has_table (snd (dk_exec (add_column c reset) d)) = has_table d"
    and "has_column (snd (dk_exec (add_column c reset) d)) t x \<longleftrightarrow>
      has_column d t x \<or> t = ''instances'' \<and> x = c \<and> db_fault (dk_rows d) = None"
    and "same_tables (dk_rows d) (dk_rows (snd (dk_exec (add_column c reset) d)))"
    and "db_faults (dk_rows (snd (dk_exec (add_column c reset) d))) = tl (db_faults (dk_rows d))"
    and "dk_version (snd (dk_exec (add_column c reset) d)) = dk_version d"
proof -
  obtain cs where cs: "map_of (dk_tables d) ''instances'' = Some cs" using assms(1) by (auto simp: has_table_def)
  have "map reset (db_instances (dk_rows d)) = db_instances (dk_rows d)" if "c \<notin> set cs"
    using assms(2) that cs by (simp add: has_column_def map_idI)
  note [simp] = this cs
  show "has_table (snd (dk_exec (add_column c reset) d)) = has_table d"
    "has_column (snd (dk_exec (add_column c reset) d)) t x \<longleftrightarrow>
      has_column d t x \<or> t = ''instances'' \<and> x = c \<and> db_fault (dk_rows d) = None"
    "same_tables (dk_rows d) (dk_rows (snd (dk_exec (add_column c reset) d)))"
    "db_faults (dk_rows (snd (dk_exec (add_column c reset) d))) = tl (db_faults (dk_rows d))"
    "dk_version (snd (dk_exec (add_column c reset) d)) = dk_version d"
    by (auto simp: dk_exec_def add_column_def has_table_def has_column_def update_conv' same_tables_def fun_eq_iff
        split: option.splits)
qed

section \<open>Each migration\<close>

lemma run_stmts_ok:
  "run_stmts (s # ss) d = (Inr (), d') \<longleftrightarrow> (\<exists>d1. dk_exec s d = (Inr (), d1) \<and> run_stmts ss d1 = (Inr (), d'))"
  "run_stmts [] d = (Inr (), d') \<longleftrightarrow> d' = d"
  by (auto split: prod.splits sum.splits)

lemma create_table_new:
  assumes "create_table t cs clear d = Inr d'" "\<not> has_table d t"
  shows "has_table d' = (has_table d)(t := True)" "has_column d' = (has_column d)(t := \<lambda>c. c \<in> set cs)"
    "dk_rows d' = clear (dk_rows d)" "dk_version d' = dk_version d" "dk_indexes d' = dk_indexes d"
  using assms by (auto simp: create_table_def has_table_def has_column_def fun_eq_iff)

lemma create_table_old: "has_table d t \<Longrightarrow> create_table t cs clear d = Inr d' \<longleftrightarrow> d' = d"
  by (auto simp: create_table_def)

lemma create_index_alike: "create_index i t c clash d = Inr d' \<Longrightarrow> alike d d' \<and> dk_version d' = dk_version d"
  by (auto simp: create_index_def alike_def has_table_def has_column_def fun_eq_iff split: if_splits)

lemma has_column_table: "has_column d t c \<Longrightarrow> has_table d t"
  by (auto simp: has_column_def has_table_def split: option.splits)

lemmas schema_defs = schema_at_def tables_ok_def columns_ok_def defaults_ok_def rows_ok_def

lemma migration1_ok:
  assumes "schema_at sha 0 d" "migration1 d = (Inr (), d')"
  shows "schema_at sha 1 d'" "kept (dk_rows d) (dk_rows d')"
proof -
  let ?t = "create_table ''instances'' (base_columns @ [''skillset_name'', ''principal_role'']) (\<lambda>b. b\<lparr>db_instances := []\<rparr>)"
  from assms(2) have t: "?t (dk_tick d) = Inr d'"
    by (auto simp: migration1_def run_stmts_ok dk_exec_ok simp del: run_stmts.simps)
  have s: "schema_at sha 0 (dk_tick d)" using assms(1) alike_schema alike_refl(2) by blast
  have "schema_at sha 1 d' \<and> kept (dk_rows (dk_tick d)) (dk_rows d')"
  proof (cases "has_table (dk_tick d) ''instances''")
    case True
    with t s show ?thesis by (auto simp: create_table_old schema_defs)
  next
    case False
    note n = create_table_new [OF t False]
    from s False have "db_instances (dk_rows (dk_tick d)) = []" by (simp add: schema_defs)
    then have "dk_rows d' = dk_rows (dk_tick d)" using n(3) by simp
    with s n False show ?thesis by (auto simp: schema_defs base_columns_def)
  qed
  then show "schema_at sha 1 d'" "kept (dk_rows d) (dk_rows d')"
    using kept_trans [OF kept_tick] by auto
qed

lemma migration2_ok:
  assumes "schema_at sha 1 d" "migration2 d = (r, d')" "db_faults (dk_rows d) = []"
  shows "schema_at sha 2 d'" "kept (dk_rows d) (dk_rows d')"
proof -
  define d1 where "d1 = snd (dk_exec (add_column ''skillset_name'' (\<lambda>r. r\<lparr>inst_SkillsetName := ''''\<rparr>)) d)"
  define d2 where "d2 = snd (dk_exec (add_column ''principal_role'' (\<lambda>r. r\<lparr>inst_PrincipalRole := ''''\<rparr>)) d1)"
  have d': "d' = snd (dk_exec (add_column ''query_token'' (\<lambda>r. r\<lparr>inst_QueryToken := ''''\<rparr>)) d2)"
    using assms(2) by (simp add: migration2_def d1_def d2_def)
  have t: "has_table d ''instances''" using assms(1) by (simp add: schema_defs)
  have a: "\<forall>r \<in> set (db_instances (dk_rows d)). has_column d ''instances'' ''skillset_name'' \<or> r\<lparr>inst_SkillsetName := ''''\<rparr> = r"
    using assms(1) by (auto simp: schema_defs)
  note 1 = add_column_snd [OF t a, folded d1_def]
  have t1: "has_table d1 ''instances''" using 1(1) t by simp
  have "\<forall>r \<in> set (db_instances (dk_rows d1)). has_column d1 ''instances'' ''principal_role'' \<or> r\<lparr>inst_PrincipalRole := ''''\<rparr> = r"
    using assms(1) 1(2,3) by (auto simp: schema_defs same_tables_def)
  note 2 = add_column_snd [OF t1 this, folded d2_def]
  have t2: "has_table d2 ''instances''" using 2(1) t1 by simp
  have "\<forall>r \<in> set (db_instances (dk_rows d2)). has_column d2 ''instances'' ''query_token'' \<or> r\<lparr>inst_QueryToken := ''''\<rparr> = r"
    using assms(1) 1(2,3) 2(2,3) by (auto simp: schema_defs same_tables_def)
  note 3 = add_column_snd [OF t2 this, folded d']
  have f: "db_fault (dk_rows d) = None" "db_fault (dk_rows d1) = None" "db_fault (dk_rows d2) = None"
    using assms(3) 1(4) 2(4) by (simp_all add: db_fault_def)
  have s: "same_tables (dk_rows d) (dk_rows d')" using 1(3) 2(3) 3(3) same_tables_trans by blast
  then show "kept (dk_rows d) (dk_rows d')" by (rule kept_same)
  show "schema_at sha 2 d'" using assms(1) s 1(1,2) 2(1,2) 3(1,2) f
    by (auto simp add: schema_defs same_tables_def)
qed

lemma migration3_ok:
  assumes "schema_at sha 2 d" "migration3 d = (Inr (), d')"
  shows "schema_at sha 3 d'" "kept (dk_rows d) (dk_rows d')"
proof -
  from assms(2) have t: "create_table ''signing_keys'' [''id'', ''key'', ''active'', ''created_at'']
      (\<lambda>b. b\<lparr>db_signing_keys := [], db_next_key_id := 1\<rparr>) (dk_tick d) = Inr d'"
    by (auto simp: migration3_def run_stmts_ok dk_exec_ok simp del: run_stmts.simps)
  have s: "schema_at sha 2 (dk_tick d)" using assms(1) alike_schema alike_refl(2) by blast
  then have no: "\<not> has_table (dk_tick d) ''signing_keys''" by (simp add: schema_defs)
  note n = create_table_new [OF t no]
  have r: "dk_rows d' = dk_rows (dk_tick d)" using n(3) s by (simp add: schema_defs)
  then show "kept (dk_rows d) (dk_rows d')" by simp
  show "schema_at sha 3 d'" using s n r by (auto simp: schema_defs)
qed

lemma migration5_ok:
  assumes "schema_at sha 4 d" "migration5 d = (Inr (), d')"
  shows "schema_at sha 5 d'" "kept (dk_rows d) (dk_rows d')"
proof -
  from assms(2) obtain d1 where t: "create_table ''cloud_users'' [''username'', ''password_hash'', ''instance_id'', ''created_at'', ''updated_at'']
      (\<lambda>b. b\<lparr>db_cloud_users := []\<rparr>) (dk_tick d) = Inr d1"
    and i: "create_index ''idx_cloud_users_instance'' ''cloud_users'' ''instance_id'' bindings_clash (dk_tick d1) = Inr d'"
    by (auto simp: migration5_def run_stmts_ok dk_exec_ok simp del: run_stmts.simps)
  have s: "schema_at sha 4 (dk_tick d)" using assms(1) alike_schema alike_refl(2) by blast
  then have no: "\<not> has_table (dk_tick d) ''cloud_users''" by (simp add: schema_defs)
  note n = create_table_new [OF t no]
  have r: "dk_rows d1 = dk_rows (dk_tick d)" using n(3) s by (simp add: schema_defs)
  have "schema_at sha 5 d1" using s n r by (auto simp add: schema_defs)
  moreover have a: "alike d1 d'" using create_index_alike [OF i] alike_trans alike_refl(2) by blast
  ultimately show "schema_at sha 5 d'" using alike_schema by blast
  show "kept (dk_rows d) (dk_rows d')" using alike_kept [OF a] r kept_trans kept_tick by (metis dk_tick_simps(4))
qed

lemma migration6_ok:
  assumes "schema_at sha 5 d" "migration6 d = (Inr (), d')"
  shows "schema_at sha 6 d'" "kept (dk_rows d) (dk_rows d')"
proof -
  from assms(2) obtain d1 d2 where t: "create_table ''cloud_sessions'' [''token_hash'', ''user_id'', ''created_at'', ''expires_at'']
      (\<lambda>b. b\<lparr>db_cloud_sessions := []\<rparr>) (dk_tick d) = Inr d1"
    and i: "create_index ''idx_cloud_sessions_user'' ''cloud_sessions'' ''user_id'' (\<lambda>_. False) (dk_tick d1) = Inr d2"
      "create_index ''idx_cloud_sessions_expires'' ''cloud_sessions'' ''expires_at'' (\<lambda>_. False) (dk_tick d2) = Inr d'"
    by (auto simp: migration6_def run_stmts_ok dk_exec_ok simp del: run_stmts.simps)
  have s: "schema_at sha 5 (dk_tick d)" using assms(1) alike_schema alike_refl(2) by blast
  then have no: "\<not> has_table (dk_tick d) ''cloud_sessions''" by (simp add: schema_defs)
  note n = create_table_new [OF t no]
  have r: "dk_rows d1 = dk_rows (dk_tick d)" using n(3) s by (simp add: schema_defs)
  have "schema_at sha 6 d1" using s n r by (auto simp add: schema_defs)
  moreover have a: "alike d1 d'" using i [THEN create_index_alike] alike_trans alike_refl(2) by blast
  ultimately show "schema_at sha 6 d'" using alike_schema by blast
  show "kept (dk_rows d) (dk_rows d')" using alike_kept [OF a] r kept_trans kept_tick by (metis dk_tick_simps(4))
qed

lemma migration7_ok:
  assumes "schema_at sha 6 d" "migration7 d = (Inr (), d')"
  shows "schema_at sha 7 d'" "kept (dk_rows d) (dk_rows d')"
proof -
  from assms(2) obtain d1 where
    e: "dk_exec (add_column ''plane_auth_token'' (\<lambda>r. r\<lparr>inst_PlaneAuthToken := ''''\<rparr>)) d = (Inr (), d1)"
      "dk_exec (add_column ''instance_password'' (\<lambda>r. r\<lparr>inst_InstancePassword := ''''\<rparr>)) d1 = (Inr (), d')"
    by (auto simp: migration7_def run_stmts_ok simp del: run_stmts.simps)
  then have f: "db_fault (dk_rows d) = None" "db_fault (dk_rows d1) = None" by (simp_all add: dk_exec_ok)
  have t: "has_table d ''instances''" using assms(1) by (simp add: schema_defs)
  have "\<forall>r \<in> set (db_instances (dk_rows d)). has_column d ''instances'' ''plane_auth_token'' \<or> r\<lparr>inst_PlaneAuthToken := ''''\<rparr> = r"
    using assms(1) by (auto simp: schema_defs)
  note 1 = add_column_snd [OF t this, unfolded e(1) snd_conv]
  have t1: "has_table d1 ''instances''" using 1(1) t by simp
  have "\<forall>r \<in> set (db_instances (dk_rows d1)). has_column d1 ''instances'' ''instance_password'' \<or> r\<lparr>inst_InstancePassword := ''''\<rparr> = r"
    using assms(1) 1(2,3) by (auto simp: schema_defs same_tables_def)
  note 2 = add_column_snd [OF t1 this, unfolded e(2) snd_conv]
  have s: "same_tables (dk_rows d) (dk_rows d')" using 1(3) 2(3) same_tables_trans by blast
  then show "kept (dk_rows d) (dk_rows d')" by (rule kept_same)
  show "schema_at sha 7 d'" using assms(1) s 1(1,2) 2(1,2) f by (auto simp: schema_defs same_tables_def)
qed

text \<open>The fourth migration: a missing column stops it, so after it the hashes exist and are right.\<close>

definition set_hash :: "(string \<Rightarrow> string) \<Rightarrow> instance_row \<Rightarrow> instance_row" where
  "set_hash sha r = r\<lparr>row_query_token_hash := tokenHash sha (inst_QueryToken r)\<rparr>"

lemma hash_pairs_ok:
  "hash_pairs sha ps d = (Inr (), d') \<Longrightarrow> distinct (map inst_ID (db_instances (dk_rows d))) \<Longrightarrow>
   set ps \<subseteq> (\<lambda>r. (inst_ID r, inst_QueryToken r)) ` set (db_instances (dk_rows d)) \<Longrightarrow>
   has_table d' = has_table d \<and> has_column d' = has_column d \<and>
   same_tables ((dk_rows d)\<lparr>db_instances := map (\<lambda>r. if inst_ID r \<in> fst ` set ps then set_hash sha r else r) (db_instances (dk_rows d))\<rparr>) (dk_rows d')"
proof (induction ps arbitrary: d)
  case Nil
  then show ?case by (simp add: same_tables_def)
next
  case (Cons p ps)
  obtain iid token where p: "p = (iid, token)" by force
  let ?rows = "db_instances (dk_rows d)"
  from Cons.prems(1) p obtain d1 where e: "dk_exec (stmt_set_hash iid (tokenHash sha token)) d = (Inr (), d1)"
    and h: "hash_pairs sha ps d1 = (Inr (), d')" by (auto split: prod.splits sum.splits)
  have tok: "inst_QueryToken r = token" if "r \<in> set ?rows" "inst_ID r = iid" for r
  proof -
    from Cons.prems(3) p obtain r0 where "r0 \<in> set ?rows" "inst_ID r0 = iid" "inst_QueryToken r0 = token" by auto
    with that Cons.prems(2) show ?thesis by (metis distinct_map inj_onD)
  qed
  have r1: "db_instances (dk_rows d1) = map (\<lambda>r. if inst_ID r = iid then set_hash sha r else r) ?rows"
    using e tok by (auto simp: dk_exec_ok stmt_set_hash_def upd_where_def set_hash_def)
  have o1: "has_table d1 = has_table d" "has_column d1 = has_column d"
    "db_signing_keys (dk_rows d1) = db_signing_keys (dk_rows d)" "db_next_key_id (dk_rows d1) = db_next_key_id (dk_rows d)"
    "db_cloud_users (dk_rows d1) = db_cloud_users (dk_rows d)" "db_cloud_sessions (dk_rows d1) = db_cloud_sessions (dk_rows d)"
    using e by (auto simp: dk_exec_ok stmt_set_hash_def has_table_def has_column_def fun_eq_iff)
  have ids: "map inst_ID (db_instances (dk_rows d1)) = map inst_ID ?rows" by (simp add: r1 set_hash_def)
  have "map (\<lambda>r. (inst_ID r, inst_QueryToken r)) (db_instances (dk_rows d1)) = map (\<lambda>r. (inst_ID r, inst_QueryToken r)) ?rows"
    by (simp add: r1 set_hash_def)
  then have "set (map (\<lambda>r. (inst_ID r, inst_QueryToken r)) (db_instances (dk_rows d1))) = set (map (\<lambda>r. (inst_ID r, inst_QueryToken r)) ?rows)"
    by (rule arg_cong)
  then have sub: "set ps \<subseteq> (\<lambda>r. (inst_ID r, inst_QueryToken r)) ` set (db_instances (dk_rows d1))"
    using Cons.prems(3) unfolding set_map by auto
  have sh: "inst_ID (set_hash sha r) = inst_ID r" "set_hash sha (set_hash sha r) = set_hash sha r" for r
    by (simp_all add: set_hash_def)
  have "(if inst_ID (if inst_ID r = iid then set_hash sha r else r) \<in> fst ` set ps then set_hash sha (if inst_ID r = iid then set_hash sha r else r)
        else (if inst_ID r = iid then set_hash sha r else r)) = (if inst_ID r \<in> fst ` set (p # ps) then set_hash sha r else r)" for r
    by (cases "inst_ID r = iid"; cases "inst_ID r \<in> fst ` set ps") (simp_all add: p sh)
  then have m: "map (\<lambda>r. if inst_ID r \<in> fst ` set ps then set_hash sha r else r) (db_instances (dk_rows d1)) =
      map (\<lambda>r. if inst_ID r \<in> fst ` set (p # ps) then set_hash sha r else r) ?rows"
    unfolding r1 map_map comp_def by (intro map_cong refl)
  have "distinct (map inst_ID (db_instances (dk_rows d1)))" using Cons.prems(2) ids by simp
  from Cons.IH [OF h this sub, unfolded m] show ?case unfolding same_tables_def o1 by (simp add: o1)
qed

definition hash_missing :: "(string \<Rightarrow> string) \<Rightarrow> instance_row \<Rightarrow> instance_row" where
  "hash_missing sha r = (if inst_QueryToken r \<noteq> '''' \<and> row_query_token_hash r = '''' then set_hash sha r else r)"

lemma hash_missing_simps [simp]:
  "inst_ID (hash_missing sha r) = inst_ID r" "inst_QueryToken (hash_missing sha r) = inst_QueryToken r"
  "inst_SkillsetName (hash_missing sha r) = inst_SkillsetName r" "inst_PrincipalRole (hash_missing sha r) = inst_PrincipalRole r"
  "inst_PlaneAuthToken (hash_missing sha r) = inst_PlaneAuthToken r" "inst_InstancePassword (hash_missing sha r) = inst_InstancePassword r"
  "row_kept r (hash_missing sha r)"
  by (simp_all add: hash_missing_def set_hash_def row_kept_def)

lemma hash_unhashed:
  assumes "hash_pairs sha (unhashed d) d = (Inr (), d')" "distinct (map inst_ID (db_instances (dk_rows d)))"
  shows "has_table d' = has_table d" "has_column d' = has_column d"
    "same_tables ((dk_rows d)\<lparr>db_instances := map (hash_missing sha) (db_instances (dk_rows d))\<rparr>) (dk_rows d')"
proof -
  have inj: "inj_on inst_ID (set (db_instances (dk_rows d)))" using assms(2) by (simp add: distinct_map)
  have "(if inst_ID r \<in> fst ` set (unhashed d) then set_hash sha r else r) = hash_missing sha r"
    if "r \<in> set (db_instances (dk_rows d))" for r
    using that inj by (auto simp: hash_missing_def unhashed_def sel_where_def image_image dest: inj_onD)
  then have eq: "map (\<lambda>r. if inst_ID r \<in> fst ` set (unhashed d) then set_hash sha r else r) (db_instances (dk_rows d)) =
      map (hash_missing sha) (db_instances (dk_rows d))" by (intro map_cong refl)
  have sub: "set (unhashed d) \<subseteq> (\<lambda>r. (inst_ID r, inst_QueryToken r)) ` set (db_instances (dk_rows d))"
    by (auto simp: unhashed_def sel_where_def)
  show "has_table d' = has_table d" "has_column d' = has_column d"
    "same_tables ((dk_rows d)\<lparr>db_instances := map (hash_missing sha) (db_instances (dk_rows d))\<rparr>) (dk_rows d')"
    using hash_pairs_ok [OF assms sub, unfolded eq] by blast+
qed

lemma hash_missing_hash:
  "row_query_token_hash (hash_missing sha r) =
     (if inst_QueryToken r \<noteq> '''' \<and> row_query_token_hash r = '''' then tokenHash sha (inst_QueryToken r) else row_query_token_hash r)"
  by (simp add: hash_missing_def set_hash_def)

lemma rows_ok_hash_missing:
  assumes "rows_ok sha 3 b" "db_instances b' = map (hash_missing sha) (db_instances b)"
  shows "rows_ok sha 4 b'"
  using assms(1) unfolding rows_ok_def assms(2) by (auto simp: comp_def hash_missing_hash)

lemma migration4_ok:
  assumes "schema_at sha 3 d" "migration4 sha d = (Inr (), d')"
  shows "schema_at sha 4 d'" "kept (dk_rows d) (dk_rows d')"
proof -
  define d1 where "d1 = snd (dk_exec (add_column ''query_token_hash'' (\<lambda>r. r\<lparr>row_query_token_hash := ''''\<rparr>)) d)"
  from assms(2) obtain d2 d3 where i: "create_index ''idx_instances_query_token_hash'' ''instances'' ''query_token_hash'' (\<lambda>_. False) (dk_tick d1) = Inr d2"
    and q: "needs_columns [''id'', ''query_token'', ''query_token_hash''] no_statement (dk_tick d2) = Inr d3"
    and h: "hash_pairs sha (unhashed d3) d3 = (Inr (), d')"
    by (auto simp: migration4_def Let_def d1_def [symmetric] run_stmts_ok dk_exec_ok simp del: run_stmts.simps
        split: prod.splits sum.splits)
  have t: "has_table d ''instances''" using assms(1) by (simp add: schema_defs)
  have "\<forall>r \<in> set (db_instances (dk_rows d)). has_column d ''instances'' ''query_token_hash'' \<or> r\<lparr>row_query_token_hash := ''''\<rparr> = r"
    using assms(1) by (auto simp: schema_defs)
  note 1 = add_column_snd [OF t this, folded d1_def]
  have d3: "d3 = dk_tick d2" "has_column d2 ''instances'' ''query_token_hash''"
    using q by (auto simp: needs_columns_def no_statement_def split: if_splits list.splits)
  have a: "alike d1 d3" using create_index_alike [OF i] alike_trans alike_refl(2) d3(1) by blast
  have s3: "same_tables (dk_rows d) (dk_rows d3)" using a 1(3) same_tables_trans unfolding alike_def by blast
  have "distinct (map inst_ID (db_instances (dk_rows d3)))" using assms(1) s3 by (simp add: schema_defs same_tables_def)
  note n = hash_unhashed [OF h this]
  have rows: "db_instances (dk_rows d') = map (hash_missing sha) (db_instances (dk_rows d))"
    using n(3) s3 by (simp add: same_tables_def)
  show "kept (dk_rows d) (dk_rows d')"
    using n(3) s3 unfolding kept_def rows by (auto simp: same_tables_def list.rel_map intro!: list.rel_refl_strong)
  have cols: "has_table d' = has_table d" "has_column d' ''instances'' ''query_token_hash''"
    "\<And>t x. x \<noteq> ''query_token_hash'' \<Longrightarrow> has_column d' t x = has_column d t x"
    using a 1(1,2) n(1,2) d3 by (auto simp: alike_def)
  have "rows_ok sha 4 (dk_rows d')" using assms(1) rows_ok_hash_missing [OF _ rows] by (simp add: schema_at_def)
  moreover have "defaults_ok d'" using assms(1) cols unfolding defaults_ok_def rows by (auto simp: schema_defs)
  moreover have "tables_ok 4 d' \<and> columns_ok 4 d'"
    using assms(1) cols n(3) s3 by (simp add: schema_defs same_tables_def base_columns_def)
  ultimately show "schema_at sha 4 d'" by (simp add: schema_at_def)
qed

section \<open>Without failing calls every migration succeeds\<close>

definition quiet :: "disk_db \<Rightarrow> bool" where
  "quiet d \<longleftrightarrow> db_faults (dk_rows d) = []"

lemma dk_exec_quiet:
  "quiet d \<Longrightarrow> dk_exec s d = (case s (dk_tick d) of Inl e \<Rightarrow> (Inl e, dk_tick d) | Inr d1 \<Rightarrow> (Inr (), d1))"
  by (simp add: quiet_def dk_exec_def no_fault)

lemma quiet_tick [simp]: "quiet d \<Longrightarrow> quiet (dk_tick d)"
  by (simp add: quiet_def)

lemma add_column_quiet: "quiet d \<Longrightarrow> quiet (snd (dk_exec (add_column c reset) d))"
  by (simp add: dk_exec_quiet) (auto simp: add_column_def quiet_def split: option.splits sum.splits)

lemma create_table_quiet:
  "quiet d \<Longrightarrow> (\<And>b. db_faults (clear b) = db_faults b) \<Longrightarrow>
     \<exists>d1. dk_exec (create_table t cs clear) d = (Inr (), d1) \<and> quiet d1 \<and> create_table t cs clear (dk_tick d) = Inr d1"
  by (simp add: dk_exec_quiet create_table_def) (simp add: quiet_def)

lemma create_index_quiet:
  assumes "quiet d" "has_column d t c" "\<not> clash (dk_rows (dk_tick d))"
  shows "\<exists>d1. dk_exec (create_index i t c clash) d = (Inr (), d1) \<and> quiet d1 \<and> alike d d1"
proof -
  have "has_table d t" using assms(2) has_column_table by blast
  then obtain d1 where c: "create_index i t c clash (dk_tick d) = Inr d1" "quiet d1"
    using assms by (cases "i \<in> set (dk_indexes d)") (simp_all add: create_index_def quiet_def)
  then have "alike d d1" using create_index_alike alike_trans alike_refl(2) by blast
  with c assms(1) show ?thesis by (simp add: dk_exec_quiet)
qed

lemma create_index_plain:
  "quiet d \<Longrightarrow> has_column d t c \<Longrightarrow> \<exists>d1. dk_exec (create_index i t c (\<lambda>_. False)) d = (Inr (), d1) \<and> quiet d1 \<and> alike d d1"
  by (rule create_index_quiet) simp_all

definition succeeds :: "(disk_db \<Rightarrow> unit result \<times> disk_db) \<Rightarrow> disk_db \<Rightarrow> bool" where
  "succeeds m d \<longleftrightarrow> fst (m d) = Inr () \<and> quiet (snd (m d))"

lemma one_table_succeeds:
  "quiet d \<Longrightarrow> (\<And>b. db_faults (clear b) = db_faults b) \<Longrightarrow> succeeds (run_stmts [create_table t cs clear]) d"
  using create_table_quiet [of d clear t cs] by (auto simp: succeeds_def)

lemma migration123_succeeds:
  assumes "quiet d"
  shows "succeeds migration1 d" "succeeds migration2 d" "succeeds migration3 d"
proof -
  show "succeeds migration1 d" "succeeds migration3 d"
    unfolding migration1_def migration3_def by (rule one_table_succeeds [OF assms]; simp)+
  show "succeeds migration2 d" using assms by (simp add: succeeds_def migration2_def add_column_quiet)
qed

lemma hash_pairs_quiet: "quiet d \<Longrightarrow> succeeds (hash_pairs sha ps) d"
proof (induction ps arbitrary: d)
  case (Cons p ps)
  obtain iid token where p: "p = (iid, token)" by force
  have "quiet (snd (dk_exec (stmt_set_hash iid (tokenHash sha token)) d)) \<and> fst (dk_exec (stmt_set_hash iid (tokenHash sha token)) d) = Inr ()"
    using Cons.prems by (simp add: dk_exec_quiet stmt_set_hash_def) (simp add: quiet_def)
  with Cons.IH show ?case by (auto simp: succeeds_def p split: prod.splits)
qed (simp add: succeeds_def)

lemma migration4_succeeds:
  assumes "quiet d" "schema_at sha 3 d"
  shows "succeeds (migration4 sha) d"
proof -
  define d1 where "d1 = snd (dk_exec (add_column ''query_token_hash'' (\<lambda>r. r\<lparr>row_query_token_hash := ''''\<rparr>)) d)"
  have q1: "quiet d1" unfolding d1_def by (rule add_column_quiet [OF assms(1)])
  have t: "has_table d ''instances''" using assms(2) by (simp add: schema_defs)
  have "\<forall>r \<in> set (db_instances (dk_rows d)). has_column d ''instances'' ''query_token_hash'' \<or> r\<lparr>row_query_token_hash := ''''\<rparr> = r"
    using assms(2) by (auto simp: schema_defs)
  note 1 = add_column_snd [OF t this, folded d1_def]
  have "db_fault (dk_rows d) = None" using assms(1) by (simp add: quiet_def no_fault)
  with 1 assms(2) have c1: "has_column d1 ''instances'' ''query_token_hash''" "has_column d1 ''instances'' ''id''" "has_column d1 ''instances'' ''query_token''"
    by (auto simp: schema_defs base_columns_def)
  obtain d2 where d2: "dk_exec (create_index ''idx_instances_query_token_hash'' ''instances'' ''query_token_hash'' (\<lambda>_. False)) d1 = (Inr (), d2)"
    "quiet d2" "alike d1 d2" using create_index_plain [OF q1 c1(1)] by blast
  have "dk_exec (needs_columns [''id'', ''query_token'', ''query_token_hash''] no_statement) d2 = (Inr (), dk_tick d2)"
    using d2(2,3) c1 by (simp add: dk_exec_quiet needs_columns_def no_statement_def alike_def)
  with d2 have "migration4 sha d = hash_pairs sha (unhashed (dk_tick d2)) (dk_tick d2)"
    by (simp add: migration4_def d1_def [symmetric])
  then show ?thesis using hash_pairs_quiet [of "dk_tick d2" sha "unhashed (dk_tick d2)"] d2(2) by (simp add: succeeds_def)
qed

lemma migration5_succeeds:
  assumes "quiet d" "schema_at sha 4 d"
  shows "succeeds migration5 d"
proof -
  let ?cs = "[''username'', ''password_hash'', ''instance_id'', ''created_at'', ''updated_at'']"
  obtain d1 where d1: "dk_exec (create_table ''cloud_users'' ?cs (\<lambda>b. b\<lparr>db_cloud_users := []\<rparr>)) d = (Inr (), d1)" "quiet d1"
    and c: "create_table ''cloud_users'' ?cs (\<lambda>b. b\<lparr>db_cloud_users := []\<rparr>) (dk_tick d) = Inr d1"
    using create_table_quiet [OF assms(1), of "\<lambda>b. b\<lparr>db_cloud_users := []\<rparr>"] by auto
  have "\<not> has_table (dk_tick d) ''cloud_users''" using assms(2) by (simp add: schema_defs)
  note n = create_table_new [OF c this]
  have h: "has_column d1 ''cloud_users'' ''instance_id''" "\<not> bindings_clash (dk_rows (dk_tick d1))"
    using n(2,3) by (simp_all add: bindings_clash_def)
  obtain d2 where "dk_exec (create_index ''idx_cloud_users_instance'' ''cloud_users'' ''instance_id'' bindings_clash) d1 = (Inr (), d2)" "quiet d2"
    using create_index_quiet [where clash = bindings_clash, OF d1(2) h] by blast
  with d1(1) show ?thesis by (simp add: succeeds_def migration5_def)
qed

lemma migration6_succeeds:
  assumes "quiet d" "schema_at sha 5 d"
  shows "succeeds migration6 d"
proof -
  let ?cs = "[''token_hash'', ''user_id'', ''created_at'', ''expires_at'']"
  obtain d1 where d1: "dk_exec (create_table ''cloud_sessions'' ?cs (\<lambda>b. b\<lparr>db_cloud_sessions := []\<rparr>)) d = (Inr (), d1)" "quiet d1"
    and c: "create_table ''cloud_sessions'' ?cs (\<lambda>b. b\<lparr>db_cloud_sessions := []\<rparr>) (dk_tick d) = Inr d1"
    using create_table_quiet [OF assms(1), of "\<lambda>b. b\<lparr>db_cloud_sessions := []\<rparr>"] by auto
  have "\<not> has_table (dk_tick d) ''cloud_sessions''" using assms(2) by (simp add: schema_defs)
  note n = create_table_new [OF c this]
  have h: "has_column d1 ''cloud_sessions'' ''user_id''" "has_column d1 ''cloud_sessions'' ''expires_at''"
    using n(2) by simp_all
  obtain d2 where d2: "dk_exec (create_index ''idx_cloud_sessions_user'' ''cloud_sessions'' ''user_id'' (\<lambda>_. False)) d1 = (Inr (), d2)"
    "quiet d2" "alike d1 d2" using create_index_plain [OF d1(2) h(1)] by blast
  have "has_column d2 ''cloud_sessions'' ''expires_at''" using h(2) d2(3) by (simp add: alike_def)
  from create_index_plain [OF d2(2) this, of "''idx_cloud_sessions_expires''"] d1(1) d2(1)
  show ?thesis by (auto simp: succeeds_def migration6_def)
qed

lemma add_column_fresh:
  assumes "quiet d" "has_table d ''instances''" "\<not> has_column d ''instances'' c"
  shows "\<exists>d1. dk_exec (add_column c reset) d = (Inr (), d1) \<and> quiet d1 \<and> has_table d1 = has_table d \<and>
     (\<forall>x. has_column d1 ''instances'' x \<longleftrightarrow> has_column d ''instances'' x \<or> x = c)"
proof -
  obtain cs where cs: "map_of (dk_tables d) ''instances'' = Some cs" using assms(2) by (auto simp: has_table_def)
  with assms(3) have "c \<notin> set cs" by (simp add: has_column_def)
  with cs assms(1) show ?thesis
    by (simp add: dk_exec_quiet add_column_def) (auto simp: quiet_def has_table_def has_column_def update_conv' fun_eq_iff)
qed

lemma migration7_succeeds:
  assumes "quiet d" "schema_at sha 6 d"
  shows "succeeds migration7 d"
proof -
  have p: "has_table d ''instances''" "\<not> has_column d ''instances'' ''plane_auth_token''" "\<not> has_column d ''instances'' ''instance_password''"
    using assms(2) by (simp_all add: schema_defs)
  obtain d1 where d1: "dk_exec (add_column ''plane_auth_token'' (\<lambda>r. r\<lparr>inst_PlaneAuthToken := ''''\<rparr>)) d = (Inr (), d1)" "quiet d1"
    "has_table d1 = has_table d" "\<forall>x. has_column d1 ''instances'' x \<longleftrightarrow> has_column d ''instances'' x \<or> x = ''plane_auth_token''"
    using add_column_fresh [OF assms(1) p(1,2)] by blast
  from d1 p have "has_table d1 ''instances''" "\<not> has_column d1 ''instances'' ''instance_password''" by simp_all
  from add_column_fresh [OF d1(2) this, of "\<lambda>r. r\<lparr>inst_InstancePassword := ''''\<rparr>"] d1(1)
  show ?thesis by (auto simp: succeeds_def migration7_def)
qed

section \<open>The loop\<close>

lemma length_migrations [simp]: "length (migrations sha) = 7"
  by (simp add: migrations_def)

lemma less7: "(i :: nat) < 7 \<Longrightarrow> i = 0 \<or> i = 1 \<or> i = 2 \<or> i = 3 \<or> i = 4 \<or> i = 5 \<or> i = 6"
  by arith

lemma migration_ok:
  assumes "i < 7" "schema_at sha i d" "i = 1 \<longrightarrow> quiet d" "(migrations sha ! i) d = (Inr (), d')"
  shows "schema_at sha (i + 1) d' \<and> kept (dk_rows d) (dk_rows d')"
  using less7 [OF assms(1)] assms(2-4) migration1_ok migration2_ok migration3_ok migration4_ok migration5_ok migration6_ok migration7_ok
  by (elim disjE) (simp_all add: migrations_def quiet_def eval_nat_numeral)

lemma migration_succeeds:
  "i < 7 \<Longrightarrow> schema_at sha i d \<Longrightarrow> quiet d \<Longrightarrow> succeeds (migrations sha ! i) d"
  using migration123_succeeds migration4_succeeds migration5_succeeds migration6_succeeds migration7_succeeds
  by (drule_tac less7, elim disjE) (simp_all add: migrations_def eval_nat_numeral)

lemma setSchemaVersion_ok:
  "setSchemaVersion v d = (Inr (), d') \<Longrightarrow> alike d d' \<and> dk_version d' = Some v"
  by (auto simp: setSchemaVersion_def run_stmts_ok dk_exec_ok alike_def has_table_def has_column_def fun_eq_iff same_tables_def
      simp del: run_stmts.simps)

lemma setSchemaVersion_quiet: "quiet d \<Longrightarrow> succeeds (setSchemaVersion v) d"
  by (simp add: succeeds_def setSchemaVersion_def dk_exec_quiet quiet_def)

lemma no_statement_quiet: "quiet d \<Longrightarrow> dk_exec no_statement d = (Inr (), dk_tick d)"
  by (simp add: quiet_def no_statement_ok)

lemma file_at_alike: "alike d d' \<Longrightarrow> dk_version d' = dk_version d \<Longrightarrow> file_at sha v d' = file_at sha v d"
  by (simp add: file_at_def read_version_def alike_schema)

lemma migration_step_file:
  assumes "i < 7" "file_at sha i d" "i = 1 \<longrightarrow> quiet d" "migration_step i (migrations sha ! i) d = (r, d')"
  shows "kept (dk_rows d) (dk_rows d') \<and> file_at sha (if r = Inr () then i + 1 else i) d'"
proof (cases "r = Inr ()")
  case False
  then have "alike d d' \<and> dk_version d' = dk_version d"
    using assms(4) by (auto simp: migration_step_def Let_def alike_rollback split: prod.splits sum.splits dest: no_statement_alike)
  with False assms(2) show ?thesis by (simp add: file_at_alike [of d d'] alike_kept)
next
  case True
  with assms(4) obtain d0 d1 d2 where s: "dk_exec no_statement d = (Inr (), d0)" "(migrations sha ! i) d0 = (Inr (), d1)"
    "setSchemaVersion (int i + 1) d1 = (Inr (), d2)" "dk_exec no_statement d2 = (Inr (), d')"
    by (auto simp: migration_step_def Let_def split: prod.splits sum.splits)
  have a: "alike d d0" "alike d2 d'" "dk_version d' = dk_version d2" using no_statement_alike s(1,4) by blast+
  have "i = 1 \<longrightarrow> quiet d0" using assms(3) s(1) no_statement_quiet by fastforce
  from migration_ok [OF assms(1) _ this s(2)] assms(2) a(1)
  have 1: "schema_at sha (i + 1) d1" "kept (dk_rows d0) (dk_rows d1)" by (auto simp: file_at_def alike_schema)
  note v = setSchemaVersion_ok [OF s(3)]
  have "schema_at sha (i + 1) d'" using 1(1) v a(2) alike_schema by blast
  moreover have "kept (dk_rows d) (dk_rows d')"
    by (rule kept_trans [OF kept_trans [OF kept_trans [OF alike_kept [OF a(1)] 1(2)]] alike_kept [OF a(2)]])
      (use v alike_kept in blast)
  ultimately show ?thesis using True v a(3) by (simp add: file_at_def read_version_def)
qed

lemma migration_step_quiet:
  assumes "i < 7" "file_at sha i d" "quiet d"
  shows "succeeds (migration_step i (migrations sha ! i)) d"
proof -
  have "schema_at sha i (dk_tick d)" using assms(2) alike_schema [OF alike_refl(2)] by (simp add: file_at_def)
  from migration_succeeds [OF assms(1) this] assms(3)
  obtain d1 where 1: "(migrations sha ! i) (dk_tick d) = (Inr (), d1)" "quiet d1"
    by (cases "(migrations sha ! i) (dk_tick d)") (auto simp: succeeds_def)
  obtain d2 where 2: "setSchemaVersion (int i + 1) d1 = (Inr (), d2)" "quiet d2"
    using setSchemaVersion_quiet [OF 1(2), of "int i + 1"] by (cases "setSchemaVersion (int i + 1) d1") (auto simp: succeeds_def)
  show ?thesis using 1 2 no_statement_quiet assms(3) by (simp add: succeeds_def migration_step_def Let_def)
qed

lemma run_migrations_file:
  assumes "i \<le> 7" "file_at sha i d" "2 \<le> i \<or> quiet d" "run_migrations i (drop i (migrations sha)) d = (r, d')"
  shows "kept (dk_rows d) (dk_rows d') \<and> (\<exists>v \<ge> i. v \<le> 7 \<and> (r = Inr () \<longrightarrow> v = 7) \<and> file_at sha v d')"
  using assms
proof (induction "7 - i" arbitrary: i d)
  case 0
  then have "i = 7" by simp
  with 0 show ?case by auto
next
  case (Suc n)
  then have i: "i < 7" by simp
  have dr: "drop i (migrations sha) = migrations sha ! i # drop (i + 1) (migrations sha)"
    using i by (simp add: Cons_nth_drop_Suc [symmetric])
  obtain r1 d1 where s: "migration_step i (migrations sha ! i) d = (r1, d1)" by fastforce
  note st = migration_step_file [OF i Suc.prems(2) _ s]
  show ?case
  proof (cases r1)
    case (Inl e)
    with s dr Suc.prems st show ?thesis by (auto intro!: exI [of _ i])
  next
    case (Inr u)
    have q: "2 \<le> i + 1 \<or> quiet d1"
      using Suc.prems(3) migration_step_quiet [OF i Suc.prems(2)] s by (auto simp: succeeds_def)
    have k: "kept (dk_rows d) (dk_rows d1)" "file_at sha (i + 1) d1" using st Inr Suc.prems(3) by auto
    have "run_migrations (i + 1) (drop (i + 1) (migrations sha)) d1 = (r, d')"
      using Suc.prems(4) dr s Inr by simp
    with Suc.hyps(1) [of "i + 1" d1] Suc.hyps(2) i k(2) q
    have "kept (dk_rows d1) (dk_rows d') \<and> (\<exists>v \<ge> i + 1. v \<le> 7 \<and> (r = Inr () \<longrightarrow> v = 7) \<and> file_at sha v d')"
      by simp
    then show ?thesis using kept_trans [OF k(1)] by (metis add_leD1)
  qed
qed

lemma run_migrations_quiet:
  assumes "i \<le> 7" "file_at sha i d" "quiet d"
  shows "succeeds (run_migrations i (drop i (migrations sha))) d"
  using assms
proof (induction "7 - i" arbitrary: i d)
  case 0
  then show ?case by (simp add: succeeds_def)
next
  case (Suc n)
  then have i: "i < 7" by simp
  have dr: "drop i (migrations sha) = migrations sha ! i # drop (i + 1) (migrations sha)"
    using i by (simp add: Cons_nth_drop_Suc [symmetric])
  obtain d1 where s: "migration_step i (migrations sha ! i) d = (Inr (), d1)" "quiet d1"
    using migration_step_quiet [OF i Suc.prems(2,3)]
    by (cases "migration_step i (migrations sha ! i) d") (auto simp: succeeds_def)
  have "file_at sha (i + 1) d1" using migration_step_file [OF i Suc.prems(2) _ s(1)] Suc.prems(3) by simp
  with Suc.hyps(1) [of "i + 1" d1] Suc.hyps(2) i s dr show ?case by (simp add: succeeds_def)
qed

section \<open>Tokens for rows without one\<close>

lemma kept_token:
  assumes "kept b b'" "r' \<in> set (db_instances b')" "inst_QueryToken r' = ''''"
  shows "\<exists>r \<in> set (db_instances b). row_kept r r' \<and> inst_QueryToken r = ''''"
proof -
  from assms(1) have l: "list_all2 row_kept (db_instances b) (db_instances b')" by (simp add: kept_def)
  from assms(2) obtain n where n: "n < length (db_instances b')" "db_instances b' ! n = r'" by (auto simp: in_set_conv_nth)
  then have k: "row_kept (db_instances b ! n) r'" "n < length (db_instances b)"
    using l by (auto simp: list_all2_conv_all_nth)
  then have "inst_QueryToken (db_instances b ! n) = ''''" using assms(3) by (auto simp: row_kept_def)
  with k show ?thesis by (meson nth_mem)
qed

lemma row_kept_ID: "row_kept r r' \<Longrightarrow> inst_ID r' = inst_ID r"
proof -
  assume "row_kept r r'"
  then have "r = r'\<lparr>inst_QueryToken := inst_QueryToken r, row_query_token_hash := row_query_token_hash r\<rparr>"
    by (simp add: row_kept_def)
  then have "inst_ID r = inst_ID (r'\<lparr>inst_QueryToken := inst_QueryToken r, row_query_token_hash := row_query_token_hash r\<rparr>)"
    by (rule arg_cong)
  then show ?thesis by simp
qed

lemma give_token:
  assumes "db_exec (stmt_update_instance iid (\<lambda>r. r\<lparr>inst_QueryToken := t, row_query_token_hash := tokenHash sha t\<rparr>)) b = (res, b1)"
    "\<forall>r \<in> set (db_instances b). inst_ID r = iid \<longrightarrow> inst_QueryToken r = ''''"
  shows "kept b b1 \<and> (rows_ok sha 4 b \<longrightarrow> rows_ok sha 4 b1) \<and> map inst_ID (db_instances b1) = map inst_ID (db_instances b) \<and>
     (\<forall>r \<in> set (db_instances b1). inst_ID r \<noteq> iid \<longrightarrow> r \<in> set (db_instances b)) \<and>
     (isl res \<or> (\<forall>r \<in> set (db_instances b1). inst_ID r = iid \<longrightarrow> inst_QueryToken r = t))"
proof (cases res)
  case (Inl e)
  with assms(1) have s: "same_tables b b1" by (auto dest: db_exec_Inl)
  then show ?thesis using Inl kept_same [OF s] by (simp add: rows_ok_def same_tables_def)
next
  case (Inr n)
  let ?f = "\<lambda>r. r\<lparr>inst_QueryToken := t, row_query_token_hash := tokenHash sha t\<rparr>"
  have b1: "b1 = (db_tick b)\<lparr>db_instances := upd_where (\<lambda>r. inst_ID r = iid) ?f (db_instances b)\<rparr>"
    using assms(1) Inr by (auto simp: db_exec_Inr stmt_update_instance_def)
  have "list_all2 row_kept (db_instances b) (db_instances b1)"
    using assms(2) by (auto simp: b1 upd_where_def list.rel_map row_kept_def intro!: list.rel_refl_strong)
  then have "kept b b1" by (simp add: kept_def b1)
  moreover have "map inst_ID (db_instances b1) = map inst_ID (db_instances b)" by (simp add: b1 map_upd_where)
  moreover have "rows_ok sha 4 b \<longrightarrow> rows_ok sha 4 b1"
    unfolding rows_ok_def using calculation(2) by (auto simp: b1 set_upd_where)
  moreover have s: "set (db_instances b1) = {r \<in> set (db_instances b). inst_ID r \<noteq> iid} \<union> ?f ` {r \<in> set (db_instances b). inst_ID r = iid}"
    by (simp add: b1 set_upd_where)
  have "inst_ID r \<noteq> iid \<longrightarrow> r \<in> set (db_instances b)" "inst_ID r = iid \<longrightarrow> inst_QueryToken r = t" if "r \<in> set (db_instances b1)" for r
    using that unfolding s by (elim UnE imageE; simp)+
  ultimately show ?thesis by blast
qed

lemma backfill_loop_ok:
  "backfill_loop sha rnd i iids b = (res, b') \<Longrightarrow> distinct iids \<Longrightarrow>
   \<forall>r \<in> set (db_instances b). inst_ID r \<in> set iids \<longrightarrow> inst_QueryToken r = '''' \<Longrightarrow>
   kept b b' \<and> (rows_ok sha 4 b \<longrightarrow> rows_ok sha 4 b') \<and>
   (res = Inr () \<longrightarrow> (\<forall>j x. rnd j = Inr x \<longrightarrow> x \<noteq> '''') \<longrightarrow>
      (\<forall>r \<in> set (db_instances b'). inst_QueryToken r = '''' \<longrightarrow> inst_ID r \<notin> set iids))"
proof (induction iids arbitrary: i b)
  case (Cons iid iids)
  show ?case
  proof (cases "GenerateQueryToken (rnd i)")
    case (Inl e)
    with Cons.prems(1) show ?thesis by auto
  next
    case (Inr t)
    obtain r1 b1 where e: "db_exec (stmt_update_instance iid (\<lambda>r. r\<lparr>inst_QueryToken := t, row_query_token_hash := tokenHash sha t\<rparr>)) b = (r1, b1)"
      by fastforce
    have g: "kept b b1" "rows_ok sha 4 b \<longrightarrow> rows_ok sha 4 b1" "\<forall>r \<in> set (db_instances b1). inst_ID r \<noteq> iid \<longrightarrow> r \<in> set (db_instances b)"
      "isl r1 \<or> (\<forall>r \<in> set (db_instances b1). inst_ID r = iid \<longrightarrow> inst_QueryToken r = t)"
      using give_token [OF e] Cons.prems(3) by auto
    show ?thesis
    proof (cases r1)
      case (Inl e')
      with Cons.prems(1) Inr e g show ?thesis by auto
    next
      case (Inr n)
      with Cons.prems(1) \<open>GenerateQueryToken _ = _\<close> e have l: "backfill_loop sha rnd (Suc i) iids b1 = (res, b')" by simp
      have "\<forall>r \<in> set (db_instances b1). inst_ID r \<in> set iids \<longrightarrow> inst_QueryToken r = ''''"
        using g(3) Cons.prems(2,3) by auto
      note IH = Cons.IH [OF l _ this]
      have d: "distinct iids" using Cons.prems(2) by simp
      have "inst_ID r \<noteq> iid" if r: "\<forall>j x. rnd j = Inr x \<longrightarrow> x \<noteq> ''''" "r \<in> set (db_instances b')" "inst_QueryToken r = ''''" for r
      proof
        assume "inst_ID r = iid"
        with kept_token [of b1 b' r] IH d r obtain r0 where "r0 \<in> set (db_instances b1)" "inst_ID r0 = iid" "inst_QueryToken r0 = ''''"
          using row_kept_ID by metis
        with g(4) Inr have "t = ''''" by auto
        with \<open>GenerateQueryToken _ = _\<close> r(1) show False
          by (auto simp: GenerateQueryToken_def split: sum.splits)
      qed
      with IH d g kept_trans [OF g(1)] show ?thesis by auto
    qed
  qed
qed simp

lemma backfill_ok:
  assumes "backfillQueryTokens sha rnd b = (res, b')" "distinct (map inst_ID (db_instances b))"
  shows "kept b b' \<and> (rows_ok sha 4 b \<longrightarrow> rows_ok sha 4 b') \<and>
    (res = Inr () \<longrightarrow> (\<forall>j x. rnd j = Inr x \<longrightarrow> x \<noteq> '''') \<longrightarrow> (\<forall>r \<in> set (db_instances b'). inst_QueryToken r \<noteq> ''''))"
proof -
  let ?iids = "map inst_ID (filter (\<lambda>r. inst_QueryToken r = '''') (db_instances b))"
  have q: "db_query (\<lambda>d. map inst_ID (sel_where (\<lambda>r. inst_QueryToken r = '''') (db_instances d))) b =
      (case db_fault b of Some e \<Rightarrow> Inl e | None \<Rightarrow> Inr ?iids, db_tick b)"
    by (simp add: db_query_def sel_where_def split: option.splits)
  show ?thesis
  proof (cases "db_fault b")
    case (Some e)
    with assms(1) q have "b' = db_tick b" "res = Inl e" by (auto simp: backfillQueryTokens_def)
    then show ?thesis by (simp add: rows_ok_def)
  next
    case None
    with assms(1) q have l: "backfill_loop sha rnd 0 ?iids (db_tick b) = (res, b')" by (simp add: backfillQueryTokens_def)
    have d: "distinct ?iids" using assms(2) by (simp add: distinct_map inj_on_filter_key_eq inj_on_def)
    have "inj_on inst_ID (set (db_instances b))" using assms(2) by (simp add: distinct_map)
    then have e: "\<forall>r \<in> set (db_instances (db_tick b)). inst_ID r \<in> set ?iids \<longrightarrow> inst_QueryToken r = ''''"
      by (auto dest: inj_onD)
    note L = backfill_loop_ok [OF l d e]
    have k: "kept b b'" using L kept_trans [OF kept_tick] by blast
    moreover have "inst_ID r \<in> set ?iids" if "r \<in> set (db_instances b')" "inst_QueryToken r = ''''" for r
      using kept_token [OF k that] row_kept_ID by fastforce
    moreover have "rows_ok sha 4 (db_tick b) = rows_ok sha 4 b" by (simp add: rows_ok_def)
    ultimately show ?thesis using L by blast
  qed
qed

lemma backfill_loop_quiet:
  "db_faults b = [] \<Longrightarrow> \<forall>i. \<exists>x. rnd i = Inr x \<Longrightarrow> fst (backfill_loop sha rnd i iids b) = Inr ()"
proof (induction iids arbitrary: i b)
  case (Cons iid iids)
  obtain x where "rnd i = Inr x" using Cons.prems(2) by blast
  with Cons show ?case by (simp add: GenerateQueryToken_def db_exec_def no_fault stmt_update_instance_def)
qed simp

lemma backfill_quiet: "db_faults b = [] \<Longrightarrow> \<forall>i. \<exists>x. rnd i = Inr x \<Longrightarrow> fst (backfillQueryTokens sha rnd b) = Inr ()"
  by (simp add: backfillQueryTokens_def db_query_def no_fault backfill_loop_quiet)

lemma dk_backfill_file:
  assumes "file_at sha 7 d" "dk_backfill sha rnd d = (res, d')"
  shows "file_at sha 7 d' \<and> kept (dk_rows d) (dk_rows d')"
    "res = Inr () \<Longrightarrow> \<forall>j x. rnd j = Inr x \<longrightarrow> x \<noteq> '''' \<Longrightarrow> r \<in> set (db_instances (dk_rows d')) \<Longrightarrow>
       inst_QueryToken r \<noteq> '''' \<and> row_query_token_hash r = tokenHash sha (inst_QueryToken r)"
    "quiet d \<Longrightarrow> \<forall>i. \<exists>x. rnd i = Inr x \<Longrightarrow> res = Inr ()"
proof -
  have c: "has_column d ''instances'' ''query_token''" "has_column d ''instances'' ''query_token_hash''"
    using assms(1) by (simp_all add: file_at_def schema_defs)
  obtain b where b: "backfillQueryTokens sha rnd (dk_rows d) = (res, b)" "d' = d\<lparr>dk_rows := b\<rparr>"
    using assms(2) c by (auto simp: dk_backfill_def split: prod.splits)
  have "distinct (map inst_ID (db_instances (dk_rows d)))" "rows_ok sha 4 (dk_rows d)"
    using assms(1) by (simp_all add: file_at_def schema_defs)
  note o' = backfill_ok [OF b(1) this(1)] this(2)
  have t: "has_table d' = has_table d" "has_column d' = has_column d" "dk_version d' = dk_version d"
    by (simp_all add: b(2) has_table_def has_column_def fun_eq_iff)
  have "rows_ok sha 4 b" using o' by blast
  then have r4: "rows_ok sha 7 (dk_rows d')" unfolding b(2) rows_ok_def by simp
  have "has_table d ''signing_keys''" "has_table d ''cloud_users''" "has_table d ''cloud_sessions''" "has_table d ''instances''" "columns_ok 7 d"
    using assms(1) by (simp_all add: file_at_def schema_at_def tables_ok_def)
  then have "tables_ok 7 d' \<and> columns_ok 7 d' \<and> defaults_ok d'"
    by (simp add: t tables_ok_def columns_ok_def defaults_ok_def)
  with r4 show "file_at sha 7 d' \<and> kept (dk_rows d) (dk_rows d')"
    using assms(1) o'(1) t(3) by (simp add: file_at_def schema_at_def read_version_def b(2))
  show "inst_QueryToken r \<noteq> '''' \<and> row_query_token_hash r = tokenHash sha (inst_QueryToken r)"
    if "res = Inr ()" "\<forall>j x. rnd j = Inr x \<longrightarrow> x \<noteq> ''''" "r \<in> set (db_instances (dk_rows d'))"
    using o'(1) that \<open>rows_ok sha 4 b\<close> unfolding b(2) rows_ok_def by simp
  show "res = Inr ()" if "quiet d" "\<forall>i. \<exists>x. rnd i = Inr x"
    using backfill_quiet [of "dk_rows d" rnd sha] that b(1) by (simp add: quiet_def)
qed

section \<open>Opening\<close>

lemma open_pragmas_alike: "open_pragmas ps d = (r, d') \<Longrightarrow> alike d d' \<and> dk_version d' = dk_version d \<and> (quiet d \<longrightarrow> r = Inr () \<and> quiet d')"
proof (induction ps arbitrary: d)
  case (Cons p ps)
  obtain r1 d1 where e: "dk_exec no_statement d = (r1, d1)" by fastforce
  note a = no_statement_alike [OF e]
  show ?case
  proof (cases r1)
    case (Inl x)
    with Cons.prems e a show ?thesis by (auto simp: no_statement_quiet)
  next
    case (Inr u)
    with Cons.prems e have "open_pragmas ps d1 = (r, d')" by simp
    from Cons.IH [OF this] a alike_trans show ?thesis using e by (auto simp: no_statement_quiet)
  qed
qed auto

lemma version_table_schema:
  assumes "create_table ''schema_version'' [''version''] (\<lambda>b. b) d = Inr d'"
  shows "schema_at sha v d' = schema_at sha v d" "dk_version d' = dk_version d" "dk_rows d' = dk_rows d"
proof -
  have h: "has_table d' t = has_table d t" "has_column d' t = has_column d t" if "t \<noteq> ''schema_version''" for t
    using assms that by (cases "has_table d ''schema_version''"; force simp: create_table_def has_table_def has_column_def)+
  show r: "dk_rows d' = dk_rows d" "dk_version d' = dk_version d" using assms by (auto simp: create_table_def)
  have "''instances'' \<noteq> ''schema_version''" "''signing_keys'' \<noteq> ''schema_version''" "''cloud_users'' \<noteq> ''schema_version''"
    "''cloud_sessions'' \<noteq> ''schema_version''" by simp_all
  from this [THEN h(1)] this(1) [THEN h(2)] r(1) show "schema_at sha v d' = schema_at sha v d"
    unfolding schema_defs by simp
qed

lemma schemaVersion_file:
  assumes "schemaVersion d = (r, d')" "file_at sha v d"
  shows "file_at sha v d' \<and> kept (dk_rows d) (dk_rows d') \<and> (\<forall>x. r = Inr x \<longrightarrow> x = int v) \<and> (quiet d \<longrightarrow> r = Inr (int v) \<and> quiet d')"
proof -
  obtain r1 d1 where e: "dk_exec (create_table ''schema_version'' [''version''] (\<lambda>b. b)) d = (r1, d1)" by fastforce
  have 1: "file_at sha v d1 \<and> dk_rows d1 = db_tick (dk_rows d)"
  proof (cases r1)
    case (Inl x)
    then have "d1 = dk_tick d" using e by (auto simp: dk_exec_def create_table_def split: option.splits)
    then show ?thesis using assms(2) file_at_alike [OF alike_refl(2)] by simp
  next
    case (Inr u)
    then have "create_table ''schema_version'' [''version''] (\<lambda>b. b) (dk_tick d) = Inr d1" using e by (simp add: dk_exec_ok)
    from version_table_schema [OF this] assms(2) alike_schema [OF alike_refl(2)]
    show ?thesis by (simp add: file_at_def read_version_def)
  qed
  have q1: "quiet d \<longrightarrow> r1 = Inr () \<and> quiet d1" using e 1 by (auto simp: dk_exec_quiet create_table_def quiet_def)
  obtain r2 d2 where e2: "dk_exec no_statement d1 = (r2, d2)" by fastforce
  note a = no_statement_alike [OF e2]
  have 2: "file_at sha v d2" "kept (dk_rows d1) (dk_rows d2)" using 1 a file_at_alike alike_kept by blast+
  have q2: "quiet d1 \<longrightarrow> r2 = Inr () \<and> quiet d2" using e2 by (auto simp: no_statement_quiet)
  have k: "kept (dk_rows d) (dk_rows d1)" using 1 by simp
  show ?thesis
    using assms(1) e e2 1 2 q1 q2 k kept_trans [OF k 2(2)]
    by (auto simp: schemaVersion_def file_at_def read_version_def split: sum.splits prod.splits)
qed

lemma migrate_file:
  assumes "file_at sha v d" "v \<le> 7" "2 \<le> v \<or> quiet d"
  shows "\<exists>r d' v'. migrate sha rnd d = Some (r, d') \<and> v \<le> v' \<and> v' \<le> 7 \<and> file_at sha v' d' \<and> kept (dk_rows d) (dk_rows d') \<and>
    (r = Inr () \<longrightarrow> v' = 7 \<and> ((\<forall>j x. rnd j = Inr x \<longrightarrow> x \<noteq> '''') \<longrightarrow>
       (\<forall>r \<in> set (db_instances (dk_rows d')). inst_QueryToken r \<noteq> '''' \<and> row_query_token_hash r = tokenHash sha (inst_QueryToken r)))) \<and>
    (quiet d \<longrightarrow> v' = 7 \<and> ((\<forall>i. \<exists>x. rnd i = Inr x) \<longrightarrow> r = Inr ()))"
proof -
  obtain r1 d1 where e1: "schemaVersion d = (r1, d1)" by fastforce
  note 1 = schemaVersion_file [OF e1 assms(1)]
  show ?thesis
  proof (cases r1)
    case (Inl e)
    with e1 1 assms(2) show ?thesis by (auto simp: migrate_def intro!: exI [of _ v])
  next
    case (Inr w)
    then have w: "w = int v" "2 \<le> v \<or> quiet d1" using 1 assms(3) by auto
    obtain r2 d2 where e2: "run_migrations v (drop v (migrations sha)) d1 = (r2, d2)" by fastforce
    have f1: "file_at sha v d1" "kept (dk_rows d) (dk_rows d1)" using 1 by auto
    obtain v' where 2: "kept (dk_rows d1) (dk_rows d2)" "v \<le> v'" "v' \<le> 7" "r2 = Inr () \<longrightarrow> v' = 7" "file_at sha v' d2"
      using run_migrations_file [OF assms(2) f1(1) w(2) e2] by blast
    have q2: "quiet d \<longrightarrow> r2 = Inr () \<and> quiet d2"
      using 1 run_migrations_quiet [OF assms(2) f1(1)] e2 by (auto simp: succeeds_def)
    note k2 = kept_trans [OF f1(2) 2(1)]
    show ?thesis
    proof (cases r2)
      case (Inl e)
      with e1 Inr w e2 2 k2 q2 show ?thesis by (auto simp: migrate_def intro!: exI [of _ v'])
    next
      case b: (Inr u)
      obtain r3 d3 where e3: "dk_backfill sha rnd d2 = (r3, d3)" by fastforce
      have f2: "file_at sha 7 d2" using 2 b by simp
      note 3 = dk_backfill_file [OF f2 e3]
      have "migrate sha rnd d = Some (case r3 of Inl e \<Rightarrow> Inl (Wrap ''registry: backfill query tokens'' e) | Inr _ \<Rightarrow> Inr (), d3)"
        using e1 Inr w e2 b e3 by (simp add: migrate_def split: sum.splits)
      moreover have "kept (dk_rows d) (dk_rows d3)" using 3(1) kept_trans [OF k2] by blast
      ultimately show ?thesis using 3 q2 assms(2)
        by (intro exI [of _ "case r3 of Inl e \<Rightarrow> Inl (Wrap ''registry: backfill query tokens'' e) | Inr _ \<Rightarrow> Inr ()"] exI [of _ d3] exI [of _ 7])
          (auto split: sum.splits)
    qed
  qed
qed

lemma Open_file:
  assumes "file_at sha v d" "v \<le> 7" "2 \<le> v \<or> quiet d"
  shows "\<exists>r d' v'. Registry_Open sha rnd path d = Some (r, d') \<and> v \<le> v' \<and> v' \<le> 7 \<and> file_at sha v' d' \<and> kept (dk_rows d) (dk_rows d') \<and>
    (r = Inr () \<longrightarrow> v' = 7 \<and> ((\<forall>j x. rnd j = Inr x \<longrightarrow> x \<noteq> '''') \<longrightarrow>
       (\<forall>r \<in> set (db_instances (dk_rows d')). inst_QueryToken r \<noteq> '''' \<and> row_query_token_hash r = tokenHash sha (inst_QueryToken r)))) \<and>
    (quiet d \<longrightarrow> v' = 7 \<and> ((\<forall>i. \<exists>x. rnd i = Inr x) \<longrightarrow> r = Inr ()))"
proof -
  let ?ps = "[''open '' @ path, ''enable WAL'', ''set busy timeout'', ''enable foreign keys'']"
  obtain r1 d1 where e: "open_pragmas ?ps d = (r1, d1)" by fastforce
  note 1 = open_pragmas_alike [OF e]
  have f: "file_at sha v d1" "kept (dk_rows d) (dk_rows d1)" "2 \<le> v \<or> quiet d1"
    using 1 assms file_at_alike alike_kept by blast+
  show ?thesis
  proof (cases r1)
    case (Inl x)
    with e 1 f assms(2) show ?thesis by (auto simp: Registry_Open_def intro!: exI [of _ v])
  next
    case (Inr u)
    then have "Registry_Open sha rnd path d = migrate sha rnd d1" using e by (simp add: Registry_Open_def)
    with migrate_file [OF f(1) assms(2) f(3), of rnd] kept_trans [OF f(2)] 1 show ?thesis by metis
  qed
qed

text \<open>C4: Opening the file of any earlier release, from before the schema was versioned to the current
  one, succeeds when no database call fails: it brings the schema to version 7, keeps every row of
  every table (an empty query token and the hashes excepted), and leaves every instance with a token
  and the hash that belongs to it, so that its credential is accepted.\<close>

theorem Open_migrates:
  assumes "file_at sha v d" "v \<le> 7" "db_faults (dk_rows d) = []" "\<And>i. \<exists>x. rnd i = Inr x \<and> x \<noteq> ''''"
  shows "\<exists>d'. Registry_Open sha rnd path d = Some (Inr (), d') \<and> file_at sha 7 d' \<and> kept (dk_rows d) (dk_rows d') \<and>
    (\<forall>r \<in> set (db_instances (dk_rows d')). inst_QueryToken r \<noteq> '''' \<and> row_query_token_hash r = tokenHash sha (inst_QueryToken r))"
proof -
  have q: "quiet d" "\<forall>i. \<exists>x. rnd i = Inr x" "\<forall>j x. rnd j = Inr x \<longrightarrow> x \<noteq> ''''"
    using assms(3,4) by (auto simp: quiet_def) (metis sum.inject(2))+
  then show ?thesis using Open_file [OF assms(1,2), of rnd path] by blast
qed

text \<open>A file of the first version: two rows, one of them with no column for its token yet.\<close>

definition old_row :: "string \<Rightarrow> int \<Rightarrow> instance_row" where
  "old_row iid port =
     \<lparr>inst_ID = iid, inst_ImageDigest = ''d'', inst_Port = port, inst_DataDir = ''/'' @ iid, inst_Status = ''running'', inst_CreatedAt = ''t'',
      inst_SkillsetName = '''', inst_PrincipalRole = '''', inst_QueryToken = '''', inst_PlaneAuthToken = '''', inst_InstancePassword = '''',
      row_query_token_hash = ''''\<rparr>"

definition old_file :: "nat \<Rightarrow> go_error option list \<Rightarrow> disk_db" where
  "old_file v faults =
     \<lparr>dk_tables = [(''instances'', base_columns), (''schema_version'', [''version''])], dk_indexes = [], dk_version = Some (int v),
      dk_rows = \<lparr>db_instances = [old_row ''a'' 9100, old_row ''b'' 9101], db_signing_keys = [], db_next_key_id = 1,
        db_cloud_users = [], db_cloud_sessions = [], db_faults = faults\<rparr>\<rparr>"

lemma old_file_at: "file_at sha 1 (old_file 1 faults)"
  by (simp add: file_at_def read_version_def schema_defs old_file_def old_row_def has_table_def has_column_def base_columns_def)

theorem Open_migrates_witness:
  "\<exists>d'. Registry_Open (\<lambda>x. x) (\<lambda>i. Inr (''k'' @ nat_str i)) ''r.db'' (old_file 1 []) = Some (Inr (), d') \<and> file_at (\<lambda>x. x) 7 d' \<and>
     map inst_ID (db_instances (dk_rows d')) = [''a'', ''b'']"
proof -
  have "db_faults (dk_rows (old_file 1 [])) = []" by (simp add: old_file_def)
  from Open_migrates [OF old_file_at _ this, of "\<lambda>i. Inr (''k'' @ nat_str i)" "\<lambda>x. x" "''r.db''"]
  obtain d' where d: "Registry_Open (\<lambda>x. x) (\<lambda>i. Inr (''k'' @ nat_str i)) ''r.db'' (old_file 1 []) = Some (Inr (), d')"
    "file_at (\<lambda>x. x) 7 d'" "kept (dk_rows (old_file 1 [])) (dk_rows d')" by auto
  have "map inst_ID (db_instances (dk_rows d')) = map inst_ID (db_instances (dk_rows (old_file 1 [])))"
    using d(3) row_kept_ID unfolding kept_def by (intro nth_equalityI) (auto simp: list_all2_conv_all_nth)
  with d show ?thesis by (simp add: old_file_def old_row_def)
qed

text \<open>C22: Once the second migration has committed, opening is restartable: whatever database calls
  fail, no row is lost and the file stays at a whole version, so that a later attempt continues from
  there (\<open>Open_migrates\<close>).\<close>

theorem Open_restartable:
  assumes "file_at sha v d" "2 \<le> v" "v \<le> 7"
  shows "\<exists>r d' v'. Registry_Open sha rnd path d = Some (r, d') \<and> v \<le> v' \<and> v' \<le> 7 \<and> file_at sha v' d' \<and> kept (dk_rows d) (dk_rows d')"
  using Open_file [OF assms(1,3), of rnd path] assms(2) by blast

definition version2_file :: "go_error option list \<Rightarrow> disk_db" where
  "version2_file faults =
     (old_file 2 faults)\<lparr>dk_tables := [(''instances'', base_columns @ [''skillset_name'', ''principal_role'', ''query_token'']), (''schema_version'', [''version''])]\<rparr>"

theorem Open_restartable_witness:
  "\<exists>r d' v'. Registry_Open (\<lambda>x. x) (\<lambda>i. Inr ''k'') ''r.db'' (version2_file (replicate 20 None @ [Some (Errorf ''disk full'')])) = Some (r, d') \<and>
     file_at (\<lambda>x. x) v' d' \<and> length (db_instances (dk_rows d')) = 2"
proof -
  have "file_at (\<lambda>x. x) 2 (version2_file (replicate 20 None @ [Some (Errorf ''disk full'')]))"
    by (simp add: file_at_def read_version_def schema_defs version2_file_def old_file_def old_row_def has_table_def has_column_def base_columns_def)
  from Open_restartable [OF this, of "\<lambda>i. Inr ''k''" "''r.db''"]
  obtain r d' v' where d: "Registry_Open (\<lambda>x. x) (\<lambda>i. Inr ''k'') ''r.db'' (version2_file (replicate 20 None @ [Some (Errorf ''disk full'')])) = Some (r, d')"
    "file_at (\<lambda>x. x) v' d'" "kept (dk_rows (version2_file (replicate 20 None @ [Some (Errorf ''disk full'')]))) (dk_rows d')" by auto
  have "length (db_instances (dk_rows d')) = 2"
    using d(3) unfolding kept_def by (auto dest: list_all2_lengthD simp: version2_file_def old_file_def)
  with d show ?thesis by blast
qed

text \<open>The second migration drops the errors of its statements. When one of them fails the version is
  set all the same, and no later attempt can open the file: the fourth migration fails for want of
  the column.\<close>

definition stuck_file :: disk_db where
  "stuck_file =
     (case Registry_Open (\<lambda>x. x) (\<lambda>i. Inr ''k'') ''r.db'' (old_file 1 (replicate 9 None @ [Some (Errorf ''disk full'')])) of
        Some (_, d) \<Rightarrow> d\<lparr>dk_rows := (dk_rows d)\<lparr>db_faults := []\<rparr>\<rparr> | None \<Rightarrow> old_file 1 [])"

lemma second_migration_gets_stuck:
  "case Registry_Open (\<lambda>x. x) (\<lambda>i. Inr ''k'') ''r.db'' stuck_file of
     Some (Inl e, d) \<Rightarrow> read_version d = 3 \<and> \<not> has_column d ''instances'' ''query_token''
   | _ \<Rightarrow> False"
  by code_simp

end
