(* ===== verification/Control_Serve.thy ===== *)
theory Control_Serve
  imports Panel_Jobs Registry_Migrate Docker_Plugin Data_Plane
begin

text \<open>
  \<^verbatim>\<open>fox-control serve\<close> (\<^verbatim>\<open>newServeCmd\<close> of \<^verbatim>\<open>cmd/fox-control/main.go\<close>) and what it shares with the other
  commands: opening the registry and the plugin. Everything up to the listeners is one function from
  the configuration and the machine to the two servers; its result is \<open>None\<close> when the process panics.
  The command's state is the content of the data root's databases, the file system and the world
  behind the clients. The signal handling and the listeners' shutdown are not modelled. A failure's
  text ends in its cause; the hint that two messages add after it is left out.
\<close>

section \<open>The machine and the environment\<close>

record 'w machine =
  mc_registry :: disk_db
  mc_sources :: source_db
  mc_events :: event_store
  mc_fs :: fs
  mc_world :: 'w

text \<open>What the process finds around it: the target system, the random source (for the tokens of rows
  without one, for the signing key, for the name of the probe file), the clock, SHA-256, the YAML
  encoder and the clients' transports. The Docker client is a third-party package.\<close>

record 'w serve_env =
  se_goos :: string
  se_rnd :: "nat \<Rightarrow> string result"
  se_key :: "string result"
  se_probe :: string
  se_stamp :: string
  se_seconds :: rat
  se_sha :: "string \<Rightarrow> string"
  se_yaml :: "(string \<times> yaml) list \<Rightarrow> string result"
  se_docker :: "string \<Rightarrow> 'w docker_client result"
  se_http :: "(string, string, 'w) http_peer"
  se_embed_http :: "(embedding_request, embedding_response, registry_db \<times> 'w) http_peer"
  se_embed_wait :: "nat \<Rightarrow> registry_db \<times> 'w \<Rightarrow> go_error option \<times> registry_db \<times> 'w"
  se_qdrant_http :: "(qdrant_body, search_result list, registry_db \<times> 'w) http_peer"
  se_rest_http :: "(registry_db \<times> 'w) rest_http"
  se_parse :: url_parser
  se_os :: "registry_db \<times> 'w \<Rightarrow> file_os"

definition set_registry :: "disk_db \<Rightarrow> 'w machine \<Rightarrow> 'w machine" where
  "set_registry d m = m\<lparr>mc_registry := d\<rparr>"

definition set_rows :: "registry_db \<Rightarrow> 'w machine \<Rightarrow> 'w machine" where
  "set_rows b m = m\<lparr>mc_registry := (mc_registry m)\<lparr>dk_rows := b\<rparr>\<rparr>"

definition registry_rows :: "'w machine \<Rightarrow> registry_db" where
  "registry_rows m = dk_rows (mc_registry m)"

section \<open>Opening\<close>

definition docker_host :: "string \<Rightarrow> string \<Rightarrow> string" where
  "docker_host goos socket = (if goos = ''windows'' then ''npipe://'' @ socket else ''unix://'' @ socket)"

definition open_registry :: "'w serve_env \<Rightarrow> config \<Rightarrow> 'w machine \<Rightarrow> (unit result \<times> 'w machine) option" where
  "open_registry env cfg m =
     map_option (\<lambda>(r, d). (r, set_registry d m))
       (Registry_Open (se_sha env) (se_rnd env) (path_Join [ctl_DataRoot (Control cfg), ''registry.db'']) (mc_registry m))"

definition openRegistryAndPlugin ::
  "'w serve_env \<Rightarrow> config \<Rightarrow> 'w machine \<Rightarrow> ('w deployment_plugin result \<times> 'w machine) option" where
  "openRegistryAndPlugin env cfg m =
     (case open_registry env cfg m of
        None \<Rightarrow> None
      | Some (Inl e, m1) \<Rightarrow> Some (Inl e, m1)
      | Some (Inr _, m1) \<Rightarrow>
          (case se_docker env (docker_host (se_goos env) (dck_Socket (Docker cfg))) of
             Inl e \<Rightarrow> Some (Inl (Wrap (''cannot connect to Docker at '' @ dck_Socket (Docker cfg)) e), m1)
           | Inr cli \<Rightarrow> Some (Inr (docker_plugin cli), m1)))"

text \<open>The data root is created and a probe file is made and removed; the removal's error is dropped.\<close>

definition os_Remove :: "string \<Rightarrow> fs \<Rightarrow> unit result \<times> fs" where
  "os_Remove p s =
     (case fs_fault s of
        Some (e, _) \<Rightarrow> (Inl e, fs_tick s)
      | None \<Rightarrow>
          (if file_content s p = None then (Inl ErrNotExist, fs_tick s)
           else (Inr (), (fs_tick s)\<lparr>fs_files := filter (\<lambda>(q, _). q \<noteq> p) (fs_files s)\<rparr>)))"

definition probe_path :: "string \<Rightarrow> string \<Rightarrow> string" where
  "probe_path path name = (if HasSuffix path ''/'' then path else path @ ''/'') @ ''.fox-write-test-'' @ name"

definition ensureDataRoot :: "string \<Rightarrow> string \<Rightarrow> fs \<Rightarrow> unit result \<times> fs" where
  "ensureDataRoot name path s =
     (case os_MkdirAll path s of
        (Inl e, s1) \<Rightarrow> (Inl (Wrap (''cannot create data_root '' @ go_quote path) e), s1)
      | (Inr _, s1) \<Rightarrow>
          (case os_WriteFile (probe_path path name) '''' 384 s1 of
             (Inl e, s2) \<Rightarrow> (Inl (Wrap (''data_root '' @ go_quote path @ '' is not writable'') e), s2)
           | (Inr _, s2) \<Rightarrow> (Inr (), snd (os_Remove (probe_path path name) s2))))"

text \<open>\<^verbatim>\<open>source.OpenRegistry\<close> and \<^verbatim>\<open>events.OpenStore\<close>: statements that create the tables when they are missing,
  which the models of those databases read as empty.\<close>

definition Source_OpenRegistry :: "source_db \<Rightarrow> unit result \<times> source_db" where
  "Source_OpenRegistry db =
     (case sd_exec (\<lambda>d. Inr (0, d)) db of
        (Inl e, db1) \<Rightarrow> (Inl (Wrap ''source: migrate sources'' e), db1)
      | (Inr _, db1) \<Rightarrow>
          (case sd_exec (\<lambda>d. Inr (0, d)) db1 of
             (Inl e, db2) \<Rightarrow> (Inl (Wrap ''source: migrate document_tracking'' e), db2)
           | (Inr _, db2) \<Rightarrow> (Inr (), db2)))"

definition OpenStore :: "event_store \<Rightarrow> unit result \<times> event_store" where
  "OpenStore s =
     (case es_fault s of Some e \<Rightarrow> (Inl (Wrap ''events: create table'' e), es_tick s) | None \<Rightarrow> (Inr (), es_tick s))"

section \<open>Wiring\<close>

definition seconds :: "int \<Rightarrow> int" where
  "seconds n = n * 1000000000"

definition data_plane_url :: "config \<Rightarrow> string" where
  "data_plane_url cfg =
     (if \<not> dp_Enabled (DataPlane cfg) then ''''
      else (if tls_CertFile (TLS cfg) \<noteq> '''' then ''https://'' else ''http://'') @ data_plane_section.dp_Listen (DataPlane cfg))"

definition metrics_enabled :: "config \<Rightarrow> bool" where
  "metrics_enabled cfg = (case ctl_MetricsEnabled (Control cfg) of None \<Rightarrow> True | Some b \<Rightarrow> b)"

definition qdrant_url :: "config \<Rightarrow> string" where
  "qdrant_url cfg = ''http://127.0.0.1:'' @ int_str (qd_HTTPPort (Qdrant cfg))"

definition webhook_targets :: "config \<Rightarrow> webhook_target list" where
  "webhook_targets cfg = map (\<lambda>wh. \<lparr>wt_URL = wh_URL wh, wt_Events = wh_Events wh, wt_Secret = wh_Secret wh\<rparr>) (Webhooks cfg)"

definition no_cloud :: panel_cloud where
  "no_cloud = panel_cloud.make '''' False '''' 0 0"

text \<open>In cloud mode the cookie is always marked secure.\<close>

definition cloud_settings :: "config \<Rightarrow> panel_cloud" where
  "cloud_settings cfg =
     (let c = Cloud cfg in
      if cl_Enabled c then
        panel_cloud.make (cloud_section.cl_CookieName c) True (cloud_section.cl_Domain c) (seconds (cloud_section.cl_SessionTTL c))
          (cloud_section.cl_LoginRateLimit c)
      else no_cloud)"

definition panel_of_config ::
  "'w serve_env \<Rightarrow> config \<Rightarrow> 'w deployment_plugin \<Rightarrow> string \<Rightarrow> 'w panel" where
  "panel_of_config env cfg plug key =
     \<lparr>pn_svc = service_of_config cfg plug (se_yaml env), pn_plugin = plug,
      pn_secret = auth_AdminSecret (Auth cfg), pn_instPwd = auth_InstancePassword (Auth cfg),
      pn_image = Control_Config.parseImageRef (dck_Image (Docker cfg)), pn_maxInst = ins_MaxInstances (Instances cfg),
      pn_dpURL = data_plane_url cfg, pn_defaultSkillset = ins_DefaultSkillset (Instances cfg),
      pn_defaultRole = ins_DefaultRole (Instances cfg),
      pn_skillsetsDir = path_Join [ctl_DataRoot (Control cfg), ''skillsets''],
      pn_signingKey = key, pn_sessionTTL = seconds (ctl_SessionTokenTTLSecs (Control cfg)),
      pn_hasUsers = cl_Enabled (Cloud cfg), pn_hasSessions = cl_Enabled (Cloud cfg), pn_cloudCfg = cloud_settings cfg,
      pn_metricsEnabled = metrics_enabled cfg, pn_hasWeb = True, pn_http = se_http env\<rparr>"

definition auto_restart_of :: "config \<Rightarrow> auto_restart_config" where
  "auto_restart_of cfg =
     auto_restart_config.make (auto_restart_section.ar_Enabled (AutoRestart cfg)) (auto_restart_section.ar_Threshold (AutoRestart cfg))
       (seconds (ar_CooldownSeconds (AutoRestart cfg)))"

definition event_log_of :: "'w serve_env \<Rightarrow> config \<Rightarrow> event_store \<Rightarrow> event_log" where
  "event_log_of env cfg es =
     (let l = NewPersistentLog 200 es in
      if Webhooks cfg = [] then l
      else l\<lparr>lg_webhooks := Some (NewWebhookDispatcher (se_seconds env) (webhook_targets cfg))\<rparr>)"

definition deps_of_config ::
  "'w serve_env \<Rightarrow> config \<Rightarrow> 'w deployment_plugin \<Rightarrow> string \<Rightarrow> event_log \<Rightarrow> 'w machine \<Rightarrow> 'w panel_deps" where
  "deps_of_config env cfg plug key elog m =
     \<lparr>pd_panel = panel_of_config env cfg plug key,
      pd_prov = \<lparr>ps_db = registry_rows m, ps_fs = mc_fs m, ps_world = mc_world m\<rparr>,
      pd_sources = (if dp_Enabled (DataPlane cfg) then Some (mc_sources m) else None),
      pd_events = Some elog, pd_hasQdrant = qd_Enabled (Qdrant cfg), pd_autoRestart = auto_restart_of cfg,
      pd_PollInterval = seconds (ctl_HealthPollSeconds (Control cfg)),
      pd_RateLimit = rl_RequestsPerMinute (RateLimit cfg), pd_ProvisionRateLimit = rl_ProvisionPerMinute (RateLimit cfg)\<rparr>"

text \<open>The data plane's server. Its connectors read any directory and keep every score: the command
  leaves \<^verbatim>\<open>AllowedFileDir\<close> and \<^verbatim>\<open>DefaultMinScore\<close> at their zero values.\<close>

definition dp_config_of :: "config \<Rightarrow> dp_config" where
  "dp_config_of cfg =
     dp_config.make (data_plane_section.dp_Listen (DataPlane cfg)) (auth_AdminSecret (Auth cfg))
       (data_plane_section.dp_Collection (DataPlane cfg)) (data_plane_section.dp_VectorSize (DataPlane cfg)) '''' 0"

definition data_plane_of_config :: "'w serve_env \<Rightarrow> config \<Rightarrow> (registry_db \<times> 'w) dp_server" where
  "data_plane_of_config env cfg =
     \<lparr>dp_cfg = dp_config_of cfg,
      dp_embedder = Embed_NewClient
        \<lparr>ec_BaseURL = emb_BaseURL (Embedding cfg), ec_APIKey = emb_APIKey (Embedding cfg), ec_Model = emb_Model (Embedding cfg),
         ec_MaxRetries = 0, ec_InitialBackoff = 0, ec_MaxBackoff = 0\<rparr> (se_embed_http env) (se_embed_wait env),
      dp_vector = \<lparr>qc_baseURL = qdrant_url cfg, qc_http = se_qdrant_http env\<rparr>,
      dp_tokenValidator = Some (registry_validator (se_sha env)),
      dp_http = se_rest_http env, dp_parse = se_parse env, dp_sha = se_sha env, dp_os = se_os env,
      dp_now = (\<lambda>_. se_stamp env), dp_hash_time = (\<lambda>_. se_stamp env)\<rparr>"

text \<open>The panel listens with TLS when a certificate is configured; the data plane always listens without.\<close>

record 'w served =
  sv_listen :: string
  sv_tls :: "(string \<times> string) option"
  sv_panel :: "'w panel"
  sv_state :: "'w panel_state"
  sv_poll :: int
  sv_data_plane :: "((registry_db \<times> 'w) dp_server \<times> dp_state) option"
  sv_data_plane_tls :: bool
  sv_purge :: "int option"

datatype command_error = BadConfig load_error | Failed go_error

text \<open>The steps up to the listeners, in the command's order: each failure ends it.\<close>

definition serve_events ::
  "'w serve_env \<Rightarrow> config \<Rightarrow> 'w deployment_plugin \<Rightarrow> string \<Rightarrow> 'w machine \<Rightarrow> ((command_error + 'w served) \<times> 'w machine) option" where
  "serve_events env cfg plug key m =
     (case OpenStore (mc_events m) of
        (Inl e, es) \<Rightarrow> Some (Inl (Failed (Wrap ''cannot initialize event store'' e)), m\<lparr>mc_events := es\<rparr>)
      | (Inr _, es) \<Rightarrow>
          (let m1 = m\<lparr>mc_events := es\<rparr>; d = deps_of_config env cfg plug key (event_log_of env cfg es) m1 in
           case NewServer (se_seconds env) d of
             None \<Rightarrow> None
           | Some (p, st) \<Rightarrow>
               Some (Inr \<lparr>sv_listen = ctl_Listen (Control cfg),
                          sv_tls = (if tls_CertFile (TLS cfg) \<noteq> '''' then Some (tls_CertFile (TLS cfg), tls_KeyFile (TLS cfg)) else None),
                          sv_panel = p, sv_state = st, sv_poll = poll_interval d,
                          sv_data_plane = (if dp_Enabled (DataPlane cfg)
                             then Some (data_plane_of_config env cfg, dp_New (dp_config_of cfg) (mc_sources m1)) else None),
                          sv_data_plane_tls = False,
                          sv_purge = (if cl_Enabled (Cloud cfg) then Some (10 * 60 * 1000000000) else None)\<rparr>, m1)))"

definition serve_key ::
  "'w serve_env \<Rightarrow> config \<Rightarrow> 'w deployment_plugin \<Rightarrow> 'w machine \<Rightarrow> ((command_error + 'w served) \<times> 'w machine) option" where
  "serve_key env cfg plug m =
     (case Registry_EnsureSigningKey (se_key env) (se_stamp env) (registry_rows m) of
        (Inl e, b) \<Rightarrow> Some (Inl (Failed (Wrap ''cannot initialize signing key'' e)), set_rows b m)
      | (Inr key, b) \<Rightarrow> serve_events env cfg plug key (set_rows b m))"

definition serve_sources ::
  "'w serve_env \<Rightarrow> config \<Rightarrow> 'w deployment_plugin \<Rightarrow> 'w machine \<Rightarrow> ((command_error + 'w served) \<times> 'w machine) option" where
  "serve_sources env cfg plug m =
     (if \<not> dp_Enabled (DataPlane cfg) then serve_key env cfg plug m
      else case Source_OpenRegistry (mc_sources m) of
        (Inl e, sd) \<Rightarrow> Some (Inl (Failed (Wrap ''cannot initialize source registry'' e)), m\<lparr>mc_sources := sd\<rparr>)
      | (Inr _, sd) \<Rightarrow> serve_key env cfg plug (m\<lparr>mc_sources := sd\<rparr>))"

definition serve_setup ::
  "'w serve_env \<Rightarrow> load_error + config \<Rightarrow> 'w machine \<Rightarrow> ((command_error + 'w served) \<times> 'w machine) option" where
  "serve_setup env loaded m =
     (case loaded of
        Inl e \<Rightarrow> Some (Inl (BadConfig e), m)
      | Inr cfg \<Rightarrow>
          (case ensureDataRoot (se_probe env) (ctl_DataRoot (Control cfg)) (mc_fs m) of
             (Inl e, s) \<Rightarrow> Some (Inl (Failed e), m\<lparr>mc_fs := s\<rparr>)
           | (Inr _, s) \<Rightarrow>
               (case openRegistryAndPlugin env cfg (m\<lparr>mc_fs := s\<rparr>) of
                  None \<Rightarrow> None
                | Some (Inl e, m1) \<Rightarrow> Some (Inl (Failed e), m1)
                | Some (Inr plug, m1) \<Rightarrow> serve_sources env cfg plug m1)))"

end
