(* ===== verification/Output_Format.thy ===== *)
theory Output_Format
  imports Config_Inject Go_Utf8 "HOL-Library.AList"
begin

text \<open>
  \<^verbatim>\<open>internal/output\<close>: the three formats the commands print in. The aligned table is what
  \<^verbatim>\<open>text/tabwriter\<close> (minimal width 0, padding 2 with spaces, no flags) makes of the lines: a cell that
  a tab ends is padded to the width of its column's block, the run of neighbouring lines that have a
  tab in that column too. Vertical tabs and form feeds in a cell are outside the model.
\<close>

datatype format = Table | JSON | Quiet

definition em_dash :: string where "em_dash = [CHR 0xE2, CHR 0x80, CHR 0x94]"

definition line_end :: string where "line_end = [CHR 0x0A]"

definition quoted :: "string \<Rightarrow> string" where
  "quoted s = [CHR 0x22] @ s @ [CHR 0x22]"

definition ParseFormat :: "string \<Rightarrow> format result" where
  "ParseFormat s =
     (let l = ToLower s in
      if l = ''table'' \<or> l = '''' then Inr Table
      else if l = ''json'' then Inr JSON
      else if l = ''quiet'' then Inr Quiet
      else Inl (Errorf (''invalid output format '' @ quoted s @ '' '' @ em_dash @ '' use table, json, or quiet'')))"

section \<open>Aligned text\<close>

definition RuneCount :: "string \<Rightarrow> nat" where
  "RuneCount s = length (string_runes s)"

text \<open>The cells of a line that a tab ends are all but the last.\<close>

definition ends_cell :: "nat \<Rightarrow> string list \<Rightarrow> bool" where
  "ends_cell j cells \<longleftrightarrow> j + 1 < length cells"

definition block_width :: "string list list \<Rightarrow> nat \<Rightarrow> nat \<Rightarrow> nat" where
  "block_width lns i j =
     (let block = takeWhile (ends_cell j) (rev (take i lns)) @ takeWhile (ends_cell j) (drop i lns)
      in foldr (\<lambda>cells w. max (RuneCount (cells ! j) + 2) w) block 0)"

definition pad_to :: "nat \<Rightarrow> string \<Rightarrow> string" where
  "pad_to w s = s @ replicate (w - RuneCount s) (CHR '' '')"

definition tab_line :: "string list list \<Rightarrow> nat \<Rightarrow> string" where
  "tab_line lns i =
     concat (map (\<lambda>j. if ends_cell j (lns ! i) then pad_to (block_width lns i j) (lns ! i ! j) else lns ! i ! j)
       [0..<length (lns ! i)])"

definition tabwriter :: "string \<Rightarrow> string" where
  "tabwriter s =
     (let lns = map (split_on (CHR 0x09)) (split_on (CHR 0x0A) s)
      in strings_join (map (tab_line lns) [0..<length lns]) line_end)"

section \<open>Tables\<close>

definition row_object :: "string list \<Rightarrow> string list \<Rightarrow> (string \<times> string) list" where
  "row_object headers row = fold (\<lambda>(h, c). AList.update (ToLower h) c) (zip headers row) []"

definition WriteTable :: "format \<Rightarrow> string list \<Rightarrow> string list list \<Rightarrow> string" where
  "WriteTable fmt headers rows =
     (case fmt of
        JSON \<Rightarrow> MarshalIndent (JArr (map (\<lambda>row. json_map (map (\<lambda>(k, v). (k, JStr v)) (row_object headers row))) rows)) @ line_end
      | Quiet \<Rightarrow> concat (map (\<lambda>row. case row of [] \<Rightarrow> '''' | c # _ \<Rightarrow> c @ line_end) rows)
      | Table \<Rightarrow> tabwriter (concat (map (\<lambda>row. strings_join row [CHR 0x09] @ line_end) (headers # rows))))"

text \<open>Every cell of a JSON row is found under its header in lower case when the headers differ.\<close>

lemma row_object_other:
  "k \<notin> set (map ToLower hs) \<Longrightarrow> map_of (fold (\<lambda>(h, c). AList.update (ToLower h) c) (zip hs cs) m) k = map_of m k"
  by (induction hs cs arbitrary: m rule: list_induct2') (auto simp: update_conv')

lemma row_object_fold:
  "distinct (map ToLower headers) \<Longrightarrow> length headers = length row \<Longrightarrow> set (map ToLower headers) \<inter> fst ` set m = {} \<Longrightarrow>
   j < length row \<Longrightarrow>
   map_of (fold (\<lambda>(h, c). AList.update (ToLower h) c) (zip headers row) m) (ToLower (headers ! j)) = Some (row ! j)"
proof (induction headers row arbitrary: m j rule: list_induct2')
  case (4 h hs c cs)
  let ?m = "AList.update (ToLower h) c m"
  show ?case
  proof (cases j)
    case 0
    have "ToLower h \<notin> set (map ToLower hs)" using "4.prems"(1) by simp
    from row_object_other [OF this, of cs ?m] 0 show ?thesis by (simp add: update_conv')
  next
    case (Suc k)
    have d: "distinct (map ToLower hs)" "length hs = length cs" "k < length cs" using "4.prems" Suc by simp_all
    have "set (map ToLower hs) \<inter> fst ` set ?m = {}"
      using "4.prems"(1,3) by (auto simp: dom_map_of_conv_image_fst [symmetric] update_conv')
    from "4.IH" [OF d(1,2) this d(3)] Suc show ?thesis by simp
  qed
qed auto

lemma row_object_cell:
  "distinct (map ToLower headers) \<Longrightarrow> length headers = length row \<Longrightarrow> j < length row \<Longrightarrow>
   map_of (row_object headers row) (ToLower (headers ! j)) = Some (row ! j)"
  unfolding row_object_def by (rule row_object_fold) simp_all

end
