(* ===== verification/Control_Commands.thy ===== *)
theory Control_Commands
  imports Control_Serve Rollout Output_Format
begin

text \<open>
  The commands of \<^verbatim>\<open>cmd/fox-control/main.go\<close> that work on the registry: \<^verbatim>\<open>list\<close>, \<^verbatim>\<open>provision\<close>,
  \<^verbatim>\<open>destroy\<close>, \<^verbatim>\<open>rollout\<close>, \<^verbatim>\<open>sec rotate-sse-key\<close>, \<^verbatim>\<open>sec rotate-query-token\<close>, and the two that
  touch nothing (\<^verbatim>\<open>version\<close>, \<^verbatim>\<open>generate-secret\<close>). A command takes what loading the configuration gave
  and the machine; it answers what it printed, the error it ends with, if any, and the machine
  after it. \<open>None\<close> is a panic, or a rollout that never ends. The parsing of flags is cobra's.
\<close>

section \<open>Commands\<close>

type_synonym 'w command = "'w machine \<Rightarrow> ((string \<times> command_error option) \<times> 'w machine) option"

definition fails_with :: "command_error \<Rightarrow> 'w command" where
  "fails_with e m = Some (('''', Some e), m)"

definition prints :: "string \<Rightarrow> 'w command" where
  "prints out m = Some ((out, None), m)"

definition with_config :: "load_error + config \<Rightarrow> (config \<Rightarrow> 'w command) \<Rightarrow> 'w command" where
  "with_config loaded body m =
     (case loaded of Inl e \<Rightarrow> fails_with (BadConfig e) m | Inr cfg \<Rightarrow> body cfg m)"

definition with_registry :: "'w serve_env \<Rightarrow> config \<Rightarrow> 'w command \<Rightarrow> 'w command" where
  "with_registry env cfg body m =
     (case open_registry env cfg m of
        None \<Rightarrow> None
      | Some (Inl e, m1) \<Rightarrow> fails_with (Failed e) m1
      | Some (Inr _, m1) \<Rightarrow> body m1)"

definition with_plugin :: "'w serve_env \<Rightarrow> config \<Rightarrow> ('w deployment_plugin \<Rightarrow> 'w command) \<Rightarrow> 'w command" where
  "with_plugin env cfg body m =
     (case openRegistryAndPlugin env cfg m of
        None \<Rightarrow> None
      | Some (Inl e, m1) \<Rightarrow> fails_with (Failed e) m1
      | Some (Inr plug, m1) \<Rightarrow> body plug m1)"

definition prov_of_machine :: "'w machine \<Rightarrow> 'w prov_state" where
  "prov_of_machine m = \<lparr>ps_db = registry_rows m, ps_fs = mc_fs m, ps_world = mc_world m\<rparr>"

definition set_prov :: "'w prov_state \<Rightarrow> 'w machine \<Rightarrow> 'w machine" where
  "set_prov st m = (set_rows (ps_db st) m)\<lparr>mc_fs := ps_fs st, mc_world := ps_world st\<rparr>"

section \<open>Listing\<close>

definition list_row :: "fox_instance \<Rightarrow> string list" where
  "list_row i = [inst_ID i, int_str (inst_Port i), inst_Status i, inst_ImageDigest i, inst_CreatedAt i]"

definition list_body :: "string \<Rightarrow> 'w command" where
  "list_body outputFormat m =
     (case Registry_List (registry_rows m) of
        (Inl e, b) \<Rightarrow> fails_with (Failed e) (set_rows b m)
      | (Inr instances, b) \<Rightarrow>
          (case ParseFormat outputFormat of
             Inl e \<Rightarrow> fails_with (Failed e) (set_rows b m)
           | Inr fmt \<Rightarrow>
               prints (WriteTable fmt [''ID'', ''PORT'', ''STATUS'', ''IMAGE'', ''CREATED''] (map list_row instances)) (set_rows b m)))"

definition cmd_list :: "'w serve_env \<Rightarrow> string \<Rightarrow> load_error + config \<Rightarrow> 'w command" where
  "cmd_list env outputFormat loaded = with_config loaded (\<lambda>cfg. with_registry env cfg (list_body outputFormat))"

section \<open>Provisioning and destroying\<close>

definition cli_request :: "config \<Rightarrow> string \<Rightarrow> request" where
  "cli_request cfg instanceID =
     \<lparr>rq_InstanceID = instanceID, rq_AdminSecret = auth_AdminSecret (Auth cfg),
      rq_InstancePassword = auth_InstancePassword (Auth cfg), rq_Image = Control_Config.parseImageRef (dck_Image (Docker cfg)),
      rq_ProxyEndpoint = '''', rq_CapabilityFlags = [], rq_Env = [], rq_SkillsetPath = '''', rq_DataPlaneURL = '''',
      rq_PrincipalRole = '''', rq_Cloud = \<lparr>cc_Enabled = False, cc_Domain = '''', cc_Slug = ''''\<rparr>\<rparr>"

definition provision_cmd_body ::
  "'w serve_env \<Rightarrow> (string \<Rightarrow> manifest result) \<Rightarrow> (nat \<Rightarrow> string result) \<Rightarrow> string \<Rightarrow> config \<Rightarrow> 'w deployment_plugin \<Rightarrow> 'w command" where
  "provision_cmd_body env unmarshal tokens instanceID cfg plug m =
     (case Provision (service_of_config cfg plug (se_yaml env)) unmarshal (se_sha env) (se_stamp env) tokens
             (cli_request cfg instanceID) (prov_of_machine m) of
        (Inl e, st) \<Rightarrow> fails_with (Failed e) (set_prov st m)
      | (Inr _, st) \<Rightarrow> prints '''' (set_prov st m))"

definition cmd_provision ::
  "'w serve_env \<Rightarrow> (string \<Rightarrow> manifest result) \<Rightarrow> (nat \<Rightarrow> string result) \<Rightarrow> string \<Rightarrow> load_error + config \<Rightarrow> 'w command" where
  "cmd_provision env unmarshal tokens instanceID loaded =
     with_config loaded (\<lambda>cfg. with_plugin env cfg (provision_cmd_body env unmarshal tokens instanceID cfg))"

definition destroy_body :: "'w serve_env \<Rightarrow> string \<Rightarrow> bool \<Rightarrow> config \<Rightarrow> 'w deployment_plugin \<Rightarrow> 'w command" where
  "destroy_body env instanceID removeData cfg plug m =
     (case Destroy (service_of_config cfg plug (se_yaml env)) instanceID removeData (prov_of_machine m) of
        (Inl e, st) \<Rightarrow> fails_with (Failed e) (set_prov st m)
      | (Inr _, st) \<Rightarrow> prints '''' (set_prov st m))"

definition cmd_destroy :: "'w serve_env \<Rightarrow> string \<Rightarrow> bool \<Rightarrow> load_error + config \<Rightarrow> 'w command" where
  "cmd_destroy env instanceID removeData loaded =
     with_config loaded (\<lambda>cfg. with_plugin env cfg (destroy_body env instanceID removeData cfg))"

section \<open>Rollout\<close>

definition set_roll :: "'w roll_state \<Rightarrow> 'w machine \<Rightarrow> 'w machine" where
  "set_roll st m = (set_rows (rs_db st) m)\<lparr>mc_world := rs_world st\<rparr>"

definition rollout_failed :: command_error where
  "rollout_failed = Failed (Errorf (''rollout completed with failures '' @ em_dash @ '' see report above for details''))"

definition rollout_body :: "'w clock \<Rightarrow> image_ref \<Rightarrow> 'w deployment_plugin \<Rightarrow> 'w command" where
  "rollout_body ck ref plug m =
     (case Execute (Orchestrator_New plug ck 0 None) ref \<lparr>rs_db = registry_rows m, rs_world = mc_world m\<rparr> of
        None \<Rightarrow> None
      | Some (Inl e, st) \<Rightarrow> fails_with (Failed e) (set_roll st m)
      | Some (Inr rep, st) \<Rightarrow>
          Some ((Report_Format rep, if Report_OK rep then None else Some rollout_failed), set_roll st m))"

definition cmd_rollout :: "'w serve_env \<Rightarrow> 'w clock \<Rightarrow> string \<Rightarrow> load_error + config \<Rightarrow> 'w command" where
  "cmd_rollout env ck target loaded =
     (let ref = Control_Config.parseImageRef target in
      if img_Digest ref = '''' then fails_with (Failed (Errorf ''--image must be a digest reference (repo@sha256:...)''))
      else with_config loaded (\<lambda>cfg. with_plugin env cfg (rollout_body ck ref)))"

section \<open>Security operations\<close>

definition rotate_key_body :: "'w serve_env \<Rightarrow> 'w command" where
  "rotate_key_body env m =
     (case Registry_RotateSigningKey (se_key env) (se_stamp env) (registry_rows m) of
        (Inl e, b) \<Rightarrow> fails_with (Failed e) (set_rows b m)
      | (Inr _, b) \<Rightarrow>
          prints (''SSE signing key rotated. All active session tokens are now invalid.'' @ line_end @
                  ''Connected SSE clients will reconnect and obtain new tokens automatically.'' @ line_end) (set_rows b m))"

definition cmd_rotate_sse_key :: "'w serve_env \<Rightarrow> load_error + config \<Rightarrow> 'w command" where
  "cmd_rotate_sse_key env loaded = with_config loaded (\<lambda>cfg. with_registry env cfg (rotate_key_body env))"

text \<open>What the rotation of a query token writes into the instance's files: the secrets of the
  configuration, and the data plane's plain address.\<close>

definition rotation_params :: "config \<Rightarrow> fox_instance \<Rightarrow> string \<Rightarrow> inject_params" where
  "rotation_params cfg inst token =
     \<lparr>ip_DataDir = inst_DataDir inst, ip_InstancePassword = auth_InstancePassword (Auth cfg),
      ip_Config = \<lparr>ic_AuthSecret = auth_AdminSecret (Auth cfg), ic_InstancePassword = '''', ic_ProxyEndpoint = '''',
        ic_CapabilityFlags = [], ic_Env = [], ic_SkillsetPath = '''',
        ic_DataPlaneURL = ''http://'' @ data_plane_section.dp_Listen (DataPlane cfg), ic_PrincipalRole = ''''\<rparr>,
      ip_QueryToken = token, ip_Cloud = \<lparr>cc_Enabled = False, cc_Domain = '''', cc_Slug = ''''\<rparr>\<rparr>"

text \<open>The prefix of the token is a slice: a token of less than eight bytes panics.\<close>

definition rotate_with ::
  "'w serve_env \<Rightarrow> config \<Rightarrow> fox_instance \<Rightarrow> string \<Rightarrow> string \<Rightarrow> 'w command" where
  "rotate_with env cfg inst instanceID newToken m =
     (case Registry_UpdateQueryToken (se_sha env) instanceID newToken (registry_rows m) of
        (Inl e, b) \<Rightarrow> fails_with (Failed e) (set_rows b m)
      | (Inr _, b) \<Rightarrow>
          (let m1 = set_rows b m in
           case Inject (se_yaml env) (rotation_params cfg inst newToken) (mc_fs m1) of
             (Inl e, s) \<Rightarrow> fails_with (Failed (Wrap ''re-inject config'' e)) (m1\<lparr>mc_fs := s\<rparr>)
           | (Inr _, s) \<Rightarrow>
               (if length newToken < 8 then None
                else prints (''Query token rotated for instance '' @ instanceID @ '' (prefix: '' @ take 8 newToken @ '').'' @ line_end @
                             ''Restart the instance for the new token to take effect.'' @ line_end) (m1\<lparr>mc_fs := s\<rparr>))))"

definition rotate_token_body :: "'w serve_env \<Rightarrow> string result \<Rightarrow> string \<Rightarrow> config \<Rightarrow> 'w command" where
  "rotate_token_body env rnd instanceID cfg m =
     (case Registry_Get instanceID (registry_rows m) of
        (Inl e, b) \<Rightarrow> fails_with (Failed (Wrap (''instance '' @ instanceID @ '' not found'') e)) (set_rows b m)
      | (Inr inst, b) \<Rightarrow>
          (case GenerateQueryToken rnd of
             Inl e \<Rightarrow> fails_with (Failed e) (set_rows b m)
           | Inr newToken \<Rightarrow> rotate_with env cfg inst instanceID newToken (set_rows b m)))"

definition cmd_rotate_query_token ::
  "'w serve_env \<Rightarrow> string result \<Rightarrow> string \<Rightarrow> load_error + config \<Rightarrow> 'w command" where
  "cmd_rotate_query_token env rnd instanceID loaded =
     with_config loaded (\<lambda>cfg. with_registry env cfg (rotate_token_body env rnd instanceID cfg))"

section \<open>Commands without state\<close>

definition cmd_version :: "string \<Rightarrow> string \<Rightarrow> string \<Rightarrow> 'w command" where
  "cmd_version buildVersion buildCommit buildDate =
     prints (''fox-control '' @ buildVersion @ '' (commit '' @ buildCommit @ '', built '' @ buildDate @ '')'' @ line_end)"

text \<open>\<^verbatim>\<open>make\<close> panics for a negative length.\<close>

definition cmd_generate_secret :: "(nat \<Rightarrow> string result) \<Rightarrow> int \<Rightarrow> 'w command" where
  "cmd_generate_secret rnd len m =
     (if len < 0 then None
      else case rnd (nat len) of
        Inl e \<Rightarrow> fails_with (Failed (Wrap ''generate secret'' e)) m
      | Inr b \<Rightarrow> prints (hex_encode b @ line_end) m)"

section \<open>Logging\<close>

datatype log_level = LevelDebug | LevelInfo | LevelWarn | LevelError

text \<open>The level and whether lines are JSON.\<close>

definition configureLogging :: "config \<Rightarrow> log_level \<times> bool" where
  "configureLogging cfg =
     (let l = ToLower (ctl_LogLevel (Control cfg)) in
      (if l = ''debug'' then LevelDebug else if l = ''warn'' then LevelWarn
       else if l = ''error'' then LevelError else LevelInfo,
       ctl_LogFormat (Control cfg) = ''json''))"

end
