(* ===== verification/Control_Life.thy ===== *)
theory Control_Life
  imports Control_Commands
begin

text \<open>
  The life of a control plane: starts and stops of the server, its requests and jobs in between, and
  the operator's commands while it is down, in any order and with any failures. What the registry
  guarantees within one run of the server (\<open>server_refines_registry\<close>) holds across all of them.
\<close>

section \<open>The invariant of the file\<close>

definition rows_within :: "config \<Rightarrow> registry_db \<Rightarrow> bool" where
  "rows_within cfg b \<longleftrightarrow>
     int (length (db_instances b)) \<le> ins_MaxInstances (Instances cfg) \<and>
     (\<forall>r \<in> set (db_instances b). ins_PortStart (Instances cfg) \<le> inst_Port r \<and>
        inst_Port r < ins_PortStart (Instances cfg) + ins_MaxInstances (Instances cfg))"

definition base_inv :: "registry_db \<Rightarrow> bool" where
  "base_inv b \<longleftrightarrow> distinct (map inst_Port (db_instances b)) \<and> keys_inv b \<and> cloud_inv b"

text \<open>A file that can be opened: at a whole version, and not in the first migrations when calls fail.\<close>

definition fleet_file :: "(string \<Rightarrow> string) \<Rightarrow> config \<Rightarrow> nat \<Rightarrow> disk_db \<Rightarrow> bool" where
  "fleet_file sha cfg v d \<longleftrightarrow>
     v \<le> 7 \<and> file_at sha v d \<and> (2 \<le> v \<or> quiet d) \<and> rows_within cfg (dk_rows d) \<and> base_inv (dk_rows d)"

definition healthy :: "(string \<Rightarrow> string) \<Rightarrow> config \<Rightarrow> 'w machine \<Rightarrow> bool" where
  "healthy sha cfg m \<longleftrightarrow> (\<exists>v. fleet_file sha cfg v (mc_registry m))"

lemma rows_within_fleet: "config_accepted cfg \<Longrightarrow> fleet_inv (service_of_config cfg plug ym) b = rows_within cfg b"
  by (simp add: fleet_inv_def rows_within_def service_of_config_ok)

lemma kept_maps:
  assumes "kept b b'"
  shows "map inst_ID (db_instances b') = map inst_ID (db_instances b)" "map inst_Port (db_instances b') = map inst_Port (db_instances b)"
proof -
  have p: "inst_Port r' = inst_Port r" if "row_kept r r'" for r r'
  proof -
    have "r = r'\<lparr>inst_QueryToken := inst_QueryToken r, row_query_token_hash := row_query_token_hash r\<rparr>"
      using that by (simp add: row_kept_def)
    then have "inst_Port r = inst_Port (r'\<lparr>inst_QueryToken := inst_QueryToken r, row_query_token_hash := row_query_token_hash r\<rparr>)"
      by (rule arg_cong)
    then show ?thesis by simp
  qed
  have l: "list_all2 row_kept (db_instances b) (db_instances b')" using assms by (simp add: kept_def)
  show "map inst_ID (db_instances b') = map inst_ID (db_instances b)" "map inst_Port (db_instances b') = map inst_Port (db_instances b)"
    using l row_kept_ID p by (auto intro!: nth_equalityI simp: list_all2_conv_all_nth)
qed

lemma ports_only: "map inst_Port (db_instances b') = map inst_Port (db_instances b) \<Longrightarrow> rows_within cfg b' = rows_within cfg b"
proof -
  assume e: "map inst_Port (db_instances b') = map inst_Port (db_instances b)"
  have "rows_within cfg c \<longleftrightarrow> int (length (map inst_Port (db_instances c))) \<le> ins_MaxInstances (Instances cfg) \<and>
      (\<forall>q \<in> set (map inst_Port (db_instances c)). ins_PortStart (Instances cfg) \<le> q \<and> q < ins_PortStart (Instances cfg) + ins_MaxInstances (Instances cfg))" for c
    by (simp add: rows_within_def)
  from this [of b] this [of b'] e show ?thesis by simp
qed

lemma kept_base: "kept b b' \<Longrightarrow> base_inv b \<Longrightarrow> base_inv b'"
proof -
  assume k: "kept b b'" and i: "base_inv b"
  have "inst_ID ` set (db_instances b') = inst_ID ` set (db_instances b)"
    using arg_cong [OF kept_maps(1) [OF k], of set] by simp
  with k i kept_maps(2) [OF k] show ?thesis by (simp add: base_inv_def keys_inv_def cloud_inv_def kept_def)
qed

lemma open_fleet_file:
  assumes "fleet_file sha cfg v d" "Registry_Open sha rnd path d = Some (r, d')"
  shows "\<exists>v'. fleet_file sha cfg v' d' \<and> (r = Inr () \<longrightarrow> v' = 7)"
proof -
  have f: "file_at sha v d" "v \<le> 7" "2 \<le> v \<or> quiet d" "rows_within cfg (dk_rows d)" "base_inv (dk_rows d)"
    using assms(1) by (simp_all add: fleet_file_def)
  from Open_file [OF f(1-3), of rnd path] assms(2) obtain v' where
    o': "v \<le> v'" "v' \<le> 7" "file_at sha v' d'" "kept (dk_rows d) (dk_rows d')" "r = Inr () \<longrightarrow> v' = 7" "quiet d \<longrightarrow> v' = 7" by auto
  have "rows_within cfg (dk_rows d')" using f(4) ports_only kept_maps(2) [OF o'(4)] by blast
  with o' f(3) kept_base [OF o'(4) f(5)] show ?thesis by (auto simp: fleet_file_def)
qed

lemma file7_db_inv: "fleet_file sha cfg 7 d \<Longrightarrow> db_inv sha (dk_rows d)"
  by (auto simp: fleet_file_def base_inv_def db_inv_def instances_inv_def hash_ok_def file_at_def schema_at_def rows_ok_def)

lemma file7_set_rows:
  assumes "fleet_file sha cfg 7 d" "db_inv sha b" "rows_within cfg b"
  shows "fleet_file sha cfg 7 (d\<lparr>dk_rows := b\<rparr>)"
proof -
  have h: "has_table (d\<lparr>dk_rows := b\<rparr>) = has_table d" "has_column (d\<lparr>dk_rows := b\<rparr>) = has_column d"
    by (simp_all add: has_table_def has_column_def fun_eq_iff)
  have r: "rows_ok sha 7 b" "base_inv b"
    using assms(2) by (auto simp: db_inv_def instances_inv_def hash_ok_def rows_ok_def base_inv_def)
  have t: "tables_ok 7 d" "columns_ok 7 d" using assms(1) by (simp_all add: fleet_file_def file_at_def schema_at_def)
  then have "tables_ok 7 (d\<lparr>dk_rows := b\<rparr>)" "columns_ok 7 (d\<lparr>dk_rows := b\<rparr>)" "defaults_ok (d\<lparr>dk_rows := b\<rparr>)"
    by (simp_all add: tables_ok_def columns_ok_def defaults_ok_def h)
  with assms r show ?thesis by (simp add: fleet_file_def file_at_def schema_at_def read_version_def)
qed

section \<open>Steps of the registry keep it\<close>

lemma reserve_db_inv:
  assumes "db_inv sha db"
  shows "db_inv sha (snd (reserve svc sha now rnd req name db))"
proof (cases "reserve svc sha now rnd req name db")
  case (Pair r db')
  have same: "db_inv sha db2" if "same_tables db db2" for db2
    using update_step_inv [OF step_query [OF that] assms] .
  show ?thesis
  proof (cases r)
    case (Inl e)
    with Pair same reserve_err show ?thesis by fastforce
  next
    case (Inr inst)
    then obtain db2 where "same_tables db db2" "Registry_Create sha now inst db2 = (Inr (), db')"
      using reserve_ok(6) Pair by blast
    then show ?thesis using Registry_Create_db_inv [OF same, of db2 now inst] Pair by simp
  qed
qed

lemma fleet_step_db_inv: "fleet_step svc sha db db' \<Longrightarrow> db_inv sha db \<Longrightarrow> db_inv sha db'"
  by (erule fleet_step.cases) (auto intro: reserve_db_inv update_step_inv)

lemma fleet_steps_keep:
  assumes "fleet_steps (service_of_config cfg plug ym) sha b b'" "config_accepted cfg" "db_inv sha b" "rows_within cfg b"
  shows "db_inv sha b' \<and> rows_within cfg b'"
  using assms(1)
proof (induction rule: rtranclp_induct)
  case (step y z)
  have "fleet_inv (service_of_config cfg plug ym) y" using step.IH rows_within_fleet [OF assms(2)] by blast
  from fleet_step_inv [OF step.hyps(2) service_of_config_ok(1) [OF assms(2)] this] rows_within_fleet [OF assms(2)]
    fleet_step_db_inv [OF step.hyps(2)] step.IH
  show ?case by blast
qed (use assms in blast)

text \<open>A machine whose registry has been opened, and what the body of a command may do to it.\<close>

definition opened :: "(string \<Rightarrow> string) \<Rightarrow> config \<Rightarrow> 'w machine \<Rightarrow> bool" where
  "opened sha cfg m \<longleftrightarrow> fleet_file sha cfg 7 (mc_registry m)"

lemma opened_healthy: "opened sha cfg m \<Longrightarrow> healthy sha cfg m"
  by (auto simp: opened_def healthy_def)

lemma opened_rows: "opened sha cfg m \<Longrightarrow> db_inv sha (registry_rows m) \<and> rows_within cfg (registry_rows m)"
  using file7_db_inv by (auto simp: opened_def registry_rows_def fleet_file_def)

lemma opened_steps:
  assumes "opened sha cfg m" "config_accepted cfg" "fleet_steps (service_of_config cfg plug ym) sha (registry_rows m) b"
  shows "opened sha cfg (set_rows b m)"
  using fleet_steps_keep [OF assms(3,2)] opened_rows [OF assms(1)] file7_set_rows assms(1)
  by (simp add: opened_def set_rows_def)

lemma healthy_cong: "mc_registry m' = mc_registry m \<Longrightarrow> healthy sha cfg m' = healthy sha cfg m"
  by (simp add: healthy_def)

lemma opened_cong: "mc_registry m' = mc_registry m \<Longrightarrow> opened sha cfg m' = opened sha cfg m"
  by (simp add: opened_def)

lemma open_registry_healthy:
  assumes "healthy sha cfg m" "se_sha env = sha" "open_registry env cfg m = Some (r, m')"
  shows "healthy sha cfg m' \<and> (r = Inr () \<longrightarrow> opened sha cfg m')"
proof -
  from assms(3) obtain d where d: "Registry_Open sha (se_rnd env) (path_Join [ctl_DataRoot (Control cfg), ''registry.db'']) (mc_registry m) = Some (r, d)"
    "m' = set_registry d m" using assms(2) by (auto simp: open_registry_def)
  from assms(1) obtain v where "fleet_file sha cfg v (mc_registry m)" by (auto simp: healthy_def)
  from open_fleet_file [OF this d(1)] show ?thesis by (auto simp: d(2) set_registry_def healthy_def opened_def)
qed

lemma openRegistryAndPlugin_healthy:
  assumes "healthy sha cfg m" "se_sha env = sha" "openRegistryAndPlugin env cfg m = Some (r, m')"
  shows "healthy sha cfg m' \<and> (\<forall>plug. r = Inr plug \<longrightarrow> opened sha cfg m')"
  using assms(3) open_registry_healthy [OF assms(1,2)]
  by (auto simp: openRegistryAndPlugin_def split: option.splits prod.splits sum.splits)

definition keeps_healthy :: "(string \<Rightarrow> string) \<Rightarrow> config \<Rightarrow> 'w command \<Rightarrow> bool" where
  "keeps_healthy sha cfg c \<longleftrightarrow> (\<forall>m r m'. healthy sha cfg m \<longrightarrow> c m = Some (r, m') \<longrightarrow> healthy sha cfg m')"

definition body_ok :: "(string \<Rightarrow> string) \<Rightarrow> config \<Rightarrow> 'w command \<Rightarrow> bool" where
  "body_ok sha cfg c \<longleftrightarrow> (\<forall>m r m'. opened sha cfg m \<longrightarrow> c m = Some (r, m') \<longrightarrow> healthy sha cfg m')"

lemma with_config_Inr [simp]: "with_config (Inr cfg) body = body cfg"
  by (simp add: with_config_def fun_eq_iff)

lemma body_okD: "body_ok sha cfg c \<Longrightarrow> opened sha cfg m \<Longrightarrow> c m = Some (r, m') \<Longrightarrow> healthy sha cfg m'"
  unfolding body_ok_def by blast

lemma fails_with_result: "fails_with e m = Some (r, m') \<Longrightarrow> m' = m"
  and prints_result: "prints out m = Some (r, m') \<Longrightarrow> m' = m"
  by (simp_all add: fails_with_def prints_def)

lemma with_registry_keeps:
  assumes "se_sha env = sha" "body_ok sha cfg body"
  shows "keeps_healthy sha cfg (with_registry env cfg body)"
  unfolding keeps_healthy_def
proof (intro allI impI)
  fix m r m' assume h: "healthy sha cfg m" and run: "with_registry env cfg body m = Some (r, m')"
  then obtain x m1 where o': "open_registry env cfg m = Some (x, m1)" by (auto simp: with_registry_def split: option.splits)
  note k = open_registry_healthy [OF h assms(1) o']
  show "healthy sha cfg m'"
  proof (cases x)
    case (Inl e)
    with run o' k show ?thesis by (auto simp: with_registry_def dest: fails_with_result)
  next
    case (Inr u)
    with run o' have "body m1 = Some (r, m')" by (simp add: with_registry_def)
    moreover have "opened sha cfg m1" using k Inr by simp
    ultimately show ?thesis using body_okD [OF assms(2)] by blast
  qed
qed

lemma with_plugin_keeps:
  assumes "se_sha env = sha" "\<And>plug. body_ok sha cfg (body plug)"
  shows "keeps_healthy sha cfg (with_plugin env cfg body)"
  unfolding keeps_healthy_def
proof (intro allI impI)
  fix m r m' assume h: "healthy sha cfg m" and run: "with_plugin env cfg body m = Some (r, m')"
  then obtain x m1 where o': "openRegistryAndPlugin env cfg m = Some (x, m1)" by (auto simp: with_plugin_def split: option.splits)
  note k = openRegistryAndPlugin_healthy [OF h assms(1) o']
  show "healthy sha cfg m'"
  proof (cases x)
    case (Inl e)
    with run o' k show ?thesis by (auto simp: with_plugin_def dest: fails_with_result)
  next
    case (Inr plug)
    with run o' have "body plug m1 = Some (r, m')" by (simp add: with_plugin_def)
    moreover have "opened sha cfg m1" using k Inr by simp
    ultimately show ?thesis using body_okD [OF assms(2)] by blast
  qed
qed

section \<open>The commands\<close>

lemma fleet_rolloutInstance:
  "rolloutInstance o' inst target st = Some (x, st') \<Longrightarrow> fleet_steps svc sha (rs_db st) (rs_db st')"
  by (auto simp: rolloutInstance_def Let_def split: option.splits prod.splits sum.splits dest: fleet_calls(15) [where svc = svc and sha = sha])

lemma fleet_exec_loop:
  "exec_loop o' target insts st = Some (rs, st') \<Longrightarrow> fleet_steps svc sha (rs_db st) (rs_db st')"
proof (induction insts arbitrary: st rs)
  case (Cons i insts)
  show ?case
  proof (cases "ck_ctxDone (or_clock o') (rs_world st)")
    case False
    with Cons.prems obtain x st1 where r: "rolloutInstance o' i target st = Some (x, st1)" by (auto split: option.splits)
    note f = fleet_rolloutInstance [OF r, of svc sha]
    show ?thesis
    proof (cases "ir_Status x = StatusRolledOut")
      case True
      with Cons.prems False r obtain rs1 where "exec_loop o' target insts st1 = Some (rs1, st')" by (auto split: option.splits)
      from Cons.IH [OF this] f show ?thesis by simp
    qed (use Cons.prems False r f in auto)
  qed (use Cons.prems in auto)
qed simp

lemma fleet_Execute:
  assumes "Execute o' target st = Some (r, st')"
  shows "fleet_steps svc sha (rs_db st) (rs_db st')"
proof -
  obtain l b where l: "Registry_List (rs_db st) = (l, b)" by fastforce
  note f = fleet_calls(2) [OF l, of svc sha]
  show ?thesis
  proof (cases l)
    case (Inl e)
    with assms l f show ?thesis by (auto simp: Execute_def)
  next
    case (Inr insts)
    with assms l obtain rs where "exec_loop o' target insts (st\<lparr>rs_db := b\<rparr>) = Some (rs, st')"
      by (auto simp: Execute_def split: option.splits)
    from fleet_exec_loop [OF this, of svc sha] f show ?thesis by simp
  qed
qed

lemma opened_healthy_steps:
  assumes "opened sha cfg m" "config_accepted cfg" "fleet_steps (service_of_config cfg plug ym) sha (registry_rows m) b"
    "mc_registry m' = mc_registry (set_rows b m)"
  shows "healthy sha cfg m'"
  using opened_healthy [OF opened_steps [OF assms(1-3)]] healthy_cong [OF assms(4)] by simp

lemma set_rows_set_rows [simp]: "set_rows b (set_rows c m) = set_rows b m" "registry_rows (set_rows b m) = b"
  by (simp_all add: set_rows_def registry_rows_def)

lemma set_rows_parts [simp]: "mc_registry (set_prov st m) = mc_registry (set_rows (ps_db st) m)"
  "mc_registry (set_roll rst m) = mc_registry (set_rows (rs_db rst) m)"
  by (simp_all add: set_prov_def set_roll_def)

inductive cli_command :: "(string \<Rightarrow> string) \<Rightarrow> config \<Rightarrow> 'w command \<Rightarrow> bool" for sha cfg where
  cli_list: "se_sha env = sha \<Longrightarrow> cli_command sha cfg (cmd_list env fmt (Inr cfg))"
| cli_provision: "se_sha env = sha \<Longrightarrow> cli_command sha cfg (cmd_provision env um tokens iid (Inr cfg))"
| cli_destroy: "se_sha env = sha \<Longrightarrow> cli_command sha cfg (cmd_destroy env iid rmData (Inr cfg))"
| cli_rollout: "se_sha env = sha \<Longrightarrow> cli_command sha cfg (cmd_rollout env ck target (Inr cfg))"
| cli_sse_key: "se_sha env = sha \<Longrightarrow> cli_command sha cfg (cmd_rotate_sse_key env (Inr cfg))"
| cli_token: "se_sha env = sha \<Longrightarrow> cli_command sha cfg (cmd_rotate_query_token env rnd iid (Inr cfg))"


text \<open>Each body makes steps of the registry only.\<close>

lemma body_steps:
  assumes "config_accepted cfg"
    and "\<And>m r m'. c m = Some (r, m') \<Longrightarrow> \<exists>b. fleet_steps (service_of_config cfg plug ym) sha (registry_rows m) b \<and>
        mc_registry m' = mc_registry (set_rows b m)"
  shows "body_ok sha cfg c"
  unfolding body_ok_def using assms opened_healthy_steps by meson

lemma list_body_ok: "config_accepted cfg \<Longrightarrow> body_ok sha cfg (list_body fmt)"
proof (erule body_steps [where plug = undefined and ym = undefined])
  fix m r m' assume run: "list_body fmt m = Some (r, m')"
  obtain x b where l: "Registry_List (registry_rows m) = (x, b)" by fastforce
  have "m' = set_rows b m"
    using run l by (auto simp: list_body_def split: sum.splits dest: fails_with_result prints_result)
  then show "\<exists>b. fleet_steps (service_of_config cfg undefined undefined) sha (registry_rows m) b \<and> mc_registry m' = mc_registry (set_rows b m)"
    using fleet_calls(2) [OF l] by blast
qed

lemma provision_body_ok:
  assumes "config_accepted cfg" "se_sha env = sha"
  shows "body_ok sha cfg (provision_cmd_body env um tokens iid cfg plug)"
proof (rule body_steps [where plug = plug and ym = "se_yaml env", OF assms(1)])
  fix m r m' assume run: "provision_cmd_body env um tokens iid cfg plug m = Some (r, m')"
  obtain x st where p: "Provision (service_of_config cfg plug (se_yaml env)) um (se_sha env) (se_stamp env) tokens
      (cli_request cfg iid) (prov_of_machine m) = (x, st)" by fastforce
  have "mc_registry m' = mc_registry (set_rows (ps_db st) m)"
    using run p by (auto simp: provision_cmd_body_def split: sum.splits dest: fails_with_result prints_result)
  moreover have "fleet_steps (service_of_config cfg plug (se_yaml env)) sha (registry_rows m) (ps_db st)"
    using fleet_Provision [OF p] assms(2) by (simp add: prov_of_machine_def)
  ultimately show "\<exists>b. fleet_steps (service_of_config cfg plug (se_yaml env)) sha (registry_rows m) b \<and>
      mc_registry m' = mc_registry (set_rows b m)"
    by blast
qed

lemma destroy_body_ok:
  assumes "config_accepted cfg"
  shows "body_ok sha cfg (destroy_body env iid rmData cfg plug)"
proof (rule body_steps [where plug = plug and ym = undefined, OF assms])
  fix m r m' assume run: "destroy_body env iid rmData cfg plug m = Some (r, m')"
  obtain x st where p: "Destroy (service_of_config cfg plug (se_yaml env)) iid rmData (prov_of_machine m) = (x, st)" by fastforce
  have "mc_registry m' = mc_registry (set_rows (ps_db st) m)"
    using run p by (auto simp: destroy_body_def split: sum.splits dest: fails_with_result prints_result)
  moreover have "fleet_steps (service_of_config cfg plug undefined) sha (registry_rows m) (ps_db st)"
    using fleet_Destroy [OF p] by (simp add: prov_of_machine_def)
  ultimately show "\<exists>b. fleet_steps (service_of_config cfg plug undefined) sha (registry_rows m) b \<and>
      mc_registry m' = mc_registry (set_rows b m)"
    by blast
qed

lemma rollout_body_ok:
  assumes "config_accepted cfg"
  shows "body_ok sha cfg (rollout_body ck ref plug)"
proof (rule body_steps [where plug = plug and ym = undefined, OF assms])
  fix m r m' assume run: "rollout_body ck ref plug m = Some (r, m')"
  then obtain x st where e: "Execute (Orchestrator_New plug ck 0 None) ref \<lparr>rs_db = registry_rows m, rs_world = mc_world m\<rparr> = Some (x, st)"
    by (auto simp: rollout_body_def split: option.splits)
  have "mc_registry m' = mc_registry (set_rows (rs_db st) m)"
    using run e by (auto simp: rollout_body_def split: sum.splits dest: fails_with_result)
  moreover have "fleet_steps (service_of_config cfg plug undefined) sha (registry_rows m) (rs_db st)"
    using fleet_Execute [OF e] by simp
  ultimately show "\<exists>b. fleet_steps (service_of_config cfg plug undefined) sha (registry_rows m) b \<and>
      mc_registry m' = mc_registry (set_rows b m)"
    by blast
qed

lemma rotate_key_body_ok:
  assumes "config_accepted cfg"
  shows "body_ok sha cfg (rotate_key_body env)"
proof (rule body_steps [where plug = undefined and ym = undefined, OF assms])
  fix m r m' assume run: "rotate_key_body env m = Some (r, m')"
  obtain x b where k: "Registry_RotateSigningKey (se_key env) (se_stamp env) (registry_rows m) = (x, b)" by fastforce
  have "m' = set_rows b m"
    using run k by (auto simp: rotate_key_body_def split: sum.splits dest: fails_with_result prints_result)
  then show "\<exists>b. fleet_steps (service_of_config cfg undefined undefined) sha (registry_rows m) b \<and> mc_registry m' = mc_registry (set_rows b m)"
    using fleet_one [OF step_rotate_key [of sha "registry_rows m" "se_key env" "se_stamp env"]] k by auto
qed

lemma rotate_with_result:
  assumes "rotate_with env cfg inst iid t m = Some (r, m')"
  shows "mc_registry m' = mc_registry (set_rows (snd (Registry_UpdateQueryToken (se_sha env) iid t (registry_rows m))) m)"
  using assms by (auto simp: rotate_with_def Let_def split: sum.splits prod.splits if_splits dest!: fails_with_result prints_result)

lemma rotate_token_body_ok:
  assumes "config_accepted cfg" "se_sha env = sha"
  shows "body_ok sha cfg (rotate_token_body env rnd iid cfg)"
proof (rule body_steps [where plug = undefined and ym = undefined, OF assms(1)])
  fix m r m' assume run: "rotate_token_body env rnd iid cfg m = Some (r, m')"
  obtain x b where g: "Registry_Get iid (registry_rows m) = (x, b)" by fastforce
  note f = fleet_calls(1) [OF g]
  show "\<exists>b. fleet_steps (service_of_config cfg undefined undefined) sha (registry_rows m) b \<and> mc_registry m' = mc_registry (set_rows b m)"
  proof (cases "(\<exists>e. x = Inl e) \<or> (\<exists>e. GenerateQueryToken rnd = Inl e)")
    case True
    then have "m' = set_rows b m" using run g by (auto simp: rotate_token_body_def split: sum.splits dest: fails_with_result)
    then show ?thesis using f by blast
  next
    case False
    then obtain inst t where "x = Inr inst" "GenerateQueryToken rnd = Inr t" by (metis sum.exhaust)
    with run g have rot: "rotate_with env cfg inst iid t (set_rows b m) = Some (r, m')" by (simp add: rotate_token_body_def)
    let ?b = "snd (Registry_UpdateQueryToken (se_sha env) iid t b)"
    have "fleet_steps (service_of_config cfg undefined undefined) sha (registry_rows m) ?b" 
      using rtranclp_trans [OF f fleet_one [OF step_token [of sha b iid t]]] assms(2) by simp
    moreover have "mc_registry m' = mc_registry (set_rows ?b m)" using rotate_with_result [OF rot] by simp
    ultimately show ?thesis by blast
  qed
qed

lemma cli_command_keeps:
  assumes "cli_command sha cfg c" "config_accepted cfg"
  shows "keeps_healthy sha cfg c"
  using assms(1)
proof cases
  case (cli_rollout env ck target)
  show ?thesis
  proof (cases "img_Digest (Control_Config.parseImageRef target) = ''''")
    case True
    then show ?thesis by (auto simp: cli_rollout(1) cmd_rollout_def Let_def keeps_healthy_def dest: fails_with_result)
  qed (simp add: cli_rollout(1) cmd_rollout_def Let_def with_plugin_keeps [OF cli_rollout(2)] rollout_body_ok [OF assms(2)])
qed (simp_all add: cmd_list_def cmd_provision_def cmd_destroy_def cmd_rotate_sse_key_def cmd_rotate_query_token_def
    with_registry_keeps with_plugin_keeps list_body_ok provision_body_ok destroy_body_ok rotate_key_body_ok rotate_token_body_ok assms(2))

section \<open>The server\<close>

lemma serve_key_result:
  assumes "serve_key env cfg plug m = Some (r, m')"
  shows "mc_registry m' = mc_registry (set_rows (snd (Registry_EnsureSigningKey (se_key env) (se_stamp env) (registry_rows m))) m) \<and>
    (\<forall>sv. r = Inr sv \<longrightarrow> pn_svc (sv_panel sv) = service_of_config cfg plug (se_yaml env) \<and> pp_db (sv_state sv) = registry_rows m' \<and>
       pp_jobs (sv_state sv) = [] \<and> pp_inFlight (sv_state sv) = [])"
proof -
  obtain k b where k: "Registry_EnsureSigningKey (se_key env) (se_stamp env) (registry_rows m) = (k, b)" by fastforce
  show ?thesis
  proof (cases k)
    case (Inl e)
    with assms k show ?thesis by (auto simp: serve_key_def)
  next
    case (Inr key)
    with assms k have "serve_events env cfg plug key (set_rows b m) = Some (r, m')" by (simp add: serve_key_def)
    then show ?thesis using k
      by (auto simp: serve_events_def Let_def NewServer_def deps_of_config_def panel_of_config_def pp_db_def registry_rows_def
          set_rows_def split: prod.splits sum.splits option.splits if_splits)
  qed
qed

lemma serve_setup_opened:
  assumes "healthy sha cfg m" "config_accepted cfg" "se_sha env = sha" "serve_setup env (Inr cfg) m = Some (r, m')"
  shows "healthy sha cfg m' \<and> (\<forall>sv. r = Inr sv \<longrightarrow> opened sha cfg m' \<and>
    (\<exists>plug. pn_svc (sv_panel sv) = service_of_config cfg plug (se_yaml env)) \<and> pp_db (sv_state sv) = registry_rows m')"
proof -
  obtain x s where d: "ensureDataRoot (se_probe env) (ctl_DataRoot (Control cfg)) (mc_fs m) = (x, s)" by fastforce
  have h: "healthy sha cfg (m\<lparr>mc_fs := s\<rparr>)" using assms(1) healthy_cong [of "m\<lparr>mc_fs := s\<rparr>" m] by simp
  show ?thesis
  proof (cases x)
    case (Inl e)
    with assms(4) d h show ?thesis by (auto simp: serve_setup_def)
  next
    case (Inr u)
    with assms(4) d obtain y m1 where o': "openRegistryAndPlugin env cfg (m\<lparr>mc_fs := s\<rparr>) = Some (y, m1)"
      by (auto simp: serve_setup_def split: option.splits)
    note op = openRegistryAndPlugin_healthy [OF h assms(3) o']
    show ?thesis
    proof (cases y)
      case (Inl e)
      with assms(4) d Inr o' op show ?thesis by (auto simp: serve_setup_def)
    next
      case plug: (Inr plug)
      then have run: "serve_sources env cfg plug m1 = Some (r, m')" using assms(4) d Inr o' by (simp add: serve_setup_def)
      have o1: "opened sha cfg m1" using op plug by blast
      have rest: "?thesis" if "serve_key env cfg plug m2 = Some (r, m')" "mc_registry m2 = mc_registry m1" for m2
      proof -
        note k = serve_key_result [OF that(1)]
        have o2: "opened sha cfg m2" using o1 opened_cong [OF that(2)] by blast
        let ?b = "snd (Registry_EnsureSigningKey (se_key env) (se_stamp env) (registry_rows m2))"
        have "fleet_steps (service_of_config cfg plug (se_yaml env)) sha (registry_rows m2) ?b" by (rule fleet_one [OF step_ensure_key])
        from opened_steps [OF o2 assms(2) this] k have "opened sha cfg m'" using opened_cong by blast
        with k opened_healthy show ?thesis by blast
      qed
      have "m' = m1\<lparr>mc_sources := sd\<rparr> \<Longrightarrow> r = Inl e \<Longrightarrow> ?thesis" for sd e
        using op healthy_cong [of "m1\<lparr>mc_sources := sd\<rparr>" m1] by simp
      with run rest show ?thesis
        by (auto simp: serve_sources_def split: if_splits prod.splits sum.splits)
    qed
  qed
qed

section \<open>A life\<close>

datatype 'w phase = Down "'w machine" | Up "'w served" "'w machine"

text \<open>While the server is up its state is the current one; the machine is the one it was started on. It
  may stop at any point, with jobs pending: the next process finds the databases and files as the last
  step left them. Between processes the driver's failures are new.\<close>

inductive life_step :: "(string \<Rightarrow> string) \<Rightarrow> config \<Rightarrow> 'w phase \<Rightarrow> 'w phase \<Rightarrow> bool" for sha cfg where
  life_serve: "se_sha env = sha \<Longrightarrow> serve_setup env (Inr cfg) m = Some (Inr sv, m') \<Longrightarrow> life_step sha cfg (Down m) (Up sv m')"
| life_refused: "se_sha env = sha \<Longrightarrow> serve_setup env (Inr cfg) m = Some (Inl e, m') \<Longrightarrow> life_step sha cfg (Down m) (Down m')"
| life_panel: "panel_step (sv_panel sv) sha (sv_state sv) st \<Longrightarrow> life_step sha cfg (Up sv m) (Up (sv\<lparr>sv_state := st\<rparr>) m)"
| life_stop: "mc_registry m' = mc_registry (set_rows (pp_db (sv_state sv)) m) \<Longrightarrow> life_step sha cfg (Up sv m) (Down m')"
| life_command: "cli_command sha cfg c \<Longrightarrow> c m = Some (r, m') \<Longrightarrow> life_step sha cfg (Down m) (Down m')"
| life_faults: "2 \<le> read_version (mc_registry m) \<Longrightarrow>
    life_step sha cfg (Down m) (Down (set_rows ((registry_rows m)\<lparr>db_faults := fs\<rparr>) m))"

abbreviation life_steps :: "(string \<Rightarrow> string) \<Rightarrow> config \<Rightarrow> 'w phase \<Rightarrow> 'w phase \<Rightarrow> bool" where
  "life_steps sha cfg \<equiv> (life_step sha cfg)\<^sup>*\<^sup>*"

fun phase_rows :: "'w phase \<Rightarrow> registry_db" where
  "phase_rows (Down m) = registry_rows m"
| "phase_rows (Up sv m) = pp_db (sv_state sv)"

fun phase_inv :: "(string \<Rightarrow> string) \<Rightarrow> config \<Rightarrow> 'w phase \<Rightarrow> bool" where
  "phase_inv sha cfg (Down m) \<longleftrightarrow> healthy sha cfg m"
| "phase_inv sha cfg (Up sv m) \<longleftrightarrow>
     opened sha cfg (set_rows (pp_db (sv_state sv)) m) \<and> (\<exists>plug ym. pn_svc (sv_panel sv) = service_of_config cfg plug ym)"

lemma faults_only: "healthy sha cfg m \<Longrightarrow> 2 \<le> read_version (mc_registry m) \<Longrightarrow>
   healthy sha cfg (set_rows ((registry_rows m)\<lparr>db_faults := fs\<rparr>) m)"
proof -
  assume h: "healthy sha cfg m" and v2: "2 \<le> read_version (mc_registry m)"
  then obtain v where f: "fleet_file sha cfg v (mc_registry m)" by (auto simp: healthy_def)
  with v2 have v: "2 \<le> v" by (simp add: fleet_file_def file_at_def)
  let ?d = "mc_registry (set_rows ((registry_rows m)\<lparr>db_faults := fs\<rparr>) m)"
  have a: "alike (mc_registry m) ?d" "dk_version ?d = dk_version (mc_registry m)"
    by (simp_all add: alike_def set_rows_def registry_rows_def has_table_def has_column_def fun_eq_iff same_tables_def)
  have "rows_within cfg (dk_rows ?d) = rows_within cfg (dk_rows (mc_registry m))" by (rule ports_only) (simp add: set_rows_def registry_rows_def)
  with f v a file_at_alike [OF a] kept_base [OF alike_kept [OF a(1)]] have "fleet_file sha cfg v ?d" by (simp add: fleet_file_def)
  then show ?thesis by (auto simp: healthy_def)
qed

lemma life_step_inv:
  assumes "life_step sha cfg p q" "config_accepted cfg" "phase_inv sha cfg p"
  shows "phase_inv sha cfg q"
  using assms(1)
proof cases
  case (life_serve env m sv m')
  with assms(3) serve_setup_opened [OF _ assms(2) life_serve(3,4)]
  have o': "opened sha cfg m'" "\<exists>plug. pn_svc (sv_panel sv) = service_of_config cfg plug (se_yaml env)" "pp_db (sv_state sv) = registry_rows m'" by auto
  have "mc_registry (set_rows (pp_db (sv_state sv)) m') = mc_registry m'" by (simp add: o'(3) set_rows_def registry_rows_def)
  with o'(1,2) opened_cong show ?thesis unfolding life_serve(2) phase_inv.simps by blast
next
  case (life_refused env m e m')
  with assms(3) serve_setup_opened [OF _ assms(2) life_refused(3,4)] show ?thesis by auto
next
  case (life_panel sv st m)
  with assms(3) obtain plug ym where o': "opened sha cfg (set_rows (pp_db (sv_state sv)) m)" "pn_svc (sv_panel sv) = service_of_config cfg plug ym" by auto
  have "fleet_steps (service_of_config cfg plug ym) sha (registry_rows (set_rows (pp_db (sv_state sv)) m)) (pp_db st)"
    using panel_step_fleet [OF life_panel(3)] o'(2) by simp
  from opened_steps [OF o'(1) assms(2) this] o'(2) show ?thesis unfolding life_panel(2) by auto
next
  case (life_stop m' sv m)
  with assms(3) opened_healthy healthy_cong [OF life_stop(3)] show ?thesis by auto
next
  case (life_command c m r m')
  with assms(3) cli_command_keeps [OF life_command(3) assms(2)] show ?thesis unfolding keeps_healthy_def by auto
next
  case (life_faults m fs)
  with assms(3) faults_only show ?thesis by auto
qed

lemma phase_inv_rows: "phase_inv sha cfg p \<Longrightarrow> rows_within cfg (phase_rows p) \<and> base_inv (phase_rows p)"
  by (cases p) (auto simp: healthy_def opened_def fleet_file_def registry_rows_def set_rows_def)

lemma life_steps_inv:
  assumes "life_steps sha cfg p q" "config_accepted cfg" "phase_inv sha cfg p"
  shows "phase_inv sha cfg q"
  using assms(1) by induction (use assms(2,3) life_step_inv in blast)+

end
