(* ===== verification/Control_Safety.thy ===== *)
theory Control_Safety
  imports Control_Life
begin

text \<open>
  What the commands guarantee: the fleet's bounds over a whole life of the control plane, the wiring of
  the servers that \<^verbatim>\<open>serve\<close> builds, and the effect of the rotations.
\<close>

text \<open>An accepted configuration and an old file whose two instances fill its range.\<close>

definition life_config :: config where
  "life_config = fill_qdrant_dir (applyDefaults ''linux'' (sample_config
     \<lparr>DataPlane := \<lparr>dp_Enabled = True, dp_Listen = ''127.0.0.1:9200'', dp_Collection = '''', dp_VectorSize = 0\<rparr>,
      Embedding := \<lparr>emb_BaseURL = ''http://e'', emb_APIKey = '''', emb_Model = ''m''\<rparr>,
      TLS := \<lparr>tls_CertFile = ''/c'', tls_KeyFile = ''/k''\<rparr>,
      Cloud := \<lparr>cl_Enabled = True, cl_Domain = ''x.io'', cl_SessionTTL = 0, cl_LoginRateLimit = 0, cl_CookieName = ''''\<rparr>\<rparr>))"

lemma life_config_loads: "validateConfig life_config = ([], life_config)"
  by code_simp

lemma life_config_accepted: "config_accepted life_config"
  using validateConfig_Nil life_config_loads by blast

definition life_env :: "string list serve_env" where
  "life_env =
     \<lparr>se_goos = ''linux'', se_rnd = (\<lambda>i. Inr (''k'' @ nat_str i)), se_key = Inr (replicate 32 (CHR ''s'')), se_probe = ''1'', se_stamp = ''t'',
      se_seconds = 0, se_sha = (\<lambda>x. x), se_yaml = (\<lambda>_. Inr ''{}''), se_docker = (\<lambda>h. Inl (Errorf ''refused'')),
      se_http = pn_http panel_sample,
      se_embed_http = \<lparr>ht_NewRequest = (\<lambda>u. None), ht_Do = (\<lambda>r w. (Inl (Errorf ''refused''), w))\<rparr>,
      se_embed_wait = (\<lambda>n w. (None, w)),
      se_qdrant_http = \<lparr>ht_NewRequest = (\<lambda>u. None), ht_Do = (\<lambda>r w. (Inl (Errorf ''refused''), w))\<rparr>,
      se_rest_http = \<lparr>ht_NewRequest = (\<lambda>u. None), ht_Do = (\<lambda>r w. (Inl (Errorf ''refused''), w))\<rparr>,
      se_parse = sample_parse, se_os = (\<lambda>w. sample_os)\<rparr>"

definition life_machine :: "string list machine" where
  "life_machine =
     \<lparr>mc_registry = old_file 1 [], mc_sources = empty_source_db, mc_events = \<lparr>es_rows = [], es_next = 1, es_faults = []\<rparr>,
      mc_fs = \<lparr>fs_files = [], fs_dirs = [''/data'', ''/a''], fs_faults = []\<rparr>, mc_world = []\<rparr>"

lemma life_machine_healthy: "healthy (\<lambda>x. x) life_config life_machine"
proof -
  have "rows_within life_config (dk_rows (old_file 1 []))"
    by (simp add: rows_within_def life_config_def applyDefaults_def sample_config_def Control_Config.or_default_def old_file_def old_row_def)
  moreover have "base_inv (dk_rows (old_file 1 []))"
    by (simp add: base_inv_def keys_inv_def cloud_inv_def names_distinct_def bindings_unique_def bindings_exist_def sessions_owned_def
        old_file_def old_row_def)
  ultimately have "fleet_file (\<lambda>x. x) life_config 1 (mc_registry life_machine)"
    using old_file_at by (simp add: fleet_file_def life_machine_def quiet_def) (simp add: old_file_def)
  then show ?thesis by (auto simp: healthy_def)
qed


lemma life_opens: "map_option fst (open_registry life_env life_config life_machine) = Some (Inr ())"
  by code_simp

lemma life_listed: "\<exists>r m'. cmd_list life_env ''quiet'' (Inr life_config) life_machine = Some (r, m')"
  using life_opens
  by (auto simp: cmd_list_def with_registry_def list_body_def fails_with_def prints_def split: option.splits prod.splits sum.splits)


section \<open>Wiring\<close>

text \<open>What \<^verbatim>\<open>serve\<close> has to start: every part of the two servers, against the configuration.\<close>

definition keys_long :: "registry_db \<Rightarrow> bool" where
  "keys_long b \<longleftrightarrow> (\<forall>k \<in> set (db_signing_keys b). 32 \<le> length (sk_key k))"

definition wired :: "config \<Rightarrow> 'w served \<Rightarrow> bool" where
  "wired cfg sv \<longleftrightarrow>
     pn_secret (sv_panel sv) = auth_AdminSecret (Auth cfg) \<and> 16 \<le> length (pn_secret (sv_panel sv)) \<and>
     svc_portRangeStart (pn_svc (sv_panel sv)) = ins_PortStart (Instances cfg) \<and>
     svc_maxInstances (pn_svc (sv_panel sv)) = ins_MaxInstances (Instances cfg) \<and> svc_ok (pn_svc (sv_panel sv)) \<and>
     0 < sv_poll sv \<and> 0 < pn_sessionTTL (sv_panel sv) \<and> 32 \<le> length (pn_signingKey (sv_panel sv)) \<and>
     (pn_hasUsers (sv_panel sv) = cl_Enabled (Cloud cfg)) \<and> (pn_hasSessions (sv_panel sv) = cl_Enabled (Cloud cfg)) \<and>
     (cl_Enabled (Cloud cfg) \<longrightarrow> panel_cloud.cl_Domain (pn_cloudCfg (sv_panel sv)) \<noteq> '''' \<and> cl_Secure (pn_cloudCfg (sv_panel sv))) \<and>
     (case sv_data_plane sv of
        None \<Rightarrow> \<not> dp_Enabled (DataPlane cfg) \<and> pn_dpURL (sv_panel sv) = ''''
      | Some (dp, st) \<Rightarrow>
          dp_Enabled (DataPlane cfg) \<and> qd_Enabled (Qdrant cfg) \<and> dp_AdminSecret (dp_cfg dp) = pn_secret (sv_panel sv) \<and>
          1 \<le> dp_config.dp_VectorSize (dp_cfg dp) \<and> dp_config.dp_VectorSize (dp_cfg dp) \<le> 65536 \<and>
          ec_Model (ec_cfg (dp_embedder dp)) \<noteq> '''' \<and> 0 < ec_MaxRetries (ec_cfg (dp_embedder dp)))"

lemma sel_active_key_mem: "sel_active_key b = Some k \<Longrightarrow> \<exists>x \<in> set (db_signing_keys b). sk_key x = k"
proof -
  assume e: "sel_active_key b = Some k"
  let ?l = "rev (sort_key sk_id (sel_where sk_active (db_signing_keys b)))"
  obtain x xs where l: "?l = x # xs" "k = sk_key x" using e by (auto simp: sel_active_key_def split: list.splits)
  have "x \<in> set ?l" by (simp add: l(1))
  then show ?thesis using l(2) by (auto simp: sel_where_def)
qed

lemma stored_key_long:
  assumes "keys_inv b" "keys_long b" "\<And>k. rnd = Inr k \<Longrightarrow> 32 \<le> length k" "Registry_EnsureSigningKey rnd now b = (Inr k, b')"
  shows "32 \<le> length k"
proof (cases "sel_active_key b = None")
  case True
  with EnsureSigningKey_cases [OF assms(1,4)] assms(3) show ?thesis by simp
next
  case False
  have e: "sel_active_key b' = Some k" "same_tables b b'" using EnsureSigningKey_cases [OF assms(1,4)] False by simp_all
  have "\<exists>x \<in> set (db_signing_keys b). sk_key x = k"
    using sel_active_key_mem [OF e(1)] e(2) by (simp add: same_tables_def)
  with assms(2) show ?thesis by (auto simp: keys_long_def)
qed

lemma serve_events_wired:
  assumes "config_accepted cfg" "32 \<le> length key"
  shows "\<exists>r m'. serve_events env cfg plug key m = Some (r, m') \<and> (\<forall>sv. r = Inr sv \<longrightarrow> wired cfg sv)"
proof (cases "fst (OpenStore (mc_events m))")
  case (Inl e)
  then show ?thesis by (auto simp: serve_events_def split: prod.splits)
next
  case (Inr u)
  have f: "16 \<le> length (auth_AdminSecret (Auth cfg))" "1 \<le> ctl_HealthPollSeconds (Control cfg)" "60 \<le> ctl_SessionTokenTTLSecs (Control cfg)"
    "cl_Enabled (Cloud cfg) \<longrightarrow> cloud_section.cl_Domain (Cloud cfg) \<noteq> ''''"
    "dp_Enabled (DataPlane cfg) \<longrightarrow> qd_Enabled (Qdrant cfg) \<and> 1 \<le> data_plane_section.dp_VectorSize (DataPlane cfg) \<and> data_plane_section.dp_VectorSize (DataPlane cfg) \<le> 65536 \<and>
       emb_Model (Embedding cfg) \<noteq> ''''"
    using assms(1) by (simp_all add: config_accepted_def control_acceptable_def features_acceptable_def Let_def)
  show ?thesis
    using Inr assms(2) f service_of_config_ok [OF assms(1)]
    by (auto simp: serve_events_def Let_def NewServer_def deps_of_config_def panel_of_config_def wired_def seconds_def poll_interval_def
        data_plane_of_config_def dp_config_of_def Embed_NewClient_def data_plane_url_def cloud_settings_def no_cloud_def
        panel_cloud.defs dp_config.defs split: prod.splits)
qed

lemma healthy_opens:
  assumes "healthy sha cfg m" "se_sha env = sha"
  shows "\<exists>r m'. open_registry env cfg m = Some (r, m') \<and> db_signing_keys (registry_rows m') = db_signing_keys (registry_rows m)"
proof -
  obtain v where "file_at sha v (mc_registry m)" "v \<le> 7" "2 \<le> v \<or> quiet (mc_registry m)"
    using assms(1) by (auto simp: healthy_def fleet_file_def)
  from Open_file [OF this, of "se_rnd env" "path_Join [ctl_DataRoot (Control cfg), ''registry.db'']"] show ?thesis
    by (auto simp: open_registry_def assms(2) kept_def registry_rows_def set_registry_def)
qed

lemma serve_key_wired:
  assumes "config_accepted cfg" "opened sha cfg m" "keys_long (registry_rows m)" "\<And>k. se_key env = Inr k \<Longrightarrow> 32 \<le> length k"
  shows "\<exists>r m'. serve_key env cfg plug m = Some (r, m') \<and> (\<forall>sv. r = Inr sv \<longrightarrow> wired cfg sv)"
proof -
  obtain x b where e: "Registry_EnsureSigningKey (se_key env) (se_stamp env) (registry_rows m) = (x, b)" by fastforce
  have k: "keys_inv (registry_rows m)" using opened_rows [OF assms(2)] by (simp add: db_inv_def)
  show ?thesis
  proof (cases x)
    case (Inl err)
    with e show ?thesis by (auto simp: serve_key_def)
  next
    case (Inr key)
    with stored_key_long [OF k assms(3,4)] e have "32 \<le> length key" by simp
    from serve_events_wired [OF assms(1) this] show ?thesis using e Inr by (simp add: serve_key_def)
  qed
qed

lemma serve_sources_wired:
  assumes "config_accepted cfg" "opened sha cfg m" "keys_long (registry_rows m)" "\<And>k. se_key env = Inr k \<Longrightarrow> 32 \<le> length k"
  shows "\<exists>r m'. serve_sources env cfg plug m = Some (r, m') \<and> (\<forall>sv. r = Inr sv \<longrightarrow> wired cfg sv)"
proof (cases "dp_Enabled (DataPlane cfg)")
  case False
  with serve_key_wired [OF assms] show ?thesis by (simp add: serve_sources_def)
next
  case True
  obtain x sd where s: "Source_OpenRegistry (mc_sources m) = (x, sd)" by fastforce
  have o': "opened sha cfg (m\<lparr>mc_sources := sd\<rparr>)" "keys_long (registry_rows (m\<lparr>mc_sources := sd\<rparr>))"
    using assms(2,3) opened_cong [of "m\<lparr>mc_sources := sd\<rparr>" m] by (simp_all add: registry_rows_def)
  from serve_key_wired [OF assms(1) this assms(4)] True s show ?thesis by (cases x) (auto simp: serve_sources_def)
qed


definition docked_env :: "sample_world serve_env" where
  "docked_env =
     \<lparr>se_goos = ''linux'', se_rnd = (\<lambda>i. Inr (''k'' @ nat_str i)), se_key = Inr (replicate 32 (CHR ''s'')), se_probe = ''1'', se_stamp = ''t'',
      se_seconds = 0, se_sha = (\<lambda>x. x), se_yaml = (\<lambda>_. Inr ''{}''), se_docker = (\<lambda>h. Inr (sample_client '''')),
      se_http = \<lparr>ht_NewRequest = (\<lambda>u. None), ht_Do = (\<lambda>r w. (Inl (Errorf ''refused''), w))\<rparr>,
      se_embed_http = \<lparr>ht_NewRequest = (\<lambda>u. None), ht_Do = (\<lambda>r w. (Inl (Errorf ''refused''), w))\<rparr>,
      se_embed_wait = (\<lambda>n w. (None, w)),
      se_qdrant_http = \<lparr>ht_NewRequest = (\<lambda>u. None), ht_Do = (\<lambda>r w. (Inl (Errorf ''refused''), w))\<rparr>,
      se_rest_http = \<lparr>ht_NewRequest = (\<lambda>u. None), ht_Do = (\<lambda>r w. (Inl (Errorf ''refused''), w))\<rparr>,
      se_parse = sample_parse, se_os = (\<lambda>w. sample_os)\<rparr>"

definition docked_machine :: "sample_world machine" where
  "docked_machine =
     \<lparr>mc_registry = old_file 1 [], mc_sources = empty_source_db, mc_events = \<lparr>es_rows = [], es_next = 1, es_faults = []\<rparr>,
      mc_fs = \<lparr>fs_files = [], fs_dirs = [''/data'', ''/a''], fs_faults = []\<rparr>, mc_world = []\<rparr>"

lemma docked_machine_healthy: "healthy (\<lambda>x. x) life_config docked_machine"
  using life_machine_healthy by (simp add: healthy_def life_machine_def docked_machine_def)

lemma docked_starts:
  "case ensureDataRoot ''1'' (ctl_DataRoot (Control life_config)) (mc_fs docked_machine) of (r, s) \<Rightarrow> r = Inr () \<and>
     (case openRegistryAndPlugin docked_env life_config (docked_machine\<lparr>mc_fs := s\<rparr>) of
        Some (Inr plug, m1) \<Rightarrow> mc_events m1 = mc_events docked_machine \<and>
          (case Source_OpenRegistry (mc_sources m1) of
             (Inr _, sd) \<Rightarrow> fst (Registry_EnsureSigningKey (se_key docked_env) (se_stamp docked_env) (registry_rows m1)) = Inr (replicate 32 (CHR ''s''))
           | _ \<Rightarrow> False)
      | _ \<Rightarrow> False)"
  by code_simp

lemma serve_events_starts:
  assumes "es_fault (mc_events m) = None" "32 \<le> length key"
  shows "\<exists>sv m'. serve_events env cfg plug key m = Some (Inr sv, m')"
  using assms by (simp add: serve_events_def OpenStore_def NewServer_def deps_of_config_def panel_of_config_def Let_def)

lemma docked_serves: "\<exists>sv m'. serve_setup docked_env (Inr life_config) docked_machine = Some (Inr sv, m')"
proof -
  have p: "se_probe docked_env = ''1''" by (simp add: docked_env_def)
  obtain x s where d: "ensureDataRoot ''1'' (ctl_DataRoot (Control life_config)) (mc_fs docked_machine) = (x, s)" by fastforce
  with docked_starts obtain plug m1 u sd where o':
    "x = Inr ()" "openRegistryAndPlugin docked_env life_config (docked_machine\<lparr>mc_fs := s\<rparr>) = Some (Inr plug, m1)"
    "mc_events m1 = mc_events docked_machine" "Source_OpenRegistry (mc_sources m1) = (Inr u, sd)"
    "fst (Registry_EnsureSigningKey (se_key docked_env) (se_stamp docked_env) (registry_rows m1)) = Inr (replicate 32 (CHR ''s''))"
    by (auto split: option.splits prod.splits sum.splits)
  define m2 where "m2 = set_rows (snd (Registry_EnsureSigningKey (se_key docked_env) (se_stamp docked_env) (registry_rows m1))) (m1\<lparr>mc_sources := sd\<rparr>)"
  have en: "dp_Enabled (DataPlane life_config)" by (simp add: life_config_def applyDefaults_def)
  have run: "serve_setup docked_env (Inr life_config) docked_machine = serve_events docked_env life_config plug (replicate 32 (CHR ''s'')) m2"
    using d o' en p by (simp add: serve_setup_def serve_sources_def serve_key_def m2_def registry_rows_def case_prod_unfold)
  have "es_fault (mc_events m2) = None" using o'(3) by (simp add: m2_def set_rows_def docked_machine_def es_fault_def)
  from serve_events_starts [OF this, of "replicate 32 (CHR ''s'')"] run show ?thesis by simp
qed


text \<open>With a certificate the panel hands out an \<^verbatim>\<open>https\<close> address of a data plane that listens without TLS.\<close>

lemma tls_data_plane_mismatch:
  assumes "serve_events env cfg plug key m = Some (Inr sv, m')" "tls_CertFile (TLS cfg) \<noteq> ''''" "dp_Enabled (DataPlane cfg)"
  shows "pn_dpURL (sv_panel sv) = ''https://'' @ data_plane_section.dp_Listen (DataPlane cfg) \<and> sv_data_plane sv \<noteq> None \<and> \<not> sv_data_plane_tls sv"
  using assms by (auto simp: serve_events_def Let_def NewServer_def deps_of_config_def panel_of_config_def data_plane_url_def
      split: prod.splits sum.splits option.splits if_splits)

text \<open>A running server answers the event stream the same whatever a rotation writes into the registry: it
  keeps the signing key that it read at the start.\<close>

lemma rotation_needs_restart:
  "requireSessionToken s (\<lambda>_ _ st. (writeError 200 ''ok'' '''', st)) r env (st\<lparr>pp_prov := q\<rparr>) =
     (fst (requireSessionToken s (\<lambda>_ _ st. (writeError 200 ''ok'' '''', st)) r env st), st\<lparr>pp_prov := q\<rparr>)"
  by (simp add: requireSessionToken_def Let_def split: sum.splits)

section \<open>Rotating a query token\<close>

lemma token_row_iff:
  assumes "distinct (map inst_ID (db_instances b))"
  shows "(\<exists>r \<in> set (db_instances b). inst_QueryToken r = t) \<longleftrightarrow> (\<exists>j i. inst_view b j = Some i \<and> inst_QueryToken i = t)"
proof
  assume "\<exists>r \<in> set (db_instances b). inst_QueryToken r = t"
  then obtain r where r: "r \<in> set (db_instances b)" "inst_QueryToken r = t" by blast
  have "query_row (\<lambda>x. inst_ID x = inst_ID r) (db_instances b) = Some r"
    using query_row_unique [OF assms r(1)] by simp
  then have "inst_view b (inst_ID r) = Some (instance_of_row r) \<and> inst_QueryToken (instance_of_row r) = t"
    using r(2) by (simp add: inst_view_def instance_of_row_def fox_instance.truncate_def)
  then show "\<exists>j i. inst_view b j = Some i \<and> inst_QueryToken i = t" by blast
next
  assume "\<exists>j i. inst_view b j = Some i \<and> inst_QueryToken i = t"
  then show "\<exists>r \<in> set (db_instances b). inst_QueryToken r = t"
    by (auto simp: inst_view_def instance_of_row_def fox_instance.truncate_def dest!: query_row_SomeD)
qed

lemma rotate_with_done:
  assumes "rotate_with env cfg inst iid t m = Some ((out, None), m')"
  shows "\<exists>b. Registry_UpdateQueryToken (se_sha env) iid t (registry_rows m) = (Inr (), b) \<and> registry_rows m' = b \<and> mc_world m' = mc_world m"
  using assms
  by (auto simp: rotate_with_def fails_with_def prints_def set_rows_def registry_rows_def Let_def split: prod.splits sum.splits if_splits)

lemma rotate_body_done:
  assumes "rotate_token_body env rnd iid cfg m = Some ((out, None), m')"
  shows "\<exists>inst t b. GenerateQueryToken rnd = Inr t \<and> inst_view (registry_rows m) iid = Some inst \<and> same_tables (registry_rows m) b \<and>
    Registry_UpdateQueryToken (se_sha env) iid t b = (Inr (), registry_rows m') \<and> mc_world m' = mc_world m"
proof -
  obtain x b where g: "Registry_Get iid (registry_rows m) = (x, b)" by fastforce
  with assms obtain inst t where t: "x = Inr inst" "GenerateQueryToken rnd = Inr t" "rotate_with env cfg inst iid t (set_rows b m) = Some ((out, None), m')"
    by (auto simp: rotate_token_body_def fails_with_def split: sum.splits)
  have "inst_view (registry_rows m) iid = Some inst \<and> same_tables (registry_rows m) b" using Registry_Get_Inr g t(1) by blast
  with t(2) rotate_with_done [OF t(3)] show ?thesis by (auto simp: registry_rows_def set_rows_def)
qed

text \<open>C21: \<^verbatim>\<open>sec rotate-query-token\<close> on an instance of the opened registry replaces that instance's token and
  nothing else in the table, and touches no container; from then on the data plane's check accepts the new
  token and refuses the old one, unless another instance holds the same.\<close>

theorem rotate_query_token_replaces:
  assumes "healthy (se_sha env) cfg m" "config_accepted cfg" "open_registry env cfg m = Some (Inr (), m1)"
    and "cmd_rotate_query_token env rnd iid (Inr cfg) m = Some ((out, None), m')"
    and "sha_len (se_sha env)" "no_collision (se_sha env) (registry_rows m') t" "db_fault (registry_rows m') = None"
  shows "\<exists>tok inst. GenerateQueryToken rnd = Inr tok \<and> inst_view (registry_rows m1) iid = Some inst \<and> mc_world m' = mc_world m1 \<and>
    inst_view (registry_rows m') = (inst_view (registry_rows m1))(iid \<mapsto> inst\<lparr>inst_QueryToken := tok\<rparr>) \<and>
    (fst (Registry_ValidQueryToken (se_sha env) t (registry_rows m')) \<longleftrightarrow>
       t \<noteq> '''' \<and> (t = tok \<or> (\<exists>j i. j \<noteq> iid \<and> inst_view (registry_rows m1) j = Some i \<and> inst_QueryToken i = t)))"
proof -
  have run: "rotate_token_body env rnd iid cfg m1 = Some ((out, None), m')"
    using assms(3,4) by (simp add: cmd_rotate_query_token_def with_registry_def)
  from rotate_body_done [OF this] obtain inst tok b where
    r: "GenerateQueryToken rnd = Inr tok" "inst_view (registry_rows m1) iid = Some inst" "same_tables (registry_rows m1) b"
      "Registry_UpdateQueryToken (se_sha env) iid tok b = (Inr (), registry_rows m')" "mc_world m' = mc_world m1" by blast
  have v: "inst_view (registry_rows m') = (inst_view (registry_rows m1))(iid \<mapsto> inst\<lparr>inst_QueryToken := tok\<rparr>)"
    using update_token.act_ok [OF r(4)] same_tables_view [OF r(3)] r(2) by simp
  have "db_inv (se_sha env) (registry_rows m1)"
    using open_registry_healthy [OF assms(1) refl assms(3)] opened_rows by blast
  then have "db_inv (se_sha env) b" using update_step_inv [OF step_query [OF r(3)]] by blast
  then have i: "instances_inv (se_sha env) (registry_rows m')"
    using update_step_inv [OF step_token [of "se_sha env" b iid tok]] r(4) by (simp add: db_inv_def)
  have "(\<exists>r \<in> set (db_instances (registry_rows m')). inst_QueryToken r = t) \<longleftrightarrow>
      t = tok \<or> (\<exists>j i. j \<noteq> iid \<and> inst_view (registry_rows m1) j = Some i \<and> inst_QueryToken i = t)"
    using token_row_iff [of "registry_rows m'" t] i by (auto simp: v instances_inv_def split: if_splits)
  with ValidQueryToken_iff [OF i assms(5-7)] r v show ?thesis by blast
qed

definition current_row :: "string \<Rightarrow> int \<Rightarrow> string \<Rightarrow> instance_row" where
  "current_row iid port tok = (old_row iid port)\<lparr>inst_QueryToken := tok, row_query_token_hash := tokenHash sha32 tok\<rparr>"

definition current_file :: disk_db where
  "current_file =
     \<lparr>dk_tables =
        [(''cloud_sessions'', [''token_hash'', ''user_id'', ''created_at'', ''expires_at'']),
         (''cloud_users'', [''username'', ''password_hash'', ''instance_id'', ''created_at'', ''updated_at'']),
         (''signing_keys'', [''id'', ''key'', ''active'', ''created_at'']),
         (''instances'', base_columns @ [''skillset_name'', ''principal_role'', ''query_token'', ''query_token_hash'',
            ''plane_auth_token'', ''instance_password'']),
         (''schema_version'', [''version''])],
      dk_indexes = [''idx_cloud_sessions_expires'', ''idx_cloud_sessions_user'', ''idx_cloud_users_instance'', ''idx_instances_query_token_hash''],
      dk_version = Some 7,
      dk_rows = (empty_db [])\<lparr>db_instances := [current_row ''a'' 9100 ''old'', current_row ''b'' 9101 ''other'']\<rparr>\<rparr>"

definition rotate_machine :: "sample_world machine" where
  "rotate_machine = docked_machine\<lparr>mc_registry := current_file\<rparr>"

definition rotate_env :: "sample_world serve_env" where
  "rotate_env = docked_env\<lparr>se_sha := sha32\<rparr>"

lemma current_file_at: "file_at sha32 7 current_file"
  by (simp add: file_at_def read_version_def schema_defs current_file_def current_row_def old_row_def empty_db_def has_table_def has_column_def
      base_columns_def)

lemma rotate_machine_healthy: "healthy sha32 life_config rotate_machine"
proof -
  have "rows_within life_config (dk_rows current_file)"
    by (simp add: rows_within_def life_config_def applyDefaults_def sample_config_def Control_Config.or_default_def current_file_def
        current_row_def old_row_def)
  moreover have "base_inv (dk_rows current_file)"
    by (simp add: base_inv_def keys_inv_def cloud_inv_def names_distinct_def bindings_unique_def bindings_exist_def sessions_owned_def
        current_file_def current_row_def old_row_def empty_db_def)
  ultimately have "fleet_file sha32 life_config 7 (mc_registry rotate_machine)"
    using current_file_at by (simp add: fleet_file_def rotate_machine_def)
  then show ?thesis by (auto simp: healthy_def)
qed

lemma rotate_machine_runs:
  "case open_registry rotate_env life_config rotate_machine of
     Some (Inr _, m1) \<Rightarrow>
       (case rotate_token_body rotate_env (Inr ''abcdef'') ''a'' life_config m1 of
          Some ((out, e), m') \<Rightarrow> e = None \<and> db_fault (registry_rows m') = None \<and>
            map (\<lambda>r. (inst_ID r, inst_QueryToken r)) (db_instances (registry_rows m1)) = [(''a'', ''old''), (''b'', ''other'')] \<and>
            map inst_QueryToken (db_instances (registry_rows m')) = [''YWJjZGVm'', ''other'']
        | _ \<Rightarrow> False)
   | _ \<Rightarrow> False"
  by code_simp

lemma no_collision_tokens: "no_collision sha b t \<longleftrightarrow> (\<forall>x \<in> set (map inst_QueryToken (db_instances b)). sha x = sha t \<longrightarrow> x = t)"
  by (auto simp: no_collision_def)

theorem rotate_query_token_replaces_witness:
  "\<exists>out m'. cmd_rotate_query_token rotate_env (Inr ''abcdef'') ''a'' (Inr life_config) rotate_machine = Some ((out, None), m') \<and>
     \<not> fst (Registry_ValidQueryToken sha32 ''old'' (registry_rows m'))"
proof -
  have sha: "se_sha rotate_env = sha32" by (simp add: rotate_env_def)
  from rotate_machine_runs obtain u m1 out m' where
    o': "open_registry rotate_env life_config rotate_machine = Some (Inr u, m1)"
    and r: "rotate_token_body rotate_env (Inr ''abcdef'') ''a'' life_config m1 = Some ((out, None), m')" "db_fault (registry_rows m') = None"
      "map (\<lambda>r. (inst_ID r, inst_QueryToken r)) (db_instances (registry_rows m1)) = [(''a'', ''old''), (''b'', ''other'')]"
      "map inst_QueryToken (db_instances (registry_rows m')) = [''YWJjZGVm'', ''other'']"
    by (auto split: option.splits prod.splits sum.splits)
  have run: "cmd_rotate_query_token rotate_env (Inr ''abcdef'') ''a'' (Inr life_config) rotate_machine = Some ((out, None), m')"
    using o' r(1) by (simp add: cmd_rotate_query_token_def with_registry_def)
  have "no_collision sha32 (registry_rows m') ''old''"
    unfolding no_collision_tokens r(4) by (simp add: sha32_def numeral_eq_Suc)
  moreover have "sha_len sha32" by (auto simp: sha_len_def sha32_def min_def)
  moreover have "(inst_ID x, inst_QueryToken x) \<in> {(''a'', ''old''), (''b'', ''other'')}" if "x \<in> set (db_instances (registry_rows m1))" for x
    using that arg_cong [OF r(3), of set] by auto
  then have "\<not> (\<exists>j i. j \<noteq> ''a'' \<and> inst_view (registry_rows m1) j = Some i \<and> inst_QueryToken i = ''old'')"
    by (fastforce simp: inst_view_def instance_of_row_def fox_instance.truncate_def dest!: query_row_SomeD)
  ultimately have "\<not> fst (Registry_ValidQueryToken sha32 ''old'' (registry_rows m'))"
    using rotate_query_token_replaces [of rotate_env life_config rotate_machine m1 "Inr ''abcdef''" "''a''" out m' "''old''"]
      rotate_machine_healthy life_config_accepted o' run r(2) sha
    by (auto simp: GenerateQueryToken_def b64_encode_def)
  with run show ?thesis by blast
qed

text \<open>The rotation writes the configuration's admin secret where \<open>Provision\<close> had written the instance's own
  plane token.\<close>

lemma rotation_writes_admin_secret:
  "plane_env (rotation_params cfg inst t) ''FOX_PLANE_AUTH_SECRET'' = Some (auth_AdminSecret (Auth cfg))"
  by (simp add: plane_env_def rotation_params_def base_env_def CloudEnvVars_def put_unless_empty_def)

text \<open>A rollout to a tag is refused before the configuration is read.\<close>

lemma rollout_needs_digest:
  "img_Digest (Control_Config.parseImageRef target) = '''' \<Longrightarrow>
   cmd_rollout env ck target loaded m = fails_with (Failed (Errorf ''--image must be a digest reference (repo@sha256:...)'')) m"
  by (simp add: cmd_rollout_def Let_def)

end
