(* ===== verification/Control_Ops.thy ===== *)
theory Control_Ops
  imports Control_Serve Output_Format
begin

text \<open>
  \<^verbatim>\<open>backup\<close>, \<^verbatim>\<open>restore\<close> and \<^verbatim>\<open>diagnostics\<close> of \<^verbatim>\<open>cmd/fox-control/ops.go\<close> and \<^verbatim>\<open>verify\<close> of
  \<^verbatim>\<open>cmd/fox-control/verify.go\<close>, over the file system. SQLite acts on files: what \<^verbatim>\<open>VACUUM INTO\<close>,
  \<^verbatim>\<open>BEGIN EXCLUSIVE; ROLLBACK\<close> and \<^verbatim>\<open>PRAGMA integrity_check\<close> do to them are arguments, as are the
  network, the Docker client, the search path and cosign. The parsing of flags is cobra's.
\<close>

section \<open>The environment\<close>

record 'w ops_env =
  oe_open :: "string \<Rightarrow> unit result"
  oe_vacuum :: "string \<Rightarrow> string \<Rightarrow> fs \<Rightarrow> unit result \<times> fs"
  oe_exclusive :: "string \<Rightarrow> fs \<Rightarrow> unit result \<times> fs"
  oe_integrity :: "string \<Rightarrow> fs \<Rightarrow> string result \<times> fs"
  oe_docker :: "string \<Rightarrow> ('w \<Rightarrow> unit result \<times> 'w) result"
  oe_dial :: "string \<Rightarrow> 'w \<Rightarrow> unit result \<times> 'w"
  oe_look_path :: "string result"
  oe_run :: "string \<Rightarrow> string list \<Rightarrow> 'w \<Rightarrow> unit result \<times> 'w"

text \<open>\<^verbatim>\<open>os.Stat\<close> answers whether the path is a directory.\<close>

definition os_Stat :: "string \<Rightarrow> fs \<Rightarrow> bool result \<times> fs" where
  "os_Stat p s =
     (case fs_fault s of
        Some (e, _) \<Rightarrow> (Inl (Wrap (''stat '' @ p) e), fs_tick s)
      | None \<Rightarrow>
          (if file_content s p \<noteq> None then Inr False
           else if dir_exists s p then Inr True else Inl ErrNotExist, fs_tick s))"

section \<open>Backup\<close>

definition vacuumInto :: "'w ops_env \<Rightarrow> string \<Rightarrow> string \<Rightarrow> fs \<Rightarrow> unit result \<times> fs" where
  "vacuumInto env src dst s =
     (case oe_open env src of
        Inl e \<Rightarrow> (Inl (Wrap (''open '' @ src) e), s)
      | Inr _ \<Rightarrow> oe_vacuum env src dst s)"

definition add_if_there :: "string \<Rightarrow> string \<Rightarrow> string list \<Rightarrow> fs \<Rightarrow> string list \<times> fs" where
  "add_if_there rt name names s =
     (case os_Stat (path_Join [rt, name]) s of
        (Inr _, s1) \<Rightarrow> (names @ [name], s1) | (Inl _, s1) \<Rightarrow> (names, s1))"

definition backup_names :: "string \<Rightarrow> fs \<Rightarrow> string list \<times> fs" where
  "backup_names rt s =
     (case add_if_there rt ''sources.db'' [''registry.db''] s of (dbs1, s1) \<Rightarrow> add_if_there rt ''events.db'' dbs1 s1)"

fun backup_loop :: "'w ops_env \<Rightarrow> string \<Rightarrow> string \<Rightarrow> string list \<Rightarrow> fs \<Rightarrow> unit result \<times> fs" where
  "backup_loop env rt out [] s = (Inr (), s)"
| "backup_loop env rt out (name # names) s =
     (case vacuumInto env (path_Join [rt, name]) (path_Join [out, name]) s of
        (Inl e, s1) \<Rightarrow> (Inl (Wrap (''backup '' @ name) e), s1)
      | (Inr _, s1) \<Rightarrow> backup_loop env rt out names s1)"

definition backup_body :: "'w ops_env \<Rightarrow> string \<Rightarrow> string \<Rightarrow> fs \<Rightarrow> string result \<times> fs" where
  "backup_body env rt out s =
     (case os_MkdirAll out s of
        (Inl e, s1) \<Rightarrow> (Inl (Wrap ''create backup directory'' e), s1)
      | (Inr _, s1) \<Rightarrow>
          (case backup_names rt s1 of (dbs, s2) \<Rightarrow>
           case backup_loop env rt out dbs s2 of
             (Inl e, s3) \<Rightarrow> (Inl e, s3)
           | (Inr _, s3) \<Rightarrow>
               (Inr (''Backup complete: '' @ nat_str (length dbs) @ '' databases to '' @ out @ line_end), s3)))"

type_synonym ops_result = "command_error + string"

definition ops_fail :: "string \<Rightarrow> ops_result" where
  "ops_fail m = Inl (Failed (Errorf m))"

fun ops_lift :: "string result \<Rightarrow> ops_result" where
  "ops_lift (Inl e) = Inl (Failed e)"
| "ops_lift (Inr out) = Inr out"

definition cmd_backup :: "'w ops_env \<Rightarrow> string \<Rightarrow> load_error + config \<Rightarrow> fs \<Rightarrow> ops_result \<times> fs" where
  "cmd_backup env outputPath loaded s =
     (case loaded of
        Inl e \<Rightarrow> (Inl (BadConfig e), s)
      | Inr cfg \<Rightarrow>
          (if outputPath = '''' then (ops_fail ''--output is required'', s)
           else map_prod ops_lift id (backup_body env (ctl_DataRoot (Control cfg)) outputPath s)))"

section \<open>Restore\<close>

text \<open>Any failure of the exclusive transaction counts as a lock.\<close>

definition isLocked :: "'w ops_env \<Rightarrow> string \<Rightarrow> fs \<Rightarrow> bool \<times> fs" where
  "isLocked env path s =
     (case os_Stat path s of (r, s1) \<Rightarrow>
        if r = Inl ErrNotExist then (False, s1)
        else case oe_open env path of
          Inl _ \<Rightarrow> (False, s1)
        | Inr _ \<Rightarrow> (case oe_exclusive env path s1 of (Inl _, s2) \<Rightarrow> (True, s2) | (Inr _, s2) \<Rightarrow> (False, s2)))"

definition restore_one :: "'w ops_env \<Rightarrow> string \<Rightarrow> string \<Rightarrow> string \<Rightarrow> fs \<Rightarrow> unit result \<times> fs" where
  "restore_one env rt inp name s =
     (let src = path_Join [inp, name]; dst = path_Join [rt, name] in
      case os_Stat src s of (r, s1) \<Rightarrow>
        if r = Inl ErrNotExist then (Inr (), s1)
        else case isLocked env dst s1 of
          (True, s2) \<Rightarrow>
            (Inl (Errorf (name @ '' is locked by a running server '' @ em_dash @ '' stop fox-control before restoring'')), s2)
        | (False, s2) \<Rightarrow>
            (case os_ReadFile src s2 of
               (Inl e, s3) \<Rightarrow> (Inl (Wrap (''read backup '' @ name) e), s3)
             | (Inr d, s3) \<Rightarrow>
                 (case os_WriteFile dst d 420 s3 of
                    (Inl e, s4) \<Rightarrow> (Inl (Wrap (''write '' @ name) e), s4) | (Inr _, s4) \<Rightarrow> (Inr (), s4))))"

fun restore_loop :: "'w ops_env \<Rightarrow> string \<Rightarrow> string \<Rightarrow> string list \<Rightarrow> fs \<Rightarrow> unit result \<times> fs" where
  "restore_loop env rt inp [] s = (Inr (), s)"
| "restore_loop env rt inp (name # names) s =
     (case restore_one env rt inp name s of
        (Inl e, s1) \<Rightarrow> (Inl e, s1) | (Inr _, s1) \<Rightarrow> restore_loop env rt inp names s1)"

definition restore_names :: "string list" where
  "restore_names = [''registry.db'', ''sources.db'', ''events.db'']"

definition restore_body :: "'w ops_env \<Rightarrow> string \<Rightarrow> string \<Rightarrow> fs \<Rightarrow> string result \<times> fs" where
  "restore_body env rt inp s =
     (case restore_loop env rt inp restore_names s of
        (Inl e, s1) \<Rightarrow> (Inl e, s1)
      | (Inr _, s1) \<Rightarrow> (Inr (''Restore complete. Restart fox-control to use the restored databases.'' @ line_end), s1))"

definition cmd_restore :: "'w ops_env \<Rightarrow> string \<Rightarrow> load_error + config \<Rightarrow> fs \<Rightarrow> ops_result \<times> fs" where
  "cmd_restore env inputPath loaded s =
     (case loaded of
        Inl e \<Rightarrow> (Inl (BadConfig e), s)
      | Inr cfg \<Rightarrow>
          (if inputPath = '''' then (ops_fail ''--input is required'', s)
           else map_prod ops_lift id (restore_body env (ctl_DataRoot (Control cfg)) inputPath s)))"

section \<open>Diagnostics\<close>

record diag_check =
  dg_Name :: string
  dg_Status :: string
  dg_Detail :: string

type_synonym 'w diag = "fs \<times> 'w \<Rightarrow> diag_check \<times> fs \<times> 'w"

definition dialed :: "'w ops_env \<Rightarrow> string \<Rightarrow> (bool \<Rightarrow> diag_check) \<Rightarrow> 'w diag" where
  "dialed env addr verdict = (\<lambda>(s, w). case oe_dial env addr w of (r, w1) \<Rightarrow> (verdict (r = Inr ()), s, w1))"

definition checkDocker :: "'w ops_env \<Rightarrow> config \<Rightarrow> 'w diag" where
  "checkDocker env cfg = (\<lambda>(s, w).
     case oe_docker env (''unix://'' @ dck_Socket (Docker cfg)) of
       Inl e \<Rightarrow> (\<lparr>dg_Name = ''docker'', dg_Status = ''fail'', dg_Detail = error_text e\<rparr>, s, w)
     | Inr ping \<Rightarrow>
         (case ping w of
            (Inl e, w1) \<Rightarrow> (\<lparr>dg_Name = ''docker'', dg_Status = ''fail'', dg_Detail = error_text e\<rparr>, s, w1)
          | (Inr _, w1) \<Rightarrow> (\<lparr>dg_Name = ''docker'', dg_Status = ''ok'', dg_Detail = dck_Socket (Docker cfg)\<rparr>, s, w1)))"

definition registry_verdict :: "string result \<Rightarrow> diag_check" where
  "registry_verdict r =
     (case r of
        Inl e \<Rightarrow> \<lparr>dg_Name = ''registry'', dg_Status = ''fail'', dg_Detail = error_text e\<rparr>
      | Inr res \<Rightarrow>
          (if res \<noteq> ''ok'' then \<lparr>dg_Name = ''registry'', dg_Status = ''fail'', dg_Detail = res\<rparr>
           else \<lparr>dg_Name = ''registry'', dg_Status = ''ok'', dg_Detail = ''integrity_check ok''\<rparr>))"

definition checkRegistry :: "'w ops_env \<Rightarrow> config \<Rightarrow> 'w diag" where
  "checkRegistry env cfg = (\<lambda>(s, w).
     let dbPath = path_Join [ctl_DataRoot (Control cfg), ''registry.db''] in
     case oe_open env dbPath of
       Inl e \<Rightarrow> (registry_verdict (Inl e), s, w)
     | Inr _ \<Rightarrow> (case oe_integrity env dbPath s of (r, s1) \<Rightarrow> (registry_verdict r, s1, w)))"

definition checkDisk :: "config \<Rightarrow> 'w diag" where
  "checkDisk cfg = (\<lambda>(s, w).
     case os_Stat (ctl_DataRoot (Control cfg)) s of
       (Inl e, s1) \<Rightarrow> (\<lparr>dg_Name = ''disk'', dg_Status = ''fail'', dg_Detail = error_text e\<rparr>, s1, w)
     | (Inr False, s1) \<Rightarrow> (\<lparr>dg_Name = ''disk'', dg_Status = ''fail'', dg_Detail = ''data_root is not a directory''\<rparr>, s1, w)
     | (Inr True, s1) \<Rightarrow> (\<lparr>dg_Name = ''disk'', dg_Status = ''ok'', dg_Detail = ctl_DataRoot (Control cfg)\<rparr>, s1, w))"

definition checkPort :: "'w ops_env \<Rightarrow> config \<Rightarrow> 'w diag" where
  "checkPort env cfg =
     (let a = ctl_Listen (Control cfg) in
      dialed env a (\<lambda>up. if up then \<lparr>dg_Name = ''port'', dg_Status = ''warn'', dg_Detail = a @ '' in use (server running?)''\<rparr>
                         else \<lparr>dg_Name = ''port'', dg_Status = ''ok'', dg_Detail = a @ '' available''\<rparr>))"

definition checkQdrant :: "'w ops_env \<Rightarrow> config \<Rightarrow> 'w diag" where
  "checkQdrant env cfg =
     (let a = ''localhost:'' @ int_str (qd_HTTPPort (Qdrant cfg)) in
      dialed env a (\<lambda>up. if up then \<lparr>dg_Name = ''qdrant'', dg_Status = ''ok'', dg_Detail = a @ '' reachable''\<rparr>
                         else \<lparr>dg_Name = ''qdrant'', dg_Status = ''fail'', dg_Detail = a @ '' unreachable''\<rparr>))"

definition checkEmbedding :: "config \<Rightarrow> 'w diag" where
  "checkEmbedding cfg = (\<lambda>sw.
     (\<lparr>dg_Name = ''embedding'', dg_Status = ''ok'', dg_Detail = emb_BaseURL (Embedding cfg) @ '' configured''\<rparr>, sw))"

definition checkDataPlanePort :: "'w ops_env \<Rightarrow> config \<Rightarrow> 'w diag" where
  "checkDataPlanePort env cfg =
     (let a = data_plane_section.dp_Listen (DataPlane cfg) in
      dialed env a (\<lambda>up. if up then \<lparr>dg_Name = ''data_plane_port'', dg_Status = ''warn'', dg_Detail = a @ '' in use (data plane running?)''\<rparr>
                         else \<lparr>dg_Name = ''data_plane_port'', dg_Status = ''ok'', dg_Detail = a @ '' available''\<rparr>))"

definition diagnostics_checks :: "'w ops_env \<Rightarrow> config \<Rightarrow> 'w diag list" where
  "diagnostics_checks env cfg =
     [\<lambda>sw. (\<lparr>dg_Name = ''config'', dg_Status = ''ok'', dg_Detail = ''valid''\<rparr>, sw),
      checkDocker env cfg, checkRegistry env cfg, checkDisk cfg, checkPort env cfg] @
     (if qd_Enabled (Qdrant cfg) then [checkQdrant env cfg] else []) @
     (if dp_Enabled (DataPlane cfg) \<and> emb_BaseURL (Embedding cfg) \<noteq> '''' then [checkEmbedding cfg] else []) @
     (if dp_Enabled (DataPlane cfg) then [checkDataPlanePort env cfg] else [])"

fun run_checks :: "'w diag list \<Rightarrow> fs \<times> 'w \<Rightarrow> diag_check list \<times> fs \<times> 'w" where
  "run_checks [] sw = ([], sw)"
| "run_checks (c # cs) sw =
     (case c sw of (d, sw1) \<Rightarrow> case run_checks cs sw1 of (ds, sw2) \<Rightarrow> (d # ds, sw2))"

definition diag_row :: "diag_check \<Rightarrow> string list" where
  "diag_row c = [dg_Name c, dg_Status c, dg_Detail c]"

text \<open>The table is printed before the failure is returned.\<close>

definition cmd_diagnostics ::
  "'w ops_env \<Rightarrow> string \<Rightarrow> load_error + config \<Rightarrow> fs \<times> 'w \<Rightarrow> (string \<times> command_error option) \<times> fs \<times> 'w" where
  "cmd_diagnostics env outputFormat loaded sw =
     (case loaded of
        Inl e \<Rightarrow> (('''', Some (BadConfig e)), sw)
      | Inr cfg \<Rightarrow>
          (case run_checks (diagnostics_checks env cfg) sw of (checks, sw1) \<Rightarrow>
           case ParseFormat outputFormat of
             Inl e \<Rightarrow> (('''', Some (Failed e)), sw1)
           | Inr fmt \<Rightarrow>
               ((WriteTable fmt [''CHECK'', ''STATUS'', ''DETAIL''] (map diag_row checks),
                 if \<exists>c \<in> set checks. dg_Status c = ''fail'' then Some (Failed (Errorf ''one or more diagnostics failed'')) else None), sw1)))"

section \<open>Verification of a release file\<close>

definition certIdentity :: string where
  "certIdentity = ''https://github.com/fox-in-the-box-ai/fox-fleet/.github/workflows/release.yml@refs/tags/''"

definition certIssuer :: string where
  "certIssuer = ''https://token.actions.githubusercontent.com''"

definition platform_suffixes :: "string list" where
  "platform_suffixes =
     concat (map (\<lambda>os. map (\<lambda>arch. ''-'' @ os @ ''-'' @ arch) [''amd64'', ''arm64'']) [''linux'', ''darwin'', ''windows''])"

definition strip_first :: "string list \<Rightarrow> string \<Rightarrow> string" where
  "strip_first sufs s =
     (case find (HasSuffix s) sufs of Some suf \<Rightarrow> take (length s - length suf) s | None \<Rightarrow> s)"

definition extractTag :: "string \<Rightarrow> string \<Rightarrow> string" where
  "extractTag buildVersion filename =
     (let base = TrimSuffix (path_Base filename) ''.tar.gz''; prefix = ''fox-control-'' in
      if \<not> HasPrefix base prefix then buildVersion
      else strip_first platform_suffixes (drop (length prefix) base))"

definition or_else :: "string \<Rightarrow> string \<Rightarrow> string" where
  "or_else s d = (if s = '''' then d else s)"

definition cosign_args :: "string \<Rightarrow> string \<Rightarrow> string \<Rightarrow> string \<Rightarrow> string list" where
  "cosign_args sig cert tag artifact =
     [''verify-blob'', ''--signature'', sig, ''--certificate'', cert,
      ''--certificate-identity'', certIdentity @ tag, ''--certificate-oidc-issuer'', certIssuer, artifact]"

definition run_cosign ::
  "'w ops_env \<Rightarrow> string \<Rightarrow> string \<Rightarrow> string \<Rightarrow> string \<Rightarrow> string \<Rightarrow> fs \<times> 'w \<Rightarrow> string result \<times> fs \<times> 'w" where
  "run_cosign env buildVersion cosignPath sig cert artifact sw =
     (let tag = extractTag buildVersion artifact in
      if tag = ''dev'' \<or> tag = ''unknown'' \<or> tag = ''''
      then (Inl (Errorf (''cannot determine release tag from filename '' @ go_quote (path_Base artifact) @ '' '' @ em_dash @
                         '' use cosign verify-blob directly with --certificate-identity'')), sw)
      else case oe_run env cosignPath (cosign_args sig cert tag artifact) (snd sw) of
        (Inl e, w1) \<Rightarrow> (Inl (Wrap ''signature verification failed'' e), fst sw, w1)
      | (Inr _, w1) \<Rightarrow> (Inr (''Verified: '' @ artifact @ line_end), fst sw, w1))"

fun stat_all :: "(string \<times> string) list \<Rightarrow> fs \<Rightarrow> unit result \<times> fs" where
  "stat_all [] s = (Inr (), s)"
| "stat_all ((what, p) # ps) s =
     (case os_Stat p s of
        (Inl _, s1) \<Rightarrow> (Inl (Errorf (what @ '' not found: '' @ p)), s1) | (Inr _, s1) \<Rightarrow> stat_all ps s1)"

definition cmd_verify ::
  "'w ops_env \<Rightarrow> string \<Rightarrow> string \<Rightarrow> string \<Rightarrow> string \<Rightarrow> fs \<times> 'w \<Rightarrow> string result \<times> fs \<times> 'w" where
  "cmd_verify env buildVersion sigFile certFile artifact sw =
     (case stat_all [(''artifact'', artifact)] (fst sw) of
        (Inl e, s1) \<Rightarrow> (Inl e, s1, snd sw)
      | (Inr _, s1) \<Rightarrow>
          (case oe_look_path env of
             Inl _ \<Rightarrow> (Inl (Errorf (''cosign not found in PATH '' @ em_dash @
                '' install it from https://docs.sigstore.dev/cosign/system_config/installation/'')), s1, snd sw)
           | Inr cosignPath \<Rightarrow>
               (let sig = or_else sigFile (artifact @ ''.sig''); cert = or_else certFile (artifact @ ''.pem'') in
                case stat_all [(''signature file'', sig), (''certificate file'', cert)] s1 of
                  (Inl e, s2) \<Rightarrow> (Inl e, s2, snd sw)
                | (Inr _, s2) \<Rightarrow> run_cosign env buildVersion cosignPath sig cert artifact (s2, snd sw))))"

section \<open>Paths of the databases\<close>

text \<open>A database is a file with the files SQLite keeps beside it.\<close>

definition side_suffixes :: "string list" where
  "side_suffixes = ['''', ''-wal'', ''-shm'', ''-journal'']"

definition files_of :: "string \<Rightarrow> string set" where
  "files_of p = (\<lambda>x. p @ x) ` set side_suffixes"

lemma child_prefix_slash: "child_prefix rt = '''' \<or> (\<exists>u. child_prefix rt = u @ ''/'')"
  by (auto simp: child_prefix_def Let_def)

lemma last_slash:
  assumes "a @ x = b @ y" "CHR ''/'' \<notin> set x" "CHR ''/'' \<notin> set y"
    and "a = '''' \<or> (\<exists>u. a = u @ ''/'')" "b = '''' \<or> (\<exists>u. b = u @ ''/'')"
  shows "a = b \<and> x = y"
proof -
  from assms(1) obtain z where "a = b @ z \<and> z @ x = y \<or> a @ z = b \<and> x = z @ y"
    by (auto simp: append_eq_append_conv2)
  then show ?thesis
  proof
    assume z: "a = b @ z \<and> z @ x = y"
    with assms(3,4) have "z = ''''" by (cases z rule: rev_cases) auto
    with z show ?thesis by simp
  next
    assume z: "a @ z = b \<and> x = z @ y"
    with assms(2,5) have "z = ''''" by (cases z rule: rev_cases) auto
    with z show ?thesis by simp
  qed
qed

lemma names_plain: "n \<in> set restore_names \<Longrightarrow> plain_seg n"
  by (auto simp: restore_names_def plain_seg_def)

lemma names_sides_all:
  "list_all (\<lambda>n. list_all (\<lambda>n'. list_all (\<lambda>x. list_all (\<lambda>x'. CHR ''/'' \<notin> set (n @ x) \<and> (n @ x = n' @ x' \<longrightarrow> n = n'))
     side_suffixes) side_suffixes) restore_names) restore_names"
  by code_simp

lemma names_sides:
  assumes "n \<in> set restore_names" "n' \<in> set restore_names" "x \<in> set side_suffixes" "x' \<in> set side_suffixes"
  shows "CHR ''/'' \<notin> set (n @ x) \<and> (n @ x = n' @ x' \<longrightarrow> n = n')"
  using names_sides_all assms unfolding list_all_iff by blast

lemma files_apart:
  assumes "rt \<noteq> ''''" "rt' \<noteq> ''''" "n \<in> set restore_names" "n' \<in> set restore_names"
    and "child_prefix rt \<noteq> child_prefix rt' \<or> n \<noteq> n'"
  shows "files_of (path_Join [rt, n]) \<inter> files_of (path_Join [rt', n']) = {}"
proof -
  have False if x: "x \<in> set side_suffixes" "x' \<in> set side_suffixes" and e: "path_Join [rt, n] @ x = path_Join [rt', n'] @ x'" for x x'
  proof -
    have "child_prefix rt @ (n @ x) = child_prefix rt' @ (n' @ x')"
      using e assms(1-4) names_plain by (simp add: path_Join_child)
    from last_slash [OF this _ _ child_prefix_slash child_prefix_slash] names_sides [OF assms(3,4) x] names_sides [OF assms(4,3) x(2,1)]
    show False using assms(5) by blast
  qed
  then show ?thesis by (auto simp: files_of_def)
qed

section \<open>Backup and restore\<close>

definition agree :: "string set \<Rightarrow> fs \<Rightarrow> fs \<Rightarrow> bool" where
  "agree P s s' \<longleftrightarrow> (\<forall>q \<in> P. file_content s q = file_content s' q)"

definition clean :: "fs \<Rightarrow> string \<Rightarrow> bool" where
  "clean s p \<longleftrightarrow> file_content s (p @ ''-wal'') = None \<and> file_content s (p @ ''-journal'') = None"

text \<open>What the commands rely on, for the contents that a database file holds: SQLite reads a database from
  its own files only, and from the main file alone when no log is left beside it; \<^verbatim>\<open>VACUUM INTO\<close> writes
  a new database with the same contents; and the last connection to close leaves no log behind. The
  last holds when no other process has the database open.\<close>

definition sqlite_ok :: "'w ops_env \<Rightarrow> (fs \<Rightarrow> string \<Rightarrow> 'c) \<Rightarrow> bool" where
  "sqlite_ok env content \<longleftrightarrow>
     (\<forall>p. oe_open env p = Inr ()) \<and>
     (\<forall>p s s'. agree (files_of p) s s' \<longrightarrow> content s p = content s' p) \<and>
     (\<forall>p q s s'. clean s p \<and> clean s' q \<and> file_content s p \<noteq> None \<and> file_content s p = file_content s' q \<longrightarrow> content s p = content s' q) \<and>
     (\<forall>src dst s s'. oe_vacuum env src dst s = (Inr (), s') \<longrightarrow>
        content s' dst = content s src \<and> file_content s' dst \<noteq> None \<and> clean s' dst \<and> agree (- (files_of src \<union> files_of dst)) s s') \<and>
     (\<forall>p s r s'. oe_exclusive env p s = (r, s') \<longrightarrow> agree (- files_of p) s s' \<and> (r = Inr () \<longrightarrow> clean s' p))"

lemma agree_trans: "agree P s t \<Longrightarrow> agree Q t u \<Longrightarrow> agree (P \<inter> Q) s u"
  by (simp add: agree_def)

lemma agree_mono: "agree P s t \<Longrightarrow> Q \<subseteq> P \<Longrightarrow> agree Q s t"
  by (auto simp: agree_def)

lemma files_of_mem [simp]: "p \<in> files_of p" "p @ ''-wal'' \<in> files_of p" "p @ ''-journal'' \<in> files_of p"
  by (auto simp: files_of_def side_suffixes_def)

lemma agree_files:
  assumes "agree (files_of p) s s'"
  shows "file_content s' p = file_content s p" "clean s' p = clean s p"
  using assms files_of_mem [of p] by (simp_all add: agree_def clean_def)

lemma os_Stat_content: "os_Stat p s = (r, s') \<Longrightarrow> file_content s' = file_content s"
  by (auto simp: os_Stat_def split: option.splits)

lemma stat_not_exist: "Wrap m e \<noteq> ErrNotExist"
  by (simp add: ErrNotExist_def)

lemma os_Stat_missing: "os_Stat p s = (Inl ErrNotExist, s') \<Longrightarrow> file_content s p = None"
  by (cases "fs_fault s"; cases "file_content s p") (auto simp: os_Stat_def stat_not_exist)

text \<open>What is asked of the two directories: they are different, and both are named.\<close>

definition dirs_apart :: "string \<Rightarrow> string \<Rightarrow> bool" where
  "dirs_apart rt out \<longleftrightarrow> rt \<noteq> '''' \<and> out \<noteq> '''' \<and> child_prefix rt \<noteq> child_prefix out"

lemma apart_files:
  assumes "dirs_apart rt out" "n \<in> set restore_names" "m \<in> set restore_names"
  shows "files_of (path_Join [rt, n]) \<inter> files_of (path_Join [out, m]) = {}"
    "n \<noteq> m \<Longrightarrow> files_of (path_Join [rt, n]) \<inter> files_of (path_Join [rt, m]) = {}"
    "n \<noteq> m \<Longrightarrow> files_of (path_Join [out, n]) \<inter> files_of (path_Join [out, m]) = {}"
  using assms files_apart unfolding dirs_apart_def by blast+

lemma backup_loop_ok:
  assumes q: "sqlite_ok env content" and d: "dirs_apart rt out"
  shows "backup_loop env rt out names s = (Inr u, s') \<Longrightarrow> distinct names \<Longrightarrow> set names \<subseteq> set restore_names \<Longrightarrow>
    (\<forall>n \<in> set names. content s' (path_Join [out, n]) = content s (path_Join [rt, n]) \<and> file_content s' (path_Join [out, n]) \<noteq> None \<and>
       clean s' (path_Join [out, n])) \<and>
    agree (- (\<Union>n \<in> set names. files_of (path_Join [rt, n]) \<union> files_of (path_Join [out, n]))) s s'"
proof (induction names arbitrary: s)
  case Nil
  then show ?case by (simp add: agree_def)
next
  case (Cons n names)
  let ?r = "\<lambda>n. path_Join [rt, n]" and ?o = "\<lambda>n. path_Join [out, n]"
  from Cons.prems(1) q obtain s1 where v: "oe_vacuum env (?r n) (?o n) s = (Inr (), s1)" and l: "backup_loop env rt out names s1 = (Inr u, s')"
    by (auto simp: vacuumInto_def sqlite_ok_def split: prod.splits sum.splits)
  have v1: "content s1 (?o n) = content s (?r n)" "file_content s1 (?o n) \<noteq> None" "clean s1 (?o n)"
    "agree (- (files_of (?r n) \<union> files_of (?o n))) s s1"
    using q v unfolding sqlite_ok_def by blast+
  have sub: "n \<notin> set names" "n \<in> set restore_names" "set names \<subseteq> set restore_names" "distinct names" using Cons.prems by auto
  note ih = Cons.IH [OF l sub(4,3)]
  have local: "content t p = content t' p" if "agree (files_of p) t t'" for p t t' using q that unfolding sqlite_ok_def by blast
  have src: "content s1 (?r m) = content s (?r m)" if "m \<in> set names" for m
  proof -
    have nm: "n \<noteq> m" and m: "m \<in> set restore_names" using that sub by auto
    from apart_files(2) [OF d sub(2) m nm] apart_files(1) [OF d m sub(2)] have "files_of (?r m) \<subseteq> - (files_of (?r n) \<union> files_of (?o n))" by blast
    from local [OF agree_mono [OF v1(4) this]] show ?thesis by simp
  qed
  have "files_of (?o n) \<inter> (files_of (?r m) \<union> files_of (?o m)) = {}" if "m \<in> set names" for m
  proof -
    have nm: "n \<noteq> m" and m: "m \<in> set restore_names" using that sub by auto
    from apart_files(3) [OF d sub(2) m nm] apart_files(1) [OF d m sub(2)] show ?thesis by blast
  qed
  then have "files_of (?o n) \<subseteq> - (\<Union>m \<in> set names. files_of (?r m) \<union> files_of (?o m))" by blast
  then have dst: "agree (files_of (?o n)) s1 s'" using ih agree_mono by blast
  have "content s' (?o n) = content s (?r n) \<and> file_content s' (?o n) \<noteq> None \<and> clean s' (?o n)"
    using v1 local [OF dst] agree_files [OF dst] by simp
  moreover have "agree (- (\<Union>m \<in> set (n # names). files_of (?r m) \<union> files_of (?o m))) s s'"
    by (rule agree_mono [OF agree_trans [OF v1(4) conjunct2 [OF ih]]]) auto
  ultimately show ?case using ih src by simp
qed

lemma isLocked_free:
  assumes "sqlite_ok env content" "isLocked env p s = (b, s')" "file_content s p = None \<Longrightarrow> clean s p"
  shows "agree (- files_of p) s s'" "\<not> b \<Longrightarrow> clean s' p"
proof -
  obtain r s1 where t: "os_Stat p s = (r, s1)" by fastforce
  have c: "file_content s1 = file_content s" using os_Stat_content [OF t] .
  obtain x s2 where x: "oe_exclusive env p s1 = (x, s2)" by fastforce
  have e: "agree (- files_of p) s1 s2" "x = Inr () \<Longrightarrow> clean s2 p" "oe_open env p = Inr ()" using assms(1) x unfolding sqlite_ok_def by blast+
  have m: "r = Inl ErrNotExist \<Longrightarrow> clean s1 p" using os_Stat_missing t assms(3) c by (auto simp: clean_def)
  show "agree (- files_of p) s s'" "\<not> b \<Longrightarrow> clean s' p"
    using assms(2) t x e m c by (auto simp: isLocked_def agree_def split: if_splits sum.splits)
qed

lemma os_WriteFile_agree: "os_WriteFile p d pm s = (Inr u, s') \<Longrightarrow> agree (- {p}) s s' \<and> file_content s' p = Some d"
  using os_WriteFile_ok [of p d pm s s'] by (auto simp: agree_def)

lemma restore_one_ok:
  assumes q: "sqlite_ok env content" and run: "restore_one env rt inp n s = (Inr u, s')"
    and left: "file_content s (path_Join [rt, n]) = None \<longrightarrow> clean s (path_Join [rt, n])"
    and apart: "files_of (path_Join [rt, n]) \<inter> files_of (path_Join [inp, n]) = {}"
  shows "agree (- files_of (path_Join [rt, n])) s s'"
    "file_content s (path_Join [inp, n]) = Some d \<Longrightarrow> file_content s' (path_Join [rt, n]) = Some d \<and> clean s' (path_Join [rt, n])"
proof -
  let ?r = "path_Join [rt, n]" and ?o = "path_Join [inp, n]"
  obtain r s1 where t: "os_Stat ?o s = (r, s1)" by fastforce
  note c = os_Stat_content [OF t]
  have "agree (- files_of ?r) s s' \<and> (file_content s ?o = Some d \<longrightarrow> file_content s' ?r = Some d \<and> clean s' ?r)"
  proof (cases "r = Inl ErrNotExist")
    case True
    with os_Stat_missing t have "file_content s ?o = None" by blast
    with True run t c show ?thesis by (simp add: restore_one_def agree_def)
  next
    case False
    obtain b s2 where k: "isLocked env ?r s1 = (b, s2)" by fastforce
    with run t False have b: "\<not> b" by (auto simp: restore_one_def)
    have left1: "file_content s1 ?r = None \<Longrightarrow> clean s1 ?r" using left by (simp add: c clean_def)
    have k1: "agree (- files_of ?r) s s2" "clean s2 ?r"
      using isLocked_free [OF q k left1] b by (simp_all add: agree_def c)
    obtain x s3 where x: "os_ReadFile ?o s2 = (x, s3)" by fastforce
    with run t False k b obtain d' where d': "x = Inr d'" "os_WriteFile ?r d' 420 s3 = (Inr u, s')"
      by (auto simp: restore_one_def split: prod.splits sum.splits)
    have c3: "file_content s3 = file_content s2" using x os_ReadFile_content [of ?o s2] by simp
    have "?o \<in> - files_of ?r" using apart files_of_mem(1) by blast
    then have rd: "file_content s ?o = Some d'" using x d'(1) k1(1) by (auto simp: os_ReadFile_def agree_def split: option.splits)
    from os_WriteFile_agree [OF d'(2)] have w: "agree (- {?r}) s3 s'" "file_content s' ?r = Some d'" by simp_all
    have "clean s' ?r" using w(1) k1(2) c3 by (simp add: agree_def clean_def)
    moreover have "agree (- files_of ?r) s s'"
      using k1(1) w(1) c3 files_of_mem(1) [of ?r] unfolding agree_def by (metis ComplD ComplI singletonD)
    ultimately show ?thesis using rd w(2) by simp
  qed
  then show "agree (- files_of ?r) s s'"
    "file_content s ?o = Some d \<Longrightarrow> file_content s' ?r = Some d \<and> clean s' ?r" by blast+
qed

text \<open>No log is left beside a database file that is not there.\<close>

definition no_orphan_log :: "string \<Rightarrow> fs \<Rightarrow> bool" where
  "no_orphan_log rt s \<longleftrightarrow>
     (\<forall>n \<in> set restore_names. file_content s (path_Join [rt, n]) = None \<longrightarrow> clean s (path_Join [rt, n]))"

lemma restore_loop_ok:
  assumes q: "sqlite_ok env content" and d: "dirs_apart rt inp"
  shows "restore_loop env rt inp names s = (Inr u, s') \<Longrightarrow> distinct names \<Longrightarrow> set names \<subseteq> set restore_names \<Longrightarrow>
    \<forall>n \<in> set names. file_content s (path_Join [rt, n]) = None \<longrightarrow> clean s (path_Join [rt, n]) \<Longrightarrow>
    agree (- (\<Union>n \<in> set names. files_of (path_Join [rt, n]))) s s' \<and>
    (\<forall>n \<in> set names. \<forall>d. file_content s (path_Join [inp, n]) = Some d \<longrightarrow>
       file_content s' (path_Join [rt, n]) = Some d \<and> clean s' (path_Join [rt, n]))"
proof (induction names arbitrary: s)
  case Nil
  then show ?case by (simp add: agree_def)
next
  case (Cons n names)
  let ?r = "\<lambda>n. path_Join [rt, n]" and ?o = "\<lambda>n. path_Join [inp, n]"
  from Cons.prems(1) obtain s1 where one: "restore_one env rt inp n s = (Inr (), s1)" and l: "restore_loop env rt inp names s1 = (Inr u, s')"
    by (auto split: prod.splits sum.splits)
  have sub: "n \<notin> set names" "n \<in> set restore_names" "set names \<subseteq> set restore_names" "distinct names" using Cons.prems by auto
  have left: "file_content s (?r n) = None \<longrightarrow> clean s (?r n)" using Cons.prems(4) by simp
  note 1 = restore_one_ok [OF q one left apart_files(1) [OF d sub(2,2)]]
  have ne: "files_of (?r n) \<inter> files_of (?r m) = {}" "files_of (?r n) \<inter> files_of (?o m) = {}" if m: "m \<in> set names" for m
  proof -
    have "n \<noteq> m" "m \<in> set restore_names" using m sub by auto
    from apart_files(2) [OF d sub(2) this(2,1)] apart_files(1) [OF d sub(2) this(2)]
    show "files_of (?r n) \<inter> files_of (?r m) = {}" "files_of (?r n) \<inter> files_of (?o m) = {}" .
  qed
  have s1: "agree (files_of (?r m)) s s1" "agree (files_of (?o m)) s s1" if "m \<in> set names" for m
    using agree_mono [OF 1(1)] ne [OF that] by blast+
  have "\<forall>m \<in> set names. file_content s1 (?r m) = None \<longrightarrow> clean s1 (?r m)"
    using Cons.prems(4) agree_files [OF s1(1)] by simp
  note ih = Cons.IH [OF l sub(4,3) this]
  have n1: "agree (files_of (?r n)) s1 s'" using agree_mono [OF conjunct1 [OF ih]] ne(1) by blast
  have "agree (- (\<Union>m \<in> set (n # names). files_of (?r m))) s s'"
    by (rule agree_mono [OF agree_trans [OF 1(1) conjunct1 [OF ih]]]) auto
  moreover have "\<forall>e. file_content s (?o n) = Some e \<longrightarrow> file_content s' (?r n) = Some e \<and> clean s' (?r n)"
    using 1(2) agree_files [OF n1] by simp
  moreover have "\<forall>m \<in> set names. \<forall>e. file_content s (?o m) = Some e \<longrightarrow> file_content s' (?r m) = Some e \<and> clean s' (?r m)"
    using conjunct2 [OF ih] agree_files(1) [OF s1(2)] by simp
  ultimately show ?case by simp
qed

lemma backup_names_sub: "backup_names rt s = (names, s') \<Longrightarrow> distinct names \<and> set names \<subseteq> set restore_names \<and> ''registry.db'' \<in> set names \<and>
  file_content s' = file_content s"
  by (auto simp: backup_names_def add_if_there_def restore_names_def split: prod.splits sum.splits) (metis os_Stat_content)+


text \<open>A SQLite whose databases are their files' bytes.\<close>

definition drop_sides :: "string \<Rightarrow> fs \<Rightarrow> fs" where
  "drop_sides p s = s\<lparr>fs_files := filter (\<lambda>(q, _). q \<noteq> p @ ''-wal'' \<and> q \<noteq> p @ ''-journal'') (fs_files s)\<rparr>"

definition ops_sample :: "unit ops_env" where
  "ops_sample =
     \<lparr>oe_open = (\<lambda>p. Inr ()),
      oe_vacuum = (\<lambda>src dst s. case file_content s src of None \<Rightarrow> (Inl (Errorf ''unable to open database file''), s)
         | Some d \<Rightarrow> (Inr (), put_file dst d 420 (drop_sides dst s))),
      oe_exclusive = (\<lambda>p s. (Inr (), drop_sides p s)), oe_integrity = (\<lambda>p s. (Inr ''ok'', s)),
      oe_docker = (\<lambda>h. Inr (\<lambda>w. (Inr (), w))), oe_dial = (\<lambda>a w. (Inl (Errorf ''refused''), w)),
      oe_look_path = Inr ''/bin/cosign'', oe_run = (\<lambda>p args w. (Inr (), w))\<rparr>"

lemma drop_sides_content:
  "file_content (drop_sides p s) q = (if q = p @ ''-wal'' \<or> q = p @ ''-journal'' then None else file_content s q)"
  by (simp add: drop_sides_def file_content_def map_of_filter_key)

lemma ops_sample_ok: "sqlite_ok ops_sample file_content"
proof -
  have 1: "\<forall>p s s'. agree (files_of p) s s' \<longrightarrow> file_content s p = file_content s' p"
    using agree_files(1) by metis
  have c: "clean (put_file dst d 420 (drop_sides dst s)) dst" for dst d s
    by (simp add: clean_def file_content_put drop_sides_content)
  have a: "agree (- (files_of src \<union> files_of dst)) s (put_file dst d 420 (drop_sides dst s))" for src dst d s
    using files_of_mem [of dst] by (auto simp: agree_def file_content_put drop_sides_content)
  have 2: "file_content s' dst = file_content s src \<and> file_content s' dst \<noteq> None \<and> clean s' dst \<and> agree (- (files_of src \<union> files_of dst)) s s'"
    if v: "oe_vacuum ops_sample src dst s = (Inr (), s')" for src dst s s'
  proof -
    from v obtain d where "file_content s src = Some d" "s' = put_file dst d 420 (drop_sides dst s)"
      by (auto simp: ops_sample_def split: option.splits)
    with a c show ?thesis by (simp add: file_content_put)
  qed
  have "agree (- files_of p) s (drop_sides p s) \<and> clean (drop_sides p s) p" for p s
    using files_of_mem [of p] by (auto simp: agree_def clean_def drop_sides_content)
  then have 3: "\<forall>p s r s'. oe_exclusive ops_sample p s = (r, s') \<longrightarrow> agree (- files_of p) s s' \<and> (r = Inr () \<longrightarrow> clean s' p)"
    by (simp add: ops_sample_def)
  have 4: "\<forall>p. oe_open ops_sample p = Inr ()" by (simp add: ops_sample_def)
  show ?thesis unfolding sqlite_ok_def using 1 2 3 4 by blast
qed

definition ops_fs :: fs where
  "ops_fs = \<lparr>fs_files = [(''/data/registry.db'', 420, ''r1''), (''/data/events.db'', 420, ''e1'')], fs_dirs = [''/data''], fs_faults = []\<rparr>"

definition ops_saved :: fs where
  "ops_saved = snd (backup_body ops_sample ''/data'' ''/b'' ops_fs)"

definition ops_damaged :: fs where
  "ops_damaged = put_file ''/data/registry.db'' ''lost'' 420 ops_saved"

lemma ops_sample_names: "fst (backup_names ''/data'' (snd (os_MkdirAll ''/b'' ops_fs))) = [''registry.db'', ''events.db'']"
  by code_simp

lemma ops_sample_backup: "(case fst (backup_body ops_sample ''/data'' ''/b'' ops_fs) of Inr _ \<Rightarrow> True | _ \<Rightarrow> False)"
  by code_simp

lemma ops_sample_restore: "(case fst (restore_body ops_sample ''/data'' ''/b'' ops_damaged) of Inr _ \<Rightarrow> True | _ \<Rightarrow> False)"
  by code_simp

lemma ops_sample_apart: "dirs_apart ''/data'' ''/b''"
  by code_simp

lemma ops_sample_files: "map fst (fs_files ops_damaged) = [''/data/registry.db'', ''/b/events.db'', ''/b/registry.db'', ''/data/events.db'']"
  by code_simp

lemma ops_sample_untouched: "\<forall>n \<in> set restore_names. agree (files_of (path_Join [''/b'', n])) ops_saved ops_damaged"
proof -
  have "list_all (\<lambda>n. list_all (\<lambda>x. path_Join [''/b'', n] @ x \<noteq> ''/data/registry.db'') side_suffixes) restore_names" by code_simp
  then show ?thesis by (auto simp: agree_def files_of_def ops_damaged_def file_content_put list_all_iff)
qed

lemma ops_sample_no_orphan: "no_orphan_log ''/data'' ops_damaged"
proof -
  have "file_content ops_damaged q = None" if "q \<notin> {''/data/registry.db'', ''/b/events.db'', ''/b/registry.db'', ''/data/events.db''}" for q
    using that arg_cong [OF ops_sample_files, of set] by (auto simp: file_content_def map_of_eq_None_iff)
  moreover have "list_all (\<lambda>n. path_Join [''/data'', n] @ ''-wal'' \<notin> {''/data/registry.db'', ''/b/events.db'', ''/b/registry.db'', ''/data/events.db''} \<and>
      path_Join [''/data'', n] @ ''-journal'' \<notin> {''/data/registry.db'', ''/b/events.db'', ''/b/registry.db'', ''/data/events.db''}) restore_names"
    by code_simp
  ultimately show ?thesis by (simp add: no_orphan_log_def clean_def list_all_iff)
qed


text \<open>A lock stops the restore before the locked database, and what came before stays restored: the fleet is
  left with databases of two different times.\<close>

definition half_locked :: "unit ops_env" where
  "half_locked = ops_sample\<lparr>oe_exclusive := (\<lambda>p s. if p = ''/data/events.db'' then (Inl (Errorf ''database is locked''), s) else (Inr (), drop_sides p s))\<rparr>"

lemma restore_stops_halfway:
  "fst (restore_body half_locked ''/data'' ''/b'' (put_file ''/data/events.db'' ''e2'' 420 ops_damaged)) =
     Inl (Errorf (''events.db is locked by a running server '' @ em_dash @ '' stop fox-control before restoring''))"
  "file_content (snd (restore_body half_locked ''/data'' ''/b'' (put_file ''/data/events.db'' ''e2'' 420 ops_damaged))) ''/data/registry.db'' = Some ''r1''"
  "file_content (snd (restore_body half_locked ''/data'' ''/b'' (put_file ''/data/events.db'' ''e2'' 420 ops_damaged))) ''/data/events.db'' = Some ''e2''"
  by code_simp+

section \<open>Diagnostics\<close>

definition docker_up :: "'w ops_env \<Rightarrow> config \<Rightarrow> 'w \<Rightarrow> bool" where
  "docker_up env cfg w \<longleftrightarrow> (\<exists>ping. oe_docker env (''unix://'' @ dck_Socket (Docker cfg)) = Inr ping \<and> fst (ping w) = Inr ())"

definition registry_sound :: "'w ops_env \<Rightarrow> config \<Rightarrow> fs \<Rightarrow> bool" where
  "registry_sound env cfg s \<longleftrightarrow>
     (let p = path_Join [ctl_DataRoot (Control cfg), ''registry.db''] in
      oe_open env p = Inr () \<and> fst (oe_integrity env p s) = Inr ''ok'')"

definition passes :: "'w diag \<Rightarrow> fs \<times> 'w \<Rightarrow> bool" where
  "passes c sw \<longleftrightarrow> dg_Status (fst (c sw)) \<noteq> ''fail''"

lemma run_checks_pass:
  "(\<forall>c \<in> set (fst (run_checks (c # cs) sw)). dg_Status c \<noteq> ''fail'') \<longleftrightarrow>
     passes c sw \<and> (\<forall>c \<in> set (fst (run_checks cs (snd (c sw)))). dg_Status c \<noteq> ''fail'')"
  by (auto simp: passes_def split: prod.splits)

lemma checks_pass:
  "passes (checkDocker env cfg) (s, w) \<longleftrightarrow> docker_up env cfg w"
  "passes (checkRegistry env cfg) (s, w) \<longleftrightarrow> registry_sound env cfg s"
  "passes (checkDisk cfg) (s, w) \<longleftrightarrow> fst (os_Stat (ctl_DataRoot (Control cfg)) s) = Inr True"
  "passes (checkPort env cfg) (s, w)"
  "passes (checkQdrant env cfg) (s, w) \<longleftrightarrow> fst (oe_dial env (''localhost:'' @ int_str (qd_HTTPPort (Qdrant cfg))) w) = Inr ()"
  "passes (checkEmbedding cfg) (s, w)" "passes (checkDataPlanePort env cfg) (s, w)"
  by (auto simp: passes_def checkDocker_def checkRegistry_def checkDisk_def checkPort_def checkQdrant_def checkEmbedding_def
      checkDataPlanePort_def dialed_def docker_up_def registry_sound_def registry_verdict_def Let_def split: sum.splits prod.splits bool.splits)

section \<open>Release files\<close>

lemma suffixes_differ:
  "list_all (\<lambda>a. list_all (\<lambda>b. take (min (length a) (length b)) (rev a) = take (min (length a) (length b)) (rev b) \<longrightarrow> a = b)
     platform_suffixes) platform_suffixes"
  by code_simp

lemma suffixes_apart:
  assumes "suf \<in> set platform_suffixes" "suf' \<in> set platform_suffixes" "HasSuffix (t @ suf) suf'"
  shows "suf' = suf"
proof -
  from assms(3) obtain u where "t @ suf = u @ suf'" by (auto simp: HasSuffix_iff)
  then have e: "rev suf @ rev t = rev suf' @ rev u" by (metis rev_append)
  let ?k = "min (length suf) (length suf')"
  have "take ?k (rev suf) = take ?k (rev suf @ rev t)" "take ?k (rev suf') = take ?k (rev suf' @ rev u)" by simp_all
  with e have "take ?k (rev suf) = take ?k (rev suf')" by metis
  with suffixes_differ assms(1,2) show ?thesis unfolding list_all_iff by blast
qed

lemma strip_platform: "suf \<in> set platform_suffixes \<Longrightarrow> strip_first platform_suffixes (t @ suf) = t"
proof -
  assume s: "suf \<in> set platform_suffixes"
  then obtain x where x: "find (HasSuffix (t @ suf)) platform_suffixes = Some x"
    using HasSuffix_append [of t suf] by (cases "find (HasSuffix (t @ suf)) platform_suffixes") (auto simp: find_None_iff)
  then have "HasSuffix (t @ suf) x \<and> x \<in> set platform_suffixes" by (auto simp: find_Some_iff)
  with suffixes_apart [OF s] have "x = suf" by blast
  with x show ?thesis by (simp add: strip_first_def)
qed

lemma path_Base_name:
  assumes "CHR ''/'' \<notin> set name" "name \<noteq> ''''"
  shows "path_Base (dir @ ''/'' @ name) = name"
proof -
  obtain u c where n: "name = u @ [c]" using assms(2) by (cases name rule: rev_cases) auto
  then have "rev (dropWhile (\<lambda>c. c = CHR ''/'') (rev (dir @ ''/'' @ name))) = dir @ ''/'' @ name" using assms(1) by auto
  then show ?thesis using str_last_index_unique [OF assms(1), of dir] by (simp add: path_Base_def)
qed

lemma extractTag_release:
  assumes "suf \<in> set platform_suffixes" "CHR ''/'' \<notin> set tag"
  shows "extractTag bv (dir @ ''/fox-control-'' @ tag @ suf @ ''.tar.gz'') = tag"
proof -
  have "list_all (\<lambda>x. CHR ''/'' \<notin> set x) platform_suffixes" by code_simp
  then have "CHR ''/'' \<notin> set (''fox-control-'' @ tag @ suf @ ''.tar.gz'')" using assms by (auto simp: list_all_iff)
  from path_Base_name [OF this, of dir]
  have "path_Base (dir @ ''/fox-control-'' @ tag @ suf @ ''.tar.gz'') = (''fox-control-'' @ tag @ suf) @ ''.tar.gz''" by simp
  moreover have "TrimSuffix ((''fox-control-'' @ tag @ suf) @ ''.tar.gz'') ''.tar.gz'' = ''fox-control-'' @ tag @ suf"
    by (rule TrimSuffix_append)
  moreover have "HasPrefix (''fox-control-'' @ tag @ suf) ''fox-control-''" by (simp add: HasPrefix_iff)
  ultimately show ?thesis by (simp add: extractTag_def Let_def strip_platform [OF assms(1)])
qed


definition verify_fs :: fs where
  "verify_fs =
     (let a = ''/d/fox-control-v1.0-linux-amd64.tar.gz'' in
      \<lparr>fs_files = [(a, 420, ''x''), (a @ ''.sig'', 420, ''s''), (a @ ''.pem'', 420, ''c'')], fs_dirs = [''/d''], fs_faults = []\<rparr>)"


text \<open>The software bill of materials of a release is signed too, but its name gives no tag.\<close>

lemma verify_sbom_tag: "extractTag bv ''fox-control-v1.0.sbom.cdx.json'' = ''v1.0.sbom.cdx.json''"
  by code_simp

lemma check_states:
  "fst (snd (checkDocker env cfg (s, w))) = s" "snd (snd (checkRegistry env cfg (s, w))) = w"
  "fst (snd (checkRegistry env cfg (s, w))) = (if \<exists>e. oe_open env (path_Join [ctl_DataRoot (Control cfg), ''registry.db'']) = Inl e then s
     else snd (oe_integrity env (path_Join [ctl_DataRoot (Control cfg), ''registry.db'']) s))"
  "snd (snd (checkDisk cfg (s, w))) = w"
  "snd (checkPort env cfg (s, w)) = (s, snd (oe_dial env (ctl_Listen (Control cfg)) w))"
  by (simp_all add: checkDocker_def checkRegistry_def checkDisk_def checkPort_def dialed_def Let_def split: sum.splits prod.splits bool.splits)

text \<open>\<^verbatim>\<open>diagnostics\<close> fails exactly when Docker does not answer, the registry's integrity check does not
  say \<^verbatim>\<open>ok\<close>, the data root is not a directory, or the vector database is enabled and cannot be reached;
  a port in use is only a warning.\<close>

theorem diagnostics_fails_iff:
  assumes "ParseFormat fmt = Inr f" "cmd_diagnostics env fmt (Inr cfg) (s, w) = ((out, err), s', w')"
  shows "err = None \<longleftrightarrow>
    docker_up env cfg w \<and> registry_sound env cfg s \<and>
    fst (os_Stat (ctl_DataRoot (Control cfg)) (fst (snd (checkRegistry env cfg (s, w))))) = Inr True \<and>
    (qd_Enabled (Qdrant cfg) \<longrightarrow>
       fst (oe_dial env (''localhost:'' @ int_str (qd_HTTPPort (Qdrant cfg)))
         (snd (oe_dial env (ctl_Listen (Control cfg)) (snd (snd (checkDocker env cfg (s, w))))))) = Inr ())"
proof -
  define w1 where "w1 = snd (snd (checkDocker env cfg (s, w)))"
  define s1 where "s1 = fst (snd (checkRegistry env cfg (s, w)))"
  define s2 where "s2 = fst (snd (checkDisk cfg (s1, w1)))"
  have d: "snd (checkDocker env cfg (s, w)) = (s, w1)" "snd (checkRegistry env cfg (s, w1)) = (s1, w1)" "snd (checkDisk cfg (s1, w1)) = (s2, w1)"
    by (simp_all add: prod_eq_iff w1_def s1_def s2_def check_states)
  have e: "err = None \<longleftrightarrow> (\<forall>c \<in> set (fst (run_checks (diagnostics_checks env cfg) (s, w))). dg_Status c \<noteq> ''fail'')"
    using assms by (auto simp: cmd_diagnostics_def split: prod.splits if_splits)
  have rest: "\<forall>c \<in> set (fst (run_checks
      ((if dp_Enabled (DataPlane cfg) \<and> emb_BaseURL (Embedding cfg) \<noteq> '''' then [checkEmbedding cfg] else []) @
       (if dp_Enabled (DataPlane cfg) then [checkDataPlanePort env cfg] else [])) sw)). dg_Status c \<noteq> ''fail''" for sw
    by (cases sw; cases "snd (checkEmbedding cfg sw)") (auto simp: run_checks_pass checks_pass simp del: run_checks.simps(2))
  show ?thesis
    unfolding e diagnostics_checks_def s1_def [symmetric] w1_def [symmetric]
    using rest
    by (simp add: run_checks_pass checks_pass d check_states passes_def [of "\<lambda>sw. (x, sw)" for x] del: run_checks.simps(2))
qed

theorem diagnostics_fails_iff_witness:
  "\<exists>out err s' w'. cmd_diagnostics ops_sample ''quiet'' (Inr sample_config) (ops_fs, ()) = ((out, err), s', w') \<and> err \<noteq> None"
proof -
  have f: "ParseFormat ''quiet'' = Inr Quiet" "fst (oe_dial ops_sample a w) \<noteq> Inr ()" "qd_Enabled (Qdrant sample_config)" for a w
    by (code_simp, simp add: ops_sample_def, simp add: sample_config_def)
  obtain out err s' w' where c: "cmd_diagnostics ops_sample ''quiet'' (Inr sample_config) (ops_fs, ()) = ((out, err), s', w')"
    by (metis prod.exhaust)
  from diagnostics_fails_iff [OF f(1) c] f(2,3) show ?thesis using c by blast
qed

end
