(* ===== verification/Conf_Report.thy ===== *)
theory Conf_Report
  imports Output_Format
begin

text \<open>
  \<^verbatim>\<open>conformance/runtime/report\<close>: the result of a check, the report of a suite and its text, and how a
  check is timed. Durations are nanoseconds and never negative (Go measures them on the monotonic
  clock).
\<close>

datatype check_status = Pass | Fail | Skip

record check_result =
  ck_Number :: int
  ck_Name :: string
  ck_Status :: check_status
  ck_Duration :: int
  ck_Detail :: string

record suite_report =
  su_Image :: string
  su_Results :: "check_result list"
  su_Elapsed :: int

definition Suite_Add :: "check_result \<Rightarrow> suite_report \<Rightarrow> suite_report" where
  "Suite_Add r s = s\<lparr>su_Results := su_Results s @ [r]\<rparr>"

definition with_status :: "check_status \<Rightarrow> suite_report \<Rightarrow> nat" where
  "with_status st s = length (filter (\<lambda>r. ck_Status r = st) (su_Results s))"

definition Suite_Passed :: "suite_report \<Rightarrow> nat" where "Suite_Passed = with_status Pass"
definition Suite_Failed :: "suite_report \<Rightarrow> nat" where "Suite_Failed = with_status Fail"
definition Suite_Skipped :: "suite_report \<Rightarrow> nat" where "Suite_Skipped = with_status Skip"

definition Suite_OK :: "suite_report \<Rightarrow> bool" where
  "Suite_OK s \<longleftrightarrow> Suite_Failed s = 0"

section \<open>Text\<close>

text \<open>\<^verbatim>\<open>Duration.Round(time.Millisecond)\<close> and \<^verbatim>\<open>String\<close> of its result.\<close>

definition in_ms :: "int \<Rightarrow> int" where
  "in_ms d = (d + 500000) div 1000000"

definition ms_fraction :: "int \<Rightarrow> string" where
  "ms_fraction f =
     (if f = 0 then ''''
      else let ds = nat_str (nat (1000 + f)) in ''.'' @ rev (dropWhile (\<lambda>c. c = CHR ''0'') (rev (tl ds))))"

definition ms_str :: "int \<Rightarrow> string" where
  "ms_str ms =
     (if ms = 0 then ''0s''
      else if ms < 1000 then int_str ms @ ''ms''
      else let s = ms div 1000; h = s div 3600; m = s div 60 mod 60 in
        (if h > 0 then int_str h @ ''h'' else '''') @ (if s \<ge> 60 then int_str m @ ''m'' else '''') @
        int_str (s mod 60) @ ms_fraction (ms mod 1000) @ ''s'')"

definition two_digits :: "int \<Rightarrow> string" where
  "two_digits n = (if 0 \<le> n \<and> n < 10 then ''0'' @ int_str n else int_str n)"

definition status_marker :: "check_status \<Rightarrow> string" where
  "status_marker st = (case st of Pass \<Rightarrow> ''[PASS]'' | Fail \<Rightarrow> ''[FAIL]'' | Skip \<Rightarrow> ''[SKIP]'')"

definition check_line :: "check_result \<Rightarrow> string" where
  "check_line r =
     ''  '' @ status_marker (ck_Status r) @ '' '' @ two_digits (ck_Number r) @ '' '' @ pad_to 42 (ck_Name r) @ '' '' @
     ms_str (in_ms (ck_Duration r)) @ line_end @
     (if ck_Detail r \<noteq> '''' \<and> ck_Status r \<noteq> Pass then ''        -> '' @ ck_Detail r @ line_end else '''')"

text \<open>The lines come in the order of their numbers.\<close>

definition Suite_Format :: "suite_report \<Rightarrow> string" where
  "Suite_Format s =
     ''Runtime Conformance '' @ em_dash @ '' '' @ su_Image s @ line_end @ replicate 60 (CHR ''='') @ line_end @ line_end @
     concat (map check_line (sort_key ck_Number (su_Results s))) @ line_end @ replicate 60 (CHR ''-'') @ line_end @
     ''  '' @ nat_str (Suite_Passed s) @ '' passed, '' @ nat_str (Suite_Failed s) @ '' failed, '' @ nat_str (Suite_Skipped s) @
     '' skipped ('' @ ms_str (in_ms (su_Elapsed s)) @ '')'' @ line_end"

text \<open>Every result is counted under one status.\<close>

lemma Suite_counts: "Suite_Passed s + Suite_Failed s + Suite_Skipped s = length (su_Results s)"
proof -
  have "length (filter (\<lambda>r. ck_Status r = Pass) rs) + length (filter (\<lambda>r. ck_Status r = Fail) rs) +
      length (filter (\<lambda>r. ck_Status r = Skip) rs) = length rs" for rs :: "check_result list"
  proof (induction rs)
    case (Cons r rs)
    then show ?case by (cases "ck_Status r") auto
  qed simp
  then show ?thesis by (simp add: Suite_Passed_def Suite_Failed_def Suite_Skipped_def with_status_def)
qed

lemma Suite_OK_iff: "Suite_OK s \<longleftrightarrow> (\<forall>r \<in> set (su_Results s). ck_Status r \<noteq> Fail)"
  by (auto simp: Suite_OK_def Suite_Failed_def with_status_def filter_empty_conv)

lemma ms_str_samples:
  "ms_str (in_ms 61500000000) = ''1m1.5s''" "ms_str (in_ms 3600000000000) = ''1h0m0s''" "ms_str (in_ms 12345678) = ''12ms''"
  "ms_str (in_ms 1050400000) = ''1.05s''"
  by code_simp+

end
