(* ===== verification/Conf_Http.thy ===== *)
theory Conf_Http
  imports Conf_Report Go_Server
begin

text \<open>
  What the conformance suites use of \<^verbatim>\<open>net/http\<close> and \<^verbatim>\<open>encoding/json\<close>. The peer is a function over the
  world; decoding a document into an \<^verbatim>\<open>any\<close> value and printing such a value with \<^verbatim>\<open>%v\<close> are arguments. A Go
  map has no order; a decoded object is a list, and a loop over it takes the list's order.
\<close>

datatype jany = ANull | ABool bool | ANum string | AStr string | AArr "jany list" | AObj "(string \<times> jany) list"

record conf_request =
  cq_Method :: string
  cq_URL :: string
  cq_Headers :: "(string \<times> string) list"
  cq_Body :: string
  cq_Follow :: bool

record conf_response =
  cr_Status :: int
  cr_Headers :: "(string \<times> string) list"
  cr_Cookies :: "(string \<times> string) list"
  cr_Body :: "string result"

record 'w conf_env =
  cv_NewRequest :: "string \<Rightarrow> go_error option"
  cv_Do :: "conf_request \<Rightarrow> 'w \<Rightarrow> conf_response result \<times> 'w"
  cv_decode :: "string \<Rightarrow> jany result"
  cv_show :: "jany \<Rightarrow> string"
  cv_now :: "'w \<Rightarrow> int"

type_synonym 'w check = "'w \<Rightarrow> (check_status \<times> string) \<times> 'w"

definition timedCheck :: "('w, 'z) conf_env_scheme \<Rightarrow> int \<Rightarrow> string \<Rightarrow> 'w check \<Rightarrow> 'w \<Rightarrow> check_result \<times> 'w" where
  "timedCheck env num name fn w =
     (case fn w of ((st, detail), w1) \<Rightarrow>
        (\<lparr>ck_Number = num, ck_Name = name, ck_Status = st, ck_Duration = cv_now env w1 - cv_now env w, ck_Detail = detail\<rparr>, w1))"

definition do_request :: "('w, 'z) conf_env_scheme \<Rightarrow> conf_request \<Rightarrow> 'w \<Rightarrow> conf_response result \<times> 'w" where
  "do_request env rq w =
     (case cv_NewRequest env (cq_URL rq) of Some e \<Rightarrow> (Inl e, w) | None \<Rightarrow> cv_Do env rq w)"

definition response_header :: "conf_response \<Rightarrow> string \<Rightarrow> string" where
  "response_header r k = assoc_get (cr_Headers r) k"

section \<open>JSON values\<close>

definition json_kind :: "jany \<Rightarrow> string" where
  "json_kind v =
     (case v of ANull \<Rightarrow> ''null'' | ABool _ \<Rightarrow> ''bool'' | ANum _ \<Rightarrow> ''number'' | AStr _ \<Rightarrow> ''string'' | AArr _ \<Rightarrow> ''array'' | AObj _ \<Rightarrow> ''object'')"

definition go_type :: "jany \<Rightarrow> string" where
  "go_type v =
     (case v of ANull \<Rightarrow> ''<nil>'' | ABool _ \<Rightarrow> ''bool'' | ANum _ \<Rightarrow> ''float64'' | AStr _ \<Rightarrow> ''string''
      | AArr _ \<Rightarrow> ''[]interface {}'' | AObj _ \<Rightarrow> ''map[string]interface {}'')"

definition json_mismatch :: "jany \<Rightarrow> string \<Rightarrow> go_error" where
  "json_mismatch v t = Errorf (''json: cannot unmarshal '' @ json_kind v @ '' into Go value of type '' @ t)"

text \<open>\<^verbatim>\<open>json.Unmarshal\<close> into a map and into a slice: null leaves the variable as it is.\<close>

definition unmarshal_map :: "('w, 'z) conf_env_scheme \<Rightarrow> string \<Rightarrow> (string \<times> jany) list result" where
  "unmarshal_map env body =
     (case cv_decode env body of
        Inl e \<Rightarrow> Inl e
      | Inr (AObj m) \<Rightarrow> Inr m
      | Inr ANull \<Rightarrow> Inr []
      | Inr v \<Rightarrow> Inl (json_mismatch v ''map[string]interface {}''))"

definition unmarshal_slice :: "('w, 'z) conf_env_scheme \<Rightarrow> string \<Rightarrow> jany list result" where
  "unmarshal_slice env body =
     (case cv_decode env body of
        Inl e \<Rightarrow> Inl e
      | Inr (AArr xs) \<Rightarrow> Inr xs
      | Inr ANull \<Rightarrow> Inr []
      | Inr v \<Rightarrow> Inl (json_mismatch v ''[]interface {}''))"

definition field :: "(string \<times> jany) list \<Rightarrow> string \<Rightarrow> jany" where
  "field m k = (case map_of m k of None \<Rightarrow> ANull | Some v \<Rightarrow> v)"

definition has_field :: "(string \<times> jany) list \<Rightarrow> string \<Rightarrow> bool" where
  "has_field m k \<longleftrightarrow> map_of m k \<noteq> None"

fun as_object :: "jany \<Rightarrow> (string \<times> jany) list option" where
  "as_object (AObj m) = Some m"
| "as_object _ = None"

fun as_string :: "jany \<Rightarrow> string option" where
  "as_string (AStr s) = Some s"
| "as_string _ = None"

fun is_bool :: "jany \<Rightarrow> bool" where
  "is_bool (ABool _) = True"
| "is_bool _ = False"

section \<open>The world under a check\<close>

text \<open>A quantity that no request changes is not changed by a check built from requests.\<close>

definition check_keeps :: "('w \<Rightarrow> 'a) \<Rightarrow> ('w \<Rightarrow> 'b \<times> 'w) \<Rightarrow> bool" where
  "check_keeps f c \<longleftrightarrow> (\<forall>w. f (snd (c w)) = f w)"

lemma check_keepsD: "check_keeps f c \<Longrightarrow> c w = (x, w') \<Longrightarrow> f w' = f w"
  unfolding check_keeps_def by (metis snd_conv)

lemma timedCheck_number [simp]: "ck_Number (fst (timedCheck env n name fn w)) = n"
  by (simp add: timedCheck_def split: prod.splits)

lemma timedCheck_keeps: "check_keeps f fn \<Longrightarrow> check_keeps f (timedCheck env n name fn)"
  by (auto simp: check_keeps_def timedCheck_def split: prod.splits) (metis snd_conv)

lemma do_request_keeps: "(\<And>rq. check_keeps f (cv_Do env rq)) \<Longrightarrow> check_keeps f (do_request env rq)"
  by (simp add: check_keeps_def do_request_def split: option.splits)

end
