(* ===== verification/Conf_Checks.thy ===== *)
theory Conf_Checks
  imports Conf_Http Panel_Base
begin

text \<open>
  \<^verbatim>\<open>conformance/runtime/checks.go\<close> but for the check of the boot invariant: what each check asks of a
  running instance and how it judges the answer. A check is a function of the world; \<open>timedCheck\<close> adds
  its number, name and duration.
\<close>

record handle =
  hd_ContainerID :: string
  hd_Name :: string
  hd_Port :: int
  hd_BaseURL :: string
  hd_AuthSecret :: string
  hd_Password :: string
  hd_dataDir :: string

definition contractVersionPrefix :: string where "contractVersionPrefix = ''2.''"
definition foxLoginPath :: string where "foxLoginPath = ''/api/auth/login''"
definition foxSessionCookie :: string where "foxSessionCookie = ''hermes_session''"

section \<open>Requests\<close>

definition httpGetFull ::
  "('w, 'z) conf_env_scheme \<Rightarrow> string \<Rightarrow> (string \<times> string) list \<Rightarrow> 'w \<Rightarrow> (int \<times> string \<times> string) result \<times> 'w" where
  "httpGetFull env url headers w =
     (case do_request env \<lparr>cq_Method = ''GET'', cq_URL = url, cq_Headers = headers, cq_Body = '''', cq_Follow = False\<rparr> w of
        (Inl e, w1) \<Rightarrow> (Inl e, w1)
      | (Inr r, w1) \<Rightarrow>
          (case cr_Body r of
             Inl e \<Rightarrow> Inl (Wrap ''read response'' e)
           | Inr b \<Rightarrow> Inr (cr_Status r, b, response_header r ''Content-Type''), w1))"

definition httpGet ::
  "('w, 'z) conf_env_scheme \<Rightarrow> string \<Rightarrow> (string \<times> string) list \<Rightarrow> 'w \<Rightarrow> (int \<times> string) result \<times> 'w" where
  "httpGet env url headers w =
     (case httpGetFull env url headers w of
        (Inl e, w1) \<Rightarrow> (Inl e, w1) | (Inr (st, b, ct), w1) \<Rightarrow> (Inr (st, b), w1))"

definition httpPostWithCookies ::
  "('w, 'z) conf_env_scheme \<Rightarrow> string \<Rightarrow> string \<Rightarrow> (string \<times> string) list \<Rightarrow> 'w
     \<Rightarrow> (int \<times> string \<times> (string \<times> string) list) result \<times> 'w" where
  "httpPostWithCookies env url body headers w =
     (case do_request env \<lparr>cq_Method = ''POST'', cq_URL = url, cq_Headers = (''Content-Type'', ''application/json'') # headers,
             cq_Body = body, cq_Follow = False\<rparr> w of
        (Inl e, w1) \<Rightarrow> (Inl e, w1)
      | (Inr r, w1) \<Rightarrow>
          (case cr_Body r of
             Inl e \<Rightarrow> Inl (Wrap ''read response'' e) | Inr b \<Rightarrow> Inr (cr_Status r, b, cr_Cookies r), w1))"

definition httpPost ::
  "('w, 'z) conf_env_scheme \<Rightarrow> string \<Rightarrow> string \<Rightarrow> (string \<times> string) list \<Rightarrow> 'w \<Rightarrow> (int \<times> string) result \<times> 'w" where
  "httpPost env url body headers w =
     (case httpPostWithCookies env url body headers w of
        (Inl e, w1) \<Rightarrow> (Inl e, w1) | (Inr (st, b, cs), w1) \<Rightarrow> (Inr (st, b), w1))"

definition obtainSessionCookie :: "('w, 'z) conf_env_scheme \<Rightarrow> string \<Rightarrow> string \<Rightarrow> 'w \<Rightarrow> string result \<times> 'w" where
  "obtainSessionCookie env baseURL password w =
     (case httpPostWithCookies env (baseURL @ foxLoginPath) (''{'' @ go_quote ''password'' @ '':'' @ go_quote password @ ''}'') [] w of
        (Inl e, w1) \<Rightarrow> (Inl (Wrap ''login request'' e), w1)
      | (Inr (st, b, cookies), w1) \<Rightarrow>
          (if st \<noteq> 200 then Inl (Errorf (''login returned_status '' @ int_str st))
           else case find (\<lambda>(n, v). n = foxSessionCookie) cookies of
                  Some (n, v) \<Rightarrow> Inr (n @ ''='' @ v)
                | None \<Rightarrow> Inl (Errorf (''login response missing '' @ foxSessionCookie @ '' cookie'')), w1))"

section \<open>The steps checks are made of\<close>

text \<open>A request that fails is a failed check; otherwise \<open>judge\<close> decides.\<close>

definition judge_get ::
  "('w, 'z) conf_env_scheme \<Rightarrow> string \<Rightarrow> (string \<times> string) list \<Rightarrow> (int \<Rightarrow> string \<Rightarrow> check_status \<times> string) \<Rightarrow> 'w check" where
  "judge_get env url headers judge w =
     (case httpGet env url headers w of
        (Inl e, w1) \<Rightarrow> ((Fail, error_text e), w1) | (Inr (st, b), w1) \<Rightarrow> (judge st b, w1))"

definition judge_full ::
  "('w, 'z) conf_env_scheme \<Rightarrow> string \<Rightarrow> (string \<times> string) list \<Rightarrow> (int \<Rightarrow> string \<Rightarrow> string \<Rightarrow> check_status \<times> string) \<Rightarrow> 'w check" where
  "judge_full env url headers judge w =
     (case httpGetFull env url headers w of
        (Inl e, w1) \<Rightarrow> ((Fail, error_text e), w1) | (Inr (st, b, ct), w1) \<Rightarrow> (judge st b ct, w1))"

definition in_object ::
  "('w, 'z) conf_env_scheme \<Rightarrow> string \<Rightarrow> ((string \<times> jany) list \<Rightarrow> check_status \<times> string) \<Rightarrow> check_status \<times> string" where
  "in_object env body judge =
     (case unmarshal_map env body of Inl e \<Rightarrow> (Fail, ''invalid JSON: '' @ error_text e) | Inr m \<Rightarrow> judge m)"

definition expected_200 :: "int \<Rightarrow> check_status \<times> string" where
  "expected_200 st = (Fail, ''expected 200, got '' @ int_str st)"

definition pass :: "check_status \<times> string" where "pass = (Pass, '''')"

definition gated :: "string \<Rightarrow> int \<Rightarrow> string \<Rightarrow> check_status \<times> string" where
  "gated msg st b =
     (if st = 200 then (Fail, msg)
      else if st \<noteq> 401 \<and> st \<noteq> 302 then (Fail, ''expected 401 or 302, got '' @ int_str st) else pass)"

definition auth_headers :: "handle \<Rightarrow> (string \<times> string) list" where
  "auth_headers h = (if hd_AuthSecret h \<noteq> '''' then [(''X-Fox-Auth'', hd_AuthSecret h)] else [])"

text \<open>The first complaint about the members of an object.\<close>

fun first_complaint :: "(string \<times> jany \<Rightarrow> string option) \<Rightarrow> (string \<times> jany) list \<Rightarrow> check_status \<times> string" where
  "first_complaint f [] = pass"
| "first_complaint f (m # ms) = (case f m of Some msg \<Rightarrow> (Fail, msg) | None \<Rightarrow> first_complaint f ms)"

fun missing_field :: "(string \<times> jany) list \<Rightarrow> string list \<Rightarrow> check_status \<times> string" where
  "missing_field m [] = pass"
| "missing_field m (k # ks) = (if has_field m k then missing_field m ks else (Fail, ''missing required field: '' @ k))"

definition and_then :: "check_status \<times> string \<Rightarrow> check_status \<times> string \<Rightarrow> check_status \<times> string" where
  "and_then a b = (if fst a = Fail then a else b)"

section \<open>Access\<close>

definition check02ManagedValidAuth :: "('w, 'z) conf_env_scheme \<Rightarrow> handle \<Rightarrow> 'w \<Rightarrow> check_result \<times> 'w" where
  "check02ManagedValidAuth env h = timedCheck env 2 ''Managed: valid X-Fox-Auth''
     (judge_get env (hd_BaseURL h @ ''/version'') [(''X-Fox-Auth'', hd_AuthSecret h)]
        (\<lambda>st b. if st \<noteq> 200 then expected_200 st else pass))"

definition check03ManagedInvalidAuth :: "('w, 'z) conf_env_scheme \<Rightarrow> handle \<Rightarrow> 'w \<Rightarrow> check_result \<times> 'w" where
  "check03ManagedInvalidAuth env h = timedCheck env 3 ''Managed: invalid X-Fox-Auth''
     (judge_get env (hd_BaseURL h @ ''/version'') [(''X-Fox-Auth'', ''wrong-secret'')]
        (gated ''expected 401, got 200 (invalid secret was accepted)''))"

definition session_check :: "('w, 'z) conf_env_scheme \<Rightarrow> handle \<Rightarrow> 'w check" where
  "session_check env h w =
     (case obtainSessionCookie env (hd_BaseURL h) (hd_Password h) w of
        (Inl e, w1) \<Rightarrow> ((Fail, ''obtain session: '' @ error_text e), w1)
      | (Inr cookie, w1) \<Rightarrow>
          judge_get env (hd_BaseURL h @ ''/version'') [(''Cookie'', cookie)]
            (\<lambda>st b. if st \<noteq> 200 then expected_200 st else pass) w1)"

definition check04ManagedSessionAuth :: "('w, 'z) conf_env_scheme \<Rightarrow> handle \<Rightarrow> 'w \<Rightarrow> check_result \<times> 'w" where
  "check04ManagedSessionAuth env h = timedCheck env 4 ''Managed: valid session, no X-Fox-Auth'' (session_check env h)"

definition check05ManagedNoAuth :: "('w, 'z) conf_env_scheme \<Rightarrow> handle \<Rightarrow> 'w \<Rightarrow> check_result \<times> 'w" where
  "check05ManagedNoAuth env h = timedCheck env 5 ''Managed: no auth''
     (judge_get env (hd_BaseURL h @ ''/version'') [] (gated ''expected 401/302, got 200 (no auth was accepted)''))"

definition check06StandaloneEquivalence :: "('w, 'z) conf_env_scheme \<Rightarrow> handle \<Rightarrow> 'w \<Rightarrow> check_result \<times> 'w" where
  "check06StandaloneEquivalence env h = timedCheck env 6 ''Standalone: vanilla equivalence''
     (judge_get env (hd_BaseURL h @ ''/version'') []
        (\<lambda>st b. if st \<noteq> 200 then (Fail, ''expected open access in standalone, got '' @ int_str st) else pass))"

definition check10VersionManaged :: "('w, 'z) conf_env_scheme \<Rightarrow> handle \<Rightarrow> 'w \<Rightarrow> check_result \<times> 'w" where
  "check10VersionManaged env h = timedCheck env 10 ''GET /version (managed, no auth)''
     (judge_get env (hd_BaseURL h @ ''/version'') [] (gated ''expected 401, got 200 (version is ungated)''))"

definition check12CapabilitiesManaged :: "('w, 'z) conf_env_scheme \<Rightarrow> handle \<Rightarrow> 'w \<Rightarrow> check_result \<times> 'w" where
  "check12CapabilitiesManaged env h = timedCheck env 12 ''GET /capabilities (managed, no auth)''
     (judge_get env (hd_BaseURL h @ ''/capabilities'') [] (gated ''expected 401, got 200 (capabilities is ungated)''))"

section \<open>Probes and documents\<close>

definition check07Health :: "('w, 'z) conf_env_scheme \<Rightarrow> handle \<Rightarrow> 'w \<Rightarrow> check_result \<times> 'w" where
  "check07Health env h = timedCheck env 7 ''GET /health''
     (judge_get env (hd_BaseURL h @ ''/health'') []
        (\<lambda>st b. if st \<noteq> 200 then expected_200 st
                else in_object env b (\<lambda>m. if field m ''status'' \<noteq> AStr ''ok''
                  then (Fail, ''expected status=ok, got '' @ cv_show env (field m ''status'')) else pass)))"

definition readyz_member :: "string \<times> jany \<Rightarrow> string option" where
  "readyz_member nv =
     (case as_object (snd nv) of
        None \<Rightarrow> Some (''check '' @ go_quote (fst nv) @ '' is not an object'')
      | Some c \<Rightarrow> (if has_field c ''ok'' then None
                   else Some (''check '' @ go_quote (fst nv) @ '' missing required field: ok'')))"

definition check08Readyz :: "('w, 'z) conf_env_scheme \<Rightarrow> handle \<Rightarrow> 'w \<Rightarrow> check_result \<times> 'w" where
  "check08Readyz env h = timedCheck env 8 ''GET /readyz''
     (judge_get env (hd_BaseURL h @ ''/readyz'') []
        (\<lambda>st b. if st \<noteq> 200 then expected_200 st
                else in_object env b (\<lambda>m.
                  if \<not> has_field m ''ready'' then (Fail, ''missing required field: ready'')
                  else case as_object (field m ''checks'') of
                    None \<Rightarrow> (Fail, ''missing or invalid field: checks'')
                  | Some checks \<Rightarrow> first_complaint readyz_member checks)))"

definition validateVersionBody :: "('w, 'z) conf_env_scheme \<Rightarrow> string \<Rightarrow> check_status \<times> string" where
  "validateVersionBody env body = in_object env body (\<lambda>m. missing_field m [''contract_version'', ''runtime''])"

definition check09VersionStandalone :: "('w, 'z) conf_env_scheme \<Rightarrow> handle \<Rightarrow> 'w \<Rightarrow> check_result \<times> 'w" where
  "check09VersionStandalone env h = timedCheck env 9 ''GET /version (standalone)''
     (judge_get env (hd_BaseURL h @ ''/version'') []
        (\<lambda>st b. if st \<noteq> 200 then expected_200 st else validateVersionBody env b))"

definition check11CapabilitiesStandalone :: "('w, 'z) conf_env_scheme \<Rightarrow> handle \<Rightarrow> 'w \<Rightarrow> check_result \<times> 'w" where
  "check11CapabilitiesStandalone env h = timedCheck env 11 ''GET /capabilities (standalone)''
     (judge_get env (hd_BaseURL h @ ''/capabilities'') []
        (\<lambda>st b. if st \<noteq> 200 then expected_200 st
                else in_object env b (\<lambda>m.
                  if \<not> has_field m ''contract_version'' then (Fail, ''missing required field: contract_version'')
                  else case as_object (field m ''capabilities'') of
                    None \<Rightarrow> (Fail, ''missing or invalid field: capabilities'')
                  | Some caps \<Rightarrow> if caps = [] then (Fail, ''capabilities map is empty'') else pass)))"

definition check15StandaloneBoot :: "('w, 'z) conf_env_scheme \<Rightarrow> handle \<Rightarrow> 'w \<Rightarrow> check_result \<times> 'w" where
  "check15StandaloneBoot env h = timedCheck env 15 ''Standalone boot''
     (judge_get env (hd_BaseURL h @ ''/health'') [] (\<lambda>st b. if st \<noteq> 200 then expected_200 st else pass))"

definition returned_status :: "string \<Rightarrow> int \<Rightarrow> check_status \<times> string" where
  "returned_status what st = (Fail, what @ '' returned_status '' @ int_str st)"

definition version_fits :: "string \<Rightarrow> string \<Rightarrow> (string \<times> jany) list \<Rightarrow> check_status \<times> string" where
  "version_fits absent wanted m =
     (case as_string (field m ''contract_version'') of
        None \<Rightarrow> (Fail, absent)
      | Some cv \<Rightarrow>
          (if cv = '''' then (Fail, absent)
           else if \<not> HasPrefix cv contractVersionPrefix
           then (Fail, ''expected contract_version '' @ wanted @ '', got '' @ go_quote cv) else pass))"

definition check16ContractVersion :: "('w, 'z) conf_env_scheme \<Rightarrow> handle \<Rightarrow> 'w \<Rightarrow> check_result \<times> 'w" where
  "check16ContractVersion env h = timedCheck env 16 ''Contract version''
     (judge_get env (hd_BaseURL h @ ''/version'') (auth_headers h)
        (\<lambda>st b. if st \<noteq> 200 then returned_status ''GET /version'' st
                else in_object env b (version_fits ''missing contract_version field'' (contractVersionPrefix @ ''x''))))"

section \<open>Schemas\<close>

definition json_document ::
  "('w, 'z) conf_env_scheme \<Rightarrow> string \<Rightarrow> ((string \<times> jany) list \<Rightarrow> check_status \<times> string)
     \<Rightarrow> int \<Rightarrow> string \<Rightarrow> string \<Rightarrow> check_status \<times> string" where
  "json_document env what judge st b ct =
     (if st \<noteq> 200 then returned_status what st
      else if \<not> HasPrefix ct ''application/json''
      then (Fail, ''expected Content-Type application/json, got '' @ go_quote ct)
      else in_object env b judge)"

fun string_fields :: "(string \<times> jany) list \<Rightarrow> string list \<Rightarrow> check_status \<times> string" where
  "string_fields m [] = pass"
| "string_fields m (k # ks) =
     (if \<not> has_field m k then (Fail, ''missing required field: '' @ k)
      else case as_string (field m k) of
        None \<Rightarrow> (Fail, ''field '' @ k @ '' must be a string, got '' @ go_type (field m k))
      | Some _ \<Rightarrow> string_fields m ks)"

definition version_schema :: "(string \<times> jany) list \<Rightarrow> check_status \<times> string" where
  "version_schema m =
     and_then (string_fields m [''contract_version'', ''image_digest'', ''runtime'', ''runtime_version'', ''overlay_version''])
       (case as_string (field m ''contract_version'') of
          None \<Rightarrow> pass
        | Some cv \<Rightarrow> if \<not> HasPrefix cv contractVersionPrefix
                    then (Fail, ''expected contract_version 2.x, got '' @ go_quote cv) else pass)"

definition check17VersionV2Schema :: "('w, 'z) conf_env_scheme \<Rightarrow> handle \<Rightarrow> 'w \<Rightarrow> check_result \<times> 'w" where
  "check17VersionV2Schema env h = timedCheck env 17 ''Version v2.0 schema''
     (judge_full env (hd_BaseURL h @ ''/version'') (auth_headers h) (json_document env ''GET /version'' version_schema))"

definition capability_member :: "string \<times> jany \<Rightarrow> string option" where
  "capability_member nv =
     (if is_bool (snd nv) then None
      else Some (''capability '' @ go_quote (fst nv) @ '' must be a boolean, got '' @ go_type (snd nv)))"

definition capabilities_schema :: "(string \<times> jany) list \<Rightarrow> check_status \<times> string" where
  "capabilities_schema m =
     and_then (version_fits ''missing or empty contract_version'' ''2.x'' m)
       (case as_object (field m ''capabilities'') of
          None \<Rightarrow> (Fail, ''missing or invalid capabilities object'')
        | Some caps \<Rightarrow> first_complaint capability_member caps)"

definition check18CapabilitiesV2Schema :: "('w, 'z) conf_env_scheme \<Rightarrow> handle \<Rightarrow> 'w \<Rightarrow> check_result \<times> 'w" where
  "check18CapabilitiesV2Schema env h = timedCheck env 18 ''Capabilities v2.0 schema''
     (judge_full env (hd_BaseURL h @ ''/capabilities'') (auth_headers h) (json_document env ''GET /capabilities'' capabilities_schema))"

definition check19HealthV2ContentType :: "('w, 'z) conf_env_scheme \<Rightarrow> handle \<Rightarrow> 'w \<Rightarrow> check_result \<times> 'w" where
  "check19HealthV2ContentType env h = timedCheck env 19 ''Health v2.0 content-type''
     (judge_full env (hd_BaseURL h @ ''/health'') (auth_headers h)
        (\<lambda>st b ct. if \<not> HasPrefix ct ''application/json''
                   then (Fail, ''expected Content-Type application/json, got '' @ go_quote ct) else pass))"

definition readyz_v2_member :: "string \<times> jany \<Rightarrow> string option" where
  "readyz_v2_member nv =
     (case as_object (snd nv) of
        None \<Rightarrow> Some (''check '' @ go_quote (fst nv) @ '' must be an object'')
      | Some c \<Rightarrow>
          (if \<not> has_field c ''ok'' then Some (''check '' @ go_quote (fst nv) @ '' missing required field: ok'')
           else if \<not> is_bool (field c ''ok'')
           then Some (''check '' @ go_quote (fst nv) @ '' ok must be a boolean, got '' @ go_type (field c ''ok''))
           else None))"

definition readyz_schema :: "(string \<times> jany) list \<Rightarrow> check_status \<times> string" where
  "readyz_schema m =
     (if \<not> has_field m ''ready'' then (Fail, ''missing required field: ready'')
      else if \<not> is_bool (field m ''ready'') then (Fail, ''ready must be a boolean, got '' @ go_type (field m ''ready''))
      else case as_object (field m ''checks'') of
        None \<Rightarrow> (Fail, ''missing or invalid field: checks'')
      | Some checks \<Rightarrow> first_complaint readyz_v2_member checks)"

definition check20ReadyzV2Schema :: "('w, 'z) conf_env_scheme \<Rightarrow> handle \<Rightarrow> 'w \<Rightarrow> check_result \<times> 'w" where
  "check20ReadyzV2Schema env h = timedCheck env 20 ''Readyz v2.0 schema''
     (judge_full env (hd_BaseURL h @ ''/readyz'') (auth_headers h) (json_document env ''GET /readyz'' readyz_schema))"

section \<open>Event streams\<close>

record sse_event =
  se_event :: string
  se_data :: string

definition sse_push :: "sse_event \<Rightarrow> sse_event list \<Rightarrow> sse_event list" where
  "sse_push cur evs = evs @ [if se_event cur = '''' then cur\<lparr>se_event := ''message''\<rparr> else cur]"

definition sse_blank :: sse_event where "sse_blank = \<lparr>se_event = '''', se_data = ''''\<rparr>"

fun sse_line :: "string \<Rightarrow> sse_event list \<times> sse_event \<Rightarrow> sse_event list \<times> sse_event" where
  "sse_line li (evs, cur) =
     (if HasPrefix li ''event: '' then (evs, cur\<lparr>se_event := drop (length ''event: '') li\<rparr>)
      else if HasPrefix li ''data: '' then (evs, cur\<lparr>se_data := drop (length ''data: '') li\<rparr>)
      else if li = '''' \<and> (se_event cur \<noteq> '''' \<or> se_data cur \<noteq> '''') then (sse_push cur evs, sse_blank)
      else (evs, cur))"

definition parseSSEEvents :: "string \<Rightarrow> sse_event list" where
  "parseSSEEvents raw =
     (case fold sse_line (split_on (CHR 0x0A) raw) ([], sse_blank) of
        (evs, cur) \<Rightarrow> if se_event cur \<noteq> '''' \<or> se_data cur \<noteq> '''' then sse_push cur evs else evs)"

definition chat_body :: string where
  "chat_body =
     (let q = go_quote in
      ''{'' @ q ''model'' @ '':'' @ q ''mock'' @ '','' @ q ''messages'' @ '':[{'' @ q ''role'' @ '':'' @ q ''user'' @ '','' @
      q ''content'' @ '':'' @ q ''test'' @ ''}],'' @ q ''stream'' @ '':true}'')"

definition chat_check :: "('w, 'z) conf_env_scheme \<Rightarrow> handle \<Rightarrow> (int \<Rightarrow> string \<Rightarrow> check_status \<times> string) \<Rightarrow> 'w check" where
  "chat_check env h judge w =
     (if hd_AuthSecret h = '''' then ((Skip, ''requires managed-mode SUT with mock LLM''), w)
      else case httpPost env (hd_BaseURL h @ ''/api/chat/completions'') chat_body [(''X-Fox-Auth'', hd_AuthSecret h)] w of
        (Inl e, w1) \<Rightarrow> ((Skip, ''chat request failed: '' @ error_text e), w1)
      | (Inr (st, b), w1) \<Rightarrow> (judge st b, w1))"

definition contract_events :: "int \<Rightarrow> string \<Rightarrow> check_status \<times> string" where
  "contract_events st b =
     (if st \<noteq> 200 then (Skip, ''chat returned_status '' @ int_str st @ ''; SSE contract events deferred to instance contract v0.2'')
      else let seen = map se_event (parseSSEEvents b); missing = filter (\<lambda>n. n \<notin> set seen) [''token'', ''done''] in
        if missing \<noteq> [] then (Fail, ''missing SSE events: '' @ strings_join missing '', '') else pass)"

definition check13SSEContractEvents :: "('w, 'z) conf_env_scheme \<Rightarrow> handle \<Rightarrow> 'w \<Rightarrow> check_result \<times> 'w" where
  "check13SSEContractEvents env h = timedCheck env 13 ''SSE: contract events'' (chat_check env h contract_events)"

definition app_error :: "int \<Rightarrow> string \<Rightarrow> check_status \<times> string" where
  "app_error st b =
     (if st \<ge> 400 then (Pass, ''provider error surfaced as HTTP '' @ int_str st)
      else if st \<noteq> 200 then (Skip, ''chat returned_status '' @ int_str st @ '' (mock LLM may not be wired)'')
      else if \<exists>e \<in> set (parseSSEEvents b). se_event e = ''apperror'' \<or> se_event e = ''error'' then pass
      else (Skip, ''apperror event not observed (mock LLM error may not propagate)''))"

definition check14SSEAppError :: "('w, 'z) conf_env_scheme \<Rightarrow> handle \<Rightarrow> 'w \<Rightarrow> check_result \<times> 'w" where
  "check14SSEAppError env h = timedCheck env 14 ''SSE: apperror on provider error'' (chat_check env h app_error)"

section \<open>Security\<close>

definition security_headers :: "('w, 'z) conf_env_scheme \<Rightarrow> handle \<Rightarrow> 'w check" where
  "security_headers env h w =
     (case do_request env \<lparr>cq_Method = ''GET'', cq_URL = hd_BaseURL h @ ''/health'', cq_Headers = auth_headers h, cq_Body = '''',
             cq_Follow = False\<rparr> w of
        (Inl e, w1) \<Rightarrow> ((Fail, error_text e), w1)
      | (Inr r, w1) \<Rightarrow>
          (if response_header r ''X-Content-Type-Options'' \<noteq> ''nosniff''
           then (Fail, ''missing or wrong headers: X-Content-Type-Options'') else pass, w1))"

definition check21SecurityHeaders :: "('w, 'z) conf_env_scheme \<Rightarrow> handle \<Rightarrow> 'w \<Rightarrow> check_result \<times> 'w" where
  "check21SecurityHeaders env h = timedCheck env 21 ''Security headers present'' (security_headers env h)"

fun traversal :: "('w, 'z) conf_env_scheme \<Rightarrow> handle \<Rightarrow> string list \<Rightarrow> 'w check" where
  "traversal env h [] w = (pass, w)"
| "traversal env h (p # ps) w =
     (case httpGet env (hd_BaseURL h @ p) (auth_headers h) w of
        (Inl e, w1) \<Rightarrow> traversal env h ps w1
      | (Inr (st, b), w1) \<Rightarrow>
          (if st = 200 \<and> length b > 0 \<and> Contains b ''root:'' then ((Fail, ''path traversal succeeded: '' @ p), w1)
           else traversal env h ps w1))"

definition check22PathTraversal :: "('w, 'z) conf_env_scheme \<Rightarrow> handle \<Rightarrow> 'w \<Rightarrow> check_result \<times> 'w" where
  "check22PathTraversal env h = timedCheck env 22 ''Path traversal rejected''
     (traversal env h [''/../../etc/passwd'', ''/%2e%2e/%2e%2e/etc/passwd''])"

definition same_rejection :: "('w, 'z) conf_env_scheme \<Rightarrow> handle \<Rightarrow> 'w check" where
  "same_rejection env h w =
     (if hd_AuthSecret h = '''' then ((Skip, ''requires managed-mode SUT''), w)
      else case httpGet env (hd_BaseURL h @ ''/version'') [(''X-Fox-Auth'', ''wrong-short'')] w of
        (Inl e, w1) \<Rightarrow> ((Fail, error_text e), w1)
      | (Inr (st1, b1), w1) \<Rightarrow>
          judge_get env (hd_BaseURL h @ ''/version'')
            [(''X-Fox-Auth'', ''wrong-with-a-very-long-value-that-differs-in-length-from-the-actual-secret'')]
            (\<lambda>st2 b2. if st1 \<noteq> st2 then (Fail, ''different status codes: short='' @ int_str st1 @ '' long='' @ int_str st2) else pass) w1)"

definition check23AuthTimingConsistency :: "('w, 'z) conf_env_scheme \<Rightarrow> handle \<Rightarrow> 'w \<Rightarrow> check_result \<times> 'w" where
  "check23AuthTimingConsistency env h = timedCheck env 23 ''Auth rejects don't leak timing'' (same_rejection env h)"

fun methods_refused :: "('w, 'z) conf_env_scheme \<Rightarrow> handle \<Rightarrow> string list \<Rightarrow> 'w check" where
  "methods_refused env h [] w = (pass, w)"
| "methods_refused env h (m # ms) w =
     (case do_request env \<lparr>cq_Method = m, cq_URL = hd_BaseURL h @ ''/health'', cq_Headers = [], cq_Body = '''', cq_Follow = False\<rparr> w of
        (Inl e, w1) \<Rightarrow> methods_refused env h ms w1
      | (Inr r, w1) \<Rightarrow>
          (if cr_Status r = 200 then ((Fail, m @ '' /health returned_status 200 (expected 405 or non-200)''), w1)
           else methods_refused env h ms w1))"

definition check24MethodNotAllowed :: "('w, 'z) conf_env_scheme \<Rightarrow> handle \<Rightarrow> 'w \<Rightarrow> check_result \<times> 'w" where
  "check24MethodNotAllowed env h = timedCheck env 24 ''Unsupported HTTP methods rejected''
     (methods_refused env h [''DELETE'', ''PUT'', ''PATCH''])"

end
