(* ===== verification/Conf_Sut.thy ===== *)
theory Conf_Sut
  imports Conf_Checks Docker_Plugin Panel_Skillsets File_Connector
begin

text \<open>
  \<^verbatim>\<open>conformance/runtime/sut\<close>: the container under test, from its data directory to its removal. The world
  holds the file system (\<open>sd_fs\<close>, which containers may write to as well) and the Docker daemon; what the
  runner draws from elsewhere (the process id, the name \<^verbatim>\<open>os.MkdirTemp\<close> finds free, which channel a
  \<^verbatim>\<open>select\<close> takes) are functions of the environment. \<open>Start\<close> threads the package's name counter.
\<close>

datatype sut_mode = Standalone | Managed | BootInvariant

record sut_config =
  sc_Image :: string
  sc_Mode :: sut_mode
  sc_AuthSecret :: string
  sc_Password :: string
  sc_ExtraEnv :: "(string \<times> string) list"

datatype health_event = Tick | Deadline | Cancelled go_error
datatype exit_event = Exited int | WaitFailed go_error | WaitExpired

record 'w sut_env = "'w conf_env" +
  sd_docker :: "'w docker_client"
  sd_Ports :: "string \<Rightarrow> 'w \<Rightarrow> (string \<times> port_binding list) list result \<times> 'w"
  sd_StdCopy :: "string \<Rightarrow> (string \<times> string) result"
  sd_Wait :: "string \<Rightarrow> int \<Rightarrow> 'w \<Rightarrow> exit_event \<times> 'w"
  sd_select :: "'w \<Rightarrow> health_event \<times> 'w"
  sd_pid :: int
  sd_TempName :: "'w \<Rightarrow> string"
  sd_fs :: "'w \<Rightarrow> fs"
  sd_set_fs :: "fs \<Rightarrow> 'w \<Rightarrow> 'w"

definition on_fs :: "('w, 'z) sut_env_scheme \<Rightarrow> (fs \<Rightarrow> 'a \<times> fs) \<Rightarrow> 'w \<Rightarrow> 'a \<times> 'w" where
  "on_fs env f w = (case f (sd_fs env w) of (x, s) \<Rightarrow> (x, sd_set_fs env s w))"

section \<open>Files\<close>

text \<open>\<^verbatim>\<open>os.MkdirTemp\<close> tries names until one is free; the modes of directories are not recorded.\<close>

definition os_MkdirTemp :: "string \<Rightarrow> fs \<Rightarrow> unit result \<times> fs" where
  "os_MkdirTemp d s =
     (case fs_fault s of
        Some (e, _) \<Rightarrow> (Inl e, fs_tick s)
      | None \<Rightarrow>
          (if dir_exists s (path_Dir d) then (Inr (), (fs_tick s)\<lparr>fs_dirs := d # fs_dirs s\<rparr>)
           else (Inl ErrNotExist, fs_tick s)))"

definition os_Chmod :: "string \<Rightarrow> fs \<Rightarrow> unit result \<times> fs" where
  "os_Chmod p s =
     (case fs_fault s of
        Some (e, _) \<Rightarrow> (Inl e, fs_tick s)
      | None \<Rightarrow> (if dir_exists s p \<or> file_content s p \<noteq> None then Inr () else Inl ErrNotExist, fs_tick s))"

definition sut_config_dir :: "string \<Rightarrow> string" where
  "sut_config_dir dataDir = path_Join [dataDir, ''config'']"

definition discard_dir :: "string \<Rightarrow> string \<Rightarrow> go_error \<Rightarrow> fs \<Rightarrow> string result \<times> fs" where
  "discard_dir dataDir msg e s = (Inl (Wrap msg e), snd (os_RemoveAll dataDir s))"

definition sut_data_dir :: "string \<Rightarrow> fs \<Rightarrow> string result \<times> fs" where
  "sut_data_dir dataDir s =
     (case os_MkdirTemp dataDir s of
        (Inl e, s1) \<Rightarrow> (Inl (Wrap ''sut: create data dir'' e), s1)
      | (Inr _, s1) \<Rightarrow>
          (case os_Chmod dataDir s1 of
             (Inl e, s2) \<Rightarrow> discard_dir dataDir ''sut: chmod data dir'' e s2
           | (Inr _, s2) \<Rightarrow>
               (case os_MkdirAll (sut_config_dir dataDir) s2 of
                  (Inl e, s3) \<Rightarrow> discard_dir dataDir ''sut: create config dir'' e s3
                | (Inr _, s3) \<Rightarrow>
                    (case os_Chmod (sut_config_dir dataDir) s3 of
                       (Inl e, s4) \<Rightarrow> discard_dir dataDir ''sut: chmod config dir'' e s4
                     | (Inr _, s4) \<Rightarrow> (Inr dataDir, s4)))))"

definition markOnboardingComplete :: "string \<Rightarrow> fs \<Rightarrow> unit result \<times> fs" where
  "markOnboardingComplete dataDir s =
     (let dir = sut_config_dir dataDir; path = path_Join [dir, ''onboarding.json''] in
      case os_MkdirAll dir s of
        (Inl e, s1) \<Rightarrow> (Inl e, s1)
      | (Inr _, s1) \<Rightarrow>
          os_WriteFile path (''{'' @ go_quote ''completed'' @ '':true}'') 0x1B6 (snd (os_Remove path s1)))"

definition last_bytes :: "nat \<Rightarrow> string \<Rightarrow> string" where
  "last_bytes n s = (if length s > n then drop (length s - n) s else s)"

definition is_process_log :: "string \<times> bool \<Rightarrow> bool" where
  "is_process_log e \<longleftrightarrow> \<not> snd e \<and> (path_Ext (fst e) = ''.err'' \<or> path_Ext (fst e) = ''.log'')"

definition log_section :: "string \<Rightarrow> string \<Rightarrow> string" where
  "log_section name content =
     ''--- '' @ name @ '' (last '' @ nat_str (length content) @ '' bytes) ---'' @ line_end @ content @ line_end"

fun process_logs :: "(string \<Rightarrow> string \<Rightarrow> string) \<Rightarrow> string \<Rightarrow> (string \<times> bool) list \<Rightarrow> fs \<Rightarrow> string \<times> fs" where
  "process_logs fmt logDir [] s = ('''', s)"
| "process_logs fmt logDir (e # es) s =
     (if \<not> is_process_log e then process_logs fmt logDir es s
      else case os_ReadFile (path_Join [logDir, fst e]) s of
        (Inl _, s1) \<Rightarrow> process_logs fmt logDir es s1
      | (Inr d, s1) \<Rightarrow>
          (if d = '''' then process_logs fmt logDir es s1
           else case process_logs fmt logDir es s1 of
             (rest, s2) \<Rightarrow> (fmt (fst e) (last_bytes 2000 d) @ rest, s2)))"

definition collectProcessLogs :: "string \<Rightarrow> fs \<Rightarrow> string \<times> fs" where
  "collectProcessLogs dataDir s =
     (let logDir = path_Join [dataDir, ''logs''] in
      case os_ReadDir logDir s of
        (Inl _, s1) \<Rightarrow> ('''', s1)
      | (Inr entries, s1) \<Rightarrow> process_logs log_section logDir entries s1)"

section \<open>The handle\<close>

definition sutStopTimeout :: int where "sutStopTimeout = 10"

definition handle_Cleanup :: "('w, 'z) sut_env_scheme \<Rightarrow> handle \<Rightarrow> 'w \<Rightarrow> 'w" where
  "handle_Cleanup env h w =
     (let w1 = snd (dc_ContainerStop (sd_docker env) (hd_ContainerID h) sutStopTimeout w);
          w2 = snd (dc_ContainerRemove (sd_docker env) (hd_ContainerID h) w1)
      in if hd_dataDir h \<noteq> '''' then snd (on_fs env (os_RemoveAll (hd_dataDir h)) w2) else w2)"

definition handle_Logs :: "('w, 'z) sut_env_scheme \<Rightarrow> handle \<Rightarrow> 'w \<Rightarrow> string result \<times> 'w" where
  "handle_Logs env h w =
     (case dc_ContainerLogs (sd_docker env) (hd_ContainerID h)
             \<lparr>lgo_ShowStdout = True, lgo_ShowStderr = True, lgo_Follow = False, lgo_Tail = ''''\<rparr> w of
        (Inl e, w1) \<Rightarrow> (Inl (Wrap (''sut: logs '' @ hd_Name h) e), w1)
      | (Inr raw, w1) \<Rightarrow>
          (case sd_StdCopy env raw of
             Inl e \<Rightarrow> Inl (Wrap (''sut: demux logs '' @ hd_Name h) e)
           | Inr (out, err) \<Rightarrow> Inr (out @ err), w1))"

definition handle_WaitExit :: "('w, 'z) sut_env_scheme \<Rightarrow> handle \<Rightarrow> int \<Rightarrow> 'w \<Rightarrow> int result \<times> 'w" where
  "handle_WaitExit env h seconds w =
     (case sd_Wait env (hd_ContainerID h) seconds w of
        (Exited code, w1) \<Rightarrow> (Inr code, w1)
      | (WaitFailed e, w1) \<Rightarrow> (Inl (Wrap (''sut: wait exit '' @ hd_Name h) e), w1)
      | (WaitExpired, w1) \<Rightarrow> (Inl (Errorf (''sut: container did not exit within '' @ ms_str (seconds * 1000))), w1))"

section \<open>Starting\<close>

definition sut_buildEnv :: "sut_config \<Rightarrow> string list" where
  "sut_buildEnv cfg =
     optional_env ''FOX_PLANE_AUTH_SECRET'' (sc_AuthSecret cfg) @
     optional_env ''HERMES_WEBUI_PASSWORD'' (sc_Password cfg) @
     map (\<lambda>(k, v). env_entry k v) (sc_ExtraEnv cfg)"

definition sut_container_config :: "sut_config \<Rightarrow> container_config" where
  "sut_container_config cfg =
     \<lparr>cc_Image = sc_Image cfg, cc_Env = sut_buildEnv cfg, cc_ExposedPorts = [internalPort], cc_Labels = []\<rparr>"

definition sut_host_config :: "string \<Rightarrow> host_config" where
  "sut_host_config dataDir =
     \<lparr>hc_PortBindings = [(internalPort, [\<lparr>pb_HostIP = ''127.0.0.1'', pb_HostPort = ''0''\<rparr>])],
      hc_Binds = [dataDir @ '':/data''], hc_CapAdd = [''NET_ADMIN''],
      hc_ExtraHosts = [''host.docker.internal:host-gateway''], hc_Devices = [], hc_Sysctls = [], hc_RestartPolicy = ''''\<rparr>"

definition strconv_Atoi :: "string \<Rightarrow> int result" where
  "strconv_Atoi s =
     (let neg = (s \<noteq> [] \<and> hd s = CHR ''-'');
          ds = (if s \<noteq> [] \<and> (hd s = CHR ''-'' \<or> hd s = CHR ''+'') then tl s else s);
          v = (if neg then - dec_val ds else dec_val ds);
          err = (\<lambda>m. Inl (Wrap (''strconv.Atoi: parsing '' @ go_quote s) (Sentinel m)))
      in if ds = [] \<or> \<not> list_all is_digit_char ds then err ''invalid syntax''
         else if - (2 ^ 63) \<le> v \<and> v < 2 ^ 63 then Inr v else err ''value out of range'')"

definition resolvePort :: "('w, 'z) sut_env_scheme \<Rightarrow> string \<Rightarrow> 'w \<Rightarrow> int result \<times> 'w" where
  "resolvePort env cid w =
     (case sd_Ports env cid w of
        (Inl e, w1) \<Rightarrow> (Inl e, w1)
      | (Inr ports, w1) \<Rightarrow>
          (case map_of ports internalPort of
             Some (b # _) \<Rightarrow>
               (case strconv_Atoi (pb_HostPort b) of
                  Inl e \<Rightarrow> Inl (Wrap (''parse host port '' @ go_quote (pb_HostPort b)) e)
                | Inr port \<Rightarrow> Inr port)
           | _ \<Rightarrow> Inl (Errorf (''no port binding for '' @ internalPort)), w1))"

definition sut_url :: "int \<Rightarrow> string" where
  "sut_url port = ''http://127.0.0.1:'' @ int_str port"

definition sut_probe :: "('w, 'z) sut_env_scheme \<Rightarrow> int \<Rightarrow> string \<Rightarrow> 'w \<Rightarrow> bool \<times> 'w" where
  "sut_probe env port path w =
     (case do_request env \<lparr>cq_Method = ''GET'', cq_URL = sut_url port @ path, cq_Headers = [], cq_Body = '''', cq_Follow = True\<rparr> w of
        (Inl _, w1) \<Rightarrow> (False, w1)
      | (Inr r, w1) \<Rightarrow> (cr_Status r = 200, w1))"

text \<open>A tick takes two seconds and the deadline two minutes, so the sixty-first tick never comes.\<close>

definition sut_ticks :: nat where "sut_ticks = 60"

definition sut_timed_out :: go_error where
  "sut_timed_out = Errorf (''health check timed out after '' @ ms_str 120000)"

fun sut_waitHealthy :: "('w, 'z) sut_env_scheme \<Rightarrow> int \<Rightarrow> nat \<Rightarrow> 'w \<Rightarrow> unit result \<times> 'w" where
  "sut_waitHealthy env port n w =
     (case sd_select env w of
        (Deadline, w1) \<Rightarrow> (Inl sut_timed_out, w1)
      | (Cancelled e, w1) \<Rightarrow> (Inl e, w1)
      | (Tick, w1) \<Rightarrow>
          (case n of
             0 \<Rightarrow> (Inl sut_timed_out, w1)
           | Suc m \<Rightarrow> (case sut_probe env port ''/health'' w1 of (ok, w2) \<Rightarrow> if ok then (Inr (), w2) else sut_waitHealthy env port m w2)))"

declare sut_waitHealthy.simps [simp del]

definition unhealthy_report :: "string \<Rightarrow> go_error \<Rightarrow> string \<Rightarrow> string \<Rightarrow> go_error" where
  "unhealthy_report name e logs procLogs =
     (let tail = last_bytes 2000 logs;
          diag = (if logs \<noteq> '''' then line_end @ ''--- container logs (last '' @ nat_str (length tail) @ '' bytes) ---'' @ line_end @ tail
                  else '''') @ (if procLogs \<noteq> '''' then line_end @ procLogs else '''')
      in if diag \<noteq> '''' then Errorf (''sut: '' @ name @ '' not healthy: '' @ error_text e @ diag)
         else Wrap (''sut: '' @ name @ '' not healthy'') e)"

text \<open>The part of \<^verbatim>\<open>Start\<close> after a container is known to listen.\<close>

definition sut_await :: "('w, 'z) sut_env_scheme \<Rightarrow> sut_config \<Rightarrow> handle \<Rightarrow> 'w \<Rightarrow> handle result \<times> 'w" where
  "sut_await env cfg h w =
     (if sc_Mode cfg = BootInvariant then (Inr h, w)
      else case sut_waitHealthy env (hd_Port h) sut_ticks w of
        (Inl e, w1) \<Rightarrow>
          (case handle_Logs env h w1 of
             (lr, w2) \<Rightarrow>
               (case on_fs env (collectProcessLogs (hd_dataDir h)) w2 of
                  (procLogs, w3) \<Rightarrow>
                    (Inl (unhealthy_report (hd_Name h) e (case lr of Inr logs \<Rightarrow> logs | Inl _ \<Rightarrow> '''') procLogs),
                     handle_Cleanup env h w3)))
      | (Inr _, w1) \<Rightarrow>
          (case on_fs env (markOnboardingComplete (hd_dataDir h)) w1 of
             (Inl e, w2) \<Rightarrow>
               (Inl (Wrap (''sut: '' @ hd_Name h @ '' write onboarding marker'') e), handle_Cleanup env h w2)
           | (Inr _, w2) \<Rightarrow> (Inr h, w2)))"

definition sut_boot :: "('w, 'z) sut_env_scheme \<Rightarrow> sut_config \<Rightarrow> handle \<Rightarrow> 'w \<Rightarrow> handle result \<times> 'w" where
  "sut_boot env cfg h w =
     (case dc_ContainerStart (sd_docker env) (hd_ContainerID h) w of
        (Inl e, w1) \<Rightarrow> (Inl (Wrap (''sut: start container '' @ hd_Name h) e), handle_Cleanup env h w1)
      | (Inr _, w1) \<Rightarrow>
          (case resolvePort env (hd_ContainerID h) w1 of
             (Inl e, w2) \<Rightarrow> (Inl (Wrap (''sut: resolve port '' @ hd_Name h) e), handle_Cleanup env h w2)
           | (Inr port, w2) \<Rightarrow> sut_await env cfg (h\<lparr>hd_Port := port, hd_BaseURL := sut_url port\<rparr>) w2))"

definition sut_create :: "('w, 'z) sut_env_scheme \<Rightarrow> sut_config \<Rightarrow> string \<Rightarrow> string \<Rightarrow> 'w \<Rightarrow> handle result \<times> 'w" where
  "sut_create env cfg name dataDir w =
     (case dc_ContainerCreate (sd_docker env) (sut_container_config cfg) (sut_host_config dataDir) name w of
        (Inl e, w1) \<Rightarrow>
          (Inl (Wrap (''sut: create container '' @ name) e), snd (on_fs env (os_RemoveAll dataDir) w1))
      | (Inr cid, w1) \<Rightarrow>
          sut_boot env cfg
            \<lparr>hd_ContainerID = cid, hd_Name = name, hd_Port = 0, hd_BaseURL = '''', hd_AuthSecret = sc_AuthSecret cfg,
             hd_Password = sc_Password cfg, hd_dataDir = dataDir\<rparr> w1)"

definition sut_Start :: "('w, 'z) sut_env_scheme \<Rightarrow> sut_config \<Rightarrow> int \<times> 'w \<Rightarrow> handle result \<times> int \<times> 'w" where
  "sut_Start env cfg nw =
     (case nw of (n, w) \<Rightarrow>
        (let sq = n + 1; name = ''fox-conf-'' @ int_str (sd_pid env) @ ''-'' @ int_str sq in
         case on_fs env (sut_data_dir (sd_TempName env w)) w of
           (Inl e, w1) \<Rightarrow> (Inl e, sq, w1)
         | (Inr dataDir, w1) \<Rightarrow> (case sut_create env cfg name dataDir w1 of (r, w2) \<Rightarrow> (r, sq, w2))))"

end
