(* ===== verification/Conf_Suite.thy ===== *)
theory Conf_Suite
  imports Conf_Sut
begin

text \<open>
  The runtime suite, \<^verbatim>\<open>conformance/runtime/suite.go\<close>, with its check of the boot invariant and the mock LLM
  (\<^verbatim>\<open>mock_llm/server.go\<close>) its stream checks are pointed at. The listener of the mock server and its flag
  belong to the world.
\<close>

section \<open>The mock LLM\<close>

record mock_response =
  mr_Status :: int
  mr_Headers :: "(string \<times> string) list"
  mr_Writes :: "string list"

definition jq :: "string \<Rightarrow> string" where "jq s = go_quote s"

definition chunk_head :: string where
  "chunk_head =
     ''data: {'' @ jq ''id'' @ '':'' @ jq ''mock'' @ '','' @ jq ''object'' @ '':'' @ jq ''chat.completion.chunk'' @ '','' @
     jq ''choices'' @ '':[{'' @ jq ''index'' @ '':0,'' @ jq ''delta'' @ '':{''"

definition token_chunk :: "string \<Rightarrow> string" where
  "token_chunk tok = chunk_head @ jq ''content'' @ '':'' @ go_quote tok @ ''}}]}'' @ line_end @ line_end"

definition stop_chunk :: string where
  "stop_chunk =
     chunk_head @ ''},'' @ jq ''finish_reason'' @ '':'' @ jq ''stop'' @ ''}],'' @ jq ''usage'' @ '':{'' @ jq ''prompt_tokens'' @ '':5,'' @
     jq ''completion_tokens'' @ '':3,'' @ jq ''total_tokens'' @ '':8}}'' @ line_end @ line_end"

definition mock_error_body :: string where
  "mock_error_body =
     ''{'' @ jq ''error'' @ '':{'' @ jq ''message'' @ '':'' @ jq ''mock provider error'' @ '','' @ jq ''type'' @ '':'' @
     jq ''server_error'' @ ''}}''"

text \<open>A handler answers a response and the new value of the flag.\<close>

definition mock_handleChat :: "bool \<Rightarrow> bool \<Rightarrow> mock_response \<times> bool" where
  "mock_handleChat flusher failNext =
     (if failNext
      then (\<lparr>mr_Status = 500, mr_Headers = [(''Content-Type'', ''application/json'')], mr_Writes = [mock_error_body]\<rparr>, False)
      else if \<not> flusher
      then (\<lparr>mr_Status = 500,
             mr_Headers = [(''Content-Type'', ''text/plain; charset=utf-8''), (''X-Content-Type-Options'', ''nosniff'')],
             mr_Writes = [''streaming not supported'' @ line_end]\<rparr>, failNext)
      else (\<lparr>mr_Status = 200,
             mr_Headers = [(''Content-Type'', ''text/event-stream''), (''Cache-Control'', ''no-cache''), (''Connection'', ''keep-alive'')],
             mr_Writes = map token_chunk [''Hello'', '' from'', '' mock''] @ [stop_chunk, ''data: [DONE]'' @ line_end @ line_end]\<rparr>,
            failNext))"

definition mock_handleFail :: "bool \<Rightarrow> mock_response \<times> bool" where
  "mock_handleFail failNext = (\<lparr>mr_Status = 204, mr_Headers = [], mr_Writes = []\<rparr>, True)"

definition mock_mux :: "(pattern \<times> string) list" where
  "mock_mux =
     [((None, [Lit ''v1'', Lit ''chat'', Lit ''completions'']), ''chat''),
      ((None, [Lit ''__control'', Lit ''fail'']), ''fail'')]"

definition mock_ContainerURL :: "int \<Rightarrow> string" where
  "mock_ContainerURL port = ''http://host.docker.internal:'' @ int_str port @ ''/v1''"

section \<open>The environment of a run\<close>

record 'w suite_env = "'w sut_env" +
  sx_NewClient :: "go_error option"
  sx_Listen :: "'w \<Rightarrow> int result \<times> 'w"
  sx_failNext :: "'w \<Rightarrow> bool"
  sx_setFailNext :: "bool \<Rightarrow> 'w \<Rightarrow> 'w"
  sx_Shutdown :: "'w \<Rightarrow> 'w"

definition mock_Start :: "('w, 'z) suite_env_scheme \<Rightarrow> 'w \<Rightarrow> int result \<times> 'w" where
  "mock_Start env w =
     (case sx_Listen env w of
        (Inl e, w1) \<Rightarrow> (Inl (Wrap ''mock_llm: listen'' e), w1)
      | (Inr port, w1) \<Rightarrow> (Inr port, sx_setFailNext env False w1))"

definition mock_SetFailNext :: "('w, 'z) suite_env_scheme \<Rightarrow> 'w \<Rightarrow> 'w" where
  "mock_SetFailNext env w = sx_setFailNext env True w"

definition mock_Close :: "('w, 'z) suite_env_scheme \<Rightarrow> 'w \<Rightarrow> 'w" where
  "mock_Close env w = sx_Shutdown env w"

section \<open>The boot invariant\<close>

definition boot_result :: "int \<Rightarrow> check_status \<Rightarrow> string \<Rightarrow> check_result" where
  "boot_result d st detail =
     \<lparr>ck_Number = 1, ck_Name = ''Boot invariant'', ck_Status = st, ck_Duration = d, ck_Detail = detail\<rparr>"

definition boot_logs_fatal :: "string \<Rightarrow> bool" where
  "boot_logs_fatal logs \<longleftrightarrow>
     Contains logs ''FATAL'' \<and> Contains logs ''FOX_PLANE_AUTH_SECRET'' \<or>
     Contains logs ''gave up:'' \<and> Contains logs ''FATAL state''"

text \<open>What the check concludes about a started container, before its removal.\<close>

definition boot_verdict :: "('w, 'z) sut_env_scheme \<Rightarrow> handle \<Rightarrow> int \<Rightarrow> 'w \<Rightarrow> check_result \<times> 'w" where
  "boot_verdict env h start w =
     (case handle_WaitExit env h 15 w of
        (Inr code, w1) \<Rightarrow>
          (let d = cv_now env w1 - start in
           (if code \<noteq> 0 then boot_result d Pass (''exit code '' @ int_str code)
            else boot_result d Fail ''container exited with code 0 (expected non-zero)'', w1))
      | (Inl _, w1) \<Rightarrow>
          (let d = cv_now env w1 - start in
           case handle_Logs env h w1 of
             (Inl e, w2) \<Rightarrow> (boot_result d Fail (''container did not exit and logs unreadable: '' @ error_text e), w2)
           | (Inr logs, w2) \<Rightarrow>
               (if \<not> boot_logs_fatal logs
                then (boot_result d Fail ''container did not exit and no FATAL log for missing FOX_PLANE_AUTH_SECRET'', w2)
                else case httpGet env (hd_BaseURL h @ ''/health'') [] w2 of
                  (r, w3) \<Rightarrow>
                    ((if (case r of Inl _ \<Rightarrow> True | Inr (st, _) \<Rightarrow> st \<noteq> 200)
                      then boot_result d Pass ''supervisor FATAL state detected (boot invariant held via process manager)''
                      else boot_result d Fail ''FATAL logged but /health still returns 200''), w3))))"

definition check01BootInvariant :: "('w, 'z) sut_env_scheme \<Rightarrow> string \<Rightarrow> int \<times> 'w \<Rightarrow> check_result \<times> int \<times> 'w" where
  "check01BootInvariant env img nw =
     (let start = cv_now env (snd nw) in
      case sut_Start env \<lparr>sc_Image = img, sc_Mode = BootInvariant, sc_AuthSecret = ''conf-test-boot-invariant'',
             sc_Password = '''', sc_ExtraEnv = []\<rparr> nw of
        (Inl e, n1, w1) \<Rightarrow>
          ((if Contains (error_text e) ''not healthy''
            then boot_result (cv_now env w1 - start) Pass ''container refused to become healthy (boot invariant held)''
            else boot_result (cv_now env w1 - start) Fail (error_text e)), n1, w1)
      | (Inr h, n1, w1) \<Rightarrow>
          (case boot_verdict env h start w1 of (r, w2) \<Rightarrow> (r, n1, handle_Cleanup env h w2)))"

section \<open>The suite\<close>

definition testAuthSecret :: string where "testAuthSecret = ''conf-test-secret-7f3a''"
definition testPassword :: string where "testPassword = ''conf-test-pass-9b2e''"

definition name_of :: "(int \<times> string) list \<Rightarrow> int \<Rightarrow> string" where
  "name_of names n = (case map_of names n of None \<Rightarrow> '''' | Some s \<Rightarrow> s)"

definition standaloneCheckName :: "int \<Rightarrow> string" where
  "standaloneCheckName = name_of
     [(6, ''Standalone: vanilla equivalence''), (7, ''GET /health''), (8, ''GET /readyz''), (9, ''GET /version (standalone)''),
      (11, ''GET /capabilities (standalone)''), (15, ''Standalone boot''), (19, ''Health v2.0 content-type''),
      (20, ''Readyz v2.0 schema'')]"

definition managedCheckName :: "int \<Rightarrow> string" where
  "managedCheckName = name_of
     [(2, ''Managed: valid X-Fox-Auth''), (3, ''Managed: invalid X-Fox-Auth''), (4, ''Managed: valid session, no X-Fox-Auth''),
      (5, ''Managed: no auth''), (10, ''GET /version (managed, no auth)''), (12, ''GET /capabilities (managed, no auth)'')]"

definition sseCheckName :: "int \<Rightarrow> string" where
  "sseCheckName = name_of [(13, ''SSE: contract events''), (14, ''SSE: apperror on provider error'')]"

definition contractCheckName :: "int \<Rightarrow> string" where
  "contractCheckName = name_of [(16, ''Contract version''), (17, ''Version v2.0 schema''), (18, ''Capabilities v2.0 schema'')]"

definition securityCheckName :: "int \<Rightarrow> string" where
  "securityCheckName = name_of
     [(21, ''Security headers present''), (22, ''Path traversal rejected''), (23, ''Auth rejects don't leak timing''),
      (24, ''Unsupported HTTP methods rejected'')]"

text \<open>The results a section reports when its container does not come up.\<close>

definition unstarted :: "check_status \<Rightarrow> (int \<Rightarrow> string) \<Rightarrow> string \<Rightarrow> int list \<Rightarrow> suite_report \<Rightarrow> suite_report" where
  "unstarted st names detail nums rep =
     fold (\<lambda>n. Suite_Add \<lparr>ck_Number = n, ck_Name = names n, ck_Status = st, ck_Duration = 0, ck_Detail = detail\<rparr>) nums rep"

fun run_on_handle :: "(handle \<Rightarrow> 'w \<Rightarrow> check_result \<times> 'w) list \<Rightarrow> handle \<Rightarrow> suite_report \<Rightarrow> 'w \<Rightarrow> suite_report \<times> 'w" where
  "run_on_handle [] h rep w = (rep, w)"
| "run_on_handle (c # cs) h rep w = (case c h w of (r, w1) \<Rightarrow> run_on_handle cs h (Suite_Add r rep) w1)"

text \<open>One section: a container, the checks on it, its removal.\<close>

definition with_sut ::
  "('w, 'z) sut_env_scheme \<Rightarrow> sut_config \<Rightarrow> check_status \<Rightarrow> (int \<Rightarrow> string) \<Rightarrow> string \<Rightarrow> int list
     \<Rightarrow> (handle \<Rightarrow> 'w \<Rightarrow> check_result \<times> 'w) list \<Rightarrow> suite_report \<Rightarrow> int \<times> 'w \<Rightarrow> suite_report \<times> int \<times> 'w" where
  "with_sut env cfg st names what nums checks rep nw =
     (case sut_Start env cfg nw of
        (Inl e, n1, w1) \<Rightarrow> (unstarted st names (what @ '' failed to start: '' @ error_text e) nums rep, n1, w1)
      | (Inr h, n1, w1) \<Rightarrow>
          (case run_on_handle checks h rep w1 of (rep2, w2) \<Rightarrow> (rep2, n1, handle_Cleanup env h w2)))"

definition managed_config :: "string \<Rightarrow> (string \<times> string) list \<Rightarrow> sut_config" where
  "managed_config img extra =
     \<lparr>sc_Image = img, sc_Mode = Managed, sc_AuthSecret = testAuthSecret, sc_Password = testPassword, sc_ExtraEnv = extra\<rparr>"

type_synonym 'w suite_step = "suite_report \<Rightarrow> int \<times> 'w \<Rightarrow> suite_report \<times> int \<times> 'w"

definition runStandalone :: "('w, 'z) suite_env_scheme \<Rightarrow> string \<Rightarrow> 'w suite_step" where
  "runStandalone env img = with_sut env
     \<lparr>sc_Image = img, sc_Mode = Standalone, sc_AuthSecret = '''', sc_Password = '''', sc_ExtraEnv = []\<rparr>
     Fail standaloneCheckName ''standalone SUT'' [6, 7, 8, 9, 11, 15, 19, 20]
     [check06StandaloneEquivalence env, check07Health env, check08Readyz env, check09VersionStandalone env,
      check11CapabilitiesStandalone env, check15StandaloneBoot env, check19HealthV2ContentType env, check20ReadyzV2Schema env]"

definition runBootInvariant :: "('w, 'z) suite_env_scheme \<Rightarrow> string \<Rightarrow> 'w suite_step" where
  "runBootInvariant env img rep nw = (case check01BootInvariant env img nw of (r, nw1) \<Rightarrow> (Suite_Add r rep, nw1))"

definition runManaged :: "('w, 'z) suite_env_scheme \<Rightarrow> string \<Rightarrow> 'w suite_step" where
  "runManaged env img = with_sut env (managed_config img []) Fail managedCheckName ''managed SUT'' [2, 3, 4, 5, 10, 12]
     [check02ManagedValidAuth env, check03ManagedInvalidAuth env, check04ManagedSessionAuth env, check05ManagedNoAuth env,
      check10VersionManaged env, check12CapabilitiesManaged env]"

definition check14_after_fail :: "('w, 'z) suite_env_scheme \<Rightarrow> handle \<Rightarrow> 'w \<Rightarrow> check_result \<times> 'w" where
  "check14_after_fail env h w = check14SSEAppError env h (mock_SetFailNext env w)"

definition runSSE :: "('w, 'z) suite_env_scheme \<Rightarrow> string \<Rightarrow> 'w suite_step" where
  "runSSE env img rep nw =
     (case mock_Start env (snd nw) of
        (Inl e, w1) \<Rightarrow> (unstarted Skip sseCheckName (''mock LLM failed to start: '' @ error_text e) [13, 14] rep, fst nw, w1)
      | (Inr port, w1) \<Rightarrow>
          (case with_sut env (managed_config img [(''FOX_PROXY_ENDPOINT'', mock_ContainerURL port)]) Skip sseCheckName ''SSE SUT''
                  [13, 14] [check13SSEContractEvents env, check14_after_fail env] rep (fst nw, w1) of
             (rep2, n2, w2) \<Rightarrow> (rep2, n2, mock_Close env w2)))"

definition runContractVersion :: "('w, 'z) suite_env_scheme \<Rightarrow> string \<Rightarrow> 'w suite_step" where
  "runContractVersion env img = with_sut env (managed_config img []) Fail contractCheckName ''SUT'' [16, 17, 18]
     [check16ContractVersion env, check17VersionV2Schema env, check18CapabilitiesV2Schema env]"

definition runSecurity :: "('w, 'z) suite_env_scheme \<Rightarrow> string \<Rightarrow> 'w suite_step" where
  "runSecurity env img = with_sut env (managed_config img []) Fail securityCheckName ''security SUT'' [21, 22, 23, 24]
     [check21SecurityHeaders env, check22PathTraversal env, check23AuthTimingConsistency env, check24MethodNotAllowed env]"

definition isMovingTag :: "string \<Rightarrow> bool" where
  "isMovingTag ref =
     (if Contains ref ''@sha256:'' then False
      else case str_last_index ref '':'' of
        None \<Rightarrow> True
      | Some i \<Rightarrow> (let tag = drop (i + 1) ref in tag = ''stable'' \<or> tag = ''latest''))"

fun run_steps :: "'w suite_step list \<Rightarrow> 'w suite_step" where
  "run_steps [] rep nw = (rep, nw)"
| "run_steps (s # ss) rep nw = (case s rep nw of (rep1, nw1) \<Rightarrow> run_steps ss rep1 nw1)"

definition runtime_steps :: "('w, 'z) suite_env_scheme \<Rightarrow> string \<Rightarrow> 'w suite_step list" where
  "runtime_steps env img =
     [runStandalone env img, runBootInvariant env img, runManaged env img, runSSE env img, runContractVersion env img,
      runSecurity env img]"

definition pull_moving :: "('w, 'z) sut_env_scheme \<Rightarrow> string \<Rightarrow> 'w \<Rightarrow> unit result \<times> 'w" where
  "pull_moving env img w =
     (if isMovingTag img
      then case dc_ImagePull (sd_docker env) img w of
        (Inl e, w1) \<Rightarrow> (Inl (Wrap (''conformance: pull '' @ img) e), w1) | (Inr _, w1) \<Rightarrow> (Inr (), w1)
      else (Inr (), w))"

definition runtime_Run :: "('w, 'z) suite_env_scheme \<Rightarrow> string \<Rightarrow> int \<times> 'w \<Rightarrow> suite_report result \<times> int \<times> 'w" where
  "runtime_Run env img nw =
     (case sx_NewClient env of
        Some e \<Rightarrow> (Inl (Wrap ''conformance: docker client'' e), nw)
      | None \<Rightarrow>
          (case pull_moving env img (snd nw) of
             (Inl e, w1) \<Rightarrow> (Inl e, fst nw, w1)
           | (Inr _, w1) \<Rightarrow>
               (case run_steps (runtime_steps env img) \<lparr>su_Image = img, su_Results = [], su_Elapsed = 0\<rparr> (fst nw, w1) of
                  (rep, n2, w2) \<Rightarrow> (Inr (rep\<lparr>su_Elapsed := cv_now env w2 - cv_now env w1\<rparr>), n2, w2))))"

end
