(* ===== verification/Conf_Runtime.thy ===== *)
theory Conf_Runtime
  imports Conf_Suite
begin

text \<open>
  What the runtime suite promises: a report names every check exactly once, in one order, whatever fails on
  the way; and, when the daemon removes what it is told to remove, no container of the suite outlives it.
\<close>

section \<open>Every check is reported\<close>

definition check_id :: "check_result \<Rightarrow> int \<times> string" where
  "check_id r = (ck_Number r, ck_Name r)"

definition report_ids :: "suite_report \<Rightarrow> (int \<times> string) list" where
  "report_ids rep = map check_id (su_Results rep)"

definition identified :: "(handle \<Rightarrow> 'w \<Rightarrow> check_result \<times> 'w) \<Rightarrow> int \<times> string \<Rightarrow> bool" where
  "identified c i \<longleftrightarrow> (\<forall>h w. check_id (fst (c h w)) = i)"

lemma report_ids_Add [simp]: "report_ids (Suite_Add r rep) = report_ids rep @ [check_id r]"
  by (simp add: report_ids_def Suite_Add_def)

lemma timedCheck_id [simp]: "check_id (fst (timedCheck env n name fn w)) = (n, name)"
  by (simp add: check_id_def timedCheck_def split: prod.splits)

lemma run_on_handle_ids:
  "list_all2 identified cs ids \<Longrightarrow> report_ids (fst (run_on_handle cs h rep w)) = report_ids rep @ ids"
proof (induction cs ids arbitrary: rep w rule: list_all2_induct)
  case (Cons c cs i ids)
  obtain r w1 where c: "c h w = (r, w1)" by (cases "c h w")
  have "check_id r = i" using Cons.hyps(1) c unfolding identified_def by (metis fst_conv)
  then show ?case using Cons.IH [of "Suite_Add r rep" w1] c by simp
qed simp

text \<open>The other suites have no containers of their own.\<close>

fun run_all :: "('w \<Rightarrow> check_result \<times> 'w) list \<Rightarrow> suite_report \<Rightarrow> 'w \<Rightarrow> suite_report \<times> 'w" where
  "run_all [] rep w = (rep, w)"
| "run_all (c # cs) rep w = (case c w of (r, w1) \<Rightarrow> run_all cs (Suite_Add r rep) w1)"

lemma run_all_ids:
  "list_all2 (\<lambda>c i. \<forall>w. check_id (fst (c w)) = i) cs ids \<Longrightarrow> report_ids (fst (run_all cs rep w)) = report_ids rep @ ids"
proof (induction cs ids arbitrary: rep w rule: list_all2_induct)
  case (Cons c cs i ids)
  obtain r w1 where c: "c w = (r, w1)" by (rule prod.exhaust)
  have "check_id r = i" using Cons.hyps(1) c by (metis fst_conv)
  then show ?case using Cons.IH [of "Suite_Add r rep" w1] c by simp
qed simp

lemma unstarted_ids: "report_ids (unstarted st names detail nums rep) = report_ids rep @ map (\<lambda>n. (n, names n)) nums"
  unfolding unstarted_def by (induction nums arbitrary: rep) (simp_all add: check_id_def)

definition reports :: "'w suite_step \<Rightarrow> (int \<times> string) list \<Rightarrow> bool" where
  "reports s ids \<longleftrightarrow> (\<forall>rep nw. report_ids (fst (s rep nw)) = report_ids rep @ ids)"

lemma with_sut_reports:
  assumes "list_all2 identified checks (map (\<lambda>n. (n, names n)) nums)"
  shows "reports (with_sut env cfg st names what nums checks) (map (\<lambda>n. (n, names n)) nums)"
  using run_on_handle_ids [OF assms]
  by (auto simp: reports_def with_sut_def unstarted_ids split: prod.splits sum.splits) (metis fst_conv)

lemma run_steps_reports:
  "list_all2 reports ss idss \<Longrightarrow> report_ids (fst (run_steps ss rep nw)) = report_ids rep @ concat idss"
proof (induction ss idss arbitrary: rep nw rule: list_all2_induct)
  case (Cons s ss i idss)
  obtain rep1 nw1 where s: "s rep nw = (rep1, nw1)" by (cases "s rep nw")
  have "report_ids rep1 = report_ids rep @ i" using Cons.hyps(1) s unfolding reports_def by (metis fst_conv)
  then show ?case using Cons.IH [of rep1 nw1] s by simp
qed simp

lemmas check_defs =
  check02ManagedValidAuth_def check03ManagedInvalidAuth_def check04ManagedSessionAuth_def check05ManagedNoAuth_def
  check06StandaloneEquivalence_def check07Health_def check08Readyz_def check09VersionStandalone_def check10VersionManaged_def
  check11CapabilitiesStandalone_def check12CapabilitiesManaged_def check13SSEContractEvents_def check14SSEAppError_def
  check14_after_fail_def check15StandaloneBoot_def check16ContractVersion_def check17VersionV2Schema_def
  check18CapabilitiesV2Schema_def check19HealthV2ContentType_def check20ReadyzV2Schema_def check21SecurityHeaders_def
  check22PathTraversal_def check23AuthTimingConsistency_def check24MethodNotAllowed_def

lemma boot_result_id [simp]: "check_id (boot_result d st detail) = (1, ''Boot invariant'')"
  by (simp add: check_id_def boot_result_def)

lemma boot_verdict_id: "check_id (fst (boot_verdict env h start w)) = (1, ''Boot invariant'')"
  by (simp add: boot_verdict_def Let_def split: prod.splits sum.splits)

lemma check01_id: "check_id (fst (check01BootInvariant env img nw)) = (1, ''Boot invariant'')"
  using boot_verdict_id [of env]
  by (auto simp: check01BootInvariant_def Let_def split: prod.splits sum.splits) (metis fst_conv)

lemma runStandalone_reports:
  "reports (runStandalone env img) (map (\<lambda>n. (n, standaloneCheckName n)) [6, 7, 8, 9, 11, 15, 19, 20])"
  unfolding runStandalone_def
  by (rule with_sut_reports) (simp add: identified_def check_defs standaloneCheckName_def name_of_def)

lemma runManaged_reports: "reports (runManaged env img) (map (\<lambda>n. (n, managedCheckName n)) [2, 3, 4, 5, 10, 12])"
  unfolding runManaged_def
  by (rule with_sut_reports) (simp add: identified_def check_defs managedCheckName_def name_of_def)

lemma runContractVersion_reports:
  "reports (runContractVersion env img) (map (\<lambda>n. (n, contractCheckName n)) [16, 17, 18])"
  unfolding runContractVersion_def
  by (rule with_sut_reports) (simp add: identified_def check_defs contractCheckName_def name_of_def)

lemma runSecurity_reports: "reports (runSecurity env img) (map (\<lambda>n. (n, securityCheckName n)) [21, 22, 23, 24])"
  unfolding runSecurity_def
  by (rule with_sut_reports) (simp add: identified_def check_defs securityCheckName_def name_of_def)

lemma runSSE_reports: "reports (runSSE env img) (map (\<lambda>n. (n, sseCheckName n)) [13, 14])"
proof -
  have "reports (with_sut env cfg Skip sseCheckName ''SSE SUT'' [13, 14] [check13SSEContractEvents env, check14_after_fail env])
      (map (\<lambda>n. (n, sseCheckName n)) [13, 14])" for cfg
    by (rule with_sut_reports) (simp add: identified_def check_defs sseCheckName_def name_of_def)
  then show ?thesis
    by (auto simp: reports_def runSSE_def unstarted_ids split: prod.splits sum.splits) (metis fst_conv)+
qed

lemma runBootInvariant_reports: "reports (runBootInvariant env img) [(1, ''Boot invariant'')]"
  using check01_id [of env img] by (auto simp: reports_def runBootInvariant_def split: prod.splits) (metis fst_conv)

definition runtime_checks :: "(int \<times> string) list" where
  "runtime_checks =
     map (\<lambda>n. (n, standaloneCheckName n)) [6, 7, 8, 9, 11, 15, 19, 20] @ [(1, ''Boot invariant'')] @
     map (\<lambda>n. (n, managedCheckName n)) [2, 3, 4, 5, 10, 12] @ map (\<lambda>n. (n, sseCheckName n)) [13, 14] @
     map (\<lambda>n. (n, contractCheckName n)) [16, 17, 18] @ map (\<lambda>n. (n, securityCheckName n)) [21, 22, 23, 24]"

lemma run_steps_complete:
  "report_ids (fst (run_steps (runtime_steps env img) \<lparr>su_Image = img, su_Results = [], su_Elapsed = 0\<rparr> nw)) = runtime_checks"
proof -
  have "list_all2 reports (runtime_steps env img)
     [map (\<lambda>n. (n, standaloneCheckName n)) [6, 7, 8, 9, 11, 15, 19, 20], [(1, ''Boot invariant'')],
      map (\<lambda>n. (n, managedCheckName n)) [2, 3, 4, 5, 10, 12], map (\<lambda>n. (n, sseCheckName n)) [13, 14],
      map (\<lambda>n. (n, contractCheckName n)) [16, 17, 18], map (\<lambda>n. (n, securityCheckName n)) [21, 22, 23, 24]]"
    unfolding runtime_steps_def list_all2_Cons list_all2_Nil
    using runStandalone_reports runBootInvariant_reports runManaged_reports runSSE_reports runContractVersion_reports
      runSecurity_reports by blast
  from run_steps_reports [OF this] show ?thesis by (simp add: report_ids_def runtime_checks_def)
qed

text \<open>The report of the runtime suite always lists the same twenty-four checks in the same order, each with
  its own number and name, whichever containers fail to start and whatever the checks find.
\<close>

theorem runtime_suite_complete:
  "case fst (runtime_Run env img nw) of Inl e \<Rightarrow> True | Inr rep \<Rightarrow> report_ids rep = runtime_checks"
proof (cases "sx_NewClient env")
  case None
  obtain r w1 where p: "pull_moving env img (snd nw) = (r, w1)" by (rule prod.exhaust)
  obtain rep n2 w2 where s: "run_steps (runtime_steps env img) \<lparr>su_Image = img, su_Results = [], su_Elapsed = 0\<rparr> (fst nw, w1)
      = (rep, n2, w2)" by (metis prod.exhaust)
  have "report_ids rep = runtime_checks" using run_steps_complete [of env img "(fst nw, w1)"] s by simp
  then show ?thesis using None p s by (cases r) (simp_all add: runtime_Run_def report_ids_def)
qed (simp add: runtime_Run_def)

lemma runtime_checks_numbers: "sort (map fst runtime_checks) = [1..24]"
  by code_simp

section \<open>No container is left behind\<close>

named_theorems keeps "operations that leave a quantity of the world alone"

lemma httpGetFull_keeps [keeps]:
  assumes "\<And>rq. check_keeps f (cv_Do env rq)"
  shows "check_keeps f (httpGetFull env url hs)"
  unfolding check_keeps_def httpGetFull_def
  by (auto dest: check_keepsD [OF do_request_keeps [OF assms]] split: prod.splits sum.splits)

lemma httpGet_keeps [keeps]:
  assumes "\<And>rq. check_keeps f (cv_Do env rq)"
  shows "check_keeps f (httpGet env url hs)"
  unfolding check_keeps_def httpGet_def
  by (auto dest: check_keepsD [OF httpGetFull_keeps [OF assms]] split: prod.splits sum.splits)

lemma httpPostWithCookies_keeps [keeps]:
  assumes "\<And>rq. check_keeps f (cv_Do env rq)"
  shows "check_keeps f (httpPostWithCookies env url body hs)"
  unfolding check_keeps_def httpPostWithCookies_def
  by (auto dest: check_keepsD [OF do_request_keeps [OF assms]] split: prod.splits sum.splits)

lemma httpPost_keeps [keeps]:
  assumes "\<And>rq. check_keeps f (cv_Do env rq)"
  shows "check_keeps f (httpPost env url body hs)"
  unfolding check_keeps_def httpPost_def
  by (auto dest: check_keepsD [OF httpPostWithCookies_keeps [OF assms]] split: prod.splits sum.splits)

lemma judge_get_keeps [keeps]:
  assumes "\<And>rq. check_keeps f (cv_Do env rq)"
  shows "check_keeps f (judge_get env url hs judge)"
  unfolding check_keeps_def judge_get_def
  by (auto dest: check_keepsD [OF httpGet_keeps [OF assms]] split: prod.splits sum.splits)

lemma judge_full_keeps [keeps]:
  assumes "\<And>rq. check_keeps f (cv_Do env rq)"
  shows "check_keeps f (judge_full env url hs judge)"
  unfolding check_keeps_def judge_full_def
  by (auto dest: check_keepsD [OF httpGetFull_keeps [OF assms]] split: prod.splits sum.splits)

lemma session_check_keeps [keeps]:
  assumes "\<And>rq. check_keeps f (cv_Do env rq)"
  shows "check_keeps f (session_check env h)"
  unfolding check_keeps_def session_check_def obtainSessionCookie_def
  by (auto dest: check_keepsD [OF httpPostWithCookies_keeps [OF assms]] check_keepsD [OF judge_get_keeps [OF assms]]
      split: prod.splits sum.splits if_splits option.splits
      intro: judge_get_keeps [OF assms, unfolded check_keeps_def, rule_format] trans)

lemma chat_check_keeps [keeps]:
  assumes "\<And>rq. check_keeps f (cv_Do env rq)"
  shows "check_keeps f (chat_check env h judge)"
  unfolding check_keeps_def chat_check_def
  by (auto dest: check_keepsD [OF httpPost_keeps [OF assms]] split: prod.splits sum.splits)

lemma security_headers_keeps [keeps]:
  assumes "\<And>rq. check_keeps f (cv_Do env rq)"
  shows "check_keeps f (security_headers env h)"
  unfolding check_keeps_def security_headers_def
  by (auto dest: check_keepsD [OF do_request_keeps [OF assms]] split: prod.splits sum.splits)

lemma traversal_keeps [keeps]:
  assumes "\<And>rq. check_keeps f (cv_Do env rq)"
  shows "check_keeps f (traversal env h ps)"
  unfolding check_keeps_def
proof
  fix w
  show "f (snd (traversal env h ps w)) = f w"
  proof (induction ps arbitrary: w)
    case (Cons p ps)
    then show ?case
      by (auto dest: check_keepsD [OF httpGet_keeps [OF assms]] split: prod.splits sum.splits)
  qed simp
qed

lemma methods_refused_keeps [keeps]:
  assumes "\<And>rq. check_keeps f (cv_Do env rq)"
  shows "check_keeps f (methods_refused env h ms)"
  unfolding check_keeps_def
proof
  fix w
  show "f (snd (methods_refused env h ms w)) = f w"
  proof (induction ms arbitrary: w)
    case (Cons m ms)
    then show ?case
      by (auto dest: check_keepsD [OF do_request_keeps [OF assms]] split: prod.splits sum.splits)
  qed simp
qed

lemma same_rejection_keeps [keeps]:
  assumes "\<And>rq. check_keeps f (cv_Do env rq)"
  shows "check_keeps f (same_rejection env h)"
  unfolding check_keeps_def same_rejection_def
  by (auto dest: check_keepsD [OF httpGet_keeps [OF assms]]
      simp: judge_get_keeps [OF assms, unfolded check_keeps_def, rule_format] split: prod.splits sum.splits)

text \<open>The documented behaviour of a daemon that is up, towards a caller that is not cancelled, on the set of
  the containers there are: a create adds one under a new id, a forced removal takes it away, and nothing
  else changes the set.\<close>

definition sut_daemon_ok :: "('w, 'z) suite_env_scheme \<Rightarrow> ('w \<Rightarrow> string set) \<Rightarrow> bool" where
  "sut_daemon_ok env live \<longleftrightarrow>
     (\<forall>rq. check_keeps live (cv_Do env rq)) \<and>
     (\<forall>cc hc n w. case dc_ContainerCreate (sd_docker env) cc hc n w of
        (Inl _, w1) \<Rightarrow> live w1 = live w | (Inr i, w1) \<Rightarrow> i \<notin> live w \<and> live w1 = insert i (live w)) \<and>
     (\<forall>i w. live (snd (dc_ContainerRemove (sd_docker env) i w)) = live w - {i}) \<and>
     (\<forall>i. check_keeps live (dc_ContainerStart (sd_docker env) i)) \<and>
     (\<forall>i t. check_keeps live (dc_ContainerStop (sd_docker env) i t)) \<and>
     (\<forall>i opts. check_keeps live (dc_ContainerLogs (sd_docker env) i opts)) \<and>
     (\<forall>r. check_keeps live (dc_ImagePull (sd_docker env) r)) \<and>
     (\<forall>i. check_keeps live (sd_Ports env i)) \<and>
     (\<forall>i t. check_keeps live (sd_Wait env i t)) \<and>
     check_keeps live (sd_select env) \<and>
     (\<forall>s w. live (sd_set_fs env s w) = live w) \<and>
     check_keeps live (sx_Listen env) \<and>
     (\<forall>b w. live (sx_setFailNext env b w) = live w) \<and>
     (\<forall>w. live (sx_Shutdown env w) = live w)"

lemma daemon_live:
  assumes "sut_daemon_ok env live"
  shows "check_keeps live (cv_Do env rq)"
    and "live (snd (dc_ContainerRemove (sd_docker env) i w)) = live w - {i}"
    and "check_keeps live (dc_ContainerStart (sd_docker env) i)"
    and "check_keeps live (dc_ContainerStop (sd_docker env) i t)"
    and "check_keeps live (dc_ContainerLogs (sd_docker env) i opts)"
    and "check_keeps live (dc_ImagePull (sd_docker env) r)"
    and "check_keeps live (sd_Ports env i)"
    and "check_keeps live (sd_Wait env i t)"
    and "check_keeps live (sd_select env)"
    and "live (sd_set_fs env s w) = live w"
    and "check_keeps live (sx_Listen env)"
    and "live (sx_setFailNext env b w) = live w"
    and "live (sx_Shutdown env w) = live w"
  using assms unfolding sut_daemon_ok_def by simp_all

lemma daemon_create:
  assumes "sut_daemon_ok env live" "dc_ContainerCreate (sd_docker env) cc hc n w = (r, w1)"
  shows "r = Inl e \<Longrightarrow> live w1 = live w" and "r = Inr i \<Longrightarrow> i \<notin> live w \<and> live w1 = insert i (live w)"
proof -
  have "case dc_ContainerCreate (sd_docker env) cc hc n w of
      (Inl _, w1) \<Rightarrow> live w1 = live w | (Inr i, w1) \<Rightarrow> i \<notin> live w \<and> live w1 = insert i (live w)"
    using assms(1) unfolding sut_daemon_ok_def by (elim conjE) (erule allE, erule allE, erule allE, erule allE)
  then show "r = Inl e \<Longrightarrow> live w1 = live w" and "r = Inr i \<Longrightarrow> i \<notin> live w \<and> live w1 = insert i (live w)"
    using assms(2) by simp_all
qed

lemma on_fs_live:
  assumes d: "sut_daemon_ok env live"
  shows "live (snd (on_fs env f w)) = live w"
  by (simp add: on_fs_def daemon_live(10) [OF d] split: prod.splits)

lemma handle_Cleanup_live:
  assumes d: "sut_daemon_ok env live"
  shows "live (handle_Cleanup env h w) = live w - {hd_ContainerID h}"
  by (simp add: handle_Cleanup_def Let_def on_fs_live [OF d] daemon_live(2) [OF d]
      daemon_live(4) [OF d, unfolded check_keeps_def, rule_format])

lemma handle_Logs_live:
  assumes d: "sut_daemon_ok env live"
  shows "check_keeps live (handle_Logs env h)"
  unfolding check_keeps_def handle_Logs_def
  by (auto dest: check_keepsD [OF daemon_live(5) [OF d]] split: prod.splits sum.splits)

lemma sut_probe_live:
  assumes d: "sut_daemon_ok env live"
  shows "check_keeps live (sut_probe env port path)"
  unfolding check_keeps_def sut_probe_def
  by (auto dest: check_keepsD [OF do_request_keeps [OF daemon_live(1) [OF d]]] split: prod.splits sum.splits)

lemma sut_waitHealthy_live:
  assumes "sut_daemon_ok env live"
  shows "live (snd (sut_waitHealthy env port n w)) = live w"
proof (induction n arbitrary: w)
  case 0
  show ?case
    by (subst sut_waitHealthy.simps)
      (auto dest: check_keepsD [OF daemon_live(9) [OF assms]] split: prod.splits health_event.splits)
next
  case (Suc n)
  show ?case
    by (subst sut_waitHealthy.simps)
      (auto simp: Suc dest: check_keepsD [OF daemon_live(9) [OF assms]] check_keepsD [OF sut_probe_live [OF assms]]
        split: prod.splits health_event.splits)
qed

lemma resolvePort_live:
  assumes d: "sut_daemon_ok env live"
  shows "check_keeps live (resolvePort env i)"
  unfolding check_keeps_def resolvePort_def
  by (auto dest: check_keepsD [OF daemon_live(7) [OF d]] split: prod.splits sum.splits)

text \<open>A step either hands its container on or has removed it.\<close>

definition owns :: "('w \<Rightarrow> string set) \<Rightarrow> string set \<Rightarrow> string \<Rightarrow> handle result \<times> 'w \<Rightarrow> bool" where
  "owns live before cid rw \<longleftrightarrow>
     (case rw of (Inl _, w) \<Rightarrow> live w = before - {cid} | (Inr h, w) \<Rightarrow> hd_ContainerID h = cid \<and> live w = before)"

lemma sut_await_owns:
  assumes d: "sut_daemon_ok env live"
  shows "owns live (live w) (hd_ContainerID h) (sut_await env cfg h w)"
proof (cases "sc_Mode cfg = BootInvariant")
  case False
  obtain r w1 where r: "sut_waitHealthy env (hd_Port h) sut_ticks w = (r, w1)" by (rule prod.exhaust)
  have w1: "live w1 = live w" using sut_waitHealthy_live [OF d, of "hd_Port h" sut_ticks w] r by simp
  show ?thesis
  proof (cases r)
    case (Inl e)
    obtain lr w2 where l: "handle_Logs env h w1 = (lr, w2)" by (rule prod.exhaust)
    have w2: "live w2 = live w" using check_keepsD [OF handle_Logs_live [OF d] l] w1 by simp
    obtain p w3 where p: "on_fs env (collectProcessLogs (hd_dataDir h)) w2 = (p, w3)" by (rule prod.exhaust)
    have "live w3 = live w" using on_fs_live [OF d, of _ w2] p w2 by (metis snd_conv)
    then show ?thesis using False r Inl l p by (simp add: owns_def sut_await_def handle_Cleanup_live [OF d])
  next
    case (Inr u)
    obtain m w2 where m: "on_fs env (markOnboardingComplete (hd_dataDir h)) w1 = (m, w2)" by (rule prod.exhaust)
    have "live w2 = live w" using on_fs_live [OF d, of _ w1] m w1 by (metis snd_conv)
    then show ?thesis using False r Inr m by (cases m) (simp_all add: owns_def sut_await_def handle_Cleanup_live [OF d])
  qed
qed (simp add: owns_def sut_await_def)

lemma sut_boot_owns:
  assumes d: "sut_daemon_ok env live"
  shows "owns live (live w) (hd_ContainerID h) (sut_boot env cfg h w)"
proof -
  obtain r w1 where r: "dc_ContainerStart (sd_docker env) (hd_ContainerID h) w = (r, w1)" by (rule prod.exhaust)
  have w1: "live w1 = live w" by (rule check_keepsD [OF daemon_live(3) [OF d] r])
  obtain q w2 where q: "resolvePort env (hd_ContainerID h) w1 = (q, w2)" by (rule prod.exhaust)
  have w2: "live w2 = live w" using check_keepsD [OF resolvePort_live [OF d] q] w1 by simp
  have a: "owns live (live w) (hd_ContainerID h) (sut_await env cfg (h\<lparr>hd_Port := port, hd_BaseURL := u\<rparr>) w2)" for port u
    using sut_await_owns [OF d, of w2 "h\<lparr>hd_Port := port, hd_BaseURL := u\<rparr>" cfg] w2 by simp
  show ?thesis
  proof (cases r)
    case (Inl e)
    then show ?thesis using r w1 by (simp add: owns_def sut_boot_def handle_Cleanup_live [OF d])
  next
    case (Inr u)
    then show ?thesis
      using r q w2 a by (cases q) (simp_all add: owns_def sut_boot_def handle_Cleanup_live [OF d])
  qed
qed

lemma sut_Start_live:
  assumes d: "sut_daemon_ok env live" and s: "sut_Start env cfg (n, w) = (r, n', w')"
  shows "(case r of Inl _ \<Rightarrow> live w' = live w
     | Inr h \<Rightarrow> hd_ContainerID h \<notin> live w \<and> live w' = insert (hd_ContainerID h) (live w))"
proof -
  obtain dr w1 where dr: "on_fs env (sut_data_dir (sd_TempName env w)) w = (dr, w1)" by (rule prod.exhaust)
  have w1: "live w1 = live w" using on_fs_live [OF d, of _ w] dr by (metis snd_conv)
  show ?thesis
  proof (cases dr)
    case (Inl e)
    then show ?thesis using s dr w1 by (auto simp: sut_Start_def Let_def)
  next
    case (Inr dataDir)
    define name where "name = ''fox-conf-'' @ int_str (sd_pid env) @ ''-'' @ int_str (n + 1)"
    obtain cr w2 where cr: "dc_ContainerCreate (sd_docker env) (sut_container_config cfg) (sut_host_config dataDir) name w1 = (cr, w2)"
      by (rule prod.exhaust)
    have sc: "sut_create env cfg name dataDir w1 = (r, w')"
      using s dr Inr by (auto simp: sut_Start_def Let_def name_def split: prod.splits)
    show ?thesis
    proof (cases cr)
      case Inl2: (Inl e)
      then have "r = Inl (Wrap (''sut: create container '' @ name) e)" "w' = snd (on_fs env (os_RemoveAll dataDir) w2)"
        using sc cr unfolding sut_create_def by simp_all
      then show ?thesis using daemon_create(1) [OF d cr Inl2] w1 by (simp add: on_fs_live [OF d])
    next
      case Inr2: (Inr i)
      from daemon_create(2) [OF d cr Inr2] have i: "i \<notin> live w" "live w2 = insert i (live w)" using w1 by auto
      define h where "h = \<lparr>hd_ContainerID = i, hd_Name = name, hd_Port = 0, hd_BaseURL = '''', hd_AuthSecret = sc_AuthSecret cfg,
        hd_Password = sc_Password cfg, hd_dataDir = dataDir\<rparr>"
      have "sut_boot env cfg h w2 = (r, w')" using sc cr Inr2 by (simp add: sut_create_def h_def)
      moreover have "hd_ContainerID h = i" by (simp add: h_def)
      ultimately have "owns live (insert i (live w)) i (r, w')" using sut_boot_owns [OF d, of w2 h cfg] i(2) by simp
      then show ?thesis using i(1) by (auto simp: owns_def split: sum.splits)
    qed
  qed
qed

text \<open>The checks themselves only send requests.\<close>

definition lives :: "('w \<Rightarrow> string set) \<Rightarrow> (handle \<Rightarrow> 'w \<Rightarrow> check_result \<times> 'w) \<Rightarrow> bool" where
  "lives live c \<longleftrightarrow> (\<forall>h. check_keeps live (c h))"

lemma run_on_handle_live:
  "list_all (lives live) cs \<Longrightarrow> live (snd (run_on_handle cs h rep w)) = live w"
proof (induction cs arbitrary: rep w)
  case (Cons c cs)
  obtain r w1 where c: "c h w = (r, w1)" by (rule prod.exhaust)
  have "live w1 = live w" using Cons.prems c by (auto simp: lives_def dest: check_keepsD)
  then show ?case using Cons.IH [of "Suite_Add r rep" w1] Cons.prems c by simp
qed simp

lemma with_sut_live:
  assumes d: "sut_daemon_ok env live" and c: "list_all (lives live) checks"
  shows "live (snd (snd (with_sut env cfg st names what nums checks rep nw))) = live (snd nw)"
proof -
  obtain n w where nw: "nw = (n, w)" by (rule prod.exhaust)
  obtain r n1 w1 where s: "sut_Start env cfg (n, w) = (r, n1, w1)" by (metis prod.exhaust)
  show ?thesis
  proof (cases r)
    case (Inl e)
    then show ?thesis using sut_Start_live [OF d s] s nw by (simp add: with_sut_def)
  next
    case (Inr h)
    obtain rep2 w2 where k: "run_on_handle checks h rep w1 = (rep2, w2)" by (rule prod.exhaust)
    have "live w2 = live w1" using run_on_handle_live [OF c, of h rep w1] k by simp
    moreover have "hd_ContainerID h \<notin> live w \<and> live w1 = insert (hd_ContainerID h) (live w)"
      using sut_Start_live [OF d s] Inr by simp
    ultimately show ?thesis using s nw Inr k by (simp add: with_sut_def handle_Cleanup_live [OF d])
  qed
qed

lemma checks_live:
  assumes d: "sut_daemon_ok env live"
  shows "list_all (lives live)
     [check06StandaloneEquivalence env, check07Health env, check08Readyz env, check09VersionStandalone env,
      check11CapabilitiesStandalone env, check15StandaloneBoot env, check19HealthV2ContentType env, check20ReadyzV2Schema env]"
    and "list_all (lives live)
     [check02ManagedValidAuth env, check03ManagedInvalidAuth env, check04ManagedSessionAuth env, check05ManagedNoAuth env,
      check10VersionManaged env, check12CapabilitiesManaged env]"
    and "list_all (lives live) [check16ContractVersion env, check17VersionV2Schema env, check18CapabilitiesV2Schema env]"
    and "list_all (lives live)
     [check21SecurityHeaders env, check22PathTraversal env, check23AuthTimingConsistency env, check24MethodNotAllowed env]"
  unfolding lives_def list.pred_inject check_defs
  by (intro conjI TrueI allI list.pred_inject(1) timedCheck_keeps keeps daemon_live(1) [OF d])+

lemma sse_checks_live:
  assumes d: "sut_daemon_ok env live"
  shows "list_all (lives live) [check13SSEContractEvents env, check14_after_fail env]"
proof -
  have 13: "check_keeps live (check13SSEContractEvents env h)" and 14: "check_keeps live (check14SSEAppError env h)" for h
    unfolding check13SSEContractEvents_def check14SSEAppError_def
    by (intro timedCheck_keeps keeps daemon_live(1) [OF d])+
  have "check_keeps live (check14_after_fail env h)" for h
    using 14 [of h] by (simp add: check_keeps_def check14_after_fail_def mock_SetFailNext_def daemon_live(12) [OF d])
  with 13 show ?thesis by (simp add: lives_def)
qed

lemma boot_verdict_live:
  assumes d: "sut_daemon_ok env live"
  shows "live (snd (boot_verdict env h start w)) = live w"
proof -
  obtain e w1 where e: "handle_WaitExit env h 15 w = (e, w1)" by (rule prod.exhaust)
  have w1: "live w1 = live w"
    using e by (auto simp: handle_WaitExit_def dest: check_keepsD [OF daemon_live(8) [OF d]] split: prod.splits exit_event.splits)
  obtain l w2 where l: "handle_Logs env h w1 = (l, w2)" by (rule prod.exhaust)
  have w2: "live w2 = live w" using check_keepsD [OF handle_Logs_live [OF d] l] w1 by simp
  obtain r w3 where r: "httpGet env (hd_BaseURL h @ ''/health'') [] w2 = (r, w3)" by (rule prod.exhaust)
  have "live w3 = live w" using check_keepsD [OF httpGet_keeps [OF daemon_live(1) [OF d]] r] w2 by simp
  then show ?thesis using e l r w1 w2 by (cases e; cases l) (simp_all add: boot_verdict_def Let_def)
qed

lemma check01_live:
  assumes d: "sut_daemon_ok env live"
  shows "live (snd (snd (check01BootInvariant env img nw))) = live (snd nw)"
proof -
  obtain n w where nw: "nw = (n, w)" by (rule prod.exhaust)
  define cfg where "cfg = \<lparr>sc_Image = img, sc_Mode = BootInvariant, sc_AuthSecret = ''conf-test-boot-invariant'',
             sc_Password = '''', sc_ExtraEnv = []\<rparr>"
  obtain r n1 w1 where s: "sut_Start env cfg (n, w) = (r, n1, w1)" by (metis prod.exhaust)
  show ?thesis
  proof (cases r)
    case (Inl e)
    then show ?thesis using sut_Start_live [OF d s] s nw
      by (simp add: check01BootInvariant_def cfg_def [symmetric] Let_def)
  next
    case (Inr h)
    obtain v w2 where v: "boot_verdict env h (cv_now env w) w1 = (v, w2)" by (rule prod.exhaust)
    have "live w2 = live w1" using boot_verdict_live [OF d, of h "cv_now env w" w1] v by simp
    then show ?thesis using sut_Start_live [OF d s] s nw Inr v
      by (simp add: check01BootInvariant_def cfg_def [symmetric] Let_def handle_Cleanup_live [OF d])
  qed
qed

definition step_lives :: "('w \<Rightarrow> string set) \<Rightarrow> 'w suite_step \<Rightarrow> bool" where
  "step_lives live s \<longleftrightarrow> (\<forall>rep nw. live (snd (snd (s rep nw))) = live (snd nw))"

lemma run_steps_live: "list_all (step_lives live) ss \<Longrightarrow> live (snd (snd (run_steps ss rep nw))) = live (snd nw)"
proof (induction ss arbitrary: rep nw)
  case (Cons s ss)
  obtain rep1 nw1 where s: "s rep nw = (rep1, nw1)" by (rule prod.exhaust)
  have "live (snd (snd (s rep nw))) = live (snd nw)" using Cons.prems unfolding step_lives_def list.pred_inject by blast
  then have "live (snd nw1) = live (snd nw)" using s by simp
  then show ?case using Cons.IH [of rep1 nw1] Cons.prems s by simp
qed simp

lemma runSSE_live:
  assumes d: "sut_daemon_ok env live"
  shows "step_lives live (runSSE env img)"
proof -
  have "live (snd (snd (runSSE env img rep nw))) = live (snd nw)" for rep nw
  proof -
    obtain m w1 where m: "mock_Start env (snd nw) = (m, w1)" by (rule prod.exhaust)
    have w1: "live w1 = live (snd nw)"
      using m by (auto simp: mock_Start_def daemon_live(12) [OF d] dest: check_keepsD [OF daemon_live(11) [OF d]]
          split: prod.splits sum.splits)
    show ?thesis
    proof (cases m)
      case (Inr port)
      obtain rep2 n2 w2 where s: "with_sut env (managed_config img [(''FOX_PROXY_ENDPOINT'', mock_ContainerURL port)]) Skip
          sseCheckName ''SSE SUT'' [13, 14] [check13SSEContractEvents env, check14_after_fail env] rep (fst nw, w1) = (rep2, n2, w2)"
        by (metis prod.exhaust)
      have "live w2 = live w1" using with_sut_live [OF d sse_checks_live [OF d]] s by (metis snd_conv)
      then show ?thesis using m Inr s w1 by (simp add: runSSE_def mock_Close_def daemon_live(13) [OF d])
    qed (simp add: runSSE_def m w1)
  qed
  then show ?thesis by (simp add: step_lives_def)
qed

lemma runtime_steps_live:
  assumes d: "sut_daemon_ok env live"
  shows "list_all (step_lives live) (runtime_steps env img)"
proof -
  have "step_lives live (runBootInvariant env img)"
    unfolding step_lives_def runBootInvariant_def
    using check01_live [OF d, of img] by (simp add: case_prod_beta)
  moreover have "step_lives live (runStandalone env img)" "step_lives live (runManaged env img)"
      "step_lives live (runContractVersion env img)" "step_lives live (runSecurity env img)"
    unfolding step_lives_def runStandalone_def runManaged_def runContractVersion_def runSecurity_def
    by (intro allI with_sut_live [OF d] checks_live [OF d])+
  ultimately show ?thesis using runSSE_live [OF d] by (simp add: runtime_steps_def)
qed

lemma pull_moving_live: "sut_daemon_ok env live \<Longrightarrow> live (snd (pull_moving env img w)) = live w"
  using daemon_live(6) [of env live img]
  by (auto simp: pull_moving_def dest: check_keepsD split: prod.splits sum.splits)


definition sample_suite_docker :: "string list docker_client" where
  "sample_suite_docker =
     \<lparr>dc_ImagePull = \<lambda>r w. (Inr (), w), dc_ContainerCreate = \<lambda>cc hc n w. (Inr (CHR ''x'' # concat w), (CHR ''x'' # concat w) # w),
      dc_ContainerStart = \<lambda>i w. (Inr (), w), dc_ContainerStop = \<lambda>i t w. (Inr (), w),
      dc_ContainerRemove = \<lambda>i w. (Inr (), removeAll i w), dc_ContainerInspect = \<lambda>i w. (Inl ErrNotExist, w),
      dc_ContainerLogs = \<lambda>i opts w. (Inr '''', w), dc_ContainerStats = \<lambda>i w. (Inr '''', w),
      dc_DecodeStats = \<lambda>s. Inl ErrNotExist, dc_IsNotFound = \<lambda>e. True, dc_Get = \<lambda>u w. (Inr 200, w), dc_wait = \<lambda>d w. (None, w),
      dc_now = \<lambda>w. 0\<rparr>"

definition sample_suite_env :: "string list suite_env" where
  "sample_suite_env =
     \<lparr>cv_NewRequest = \<lambda>u. None,
      cv_Do = \<lambda>rq w. (Inr \<lparr>cr_Status = 200, cr_Headers = [], cr_Cookies = [], cr_Body = Inr ''''\<rparr>, w),
      cv_decode = \<lambda>s. Inr (AObj []), cv_show = \<lambda>v. '''', cv_now = \<lambda>w. 0,
      sd_docker = sample_suite_docker,
      sd_Ports = \<lambda>i w. (Inr [(internalPort, [\<lparr>pb_HostIP = ''127.0.0.1'', pb_HostPort = ''32768''\<rparr>])], w),
      sd_StdCopy = \<lambda>s. Inr (s, ''''), sd_Wait = \<lambda>i t w. (Exited 1, w), sd_select = \<lambda>w. (Tick, w), sd_pid = 7,
      sd_TempName = \<lambda>w. ''/tmp/fox-conf-1'', sd_fs = \<lambda>w. \<lparr>fs_files = [], fs_dirs = [''/tmp''], fs_faults = []\<rparr>,
      sd_set_fs = \<lambda>s w. w,
      sx_NewClient = None, sx_Listen = \<lambda>w. (Inr 8080, w), sx_failNext = \<lambda>w. False, sx_setFailNext = \<lambda>b w. w, sx_Shutdown = \<lambda>w. w\<rparr>"

lemma concat_fresh: "CHR ''x'' # concat w \<notin> set w"
proof
  assume "CHR ''x'' # concat w \<in> set w"
  then have "length (CHR ''x'' # concat w) \<le> sum_list (map length w)" by (intro member_le_sum_list) (auto simp del: list.size)
  then show False by (simp add: length_concat)
qed

lemma sample_suite_daemon: "sut_daemon_ok sample_suite_env set"
  by (simp add: sut_daemon_ok_def sample_suite_env_def sample_suite_docker_def check_keeps_def concat_fresh)


text \<open>A caller that is cancelled is different: when the start is interrupted and the daemon refuses the
  clean-up of the cancelled context, the container stays.\<close>

lemma cancelled_start_leaks:
  assumes "dc_ContainerCreate (sd_docker env) (sut_container_config cfg) (sut_host_config dataDir) name w = (Inr i, w1)"
    and "\<And>j w. dc_ContainerStart (sd_docker env) j w = (Inl cancelled, w)"
    and "\<And>j t w. dc_ContainerStop (sd_docker env) j t w = (Inl cancelled, w)"
    and "\<And>j w. dc_ContainerRemove (sd_docker env) j w = (Inl cancelled, w)"
    and "\<And>s w. live (sd_set_fs env s w) = live w" "i \<in> live w1"
  shows "\<exists>e w2. sut_create env cfg name dataDir w = (Inl e, w2) \<and> i \<in> live w2"
  using assms by (simp add: sut_create_def sut_boot_def handle_Cleanup_def on_fs_def Let_def split: prod.splits)

text \<open>A registry with a port hides that a reference has no tag, and so means the moving tag \<^verbatim>\<open>latest\<close>.\<close>

lemma moving_tag_behind_port: "\<not> isMovingTag ''localhost:5000/fox''" "isMovingTag ''fox''" "isMovingTag ''fox:latest''"
  by code_simp+

end
