(* ===== verification/Conf_Plugin.thy ===== *)
theory Conf_Plugin
  imports Conf_Runtime
begin

text \<open>
  The plugin suite, \<^verbatim>\<open>conformance/plugin\<close>: eight checks of a deployment plugin against a real daemon. The
  suite is written for any plugin; \<open>plugin_Run\<close> runs it on the Docker plugin, as the program does. The
  deadlines the checks put on the context act in the plugin's calls, and a deferred destroy is given a
  context that is not cancelled; contexts are part of the world.
\<close>

definition testInstanceID :: string where "testInstanceID = ''conf-plug-test''"
definition testPort :: int where "testPort = 9177"
definition plugAuthSecret :: string where "plugAuthSecret = ''conf-plug-secret-4e9a''"
definition plugInstPassword :: string where "plugInstPassword = ''conf-plug-pass-8b1c''"
definition idemInstanceID :: string where "idemInstanceID = ''conf-plug-idem''"

text \<open>The state of a container as the dump of a failed provision reads it.\<close>

record container_state =
  cst_Status :: string
  cst_Running :: bool
  cst_ExitCode :: int
  cst_Error :: string

record 'w plug_env = "'w sut_env" +
  px_NewClient :: "go_error option"
  px_State :: "string \<Rightarrow> 'w \<Rightarrow> container_state result \<times> 'w"
  px_sleep :: "int \<Rightarrow> 'w \<Rightarrow> 'w"
  px_TempDir :: string

section \<open>Helpers\<close>

text \<open>\<^verbatim>\<open>parseImageRef\<close> cuts at the last at sign.\<close>

definition plug_parseImageRef :: "string \<Rightarrow> image_ref" where
  "plug_parseImageRef s =
     (case str_last_index s ''@'' of
        Some i \<Rightarrow> \<lparr>img_Repository = take i s, img_Digest = drop (i + 1) s\<rparr>
      | None \<Rightarrow> \<lparr>img_Repository = s, img_Digest = ''''\<rparr>)"

definition prepareDataDir :: "string \<Rightarrow> fs \<Rightarrow> unit result \<times> fs" where
  "prepareDataDir dataDir s =
     (case os_MkdirAll dataDir s of
        (Inl e, s1) \<Rightarrow> (Inl (Wrap ''create data dir'' e), s1)
      | (Inr _, s1) \<Rightarrow>
          (case os_Chmod dataDir s1 of
             (Inl e, s2) \<Rightarrow> (Inl (Wrap ''chmod data dir'' e), s2)
           | (Inr _, s2) \<Rightarrow>
               (case os_MkdirAll (sut_config_dir dataDir) s2 of
                  (Inl e, s3) \<Rightarrow> (Inl (Wrap ''create config dir'' e), s3)
                | (Inr _, s3) \<Rightarrow> os_Chmod (sut_config_dir dataDir) s3)))"

definition plug_log_section :: "string \<Rightarrow> string \<Rightarrow> string" where
  "plug_log_section name content =
     line_end @ ''--- '' @ name @ '' (last '' @ nat_str (length content) @ '' bytes) ---'' @ line_end @ content"

definition plug_collectProcessLogs :: "string \<Rightarrow> fs \<Rightarrow> string \<times> fs" where
  "plug_collectProcessLogs dataDir s =
     (let logDir = path_Join [dataDir, ''logs''] in
      case os_ReadDir logDir s of
        (Inl e, s1) \<Rightarrow> ('' process-logs-err='' @ error_text e, s1)
      | (Inr entries, s1) \<Rightarrow> process_logs plug_log_section logDir entries s1)"

definition bool_word :: "bool \<Rightarrow> string" where
  "bool_word b = (if b then ''true'' else ''false'')"

definition container_logs_part :: "string result \<Rightarrow> string" where
  "container_logs_part r =
     (case r of Inl _ \<Rightarrow> ''''
      | Inr logs \<Rightarrow> (if logs = '''' then '''' else '' container-logs='' @ line_end @ last_bytes 3000 logs))"

definition dumpContainerDiag :: "('w, 'z) plug_env_scheme \<Rightarrow> string \<Rightarrow> string \<Rightarrow> 'w \<Rightarrow> string \<times> 'w" where
  "dumpContainerDiag env cname dataDir w =
     (if px_NewClient env \<noteq> None then ('''', w)
      else case px_State env cname w of
        (Inl e, w1) \<Rightarrow> ('' [diag: inspect failed: '' @ error_text e @ '']'', w1)
      | (Inr st, w1) \<Rightarrow>
          (case dc_ContainerLogs (sd_docker env) cname
                  \<lparr>lgo_ShowStdout = True, lgo_ShowStderr = True, lgo_Follow = False, lgo_Tail = ''80''\<rparr> w1 of
             (lr, w2) \<Rightarrow>
               (case (if dataDir \<noteq> '''' then on_fs env (plug_collectProcessLogs dataDir) w2 else ('''', w2)) of
                  (procLogs, w3) \<Rightarrow>
                    ('' [diag: status='' @ cst_Status st @ '' running='' @ bool_word (cst_Running st) @
                     '' exitCode='' @ int_str (cst_ExitCode st) @
                     (if cst_Error st \<noteq> '''' then '' error='' @ go_quote (cst_Error st) else '''') @
                     container_logs_part lr @ procLogs @ '']'', w3))))"

definition plug_httpProbe :: "('w, 'z) plug_env_scheme \<Rightarrow> int \<Rightarrow> 'w \<Rightarrow> bool \<times> 'w" where
  "plug_httpProbe env port w = sut_probe env port ''/health'' w"

section \<open>The checks\<close>

definition plug_config :: "string \<Rightarrow> instance_config" where
  "plug_config endpoint =
     \<lparr>ic_AuthSecret = plugAuthSecret, ic_InstancePassword = plugInstPassword, ic_ProxyEndpoint = endpoint, ic_CapabilityFlags = [],
      ic_Env = [], ic_SkillsetPath = '''', ic_DataPlaneURL = '''', ic_PrincipalRole = ''''\<rparr>"

definition plug_request :: "string \<Rightarrow> int \<Rightarrow> image_ref \<Rightarrow> string \<Rightarrow> provision_request" where
  "plug_request iid port imageRef dataDir =
     \<lparr>pr_InstanceID = iid, pr_Image = imageRef, pr_Config = plug_config '''', pr_Port = port, pr_DataDir = dataDir, pr_CloudEnv = []\<rparr>"

definition check01Provision :: "('w, 'z) plug_env_scheme \<Rightarrow> 'w deployment_plugin \<Rightarrow> image_ref \<Rightarrow> string \<Rightarrow> 'w \<Rightarrow> check_result \<times> 'w" where
  "check01Provision env p imageRef dataDir = timedCheck env 1 ''Provision valid config''
     (\<lambda>w. case pl_Provision p (plug_request testInstanceID testPort imageRef dataDir) w of
        (Inl e, w1) \<Rightarrow>
          (case dumpContainerDiag env (containerPrefix @ testInstanceID) dataDir w1 of
             (diag, w2) \<Rightarrow> ((Fail, ''Provision failed: '' @ error_text e @ diag), w2))
      | (Inr _, w1) \<Rightarrow>
          (case plug_httpProbe env testPort w1 of
             (ok, w2) \<Rightarrow> (if ok then pass else (Fail, ''Instance not reachable after provision''), w2)))"

definition check02HealthCheck :: "('w, 'z) plug_env_scheme \<Rightarrow> 'w deployment_plugin \<Rightarrow> 'w \<Rightarrow> check_result \<times> 'w" where
  "check02HealthCheck env p = timedCheck env 2 ''HealthCheck provisioned instance''
     (\<lambda>w. case pl_HealthCheck p testInstanceID w of
        (Inl e, w1) \<Rightarrow> ((Fail, ''HealthCheck error: '' @ error_text e), w1)
      | (Inr st, w1) \<Rightarrow> (if hs_Healthy st then pass else (Fail, ''HealthCheck returned_status Healthy=false''), w1))"

definition check03Configure :: "('w, 'z) plug_env_scheme \<Rightarrow> 'w deployment_plugin \<Rightarrow> 'w \<Rightarrow> check_result \<times> 'w" where
  "check03Configure env p = timedCheck env 3 ''Configure running instance''
     (\<lambda>w. case pl_Configure p testInstanceID (plug_config ''http://example.com:8080'') w of
        (Inl e, w1) \<Rightarrow> ((Fail, ''Configure error: '' @ error_text e), w1) | (Inr _, w1) \<Rightarrow> (pass, w1))"

text \<open>A change of image, then the health of the instance.\<close>

definition changed_and_healthy ::
  "'w deployment_plugin \<Rightarrow> string \<Rightarrow> string \<Rightarrow> ('w \<Rightarrow> unit result \<times> 'w) \<Rightarrow> 'w check" where
  "changed_and_healthy p what after change w =
     (case change w of
        (Inl e, w1) \<Rightarrow> ((Fail, what @ '' error: '' @ error_text e), w1)
      | (Inr _, w1) \<Rightarrow>
          (case pl_HealthCheck p testInstanceID w1 of
             (r, w2) \<Rightarrow>
               (if (case r of Inl _ \<Rightarrow> True | Inr st \<Rightarrow> \<not> hs_Healthy st) then (Fail, ''Instance unhealthy after '' @ after)
                else pass, w2)))"

definition check04Rollout :: "('w, 'z) plug_env_scheme \<Rightarrow> 'w deployment_plugin \<Rightarrow> image_ref \<Rightarrow> 'w \<Rightarrow> check_result \<times> 'w" where
  "check04Rollout env p imageRef = timedCheck env 4 ''Rollout to target image''
     (changed_and_healthy p ''Rollout'' ''rollout'' (pl_Rollout p testInstanceID imageRef))"

definition check05Rollback :: "('w, 'z) plug_env_scheme \<Rightarrow> 'w deployment_plugin \<Rightarrow> image_ref \<Rightarrow> 'w \<Rightarrow> check_result \<times> 'w" where
  "check05Rollback env p imageRef = timedCheck env 5 ''Rollback to previous image''
     (changed_and_healthy p ''Rollback'' ''rollback'' (pl_Rollback p testInstanceID imageRef))"

definition check06Destroy :: "('w, 'z) plug_env_scheme \<Rightarrow> 'w deployment_plugin \<Rightarrow> 'w \<Rightarrow> check_result \<times> 'w" where
  "check06Destroy env p = timedCheck env 6 ''Destroy instance''
     (\<lambda>w. case pl_Destroy p testInstanceID w of
        (Inl e, w1) \<Rightarrow> ((Fail, ''Destroy error: '' @ error_text e), w1)
      | (Inr _, w1) \<Rightarrow>
          (case plug_httpProbe env testPort (px_sleep env 500000000 w1) of
             (ok, w2) \<Rightarrow> (if ok then (Fail, ''Instance still reachable after destroy'') else pass, w2)))"

definition check07Idempotent :: "('w, 'z) plug_env_scheme \<Rightarrow> 'w deployment_plugin \<Rightarrow> image_ref \<Rightarrow> string \<Rightarrow> 'w \<Rightarrow> check_result \<times> 'w" where
  "check07Idempotent env p imageRef dataDir = timedCheck env 7 ''Idempotent provision (same ID twice)''
     (\<lambda>w. let rq = plug_request idemInstanceID (testPort + 1) imageRef dataDir in
      case pl_Provision p rq w of
        (Inl e, w1) \<Rightarrow> ((Fail, ''First provision failed: '' @ error_text e), w1)
      | (Inr _, w1) \<Rightarrow>
          (case pl_Provision p rq (snd (pl_Destroy p idemInstanceID w1)) of
             (Inl e, w2) \<Rightarrow> ((Fail, ''Second provision failed: '' @ error_text e), w2)
           | (Inr _, w2) \<Rightarrow> (pass, w2)))"

definition check08NonexistentHealth :: "('w, 'z) plug_env_scheme \<Rightarrow> 'w deployment_plugin \<Rightarrow> 'w \<Rightarrow> check_result \<times> 'w" where
  "check08NonexistentHealth env p = timedCheck env 8 ''HealthCheck nonexistent ID returns error''
     (\<lambda>w. case pl_HealthCheck p ''conf-nonexistent-instance-xyz'' w of
        (r, w1) \<Rightarrow> (if isl r then pass else (Fail, ''HealthCheck did not return error for nonexistent ID''), w1))"

section \<open>The suite\<close>

definition plug_dir :: "('w, 'z) plug_env_scheme \<Rightarrow> string list \<Rightarrow> string" where
  "plug_dir env segs = path_Join ([px_TempDir env, ''fox-conformance-plugin''] @ segs)"

definition runLifecycle ::
  "('w, 'z) plug_env_scheme \<Rightarrow> 'w deployment_plugin \<Rightarrow> image_ref \<Rightarrow> string \<Rightarrow> suite_report \<Rightarrow> 'w \<Rightarrow> suite_report \<times> 'w" where
  "runLifecycle env p imageRef dataDir rep w =
     (case run_all
             [check01Provision env p imageRef dataDir, check02HealthCheck env p, check03Configure env p,
              check04Rollout env p imageRef, check05Rollback env p imageRef, check06Destroy env p] rep w of
        (rep1, w1) \<Rightarrow> (rep1, snd (pl_Destroy p testInstanceID w1)))"

definition runIdempotent ::
  "('w, 'z) plug_env_scheme \<Rightarrow> 'w deployment_plugin \<Rightarrow> image_ref \<Rightarrow> suite_report \<Rightarrow> 'w \<Rightarrow> suite_report \<times> 'w" where
  "runIdempotent env p imageRef rep w =
     (let dataDir = plug_dir env [''idem-test''] in
      case on_fs env (prepareDataDir dataDir) w of
        (Inl e, w1) \<Rightarrow>
          (Suite_Add \<lparr>ck_Number = 7, ck_Name = ''Idempotent provision (same ID twice)'', ck_Status = Fail, ck_Duration = 0,
              ck_Detail = ''prepare data dir: '' @ error_text e\<rparr> rep, w1)
      | (Inr _, w1) \<Rightarrow>
          (case check07Idempotent env p imageRef dataDir w1 of
             (r, w2) \<Rightarrow>
               (Suite_Add r rep, snd (on_fs env (os_RemoveAll dataDir) (snd (pl_Destroy p idemInstanceID w2))))))"

definition runErrorHandling ::
  "('w, 'z) plug_env_scheme \<Rightarrow> 'w deployment_plugin \<Rightarrow> suite_report \<Rightarrow> 'w \<Rightarrow> suite_report \<times> 'w" where
  "runErrorHandling env p rep w = (case check08NonexistentHealth env p w of (r, w1) \<Rightarrow> (Suite_Add r rep, w1))"

definition plug_sections ::
  "('w, 'z) plug_env_scheme \<Rightarrow> 'w deployment_plugin \<Rightarrow> image_ref \<Rightarrow> string \<Rightarrow> suite_report \<Rightarrow> 'w \<Rightarrow> suite_report \<times> 'w" where
  "plug_sections env p imageRef dataDir rep w =
     (case runLifecycle env p imageRef dataDir rep w of
        (rep1, w1) \<Rightarrow>
          (case runIdempotent env p imageRef rep1 w1 of (rep2, w2) \<Rightarrow> runErrorHandling env p rep2 w2))"

text \<open>The clean-up of the whole directory is deferred after it has been prepared.\<close>

definition plugin_Run :: "('w, 'z) plug_env_scheme \<Rightarrow> string \<Rightarrow> 'w \<Rightarrow> suite_report result \<times> 'w" where
  "plugin_Run env img w =
     (case px_NewClient env of
        Some e \<Rightarrow> (Inl (Wrap ''conformance: docker client'' e), w)
      | None \<Rightarrow>
          (case pull_moving env img w of
             (Inl e, w1) \<Rightarrow> (Inl e, w1)
           | (Inr _, w1) \<Rightarrow>
               (let dataDir = plug_dir env [testInstanceID];
                    w2 = snd (on_fs env (os_RemoveAll dataDir) w1) in
                case on_fs env (prepareDataDir dataDir) w2 of
                  (Inl e, w3) \<Rightarrow> (Inl (Wrap ''conformance'' e), w3)
                | (Inr _, w3) \<Rightarrow>
                    (case plug_sections env (docker_plugin (sd_docker env)) (plug_parseImageRef img) dataDir
                            \<lparr>su_Image = img, su_Results = [], su_Elapsed = 0\<rparr> w3 of
                       (rep, w4) \<Rightarrow>
                         (Inr (rep\<lparr>su_Elapsed := cv_now env w4 - cv_now env w1\<rparr>), snd (on_fs env (os_RemoveAll (plug_dir env [])) w4))))))"

section \<open>What a report shows\<close>

definition plugin_checks :: "(int \<times> string) list" where
  "plugin_checks =
     [(1, ''Provision valid config''), (2, ''HealthCheck provisioned instance''), (3, ''Configure running instance''),
      (4, ''Rollout to target image''), (5, ''Rollback to previous image''), (6, ''Destroy instance''),
      (7, ''Idempotent provision (same ID twice)''), (8, ''HealthCheck nonexistent ID returns error'')]"

lemma runLifecycle_ids:
  "report_ids (fst (runLifecycle env p imageRef dataDir rep w)) = report_ids rep @ take 6 plugin_checks"
proof -
  have "list_all2 (\<lambda>c i. \<forall>w. check_id (fst (c w)) = i)
      [check01Provision env p imageRef dataDir, check02HealthCheck env p, check03Configure env p,
       check04Rollout env p imageRef, check05Rollback env p imageRef, check06Destroy env p]
      (take 6 plugin_checks)"
    by (simp add: plugin_checks_def check01Provision_def check02HealthCheck_def check03Configure_def check04Rollout_def
        check05Rollback_def check06Destroy_def)
  from run_all_ids [OF this] show ?thesis by (simp add: runLifecycle_def case_prod_beta)
qed

lemma runIdempotent_ids:
  "report_ids (fst (runIdempotent env p imageRef rep w)) = report_ids rep @ [plugin_checks ! 6]"
proof -
  obtain d w1 where d: "on_fs env (prepareDataDir (plug_dir env [''idem-test''])) w = (d, w1)" by (rule prod.exhaust)
  show ?thesis
  proof (cases d)
    case (Inl e)
    then show ?thesis using d by (simp add: runIdempotent_def Let_def plugin_checks_def check_id_def)
  next
    case (Inr u)
    obtain r w2 where c: "check07Idempotent env p imageRef (plug_dir env [''idem-test'']) w1 = (r, w2)" by (rule prod.exhaust)
    have "check_id (fst (check07Idempotent env p imageRef (plug_dir env [''idem-test'']) w1)) = plugin_checks ! 6"
      by (simp add: check07Idempotent_def plugin_checks_def)
    then show ?thesis using d Inr c by (simp add: runIdempotent_def Let_def)
  qed
qed

lemma runErrorHandling_ids: "report_ids (fst (runErrorHandling env p rep w)) = report_ids rep @ [plugin_checks ! 7]"
proof -
  obtain r w1 where c: "check08NonexistentHealth env p w = (r, w1)" by (rule prod.exhaust)
  have "check_id (fst (check08NonexistentHealth env p w)) = plugin_checks ! 7"
    by (simp add: check08NonexistentHealth_def plugin_checks_def)
  then show ?thesis using c by (simp add: runErrorHandling_def)
qed

lemma plugin_suite_complete:
  "report_ids (fst (plug_sections env p imageRef dataDir rep w)) = report_ids rep @ plugin_checks"
proof -
  obtain rep1 w1 where 1: "runLifecycle env p imageRef dataDir rep w = (rep1, w1)" by (rule prod.exhaust)
  obtain rep2 w2 where 2: "runIdempotent env p imageRef rep1 w1 = (rep2, w2)" by (rule prod.exhaust)
  have "take 6 plugin_checks @ [plugin_checks ! 6] @ [plugin_checks ! 7] = plugin_checks"
    by (simp add: plugin_checks_def)
  moreover have "report_ids rep1 = report_ids rep @ take 6 plugin_checks"
    using runLifecycle_ids [of env p imageRef dataDir rep w] 1 by simp
  moreover have "report_ids rep2 = report_ids rep1 @ [plugin_checks ! 6]" using runIdempotent_ids [of env p imageRef rep1 w1] 2 by simp
  ultimately show ?thesis using runErrorHandling_ids [of env p rep2 w2] 1 2 by (simp add: plug_sections_def)
qed

text \<open>The rollout and the rollback are only judged by the health of the instance after them, and both are
  given the image that runs already: a plugin that does nothing passes whenever its instance is healthy.\<close>

definition rollout_ignored :: "'w deployment_plugin \<Rightarrow> 'w deployment_plugin" where
  "rollout_ignored p = p\<lparr>pl_Rollout := \<lambda>i t w. (Inr (), w), pl_Rollback := \<lambda>i t w. (Inr (), w)\<rparr>"

theorem ignored_rollout_passes:
  assumes "pl_HealthCheck p testInstanceID w = (Inr st, w1)" "hs_Healthy st"
  shows "ck_Status (fst (check04Rollout env (rollout_ignored p) imageRef w)) = Pass"
    and "ck_Status (fst (check05Rollback env (rollout_ignored p) imageRef w)) = Pass"
  using assms
  by (simp_all add: check04Rollout_def check05Rollback_def timedCheck_def changed_and_healthy_def rollout_ignored_def pass_def)

text \<open>The check of an idempotent provision removes the instance in between: a second provision of a container
  that exists, which the Docker plugin refuses, is never asked for.\<close>

lemma idempotent_check_destroys:
  assumes "pl_Provision p (plug_request idemInstanceID (testPort + 1) imageRef dataDir) w = (Inr u, w1)"
    and "pl_Destroy p idemInstanceID w1 = (d, w2)"
    and "pl_Provision p (plug_request idemInstanceID (testPort + 1) imageRef dataDir) w2 = (Inr v, w3)"
  shows "ck_Status (fst (check07Idempotent env p imageRef dataDir w)) = Pass"
  using assms by (simp add: check07Idempotent_def timedCheck_def Let_def pass_def)

end
