(* ===== verification/Conf_Commands.thy ===== *)
theory Conf_Commands
  imports Conf_Plugin
begin

text \<open>The commands \<^verbatim>\<open>conformance run\<close> and \<^verbatim>\<open>conformance plugin\<close> of \<^verbatim>\<open>cmd/fox-control/main.go\<close>: the text printed
  and the error returned_status.\<close>

definition report_outcome :: "string \<Rightarrow> suite_report result \<Rightarrow> string \<times> go_error option" where
  "report_outcome what r =
     (case r of
        Inl e \<Rightarrow> ('''', Some e)
      | Inr rep \<Rightarrow>
          (Suite_Format rep,
           if Suite_OK rep then None else Some (Errorf (nat_str (Suite_Failed rep) @ '' '' @ what @ '' failed''))))"

definition conformance_run_cmd :: "('w, 'z) suite_env_scheme \<Rightarrow> string \<Rightarrow> int \<times> 'w \<Rightarrow> (string \<times> go_error option) \<times> int \<times> 'w" where
  "conformance_run_cmd env img nw =
     (case runtime_Run env img nw of (r, nw1) \<Rightarrow> (report_outcome ''conformance checks'' r, nw1))"

definition conformance_plugin_cmd :: "('w, 'z) plug_env_scheme \<Rightarrow> string \<Rightarrow> 'w \<Rightarrow> (string \<times> go_error option) \<times> 'w" where
  "conformance_plugin_cmd env img w =
     (case plugin_Run env img w of (r, w1) \<Rightarrow> (report_outcome ''plugin conformance checks'' r, w1))"

text \<open>A command fails exactly when its suite could not run or one of its checks failed; a check that was
  skipped does not count.\<close>

lemma report_outcome_fails_iff:
  "snd (report_outcome what r) \<noteq> None \<longleftrightarrow> (case r of Inl e \<Rightarrow> True | Inr rep \<Rightarrow> \<exists>c \<in> set (su_Results rep). ck_Status c = Fail)"
  by (cases r) (auto simp: report_outcome_def Suite_OK_iff)

end
