(* ===== verification/Conf_Dataplane.thy ===== *)
theory Conf_Dataplane
  imports Conf_Runtime Data_Plane
begin

text \<open>
  The data plane suite, \<^verbatim>\<open>conformance/dataplane\<close>: ten checks of a data plane behind a URL. The second half
  lets the suite meet the data plane of this development: \<open>dp_conf_env\<close> answers its requests with
  \<open>serve_data_plane\<close>, the JSON text of requests and responses being an argument (\<open>dp_codec\<close>).
\<close>

section \<open>Requests\<close>

definition dpc_send ::
  "('w, 'z) conf_env_scheme \<Rightarrow> string \<Rightarrow> string \<Rightarrow> string \<Rightarrow> (string \<times> string) list \<Rightarrow> 'w \<Rightarrow> (int \<times> string) result \<times> 'w" where
  "dpc_send env meth url body headers w =
     (case do_request env \<lparr>cq_Method = meth, cq_URL = url, cq_Headers = headers, cq_Body = body, cq_Follow = True\<rparr> w of
        (Inl e, w1) \<Rightarrow> (Inl e, w1)
      | (Inr r, w1) \<Rightarrow> (case cr_Body r of Inl e \<Rightarrow> Inl e | Inr b \<Rightarrow> Inr (cr_Status r, b), w1))"

definition dpc_httpGet :: "('w, 'z) conf_env_scheme \<Rightarrow> string \<Rightarrow> (string \<times> string) list \<Rightarrow> 'w \<Rightarrow> (int \<times> string) result \<times> 'w" where
  "dpc_httpGet env url headers = dpc_send env ''GET'' url '''' headers"

definition dpc_httpPost ::
  "('w, 'z) conf_env_scheme \<Rightarrow> string \<Rightarrow> string \<Rightarrow> (string \<times> string) list \<Rightarrow> 'w \<Rightarrow> (int \<times> string) result \<times> 'w" where
  "dpc_httpPost env url body headers = dpc_send env ''POST'' url body ((''Content-Type'', ''application/json'') # headers)"

definition dpc_httpDelete :: "('w, 'z) conf_env_scheme \<Rightarrow> string \<Rightarrow> (string \<times> string) list \<Rightarrow> 'w \<Rightarrow> (int \<times> string) result \<times> 'w" where
  "dpc_httpDelete env url headers = dpc_send env ''DELETE'' url '''' headers"

definition authHeader :: "string \<Rightarrow> (string \<times> string) list" where
  "authHeader secret = [(''Authorization'', ''Bearer '' @ secret)]"

definition judged :: "('w \<Rightarrow> (int \<times> string) result \<times> 'w) \<Rightarrow> (int \<Rightarrow> string \<Rightarrow> check_status \<times> string) \<Rightarrow> 'w check" where
  "judged send judge w =
     (case send w of (Inl e, w1) \<Rightarrow> ((Fail, error_text e), w1) | (Inr (st, b), w1) \<Rightarrow> (judge st b, w1))"

text \<open>A later step of a check: its failure names the step.\<close>

definition next_step ::
  "string \<Rightarrow> ('w \<Rightarrow> (int \<times> string) result \<times> 'w) \<Rightarrow> (int \<Rightarrow> string \<Rightarrow> (check_status \<times> string) option) \<Rightarrow> 'w check \<Rightarrow> 'w check" where
  "next_step what send refuse rest w =
     (case send w of
        (Inl e, w1) \<Rightarrow> ((Fail, what @ '': '' @ error_text e), w1)
      | (Inr (st, b), w1) \<Rightarrow> (case refuse st b of Some c \<Rightarrow> (c, w1) | None \<Rightarrow> rest w1))"

definition wants :: "string \<Rightarrow> int \<Rightarrow> int \<Rightarrow> string \<Rightarrow> (check_status \<times> string) option" where
  "wants what code st b =
     (if st \<noteq> code then Some (Fail, what @ '': expected '' @ int_str code @ '', got '' @ int_str st) else None)"

section \<open>The checks\<close>

definition has_status :: "('w, 'z) conf_env_scheme \<Rightarrow> string \<Rightarrow> check_status \<times> string" where
  "has_status env b =
     in_object env b (\<lambda>m. if has_field m ''status'' then pass else (Fail, ''missing field: status''))"

definition dp_check01Health :: "('w, 'z) conf_env_scheme \<Rightarrow> string \<Rightarrow> 'w \<Rightarrow> check_result \<times> 'w" where
  "dp_check01Health env base = timedCheck env 1 ''GET /v1/health''
     (judged (dpc_httpGet env (base @ ''/v1/health'') []) (\<lambda>st b. if st \<noteq> 200 then expected_200 st else has_status env b))"

definition dp_check02Readyz :: "('w, 'z) conf_env_scheme \<Rightarrow> string \<Rightarrow> 'w \<Rightarrow> check_result \<times> 'w" where
  "dp_check02Readyz env base = timedCheck env 2 ''GET /v1/readyz''
     (judged (dpc_httpGet env (base @ ''/v1/readyz'') [])
        (\<lambda>st b. if st \<noteq> 200 \<and> st \<noteq> 503 then (Fail, ''expected 200 or 503, got '' @ int_str st) else has_status env b))"

definition wants_401 :: "string \<Rightarrow> int \<Rightarrow> string \<Rightarrow> check_status \<times> string" where
  "wants_401 msg st b =
     (if st = 200 then (Fail, msg) else if st \<noteq> 401 then (Fail, ''expected 401, got '' @ int_str st) else pass)"

definition dp_check03AdminAuthRequired :: "('w, 'z) conf_env_scheme \<Rightarrow> string \<Rightarrow> 'w \<Rightarrow> check_result \<times> 'w" where
  "dp_check03AdminAuthRequired env base = timedCheck env 3 ''Admin endpoints require auth''
     (judged (dpc_httpGet env (base @ ''/v1/admin/sources'') []) (wants_401 ''expected 401, got 200 (admin endpoint is ungated)''))"

definition dp_check04AdminInvalidAuth :: "('w, 'z) conf_env_scheme \<Rightarrow> string \<Rightarrow> 'w \<Rightarrow> check_result \<times> 'w" where
  "dp_check04AdminInvalidAuth env base = timedCheck env 4 ''Admin: invalid bearer rejected''
     (judged (dpc_httpGet env (base @ ''/v1/admin/sources'') [(''Authorization'', ''Bearer wrong-secret'')])
        (\<lambda>st b. if st = 200 then (Fail, ''expected 401, got 200 (invalid bearer was accepted)'') else pass))"

definition json_array :: "('w, 'z) conf_env_scheme \<Rightarrow> int \<Rightarrow> string \<Rightarrow> check_status \<times> string" where
  "json_array env st b =
     (if st \<noteq> 200 then expected_200 st
      else case unmarshal_slice env b of Inl e \<Rightarrow> (Fail, ''expected JSON array: '' @ error_text e) | Inr _ \<Rightarrow> pass)"

definition dp_check05AdminListSources :: "('w, 'z) conf_env_scheme \<Rightarrow> string \<Rightarrow> string \<Rightarrow> 'w \<Rightarrow> check_result \<times> 'w" where
  "dp_check05AdminListSources env base secret = timedCheck env 5 ''Admin: list sources''
     (judged (dpc_httpGet env (base @ ''/v1/admin/sources'') (authHeader secret)) (json_array env))"

definition json_member :: "string \<Rightarrow> string \<Rightarrow> string" where
  "json_member k v = go_quote k @ '':'' @ go_quote v"

definition createBody :: string where
  "createBody =
     ''{'' @ json_member ''id'' ''conf-test-src'' @ '','' @ json_member ''type'' ''rest'' @ '','' @ json_member ''name'' ''Conformance Test'' @
     '','' @ json_member ''collection'' ''conf-test'' @ '','' @ go_quote ''config'' @ '':{'' @ json_member ''url'' ''http://127.0.0.1:0/noop'' @ ''}}''"

definition got_source :: "('w, 'z) conf_env_scheme \<Rightarrow> int \<Rightarrow> string \<Rightarrow> (check_status \<times> string) option" where
  "got_source env st b =
     (if st \<noteq> 200 then wants ''get'' 200 st b
      else case unmarshal_map env b of
        Inl e \<Rightarrow> Some (Fail, ''get: invalid JSON: '' @ error_text e)
      | Inr src \<Rightarrow>
          (if field src ''id'' \<noteq> AStr ''conf-test-src''
           then Some (Fail, ''get: id = '' @ cv_show env (field src ''id'') @ '', want conf-test-src'') else None))"

definition source_crud :: "('w, 'z) conf_env_scheme \<Rightarrow> string \<Rightarrow> string \<Rightarrow> 'w check" where
  "source_crud env base secret =
     (let one = base @ ''/v1/admin/sources/conf-test-src''; auth = authHeader secret in
      next_step ''create'' (dpc_httpPost env (base @ ''/v1/admin/sources'') createBody auth) (wants ''create'' 201)
        (next_step ''get'' (dpc_httpGet env one auth) (got_source env)
          (next_step ''delete'' (dpc_httpDelete env one auth) (wants ''delete'' 200)
            (next_step ''verify delete'' (dpc_httpGet env one auth) (wants ''verify delete'' 404) (\<lambda>w. (pass, w))))))"

definition dp_check06SourceCRUD :: "('w, 'z) conf_env_scheme \<Rightarrow> string \<Rightarrow> string \<Rightarrow> 'w \<Rightarrow> check_result \<times> 'w" where
  "dp_check06SourceCRUD env base secret = timedCheck env 6 ''Source create-get-delete round trip'' (source_crud env base secret)"

definition dp_check07QueryAuthRequired :: "('w, 'z) conf_env_scheme \<Rightarrow> string \<Rightarrow> 'w \<Rightarrow> check_result \<times> 'w" where
  "dp_check07QueryAuthRequired env base = timedCheck env 7 ''Query endpoint requires auth''
     (judged (dpc_httpPost env (base @ ''/v1/query'') (''{'' @ json_member ''query'' ''test'' @ ''}'') [])
        (wants_401 ''expected 401, got 200 (query endpoint is ungated)''))"

definition query_answer :: "('w, 'z) conf_env_scheme \<Rightarrow> int \<Rightarrow> string \<Rightarrow> check_status \<times> string" where
  "query_answer env st b =
     (if st = 503 then (Skip, ''embedding/vector service unavailable'')
      else if st \<noteq> 200 then (Fail, ''expected 200, got '' @ int_str st @ '': '' @ b)
      else in_object env b (\<lambda>m. if has_field m ''results'' then pass else (Fail, ''missing field: results'')))"

definition dp_check08QueryWithAuth :: "('w, 'z) conf_env_scheme \<Rightarrow> string \<Rightarrow> string \<Rightarrow> 'w \<Rightarrow> check_result \<times> 'w" where
  "dp_check08QueryWithAuth env base secret = timedCheck env 8 ''Query with valid auth returns results''
     (judged (dpc_httpPost env (base @ ''/v1/query'') (''{'' @ json_member ''query'' ''conformance probe'' @ ''}'') (authHeader secret))
        (query_answer env))"

definition dp_check09SourceListConsistency :: "('w, 'z) conf_env_scheme \<Rightarrow> string \<Rightarrow> string \<Rightarrow> 'w \<Rightarrow> check_result \<times> 'w" where
  "dp_check09SourceListConsistency env base secret = timedCheck env 9 ''Source list returns JSON array''
     (judged (dpc_httpGet env (base @ ''/v1/sources'') (authHeader secret)) (json_array env))"

definition health_content_type :: "('w, 'z) conf_env_scheme \<Rightarrow> string \<Rightarrow> 'w check" where
  "health_content_type env base w =
     (case do_request env \<lparr>cq_Method = ''GET'', cq_URL = base @ ''/v1/health'', cq_Headers = [], cq_Body = '''', cq_Follow = True\<rparr> w of
        (Inl e, w1) \<Rightarrow> ((Fail, error_text e), w1)
      | (Inr r, w1) \<Rightarrow>
          (let ct = response_header r ''Content-Type'' in
           (if ct \<noteq> ''application/json'' then (Fail, ''Content-Type = '' @ go_quote ct @ '', want application/json'') else pass, w1)))"

definition dp_check10HealthContentType :: "('w, 'z) conf_env_scheme \<Rightarrow> string \<Rightarrow> 'w \<Rightarrow> check_result \<times> 'w" where
  "dp_check10HealthContentType env base = timedCheck env 10 ''Health returns application/json'' (health_content_type env base)"

definition dataplane_checks :: "('w, 'z) conf_env_scheme \<Rightarrow> string \<Rightarrow> string \<Rightarrow> ('w \<Rightarrow> check_result \<times> 'w) list" where
  "dataplane_checks env base secret =
     [dp_check01Health env base, dp_check02Readyz env base, dp_check03AdminAuthRequired env base,
      dp_check04AdminInvalidAuth env base, dp_check05AdminListSources env base secret, dp_check06SourceCRUD env base secret,
      dp_check07QueryAuthRequired env base, dp_check08QueryWithAuth env base secret,
      dp_check09SourceListConsistency env base secret, dp_check10HealthContentType env base]"

definition dataplane_Run :: "('w, 'z) conf_env_scheme \<Rightarrow> string \<Rightarrow> string \<Rightarrow> 'w \<Rightarrow> suite_report \<times> 'w" where
  "dataplane_Run env base secret w =
     (case run_all (dataplane_checks env base secret) \<lparr>su_Image = base, su_Results = [], su_Elapsed = 0\<rparr> w of
        (rep, w1) \<Rightarrow> (rep\<lparr>su_Elapsed := cv_now env w1 - cv_now env w\<rparr>, w1))"

section \<open>The suite against the data plane\<close>

record dp_codec =
  co_query :: "string \<Rightarrow> query_request result"
  co_source :: "string \<Rightarrow> source_request result"
  co_encode :: "dp_json \<Rightarrow> string"
  co_decode :: "string \<Rightarrow> jany result"

definition dp_incoming :: "dp_codec \<Rightarrow> string \<Rightarrow> conf_request \<Rightarrow> dp_body http_incoming" where
  "dp_incoming co base rq =
     \<lparr>rq_Method = cq_Method rq, rq_Host = ''dp'', rq_Path = tl (split_on (CHR ''/'') (drop (length base) (cq_URL rq))),
      rq_Query = [], rq_Headers = cq_Headers rq, rq_Cookies = [], rq_RemoteAddr = ''127.0.0.1:1'', rq_TLS = False,
      rq_Body = \<lparr>bd_query = co_query co (cq_Body rq), bd_source = co_source co (cq_Body rq)\<rparr>\<rparr>"

definition dp_outgoing :: "dp_codec \<Rightarrow> dp_reply \<Rightarrow> conf_response" where
  "dp_outgoing co rep =
     \<lparr>cr_Status = rs_Code rep, cr_Headers = rs_Headers rep, cr_Cookies = [], cr_Body = Inr (co_encode co (rs_Body rep))\<rparr>"

definition dp_conf_env :: "'w dp_server \<Rightarrow> dp_codec \<Rightarrow> string \<Rightarrow> (dp_state \<times> 'w) conf_env" where
  "dp_conf_env s co base =
     \<lparr>cv_NewRequest = \<lambda>u. None,
      cv_Do = \<lambda>rq (st, w). case serve_data_plane s (dp_incoming co base rq) st w of
          None \<Rightarrow> (Inl (Errorf ''Client.Timeout exceeded while awaiting headers''), st, w)
        | Some (rep, st1, w1) \<Rightarrow> (Inr (dp_outgoing co rep), st1, w1),
      cv_decode = co_decode co, cv_show = \<lambda>v. '''', cv_now = \<lambda>w. 0\<rparr>"

lemma send_dp:
  "dpc_send (dp_conf_env s co base) m (base @ p) body hs (st, w) =
     (case serve_data_plane s (dp_incoming co base \<lparr>cq_Method = m, cq_URL = base @ p, cq_Headers = hs, cq_Body = body, cq_Follow = True\<rparr>) st w of
        None \<Rightarrow> (Inl (Errorf ''Client.Timeout exceeded while awaiting headers''), st, w)
      | Some (rep, st1, w1) \<Rightarrow> (Inr (rs_Code rep, co_encode co (rs_Body rep)), st1, w1))"
  by (simp add: dpc_send_def do_request_def dp_conf_env_def dp_outgoing_def split: option.splits prod.splits)

definition probe_request :: "dp_codec \<Rightarrow> string \<Rightarrow> string list \<Rightarrow> (string \<times> string) list \<Rightarrow> string \<Rightarrow> dp_body http_incoming" where
  "probe_request co m path hs body =
     \<lparr>rq_Method = m, rq_Host = ''dp'', rq_Path = path, rq_Query = [], rq_Headers = hs, rq_Cookies = [],
      rq_RemoteAddr = ''127.0.0.1:1'', rq_TLS = False,
      rq_Body = \<lparr>bd_query = co_query co body, bd_source = co_source co body\<rparr>\<rparr>"

lemma incoming_path:
  "dp_incoming co base \<lparr>cq_Method = m, cq_URL = base @ p, cq_Headers = hs, cq_Body = body, cq_Follow = True\<rparr> =
     probe_request co m (tl (split_on (CHR ''/'') p)) hs body"
  by (simp add: dp_incoming_def probe_request_def)

lemma conf_paths:
  "tl (split_on (CHR ''/'') ''/v1/admin/sources'') = [''v1'', ''admin'', ''sources'']"
  "tl (split_on (CHR ''/'') ''/v1/admin/sources/conf-test-src'') = [''v1'', ''admin'', ''sources'', ''conf-test-src'']"
  "tl (split_on (CHR ''/'') ''/v1/query'') = [''v1'', ''query'']"
  by code_simp+

lemma probe_request_simps [simp]:
  "rq_Method (probe_request co m path hs body) = m" "rq_Path (probe_request co m path hs body) = path"
  "rq_Headers (probe_request co m path hs body) = hs"
  "rq_Body (probe_request co m path hs body) = \<lparr>bd_query = co_query co body, bd_source = co_source co body\<rparr>"
  by (simp_all add: probe_request_def)

lemma admin_refuses:
  assumes "rq_Path r = ''v1'' # ''admin'' # x # rest" "Header_Get r ''Authorization'' \<noteq> ''Bearer '' @ dp_AdminSecret (dp_cfg s)"
  shows "serve_data_plane s r st w = answer 401 (JError ''unauthorized'') st w"
  using assms(2) HasPrefix_drop [of "Header_Get r ''Authorization''" "''Bearer ''"] route_admin [OF assms(1), of s st w]
  by (auto simp: requireAdmin_def dp_unauthorized_def Let_def)

lemma admin_accepts:
  assumes "rq_Path r = ''v1'' # ''admin'' # x # rest" "Header_Get r ''Authorization'' = ''Bearer '' @ dp_AdminSecret (dp_cfg s)"
    and "dp_AdminSecret (dp_cfg s) \<noteq> ''''"
  shows "serve_data_plane s r st w = serve_admin s r st w"
  using assms(3) HasPrefix_drop [of "Header_Get r ''Authorization''" "''Bearer ''" "dp_AdminSecret (dp_cfg s)"]
    route_admin [OF assms(1), of s st w]
  by (simp add: requireAdmin_def assms(2))

text \<open>The data plane passes the suite's three checks of its gates, whatever it stores and whatever its
  services answer: without a credential the admin routes and the query route are refused, and so is a wrong
  bearer credential (provided the configured secret is not the very string the suite tries as a wrong one).
\<close>

theorem data_plane_passes_gate_checks:
  assumes "dp_AdminSecret (dp_cfg s) \<noteq> ''wrong-secret''"
  shows "ck_Status (fst (dp_check03AdminAuthRequired (dp_conf_env s co base) base (st, w))) = Pass \<and>
    ck_Status (fst (dp_check04AdminInvalidAuth (dp_conf_env s co base) base (st, w))) = Pass \<and>
    ck_Status (fst (dp_check07QueryAuthRequired (dp_conf_env s co base) base (st, w))) = Pass"
proof (intro conjI)
  let ?admin = "\<lambda>hs. probe_request co ''GET'' [''v1'', ''admin'', ''sources''] hs ''''"
  have none: "serve_data_plane s (?admin []) st w = answer 401 (JError ''unauthorized'') st w"
    by (rule admin_refuses) (simp_all add: Header_Get_def assoc_get_def)
  have wrong: "serve_data_plane s (?admin [(''Authorization'', ''Bearer wrong-secret'')]) st w = answer 401 (JError ''unauthorized'') st w"
    by (rule admin_refuses) (use assms in \<open>simp_all add: Header_Get_def assoc_get_def\<close>)
  show "ck_Status (fst (dp_check03AdminAuthRequired (dp_conf_env s co base) base (st, w))) = Pass"
    by (simp add: dp_check03AdminAuthRequired_def timedCheck_def judged_def dpc_httpGet_def send_dp incoming_path conf_paths none
        answer_def dp_writeJSON_def wants_401_def pass_def)
  show "ck_Status (fst (dp_check04AdminInvalidAuth (dp_conf_env s co base) base (st, w))) = Pass"
    by (simp add: dp_check04AdminInvalidAuth_def timedCheck_def judged_def dpc_httpGet_def send_dp incoming_path conf_paths wrong
        answer_def dp_writeJSON_def pass_def)
  show "ck_Status (fst (dp_check07QueryAuthRequired (dp_conf_env s co base) base (st, w))) = Pass"
  proof -
    let ?r = "probe_request co ''POST'' [''v1'', ''query''] [(''Content-Type'', ''application/json'')] (''{'' @ json_member ''query'' ''test'' @ ''}'')"
    have "serve_data_plane s ?r st w = requireQueryAuth s (serve_queries s) ?r st w" by (rule route_query [where p = "''query''"]) simp_all
    also have "\<dots> = answer 401 (JError ''unauthorized'') st w"
      by (simp add: requireQueryAuth_def query_credential_def bearer_token_def Header_Get_def assoc_get_def dp_unauthorized_def HasPrefix_def)
    finally show ?thesis
      by (simp add: dp_check07QueryAuthRequired_def timedCheck_def judged_def dpc_httpPost_def send_dp incoming_path conf_paths
          answer_def dp_writeJSON_def wants_401_def pass_def)
  qed
qed

text \<open>What the suite relies on of the JSON text: its own request decodes to what it wrote, and the data plane's
  answers decode to what they encode.\<close>

definition conf_source :: source_request where
  "conf_source =
     \<lparr>sr_ID = ''conf-test-src'', sr_Type = ''rest'', sr_Name = ''Conformance Test'', sr_Collection = ''conf-test'',
      sr_Config = [(''url'', ''http://127.0.0.1:0/noop'')]\<rparr>"

definition codec_ok :: "dp_codec \<Rightarrow> bool" where
  "codec_ok co \<longleftrightarrow>
     co_source co createBody = Inr conf_source \<and>
     (\<forall>src. \<exists>m. co_decode co (co_encode co (JSource src)) = Inr (AObj m) \<and> field m ''id'' = AStr (src_ID src))"

lemma admin_routes:
  "serve_admin s (probe_request co ''POST'' [''v1'', ''admin'', ''sources''] hs body) st w =
     handleAdminCreateSource s (probe_request co ''POST'' [''v1'', ''admin'', ''sources''] hs body) st w"
  "serve_admin s (probe_request co ''GET'' [''v1'', ''admin'', ''sources'', ''conf-test-src''] hs body) st w = handleAdminGetSource ''conf-test-src'' st w"
  "serve_admin s (probe_request co ''DELETE'' [''v1'', ''admin'', ''sources'', ''conf-test-src''] hs body) st w =
     handleAdminDeleteSource s ''conf-test-src'' st w"
  by (simp_all add: serve_admin_def serve_mux_def dp_adminMux_def Let_def method_ok_def slash_added_def exact_match_def assoc_get_def)

lemma admin_step:
  assumes "dp_AdminSecret (dp_cfg s) \<noteq> ''''" "tl (split_on (CHR ''/'') p) = ''v1'' # ''admin'' # x # rest"
    and "assoc_get hs ''Authorization'' = ''Bearer '' @ dp_AdminSecret (dp_cfg s)"
  shows "dpc_send (dp_conf_env s co base) m (base @ p) body hs (st, w) =
     (case serve_admin s (probe_request co m (''v1'' # ''admin'' # x # rest) hs body) st w of
        None \<Rightarrow> (Inl (Errorf ''Client.Timeout exceeded while awaiting headers''), st, w)
      | Some (rep, st1, w1) \<Rightarrow> (Inr (rs_Code rep, co_encode co (rs_Body rep)), st1, w1))"
proof -
  have "serve_data_plane s (probe_request co m (''v1'' # ''admin'' # x # rest) hs body) st w =
      serve_admin s (probe_request co m (''v1'' # ''admin'' # x # rest) hs body) st w"
    by (rule admin_accepts) (simp_all add: assms(1) Header_Get_def assms(3))
  then show ?thesis by (simp add: send_dp incoming_path assms(2))
qed

definition conf_stored :: "string \<Rightarrow> source_row" where
  "conf_stored now = row_of_source (source_defaults now
     \<lparr>src_ID = ''conf-test-src'', src_Type = ''rest'', src_Name = ''Conformance Test'', src_Collection = ''conf-test'', src_Status = '''',
      src_DocCount = 0, src_ChunkCount = 0, src_ErrorDetail = '''', src_CreatedAt = '''', src_UpdatedAt = '''',
      src_Config = [(''url'', ''http://127.0.0.1:0/noop'')]\<rparr>)"

lemma conf_stored_simps [simp]: "src_ID (conf_stored now) = ''conf-test-src''" "src_Collection (source_of_row (conf_stored now)) = ''conf-test''"
  by (simp_all add: conf_stored_def source_of_row_def row_of_source_def source_defaults_def source_base.defs source.defs source_row.defs)

lemma source_no_fault:
  assumes "sd_faults db = []"
  shows "sd_fault db = None" "sd_tick db = db"
  using assms by (simp_all add: sd_fault_def sd_tick_def)

definition with_conf :: "string \<Rightarrow> dp_state \<Rightarrow> dp_state" where
  "with_conf now st = st\<lparr>ds_sources := (ds_sources st)\<lparr>sd_sources := sd_sources (ds_sources st) @ [conf_stored now]\<rparr>\<rparr>"

definition without_conf :: "dp_state \<Rightarrow> dp_state" where
  "without_conf st = st\<lparr>ds_sources := (ds_sources st)\<lparr>sd_docs := del_where (\<lambda>r. doc_source_id r = ''conf-test-src'') (sd_docs (ds_sources st))\<rparr>\<rparr>"

lemma query_row_absent:
  "(\<forall>r \<in> set xs. src_ID r \<noteq> ''conf-test-src'') \<Longrightarrow> query_row (\<lambda>r. src_ID r = ''conf-test-src'') (xs :: source_row list) = None"
  unfolding query_row_None_iff .

lemma query_row_one: "P x \<Longrightarrow> query_row P [x] = Some x"
  by (simp add: query_row_def)

definition conf_free :: "dp_state \<Rightarrow> bool" where
  "conf_free st \<longleftrightarrow> sd_faults (ds_sources st) = [] \<and> (\<forall>r \<in> set (sd_sources (ds_sources st)). src_ID r \<noteq> ''conf-test-src'')"

lemma conf_get:
  assumes "conf_free st"
  shows "Source_Get ''conf-test-src'' (ds_sources (with_conf now st)) = (Inr (source_of_row (conf_stored now)), ds_sources (with_conf now st))"
    and "Source_Get ''conf-test-src'' (ds_sources st) = (Inl source_ErrNotFound, ds_sources st)"
  using assms
  by (simp_all add: conf_free_def Source_Get_def sd_query_def source_no_fault with_conf_def query_row_append query_row_absent query_row_one)

lemma conf_create:
  assumes "conf_free st" "co_source co createBody = Inr conf_source"
  shows "handleAdminCreateSource s (probe_request co m path hs createBody) st w =
    answer 201 (JSource (source_of_row (conf_stored (dp_now s w)))) (with_conf (dp_now s w) st) w"
proof -
  let ?src = "source_of_request (dp_cfg s) conf_source"
  have src: "row_of_source (source_defaults (dp_now s w) ?src) = conf_stored (dp_now s w)" "src_ID ?src = ''conf-test-src''"
    by (simp_all add: conf_stored_def source_of_request_def conf_source_def)
  have "sd_exec (stmt_insert_source (conf_stored (dp_now s w))) (ds_sources st) =
      (Inr 1, ds_sources (with_conf (dp_now s w) st))"
    using assms(1) by (auto simp: conf_free_def sd_exec_def source_no_fault stmt_insert_source_def with_conf_def)
  then have c: "Source_Create (dp_now s w) ?src (ds_sources st) = (Inr (), ds_sources (with_conf (dp_now s w) st))"
    by (simp add: Source_Create_def src)
  have id: "sr_ID conf_source = ''conf-test-src''" by (simp add: conf_source_def)
  have ok: "\<not> (sr_ID conf_source = '''' \<or> sr_Type conf_source = '''' \<or> sr_Name conf_source = '''')" "sr_Type conf_source = ''rest''"
    by (simp_all add: conf_source_def)
  have w: "st\<lparr>ds_sources := ds_sources (with_conf (dp_now s w) st)\<rparr> = with_conf (dp_now s w) st" by (simp add: with_conf_def)
  show ?thesis
    using ok conf_get(1) [OF assms(1), of "dp_now s w"]
    by (simp add: handleAdminCreateSource_def assms(2) Let_def c id w del: with_conf_def)
qed

lemma conf_delete:
  assumes "conf_free st"
  shows "handleAdminDeleteSource s ''conf-test-src'' (with_conf now st) w =
    (case DeleteByFilter (dp_vector s) ''conf-test'' (source_filter ''conf-test-src'') w of
       (Inl e, w1) \<Rightarrow> answer 500 (JError ''failed to delete vector points'') (with_conf now st) w1
     | (Inr _, w1) \<Rightarrow> answer 200 (JStatus ''deleted'') (without_conf st) w1)"
proof -
  note free = assms [unfolded conf_free_def]
  have del: "del_where (\<lambda>r. src_ID r = ''conf-test-src'') (sd_sources (ds_sources st) @ [conf_stored now]) = sd_sources (ds_sources st)"
    using free by (auto simp: del_where_def intro!: filter_True)
  have "Source_Delete ''conf-test-src'' (ds_sources (with_conf now st)) = (Inr (), ds_sources st)"
    using free by (simp add: Source_Delete_def sd_exec_def source_affected_def source_no_fault with_conf_def stmt_delete_source_def del)
  moreover have "snd (DeleteAllDocTracking ''conf-test-src'' (ds_sources st)) = ds_sources (without_conf st)"
    using free by (simp add: DeleteAllDocTracking_def unit_result_def sd_exec_def source_no_fault stmt_delete_docs_def without_conf_def)
  moreover have "with_conf now st\<lparr>ds_sources := ds_sources (without_conf st)\<rparr> = without_conf st"
    by (simp add: with_conf_def without_conf_def)
  moreover have col: "Data_Plane.or_default (src_Collection (source_of_row (conf_stored now))) (dp_config.dp_Collection (dp_cfg s)) = ''conf-test''"
    by (simp add: Data_Plane.or_default_def conf_stored_def row_of_source_def source_of_row_def source_defaults_def source_base.defs
        source.defs source_row.defs)
  ultimately show ?thesis
    by (cases "DeleteByFilter (dp_vector s) ''conf-test'' (source_filter ''conf-test-src'') w"; cases "fst (DeleteByFilter (dp_vector s) ''conf-test'' (source_filter ''conf-test-src'') w)")
      (simp_all add: handleAdminDeleteSource_def conf_get(1) [OF assms] col)
qed


lemma auth_get: "assoc_get (authHeader secret) ''Authorization'' = ''Bearer '' @ secret"
  "assoc_get ((''Content-Type'', ''application/json'') # authHeader secret) ''Authorization'' = ''Bearer '' @ secret"
  by (simp_all add: authHeader_def assoc_get_def)

lemma conf_free_without: "conf_free (without_conf st) = conf_free st" "sd_sources (ds_sources (without_conf st)) = sd_sources (ds_sources st)"
  by (simp_all add: conf_free_def without_conf_def)

lemma source_crud_result:
  assumes c: "codec_ok co" and f: "conf_free st" and a: "dp_AdminSecret (dp_cfg s) = secret" "secret \<noteq> ''''"
  shows "source_crud (dp_conf_env s co base) base secret (st, w) =
    (case DeleteByFilter (dp_vector s) ''conf-test'' (source_filter ''conf-test-src'') w of
       (Inl e, w1) \<Rightarrow> ((Fail, ''delete: expected 200, got 500''), with_conf (dp_now s w) st, w1)
     | (Inr _, w1) \<Rightarrow> (pass, without_conf st, w1))"
proof -
  let ?env = "dp_conf_env s co base" and ?auth = "authHeader secret" and ?now = "dp_now s w"
  have n: "dp_AdminSecret (dp_cfg s) \<noteq> ''''" using a by simp
  have s1: "dpc_httpPost ?env (base @ ''/v1/admin/sources'') createBody ?auth (st, w) =
      (Inr (201, co_encode co (JSource (source_of_row (conf_stored ?now)))), with_conf ?now st, w)"
    using c unfolding dpc_httpPost_def
    by (subst admin_step [OF n conf_paths(1)])
      (simp_all add: auth_get a(1) admin_routes conf_create [OF f] codec_ok_def answer_def dp_writeJSON_def)
  have s2: "dpc_httpGet ?env (base @ ''/v1/admin/sources/conf-test-src'') ?auth (with_conf ?now st, w) =
      (Inr (200, co_encode co (JSource (source_of_row (conf_stored ?now)))), with_conf ?now st, w)"
    unfolding dpc_httpGet_def
    by (subst admin_step [OF n conf_paths(2)])
      (simp_all add: auth_get a(1) admin_routes handleAdminGetSource_def conf_get(1) [OF f] answer_def dp_writeJSON_def)
  have g: "got_source ?env 200 (co_encode co (JSource (source_of_row (conf_stored ?now)))) = None"
  proof -
    obtain m where "co_decode co (co_encode co (JSource (source_of_row (conf_stored ?now)))) = Inr (AObj m)"
      "field m ''id'' = AStr ''conf-test-src''" using c unfolding codec_ok_def by (metis conf_stored_simps(1) source_of_row_ID)
    then show ?thesis by (simp add: got_source_def unmarshal_map_def dp_conf_env_def)
  qed
  obtain d w1 where d: "DeleteByFilter (dp_vector s) ''conf-test'' (source_filter ''conf-test-src'') w = (d, w1)" by (rule prod.exhaust)
  have s3: "dpc_httpDelete ?env (base @ ''/v1/admin/sources/conf-test-src'') ?auth (with_conf ?now st, w) =
      (case d of Inl _ \<Rightarrow> (Inr (500, co_encode co (JError ''failed to delete vector points'')), with_conf ?now st, w1)
       | Inr _ \<Rightarrow> (Inr (200, co_encode co (JStatus ''deleted'')), without_conf st, w1))"
    unfolding dpc_httpDelete_def
    by (subst admin_step [OF n conf_paths(2)])
      (simp_all add: auth_get a(1) admin_routes conf_delete [OF f] d answer_def dp_writeJSON_def split: sum.splits)
  have "conf_free (without_conf st)" using f by (simp add: conf_free_without)
  from conf_get(2) [OF this]
  have s4: "dpc_httpGet ?env (base @ ''/v1/admin/sources/conf-test-src'') ?auth (without_conf st, w1) =
      (Inr (404, co_encode co (JError ''source not found'')), without_conf st, w1)"
    unfolding dpc_httpGet_def
    by (subst admin_step [OF n conf_paths(2)])
      (simp_all add: auth_get a(1) admin_routes handleAdminGetSource_def get_failed_def answer_def dp_writeJSON_def)
  have t: "int_str 200 = ''200''" "int_str 500 = ''500''" by code_simp+
  show ?thesis
    by (cases d) (simp_all add: source_crud_def Let_def next_step_def s1 wants_def s2 g s3 s4 d t)
qed

text \<open>C23: Run against the data plane of this repository with its own admin secret, the suite's create-get-delete
  round trip passes and leaves the sources as they were exactly when the vector store accepts the deletion of
  the source's points; when it does not (a collection that no ingest has created yet answers 404), the
  check fails and the test source stays behind. The database reports no error and holds no source of the
  test's name, and the JSON text of requests and answers decodes to what was encoded.
\<close>

theorem source_roundtrip_check:
  assumes "codec_ok co" "conf_free st" "dp_AdminSecret (dp_cfg s) = secret" "secret \<noteq> ''''"
  shows "case DeleteByFilter (dp_vector s) ''conf-test'' (source_filter ''conf-test-src'') w of
      (d, w1) \<Rightarrow>
        (case dp_check06SourceCRUD (dp_conf_env s co base) base secret (st, w) of
           (r, st1, w2) \<Rightarrow>
             ck_Status r = (if isl d then Fail else Pass) \<and> w2 = w1 \<and>
             sd_sources (ds_sources st1) = sd_sources (ds_sources st) @ (if isl d then [conf_stored (dp_now s w)] else []))"
proof -
  obtain d w1 where d: "DeleteByFilter (dp_vector s) ''conf-test'' (source_filter ''conf-test-src'') w = (d, w1)" by (rule prod.exhaust)
  show ?thesis
    by (cases d) (simp_all add: dp_check06SourceCRUD_def timedCheck_def source_crud_result [OF assms] d pass_def with_conf_def
        conf_free_without(2))
qed

lemma missing_collection_refused:
  assumes "ht_NewRequest (qc_http c) (collection_url c col ''/points/delete'') = None"
    and "ht_Do (qc_http c) \<lparr>hr_Method = ''POST'', hr_URL = collection_url c col ''/points/delete'', hr_Headers = json_header,
        hr_Body = Some (QFilter filt)\<rparr> w = (Inr (404, b), w1)"
  shows "isl (fst (DeleteByFilter c col filt w))"
  using assms by (simp add: DeleteByFilter_def qdrant_call_def)

definition sample_codec :: dp_codec where
  "sample_codec =
     \<lparr>co_query = \<lambda>b. Inl (Errorf ''EOF''),
      co_source = \<lambda>b. if b = createBody then Inr conf_source else Inl (Errorf ''EOF''),
      co_encode = \<lambda>v. case v of JSource src \<Rightarrow> src_ID src | _ \<Rightarrow> '''',
      co_decode = \<lambda>b. Inr (AObj [(''id'', AStr b)])\<rparr>"

definition vector_answering :: "int \<Rightarrow> unit dp_server" where
  "vector_answering code = (sample_dp None)\<lparr>dp_vector :=
     \<lparr>qc_baseURL = ''q'', qc_http = \<lparr>ht_NewRequest = \<lambda>u. None, ht_Do = \<lambda>r w. (Inr (code, Inr []), w)\<rparr>\<rparr>\<rparr>"

lemma sample_codec_ok: "codec_ok sample_codec" "conf_free sample_dp_state"
  "dp_AdminSecret (dp_cfg (vector_answering code)) = ''k''"
  by (simp_all add: codec_ok_def sample_codec_def field_def conf_free_def sample_dp_state_def dp_New_def empty_source_db_def
      vector_answering_def sample_dp_def)

theorem source_roundtrip_check_witness:
  "ck_Status (fst (dp_check06SourceCRUD (dp_conf_env (vector_answering 200) sample_codec ''u'') ''u'' ''k'' (sample_dp_state, ()))) = Pass \<and>
   ck_Status (fst (dp_check06SourceCRUD (dp_conf_env (vector_answering 404) sample_codec ''u'') ''u'' ''k'' (sample_dp_state, ()))) = Fail"
proof -
  note t = source_roundtrip_check [OF sample_codec_ok(1,2), of _ "''k''" "()" "''u''"]
  have "isl (fst (DeleteByFilter (dp_vector (vector_answering 404)) ''conf-test'' (source_filter ''conf-test-src'') ()))"
    and "\<not> isl (fst (DeleteByFilter (dp_vector (vector_answering 200)) ''conf-test'' (source_filter ''conf-test-src'') ()))"
    by (simp_all add: vector_answering_def DeleteByFilter_def qdrant_call_def)
  then show ?thesis
    using t [OF sample_codec_ok(3) [of 404]] t [OF sample_codec_ok(3) [of 200]] by (simp add: case_prod_beta)
qed

theorem data_plane_passes_gate_checks_witness:
  "ck_Status (fst (dp_check03AdminAuthRequired (dp_conf_env (vector_answering 200) sample_codec ''u'') ''u'' (sample_dp_state, ()))) = Pass \<and>
   ck_Status (fst (dp_check07QueryAuthRequired (dp_conf_env (vector_answering 200) sample_codec ''u'') ''u'' (sample_dp_state, ()))) = Pass"
proof -
  have "dp_AdminSecret (dp_cfg (vector_answering 200)) \<noteq> ''wrong-secret''" by (simp add: sample_codec_ok(3))
  from data_plane_passes_gate_checks [OF this, of sample_codec "''u''" sample_dp_state "()"] show ?thesis by simp
qed

end
