(* ===== verification/Spec2Isabelle.thy ===== *)
theory Spec2Isabelle
  imports Provisioner Rollout Safe_Dialer Health_Poller Sse_Stream Session_Token Docker_Plugin Chunker
    Data_Plane Qdrant_Manager Panel_Rollback Panel_Access Control_Safety Control_Ops
    Conf_Commands Conf_Dataplane
begin

text \<open>
  A verification development for fox-fleet, a control plane that provisions, watches and upgrades a
  fleet of Fox instances, serves an administration panel and a data plane for retrieval, and keeps
  its state in SQLite.

  \<^bold>\<open>How the program is put together.\<close> The command line tool (\<^verbatim>\<open>cmd/fox-control\<close>) reads a TOML
  configuration, opens the registry, migrating its file, and either starts the servers (\<^verbatim>\<open>serve\<close>) or runs
  one operator command on the same files. The panel (\<^verbatim>\<open>panel/api\<close>) is an HTTP server
  whose handlers call the provisioner (\<^verbatim>\<open>internal/provisioner\<close>), the user and session stores
  (\<^verbatim>\<open>internal/cloud\<close>), the registry (\<^verbatim>\<open>internal/registry\<close>), the event log (\<^verbatim>\<open>internal/events\<close>) and the
  deployment plugin (\<^verbatim>\<open>plugins\<close>, \<^verbatim>\<open>plugins/docker\<close>). In cloud mode it also forwards requests on a user's
  subdomain to that user's instance. The data plane (\<^verbatim>\<open>data-plane\<close>) ingests documents from files and
  REST services into Qdrant through an embedding service, and answers queries of the instances. The
  conformance suites (\<^verbatim>\<open>conformance\<close>) test an image, the deployment plugin or a data plane from outside.

  \<^bold>\<open>Theories.\<close> Each names the files it models; definitions keep the names of the functions.

  \<^item> Shared: \<open>Fleet_Prelude\<close> (errors, results, tables, the locales of row updates and retries),
    \<open>Go_Encoding\<close>, \<open>Go_Net\<close>, \<open>Go_Fs\<close>, \<open>Go_Json\<close>, \<open>Go_Utf8\<close>, \<open>Go_Http\<close>, \<open>Go_Server\<close> (what the program uses
    of Go's standard library: encodings, addresses, paths and files, JSON maps, runes, HTTP on the
    client's and the server's side).
  \<^item> State: \<open>Registry\<close> and \<open>Cloud_Store\<close> (the tables, one definition per SQL statement and per
    operation; \<open>db_reachable\<close> is any sequence of operations), \<open>Source_Registry\<close>, \<open>Event_Log\<close>.
    \<open>Registry_Migrate\<close> is the registry's file before it has the final schema: its versions, columns
    and constraints, the four migrations and \<open>Registry_Open\<close>.
  \<^item> Control plane: \<open>Control_Config\<close>, \<open>Config_Inject\<close>, \<open>Skillsets\<close>, \<open>Provisioner\<close>, \<open>Rollout\<close>,
    \<open>Plugin_Api\<close>, \<open>Docker_Plugin\<close>, \<open>Safe_Dialer\<close>.
  \<^item> Command line: \<open>Output_Format\<close> (tables, JSON and quiet output), \<open>Control_Serve\<close> (the wiring of
    \<^verbatim>\<open>serve\<close>: which configuration value reaches which part), \<open>Control_Commands\<close> (the commands on the
    registry), \<open>Control_Life\<close> (a machine that is served, crashes, is stopped and operated on, as steps
    on one file), \<open>Control_Safety\<close> (what holds over its life), \<open>Control_Ops\<close> (backup, restore,
    diagnostics and the verification of release archives).
  \<^item> Conformance: \<open>Conf_Report\<close> (results and their text), \<open>Conf_Http\<close>, \<open>Conf_Checks\<close> (the checks of a
    running instance), \<open>Conf_Sut\<close> (the container under test), \<open>Conf_Suite\<close> (the mock LLM, the boot
    invariant and the run), \<open>Conf_Runtime\<close> (what a run promises), \<open>Conf_Plugin\<close>, \<open>Conf_Dataplane\<close> (the
    suite, and the suite against \<open>Data_Plane\<close>), \<open>Conf_Commands\<close>.
  \<^item> Panel: \<open>Api_Names\<close>, \<open>Rate_Limit\<close>, \<open>Session_Token\<close>, \<open>Health_Poller\<close>, \<open>Sse_Stream\<close>, \<open>Panel_Base\<close> (the
    server's parts and state), \<open>Panel_Handlers\<close>, \<open>Panel_Skillsets\<close>, \<open>Panel_Cloud\<close>, \<open>Panel_Server\<close> (routes
    and guards), \<open>Panel_Jobs\<close> (requests and background jobs as a state machine), \<open>Panel_Rollback\<close>,
    \<open>Panel_Access\<close>.
  \<^item> Data plane: \<open>Chunker\<close>, \<open>Embedding_Client\<close>, \<open>Qdrant_Client\<close>, \<open>Qdrant_Manager\<close>, \<open>File_Connector\<close>,
    \<open>Rest_Connector\<close>, \<open>Data_Plane\<close> (the server).

  \<^bold>\<open>State and effects.\<close> An operation is a function of its arguments and the state to a result and the
  new state. Errors are values (\<open>go_error + 'a\<close>); a driver's or the file system's failure at any call is
  a list of pending faults in the state, so theorems that do not mention it hold under every pattern
  of failures. The clock, random bytes, bcrypt, SHA-256, HMAC, YAML, TOML, the Docker client, HTTP peers
  and the deployment plugin are arguments, with the world they act on as an opaque component of the
  state. A handler of the panel is one step; the goroutine it starts is a job in the state that runs as
  a step of its own (\<open>panel_step\<close>), and the critical section of the provisioner is one step of the
  registry (\<open>fleet_step\<close>), so requests, jobs and logins interleave freely between them.

  \<^bold>\<open>What the lemmas show.\<close> \<open>Registry\<close>, \<open>Cloud_Store\<close>: every statement keeps the constraints
  (\<open>db_inv\<close>), what each operation reads back. \<open>Provisioner\<close>: the port scan, the cap, and that a failure
  restores the registry. \<open>Panel_Jobs\<close>: every handler is a chain of registry steps
  (\<open>plain_step\<close>, \<open>request_step\<close>), so the invariants of the registry hold behind the server, and the ids in
  flight are those of the pending jobs. \<open>Panel_Access\<close>: what a request without the secret can change.
  \<open>Panel_Cloud\<close>: who reaches an instance. \<open>Data_Plane\<close>: who may query and administer, what an ingest and
  a deletion leave behind. \<open>Registry_Migrate\<close>: opening migrates the file of every release without losing
  a row, and where an interrupted migration restarts. \<open>Control_Safety\<close>: across starts, crashes, stops
  and commands the fleet keeps its cap, port range and constraints; \<^verbatim>\<open>serve\<close> starts well-formed servers that
  match the configuration; rotating a query token replaces one token. \<open>Control_Ops\<close>: a restore brings
  back what was backed up, and an archive is verified for its own tag only. \<open>Conf_Runtime\<close>: a report
  names all 24 checks whatever fails, and no container outlives a run against a daemon that is up;
  \<open>Conf_Plugin\<close>: what the plugin suite does not notice; \<open>Conf_Dataplane\<close>: the data plane passes the suite's
  checks of its gates, and when it passes the round trip of a source. \<open>Rollout\<close>, \<open>Docker_Plugin\<close>, \<open>Health_Poller\<close>, \<open>Event_Log\<close>, \<open>Sse_Stream\<close>,
  \<open>Rate_Limit\<close>, \<open>Session_Token\<close>, \<open>Chunker\<close>: the behaviour of each component on every branch.

  \<^bold>\<open>Bounds and fuel.\<close> Loops are structural or have a measure (the port scan, the chunker, retries).
  The rollout's health wait and the data plane's loops over an outside peer are \<open>partial_function\<close>s:
  \<open>None\<close> is a run that never returns, and \<open>Rollout.Execute_returns\<close> shows when it does return. The page
  limit of the REST connector (1000) and the port scan (1000) are the program's own. The wait for a
  container under test counts its two-second ticks up to 60: the deadline of two minutes has passed by then. Integers are
  unbounded where the program cannot reach the edge of 64 bits, and wrapped (\<open>wrap64\<close>) where it adds
  configured values.

  \<^bold>\<open>Not modelled.\<close> Logging; the texts of HTML pages and the embedded web application; cobra's parsing
  of the command line; sending webhook requests; the answer a backend gives to a forwarded request; what
  an image under test does with the requests of the suites; directory permissions; the example and
  deployment files.
\<close>

end
